(* ===== verification/Py_Prelude.thy ===== *)
theory Py_Prelude
  imports Complex_Main "HOL-Library.AList" "HOL-Library.Log_Nat"
begin

text \<open>
  The shared vocabulary of the development: Python values and exceptions as HOL data, the
  effects of a Python method (a mutable object state and an exception) as state-passing
  functions, the rules that carry an invariant through them, and lemmas on dictionaries and
  lists the components use.

  \<^item> A method that may raise and that mutates its object is a \<open>pyop\<close>: it maps the state
    before the call to the result (\<open>Inl\<close> the exception, \<open>Inr\<close> the value) and the state
    after it. The state is returned on the exceptional path too, because Python keeps the
    assignments made before a \<open>raise\<close>.
  \<^item> A Python \<open>dict\<close> is an association list, read with \<open>map_of\<close>, written with
    \<open>AList.update\<close> (an existing key keeps its position, a new one goes to the end) and
    shrunk with \<open>AList.delete\<close>.
  \<^item> A Python \<open>float\<close> is a \<open>pyfloat\<close>: the two infinities, NaN, or a finite number.
    Comparisons follow IEEE (every comparison with NaN is false). \<open>pf_add\<close> and \<open>pf_sub\<close> on finite
    numbers are exact; \<open>pf_round\<close> is the rounding to a double, which is written where a
    property depends on it.
  \<^item> The clock and the token generator are the fields of a \<open>py_env\<close>: \<open>env_clock e n\<close> is
    what the \<open>n\<close>-th call of the wall clock returns. Nothing is assumed about the values.
\<close>

section \<open>Collections of rules\<close>

named_theorems py_run \<open>equations that evaluate a Python operation\<close>
named_theorems keeps_intros \<open>rules that carry an invariant through a Python operation\<close>

section \<open>Python values\<close>

datatype pyfloat = Finite rat | PosInf | NegInf | NaN

fun pf_isfinite :: "pyfloat \<Rightarrow> bool" where
  "pf_isfinite (Finite _) = True"
| "pf_isfinite _ = False"

fun pf_less :: "pyfloat \<Rightarrow> pyfloat \<Rightarrow> bool" where
  "pf_less (Finite a) (Finite b) = (a < b)"
| "pf_less NaN _ = False"
| "pf_less _ NaN = False"
| "pf_less NegInf x = (x \<noteq> NegInf)"
| "pf_less x PosInf = (x \<noteq> PosInf)"
| "pf_less _ _ = False"

definition pf_le :: "pyfloat \<Rightarrow> pyfloat \<Rightarrow> bool" where
  "pf_le a b \<longleftrightarrow> pf_less a b \<or> (a = b \<and> a \<noteq> NaN)"

fun pf_add :: "pyfloat \<Rightarrow> pyfloat \<Rightarrow> pyfloat" where
  "pf_add (Finite a) (Finite b) = Finite (a + b)"
| "pf_add NaN _ = NaN"
| "pf_add _ NaN = NaN"
| "pf_add PosInf NegInf = NaN"
| "pf_add NegInf PosInf = NaN"
| "pf_add PosInf _ = PosInf"
| "pf_add _ PosInf = PosInf"
| "pf_add NegInf _ = NegInf"
| "pf_add _ NegInf = NegInf"

fun pf_neg :: "pyfloat \<Rightarrow> pyfloat" where
  "pf_neg (Finite a) = Finite (- a)"
| "pf_neg PosInf = NegInf"
| "pf_neg NegInf = PosInf"
| "pf_neg NaN = NaN"

definition pf_sub :: "pyfloat \<Rightarrow> pyfloat \<Rightarrow> pyfloat" where
  "pf_sub a b = pf_add a (pf_neg b)"

text \<open>
  The value of a double next to a rational: \<open>binade x\<close> is the exponent of the leading binary digit of \<open>x\<close>, a
  normal double has 52 digits after it, and a tie goes to the even neighbour. Below \<open>2 ^ -1022\<close> the digits
  end at \<open>2 ^ -1074\<close>; what would need an exponent of 1024 is an infinity.
\<close>

definition binade :: "rat \<Rightarrow> int" where
  "binade x = (let a = \<bar>x\<bar> in if 1 \<le> a then bitlen \<lfloor>a\<rfloor> - 1 else - bitlen (\<lceil>1 / a\<rceil> - 1))"

definition two_power :: "int \<Rightarrow> rat" where
  "two_power k = (if 0 \<le> k then 2 ^ nat k else 1 / 2 ^ nat (- k))"

definition round_even :: "rat \<Rightarrow> int" where
  "round_even x = (let f = \<lfloor>x\<rfloor>; r = x - of_int f in
     if r < 1 / 2 then f else if 1 / 2 < r then f + 1 else if even f then f else f + 1)"

definition double_of :: "rat \<Rightarrow> pyfloat" where
  "double_of x =
     (if x = 0 then Finite 0
      else
        let q = two_power (max (binade x) (- 1022) - 52); y = of_int (round_even (x / q)) * q in
        if two_power 1024 \<le> \<bar>y\<bar> then (if 0 < x then PosInf else NegInf) else Finite y)"

fun pf_round :: "pyfloat \<Rightarrow> pyfloat" where
  "pf_round (Finite x) = double_of x"
| "pf_round x = x"

lemma two_power_pos [simp]: "0 < two_power k"
  by (simp add: two_power_def)

lemma two_power_le_one: "k \<le> 0 \<Longrightarrow> two_power k \<le> 1"
  by (cases "k = 0") (simp_all add: two_power_def divide_le_eq_1)

lemma round_even_near: "\<bar>of_int (round_even x) - x\<bar> \<le> 1 / 2"
  unfolding round_even_def Let_def by (auto simp: abs_if split: if_splits) (linarith | simp)+

lemma binade_small: "\<bar>x\<bar> < 2 ^ 53 \<Longrightarrow> binade x \<le> 52"
proof -
  assume x: "\<bar>x\<bar> < 2 ^ 53"
  have "0 \<le> bitlen (\<lceil>1 / \<bar>x\<bar>\<rceil> - 1)" by (simp add: bitlen_def)
  moreover have "bitlen \<lfloor>\<bar>x\<bar>\<rfloor> \<le> 53"
  proof -
    have "\<lfloor>\<bar>x\<bar>\<rfloor> < 2 ^ 53" using x by (simp add: floor_less_iff)
    then show ?thesis using bitlen_le_iff_power [of "\<lfloor>\<bar>x\<bar>\<rfloor>" 53] by simp
  qed
  ultimately show ?thesis unfolding binade_def Let_def by auto
qed

text \<open>Up to \<open>2 ^ 53\<close> a double is at most a half away.\<close>

lemma double_near:
  assumes "\<bar>x\<bar> < 2 ^ 53"
  obtains y where "double_of x = Finite y" and "\<bar>y - x\<bar> \<le> 1 / 2"
proof (cases "x = 0")
  case True
  then show ?thesis by (intro that [of 0]) (simp_all add: double_of_def)
next
  case False
  define q where "q = two_power (max (binade x) (- 1022) - 52)"
  define y where "y = of_int (round_even (x / q)) * q"
  have q: "0 < q" "q \<le> 1"
    using binade_small [OF assms] by (simp_all add: q_def two_power_le_one)
  have "\<bar>y - x\<bar> = \<bar>of_int (round_even (x / q)) - x / q\<bar> * q"
    using q(1) by (simp add: y_def abs_mult [symmetric, of _ q, simplified abs_of_pos [OF q(1)]] left_diff_distrib)
  also have "\<dots> \<le> 1 / 2 * q" using round_even_near q(1) by (intro mult_right_mono) auto
  also have "\<dots> \<le> 1 / 2" using q(2) by simp
  finally have near: "\<bar>y - x\<bar> \<le> 1 / 2" .
  have "two_power 1024 = 2 ^ 1024" by (simp add: two_power_def)
  moreover have "(2 :: rat) ^ 53 + 1 \<le> 2 ^ 1024" by simp
  ultimately have "\<not> two_power 1024 \<le> \<bar>y\<bar>" using near assms by linarith
  then have "double_of x = Finite y"
    using False by (simp add: double_of_def q_def y_def Let_def)
  then show ?thesis using near that by blast
qed

text \<open>Integers up to there are doubles.\<close>

lemma round_even_int: "round_even (of_int n) = n" by (simp add: round_even_def)
lemma double_of_int:
  assumes "\<bar>n\<bar> < 2 ^ 53"
  shows "double_of (of_int n) = Finite (of_int n)"
proof (cases "n = 0")
  case True
  then show ?thesis by (simp add: double_of_def)
next
  case False
  let ?x = "rat_of_int n"
  define k where "k = max (binade ?x) (- 1022) - 52"
  have "\<bar>?x\<bar> < 2 ^ 53" using assms by (metis of_int_abs of_int_less_iff of_int_numeral of_int_power)
  then have k: "k \<le> 0" using binade_small [of ?x] by (simp add: k_def)
  have q: "?x / two_power k = of_int (n * 2 ^ nat (- k))" using k by (cases "k = 0") (simp_all add: two_power_def)
  have "\<bar>?x\<bar> < two_power 1024"
  proof -
    have "(2::rat) ^ 53 \<le> 2 ^ 1024" by simp
    then show ?thesis using \<open>\<bar>?x\<bar> < 2 ^ 53\<close> by (simp add: two_power_def)
  qed
  then show ?thesis using False k
    by (simp add: double_of_def Let_def k_def [symmetric] q round_even_int del: of_int_mult)
      (simp add: two_power_def)
qed

text \<open>JSON-shaped values: what the code stores in payload and response dictionaries.\<close>

datatype json =
    JNull
  | JBool bool
  | JInt int
  | JFloat pyfloat
  | JStr string
  | JArr "json list"
  | JObj "(string \<times> json) list"

type_synonym pydict = "(string \<times> json) list"

section \<open>Exceptions\<close>

text \<open>\<open>ProcessExit\<close> stands for the death of the process: no handler catches it.\<close>

datatype py_error =
    KeyError string
  | ValueError string
  | TypeError string
  | OverflowError string
  | AttributeError string
  | FileNotFoundError string
  | AssertionError
  | InvalidTransition string
  | IdempotencyConflict string
  | EventLogLimitExceeded string
  | SubscriberLimitExceeded string
  | ReviewerClockInvalid string
  | SchemaIntegrityError string
  | IntegrityError string
  | ProgrammingError string
  | ConfigurationError string
  | ReconciliationBlocked string
  | ChallengeRejected string
  | ProcedureAuthorityNotIssued string
  | CallbackError string
  | PersistenceFailure string
  | TargetRegistrationError string
  | ReconciliationAuthorityNotIssued string
  | DeletionBlocked string bool
  | OSError string
  | ZeroDivisionError string
  | IndexError string
  | CanonicalCleanupFailure "string list" "py_error list"
  | BaseExceptionGroup "py_error list"
  | ProcessExit

text \<open>
  What \<open>except Exception\<close> catches: everything but \<open>ProcessExit\<close> and a group with one in it, which is no
  \<open>ExceptionGroup\<close>. Interrupts from the keyboard are not modelled.
\<close>

fun is_exception :: "py_error \<Rightarrow> bool" where
  "is_exception ProcessExit = False"
| "is_exception (BaseExceptionGroup es) = list_all is_exception es"
| "is_exception _ = True"

fun pf_ceil :: "pyfloat \<Rightarrow> py_error + int" where
  "pf_ceil (Finite q) = Inr \<lceil>q\<rceil>"
| "pf_ceil NaN = Inl (ValueError ''cannot convert float NaN to integer'')"
| "pf_ceil _ = Inl (OverflowError ''cannot convert float infinity to integer'')"

text \<open>Python's \<open>int(x)\<close> on a float truncates towards zero.\<close>

fun pf_int :: "pyfloat \<Rightarrow> py_error + int" where
  "pf_int (Finite q) = Inr (if 0 \<le> q then \<lfloor>q\<rfloor> else \<lceil>q\<rceil>)"
| "pf_int NaN = Inl (ValueError ''cannot convert float NaN to integer'')"
| "pf_int _ = Inl (OverflowError ''cannot convert float infinity to integer'')"

text \<open>
  Python's \<open>==\<close>: \<open>True\<close>, \<open>1\<close> and \<open>1.0\<close> are equal, and two dictionaries are equal when they
  have the same keys with equal values, in any order.
\<close>

fun json_num :: "json \<Rightarrow> pyfloat option" where
  "json_num (JBool b) = Some (Finite (if b then 1 else 0))"
| "json_num (JInt i) = Some (Finite (of_int i))"
| "json_num (JFloat f) = Some f"
| "json_num _ = None"

fun py_eq :: "json \<Rightarrow> json \<Rightarrow> bool" where
  "py_eq (JArr xs) y = (case y of JArr ys \<Rightarrow> list_all2 py_eq xs ys | _ \<Rightarrow> False)"
| "py_eq (JObj xs) y = (case y of
     JObj ys \<Rightarrow> length xs = length ys \<and>
       list_all (\<lambda>(k, v). case map_of ys k of None \<Rightarrow> False | Some w \<Rightarrow> py_eq v w) xs
   | _ \<Rightarrow> False)"
| "py_eq (JStr s) y = (y = JStr s)"
| "py_eq JNull y = (y = JNull)"
| "py_eq x y = (case (json_num x, json_num y) of
     (Some a, Some b) \<Rightarrow> a = b \<and> a \<noteq> NaN
   | _ \<Rightarrow> False)"

definition dict_eq :: "pydict \<Rightarrow> pydict \<Rightarrow> bool" where
  "dict_eq d e = py_eq (JObj d) (JObj e)"

text \<open>\<open>{**d, **e}\<close>: the entries of \<open>e\<close> written over those of \<open>d\<close>.\<close>

definition dict_merge :: "pydict \<Rightarrow> pydict \<Rightarrow> pydict" where
  "dict_merge d e = fold (\<lambda>(k, v). AList.update k v) e d"

text \<open>A pure computation that may raise, followed by another.\<close>

definition res_bind :: "py_error + 'a \<Rightarrow> ('a \<Rightarrow> py_error + 'b) \<Rightarrow> py_error + 'b" where
  "res_bind r f = (case r of Inl e \<Rightarrow> Inl e | Inr x \<Rightarrow> f x)"

lemma res_bind_simps [simp]: "res_bind (Inl e) f = Inl e" "res_bind (Inr x) f = f x"
  by (simp_all add: res_bind_def)

lemma res_bind_Inr_iff: "res_bind r f = Inr y \<longleftrightarrow> (\<exists>x. r = Inr x \<and> f x = Inr y)"
  by (cases r) simp_all

text \<open>\<open>try: x except Exception: h\<close>, and the computations that raise nothing else.\<close>

definition except_Exception :: "py_error + 'a \<Rightarrow> py_error + 'a \<Rightarrow> py_error + 'a" where
  "except_Exception x h = (case x of Inl e \<Rightarrow> if is_exception e then h else Inl e | Inr y \<Rightarrow> Inr y)"

lemma except_Exception_simps [simp]:
  "except_Exception (Inr y) h = Inr y"
  "is_exception e \<Longrightarrow> except_Exception (Inl e) h = h"
  "\<not> is_exception e \<Longrightarrow> except_Exception (Inl e) h = Inl e"
  by (simp_all add: except_Exception_def)

definition ordinary :: "py_error + 'a \<Rightarrow> bool" where
  "ordinary x \<longleftrightarrow> (case x of Inl e \<Rightarrow> is_exception e | Inr _ \<Rightarrow> True)"

lemma ordinary_simps [simp]: "ordinary (Inr y)" "ordinary (Inl e) = is_exception e"
  by (simp_all add: ordinary_def)
lemma except_ordinary: "ordinary x \<Longrightarrow> except_Exception x h = (case x of Inl _ \<Rightarrow> h | Inr y \<Rightarrow> Inr y)"
  by (simp add: except_Exception_def ordinary_def split: sum.splits)
lemma ordinary_bind [simp]: "ordinary (res_bind x f) \<longleftrightarrow> ordinary x \<and> (\<forall>y. x = Inr y \<longrightarrow> ordinary (f y))"
  by (cases x) simp_all

section \<open>The environment of a run\<close>

text \<open>
  \<open>env_clock e n\<close> and \<open>env_monotonic e n\<close> are the values of the \<open>n\<close>-th read of the two
  clocks, \<open>env_token e n k\<close> the result of the \<open>n\<close>-th call of \<open>secrets.token_urlsafe\<close>, with
  \<open>k\<close> bytes. How many reads were made is part of the state (\<open>py_world\<close>); rolling a database
  transaction back does not undo them.
\<close>

record py_env =
  env_clock :: "nat \<Rightarrow> pyfloat"
  env_monotonic :: "nat \<Rightarrow> pyfloat"
  env_token :: "nat \<Rightarrow> nat \<Rightarrow> string"

record py_world =
  clock_reads :: nat
  monotonic_reads :: nat
  token_reads :: nat

section \<open>Operations: state and exceptions\<close>

type_synonym ('s, 'a) pyop = "'s \<Rightarrow> (py_error + 'a) \<times> 's"

definition py_ret :: "'a \<Rightarrow> ('s, 'a) pyop" where
  "py_ret x s = (Inr x, s)"

definition py_raise :: "py_error \<Rightarrow> ('s, 'a) pyop" where
  "py_raise e s = (Inl e, s)"

definition py_lift :: "py_error + 'a \<Rightarrow> ('s, 'a) pyop" where
  "py_lift r s = (r, s)"

definition py_bind :: "('s, 'a) pyop \<Rightarrow> ('a \<Rightarrow> ('s, 'b) pyop) \<Rightarrow> ('s, 'b) pyop" where
  "py_bind m f s = (case m s of (Inl e, s') \<Rightarrow> (Inl e, s') | (Inr x, s') \<Rightarrow> f x s')"

definition py_then :: "('s, unit) pyop \<Rightarrow> ('s, 'b) pyop \<Rightarrow> ('s, 'b) pyop" where
  "py_then m k = py_bind m (\<lambda>_. k)"

definition py_get :: "('s \<Rightarrow> 'a) \<Rightarrow> ('s, 'a) pyop" where
  "py_get f s = (Inr (f s), s)"

definition py_mod :: "('s \<Rightarrow> 's) \<Rightarrow> ('s, unit) pyop" where
  "py_mod f s = (Inr (), f s)"

definition py_guard :: "bool \<Rightarrow> py_error \<Rightarrow> ('s, unit) pyop" where
  "py_guard b e s = (if b then (Inl e, s) else (Inr (), s))"

fun py_for :: "'a list \<Rightarrow> ('a \<Rightarrow> ('s, unit) pyop) \<Rightarrow> ('s, unit) pyop" where
  "py_for [] body = py_ret ()"
| "py_for (x # xs) body = py_then (body x) (py_for xs body)"

text \<open>\<open>try: m finally: f\<close>, where \<open>f\<close> itself may raise and then replaces the result.\<close>

definition py_finally :: "('s, 'a) pyop \<Rightarrow> ('s, unit) pyop \<Rightarrow> ('s, 'a) pyop" where
  "py_finally m f s = (case m s of (r, s') \<Rightarrow>
     (case f s' of (Inl e, s'') \<Rightarrow> (Inl e, s'') | (Inr _, s'') \<Rightarrow> (r, s'')))"

definition read_clock :: "py_env \<Rightarrow> ('w py_world_scheme, pyfloat) pyop" where
  "read_clock e s = (Inr (env_clock e (clock_reads s)), s\<lparr>clock_reads := Suc (clock_reads s)\<rparr>)"

definition read_monotonic :: "py_env \<Rightarrow> ('w py_world_scheme, pyfloat) pyop" where
  "read_monotonic e s =
     (Inr (env_monotonic e (monotonic_reads s)), s\<lparr>monotonic_reads := Suc (monotonic_reads s)\<rparr>)"

definition token_urlsafe :: "py_env \<Rightarrow> nat \<Rightarrow> ('w py_world_scheme, string) pyop" where
  "token_urlsafe e nbytes s =
     (Inr (env_token e (token_reads s) nbytes), s\<lparr>token_reads := Suc (token_reads s)\<rparr>)"

declare py_ret_def [py_run] py_raise_def [py_run] py_lift_def [py_run] py_bind_def [py_run]
  py_then_def [py_run] py_get_def [py_run] py_mod_def [py_run] py_guard_def [py_run]
  py_finally_def [py_run] read_clock_def [py_run] read_monotonic_def [py_run]
  token_urlsafe_def [py_run]

subsection \<open>Results of composed operations\<close>

lemma py_bind_InrD:
  assumes "py_bind m f s = (Inr y, s'')"
  obtains x s' where "m s = (Inr x, s')" and "f x s' = (Inr y, s'')"
  using assms by (auto simp: py_bind_def split: prod.splits sum.splits)

lemma py_bind_Inr_iff:
  "py_bind m f s = (Inr y, s'') \<longleftrightarrow> (\<exists>x s'. m s = (Inr x, s') \<and> f x s' = (Inr y, s''))"
  by (auto simp: py_bind_def split: prod.splits sum.splits)

lemma py_then_Inr_iff:
  "py_then m k s = (Inr y, s'') \<longleftrightarrow> (\<exists>s'. m s = (Inr (), s') \<and> k s' = (Inr y, s''))"
  by (auto simp: py_then_def py_bind_Inr_iff)

lemma py_guard_Inr_iff: "py_guard b e s = (Inr u, s') \<longleftrightarrow> \<not> b \<and> s' = s"
  by (auto simp: py_guard_def)

lemma py_get_Inr_iff: "py_get f s = (Inr x, s') \<longleftrightarrow> x = f s \<and> s' = s"
  by (auto simp: py_get_def)

lemma py_mod_Inr_iff: "py_mod f s = (Inr u, s') \<longleftrightarrow> s' = f s"
  by (auto simp: py_mod_def)

lemma py_ret_Inr_iff: "py_ret x s = (Inr y, s') \<longleftrightarrow> y = x \<and> s' = s"
  by (auto simp: py_ret_def)

lemma py_raise_not_Inr [simp]: "py_raise e s \<noteq> (Inr y, s')"
  by (simp add: py_raise_def)

lemmas py_Inr_iffs = py_bind_Inr_iff py_then_Inr_iff py_guard_Inr_iff py_get_Inr_iff
  py_mod_Inr_iff py_ret_Inr_iff

subsection \<open>Invariants\<close>

text \<open>
  \<open>keeps P m\<close>: whatever \<open>m\<close> does (return or raise), it leaves a state that satisfies \<open>P\<close>
  when it started in one.
\<close>

definition keeps :: "('s \<Rightarrow> bool) \<Rightarrow> ('s, 'a) pyop \<Rightarrow> bool" where
  "keeps P m \<longleftrightarrow> (\<forall>s. P s \<longrightarrow> P (snd (m s)))"

lemma keepsI: "(\<And>s. P s \<Longrightarrow> P (snd (m s))) \<Longrightarrow> keeps P m"
  by (simp add: keeps_def)

lemma keepsD: "keeps P m \<Longrightarrow> P s \<Longrightarrow> P (snd (m s))"
  by (simp add: keeps_def)

lemma keepsD_eq: "keeps P m \<Longrightarrow> P s \<Longrightarrow> m s = (r, s') \<Longrightarrow> P s'"
  by (metis keeps_def snd_conv)

lemma keeps_ret [keeps_intros]: "keeps P (py_ret x)"
  and keeps_raise [keeps_intros]: "keeps P (py_raise e)"
  and keeps_lift [keeps_intros]: "keeps P (py_lift r)"
  and keeps_get [keeps_intros]: "keeps P (py_get f)"
  and keeps_guard [keeps_intros]: "keeps P (py_guard b e)"
  by (auto simp: keeps_def py_run)

lemma keeps_bind [keeps_intros]:
  "keeps P m \<Longrightarrow> (\<And>x. keeps P (f x)) \<Longrightarrow> keeps P (py_bind m f)"
  by (fastforce simp: keeps_def py_bind_def split: prod.splits sum.splits)

lemma keeps_bind_lift: "(\<And>x. r = Inr x \<Longrightarrow> keeps P (f x)) \<Longrightarrow> keeps P (py_bind (py_lift r) f)"
  by (auto simp: keeps_def py_bind_def py_lift_def split: sum.split)

lemma keeps_then [keeps_intros]: "keeps P m \<Longrightarrow> keeps P k \<Longrightarrow> keeps P (py_then m k)"
  by (simp add: py_then_def keeps_bind)

lemma keeps_for [keeps_intros]: "(\<And>x. keeps P (body x)) \<Longrightarrow> keeps P (py_for xs body)"
  by (induction xs) (auto intro: keeps_intros)

lemma keeps_mod [keeps_intros]: "(\<And>s. P s \<Longrightarrow> P (f s)) \<Longrightarrow> keeps P (py_mod f)"
  by (simp add: keeps_def py_mod_def)

lemma keeps_finally [keeps_intros]:
  assumes "keeps P m" and "keeps P f"
  shows "keeps P (py_finally m f)"
proof (rule keepsI)
  fix s assume "P s"
  moreover obtain r s' where m: "m s = (r, s')" by force
  ultimately have "P s'" using assms(1) keepsD_eq by metis
  moreover obtain r' s'' where f: "f s' = (r', s'')" by force
  ultimately have "P s''" using assms(2) keepsD_eq by metis
  then show "P (snd (py_finally m f s))"
    by (simp add: py_finally_def m f split: sum.split)
qed

lemma keeps_if [keeps_intros]: "(b \<Longrightarrow> keeps P m) \<Longrightarrow> (\<not> b \<Longrightarrow> keeps P k) \<Longrightarrow> keeps P (if b then m else k)"
  by simp

lemma keeps_option [keeps_intros]:
  "(x = None \<Longrightarrow> keeps P m) \<Longrightarrow> (\<And>y. x = Some y \<Longrightarrow> keeps P (f y)) \<Longrightarrow>
   keeps P (case x of None \<Rightarrow> m | Some y \<Rightarrow> f y)"
  by (simp split: option.split)

lemma keeps_prod [keeps_intros]:
  "(\<And>a b. x = (a, b) \<Longrightarrow> keeps P (f a b)) \<Longrightarrow> keeps P (case x of (a, b) \<Rightarrow> f a b)"
  by (simp split: prod.split)

lemma keeps_sum [keeps_intros]:
  "(\<And>a. x = Inl a \<Longrightarrow> keeps P (f a)) \<Longrightarrow> (\<And>b. x = Inr b \<Longrightarrow> keeps P (g b)) \<Longrightarrow>
   keeps P (case x of Inl a \<Rightarrow> f a | Inr b \<Rightarrow> g b)"
  by (simp split: sum.split)

lemma keeps_let [keeps_intros]: "(\<And>y. y = x \<Longrightarrow> keeps P (f y)) \<Longrightarrow> keeps P (let y = x in f y)"
  by simp

text \<open>The invariant of a system that runs a list of requests, whatever each one answers.\<close>

locale request_system =
  fixes handle :: "'r \<Rightarrow> 's \<Rightarrow> 's" and inv :: "'s \<Rightarrow> bool"
  assumes handle_inv: "inv s \<Longrightarrow> inv (handle r s)"
begin

lemma run_inv: "inv s \<Longrightarrow> inv (fold handle rs s)"
  by (induction rs arbitrary: s) (auto intro: handle_inv)

end

section \<open>Dictionaries and lists\<close>

lemma map_of_update [simp]: "map_of (AList.update k v d) = (map_of d)(k \<mapsto> v)"
  by (rule update_conv')

lemma map_of_delete [simp]: "map_of (AList.delete k d) = (map_of d)(k := None)"
  by (rule delete_conv')

lemma dom_fst: "dom (map_of d) = fst ` set d"
  by (rule dom_map_of_conv_image_fst)

lemma dict_merge_Nil [simp]: "dict_merge d [] = d"
  by (simp add: dict_merge_def)

lemma map_of_dict_merge: "map_of (dict_merge d e) k = (case map_of (rev e) k of None \<Rightarrow> map_of d k | Some v \<Rightarrow> Some v)"
  unfolding dict_merge_def
  by (induction e arbitrary: d) (auto simp: map_add_def split: option.splits if_splits)

lemma map_of_dict_merge_notin: "k \<notin> fst ` set e \<Longrightarrow> map_of (dict_merge d e) k = map_of d k"
proof -
  assume "k \<notin> fst ` set e"
  then have "map_of (rev e) k = None" by (simp add: map_of_eq_None_iff)
  then show ?thesis by (simp add: map_of_dict_merge)
qed

text \<open>Consecutive sequence numbers: the numbers of a log without gaps.\<close>

lemma sorted_upto_int: "sorted_wrt (<) [i..j :: int]"
  by (induction i j rule: upto.induct) (subst upto.simps, auto)

lemma filter_gt_upto: "1 \<le> i \<Longrightarrow> filter (\<lambda>k. n < k) [i..j :: int] = [max i (n + 1)..j]"
proof (induction i j rule: upto.induct)
  case (1 i j)
  show ?case
  proof (cases "i \<le> j")
    case True
    then have u: "[i..j] = i # [i + 1..j]" by (simp add: upto_rec1)
    have "max i (n + 1) = (if n < i then i else n + 1)"
      and "max (i + 1) (n + 1) = (if n < i then i + 1 else n + 1)" by auto
    with 1 True u show ?thesis by simp
  qed simp
qed

text \<open>Reading a log without gaps after a number drops a prefix.\<close>

lemma filter_gt_drop:
  "map f xs = [i + 1..j :: int] \<Longrightarrow> i \<le> n \<Longrightarrow> filter (\<lambda>x. n < f x) xs = drop (nat (n - i)) xs"
proof (induction xs arbitrary: i)
  case (Cons x xs)
  have "[i + 1..j] \<noteq> []" using Cons.prems(1) by auto
  then have "[i + 1..j] = (i + 1) # [(i + 1) + 1..j]" by (simp add: upto_rec1)
  then have x: "f x = i + 1" and xs: "map f xs = [(i + 1) + 1..j]" using Cons.prems(1) by simp_all
  show ?case
  proof (cases "i = n")
    case True
    have "\<forall>y \<in> f ` set xs. n < y" using arg_cong [OF xs, of set] True by auto
    then have "filter (\<lambda>x. n < f x) xs = xs" by (simp add: filter_id_conv)
    with True x show ?thesis by simp
  next
    case False
    then have "nat (n - i) = Suc (nat (n - (i + 1)))" using Cons.prems(2) by simp
    with False x Cons.IH [OF xs] Cons.prems(2) show ?thesis by simp
  qed
qed simp

end
