(* ===== verification/Session_State.thy ===== *)
theory Session_State
  imports Py_Prelude
begin

text \<open>
  The session lifecycle: the enumerations of \<open>contracts.py\<close> the state machines use and the
  transition function of \<open>domain/state.py\<close>. The lifecycle order is an instance of
  \<open>linorder\<close>, so that "the lifecycle never runs backwards" is a statement about \<open>\<le>\<close>.
\<close>

section \<open>Enumerations\<close>

datatype session_state =
    DRAFT | CONSENT_CONFIRMED | PREFLIGHT_READY | RECORDING | SEALED | FAILED | WITHDRAWN

datatype session_kind = DEMO | RESEARCH

datatype readiness_gate =
    INSTITUTIONAL_APPROVAL_REQUIRED
  | OPERATOR_CONSENT_REQUIRED
  | RETENTION_DECISION_REQUIRED
  | RETENTION_AUTHORITY_UNVERIFIED
  | STORAGE_ENCRYPTION_UNVERIFIED
  | STORAGE_ACL_UNVERIFIED
  | RESEARCH_COLLECTION_NOT_IMPLEMENTED

datatype artifact_status = VALID | INVALIDATED

datatype withdrawal_task_status = PENDING | COMPLETED

text \<open>The values of the string enumeration, as they appear in payloads and columns.\<close>

fun session_state_str :: "session_state \<Rightarrow> string" where
  "session_state_str DRAFT = ''DRAFT''"
| "session_state_str CONSENT_CONFIRMED = ''CONSENT_CONFIRMED''"
| "session_state_str PREFLIGHT_READY = ''PREFLIGHT_READY''"
| "session_state_str RECORDING = ''RECORDING''"
| "session_state_str SEALED = ''SEALED''"
| "session_state_str FAILED = ''FAILED''"
| "session_state_str WITHDRAWN = ''WITHDRAWN''"

fun session_kind_str :: "session_kind \<Rightarrow> string" where
  "session_kind_str DEMO = ''DEMO''"
| "session_kind_str RESEARCH = ''RESEARCH''"

section \<open>The order of the lifecycle\<close>

fun state_rank :: "session_state \<Rightarrow> nat" where
  "state_rank DRAFT = 0"
| "state_rank CONSENT_CONFIRMED = 1"
| "state_rank PREFLIGHT_READY = 2"
| "state_rank RECORDING = 3"
| "state_rank SEALED = 4"
| "state_rank FAILED = 5"
| "state_rank WITHDRAWN = 6"

lemma state_rank_inject [simp]: "state_rank s = state_rank t \<longleftrightarrow> s = t"
  by (cases s; cases t) simp_all

instantiation session_state :: linorder
begin

definition less_eq_session_state :: "session_state \<Rightarrow> session_state \<Rightarrow> bool" where
  "s \<le> t \<longleftrightarrow> state_rank s \<le> state_rank t"

definition less_session_state :: "session_state \<Rightarrow> session_state \<Rightarrow> bool" where
  "s < t \<longleftrightarrow> state_rank s < state_rank t"

instance
  by standard (auto simp: less_eq_session_state_def less_session_state_def
      simp flip: state_rank_inject)

end

section \<open>Transitions\<close>

text \<open>The table \<open>_TRANSITIONS\<close>, and the four requests that are repetitions of the last step.\<close>

definition TRANSITIONS :: "((session_state \<times> string) \<times> session_state) list" where
  "TRANSITIONS =
    [((DRAFT, ''consent''), CONSENT_CONFIRMED),
     ((CONSENT_CONFIRMED, ''preflight''), PREFLIGHT_READY),
     ((PREFLIGHT_READY, ''start''), RECORDING),
     ((RECORDING, ''stop''), SEALED)]"

definition REPEATED :: "(session_state \<times> string) list" where
  "REPEATED =
    [(CONSENT_CONFIRMED, ''consent''), (PREFLIGHT_READY, ''preflight''),
     (RECORDING, ''start''), (SEALED, ''stop'')]"

definition transition :: "session_state \<Rightarrow> string \<Rightarrow> py_error + session_state" where
  "transition current action =
     (case map_of TRANSITIONS (current, action) of
        Some target \<Rightarrow> Inr target
      | None \<Rightarrow>
          if (current, action) \<in> set REPEATED then Inr current
          else Inl (InvalidTransition
            (''Cannot '' @ action @ '' session in '' @ session_state_str current @ '' state'')))"

subsection \<open>What the transition function does\<close>

lemma transition_Inr_iff:
  "transition s a = Inr t \<longleftrightarrow>
     (a = ''consent'' \<and> s \<in> {DRAFT, CONSENT_CONFIRMED} \<and> t = CONSENT_CONFIRMED)
   \<or> (a = ''preflight'' \<and> s \<in> {CONSENT_CONFIRMED, PREFLIGHT_READY} \<and> t = PREFLIGHT_READY)
   \<or> (a = ''start'' \<and> s \<in> {PREFLIGHT_READY, RECORDING} \<and> t = RECORDING)
   \<or> (a = ''stop'' \<and> s \<in> {RECORDING, SEALED} \<and> t = SEALED)"
  by (cases s) (auto simp: transition_def TRANSITIONS_def REPEATED_def)

lemma transition_mono: "transition s a = Inr t \<Longrightarrow> s \<le> t"
  by (auto simp: transition_Inr_iff less_eq_session_state_def)

lemma transition_idem: "transition s a = Inr t \<Longrightarrow> transition t a = Inr t"
  by (auto simp: transition_Inr_iff)

lemma transition_terminal [simp]:
  "transition FAILED a = Inl (InvalidTransition (''Cannot '' @ a @ '' session in FAILED state''))"
  "transition WITHDRAWN a =
     Inl (InvalidTransition (''Cannot '' @ a @ '' session in WITHDRAWN state''))"
  by (simp_all add: transition_def TRANSITIONS_def REPEATED_def)

lemma transition_error: "transition s a = Inl e \<Longrightarrow> \<exists>m. e = InvalidTransition m"
  by (auto simp: transition_def split: option.splits if_splits)

text \<open>Running a list of requests, ignoring those that are refused.\<close>

definition transition_or_stay :: "string \<Rightarrow> session_state \<Rightarrow> session_state" where
  "transition_or_stay a s = (case transition s a of Inr t \<Rightarrow> t | Inl _ \<Rightarrow> s)"

lemma transition_or_stay_mono: "s \<le> transition_or_stay a s"
  by (auto simp: transition_or_stay_def transition_mono split: sum.split)

interpretation lifecycle_floor: request_system transition_or_stay "\<lambda>s. lo \<le> s" for lo
  by unfold_locales (auto intro: order_trans transition_or_stay_mono)

lemma transition_or_stay_rank: "state_rank (transition_or_stay a s) \<le> Suc (state_rank s)"
  by (auto simp: transition_or_stay_def transition_Inr_iff split: sum.split)

text \<open>
  A session that reached RECORDING went through every earlier stage: no list of requests skips
  one. \<open>visited s rs\<close> are the states of the run.
\<close>

fun visited :: "session_state \<Rightarrow> string list \<Rightarrow> session_state list" where
  "visited s [] = [s]"
| "visited s (a # as) = s # visited (transition_or_stay a s) as"

lemma visited_last: "last (visited s as) = fold transition_or_stay as s"
proof (induction as arbitrary: s)
  case (Cons a as)
  then show ?case by (cases as) auto
qed simp

lemma visited_covers:
  assumes "s \<le> u" and "u \<le> fold transition_or_stay as s"
  shows "u \<in> set (visited s as)"
  using assms
proof (induction as arbitrary: s)
  case Nil
  then show ?case by auto
next
  case (Cons a as)
  show ?case
  proof (cases "u = s")
    case False
    let ?t = "transition_or_stay a s"
    have "?t \<le> u"
      using False Cons.prems(1) transition_or_stay_rank [of a s]
      by (simp add: less_eq_session_state_def flip: state_rank_inject)
    with Cons show ?thesis by auto
  qed simp
qed

end
