(* ===== verification/Session_Repository.thy ===== *)
theory Session_Repository
  imports Session_State
begin

text \<open>
  The in-memory session repository of \<open>repositories/in_memory.py\<close>: session records, their
  append-only event logs and the hard limits. The interface the backends rely on is the locale
  \<open>event_log\<close>: sequence numbers run from 1 without gaps, reading after a sequence number gives
  exactly the later events, in order. \<open>InMemorySessionRepository\<close> is an interpretation.
\<close>

section \<open>Events\<close>

record event_record =
  er_seq :: int
  er_type :: string
  er_payload :: pydict

definition er_as_dict :: "event_record \<Rightarrow> pydict" where
  "er_as_dict e =
     dict_merge [(''event_seq'', JInt (er_seq e)), (''type'', JStr (er_type e))] (er_payload e)"

text \<open>The payload does not shadow the two keys \<open>as_dict\<close> adds.\<close>

definition plain_payload :: "pydict \<Rightarrow> bool" where
  "plain_payload p \<longleftrightarrow> ''event_seq'' \<notin> fst ` set p \<and> ''type'' \<notin> fst ` set p"

lemma er_as_dict_seq:
  "plain_payload (er_payload e) \<Longrightarrow> map_of (er_as_dict e) ''event_seq'' = Some (JInt (er_seq e))"
  by (simp add: er_as_dict_def plain_payload_def map_of_dict_merge_notin)

lemma er_as_dict_type:
  "plain_payload (er_payload e) \<Longrightarrow> map_of (er_as_dict e) ''type'' = Some (JStr (er_type e))"
  by (simp add: er_as_dict_def plain_payload_def map_of_dict_merge_notin)

section \<open>The interface of an event log\<close>

locale event_log =
  fixes append :: "string \<Rightarrow> string \<Rightarrow> pydict \<Rightarrow> ('s, event_record) pyop"
    and after :: "'s \<Rightarrow> string \<Rightarrow> int \<Rightarrow> event_record list"
    and last_seq :: "'s \<Rightarrow> string \<Rightarrow> int"
    and inv :: "'s \<Rightarrow> bool"
  assumes append_inv: "inv s \<Longrightarrow> inv (snd (append sid t p s))"
    and append_fails: "append sid t p s = (Inl x, s') \<Longrightarrow> s' = s"
    and append_event: "inv s \<Longrightarrow> append sid t p s = (Inr e, s') \<Longrightarrow>
      e = \<lparr>er_seq = last_seq s sid + 1, er_type = t, er_payload = p\<rparr> \<and> last_seq s' sid = er_seq e"
    and append_after: "inv s \<Longrightarrow> append sid t p s = (Inr e, s') \<Longrightarrow>
      after s' sid 0 = after s sid 0 @ [e]"
    and append_other: "append sid t p s = (Inr e, s') \<Longrightarrow> sid' \<noteq> sid \<Longrightarrow>
      after s' sid' n = after s sid' n \<and> last_seq s' sid' = last_seq s sid'"
    and after_filter: "0 \<le> n \<Longrightarrow> after s sid n = filter (\<lambda>e. n < er_seq e) (after s sid 0)"
    and seqs_upto: "inv s \<Longrightarrow> map er_seq (after s sid 0) = [1..last_seq s sid]"
begin

lemma seqs_after: "inv s \<Longrightarrow> 0 \<le> n \<Longrightarrow> map er_seq (after s sid n) = [n + 1..last_seq s sid]"
proof -
  assume "inv s" "0 \<le> n"
  then have "map er_seq (after s sid n) = filter (\<lambda>k. n < k) (map er_seq (after s sid 0))"
    by (simp add: after_filter [of n] filter_map o_def)
  then show ?thesis using \<open>inv s\<close> \<open>0 \<le> n\<close> by (simp add: seqs_upto filter_gt_upto)
qed

lemma last_seq_nonneg: "inv s \<Longrightarrow> after s sid 0 \<noteq> [] \<Longrightarrow> 1 \<le> last_seq s sid"
  using seqs_upto [of s sid] by (cases "after s sid 0") (auto simp: upto.simps split: if_splits)

lemma append_after_n:
  assumes "inv s" "append sid t p s = (Inr e, s')" "0 \<le> n"
  shows "after s' sid n = after s sid n @ (if n < er_seq e then [e] else [])"
  using append_after [OF assms(1,2)] by (simp add: after_filter [OF assms(3)])

lemma after_empty: "inv s \<Longrightarrow> last_seq s sid \<le> n \<Longrightarrow> 0 \<le> n \<Longrightarrow> after s sid n = []"
  using seqs_after [of s n sid] by simp

text \<open>
  A reader that polls "everything after the last number I saw" and starts at \<open>n\<close> sees, over two
  polls with an append in between, exactly what one later poll would have shown: nothing is
  skipped and nothing is repeated.
\<close>

lemma poll_twice:
  assumes "inv s" and "append sid t p s = (Inr e, s')" and "0 \<le> n" and "n \<le> last_seq s sid"
  shows "after s' sid n = after s sid n @ after s' sid (last_seq s sid)"
proof -
  have e: "er_seq e = last_seq s sid + 1" using append_event [OF assms(1,2)] by simp
  have "after s' sid (last_seq s sid) = [e]"
    using append_after_n [OF assms(1,2), of "last_seq s sid"] after_empty [OF assms(1)] assms(3,4) e
    by simp
  then show ?thesis using append_after_n [OF assms(1,2,3)] e assms(4) by simp
qed

end

section \<open>Session records\<close>

definition MAX_EVENTS_PER_SESSION :: int where
  "MAX_EVENTS_PER_SESSION = 10000"

definition MAX_ANSWERS_PER_SESSION :: int where
  "MAX_ANSWERS_PER_SESSION = 1000"

lemma limits_nonneg [simp]: "0 \<le> MAX_EVENTS_PER_SESSION" "0 \<le> MAX_ANSWERS_PER_SESSION"
  by (simp_all add: MAX_EVENTS_PER_SESSION_def MAX_ANSWERS_PER_SESSION_def)

record session_record =
  sr_session_id :: string
  sr_state :: session_state
  sr_event_seq :: int
  sr_submitted :: bool
  sr_duration_seconds :: int
  sr_started_at :: "pyfloat option"
  sr_answers :: "(string \<times> pydict) list"
  sr_answer_results :: "(string \<times> pydict) list"
  sr_submit_results :: "(string \<times> pydict) list"
  sr_events :: "event_record list"

definition new_session_record :: "string \<Rightarrow> session_record" where
  "new_session_record sid =
     \<lparr>sr_session_id = sid, sr_state = DRAFT, sr_event_seq = 0, sr_submitted = False,
      sr_duration_seconds = 2700, sr_started_at = None, sr_answers = [], sr_answer_results = [],
      sr_submit_results = [], sr_events = []\<rparr>"

type_synonym session_repo = "(string \<times> session_record) list"

section \<open>\<open>InMemorySessionRepository\<close>\<close>

definition repo_create :: "string \<Rightarrow> (session_repo, session_record) pyop" where
  "repo_create sid r =
     (Inr (new_session_record sid), AList.update sid (new_session_record sid) r)"

definition repo_get :: "session_repo \<Rightarrow> string \<Rightarrow> session_record option" where
  "repo_get r sid = map_of r sid"

definition repo_append_event ::
    "string \<Rightarrow> string \<Rightarrow> pydict \<Rightarrow> (session_repo, event_record) pyop" where
  "repo_append_event sid event_type payload r =
     (case map_of r sid of
        None \<Rightarrow> (Inl (KeyError sid), r)
      | Some rec \<Rightarrow>
          if MAX_EVENTS_PER_SESSION \<le> int (length (sr_events rec))
          then (Inl (EventLogLimitExceeded ''EVENT_LOG_LIMIT_REACHED''), r)
          else
            let seq = sr_event_seq rec + 1;
                event = \<lparr>er_seq = seq, er_type = event_type, er_payload = payload\<rparr>
            in (Inr event,
                AList.update sid
                  (rec\<lparr>sr_event_seq := seq, sr_events := sr_events rec @ [event]\<rparr>) r))"

definition repo_events_after :: "session_repo \<Rightarrow> string \<Rightarrow> int \<Rightarrow> event_record list" where
  "repo_events_after r sid n =
     (case map_of r sid of
        None \<Rightarrow> []
      | Some rec \<Rightarrow> filter (\<lambda>e. n < er_seq e) (sr_events rec))"

section \<open>The log invariant\<close>

definition log_ok :: "session_record \<Rightarrow> bool" where
  "log_ok rec \<longleftrightarrow>
     map er_seq (sr_events rec) = [1..sr_event_seq rec] \<and> 0 \<le> sr_event_seq rec \<and>
     int (length (sr_events rec)) \<le> MAX_EVENTS_PER_SESSION"

definition repo_inv :: "session_repo \<Rightarrow> bool" where
  "repo_inv r \<longleftrightarrow> (\<forall>sid rec. map_of r sid = Some rec \<longrightarrow> log_ok rec \<and> sr_session_id rec = sid)"

definition repo_last_seq :: "session_repo \<Rightarrow> string \<Rightarrow> int" where
  "repo_last_seq r sid = (case map_of r sid of None \<Rightarrow> 0 | Some rec \<Rightarrow> sr_event_seq rec)"

lemma log_ok_new [simp]: "log_ok (new_session_record sid)"
  by (simp add: log_ok_def new_session_record_def)

lemma log_ok_seq_pos: "log_ok rec \<Longrightarrow> e \<in> set (sr_events rec) \<Longrightarrow> 0 < er_seq e"
proof -
  assume "log_ok rec" "e \<in> set (sr_events rec)"
  then have "er_seq e \<in> set [1..sr_event_seq rec]" by (metis log_ok_def imageI set_map)
  then show ?thesis by simp
qed

lemma log_ok_filter: "log_ok rec \<Longrightarrow> filter (\<lambda>e. 0 < er_seq e) (sr_events rec) = sr_events rec"
  by (simp add: filter_id_conv log_ok_seq_pos)

lemma log_ok_append:
  "log_ok rec \<Longrightarrow> int (length (sr_events rec)) < MAX_EVENTS_PER_SESSION \<Longrightarrow>
   er_seq e = sr_event_seq rec + 1 \<Longrightarrow>
   log_ok (rec\<lparr>sr_event_seq := sr_event_seq rec + 1, sr_events := sr_events rec @ [e]\<rparr>)"
  by (simp add: log_ok_def upto_rec2)

lemma repo_append_cases:
  assumes "repo_append_event sid t p r = (Inr e, r')"
  obtains rec where "map_of r sid = Some rec" and "int (length (sr_events rec)) < MAX_EVENTS_PER_SESSION"
    and "e = \<lparr>er_seq = sr_event_seq rec + 1, er_type = t, er_payload = p\<rparr>"
    and "map_of r' = (map_of r)(sid \<mapsto>
           rec\<lparr>sr_event_seq := er_seq e, sr_events := sr_events rec @ [e]\<rparr>)"
  using assms
  by (auto simp: repo_append_event_def Let_def split: option.splits if_splits)

lemma repo_append_error:
  "repo_append_event sid t p r = (Inl x, r') \<Longrightarrow> r' = r"
  by (auto simp: repo_append_event_def Let_def split: option.splits if_splits)

lemma repo_append_inv: "repo_inv r \<Longrightarrow> repo_inv (snd (repo_append_event sid t p r))"
proof (cases "repo_append_event sid t p r")
  case (Pair res r')
  assume inv: "repo_inv r"
  show ?thesis
  proof (cases res)
    case (Inl x)
    with Pair inv repo_append_error show ?thesis by fastforce
  next
    case (Inr e)
    with Pair have "repo_append_event sid t p r = (Inr e, r')" by simp
    then show ?thesis
      using inv Pair by (elim repo_append_cases) (auto simp: repo_inv_def log_ok_append)
  qed
qed

lemma repo_create_inv: "repo_inv r \<Longrightarrow> repo_inv (snd (repo_create sid r))"
  by (auto simp: repo_inv_def repo_create_def new_session_record_def log_ok_def)

interpretation mem_log: event_log repo_append_event repo_events_after repo_last_seq repo_inv
proof (unfold_locales, goal_cases)
  case (3 s sid t p e s')
  then show ?case by (elim repo_append_cases) (auto simp: repo_last_seq_def)
next
  case (4 s sid t p e s')
  then show ?case
    by (elim repo_append_cases) (auto simp: repo_events_after_def repo_inv_def log_ok_def)
next
  case (5 sid t p s e s' sid' n)
  then show ?case
    by (elim repo_append_cases) (auto simp: repo_events_after_def repo_last_seq_def)
next
  case (6 n s sid)
  then show ?case
    by (auto simp: repo_events_after_def split: option.split intro!: filter_cong)
next
  case (7 s sid)
  then show ?case
    by (simp add: repo_events_after_def repo_last_seq_def repo_inv_def log_ok_filter
        split: option.split) (simp add: log_ok_def)
qed (auto simp: repo_append_inv dest: repo_append_error)

end
