(* ===== verification/Reviewer_Auth.thy ===== *)
theory Reviewer_Auth
  imports Py_Prelude
begin

text \<open>
  The two authentication parts of \<open>services/core.py\<close>: the PIN verifier
  \<open>ReviewerAuthenticator\<close> with its lock-out, and the single reviewer bearer of \<open>M0Backend\<close>
  (issue, check, revoke), which is bound to the wall clock and to the monotonic clock.

  The key-derivation function \<open>scrypt\<close> and the digest \<open>sha\<close> (the hexadecimal SHA-256 of the
  encoded string) are arguments of the definitions; nothing is assumed about them. The
  revocation callback and the audit hooks are functions that say whether the call raises; what
  they were called with is recorded in \<open>rv_revoked\<close> and \<open>rv_audit\<close>.
\<close>

section \<open>\<open>ReviewerAuthenticator\<close>\<close>

record authenticator =
  au_pin :: string
  au_max_failures :: int
  au_cooldown_seconds :: int
  au_salt :: string
  au_pin_hash :: string
  au_failures :: "(string \<times> (int \<times> pyfloat)) list"

record login_result =
  lr_accepted :: bool
  lr_retry_after :: "int option"

definition new_authenticator :: "(string \<Rightarrow> string \<Rightarrow> string) \<Rightarrow> string \<Rightarrow> string \<Rightarrow> authenticator" where
  "new_authenticator scrypt salt pin =
     \<lparr>au_pin = [], au_max_failures = 5, au_cooldown_seconds = 60, au_salt = salt,
      au_pin_hash = scrypt pin salt, au_failures = []\<rparr>"

definition failures_of :: "authenticator \<Rightarrow> string \<Rightarrow> int \<times> pyfloat" where
  "failures_of a client_key =
     (case map_of (au_failures a) client_key of None \<Rightarrow> (0, Finite 0) | Some f \<Rightarrow> f)"

definition authenticate ::
    "(string \<Rightarrow> string \<Rightarrow> string) \<Rightarrow> string \<Rightarrow> string \<Rightarrow> pyfloat \<Rightarrow> (authenticator, login_result) pyop" where
  "authenticate scrypt pin client_key monotonic_now a =
     (let (attempts, blocked_until) = failures_of a client_key in
      if pf_less monotonic_now blocked_until then
        (case pf_ceil (pf_round (pf_sub blocked_until monotonic_now)) of
           Inl e \<Rightarrow> (Inl e, a)
         | Inr wait \<Rightarrow> (Inr \<lparr>lr_accepted = False, lr_retry_after = Some (max 1 wait)\<rparr>, a))
      else if scrypt pin (au_salt a) = au_pin_hash a then
        (Inr \<lparr>lr_accepted = True, lr_retry_after = None\<rparr>,
         a\<lparr>au_failures := AList.delete client_key (au_failures a)\<rparr>)
      else
        let attempts = attempts + 1 in
        if au_max_failures a \<le> attempts then
          (Inr \<lparr>lr_accepted = False, lr_retry_after = Some (au_cooldown_seconds a)\<rparr>,
           a\<lparr>au_failures := AList.update client_key
               (attempts, pf_round (pf_add monotonic_now (Finite (of_int (au_cooldown_seconds a)))))
               (au_failures a)\<rparr>)
        else
          (Inr \<lparr>lr_accepted = False, lr_retry_after = None\<rparr>,
           a\<lparr>au_failures := AList.update client_key (attempts, Finite 0) (au_failures a)\<rparr>))"

subsection \<open>The lock-out\<close>

text \<open>Whether an attempt gets as far as comparing the PIN.\<close>

definition evaluated :: "authenticator \<Rightarrow> string \<Rightarrow> pyfloat \<Rightarrow> bool" where
  "evaluated a k now \<longleftrightarrow> \<not> pf_less now (snd (failures_of a k))"

text \<open>
  A run of guesses: who guesses, when and what. How many of those of the client \<open>k\<close> were compared with the
  stored hash, and the state after all of them.
\<close>

type_synonym guess = "string \<times> rat \<times> string"

fun guesses :: "(string \<Rightarrow> string \<Rightarrow> string) \<Rightarrow> string \<Rightarrow> guess list \<Rightarrow> authenticator \<Rightarrow> nat \<times> authenticator" where
  "guesses scrypt k [] a = (0, a)"
| "guesses scrypt k ((c, t, pin) # gs) a =
     (let (n, a') = guesses scrypt k gs (snd (authenticate scrypt pin c (Finite t) a))
      in ((if c = k \<and> evaluated a k (Finite t) then Suc n else n), a'))"

lemma authenticate_blocked:
  assumes "failures_of a k = (n, Finite b)" and "t < b"
  shows "snd (authenticate scrypt pin k (Finite t) a) = a"
  using assms by (auto simp: authenticate_def pf_sub_def split: sum.split)

lemma authenticate_wrong:
  assumes "failures_of a k = (n, Finite b)" and "\<not> t < b"
    and "scrypt pin (au_salt a) \<noteq> au_pin_hash a"
  shows "authenticate scrypt pin k (Finite t) a =
    (Inr \<lparr>lr_accepted = False,
          lr_retry_after = (if au_max_failures a \<le> n + 1 then Some (au_cooldown_seconds a) else None)\<rparr>,
     a\<lparr>au_failures := AList.update k
         (n + 1, if au_max_failures a \<le> n + 1 then double_of (t + of_int (au_cooldown_seconds a)) else Finite 0)
         (au_failures a)\<rparr>)"
  using assms by (simp add: authenticate_def Let_def)

text \<open>What a guess never changes, and what the guess of another client does not change.\<close>

lemma authenticate_frame:
  "au_salt (snd (authenticate scrypt pin c t a)) = au_salt a"
  "au_pin_hash (snd (authenticate scrypt pin c t a)) = au_pin_hash a"
  "au_max_failures (snd (authenticate scrypt pin c t a)) = au_max_failures a"
  "au_cooldown_seconds (snd (authenticate scrypt pin c t a)) = au_cooldown_seconds a"
  "c \<noteq> k \<Longrightarrow> failures_of (snd (authenticate scrypt pin c t a)) k = failures_of a k"
  by (auto simp: authenticate_def failures_of_def Let_def split: prod.splits sum.splits)

lemma failures_of_update [simp]:
  "failures_of (a\<lparr>au_failures := AList.update k f (au_failures a)\<rparr>) k = f"
  by (simp add: failures_of_def)

text \<open>The PINs that \<open>k\<close> tries are wrong.\<close>

definition all_wrong :: "(string \<Rightarrow> string \<Rightarrow> string) \<Rightarrow> string \<Rightarrow> authenticator \<Rightarrow> guess list \<Rightarrow> bool" where
  "all_wrong scrypt k a gs \<longleftrightarrow> (\<forall>(c, t, pin) \<in> set gs. c = k \<longrightarrow> scrypt pin (au_salt a) \<noteq> au_pin_hash a)"

definition during :: "rat \<Rightarrow> rat \<Rightarrow> guess list \<Rightarrow> bool" where
  "during t0 T gs \<longleftrightarrow> (\<forall>(c, t, pin) \<in> set gs. t0 \<le> t \<and> t \<le> T)"

lemma fst_guesses_Cons:
  "fst (guesses scrypt k ((c, t, pin) # gs) a) =
     (if c = k \<and> evaluated a k (Finite t) then 1 else 0) +
     fst (guesses scrypt k gs (snd (authenticate scrypt pin c (Finite t) a)))"
  by (simp split: prod.split)

declare guesses.simps(2) [simp del]

text \<open>A cool-down of a minute, as rounded to a double, ends at least 59.5 seconds later.\<close>

lemma cooldown_end:
  assumes "0 \<le> t" and "t + 60 < 2 ^ 53"
  obtains b where "double_of (t + 60) = Finite b" and "t + 119 / 2 \<le> b"
proof -
  have "\<bar>t + 60\<bar> < 2 ^ 53" using assms by simp
  then obtain b where b: "double_of (t + 60) = Finite b" and near: "\<bar>b - (t + 60)\<bar> \<le> 1 / 2" by (rule double_near)
  from near have "t + 119 / 2 \<le> b" by linarith
  with b show ?thesis by (rule that)
qed

text \<open>
  Once \<open>n\<close> failures are on record and the client is blocked until \<open>b\<close>, its guesses of any later period are
  compared at most once per cool-down.
\<close>

lemma guesses_locked_bound:
  assumes "failures_of a k = (n, Finite b)" and "au_max_failures a \<le> n" and "au_cooldown_seconds a = 60"
    and "all_wrong scrypt k a gs" and "during t0 T gs" and "0 \<le> t0" and "T + 60 < 2 ^ 53"
  shows "of_nat (fst (guesses scrypt k gs a)) * (119 / 2) \<le> max 0 (T - b + 119 / 2)"
  using assms
proof (induction gs arbitrary: a n b)
  case Nil
  then show ?case by simp
next
  case (Cons g gs)
  obtain c t pin where g: "g = (c, t, pin)" by (cases g)
  have t: "t0 \<le> t" "t \<le> T" and rest: "during t0 T gs" using Cons.prems(5) g by (auto simp: during_def)
  let ?a = "snd (authenticate scrypt pin c (Finite t) a)"
  have wrong: "all_wrong scrypt k ?a gs" using Cons.prems(4) g by (simp add: all_wrong_def authenticate_frame)
  show ?case
  proof (cases "c = k \<and> \<not> t < b")
    case True
    then have pin: "scrypt pin (au_salt a) \<noteq> au_pin_hash a" using Cons.prems(4) g by (simp add: all_wrong_def)
    have "0 \<le> t" "t + 60 < 2 ^ 53" using t Cons.prems(6,7) by simp_all
    then obtain b' where b': "double_of (t + 60) = Finite b'" "t + 119 / 2 \<le> b'" by (rule cooldown_end)
    have "failures_of ?a k = (n + 1, Finite b')"
      using True authenticate_wrong [where scrypt = scrypt and pin = pin, OF Cons.prems(1) _ pin, of t] Cons.prems(2,3) b'(1) by simp
    then have "of_nat (fst (guesses scrypt k gs ?a)) * (119 / 2) \<le> max 0 (T - b' + 119 / 2)"
      using Cons.IH [of ?a "n + 1" b'] Cons.prems(2,3,6,7) wrong rest by (simp add: authenticate_frame)
    also have "\<dots> \<le> T - t" using b'(2) t by simp
    finally have "of_nat (Suc (fst (guesses scrypt k gs ?a))) * (119 / 2) \<le> T - b + 119 / 2"
      using True by (simp add: algebra_simps)
    then show ?thesis using True g Cons.prems(1) by (simp add: evaluated_def fst_guesses_Cons)
  next
    case False
    then have "failures_of ?a k = failures_of a k"
      using authenticate_blocked [OF Cons.prems(1), of t scrypt pin] by (cases "c = k") (simp_all add: authenticate_frame)
    then have "of_nat (fst (guesses scrypt k gs ?a)) * (119 / 2) \<le> max 0 (T - b + 119 / 2)"
      using Cons.IH [of ?a n b] Cons.prems(1-3,6,7) wrong rest by (simp add: authenticate_frame)
    then show ?thesis using False g Cons.prems(1) by (auto simp: evaluated_def fst_guesses_Cons)
  qed
qed

text \<open>Before the lock-out: each wrong guess costs one of the remaining attempts.\<close>

lemma guesses_bound_aux:
  assumes "failures_of a k = (n, Finite 0)" and "n < au_max_failures a" and "au_cooldown_seconds a = 60"
    and "all_wrong scrypt k a gs" and "during t0 T gs" and "t0 \<le> T" and "0 \<le> t0" and "T + 60 < 2 ^ 53"
  shows "of_nat (fst (guesses scrypt k gs a)) * (119 / 2) \<le> of_int (au_max_failures a - n) * (119 / 2) + (T - t0)"
  using assms
proof (induction gs arbitrary: a n)
  case Nil
  then show ?case by simp
next
  case (Cons g gs)
  obtain c t pin where g: "g = (c, t, pin)" by (cases g)
  have t: "t0 \<le> t" "t \<le> T" and rest: "during t0 T gs" using Cons.prems(5) g by (auto simp: during_def)
  let ?a = "snd (authenticate scrypt pin c (Finite t) a)"
  have wrong: "all_wrong scrypt k ?a gs" using Cons.prems(4) g by (simp add: all_wrong_def authenticate_frame)
  have free: "\<not> t < 0" using t Cons.prems(7) by simp
  show ?case
  proof (cases "c = k")
    case True
    then have pin: "scrypt pin (au_salt a) \<noteq> au_pin_hash a" using Cons.prems(4) g by (simp add: all_wrong_def)
    note step = authenticate_wrong [where scrypt = scrypt and pin = pin, OF Cons.prems(1) free pin]
    have "of_nat (fst (guesses scrypt k gs ?a)) * (119 / 2) \<le> of_int (au_max_failures a - (n + 1)) * (119 / 2) + (T - t0)"
    proof (cases "au_max_failures a \<le> n + 1")
      case locked: True
      have "0 \<le> t" "t + 60 < 2 ^ 53" using t Cons.prems(7,8) by simp_all
      then obtain b where b: "double_of (t + 60) = Finite b" "t + 119 / 2 \<le> b" by (rule cooldown_end)
      have "failures_of ?a k = (n + 1, Finite b)" using True step locked Cons.prems(3) b(1) by simp
      then have "of_nat (fst (guesses scrypt k gs ?a)) * (119 / 2) \<le> max 0 (T - b + 119 / 2)"
        using guesses_locked_bound [of ?a k "n + 1" b scrypt gs t0 T] locked Cons.prems(3,7,8) wrong rest
        by (simp add: authenticate_frame)
      also have "\<dots> \<le> T - t0" using b(2) t by simp
      also have "\<dots> = of_int (au_max_failures a - (n + 1)) * (119 / 2) + (T - t0)" using locked Cons.prems(2) by simp
      finally show ?thesis .
    next
      case again: False
      have "failures_of ?a k = (n + 1, Finite 0)" using True step again by simp
      then show ?thesis
        using Cons.IH [of ?a "n + 1"] again Cons.prems(3,6-8) wrong rest by (simp add: authenticate_frame)
    qed
    then show ?thesis
      using True g free Cons.prems(1) by (simp add: evaluated_def fst_guesses_Cons field_simps)
  next
    case False
    then show ?thesis
      using Cons.IH [of ?a n] Cons.prems(1-3,6-8) wrong rest g by (simp add: authenticate_frame fst_guesses_Cons)
  qed
qed

section \<open>The reviewer bearer\<close>

definition REVIEWER_BEARER_TTL_SECONDS :: int where
  "REVIEWER_BEARER_TTL_SECONDS = 2 * 60 * 60"

record rv_state = py_world +
  rv_digest :: "string option"
  rv_issued_at :: "pyfloat option"
  rv_expiry :: "pyfloat option"
  rv_mono_issued :: "pyfloat option"
  rv_mono_expiry :: "pyfloat option"
  rv_callback :: "(string \<Rightarrow> py_error option) option"
  rv_hooks :: "(string \<Rightarrow> py_error option) list"
  rv_revoked :: "string list"
  rv_audit :: "string list"

definition rv_fresh :: rv_state where
  "rv_fresh = \<lparr>clock_reads = 0, monotonic_reads = 0, token_reads = 0, rv_digest = None,
     rv_issued_at = None, rv_expiry = None, rv_mono_issued = None, rv_mono_expiry = None,
     rv_callback = None, rv_hooks = [], rv_revoked = [], rv_audit = []\<rparr>"

definition register_reviewer_session_revocation ::
    "(string \<Rightarrow> py_error option) \<Rightarrow> ('w rv_state_scheme, unit) pyop" where
  "register_reviewer_session_revocation cb = py_mod (\<lambda>s. s\<lparr>rv_callback := Some cb\<rparr>)"

definition register_reviewer_audit_hook ::
    "(string \<Rightarrow> py_error option) \<Rightarrow> ('w rv_state_scheme, unit) pyop" where
  "register_reviewer_audit_hook cb = py_mod (\<lambda>s. s\<lparr>rv_hooks := rv_hooks s @ [cb]\<rparr>)"

definition outcome :: "py_error option \<Rightarrow> ('s, unit) pyop" where
  "outcome r = (case r of None \<Rightarrow> py_ret () | Some e \<Rightarrow> py_raise e)"

definition emit_reviewer_audit :: "string \<Rightarrow> ('w rv_state_scheme, unit) pyop" where
  "emit_reviewer_audit kind =
     py_bind (py_get rv_hooks) (\<lambda>hooks.
     py_for hooks (\<lambda>cb.
       py_then (py_mod (\<lambda>s. s\<lparr>rv_audit := rv_audit s @ [kind]\<rparr>)) (outcome (cb kind))))"

definition clear_reviewer_token :: "('w rv_state_scheme, unit) pyop" where
  "clear_reviewer_token = py_mod (\<lambda>s. s\<lparr>rv_digest := None, rv_issued_at := None,
     rv_expiry := None, rv_mono_issued := None, rv_mono_expiry := None\<rparr>)"

definition invalidate_reviewer_session :: "string \<Rightarrow> ('w rv_state_scheme, unit) pyop" where
  "invalidate_reviewer_session audit_kind =
     py_bind (py_get rv_digest) (\<lambda>digest.
     py_finally
       (py_bind (py_get rv_callback) (\<lambda>callback.
          case (digest, callback) of
            (Some d, Some cb) \<Rightarrow>
              py_then (py_mod (\<lambda>s. s\<lparr>rv_revoked := rv_revoked s @ [d]\<rparr>)) (outcome (cb d))
          | _ \<Rightarrow> py_ret ()))
       (py_then clear_reviewer_token
         (if digest \<noteq> None then emit_reviewer_audit audit_kind else py_ret ())))"

definition issue_reviewer_token ::
    "(string \<Rightarrow> string) \<Rightarrow> py_env \<Rightarrow> ('w rv_state_scheme, string) pyop" where
  "issue_reviewer_token sha env =
     py_bind (read_clock env) (\<lambda>issued_at.
     py_bind (read_monotonic env) (\<lambda>monotonic_issued.
     let ttl = Finite (of_int REVIEWER_BEARER_TTL_SECONDS);
         expiry = pf_add issued_at ttl;
         monotonic_expiry = pf_add monotonic_issued ttl
     in
     if \<not> list_all pf_isfinite [issued_at, expiry, monotonic_issued, monotonic_expiry] then
       py_then (invalidate_reviewer_session ''REVIEWER_SESSION_ENDED'')
         (py_raise (ReviewerClockInvalid ''CLOCK_INVALID''))
     else
       py_then (invalidate_reviewer_session ''REVIEWER_SESSION_ENDED'')
      (py_bind (token_urlsafe env 32) (\<lambda>token.
       py_then (py_mod (\<lambda>s. s\<lparr>rv_digest := Some (sha token), rv_issued_at := Some issued_at,
          rv_expiry := Some expiry, rv_mono_issued := Some monotonic_issued,
          rv_mono_expiry := Some monotonic_expiry\<rparr>))
      (py_then (emit_reviewer_audit ''REVIEWER_LOGIN'')
       (py_ret token))))))"

text \<open>The condition under which a stored bearer is refused because of the clocks.\<close>

definition clock_refuses ::
    "pyfloat \<Rightarrow> pyfloat \<Rightarrow> pyfloat \<Rightarrow> pyfloat \<Rightarrow> pyfloat \<Rightarrow> pyfloat \<Rightarrow> bool" where
  "clock_refuses now expiry issued_at monotonic_now monotonic_issued monotonic_expiry \<longleftrightarrow>
     \<not> list_all pf_isfinite [now, expiry, issued_at, monotonic_now, monotonic_issued, monotonic_expiry]
     \<or> pf_less monotonic_now monotonic_issued
     \<or> pf_le monotonic_expiry monotonic_now
     \<or> pf_less now issued_at
     \<or> pf_le expiry now"

definition reviewer_expiry ::
    "(string \<Rightarrow> string) \<Rightarrow> py_env \<Rightarrow> string option \<Rightarrow> ('w rv_state_scheme, pyfloat option) pyop" where
  "reviewer_expiry sha env token =
     py_bind (py_get (\<lambda>s. (rv_expiry s, rv_digest s, rv_issued_at s, rv_mono_issued s, rv_mono_expiry s)))
     (\<lambda>fields. case fields of
        (Some expiry, Some digest, Some issued_at, Some monotonic_issued, Some monotonic_expiry) \<Rightarrow>
          py_bind (read_clock env) (\<lambda>now.
          py_bind (read_monotonic env) (\<lambda>monotonic_now.
          if clock_refuses now expiry issued_at monotonic_now monotonic_issued monotonic_expiry then
            py_then (invalidate_reviewer_session ''REVIEWER_SESSION_ENDED'') (py_ret None)
          else
            (case token of
               None \<Rightarrow> py_ret None
             | Some t \<Rightarrow> py_ret (if digest = sha t then Some expiry else None))))
      | _ \<Rightarrow> py_ret None)"

definition is_reviewer ::
    "(string \<Rightarrow> string) \<Rightarrow> py_env \<Rightarrow> string option \<Rightarrow> ('w rv_state_scheme, bool) pyop" where
  "is_reviewer sha env token =
     py_bind (reviewer_expiry sha env token) (\<lambda>r. py_ret (r \<noteq> None))"

definition reviewer_session_digest ::
    "(string \<Rightarrow> string) \<Rightarrow> py_env \<Rightarrow> string option \<Rightarrow> ('w rv_state_scheme, string option) pyop" where
  "reviewer_session_digest sha env token =
     py_bind (reviewer_expiry sha env token) (\<lambda>r.
     case (r, token) of (Some _, Some t) \<Rightarrow> py_ret (Some (sha t)) | _ \<Rightarrow> py_ret None)"

definition revoke_reviewer_token ::
    "(string \<Rightarrow> string) \<Rightarrow> string option \<Rightarrow> ('w rv_state_scheme, unit) pyop" where
  "revoke_reviewer_token sha token =
     py_bind (py_get rv_digest) (\<lambda>digest.
     case (token, digest) of
       (Some t, Some d) \<Rightarrow>
         if d = sha t then invalidate_reviewer_session ''REVIEWER_LOGOUT'' else py_ret ()
     | _ \<Rightarrow> py_ret ())"

subsection \<open>Ending a session\<close>

lemma finally_establishes: "(\<And>s. P (snd (f s))) \<Longrightarrow> P (snd (py_finally m f s))"
proof -
  assume f: "\<And>s. P (snd (f s))"
  obtain r s' where m: "m s = (r, s')" by force
  obtain r' s'' where f': "f s' = (r', s'')" by force
  with f [of s'] have "P s''" by simp
  then show ?thesis by (simp add: py_finally_def m f' split: sum.split)
qed

lemma keeps_outcome [keeps_intros]: "keeps P (outcome r)"
  by (cases r) (auto simp: outcome_def intro: keeps_intros)

lemma emit_keeps_digest [keeps_intros]: "keeps (\<lambda>s. rv_digest s = d) (emit_reviewer_audit k)"
  unfolding emit_reviewer_audit_def by (intro keeps_intros) simp

lemma emit_digest [simp]: "rv_digest (snd (emit_reviewer_audit k s)) = rv_digest s"
  by (rule keepsD [OF emit_keeps_digest]) simp

lemma invalidate_digest [simp]: "rv_digest (snd (invalidate_reviewer_session k s)) = None"
proof -
  let ?fin = "\<lambda>digest. py_then clear_reviewer_token
    (if digest \<noteq> (None :: string option) then emit_reviewer_audit k else py_ret ())"
  have "rv_digest (snd (?fin d s)) = None" for d and s :: "'a rv_state_scheme"
    by (simp add: py_then_def py_bind_def clear_reviewer_token_def py_mod_def py_ret_def)
  then show ?thesis
    unfolding invalidate_reviewer_session_def
    by (simp add: py_bind_def py_get_def finally_establishes [where P = "\<lambda>s. rv_digest s = None"])
qed

text \<open>Requests that check or end the reviewer session; none of them issues a bearer.\<close>

datatype rv_request =
    CheckReviewer "string option"
  | SessionDigest "string option"
  | Logout "string option"

fun rv_handle :: "(string \<Rightarrow> string) \<Rightarrow> py_env \<Rightarrow> rv_request \<Rightarrow> 'w rv_state_scheme \<Rightarrow> 'w rv_state_scheme" where
  "rv_handle sha env (CheckReviewer t) s = snd (is_reviewer sha env t s)"
| "rv_handle sha env (SessionDigest t) s = snd (reviewer_session_digest sha env t s)"
| "rv_handle sha env (Logout t) s = snd (revoke_reviewer_token sha t s)"

lemma reviewer_expiry_None: "rv_digest s = None \<Longrightarrow> reviewer_expiry sha env t s = (Inr None, s)"
  by (auto simp: reviewer_expiry_def py_bind_def py_get_def py_ret_def split: option.split)

lemma is_reviewer_None: "rv_digest s = None \<Longrightarrow> is_reviewer sha env t s = (Inr False, s)"
  by (simp add: is_reviewer_def py_bind_def reviewer_expiry_None py_ret_def)

lemma rv_handle_None: "rv_digest s = None \<Longrightarrow> rv_digest (rv_handle sha env r s) = None"
  by (cases r) (auto simp: is_reviewer_None reviewer_session_digest_def py_bind_def
      reviewer_expiry_None py_ret_def py_get_def revoke_reviewer_token_def split: option.split)

interpretation no_bearer: request_system "rv_handle sha env" "\<lambda>s. rv_digest s = None" for sha env
  by unfold_locales (rule rv_handle_None)

text \<open>A stored bearer: all five fields are set together.\<close>

definition bearer :: "'w rv_state_scheme \<Rightarrow> string \<Rightarrow> pyfloat \<Rightarrow> pyfloat \<Rightarrow> pyfloat \<Rightarrow> pyfloat \<Rightarrow> bool" where
  "bearer s d issued expiry mono_issued mono_expiry \<longleftrightarrow>
     rv_digest s = Some d \<and> rv_issued_at s = Some issued \<and> rv_expiry s = Some expiry \<and>
     rv_mono_issued s = Some mono_issued \<and> rv_mono_expiry s = Some mono_expiry"

lemma reviewer_expiry_bearer:
  assumes "bearer s d i x mi mx"
  shows "reviewer_expiry sha env token s =
    (let s' = s\<lparr>clock_reads := Suc (clock_reads s), monotonic_reads := Suc (monotonic_reads s)\<rparr> in
     if clock_refuses (env_clock env (clock_reads s)) x i (env_monotonic env (monotonic_reads s)) mi mx
     then py_then (invalidate_reviewer_session ''REVIEWER_SESSION_ENDED'') (py_ret None) s'
     else (Inr (case token of None \<Rightarrow> None | Some t \<Rightarrow> if d = sha t then Some x else None), s'))"
  using assms
  by (simp add: reviewer_expiry_def bearer_def py_bind_def py_get_def read_clock_def read_monotonic_def
      py_ret_def Let_def split: option.split)

lemma refused_digest:
  "rv_digest (snd (py_then (invalidate_reviewer_session k) (py_ret x) s)) = None"
  using invalidate_digest [of k s]
  by (cases "invalidate_reviewer_session k s")
    (auto simp: py_then_def py_bind_def py_ret_def split: sum.split)

lemma issue_bearer:
  assumes "issue_reviewer_token sha env s = (Inr tok, s')"
  defines "now \<equiv> env_clock env (clock_reads s)" and "mnow \<equiv> env_monotonic env (monotonic_reads s)"
  shows "pf_isfinite now \<and> pf_isfinite mnow \<and>
    bearer s' (sha tok) now (pf_add now (Finite 7200)) mnow (pf_add mnow (Finite 7200))"
proof -
  have keep: "keeps (\<lambda>s. bearer s d i x mi mx) (emit_reviewer_audit k)" for k d i x mi mx
    unfolding emit_reviewer_audit_def by (intro keeps_intros) (simp add: bearer_def)
  show ?thesis
    using assms(1)
    by (auto simp: issue_reviewer_token_def py_Inr_iffs Let_def read_clock_def read_monotonic_def
        token_urlsafe_def now_def mnow_def REVIEWER_BEARER_TTL_SECONDS_def bearer_def
        split: if_splits dest!: keepsD_eq [OF keep, rotated])
qed

section \<open>Properties\<close>

text \<open>
  Claim C5. Guessing is slowed down to one comparison per cool-down. Let any clients try any PINs in any order. Of the guesses of
  one client between the times \<open>t0\<close> and \<open>T\<close> (in any order of the times), if all are wrong and the client had no failure on
  record, at most five plus one for each 59.5 seconds of the period are compared with the stored hash; the half second is
  what adding a minute to a double may lose, for clocks below \<open>2 ^ 53\<close>.
\<close>

theorem wrong_guesses_bounded:
  assumes "au_max_failures a = 5" and "au_cooldown_seconds a = 60" and "failures_of a client = (0, Finite 0)"
    and "all_wrong scrypt client a gs" and "during t0 T gs" and "t0 \<le> T" and "0 \<le> t0" and "T + 60 < 2 ^ 53"
  shows "(of_nat (fst (guesses scrypt client gs a)) - 5) * (119 / 2) \<le> T - t0"
  using guesses_bound_aux [OF assms(3) _ assms(2,4-8)] assms(1) unfolding left_diff_distrib by simp

text \<open>Five wrong guesses, a sixth while locked out, another client, and one after the cool-down.\<close>

definition guess_demo :: "guess list" where
  "guess_demo = replicate 6 (''c'', 10, ''bad'') @ [(''d'', 11, ''good''), (''c'', 71, ''bad'')]"

theorem wrong_guesses_bounded_witness:
  "(of_nat (fst (guesses (\<lambda>p s. p) ''c'' guess_demo (new_authenticator (\<lambda>p s. p) ''s'' ''good''))) - 5) * (119 / 2) \<le> (71 - 10 :: rat)"
  by (rule wrong_guesses_bounded) (simp_all add: all_wrong_def during_def guess_demo_def new_authenticator_def failures_of_def)

text \<open>While a client is locked out, even the right PIN is refused and the record of failures does not change.\<close>

lemma lockout_refuses_every_pin:
  assumes "failures_of a client = (n, Finite b)" and "t < b" and "b - t < 2 ^ 53"
  shows "\<exists>w. authenticate scrypt pin client (Finite t) a =
      (Inr \<lparr>lr_accepted = False, lr_retry_after = Some w\<rparr>, a) \<and> 1 \<le> w \<and> of_int w < b - t + 2"
proof -
  have "\<bar>b - t\<bar> < 2 ^ 53" using assms(2,3) by simp
  then obtain y where y: "double_of (b - t) = Finite y" "\<bar>y - (b - t)\<bar> \<le> 1 / 2" by (rule double_near)
  have "of_int \<lceil>y\<rceil> < b - t + 2" using y(2) by linarith
  then have "of_int (max 1 \<lceil>y\<rceil>) < b - t + 2" using assms(2) by (auto simp: max_def)
  then show ?thesis using assms(1,2) y(1) by (auto simp: authenticate_def pf_sub_def)
qed

text \<open>
  A bearer that was just issued is accepted exactly while both clocks are inside its two-hour
  window, and no other token is: a later check with any token returns the stored expiry when the
  token has the bearer's digest, the wall clock is in \<open>[issued, issued + 7200)\<close> and so is the
  monotonic clock, and returns nothing for any other token; the check does not extend the window.
\<close>

lemma issued_bearer_window:
  assumes "issue_reviewer_token sha env s = (Inr tok, s')"
    and "env_clock env (clock_reads s) = Finite i" and "env_monotonic env (monotonic_reads s) = Finite mi"
    and "env_clock env' (clock_reads s') = Finite now" and "env_monotonic env' (monotonic_reads s') = Finite m"
    and "i \<le> now" and "now < i + 7200" and "mi \<le> m" and "m < mi + 7200"
  shows "reviewer_expiry sha env' token s' =
    (Inr (if map_option sha token = Some (sha tok) then Some (Finite (i + 7200)) else None),
     s'\<lparr>clock_reads := Suc (clock_reads s'), monotonic_reads := Suc (monotonic_reads s')\<rparr>)"
proof -
  have b: "bearer s' (sha tok) (Finite i) (Finite (i + 7200)) (Finite mi) (Finite (mi + 7200))"
    using issue_bearer [OF assms(1)] assms(2,3) by simp
  have "\<not> clock_refuses (Finite now) (Finite (i + 7200)) (Finite i) (Finite m) (Finite mi) (Finite (mi + 7200))"
    using assms(6-9) by (simp add: clock_refuses_def pf_le_def)
  then show ?thesis
    using reviewer_expiry_bearer [OF b, of sha env' token] assms(4,5)
    by (auto split: option.split)
qed

definition steady_env :: "rat \<Rightarrow> rat \<Rightarrow> py_env" where
  "steady_env now mnow = \<lparr>env_clock = (\<lambda>_. Finite now), env_monotonic = (\<lambda>_. Finite mnow),
     env_token = (\<lambda>n k. replicate (Suc n) CHR ''t'')\<rparr>"

lemma issued_bearer_window_witness:
  "\<exists>s'. issue_reviewer_token (\<lambda>t. t) (steady_env 100 5) rv_fresh = (Inr ''t'', s') \<and>
    fst (reviewer_expiry (\<lambda>t. t) (steady_env 7299 7204) (Some ''t'') s') = Inr (Some (Finite 7300))"
proof -
  obtain s' where s': "issue_reviewer_token (\<lambda>t. t) (steady_env 100 5) rv_fresh = (Inr ''t'', s')"
    by (simp add: issue_reviewer_token_def invalidate_reviewer_session_def emit_reviewer_audit_def
        clear_reviewer_token_def steady_env_def rv_fresh_def REVIEWER_BEARER_TTL_SECONDS_def py_run)
  then have "fst (reviewer_expiry (\<lambda>t. t) (steady_env 7299 7204) (Some ''t'') s') = Inr (Some (Finite 7300))"
    using issued_bearer_window [of "\<lambda>t. t" "steady_env 100 5" rv_fresh "''t''" s' 100 5
        "steady_env 7299 7204" 7299 7204 "Some ''t''"]
    by (simp add: steady_env_def)
  with s' show ?thesis by blast
qed

text \<open>
  A reviewer session ends for good: when a check finds a clock outside the bearer's window
  (expired, rolled back, or not a finite number), then no later check, session lookup or logout,
  in any number and with any clock values, accepts any token until a new bearer is issued; this
  holds even when the revocation callback or an audit hook raises.
\<close>

lemma refused_session_stays_ended:
  assumes "bearer s d i x mi mx"
    and "clock_refuses (env_clock env (clock_reads s)) x i (env_monotonic env (monotonic_reads s)) mi mx"
  shows "fst (is_reviewer sha env'' t
      (fold (rv_handle sha env') rs (snd (reviewer_expiry sha env token s)))) = Inr False"
proof -
  have "rv_digest (snd (reviewer_expiry sha env token s)) = None"
    using assms reviewer_expiry_bearer [OF assms(1)] by (simp add: Let_def refused_digest)
  then have "rv_digest (fold (rv_handle sha env') rs (snd (reviewer_expiry sha env token s))) = None"
    by (rule no_bearer.run_inv)
  then show ?thesis by (simp add: is_reviewer_None)
qed


lemma refused_session_stays_ended_witness:
  "fst (is_reviewer (\<lambda>t. t) (steady_env 150 50) (Some ''t'')
      (fold (rv_handle (\<lambda>t. t) (steady_env 150 50)) [CheckReviewer (Some ''t''), Logout (Some ''t'')]
        (snd (reviewer_expiry (\<lambda>t. t) (steady_env 99 50) (Some ''t'')
          (rv_fresh\<lparr>rv_digest := Some ''t'', rv_issued_at := Some (Finite 100),
             rv_expiry := Some (Finite 7300), rv_mono_issued := Some (Finite 5),
             rv_mono_expiry := Some (Finite 7205)\<rparr>))))) = Inr False"
  by (rule refused_session_stays_ended [of _ "''t''" "Finite 100" "Finite 7300" "Finite 5" "Finite 7205"])
    (simp_all add: bearer_def steady_env_def rv_fresh_def clock_refuses_def)

end
