(* ===== verification/M0_Backend.thy ===== *)
theory M0_Backend
  imports Session_Repository Reviewer_Auth
begin

text \<open>
  The volatile demo backend \<open>M0Backend\<close> of \<open>services/core.py\<close>: pairing codes and candidate
  tokens, session actions, answers and submission with idempotency keys, the demo replay and the
  fan-out of events to subscriber queues. The state extends \<open>rv_state\<close> (the reviewer bearer), the
  operations keep the order of the assignments in the code, so that an exception in the middle of
  a method leaves exactly the changes made before it.

  \<open>utc\<close> stands for the formatting of a timestamp as an ISO string, which may raise.
\<close>

section \<open>State\<close>

record m0_backend = rv_state +
  m0_sessions :: session_repo
  m0_duration_seconds :: int
  m0_candidate_tokens :: "(string \<times> string) list"
  m0_candidate_csrf_tokens :: "(string \<times> string) list"
  m0_pairing_codes :: "(string \<times> string) list"
  m0_subscriber_queue_size :: int
  m0_max_subscribers :: nat
  m0_subscribers :: "(string \<times> nat list) list"
  m0_queues :: "(nat \<times> pydict list) list"
  m0_stale :: "nat list"
  m0_next_queue :: nat

definition m0_fresh :: m0_backend where
  "m0_fresh = rv_state.extend rv_fresh (m0_backend.fields [] 2700 [] [] [] 512 8 [] [] [] 0)"

record session_snapshot =
  ss_session_id :: string
  ss_state :: session_state
  ss_event_seq :: int
  ss_submitted :: bool
  ss_duration_seconds :: int
  ss_remaining_seconds :: "int option"
  ss_started_at_utc :: "string option"

section \<open>Fan-out\<close>

text \<open>
  \<open>queue.put_nowait\<close> on the queue \<open>q\<close>; a full queue marks its subscriber as stale. A queue with
  \<open>maxsize\<close> 0 is unbounded.
\<close>

definition put_nowait :: "pydict \<Rightarrow> nat \<Rightarrow> 'm m0_backend_scheme \<Rightarrow> 'm m0_backend_scheme" where
  "put_nowait event q s =
     (let items = (case map_of (m0_queues s) q of None \<Rightarrow> [] | Some xs \<Rightarrow> xs) in
      if 0 < m0_subscriber_queue_size s \<and> m0_subscriber_queue_size s \<le> int (length items)
      then s\<lparr>m0_stale := List.insert q (m0_stale s)\<rparr>
      else s\<lparr>m0_queues := AList.update q (items @ [event]) (m0_queues s)\<rparr>)"

definition subscribers_of :: "'m m0_backend_scheme \<Rightarrow> string \<Rightarrow> nat list" where
  "subscribers_of s sid = (case map_of (m0_subscribers s) sid of None \<Rightarrow> [] | Some qs \<Rightarrow> qs)"

definition fanout :: "string \<Rightarrow> pydict \<Rightarrow> 'm m0_backend_scheme \<Rightarrow> 'm m0_backend_scheme" where
  "fanout sid event s = fold (put_nowait event) (subscribers_of s sid) s"

definition subscriber_slots_available :: "'m m0_backend_scheme \<Rightarrow> string \<Rightarrow> bool" where
  "subscriber_slots_available s sid \<longleftrightarrow> length (subscribers_of s sid) < m0_max_subscribers s"

definition repo_op :: "(session_repo, 'a) pyop \<Rightarrow> ('m m0_backend_scheme, 'a) pyop" where
  "repo_op m s = (case m (m0_sessions s) of (r, repo) \<Rightarrow> (r, s\<lparr>m0_sessions := repo\<rparr>))"

definition append_event :: "string \<Rightarrow> string \<Rightarrow> pydict \<Rightarrow> ('m m0_backend_scheme, pydict) pyop" where
  "append_event sid event_type payload =
     py_bind (repo_op (repo_append_event sid event_type payload)) (\<lambda>e.
     let event = er_as_dict e in
     py_then (py_mod (fanout sid event)) (py_ret event))"

definition append_demo_event :: "string \<Rightarrow> pydict \<Rightarrow> ('m m0_backend_scheme, pydict) pyop" where
  "append_demo_event sid payload = append_event sid ''DemoEvent'' payload"

section \<open>Sessions, pairing and candidate tokens\<close>

text \<open>An assignment to fields of the record the repository holds.\<close>

definition set_record :: "string \<Rightarrow> (session_record \<Rightarrow> session_record) \<Rightarrow> ('m m0_backend_scheme, unit) pyop" where
  "set_record sid f = py_mod (\<lambda>s. case map_of (m0_sessions s) sid of
     None \<Rightarrow> s | Some rec \<Rightarrow> s\<lparr>m0_sessions := AList.update sid (f rec) (m0_sessions s)\<rparr>)"

definition create_session :: "py_env \<Rightarrow> ('m m0_backend_scheme, session_record \<times> string) pyop" where
  "create_session env =
     py_bind (token_urlsafe env 18) (\<lambda>session_id.
     py_bind (token_urlsafe env 12) (\<lambda>pairing_code.
     py_bind (repo_op (repo_create session_id)) (\<lambda>_.
     py_bind (py_get m0_duration_seconds) (\<lambda>duration.
     py_then (set_record session_id (\<lambda>rec. rec\<lparr>sr_duration_seconds := duration\<rparr>))
    (py_then (py_mod (\<lambda>s. s\<lparr>m0_pairing_codes :=
         AList.update pairing_code session_id (m0_pairing_codes s)\<rparr>))
    (py_ret ((new_session_record session_id)\<lparr>sr_duration_seconds := duration\<rparr>, pairing_code)))))))"

definition consume_pairing_code ::
    "py_env \<Rightarrow> string \<Rightarrow> ('m m0_backend_scheme, (string \<times> string) option) pyop" where
  "consume_pairing_code env code =
     py_bind (py_get (\<lambda>s. map_of (m0_pairing_codes s) code)) (\<lambda>found.
     py_then (py_mod (\<lambda>s. s\<lparr>m0_pairing_codes := AList.delete code (m0_pairing_codes s)\<rparr>))
     (case found of
        None \<Rightarrow> py_ret None
      | Some session_id \<Rightarrow>
          py_bind (token_urlsafe env 32) (\<lambda>token.
          py_then (py_mod (\<lambda>s. s\<lparr>m0_candidate_tokens :=
              AList.update token session_id (m0_candidate_tokens s)\<rparr>))
          (py_ret (Some (token, session_id))))))"

definition candidate_session :: "'m m0_backend_scheme \<Rightarrow> string option \<Rightarrow> string option" where
  "candidate_session s token =
     (case token of None \<Rightarrow> None | Some t \<Rightarrow> map_of (m0_candidate_tokens s) t)"

definition issue_candidate_csrf :: "py_env \<Rightarrow> string \<Rightarrow> ('m m0_backend_scheme, string) pyop" where
  "issue_candidate_csrf env token =
     py_bind (token_urlsafe env 32) (\<lambda>csrf.
     py_then (py_mod (\<lambda>s. s\<lparr>m0_candidate_csrf_tokens :=
         AList.update token csrf (m0_candidate_csrf_tokens s)\<rparr>))
     (py_ret csrf))"

definition has_candidate_csrf :: "'m m0_backend_scheme \<Rightarrow> string option \<Rightarrow> string option \<Rightarrow> bool" where
  "has_candidate_csrf s token csrf =
     (case (token, csrf) of
        (Some t, Some c) \<Rightarrow> map_of (m0_candidate_csrf_tokens s) t = Some c
      | _ \<Rightarrow> False)"

definition remaining_seconds :: "int \<Rightarrow> int \<Rightarrow> int" where
  "remaining_seconds duration elapsed = max 0 (duration - max 0 elapsed)"

definition snapshot_of ::
    "(pyfloat \<Rightarrow> py_error + string) \<Rightarrow> py_env \<Rightarrow> session_record \<Rightarrow> ('m m0_backend_scheme, session_snapshot) pyop" where
  "snapshot_of utc env rec =
     (let snap = \<lambda>remaining started.
        \<lparr>ss_session_id = sr_session_id rec, ss_state = sr_state rec,
         ss_event_seq = sr_event_seq rec, ss_submitted = sr_submitted rec,
         ss_duration_seconds = sr_duration_seconds rec,
         ss_remaining_seconds = remaining, ss_started_at_utc = started\<rparr>
      in case sr_started_at rec of
           None \<Rightarrow> py_ret (snap None None)
         | Some started_at \<Rightarrow>
             py_bind (read_clock env) (\<lambda>now.
             py_bind (py_lift (pf_int (pf_sub now started_at))) (\<lambda>elapsed.
             py_bind (py_lift (utc started_at)) (\<lambda>iso.
             py_ret (snap (Some (remaining_seconds (sr_duration_seconds rec) elapsed)) (Some iso))))))"

definition snapshot ::
    "(pyfloat \<Rightarrow> py_error + string) \<Rightarrow> py_env \<Rightarrow> string \<Rightarrow> ('m m0_backend_scheme, session_snapshot option) pyop" where
  "snapshot utc env sid =
     py_bind (py_get (\<lambda>s. repo_get (m0_sessions s) sid)) (\<lambda>found.
     case found of
       None \<Rightarrow> py_ret None
     | Some rec \<Rightarrow> py_bind (snapshot_of utc env rec) (\<lambda>snap. py_ret (Some snap)))"

definition apply_session_action ::
    "(pyfloat \<Rightarrow> py_error + string) \<Rightarrow> py_env \<Rightarrow> string \<Rightarrow> string \<Rightarrow>
     ('m m0_backend_scheme, session_snapshot option) pyop" where
  "apply_session_action utc env sid action =
     py_bind (py_get (\<lambda>s. repo_get (m0_sessions s) sid)) (\<lambda>found.
     case found of
       None \<Rightarrow> py_ret None
     | Some rec \<Rightarrow>
         py_bind (py_lift (transition (sr_state rec) action)) (\<lambda>next_state.
         py_then
           (if next_state \<noteq> sr_state rec then
              py_then
                (if action = ''start'' then
                   py_bind (read_clock env) (\<lambda>now.
                     set_record sid (\<lambda>r. r\<lparr>sr_started_at := Some now\<rparr>))
                 else py_ret ())
             (py_then (set_record sid (\<lambda>r. r\<lparr>sr_state := next_state\<rparr>))
             (py_bind (append_event sid ''SessionStateChanged''
                 [(''state'', JStr (session_state_str next_state))]) (\<lambda>_. py_ret ())))
            else py_ret ())
         (snapshot utc env sid)))"

section \<open>Answers and submission\<close>

definition record_answer ::
    "string \<Rightarrow> string \<Rightarrow> pydict \<Rightarrow> ('m m0_backend_scheme, pydict) pyop" where
  "record_answer sid key payload =
     py_bind (py_get (\<lambda>s. repo_get (m0_sessions s) sid)) (\<lambda>found.
     case found of
       None \<Rightarrow> py_raise (KeyError sid)
     | Some rec \<Rightarrow>
         (case map_of (sr_answers rec) key of
            Some existing \<Rightarrow>
              if \<not> dict_eq existing payload then
                py_raise (IdempotencyConflict ''Idempotency key was reused with a different answer payload'')
              else
                (case map_of (sr_answer_results rec) key of
                   None \<Rightarrow> py_raise (KeyError key) | Some result \<Rightarrow> py_ret result)
          | None \<Rightarrow>
              if sr_state rec \<noteq> RECORDING \<or> sr_submitted rec then
                py_raise (InvalidTransition ''Answers are accepted only while the session is recording'')
              else if MAX_ANSWERS_PER_SESSION \<le> int (length (sr_answers rec)) then
                py_raise (InvalidTransition ''ANSWER_LIMIT_REACHED'')
              else
                let result = [(''schema_version'', JInt 1), (''accepted'', JBool True)] in
                py_then (set_record sid (\<lambda>r. r\<lparr>sr_answers := AList.update key payload (sr_answers r),
                   sr_answer_results := AList.update key result (sr_answer_results r)\<rparr>))
                (case map_of payload ''answer_id'' of
                   None \<Rightarrow> py_raise (KeyError ''answer_id'')
                 | Some answer_id \<Rightarrow>
                     py_bind (append_event sid ''AnswerRecorded'' [(''answer_id'', answer_id)]) (\<lambda>_.
                     py_ret result))))"

definition submit_exam :: "string \<Rightarrow> string \<Rightarrow> ('m m0_backend_scheme, pydict) pyop" where
  "submit_exam sid key =
     py_bind (py_get (\<lambda>s. repo_get (m0_sessions s) sid)) (\<lambda>found.
     case found of
       None \<Rightarrow> py_raise (KeyError sid)
     | Some rec \<Rightarrow>
         (case map_of (sr_submit_results rec) key of
            Some existing \<Rightarrow> py_ret existing
          | None \<Rightarrow>
              if sr_state rec \<noteq> RECORDING then
                py_raise (InvalidTransition ''Exam can be submitted only while the session is recording'')
              else if sr_submitted rec then
                py_raise (IdempotencyConflict
                  ''Exam was already submitted with a different idempotency key'')
              else
                let result = [(''schema_version'', JInt 1), (''submitted'', JBool True)] in
                py_then (set_record sid (\<lambda>r. r\<lparr>sr_submitted := True,
                   sr_submit_results := AList.update key result (sr_submit_results r)\<rparr>))
               (py_bind (append_event sid ''ExamSubmitted'' []) (\<lambda>_.
                py_ret result))))"

definition events_after :: "'m m0_backend_scheme \<Rightarrow> string \<Rightarrow> int \<Rightarrow> pydict list" where
  "events_after s sid n = map er_as_dict (repo_events_after (m0_sessions s) sid n)"

section \<open>The demo replay\<close>

text \<open>
  The lines of the fixture file, parsed; \<open>None\<close> when the file is missing. \<open>_fixture_events\<close>
  checks them in order before anything is replayed. A Boolean is a Python \<open>int\<close>.
\<close>

definition CONFIDENCE_STATUSES :: "string list" where
  "CONFIDENCE_STATUSES =
     [''MODEL_UNAVAILABLE'', ''INSUFFICIENT'', ''CALIBRATED'', ''NOT_APPLICABLE'']"

fun py_int :: "json option \<Rightarrow> int option" where
  "py_int (Some (JInt n)) = Some n"
| "py_int (Some (JBool b)) = Some (if b then 1 else 0)"
| "py_int _ = None"

fun check_fixtures :: "int \<Rightarrow> json list \<Rightarrow> py_error + unit" where
  "check_fixtures previous [] = Inr ()"
| "check_fixtures previous (JObj f # fs) =
     (case py_int (map_of f ''event_seq'') of
        None \<Rightarrow> Inl (ValueError ''Demo fixture event_seq must be strictly increasing'')
      | Some seq \<Rightarrow>
          if seq \<le> previous then
            Inl (ValueError ''Demo fixture event_seq must be strictly increasing'')
          else if map_of f ''confidence'' \<notin> {None, Some JNull} then
            Inl (ValueError ''Demo fixture confidence must be null'')
          else if \<not> (case map_of f ''confidence_status'' of
              Some (JStr c) \<Rightarrow> c \<in> set CONFIDENCE_STATUSES | _ \<Rightarrow> False) then
            Inl (ValueError ''Demo fixture confidence_status is invalid'')
          else if \<not> (case (map_of f ''event_type'', map_of f ''payload'') of
              (Some (JStr _), Some (JObj _)) \<Rightarrow> True | _ \<Rightarrow> False) then
            Inl (ValueError ''Demo fixture event shape is invalid'')
          else check_fixtures seq fs)"
| "check_fixtures previous (f # fs) = Inl (AttributeError ''get'')"

definition fixture_events :: "json list option \<Rightarrow> py_error + json list" where
  "fixture_events file =
     (case file of
        None \<Rightarrow> Inl (FileNotFoundError ''Deterministic demo fixture is missing'')
      | Some events \<Rightarrow> (case check_fixtures 0 events of Inl e \<Rightarrow> Inl e | Inr _ \<Rightarrow> Inr events))"

fun fixture_payload :: "string list \<Rightarrow> json \<Rightarrow> py_error + pydict" where
  "fixture_payload [] f = Inr []"
| "fixture_payload (k # ks) f =
     (case f of
        JObj d \<Rightarrow>
          (case map_of d k of
             None \<Rightarrow> Inl (KeyError k)
           | Some v \<Rightarrow>
               (case fixture_payload ks f of
                  Inl e \<Rightarrow> Inl e
                | Inr p \<Rightarrow> Inr ((if k = ''event_type'' then ''fixture_event_type'' else k, v) # p)))
      | _ \<Rightarrow> Inl (AttributeError ''get''))"

definition FIXTURE_KEYS :: "string list" where
  "FIXTURE_KEYS = [''event_type'', ''confidence'', ''confidence_status'', ''source_kind'', ''payload'']"

text \<open>Python's \<open>xs[-n:]\<close>: the last \<open>n\<close> elements, and all of them when \<open>n = 0\<close>.\<close>

definition py_last_n :: "nat \<Rightarrow> 'a list \<Rightarrow> 'a list" where
  "py_last_n n xs = (if n = 0 then xs else drop (length xs - n) xs)"

definition replay_demo_alerts ::
    "json list option \<Rightarrow> string \<Rightarrow> ('m m0_backend_scheme, pydict list) pyop" where
  "replay_demo_alerts file sid =
     py_bind (py_get (\<lambda>s. repo_get (m0_sessions s) sid)) (\<lambda>found.
     py_then (py_guard (found = None) (KeyError sid))
    (py_bind (py_lift (fixture_events file)) (\<lambda>events.
     py_then (py_for events (\<lambda>f.
        py_bind (py_lift (fixture_payload FIXTURE_KEYS f)) (\<lambda>payload.
        py_bind (append_demo_event sid payload) (\<lambda>_. py_ret ()))))
    (py_get (\<lambda>s. py_last_n (length events) (events_after s sid 0))))))"

end
