(* ===== verification/M0_Properties.thy ===== *)
theory M0_Properties
  imports M0_Backend
begin

text \<open>
  The invariant of the demo backend under every request, and what the idempotency keys promise:
  a recorded answer is replayed unchanged for ever, and after a submission no answer is added.
  Every property is about runs of the requests of \<open>m0_request\<close>, in any order and with any
  arguments.
\<close>

section \<open>Requests\<close>

datatype m0_request =
    CreateSession
  | ConsumePairing string
  | IssueCsrf string
  | SessionAction string string
  | RecordAnswer string string pydict
  | SubmitExam string string
  | DemoEvent string pydict
  | ReplayDemo string
  | Snapshot string
  | IssueReviewer
  | Reviewer rv_request

fun m0_handle :: "(string \<Rightarrow> string) \<Rightarrow> (pyfloat \<Rightarrow> py_error + string) \<Rightarrow> json list option \<Rightarrow> py_env \<Rightarrow>
    m0_request \<Rightarrow> m0_backend \<Rightarrow> m0_backend" where
  "m0_handle sha utc fx env CreateSession s = snd (create_session env s)"
| "m0_handle sha utc fx env (ConsumePairing c) s = snd (consume_pairing_code env c s)"
| "m0_handle sha utc fx env (IssueCsrf t) s = snd (issue_candidate_csrf env t s)"
| "m0_handle sha utc fx env (SessionAction sid a) s = snd (apply_session_action utc env sid a s)"
| "m0_handle sha utc fx env (RecordAnswer sid k p) s = snd (record_answer sid k p s)"
| "m0_handle sha utc fx env (SubmitExam sid k) s = snd (submit_exam sid k s)"
| "m0_handle sha utc fx env (DemoEvent sid p) s = snd (append_demo_event sid p s)"
| "m0_handle sha utc fx env (ReplayDemo sid) s = snd (replay_demo_alerts fx sid s)"
| "m0_handle sha utc fx env (Snapshot sid) s = snd (snapshot utc env sid s)"
| "m0_handle sha utc fx env IssueReviewer s = snd (issue_reviewer_token sha env s)"
| "m0_handle sha utc fx env (Reviewer r) s = rv_handle sha env r s"

section \<open>Which operations touch the repository\<close>

lemma put_nowait_sessions [simp]: "m0_sessions (put_nowait e q s) = m0_sessions s"
  by (simp add: put_nowait_def Let_def)

lemma fanout_sessions [simp]: "m0_sessions (fanout sid e s) = m0_sessions s"
proof -
  have "m0_sessions (fold (put_nowait e) qs s) = m0_sessions s" for qs
    by (induction qs arbitrary: s) auto
  then show ?thesis by (simp add: fanout_def)
qed

lemma world_keeps_sessions [keeps_intros]:
  "keeps (\<lambda>s :: 'm m0_backend_scheme. P (m0_sessions s)) (read_clock env)"
  "keeps (\<lambda>s :: 'm m0_backend_scheme. P (m0_sessions s)) (read_monotonic env)"
  "keeps (\<lambda>s :: 'm m0_backend_scheme. P (m0_sessions s)) (token_urlsafe env n)"
  by (simp_all add: keeps_def py_run)

lemma bearer_keeps_sessions [keeps_intros]:
  "keeps (\<lambda>s :: 'm m0_backend_scheme. P (m0_sessions s)) (emit_reviewer_audit k)"
  "keeps (\<lambda>s :: 'm m0_backend_scheme. P (m0_sessions s)) (invalidate_reviewer_session k)"
proof -
  show e: "keeps (\<lambda>s :: 'm m0_backend_scheme. P (m0_sessions s)) (emit_reviewer_audit k)" for k
    unfolding emit_reviewer_audit_def by (intro keeps_intros) simp
  show "keeps (\<lambda>s :: 'm m0_backend_scheme. P (m0_sessions s)) (invalidate_reviewer_session k)"
    unfolding invalidate_reviewer_session_def clear_reviewer_token_def
    by (intro keeps_intros e) simp_all
qed

lemma reviewer_keeps_sessions [keeps_intros]:
  "keeps (\<lambda>s :: 'm m0_backend_scheme. P (m0_sessions s)) (issue_reviewer_token sha env)"
  "keeps (\<lambda>s :: 'm m0_backend_scheme. P (m0_sessions s)) (reviewer_expiry sha env t)"
  "keeps (\<lambda>s :: 'm m0_backend_scheme. P (m0_sessions s)) (revoke_reviewer_token sha t)"
  unfolding issue_reviewer_token_def reviewer_expiry_def revoke_reviewer_token_def
  by (intro keeps_intros; simp)+

lemma rv_handle_sessions [simp]:
  "m0_sessions (rv_handle sha env r s) = m0_sessions (s :: 'm m0_backend_scheme)"
proof -
  let ?P = "\<lambda>s' :: 'm m0_backend_scheme. m0_sessions s' = m0_sessions s"
  have "keeps ?P (is_reviewer sha env t)" "keeps ?P (reviewer_session_digest sha env t)"
    "keeps ?P (revoke_reviewer_token sha t)" for t
    unfolding is_reviewer_def reviewer_session_digest_def
    by (intro keeps_intros reviewer_keeps_sessions [where P = "\<lambda>x. x = m0_sessions s"])+
  then show ?thesis
    by (cases r) (simp_all add: keepsD [where P = ?P])
qed


subsection \<open>Rules for the operations that write it\<close>

lemma then_set_record [simp]:
  "map_of (m0_sessions s) sid = Some rec \<Longrightarrow>
   py_then (set_record sid f) k s = k (s\<lparr>m0_sessions := AList.update sid (f rec) (m0_sessions s)\<rparr>)"
  by (simp add: set_record_def py_run)

lemma bind_get [simp]: "py_bind (py_get f) g s = g (f s) s"
  by (simp add: py_run)

lemma keeps_append_event [keeps_intros]:
  "(\<And>R. P R \<Longrightarrow> P (snd (repo_append_event sid t p R))) \<Longrightarrow>
   keeps (\<lambda>s :: 'm m0_backend_scheme. P (m0_sessions s)) (append_event sid t p)"
  unfolding append_event_def
  by (auto simp: keeps_def repo_op_def py_run Let_def split: prod.splits sum.splits)
    (metis snd_conv)+

lemma keeps_snapshot [keeps_intros]:
  "keeps (\<lambda>s :: 'm m0_backend_scheme. P (m0_sessions s)) (snapshot utc env sid)"
  unfolding snapshot_def snapshot_of_def Let_def by (intro keeps_intros)

lemma keeps_tokens [keeps_intros]:
  "keeps (\<lambda>s :: 'm m0_backend_scheme. P (m0_sessions s)) (consume_pairing_code env c)"
  "keeps (\<lambda>s :: 'm m0_backend_scheme. P (m0_sessions s)) (issue_candidate_csrf env tok)"
  unfolding consume_pairing_code_def issue_candidate_csrf_def by (intro keeps_intros; simp)+

text \<open>A predicate on repositories that every change a request can make preserves.\<close>

locale repo_invariant =
  fixes P :: "session_repo \<Rightarrow> bool" and new_id :: "string \<Rightarrow> bool"
  assumes append_ok: "P R \<Longrightarrow> P (snd (repo_append_event sid t p R))"
    and create_ok: "P R \<Longrightarrow> new_id sid \<Longrightarrow>
      P (AList.update sid ((new_session_record sid)\<lparr>sr_duration_seconds := d\<rparr>) R)"
    and action_ok: "P R \<Longrightarrow> map_of R sid = Some rec \<Longrightarrow> transition (sr_state rec) a = Inr st \<Longrightarrow>
      st \<noteq> sr_state rec \<Longrightarrow>
      P (AList.update sid (rec\<lparr>sr_started_at := (if a = ''start'' then Some now else sr_started_at rec),
           sr_state := st\<rparr>) R)"
    and answer_ok: "P R \<Longrightarrow> map_of R sid = Some rec \<Longrightarrow> map_of (sr_answers rec) k = None \<Longrightarrow>
      sr_state rec = RECORDING \<Longrightarrow> \<not> sr_submitted rec \<Longrightarrow>
      int (length (sr_answers rec)) < MAX_ANSWERS_PER_SESSION \<Longrightarrow>
      P (AList.update sid (rec\<lparr>sr_answers := AList.update k p (sr_answers rec),
           sr_answer_results := AList.update k [(''schema_version'', JInt 1), (''accepted'', JBool True)]
             (sr_answer_results rec)\<rparr>) R)"
    and submit_ok: "P R \<Longrightarrow> map_of R sid = Some rec \<Longrightarrow> map_of (sr_submit_results rec) k = None \<Longrightarrow>
      sr_state rec = RECORDING \<Longrightarrow> \<not> sr_submitted rec \<Longrightarrow>
      P (AList.update sid (rec\<lparr>sr_submitted := True,
           sr_submit_results := AList.update k [(''schema_version'', JInt 1), (''submitted'', JBool True)]
             (sr_submit_results rec)\<rparr>) R)"
begin

lemma append_event_keeps:
  "keeps (\<lambda>s :: 'm m0_backend_scheme. P (m0_sessions s)) (append_event sid t p)"
  by (intro keeps_intros append_ok)

lemma answer_keeps:
  "keeps (\<lambda>s :: 'm m0_backend_scheme. P (m0_sessions s)) (record_answer sid k p)"
proof (rule keepsI)
  fix s :: "'m m0_backend_scheme" assume P: "P (m0_sessions s)"
  have K: "keeps (\<lambda>s :: 'm m0_backend_scheme. P (m0_sessions s))
      (py_bind (append_event sid ''AnswerRecorded'' [(''answer_id'', a)]) (\<lambda>_. py_ret r))"
    for r :: pydict and a
    by (intro keeps_intros append_ok)
  show "P (m0_sessions (snd (record_answer sid k p s)))"
    using P answer_ok [OF P, of sid _ k p]
    by (auto simp: record_answer_def repo_get_def py_ret_def py_raise_def Let_def not_le
        split: option.split intro!: keepsD [OF K])
qed

lemma submit_keeps:
  "keeps (\<lambda>s :: 'm m0_backend_scheme. P (m0_sessions s)) (submit_exam sid k)"
proof (rule keepsI)
  fix s :: "'m m0_backend_scheme" assume P: "P (m0_sessions s)"
  have K: "keeps (\<lambda>s :: 'm m0_backend_scheme. P (m0_sessions s))
      (py_bind (append_event sid ''ExamSubmitted'' []) (\<lambda>_. py_ret r))" for r :: pydict
    by (intro keeps_intros append_ok)
  show "P (m0_sessions (snd (submit_exam sid k s)))"
    using P submit_ok [OF P, of sid _ k]
    by (auto simp: submit_exam_def repo_get_def py_ret_def py_raise_def Let_def
        split: option.split intro!: keepsD [OF K])
qed

lemma action_keeps:
  "keeps (\<lambda>s :: 'm m0_backend_scheme. P (m0_sessions s)) (apply_session_action utc env sid a)"
proof (rule keepsI)
  fix s :: "'m m0_backend_scheme" assume P: "P (m0_sessions s)"
  have S: "keeps (\<lambda>s :: 'm m0_backend_scheme. P (m0_sessions s)) (snapshot utc env sid)"
    and A: "keeps (\<lambda>s :: 'm m0_backend_scheme. P (m0_sessions s))
      (py_then (py_bind (append_event sid t p) (\<lambda>_. py_ret ())) (snapshot utc env sid))" for t p
    by (intro keeps_intros append_ok)+
  show "P (m0_sessions (snd (apply_session_action utc env sid a s)))"
  proof (cases "map_of (m0_sessions s) sid")
    case None
    with P show ?thesis by (simp add: apply_session_action_def repo_get_def py_ret_def)
  next
    case (Some rec)
    show ?thesis
    proof (cases "transition (sr_state rec) a")
      case (Inl e)
      with P Some show ?thesis
        by (simp add: apply_session_action_def repo_get_def py_bind_def py_get_def py_lift_def)
    next
      case (Inr st)
      let ?rec = "\<lambda>now. rec\<lparr>sr_started_at := (if a = ''start'' then Some now else sr_started_at rec),
        sr_state := st\<rparr>"
      let ?tail = "py_then (py_bind (append_event sid ''SessionStateChanged''
        [(''state'', JStr (session_state_str st))]) (\<lambda>_. py_ret ())) (snapshot utc env sid)"
      show ?thesis
      proof (cases "st = sr_state rec")
        case True
        with Some Inr keepsD [OF S P] show ?thesis
          by (simp add: apply_session_action_def repo_get_def py_bind_def py_get_def py_lift_def
              py_then_def py_ret_def)
      next
        case False
        let ?s = "if a = ''start'' then s\<lparr>clock_reads := Suc (clock_reads s)\<rparr> else s"
        let ?now = "env_clock env (clock_reads s)"
        have "apply_session_action utc env sid a s =
          ?tail (?s\<lparr>m0_sessions := AList.update sid (?rec ?now) (m0_sessions s)\<rparr>)"
          using Some Inr False
          by (cases "a = ''start''")
            (simp_all add: apply_session_action_def repo_get_def set_record_def py_run)
        moreover have "P (AList.update sid (?rec ?now) (m0_sessions s))"
          using action_ok [OF P Some Inr False] .
        ultimately show ?thesis using keepsD [OF A] by simp
      qed
    qed
  qed
qed

lemma create_keeps:
  assumes "\<And>n. new_id (env_token env n 18)"
  shows "keeps (\<lambda>s :: 'm m0_backend_scheme. P (m0_sessions s)) (create_session env)"
  using create_ok assms
  by (simp add: keeps_def create_session_def repo_op_def repo_create_def set_record_def py_run)

lemma replay_keeps:
  "keeps (\<lambda>s :: 'm m0_backend_scheme. P (m0_sessions s)) (replay_demo_alerts fx sid)"
  unfolding replay_demo_alerts_def append_demo_event_def by (intro keeps_intros append_ok)

lemma handle_keeps:
  assumes "\<And>n. new_id (env_token env n 18)" and "P (m0_sessions s)"
  shows "P (m0_sessions (m0_handle sha utc fx env r s))"
  using assms(2)
  by (cases r)
    (auto simp: append_demo_event_def intro: keepsD create_keeps [OF assms(1)] action_keeps
      answer_keeps submit_keeps append_event_keeps replay_keeps keeps_tokens keeps_snapshot
      reviewer_keeps_sessions)

end

section \<open>The invariant of the session records\<close>

text \<open>
  What holds of a stored session after any sequence of requests: a gap-free event log, one stored
  result per answer, the answer and event limits, a start time exactly from RECORDING on, and an
  answer or a submission only of a session that reached RECORDING.
\<close>

definition session_ok :: "session_record \<Rightarrow> bool" where
  "session_ok rec \<longleftrightarrow>
     log_ok rec \<and> map fst (sr_answers rec) = map fst (sr_answer_results rec) \<and>
     distinct (map fst (sr_answers rec)) \<and> int (length (sr_answers rec)) \<le> MAX_ANSWERS_PER_SESSION \<and>
     (sr_submitted rec \<longleftrightarrow> length (sr_submit_results rec) = 1) \<and> length (sr_submit_results rec) \<le> 1 \<and>
     (sr_started_at rec \<noteq> None \<longleftrightarrow> RECORDING \<le> sr_state rec) \<and> sr_state rec \<le> SEALED \<and>
     (sr_answers rec \<noteq> [] \<or> sr_submitted rec \<longrightarrow> RECORDING \<le> sr_state rec)"

definition repo_ok :: "session_repo \<Rightarrow> bool" where
  "repo_ok R \<longleftrightarrow> (\<forall>sid rec. map_of R sid = Some rec \<longrightarrow> session_ok rec \<and> sr_session_id rec = sid)"

lemma repo_ok_update:
  "repo_ok R \<Longrightarrow> session_ok rec \<Longrightarrow> sr_session_id rec = sid \<Longrightarrow> repo_ok (AList.update sid rec R)"
  by (simp add: repo_ok_def)

lemma repo_okD: "repo_ok R \<Longrightarrow> map_of R sid = Some rec \<Longrightarrow> session_ok rec \<and> sr_session_id rec = sid"
  by (simp add: repo_ok_def)

lemma repo_ok_modify:
  assumes "repo_ok R" and "map_of R sid = Some rec" and "session_ok rec \<Longrightarrow> session_ok rec'"
    and "sr_session_id rec' = sr_session_id rec"
  shows "repo_ok (AList.update sid rec' R)"
  using assms by (simp add: repo_okD repo_ok_update)

lemma fst_update_new: "map_of d k = None \<Longrightarrow> map fst (AList.update k v d) = map fst d @ [k]"
  by (induction d) auto

lemma length_update_new: "map_of d k = None \<Longrightarrow> length (AList.update k v d) = Suc (length d)"
  by (induction d) (auto split: if_splits)

lemma session_ok_action:
  assumes "session_ok rec" and "transition (sr_state rec) a = Inr st" and "st \<noteq> sr_state rec"
  shows "session_ok (rec\<lparr>sr_started_at := (if a = ''start'' then Some now else sr_started_at rec),
    sr_state := st\<rparr>)"
proof -
  have "sr_state rec \<le> st" "st \<le> SEALED" "RECORDING \<le> st \<longleftrightarrow> a = ''start'' \<or> RECORDING \<le> sr_state rec"
    "a = ''start'' \<longrightarrow> \<not> RECORDING \<le> sr_state rec"
    using assms(2,3) by (auto simp: transition_Inr_iff less_eq_session_state_def)
  with assms(1) show ?thesis by (auto simp: session_ok_def log_ok_def)
qed

interpretation repo_ok: repo_invariant repo_ok "\<lambda>_. True"
proof
  show "repo_ok R \<Longrightarrow> repo_ok (snd (repo_append_event sid t p R))" for R sid t p
    by (auto simp: repo_append_event_def Let_def not_le split: option.split
        intro!: repo_ok_modify) (auto simp: session_ok_def log_ok_append)
  show "repo_ok R \<Longrightarrow> repo_ok (AList.update sid ((new_session_record sid)\<lparr>sr_duration_seconds := d\<rparr>) R)"
    for R sid d
    by (rule repo_ok_update)
      (auto simp: session_ok_def log_ok_def new_session_record_def less_eq_session_state_def)
  show "repo_ok R \<Longrightarrow> map_of R sid = Some rec \<Longrightarrow> transition (sr_state rec) a = Inr st \<Longrightarrow>
      st \<noteq> sr_state rec \<Longrightarrow>
      repo_ok (AList.update sid (rec\<lparr>sr_started_at := (if a = ''start'' then Some now else sr_started_at rec),
           sr_state := st\<rparr>) R)" for R sid rec a st now
    by (erule (1) repo_ok_modify) (rule session_ok_action, simp_all)
  show "repo_ok R \<Longrightarrow> map_of R sid = Some rec \<Longrightarrow> map_of (sr_answers rec) k = None \<Longrightarrow>
      sr_state rec = RECORDING \<Longrightarrow> \<not> sr_submitted rec \<Longrightarrow>
      int (length (sr_answers rec)) < MAX_ANSWERS_PER_SESSION \<Longrightarrow>
      repo_ok (AList.update sid (rec\<lparr>sr_answers := AList.update k p (sr_answers rec),
           sr_answer_results := AList.update k [(''schema_version'', JInt 1), (''accepted'', JBool True)]
             (sr_answer_results rec)\<rparr>) R)" for R sid rec k p
  proof (erule (1) repo_ok_modify)
    assume ok: "session_ok rec" and new: "map_of (sr_answers rec) k = None"
      and "sr_state rec = RECORDING" "\<not> sr_submitted rec"
      and "int (length (sr_answers rec)) < MAX_ANSWERS_PER_SESSION"
    moreover have out: "k \<notin> set (map fst (sr_answer_results rec))"
      using ok new by (metis session_ok_def map_of_eq_None_iff set_map)
    moreover from out have "map_of (sr_answer_results rec) k = None" by (simp add: map_of_eq_None_iff)
    moreover have "distinct (map fst (sr_answer_results rec))" using ok by (metis session_ok_def)
    ultimately show "session_ok (rec\<lparr>sr_answers := AList.update k p (sr_answers rec),
           sr_answer_results := AList.update k [(''schema_version'', JInt 1), (''accepted'', JBool True)]
             (sr_answer_results rec)\<rparr>)"
      by (simp add: session_ok_def log_ok_def fst_update_new length_update_new)
  qed simp
  show "repo_ok R \<Longrightarrow> map_of R sid = Some rec \<Longrightarrow> map_of (sr_submit_results rec) k = None \<Longrightarrow>
      sr_state rec = RECORDING \<Longrightarrow> \<not> sr_submitted rec \<Longrightarrow>
      repo_ok (AList.update sid (rec\<lparr>sr_submitted := True,
           sr_submit_results := AList.update k [(''schema_version'', JInt 1), (''submitted'', JBool True)]
             (sr_submit_results rec)\<rparr>) R)" for R sid rec k
    by (erule (1) repo_ok_modify)
      (auto simp: session_ok_def log_ok_def length_update_new le_Suc_eq less_eq_session_state_def)
qed

interpretation m0_requests: request_system "m0_handle sha utc fx env" "\<lambda>s. repo_ok (m0_sessions s)"
  for sha utc fx env
  by unfold_locales (simp add: repo_ok.handle_keeps)

text \<open>
  Claim C2. After any sequence of requests to a fresh backend, with any clock and any token
  generator, every stored session satisfies the record invariant: its event numbers are
  \<open>1, \<dots>, event_seq\<close>, at most 10,000 events and 1,000 answers are kept, each answer has exactly one
  stored result, it was submitted at most once, and it has a start time exactly when it reached
  RECORDING.
\<close>
theorem sessions_ok_after_any_run:
  "map_of (m0_sessions (fold (m0_handle sha utc fx env) rs m0_fresh)) sid = Some rec
   \<Longrightarrow> session_ok rec \<and> sr_session_id rec = sid"
  using m0_requests.run_inv [of "m0_fresh" sha utc fx env rs]
  by (auto simp: m0_fresh_def repo_ok_def rv_state.defs m0_backend.defs)

text \<open>A concrete run for the witnesses: a session that was created, confirmed and started.\<close>

definition demo_env :: "char \<Rightarrow> py_env" where
  "demo_env c = \<lparr>env_clock = \<lambda>_. Finite 0, env_monotonic = \<lambda>_. Finite 0,
     env_token = \<lambda>n _. c # replicate n CHR ''t''\<rparr>"

definition demo_run :: "char \<Rightarrow> m0_request list \<Rightarrow> m0_backend \<Rightarrow> m0_backend" where
  "demo_run c rs s = fold (m0_handle (\<lambda>x. x) (\<lambda>_. Inr ''utc'') None (demo_env c)) rs s"

definition demo_start :: "m0_request list" where
  "demo_start = [CreateSession, SessionAction ''a'' ''consent'', SessionAction ''a'' ''preflight'',
     SessionAction ''a'' ''start'']"

theorem sessions_ok_after_any_run_witness:
  "\<exists>rec. map_of (m0_sessions (demo_run CHR ''a'' demo_start m0_fresh)) ''a'' = Some rec \<and>
     sr_state rec = RECORDING \<and> session_ok rec"
proof -
  have "map_option sr_state (map_of (m0_sessions (demo_run CHR ''a'' demo_start m0_fresh)) ''a'') = Some RECORDING"
    by code_simp
  then obtain rec where "map_of (m0_sessions (demo_run CHR ''a'' demo_start m0_fresh)) ''a'' = Some rec"
    and "sr_state rec = RECORDING" by auto
  with sessions_ok_after_any_run [of "\<lambda>x. x" "\<lambda>_. Inr ''utc''" None "demo_env CHR ''a''" demo_start "''a''" rec]
  show ?thesis unfolding demo_run_def by blast
qed

section \<open>Idempotency keys\<close>

text \<open>Requests that cannot create the session \<open>sid\<close> again: its identifier is not drawn twice.\<close>

definition holds_answer :: "string \<Rightarrow> string \<Rightarrow> pydict \<Rightarrow> pydict \<Rightarrow> session_repo \<Rightarrow> bool" where
  "holds_answer sid k p r R \<longleftrightarrow> (\<exists>rec. map_of R sid = Some rec \<and>
     map_of (sr_answers rec) k = Some p \<and> map_of (sr_answer_results rec) k = Some r)"

interpretation holds_answer: repo_invariant "holds_answer sid k p r" "\<lambda>i. i \<noteq> sid" for sid k p r
  by unfold_locales
    (auto simp: holds_answer_def repo_append_event_def Let_def split: option.split if_split)

definition fresh_ids :: "py_env \<Rightarrow> string \<Rightarrow> bool" where
  "fresh_ids env sid \<longleftrightarrow> (\<forall>n. env_token env n 18 \<noteq> sid)"

lemma holds_answer_run:
  assumes "fresh_ids env sid" and "holds_answer sid k p r (m0_sessions s)"
  shows "holds_answer sid k p r (m0_sessions (fold (m0_handle sha utc fx env) rs s))"
  using assms(2)
proof (induction rs arbitrary: s)
  case (Cons x rs)
  then show ?case
    using assms(1) holds_answer.handle_keeps [of env sid k p r s sha utc fx x]
    by (auto simp: fresh_ids_def)
qed simp

text \<open>
  Claim C3. A recorded answer is idempotent for ever: once an answer was stored under an
  idempotency key, after any further requests a repetition with an equal payload returns the very
  result of the first request and a different payload under that key is refused with a conflict;
  neither changes anything, whatever state the session is in by then. It is assumed that the random
  session identifier is not drawn again.
\<close>
theorem answer_idempotent_for_ever:
  assumes "record_answer sid k p s = (Inr r, s')" and "fresh_ids env sid"
    and "map_of (sr_answers (the (map_of (m0_sessions s) sid))) k = None"
    and "t = fold (m0_handle sha utc fx env) rs s'"
  shows "record_answer sid k q t =
    (if dict_eq p q then (Inr r, t)
     else (Inl (IdempotencyConflict ''Idempotency key was reused with a different answer payload''), t))"
proof -
  have "holds_answer sid k p r (m0_sessions s')"
    using assms(1,3)
    by (auto simp: record_answer_def holds_answer_def append_event_def repo_op_def repo_get_def
        set_record_def repo_append_event_def Let_def py_run
        split: option.splits if_splits prod.splits sum.splits)
  then have "holds_answer sid k p r (m0_sessions t)"
    using assms(2,4) by (simp add: holds_answer_run)
  then show ?thesis
    by (auto simp: holds_answer_def record_answer_def repo_get_def py_ret_def py_raise_def)
qed

theorem answer_idempotent_for_ever_witness:
  "\<exists>r s'. record_answer ''a'' ''k'' [(''answer_id'', JStr ''q'')] (demo_run CHR ''a'' demo_start m0_fresh) = (Inr r, s') \<and>
     fst (record_answer ''a'' ''k'' [(''answer_id'', JStr ''q'')]
       (demo_run CHR ''b'' [CreateSession, SubmitExam ''a'' ''e'', SessionAction ''a'' ''stop''] s')) = Inr r"
proof -
  let ?s = "demo_run CHR ''a'' demo_start m0_fresh" and ?p = "[(''answer_id'', JStr ''q'')]"
  let ?rs = "[CreateSession, SubmitExam ''a'' ''e'', SessionAction ''a'' ''stop'']"
  have "(case fst (record_answer ''a'' ''k'' ?p ?s) of Inr _ \<Rightarrow> True | _ \<Rightarrow> False) \<and>
      map_of (sr_answers (the (map_of (m0_sessions ?s) ''a''))) ''k'' = None \<and> dict_eq ?p ?p"
    by code_simp
  then obtain r s' where r: "record_answer ''a'' ''k'' ?p ?s = (Inr r, s')"
    and "map_of (sr_answers (the (map_of (m0_sessions ?s) ''a''))) ''k'' = None" "dict_eq ?p ?p"
    by (metis old.sum.simps(5) prod.exhaust_sel sum.exhaust)
  with answer_idempotent_for_ever [OF r, of "demo_env CHR ''b''" _ "\<lambda>x. x" "\<lambda>_. Inr ''utc''" None ?rs ?p]
  show ?thesis unfolding demo_run_def by (auto simp: fresh_ids_def demo_env_def)
qed

text \<open>A submitted session keeps its answers and its one submission.\<close>

definition is_submitted :: "string \<Rightarrow> (string \<times> pydict) list \<Rightarrow> (string \<times> pydict) list \<Rightarrow> session_repo \<Rightarrow> bool" where
  "is_submitted sid A S R \<longleftrightarrow> (\<exists>rec. map_of R sid = Some rec \<and> sr_submitted rec \<and>
     sr_answers rec = A \<and> sr_submit_results rec = S)"

interpretation is_submitted: repo_invariant "is_submitted sid A S" "\<lambda>i. i \<noteq> sid" for sid A S
  by unfold_locales
    (auto simp: is_submitted_def repo_append_event_def Let_def split: option.split if_split)

lemma is_submitted_run:
  assumes "fresh_ids env sid" and "is_submitted sid A S (m0_sessions s)"
  shows "is_submitted sid A S (m0_sessions (fold (m0_handle sha utc fx env) rs s))"
  using assms(2)
proof (induction rs arbitrary: s)
  case (Cons x rs)
  then show ?case
    using assms(1) is_submitted.handle_keeps [of env sid A S s sha utc fx x]
    by (auto simp: fresh_ids_def)
qed simp

text \<open>
  Claim C4. A submission is final: after a first successful submission, whatever is requested
  afterwards, the recorded answers are the ones recorded at submission time, a new answer is refused,
  a repetition of the submission returns its result, and a submission under any other key is refused.
\<close>
theorem submission_is_final:
  assumes "submit_exam sid k s = (Inr r, s')" and "fresh_ids env sid"
    and "map_of (m0_sessions s) sid = Some rec" and "sr_submit_results rec = []"
    and "t = fold (m0_handle sha utc fx env) rs s'"
  shows "\<exists>rec'. map_of (m0_sessions t) sid = Some rec' \<and> sr_answers rec' = sr_answers rec \<and>
      submit_exam sid k t = (Inr r, t) \<and>
      (k' \<noteq> k \<longrightarrow> (\<exists>e. submit_exam sid k' t = (Inl e, t))) \<and>
      (map_of (sr_answers rec) a = None \<longrightarrow>
        record_answer sid a p t =
          (Inl (InvalidTransition ''Answers are accepted only while the session is recording''), t))"
proof -
  have "is_submitted sid (sr_answers rec) [(k, r)] (m0_sessions s')"
    using assms(1,3,4)
    by (auto simp: submit_exam_def is_submitted_def append_event_def repo_op_def repo_get_def
        set_record_def repo_append_event_def Let_def py_run
        split: option.splits if_splits prod.splits sum.splits)
  then have "is_submitted sid (sr_answers rec) [(k, r)] (m0_sessions t)"
    using assms(2,5) by (simp add: is_submitted_run)
  then show ?thesis
    by (auto simp: is_submitted_def submit_exam_def record_answer_def repo_get_def py_ret_def py_raise_def)
qed

theorem submission_is_final_witness:
  "\<exists>r s'. submit_exam ''a'' ''k'' (demo_run CHR ''a'' demo_start m0_fresh) = (Inr r, s') \<and>
     fst (submit_exam ''a'' ''k'' (demo_run CHR ''b'' [RecordAnswer ''a'' ''x'' [], SubmitExam ''a'' ''y''] s')) = Inr r"
proof -
  let ?s = "demo_run CHR ''a'' demo_start m0_fresh"
  let ?rs = "[RecordAnswer ''a'' ''x'' [], SubmitExam ''a'' ''y'']"
  have "(case fst (submit_exam ''a'' ''k'' ?s) of Inr _ \<Rightarrow> True | _ \<Rightarrow> False) \<and>
      map_option sr_submit_results (map_of (m0_sessions ?s) ''a'') = Some []"
    by code_simp
  then obtain r s' rec where r: "submit_exam ''a'' ''k'' ?s = (Inr r, s')"
    and rec: "map_of (m0_sessions ?s) ''a'' = Some rec" "sr_submit_results rec = []"
    by (auto split: sum.splits) (metis prod.exhaust_sel)
  have "fresh_ids (demo_env CHR ''b'') ''a''" by (simp add: fresh_ids_def demo_env_def)
  from submission_is_final [OF r this rec refl, of "\<lambda>x. x" "\<lambda>_. Inr ''utc''" None ?rs "''k''"] r
  show ?thesis unfolding demo_run_def [of "CHR ''b''"] by (metis fst_conv)
qed

section \<open>The event log only grows\<close>

definition log_extends :: "string \<Rightarrow> event_record list \<Rightarrow> session_repo \<Rightarrow> bool" where
  "log_extends sid es R \<longleftrightarrow> (\<exists>rec more. map_of R sid = Some rec \<and> sr_events rec = es @ more)"

interpretation log_extends: repo_invariant "log_extends sid es" "\<lambda>i. i \<noteq> sid" for sid es
  by unfold_locales
    (auto simp: log_extends_def repo_append_event_def Let_def split: option.split if_split)

text \<open>
  The event log of a session is append-only: what a reader saw after a sequence number is a
  prefix of what it sees after the same number at any later time.
\<close>
lemma events_only_appended:
  assumes "fresh_ids env sid" and "map_of (m0_sessions s) sid \<noteq> None"
  shows "\<exists>more. events_after (fold (m0_handle sha utc fx env) rs s) sid n = events_after s sid n @ more"
proof -
  obtain rec where rec: "map_of (m0_sessions s) sid = Some rec" using assms(2) by auto
  have "log_extends sid (sr_events rec) (m0_sessions s') \<Longrightarrow>
    log_extends sid (sr_events rec) (m0_sessions (fold (m0_handle sha utc fx env) rs s'))" for s'
  proof (induction rs arbitrary: s')
    case (Cons x rs)
    then show ?case
      using assms(1) log_extends.handle_keeps [of env sid "sr_events rec" s' sha utc fx x]
      by (auto simp: fresh_ids_def)
  qed simp
  moreover have "log_extends sid (sr_events rec) (m0_sessions s)" using rec by (simp add: log_extends_def)
  ultimately have "log_extends sid (sr_events rec) (m0_sessions (fold (m0_handle sha utc fx env) rs s))" .
  with rec show ?thesis by (auto simp: log_extends_def events_after_def repo_events_after_def)
qed

lemma events_only_appended_witness:
  "\<exists>more. events_after (demo_run CHR ''b'' [SubmitExam ''a'' ''k''] (demo_run CHR ''a'' demo_start m0_fresh)) ''a'' 1 =
     events_after (demo_run CHR ''a'' demo_start m0_fresh) ''a'' 1 @ more"
proof -
  have "map_of (m0_sessions (demo_run CHR ''a'' demo_start m0_fresh)) ''a'' \<noteq> None" by code_simp
  then show ?thesis
    unfolding demo_run_def [of "CHR ''b''"]
    by (intro events_only_appended) (simp_all add: fresh_ids_def demo_env_def)
qed

end
