(* ===== verification/Event_Stream.thy ===== *)
theory Event_Stream
  imports M0_Properties
begin

text \<open>
  The server-sent event streams of \<open>services/core.py\<close>: \<open>stream_events\<close> and
  \<open>stream_reviewer_events\<close>. A suspended generator is a value of \<open>event_stream\<close> whose phase says
  at which \<open>yield\<close> (or \<open>await\<close>) it is suspended; \<open>stream_anext\<close> resumes it up to the next one.
  Requests and other streams run between two resumptions, in any order.
\<close>

section \<open>The generator\<close>

datatype stream_phase =
    NotStarted
  | SnapshotSent
  | Backlog "pydict list"
  | Live
  | Finished

record event_stream =
  es_session :: string
  es_after :: int
  es_queue :: nat
  es_last :: int
  es_phase :: stream_phase

text \<open>
  What a resumption gives: a value that is yielded, the end of the iteration, an exception, or
  \<open>Pending\<close> when the generator is still suspended in \<open>queue.get()\<close>.
\<close>

datatype stream_out =
    YieldSnapshot session_snapshot
  | YieldEvent pydict
  | Heartbeat
  | Pending
  | StopIteration
  | Raised py_error

text \<open>Why the suspended \<open>wait_for(queue.get(), timeout)\<close> comes back.\<close>

datatype wake = QueueReady | TimedOut

definition stream_events :: "string \<Rightarrow> int \<Rightarrow> event_stream" where
  "stream_events sid event_seq =
     \<lparr>es_session = sid, es_after = event_seq, es_queue = 0, es_last = 0, es_phase = NotStarted\<rparr>"

definition queue_items :: "'m m0_backend_scheme \<Rightarrow> nat \<Rightarrow> pydict list" where
  "queue_items s q = (case map_of (m0_queues s) q of None \<Rightarrow> [] | Some xs \<Rightarrow> xs)"

definition sequence_of :: "pydict \<Rightarrow> int option" where
  "sequence_of event = py_int (map_of event ''event_seq'')"

text \<open>The \<open>finally\<close> block: leave the subscriber list and forget the overflow mark.\<close>

definition stream_finally :: "event_stream \<Rightarrow> 'm m0_backend_scheme \<Rightarrow> 'm m0_backend_scheme" where
  "stream_finally st s =
     s\<lparr>m0_subscribers := AList.update (es_session st)
          (remove1 (es_queue st) (subscribers_of s (es_session st))) (m0_subscribers s),
       m0_stale := removeAll (es_queue st) (m0_stale s)\<rparr>"

definition finished :: "event_stream \<Rightarrow> event_stream" where
  "finished st = st\<lparr>es_phase := Finished\<rparr>"

text \<open>The first resumption: a bounded queue, the subscriber limit, the snapshot.\<close>

definition stream_open :: "(pyfloat \<Rightarrow> py_error + string) \<Rightarrow> py_env \<Rightarrow> event_stream \<Rightarrow> 'm m0_backend_scheme \<Rightarrow>
    stream_out \<times> event_stream \<times> 'm m0_backend_scheme" where
  "stream_open utc env st s =
     (let sid = es_session st; q = m0_next_queue s;
          st1 = st\<lparr>es_queue := q\<rparr>;
          s1 = s\<lparr>m0_next_queue := Suc q, m0_queues := AList.update q [] (m0_queues s),
                 m0_subscribers := AList.update sid (subscribers_of s sid) (m0_subscribers s)\<rparr>
      in if \<not> subscriber_slots_available s1 sid
         then (Raised (SubscriberLimitExceeded ''SSE_SUBSCRIBER_LIMIT''), finished st1, s1)
         else
           let s2 = s1\<lparr>m0_subscribers := AList.update sid (subscribers_of s1 sid @ [q]) (m0_subscribers s1)\<rparr>
           in case snapshot utc env sid s2 of
                (Inl e, s3) \<Rightarrow> (Raised e, finished st1, stream_finally st1 s3)
              | (Inr None, s3) \<Rightarrow> (Raised (KeyError sid), finished st1, stream_finally st1 s3)
              | (Inr (Some snap), s3) \<Rightarrow> (YieldSnapshot snap, st1\<lparr>es_phase := SnapshotSent\<rparr>, s3))"

text \<open>The next event of the backlog that has an integer sequence number.\<close>

fun backlog_next :: "pydict list \<Rightarrow> (int \<times> pydict \<times> pydict list) option" where
  "backlog_next [] = None"
| "backlog_next (e # es) =
     (case sequence_of e of None \<Rightarrow> backlog_next es | Some k \<Rightarrow> Some (k, e, es))"

text \<open>\<open>queue.get()\<close> in the loop: items that were already delivered are dropped.\<close>

fun queue_next :: "int \<Rightarrow> pydict list \<Rightarrow> (int \<times> pydict \<times> pydict list) option" where
  "queue_next last_delivered [] = None"
| "queue_next last_delivered (e # es) =
     (case sequence_of e of
        None \<Rightarrow> queue_next last_delivered es
      | Some k \<Rightarrow> if last_delivered < k then Some (k, e, es) else queue_next last_delivered es)"

definition stream_live :: "wake \<Rightarrow> event_stream \<Rightarrow> 'm m0_backend_scheme \<Rightarrow>
    stream_out \<times> event_stream \<times> 'm m0_backend_scheme" where
  "stream_live w st s =
     (let q = es_queue st; st' = st\<lparr>es_phase := Live\<rparr> in
      case w of
        TimedOut \<Rightarrow>
          if q \<in> set (m0_stale s) then (StopIteration, finished st, stream_finally st s)
          else (Heartbeat, st', s)
      | QueueReady \<Rightarrow>
          (case queue_next (es_last st) (queue_items s q) of
             None \<Rightarrow> (Pending, st', s\<lparr>m0_queues := AList.update q [] (m0_queues s)\<rparr>)
           | Some (k, e, es) \<Rightarrow>
               (YieldEvent e, st'\<lparr>es_last := k\<rparr>, s\<lparr>m0_queues := AList.update q es (m0_queues s)\<rparr>)))"

definition stream_backlog :: "wake \<Rightarrow> pydict list \<Rightarrow> event_stream \<Rightarrow> 'm m0_backend_scheme \<Rightarrow>
    stream_out \<times> event_stream \<times> 'm m0_backend_scheme" where
  "stream_backlog w events st s =
     (case backlog_next events of
        Some (k, e, es) \<Rightarrow> (YieldEvent e, st\<lparr>es_last := k, es_phase := Backlog es\<rparr>, s)
      | None \<Rightarrow> stream_live w st s)"

definition stream_anext :: "(pyfloat \<Rightarrow> py_error + string) \<Rightarrow> py_env \<Rightarrow> wake \<Rightarrow> event_stream \<Rightarrow>
    'm m0_backend_scheme \<Rightarrow> stream_out \<times> event_stream \<times> 'm m0_backend_scheme" where
  "stream_anext utc env w st s =
     (case es_phase st of
        NotStarted \<Rightarrow> stream_open utc env st s
      | SnapshotSent \<Rightarrow>
          stream_backlog w (events_after s (es_session st) (es_after st)) (st\<lparr>es_last := es_after st\<rparr>) s
      | Backlog events \<Rightarrow> stream_backlog w events st s
      | Live \<Rightarrow> stream_live w st s
      | Finished \<Rightarrow> (StopIteration, st, s))"

text \<open>Closing a generator that was never resumed runs none of its code.\<close>

definition stream_aclose :: "event_stream \<Rightarrow> 'm m0_backend_scheme \<Rightarrow> event_stream \<times> 'm m0_backend_scheme" where
  "stream_aclose st s =
     (case es_phase st of
        NotStarted \<Rightarrow> (finished st, s)
      | Finished \<Rightarrow> (st, s)
      | _ \<Rightarrow> (finished st, stream_finally st s))"

text \<open>The reviewer's stream: the bearer is checked again before every item is passed on.\<close>

definition reviewer_anext :: "(string \<Rightarrow> string) \<Rightarrow> (pyfloat \<Rightarrow> py_error + string) \<Rightarrow> py_env \<Rightarrow> string \<Rightarrow> wake \<Rightarrow>
    event_stream \<Rightarrow> 'm m0_backend_scheme \<Rightarrow> stream_out \<times> event_stream \<times> 'm m0_backend_scheme" where
  "reviewer_anext sha utc env token w st s =
     (case stream_anext utc env w st s of
        (StopIteration, st', s') \<Rightarrow> (StopIteration, stream_aclose st' s')
      | (Raised e, st', s') \<Rightarrow> (Raised e, stream_aclose st' s')
      | (Pending, st', s') \<Rightarrow> (Pending, st', s')
      | (out, st', s') \<Rightarrow>
          (case is_reviewer sha env (Some token) s' of
             (Inr True, s'') \<Rightarrow> (out, st', s'')
           | (Inr False, s'') \<Rightarrow> (StopIteration, stream_aclose st' s'')
           | (Inl e, s'') \<Rightarrow> (Raised e, stream_aclose st' s'')))"

section \<open>The subscriber bus under requests\<close>

definition bus :: "m0_backend \<Rightarrow> (string \<times> nat list) list \<times> (nat \<times> pydict list) list \<times> nat list \<times> nat \<times> int \<times> nat" where
  "bus s = (m0_subscribers s, m0_queues s, m0_stale s, m0_next_queue s, m0_subscriber_queue_size s,
     m0_max_subscribers s)"

definition logs :: "m0_backend \<Rightarrow> string \<Rightarrow> (int \<times> event_record list) option" where
  "logs s sid = map_option (\<lambda>r. (sr_event_seq r, sr_events r)) (map_of (m0_sessions s) sid)"

text \<open>
  A predicate on the subscriber bus and the event logs: it survives every request when appending an
  event and creating a session keep it.
\<close>

lemma fixture_payload_plain: "fixture_payload ks f = Inr p \<Longrightarrow> set ks \<subseteq> set FIXTURE_KEYS \<Longrightarrow> plain_payload p"
proof (induction ks arbitrary: p)
  case (Cons k ks)
  then obtain q v where "fixture_payload ks f = Inr q"
    "p = (if k = ''event_type'' then ''fixture_event_type'' else k, v) # q"
    by (auto split: json.splits option.splits sum.splits)
  with Cons show ?case by (auto simp: plain_payload_def FIXTURE_KEYS_def)
qed (simp add: plain_payload_def)

locale bus_invariant =
  fixes P :: "m0_backend \<Rightarrow> bool" and new_id :: "string \<Rightarrow> bool"
  assumes frame: "P s \<Longrightarrow> bus s' = bus s \<Longrightarrow> logs s' = logs s \<Longrightarrow> P s'"
    and append_ok: "P s \<Longrightarrow> plain_payload p \<Longrightarrow> P (snd (append_event sid t p s))"
    and create_ok: "P s \<Longrightarrow> new_id sid \<Longrightarrow>
      P (s\<lparr>m0_sessions := AList.update sid (new_session_record sid) (m0_sessions s)\<rparr>)"
begin

lemma keeps_same: "(\<And>s. bus (snd (m s)) = bus s \<and> logs (snd (m s)) = logs s) \<Longrightarrow> keeps P m"
  using frame by (auto simp: keeps_def)

lemma keeps_modI: "(\<And>s. bus (f s) = bus s \<and> logs (f s) = logs s) \<Longrightarrow> keeps P (py_mod f)"
  by (rule keeps_same) (simp add: py_mod_def)

lemma world_keeps:
  "keeps P (read_clock env)" "keeps P (read_monotonic env)" "keeps P (token_urlsafe env n)"
  by (rule keeps_same; simp add: py_run bus_def logs_def fun_eq_iff)+

lemma audit_keeps: "keeps P (emit_reviewer_audit k)"
  unfolding emit_reviewer_audit_def
  by (intro keeps_intros keeps_modI) (auto simp: bus_def logs_def fun_eq_iff intro: frame)

lemma invalidate_keeps: "keeps P (invalidate_reviewer_session k)"
  unfolding invalidate_reviewer_session_def clear_reviewer_token_def
  by (intro keeps_intros audit_keeps; (erule frame)?) (simp_all add: bus_def logs_def fun_eq_iff)

lemma reviewer_keeps:
  "keeps P (issue_reviewer_token sha env)" "keeps P (reviewer_expiry sha env tok)"
  "keeps P (revoke_reviewer_token sha tok)"
  unfolding issue_reviewer_token_def reviewer_expiry_def revoke_reviewer_token_def
  by (intro keeps_intros audit_keeps world_keeps invalidate_keeps; (erule frame)?;
      simp add: bus_def logs_def fun_eq_iff)+

lemma is_reviewer_keeps:
  "keeps P (is_reviewer sha env tok)" "keeps P (reviewer_session_digest sha env tok)"
  unfolding is_reviewer_def reviewer_session_digest_def by (intro keeps_intros reviewer_keeps)+

lemma set_record_keeps:
  assumes "\<And>rec. sr_event_seq (f rec) = sr_event_seq rec \<and> sr_events (f rec) = sr_events rec"
  shows "keeps P (set_record sid f)"
  unfolding set_record_def
  using assms by (intro keeps_modI) (auto simp: bus_def logs_def fun_eq_iff split: option.split)

lemma append_keeps: "plain_payload p \<Longrightarrow> keeps P (append_event sid t p)"
  by (simp add: keepsI append_ok)

lemma snapshot_keeps: "keeps P (snapshot utc env sid)"
  unfolding snapshot_def snapshot_of_def Let_def by (intro keeps_intros world_keeps)

lemma token_keeps:
  "keeps P (consume_pairing_code env c)" "keeps P (issue_candidate_csrf env tok)"
  unfolding consume_pairing_code_def issue_candidate_csrf_def
  by (intro keeps_intros world_keeps; (erule frame)?; simp add: bus_def logs_def fun_eq_iff)+

lemma action_keeps: "keeps P (apply_session_action utc env sid a)"
  unfolding apply_session_action_def
  by (intro keeps_intros world_keeps set_record_keeps append_keeps snapshot_keeps)
    (simp_all add: plain_payload_def)

lemma answer_keeps: "keeps P (record_answer sid k p)" "keeps P (submit_exam sid k)"
  unfolding record_answer_def submit_exam_def
  by (intro keeps_intros set_record_keeps append_keeps; simp add: plain_payload_def)+

lemma replay_keeps: "keeps P (replay_demo_alerts fx sid)"
proof -
  have K: "keeps P (py_bind (py_lift (fixture_payload FIXTURE_KEYS f)) (\<lambda>payload.
      py_bind (append_event sid ''DemoEvent'' payload) (\<lambda>_. py_ret ())))" for f
    by (intro keeps_bind_lift keeps_intros append_keeps) (auto dest: fixture_payload_plain)
  show ?thesis
    unfolding replay_demo_alerts_def append_demo_event_def by (rule K keeps_intros)+
qed

lemma create_keeps:
  assumes "\<And>n. new_id (env_token env n 18)"
  shows "keeps P (create_session env)"
proof (rule keepsI)
  fix s assume "P s"
  let ?id = "env_token env (token_reads s) 18"
  let ?s = "s\<lparr>m0_sessions := AList.update ?id (new_session_record ?id) (m0_sessions s)\<rparr>"
  have "P ?s" using create_ok [OF \<open>P s\<close> assms] .
  moreover have "bus (snd (create_session env s)) = bus ?s \<and> logs (snd (create_session env s)) = logs ?s"
    by (simp add: create_session_def repo_op_def repo_create_def set_record_def py_run bus_def logs_def
        fun_eq_iff new_session_record_def)
  ultimately show "P (snd (create_session env s))" using frame by blast
qed

lemma handle_keeps:
  assumes "\<And>n. new_id (env_token env n 18)" and "P s"
    and "\<And>sid p. r = DemoEvent sid p \<Longrightarrow> plain_payload p"
  shows "P (m0_handle sha utc fx env r s)"
proof (cases r)
  case (Reviewer q)
  then show ?thesis using assms(2) by (cases q) (auto intro: keepsD is_reviewer_keeps reviewer_keeps)
qed (use assms in \<open>auto simp: append_demo_event_def intro: keepsD create_keeps action_keeps answer_keeps
      append_keeps replay_keeps token_keeps snapshot_keeps reviewer_keeps\<close>)

end

section \<open>What one stream has delivered\<close>

text \<open>
  \<open>A\<close> is the whole event log of the session, whose \<open>i\<close>-th event has number \<open>i + 1\<close>. A stream
  opened after number \<open>n\<close> has delivered \<open>D\<close>, the events number \<open>n + 1\<close> to \<open>l\<close>.
\<close>

definition numbered :: "pydict list \<Rightarrow> bool" where
  "numbered A \<longleftrightarrow> (\<forall>i < length A. sequence_of (A ! i) = Some (int i + 1))"

definition delivered_ok :: "nat \<Rightarrow> nat \<Rightarrow> pydict list \<Rightarrow> pydict list \<Rightarrow> bool" where
  "delivered_ok n l D A \<longleftrightarrow> n \<le> l \<and> l \<le> max n (length A) \<and> D = take (l - n) (drop n A)"

lemma delivered_ok_start [simp]: "delivered_ok n n [] A"
  by (simp add: delivered_ok_def)

lemma delivered_ok_append: "delivered_ok n l D A \<Longrightarrow> delivered_ok n l D (A @ [e])"
  by (auto simp: delivered_ok_def max_def split: if_splits)

lemma delivered_ok_next:
  assumes "delivered_ok n l D A" and "l < length A"
  shows "delivered_ok n (Suc l) (D @ [A ! l]) A"
proof -
  have "n \<le> l" using assms(1) by (simp add: delivered_ok_def)
  with assms(2) have "take (Suc l - n) (drop n A) = take (l - n) (drop n A) @ [A ! l]"
    using take_Suc_conv_app_nth [of "l - n" "drop n A"] by (simp add: Suc_diff_le)
  with assms show ?thesis by (auto simp: delivered_ok_def)
qed

lemma queue_next_drop:
  assumes "numbered A" and "c \<le> l"
  shows "queue_next (int l) (drop c A) =
    (if l < length A then Some (int l + 1, A ! l, drop (Suc l) A) else None)"
  using assms(2)
proof (induction "length A - c" arbitrary: c)
  case 0
  then show ?case by simp
next
  case (Suc k)
  then have c: "c < length A" by simp
  then have "drop c A = A ! c # drop (Suc c) A" by (simp add: Cons_nth_drop_Suc)
  moreover have "sequence_of (A ! c) = Some (int c + 1)" using assms(1) c by (simp add: numbered_def)
  moreover have "c < l \<Longrightarrow> k = length A - Suc c" using Suc by simp
  ultimately show ?case using Suc c by (cases "c = l") auto
qed

lemma backlog_next_take:
  assumes "numbered A" and "m \<le> max l (length A)"
  shows "backlog_next (take (m - l) (drop l A)) =
    (if l < m then Some (int l + 1, A ! l, take (m - Suc l) (drop (Suc l) A)) else None)"
proof (cases "l < m")
  case True
  then have "l < length A" using assms(2) by simp
  then have "take (m - l) (drop l A) = A ! l # take (m - Suc l) (drop (Suc l) A)"
    using True by (metis Cons_nth_drop_Suc Suc_diff_Suc take_Suc_Cons)
  with True \<open>l < length A\<close> assms(1) show ?thesis by (simp add: numbered_def)
qed simp

text \<open>
  The state of a generator against the log: \<open>items\<close> is what its queue holds, a suffix of the log
  unless the queue overflowed.
\<close>

definition queued :: "nat \<Rightarrow> pydict list \<Rightarrow> pydict list \<Rightarrow> bool" where
  "queued c A items \<longleftrightarrow> c \<le> length A \<and> items = drop c A"

definition pending :: "nat \<Rightarrow> nat \<Rightarrow> pydict list \<Rightarrow> pydict list \<Rightarrow> bool" where
  "pending l m A es \<longleftrightarrow> m \<le> max l (length A) \<and> es = take (m - l) (drop l A)"

fun stream_content :: "stream_phase \<Rightarrow> nat \<Rightarrow> int \<Rightarrow> pydict list \<Rightarrow> pydict list \<Rightarrow> pydict list \<Rightarrow> bool" where
  "stream_content NotStarted n l D A items = (D = [])"
| "stream_content SnapshotSent n l D A items = (D = [] \<and> (\<exists>c. queued c A items))"
| "stream_content (Backlog es) n l D A items =
     (0 \<le> l \<and> delivered_ok n (nat l) D A \<and>
      (\<exists>m c. pending (nat l) m A es \<and> queued c A items \<and> (c \<le> m \<or> c \<le> nat l)))"
| "stream_content Live n l D A items =
     (0 \<le> l \<and> delivered_ok n (nat l) D A \<and> (\<exists>c. queued c A items \<and> c \<le> nat l))"
| "stream_content Finished n l D A items = True"

lemma queued_append: "queued c A items \<Longrightarrow> queued c (A @ [e]) (items @ [e])"
  by (simp add: queued_def)

lemma pending_append: "pending l m A es \<Longrightarrow> pending l m (A @ [e]) es"
  by (auto simp: pending_def max_def split: if_splits)

lemma stream_content_append:
  "stream_content ph n l D A items \<Longrightarrow> stream_content ph n l D (A @ [e]) (items @ [e])"
  by (cases ph) (auto intro: delivered_ok_append, (blast intro: queued_append pending_append)+)

lemma stream_content_live:
  assumes "stream_content Live n l D A items" and "numbered A"
  shows "case queue_next l items of
      None \<Rightarrow> stream_content Live n l D A []
    | Some (k, e, es) \<Rightarrow> stream_content Live n k (D @ [e]) A es"
proof -
  obtain c where c: "0 \<le> l" "delivered_ok n (nat l) D A" "c \<le> nat l" "items = drop c A"
    using assms(1) by (auto simp: queued_def)
  with queue_next_drop [OF assms(2) c(3)]
  have nx: "queue_next l items = (if nat l < length A then Some (l + 1, A ! nat l, drop (Suc (nat l)) A) else None)"
    by simp
  show ?thesis
  proof (cases "nat l < length A")
    case True
    moreover have "queued (Suc (nat l)) A (drop (Suc (nat l)) A)" using True by (simp add: queued_def)
    ultimately show ?thesis using nx c delivered_ok_next [OF c(2)]
      by (auto simp: nat_add_distrib)
  next
    case False
    then have "queued (length A) A []" by (simp add: queued_def)
    with False nx c show ?thesis by auto
  qed
qed

lemma stream_content_backlog:
  assumes "stream_content (Backlog es) n l D A items" and "numbered A"
  shows "case backlog_next es of
      None \<Rightarrow> stream_content Live n l D A items
    | Some (k, e, es') \<Rightarrow> stream_content (Backlog es') n k (D @ [e]) A items"
proof -
  obtain m c where m: "0 \<le> l" "delivered_ok n (nat l) D A" "es = take (m - nat l) (drop (nat l) A)"
      "m \<le> max (nat l) (length A)" and c: "c \<le> m \<or> c \<le> nat l" and q: "queued c A items"
    using assms(1) by (auto simp: pending_def queued_def)
  have nx: "backlog_next es =
      (if nat l < m then Some (l + 1, A ! nat l, take (m - Suc (nat l)) (drop (Suc (nat l)) A)) else None)"
    using backlog_next_take [OF assms(2) m(4)] m(1,3) by simp
  show ?thesis
  proof (cases "nat l < m")
    case True
    with m have "nat l < length A" by simp
    moreover have "pending (Suc (nat l)) m A (take (m - Suc (nat l)) (drop (Suc (nat l)) A))"
      using True m(4) by (simp add: pending_def)
    moreover have "c \<le> m" using True c by auto
    ultimately show ?thesis using True nx m q delivered_ok_next [OF m(2)]
      by (auto simp: nat_add_distrib)
  next
    case False
    with nx m c q show ?thesis by auto
  qed
qed

lemma stream_content_snapshot:
  assumes "stream_content SnapshotSent n l D A items"
  shows "stream_content (Backlog (drop n A)) n (int n) D A items"
proof -
  obtain c where "D = []" "queued c A items" using assms by auto
  moreover have "pending n (max n (length A)) A (drop n A)" by (simp add: pending_def)
  moreover have "c \<le> max n (length A)" using \<open>queued c A items\<close> by (auto simp: queued_def le_max_iff_disj)
  ultimately show ?thesis by simp blast
qed

section \<open>Several streams and requests, interleaved\<close>

definition active :: "event_stream \<Rightarrow> bool" where
  "active st \<longleftrightarrow> es_phase st \<noteq> NotStarted \<and> es_phase st \<noteq> Finished"

text \<open>Every queue has one subscription, and no session has more than the maximum.\<close>

definition subs_ok :: "m0_backend \<Rightarrow> bool" where
  "subs_ok s \<longleftrightarrow> (\<forall>sid. distinct (subscribers_of s sid) \<and>
     length (subscribers_of s sid) \<le> m0_max_subscribers s \<and>
     (\<forall>q \<in> set (subscribers_of s sid). q < m0_next_queue s \<and>
        (\<forall>sid'. q \<in> set (subscribers_of s sid') \<longrightarrow> sid' = sid)))"

definition log_good :: "m0_backend \<Rightarrow> string \<Rightarrow> bool" where
  "log_good s sid \<longleftrightarrow> (\<exists>seq evs. logs s sid = Some (seq, evs) \<and> 0 \<le> seq \<and> map er_seq evs = [1..seq] \<and>
     (\<forall>e \<in> set evs. plain_payload (er_payload e)))"

definition the_log :: "m0_backend \<Rightarrow> string \<Rightarrow> pydict list" where
  "the_log s sid = (case logs s sid of None \<Rightarrow> [] | Some (_, evs) \<Rightarrow> map er_as_dict evs)"

definition stream_ok :: "string \<Rightarrow> m0_backend \<Rightarrow> event_stream \<times> pydict list \<Rightarrow> bool" where
  "stream_ok sid s x = (case x of (st, D) \<Rightarrow>
     (es_phase st = NotStarted \<longrightarrow> D = []) \<and>
     (active st \<longrightarrow> es_queue st \<in> set (subscribers_of s (es_session st))) \<and>
     (active st \<and> es_session st = sid \<and> 0 \<le> es_after st \<and> es_queue st \<notin> set (m0_stale s) \<longrightarrow>
        stream_content (es_phase st) (nat (es_after st)) (es_last st) D (the_log s sid)
          (queue_items s (es_queue st))))"

lemma numbered_log:
  assumes "log_good s sid"
  shows "numbered (the_log s sid)"
proof -
  obtain seq evs where l: "logs s sid = Some (seq, evs)" "map er_seq evs = [1..seq]"
    "\<forall>e \<in> set evs. plain_payload (er_payload e)" using assms by (auto simp: log_good_def)
  have "sequence_of (er_as_dict (evs ! i)) = Some (int i + 1)" if "i < length evs" for i
  proof -
    have "er_seq (evs ! i) = [1..seq] ! i" using l(2) that by (metis nth_map)
    also have "\<dots> = 1 + int i" using that arg_cong [OF l(2), of length] by (intro nth_upto) simp
    finally have "er_seq (evs ! i) = 1 + int i" .
    with l(3) that er_as_dict_seq [of "evs ! i"] show ?thesis by (simp add: sequence_of_def)
  qed
  with l(1) show ?thesis by (simp add: numbered_def the_log_def)
qed

lemma events_after_drop:
  assumes "log_good s sid" and "0 \<le> n"
  shows "events_after s sid n = drop (nat n) (the_log s sid)"
proof -
  obtain seq evs where l: "logs s sid = Some (seq, evs)" "map er_seq evs = [1..seq]"
    using assms(1) by (auto simp: log_good_def)
  then have "filter (\<lambda>e. n < er_seq e) evs = drop (nat n) evs"
    using filter_gt_drop [of er_seq evs 0 seq n] assms(2) by simp
  with l(1) show ?thesis
    by (auto simp: events_after_def repo_events_after_def the_log_def logs_def drop_map split: option.splits)
qed

subsection \<open>Requests keep the streams\<close>

definition queue_full :: "m0_backend \<Rightarrow> nat \<Rightarrow> bool" where
  "queue_full s q \<longleftrightarrow> 0 < m0_subscriber_queue_size s \<and> m0_subscriber_queue_size s \<le> int (length (queue_items s q))"

lemma put_nowait_queue:
  "queue_items (put_nowait e q s) q' = (if q' = q \<and> \<not> queue_full s q then queue_items s q @ [e] else queue_items s q')"
  "set (m0_stale (put_nowait e q s)) = set (m0_stale s) \<union> (if queue_full s q then {q} else {})"
  "m0_subscribers (put_nowait e q s) = m0_subscribers s" "m0_next_queue (put_nowait e q s) = m0_next_queue s"
  "m0_subscriber_queue_size (put_nowait e q s) = m0_subscriber_queue_size s"
  "m0_max_subscribers (put_nowait e q s) = m0_max_subscribers s"
  by (auto simp: put_nowait_def queue_items_def queue_full_def Let_def split: option.splits)

lemma fold_put_queue:
  "distinct qs \<Longrightarrow> queue_items (fold (put_nowait e) qs s) q =
     (if q \<in> set qs \<and> \<not> queue_full s q then queue_items s q @ [e] else queue_items s q)"
  "distinct qs \<Longrightarrow> set (m0_stale (fold (put_nowait e) qs s)) = set (m0_stale s) \<union> {q \<in> set qs. queue_full s q}"
  "m0_subscribers (fold (put_nowait e) qs s) = m0_subscribers s"
  "m0_next_queue (fold (put_nowait e) qs s) = m0_next_queue s"
  "m0_subscriber_queue_size (fold (put_nowait e) qs s) = m0_subscriber_queue_size s"
  "m0_max_subscribers (fold (put_nowait e) qs s) = m0_max_subscribers s"
  by (induction qs arbitrary: s) (auto simp: put_nowait_queue queue_full_def)

lemma bus_set_sessions [simp]:
  "subscribers_of (s\<lparr>m0_sessions := R\<rparr>) sid = subscribers_of s sid"
  "queue_items (s\<lparr>m0_sessions := R\<rparr>) q = queue_items s q"
  "queue_full (s\<lparr>m0_sessions := R\<rparr>) q = queue_full s q"
  by (simp_all add: subscribers_of_def queue_items_def queue_full_def)

lemma append_event_run:
  "append_event sid t p s =
     (case repo_append_event sid t p (m0_sessions s) of
        (Inl x, _) \<Rightarrow> (Inl x, s)
      | (Inr e, R) \<Rightarrow> (Inr (er_as_dict e), fanout sid (er_as_dict e) (s\<lparr>m0_sessions := R\<rparr>)))"
  by (auto simp: append_event_def repo_op_def py_run Let_def dest: repo_append_error
      split: prod.split sum.split)

definition streams_ok :: "string \<Rightarrow> (event_stream \<times> pydict list) list \<Rightarrow> m0_backend \<Rightarrow> bool" where
  "streams_ok sid xs s \<longleftrightarrow> subs_ok s \<and> log_good s sid \<and> (\<forall>x \<in> set xs. stream_ok sid s x) \<and>
     (\<forall>sid'. \<forall>q \<in> set (subscribers_of s sid'). \<exists>x \<in> set xs. active (fst x) \<and> es_queue (fst x) = q)"

lemma streams_ok_frame:
  assumes "streams_ok sid xs s" and "bus s' = bus s" and "logs s' = logs s"
  shows "streams_ok sid xs s'"
proof -
  have "subscribers_of s' = subscribers_of s" "queue_items s' = queue_items s" "m0_stale s' = m0_stale s"
    "m0_next_queue s' = m0_next_queue s" "m0_max_subscribers s' = m0_max_subscribers s" "the_log s' = the_log s"
    using assms(2,3) by (simp_all add: bus_def fun_eq_iff subscribers_of_def queue_items_def the_log_def)
  with assms(1,3) show ?thesis
    by (simp add: streams_ok_def subs_ok_def log_good_def stream_ok_def)
qed

lemma streams_ok_append:
  assumes ok: "streams_ok sid xs s" and p: "plain_payload p"
    and run: "repo_append_event sid' t p (m0_sessions s) = (Inr e, R)"
  shows "streams_ok sid xs (fanout sid' (er_as_dict e) (s\<lparr>m0_sessions := R\<rparr>))"
    (is "streams_ok sid xs ?s")
proof -
  obtain rec where rec: "map_of (m0_sessions s) sid' = Some rec"
    and e: "e = \<lparr>er_seq = sr_event_seq rec + 1, er_type = t, er_payload = p\<rparr>"
    and R: "map_of R = (map_of (m0_sessions s))(sid' \<mapsto>
           rec\<lparr>sr_event_seq := er_seq e, sr_events := sr_events rec @ [e]\<rparr>)"
    using run by (rule repo_append_cases)
  have l': "logs ?s = (logs s)(sid' \<mapsto> (sr_event_seq rec + 1, sr_events rec @ [e]))"
    and l: "logs s sid' = Some (sr_event_seq rec, sr_events rec)"
    using rec R e by (auto simp: logs_def fun_eq_iff)
  have subs: "subscribers_of ?s = subscribers_of s"
    by (simp add: fun_eq_iff subscribers_of_def fanout_def fold_put_queue)
  have d: "distinct (subscribers_of s sid')" using ok by (simp add: streams_ok_def subs_ok_def)
  then have items: "queue_items ?s q = (if q \<in> set (subscribers_of s sid') \<and> \<not> queue_full s q
      then queue_items s q @ [er_as_dict e] else queue_items s q)"
    and stale: "set (m0_stale ?s) = set (m0_stale s) \<union> {q \<in> set (subscribers_of s sid'). queue_full s q}" for q
    by (simp_all add: fanout_def fold_put_queue)
  have log: "the_log ?s sid = (if sid = sid' then the_log s sid @ [er_as_dict e] else the_log s sid)"
    using l l' by (simp add: the_log_def)
  have "subs_ok ?s" using ok subs by (simp add: streams_ok_def subs_ok_def fanout_def fold_put_queue)
  moreover have "log_good ?s sid"
    using ok l l' e p by (auto simp: streams_ok_def log_good_def upto_rec2)
  moreover have "stream_ok sid ?s x" if "x \<in> set xs" for x
  proof -
    obtain st D where x: "x = (st, D)" by force
    have "stream_ok sid s (st, D)" using ok that x by (auto simp: streams_ok_def)
    moreover have "sid' = es_session st" if "es_queue st \<in> set (subscribers_of s sid')"
      "es_queue st \<in> set (subscribers_of s (es_session st))"
      using ok that by (auto simp: streams_ok_def subs_ok_def)
    ultimately show ?thesis
      unfolding stream_ok_def x using subs items [of "es_queue st"] stale log
      by (auto intro: stream_content_append)
  qed
  ultimately show ?thesis using ok subs by (simp add: streams_ok_def)
qed

interpretation stream_bus: bus_invariant "streams_ok sid xs" "\<lambda>i. i \<noteq> sid" for sid xs
proof
  fix s s' sid' t p
  assume "streams_ok sid xs s"
  show "bus s' = bus s \<Longrightarrow> logs s' = logs s \<Longrightarrow> streams_ok sid xs s'"
    using \<open>streams_ok sid xs s\<close> streams_ok_frame by blast
  show "plain_payload p \<Longrightarrow> streams_ok sid xs (snd (append_event sid' t p s))"
    using \<open>streams_ok sid xs s\<close>
    by (auto simp: append_event_run streams_ok_append split: prod.split sum.split)
  assume "sid' \<noteq> sid"
  let ?s = "s\<lparr>m0_sessions := AList.update sid' (new_session_record sid') (m0_sessions s)\<rparr>"
  have "logs ?s sid = logs s sid" "bus ?s = bus s" using \<open>sid' \<noteq> sid\<close> by (simp_all add: logs_def bus_def)
  moreover from this(1) have "the_log ?s sid = the_log s sid" by (simp add: the_log_def)
  ultimately show "streams_ok sid xs ?s" using \<open>streams_ok sid xs s\<close>
    by (simp add: streams_ok_def subs_ok_def log_good_def stream_ok_def subscribers_of_def queue_items_def)
qed

subsection \<open>A stream step keeps every stream\<close>

text \<open>What a step of the stream with queue \<open>q\<close> may change on the bus.\<close>

definition touches_only :: "nat \<Rightarrow> m0_backend \<Rightarrow> m0_backend \<Rightarrow> bool" where
  "touches_only q s s' \<longleftrightarrow> logs s' = logs s \<and>
     (\<forall>q' sid. q' \<noteq> q \<longrightarrow>
       (q' \<in> set (subscribers_of s' sid) \<longleftrightarrow> q' \<in> set (subscribers_of s sid)) \<and>
       (q' \<in> set (m0_stale s') \<longleftrightarrow> q' \<in> set (m0_stale s)) \<and>
       queue_items s' q' = queue_items s q')"

lemma stream_ok_other:
  assumes "stream_ok sid s (st, D)" and "touches_only q s s'" and "active st \<Longrightarrow> es_queue st \<noteq> q"
  shows "stream_ok sid s' (st, D)"
  using assms by (auto simp: stream_ok_def touches_only_def the_log_def)

lemma touches_trans: "touches_only q s s' \<Longrightarrow> touches_only q s' s'' \<Longrightarrow> touches_only q s s''"
  by (simp add: touches_only_def)

lemma subscribers_finally:
  "subscribers_of (stream_finally st s) sid =
     (if sid = es_session st then remove1 (es_queue st) (subscribers_of s sid) else subscribers_of s sid)"
  by (simp add: stream_finally_def subscribers_of_def split: option.split)

lemma touches_finally: "touches_only (es_queue st) s (stream_finally st s)"
proof -
  have "logs (stream_finally st s) = logs s" "queue_items (stream_finally st s) = queue_items s"
    "set (m0_stale (stream_finally st s)) = set (m0_stale s) - {es_queue st}"
    by (auto simp: stream_finally_def logs_def queue_items_def fun_eq_iff)
  then show ?thesis by (auto simp: touches_only_def subscribers_finally)
qed

lemma subs_ok_finally: "subs_ok s \<Longrightarrow> subs_ok (stream_finally st s)"
  unfolding subs_ok_def subscribers_finally
  by (auto simp: stream_finally_def dest: notin_set_remove1) (metis length_remove1 diff_le_self le_trans)+

text \<open>The outcome of a step of one stream, for itself and for the others.\<close>

definition step_ok :: "string \<Rightarrow> pydict list \<Rightarrow> event_stream \<Rightarrow> m0_backend \<Rightarrow> stream_out \<times> event_stream \<times> m0_backend \<Rightarrow> bool" where
  "step_ok sid D st s r = (case r of (out, st', s') \<Rightarrow>
     subs_ok s' \<and> touches_only (es_queue st') s s' \<and> m0_next_queue s \<le> m0_next_queue s' \<and>
     es_session st' = es_session st \<and> es_after st' = es_after st \<and>
     (\<forall>sid'. es_queue st' \<in> set (subscribers_of s' sid') \<longrightarrow> active st') \<and> es_phase st' \<noteq> NotStarted \<and>
     stream_ok sid s' (st', D @ (case out of YieldEvent e \<Rightarrow> [e] | _ \<Rightarrow> [])))"

lemma released:
  assumes "subs_ok s" and "es_queue st \<in> set (subscribers_of s (es_session st))"
  shows "es_queue st \<notin> set (subscribers_of (stream_finally st s) sid)"
  using assms unfolding subs_ok_def by (auto simp: subscribers_finally)

lemma step_ok_finished:
  assumes "subs_ok s" and "es_queue st \<in> set (subscribers_of s (es_session st))"
  shows "step_ok sid D st s (StopIteration, finished st, stream_finally st s)"
  using assms subs_ok_finally [OF assms(1)] touches_finally [of st s] released [OF assms]
  by (auto simp: step_ok_def finished_def stream_ok_def active_def stream_finally_def)

lemma queue_set [simp]:
  "queue_items (s\<lparr>m0_queues := AList.update q xs (m0_queues s)\<rparr>) q' = (if q' = q then xs else queue_items s q')"
  "subscribers_of (s\<lparr>m0_queues := Q\<rparr>) sid = subscribers_of s sid"
  "logs (s\<lparr>m0_queues := Q\<rparr>) = logs s" "the_log (s\<lparr>m0_queues := Q\<rparr>) = the_log s"
  "subs_ok (s\<lparr>m0_queues := Q\<rparr>) = subs_ok s"
  by (simp_all add: queue_items_def subscribers_of_def logs_def fun_eq_iff the_log_def subs_ok_def)

lemma stream_live_ok:
  assumes "subs_ok s" and "log_good s sid" and ok: "stream_ok sid s (st\<lparr>es_phase := Live\<rparr>, D)"
  shows "step_ok sid D st s (stream_live w st s)"
proof (cases w)
  case TimedOut
  with assms step_ok_finished [OF assms(1), of st sid D] show ?thesis
    by (auto simp: stream_live_def step_ok_def touches_only_def stream_ok_def active_def)
next
  case QueueReady
  let ?A = "the_log s sid" and ?n = "nat (es_after st)"
  have content: "es_session st = sid \<Longrightarrow> 0 \<le> es_after st \<Longrightarrow> es_queue st \<notin> set (m0_stale s) \<Longrightarrow>
     (case queue_next (es_last st) (queue_items s (es_queue st)) of
        None \<Rightarrow> stream_content Live ?n (es_last st) D ?A []
      | Some (k, e, es) \<Rightarrow> stream_content Live ?n k (D @ [e]) ?A es)"
    using ok stream_content_live [OF _ numbered_log [OF assms(2)]]
    by (simp only: stream_ok_def active_def) (auto simp: stream_ok_def active_def)
  have sub: "es_queue st \<in> set (subscribers_of s (es_session st))"
    using ok by (simp add: stream_ok_def active_def)
  show ?thesis
  proof (cases "queue_next (es_last st) (queue_items s (es_queue st))")
    case None
    with QueueReady content sub assms(1) show ?thesis
      by (auto simp: stream_live_def Let_def step_ok_def touches_only_def stream_ok_def active_def
        simp del: stream_content.simps)
  next
    case (Some r)
    with QueueReady content sub assms(1) show ?thesis
      by (cases r) (auto simp: stream_live_def Let_def step_ok_def touches_only_def stream_ok_def
        active_def simp del: stream_content.simps)
  qed
qed

lemma stream_backlog_ok:
  assumes "subs_ok s" and "log_good s sid" and ok: "stream_ok sid s (st\<lparr>es_phase := Backlog events\<rparr>, D)"
  shows "step_ok sid D st s (stream_backlog w events st s)"
proof -
  let ?A = "the_log s sid" and ?n = "nat (es_after st)" and ?items = "queue_items s (es_queue st)"
  have content: "es_session st = sid \<Longrightarrow> 0 \<le> es_after st \<Longrightarrow> es_queue st \<notin> set (m0_stale s) \<Longrightarrow>
     (case backlog_next events of
        None \<Rightarrow> stream_content Live ?n (es_last st) D ?A ?items
      | Some (k, e, es) \<Rightarrow> stream_content (Backlog es) ?n k (D @ [e]) ?A ?items)"
    using ok stream_content_backlog [OF _ numbered_log [OF assms(2)]]
    by (simp only: stream_ok_def active_def) (auto simp: stream_ok_def active_def)
  have sub: "es_queue st \<in> set (subscribers_of s (es_session st))"
    using ok by (simp add: stream_ok_def active_def)
  show ?thesis
  proof (cases "backlog_next events")
    case None
    then have "stream_ok sid s (st\<lparr>es_phase := Live\<rparr>, D)"
      using content sub by (auto simp: stream_ok_def active_def simp del: stream_content.simps)
    with None assms(1,2) show ?thesis by (simp add: stream_backlog_def stream_live_ok)
  next
    case (Some r)
    with content sub assms(1) show ?thesis
      by (cases r) (auto simp: stream_backlog_def step_ok_def touches_only_def stream_ok_def active_def
          simp del: stream_content.simps)
  qed
qed

lemma snapshot_bus:
  assumes "snapshot utc env sid s = (r, s')"
  shows "bus s' = bus s" "logs s' = logs s"
  using assms
  by (auto simp: snapshot_def snapshot_of_def Let_def py_run bus_def logs_def fun_eq_iff
      split: option.splits sum.splits prod.splits)

lemma bus_eqD:
  assumes "bus s' = bus s"
  shows "subscribers_of s' = subscribers_of s" "queue_items s' = queue_items s" "m0_stale s' = m0_stale s"
    "m0_next_queue s' = m0_next_queue s" "m0_max_subscribers s' = m0_max_subscribers s"
  using assms by (simp_all add: bus_def fun_eq_iff subscribers_of_def queue_items_def)

text \<open>Registering the queue: the state in which the snapshot is taken.\<close>

definition subscribe :: "string \<Rightarrow> m0_backend \<Rightarrow> m0_backend" where
  "subscribe sid s =
     s\<lparr>m0_next_queue := Suc (m0_next_queue s), m0_queues := AList.update (m0_next_queue s) [] (m0_queues s),
       m0_subscribers := AList.update sid (subscribers_of s sid @ [m0_next_queue s])
         (AList.update sid (subscribers_of s sid) (m0_subscribers s))\<rparr>"

lemma subscribe_simps [simp]:
  "subscribers_of (subscribe sid s) sid' =
     (if sid' = sid then subscribers_of s sid @ [m0_next_queue s] else subscribers_of s sid')"
  "queue_items (subscribe sid s) q = (if q = m0_next_queue s then [] else queue_items s q)"
  "m0_stale (subscribe sid s) = m0_stale s" "m0_next_queue (subscribe sid s) = Suc (m0_next_queue s)"
  "m0_max_subscribers (subscribe sid s) = m0_max_subscribers s" "logs (subscribe sid s) = logs s"
  by (simp_all add: subscribe_def subscribers_of_def queue_items_def logs_def fun_eq_iff split: option.split)

lemma subs_ok_subscribe:
  assumes "subs_ok s" and "length (subscribers_of s sid) < m0_max_subscribers s"
  shows "subs_ok (subscribe sid s)"
proof -
  have "m0_next_queue s \<notin> set (subscribers_of s sid')" for sid' using assms(1) by (auto simp: subs_ok_def)
  with assms show ?thesis unfolding subs_ok_def by (auto simp: less_Suc_eq split: if_splits)
qed

lemma stream_open_ok:
  assumes "subs_ok s" and "stream_ok sid s (st, D)" and "es_phase st = NotStarted"
  shows "step_ok sid D st s (stream_open utc env st s)"
proof (cases "length (subscribers_of s (es_session st)) < m0_max_subscribers s")
  case False
  have [simp]: "D = []" using assms(2,3) by (simp add: stream_ok_def)
  let ?q = "m0_next_queue s"
  let ?s = "s\<lparr>m0_next_queue := Suc ?q, m0_queues := AList.update ?q [] (m0_queues s), m0_subscribers :=
      AList.update (es_session st) (subscribers_of s (es_session st)) (m0_subscribers s)\<rparr>"
  have s: "subscribers_of ?s = subscribers_of s" "logs ?s = logs s"
    "queue_items ?s q = (if q = ?q then [] else queue_items s q)" for q
    by (auto simp: fun_eq_iff subscribers_of_def logs_def queue_items_def split: option.split)
  have "subs_ok ?s" using assms(1) s(1) unfolding subs_ok_def by (auto simp: less_Suc_eq)
  moreover have "touches_only ?q s ?s" using s by (simp add: touches_only_def)
  moreover have "stream_open utc env st s =
      (Raised (SubscriberLimitExceeded ''SSE_SUBSCRIBER_LIMIT''), finished (st\<lparr>es_queue := ?q\<rparr>), ?s)"
    using False s(1) by (simp add: stream_open_def Let_def subscriber_slots_available_def)
  moreover have "?q \<notin> set (subscribers_of s sid')" for sid' using assms(1) by (auto simp: subs_ok_def)
  ultimately show ?thesis using s(1) by (simp add: step_ok_def finished_def stream_ok_def active_def)
next
  case True
  let ?sid = "es_session st" and ?st = "st\<lparr>es_queue := m0_next_queue s\<rparr>"
  let ?s2 = "subscribe ?sid s"
  have [simp]: "D = []" using assms(2,3) by (simp add: stream_ok_def)
  obtain r s3 where snap: "snapshot utc env ?sid ?s2 = (r, s3)" by force
  note b = bus_eqD [OF snapshot_bus(1) [OF snap]] snapshot_bus(2) [OF snap]
  have sub3: "subs_ok s3" using subs_ok_subscribe [OF assms(1) True] b by (simp add: subs_ok_def)
  have t3: "touches_only (m0_next_queue s) s s3" using b by (simp add: touches_only_def)
  have open_eq: "stream_open utc env st s = (case r of
      Inl e \<Rightarrow> (Raised e, finished ?st, stream_finally ?st s3)
    | Inr None \<Rightarrow> (Raised (KeyError ?sid), finished ?st, stream_finally ?st s3)
    | Inr (Some sn) \<Rightarrow> (YieldSnapshot sn, ?st\<lparr>es_phase := SnapshotSent\<rparr>, s3))"
    using True snap
    by (simp add: stream_open_def Let_def subscriber_slots_available_def subscribe_def subscribers_of_def
        split: option.split sum.split)
  have fin: "step_ok sid D st s (Raised e, finished ?st, stream_finally ?st s3)" for e
    using subs_ok_finally [OF sub3, of ?st] released [OF sub3, of ?st] touches_trans [OF t3 touches_finally [of ?st s3, simplified]] b
    by (simp add: step_ok_def finished_def stream_ok_def active_def stream_finally_def)
  show ?thesis
  proof (cases "\<exists>sn. r = Inr (Some sn)")
    case True
    have "the_log s3 sid = the_log s sid" using b by (simp add: the_log_def)
    with True open_eq sub3 t3 b show ?thesis
      by (auto simp: step_ok_def stream_ok_def active_def queued_def)
  next
    case False
    with open_eq fin show ?thesis by (auto split: sum.splits option.splits)
  qed
qed


lemma stream_anext_ok:
  assumes "subs_ok s" and "log_good s sid" and "stream_ok sid s (st, D)" and "es_phase st \<noteq> Finished"
  shows "step_ok sid D st s (stream_anext utc env w st s)"
proof (cases "es_phase st")
  case SnapshotSent
  let ?st = "st\<lparr>es_last := es_after st\<rparr>" and ?events = "events_after s (es_session st) (es_after st)"
  have "stream_ok sid s (?st\<lparr>es_phase := Backlog ?events\<rparr>, D)"
    using assms(2,3) SnapshotSent stream_content_snapshot [of "nat (es_after st)" "es_last st" D "the_log s sid"]
    by (auto simp: stream_ok_def active_def events_after_drop simp del: stream_content.simps)
  from stream_backlog_ok [OF assms(1,2) this] show ?thesis
    by (simp add: stream_anext_def SnapshotSent step_ok_def)
next
  case (Backlog es)
  then have "st\<lparr>es_phase := Backlog es\<rparr> = st" by simp
  with Backlog assms stream_backlog_ok [OF assms(1,2), where st = st and events = es and D = D] show ?thesis
    by (simp add: stream_anext_def)
next
  case Live
  then have "st\<lparr>es_phase := Live\<rparr> = st" by simp
  with Live assms stream_live_ok [OF assms(1,2), where st = st and D = D] show ?thesis
    by (simp add: stream_anext_def)
qed (use assms stream_open_ok in \<open>auto simp: stream_anext_def\<close>)

subsection \<open>The system of a backend and its streams\<close>

record stream_system =
  sy_backend :: m0_backend
  sy_streams :: "(event_stream \<times> pydict list) list"

datatype move =
    Request m0_request
  | OpenStream string int
  | Resume nat wake
  | CloseStream nat

definition yielded :: "stream_out \<Rightarrow> pydict list" where
  "yielded out = (case out of YieldEvent e \<Rightarrow> [e] | _ \<Rightarrow> [])"

fun system_step :: "(string \<Rightarrow> string) \<Rightarrow> (pyfloat \<Rightarrow> py_error + string) \<Rightarrow> json list option \<Rightarrow> py_env \<Rightarrow>
    move \<Rightarrow> stream_system \<Rightarrow> stream_system" where
  "system_step sha utc fx env (Request r) y = y\<lparr>sy_backend := m0_handle sha utc fx env r (sy_backend y)\<rparr>"
| "system_step sha utc fx env (OpenStream sid n) y = y\<lparr>sy_streams := sy_streams y @ [(stream_events sid n, [])]\<rparr>"
| "system_step sha utc fx env (Resume i w) y =
     (if i < length (sy_streams y) then
        case sy_streams y ! i of (st, D) \<Rightarrow>
        case stream_anext utc env w st (sy_backend y) of (out, st', s') \<Rightarrow>
          y\<lparr>sy_backend := s', sy_streams := (sy_streams y)[i := (st', D @ yielded out)]\<rparr>
      else y)"
| "system_step sha utc fx env (CloseStream i) y =
     (if i < length (sy_streams y) then
        case sy_streams y ! i of (st, D) \<Rightarrow>
        case stream_aclose st (sy_backend y) of (st', s') \<Rightarrow>
          y\<lparr>sy_backend := s', sy_streams := (sy_streams y)[i := (st', D)]\<rparr>
      else y)"

fun plain_move :: "move \<Rightarrow> bool" where
  "plain_move (Request (DemoEvent sid p)) = plain_payload p"
| "plain_move _ = True"

text \<open>No two active streams share a queue.\<close>

definition queues_apart :: "(event_stream \<times> pydict list) list \<Rightarrow> bool" where
  "queues_apart xs \<longleftrightarrow> (\<forall>i j. i < length xs \<and> j < length xs \<and> i \<noteq> j \<and> active (fst (xs ! i)) \<and> active (fst (xs ! j))
     \<longrightarrow> es_queue (fst (xs ! i)) \<noteq> es_queue (fst (xs ! j)))"

definition system_ok :: "string \<Rightarrow> stream_system \<Rightarrow> bool" where
  "system_ok sid y \<longleftrightarrow> streams_ok sid (sy_streams y) (sy_backend y) \<and> queues_apart (sy_streams y)"

lemma streams_okD:
  assumes "streams_ok sid xs s" and "i < length xs"
  shows "stream_ok sid s (xs ! i)"
    and "active (fst (xs ! i)) \<Longrightarrow> es_queue (fst (xs ! i)) < m0_next_queue s"
proof -
  show ok: "stream_ok sid s (xs ! i)" using assms by (simp add: streams_ok_def)
  show "active (fst (xs ! i)) \<Longrightarrow> es_queue (fst (xs ! i)) < m0_next_queue s"
    using ok assms(1) by (auto simp: stream_ok_def streams_ok_def subs_ok_def split: prod.splits)
qed

text \<open>Replacing the stream that made a step.\<close>

lemma system_replace:
  assumes ok: "streams_ok sid xs s" "queues_apart xs" and i: "i < length xs" "xs ! i = (st, D)"
    and step: "step_ok sid D st s (out, st', s')"
    and q: "es_queue st' = (if active st then es_queue st else m0_next_queue s)"
  shows "streams_ok sid (xs[i := (st', D @ yielded out)]) s' \<and> queues_apart (xs[i := (st', D @ yielded out)])"
proof -
  let ?ys = "xs[i := (st', D @ yielded out)]"
  have t: "touches_only (es_queue st') s s'" and "subs_ok s'" and l: "logs s' = logs s"
    and own: "stream_ok sid s' (st', D @ yielded out)"
    and act: "\<And>sid'. es_queue st' \<in> set (subscribers_of s' sid') \<Longrightarrow> active st'"
    using step by (auto simp: step_ok_def touches_only_def yielded_def)
  have apart: "es_queue (fst (xs ! j)) \<noteq> es_queue st'" if "j < length xs" "j \<noteq> i" "active (fst (xs ! j))" for j
    using that ok(2) i q streams_okD(2) [OF ok(1) that(1,3)] unfolding queues_apart_def
    by (metis fst_conv less_irrefl)
  have nth: "?ys ! j = (if j = i then (st', D @ yielded out) else xs ! j)" if "j < length xs" for j
    using that by simp
  have "stream_ok sid s' (?ys ! j)" if "j < length xs" for j
    using that nth own stream_ok_other [OF _ t, of sid "fst (xs ! j)" "snd (xs ! j)"]
      streams_okD(1) [OF ok(1) that] apart by simp
  then have "\<forall>x \<in> set ?ys. stream_ok sid s' x" by (metis in_set_conv_nth length_list_update)
  moreover have "\<exists>x \<in> set ?ys. active (fst x) \<and> es_queue (fst x) = r" if r: "r \<in> set (subscribers_of s' sid')" for r sid'
  proof (cases "r = es_queue st'")
    case True
    with act r i show ?thesis by (metis fst_conv set_update_memI)
  next
    case False
    then have "r \<in> set (subscribers_of s sid')" using t r by (auto simp: touches_only_def)
    then obtain j where j: "j < length xs" "active (fst (xs ! j))" "es_queue (fst (xs ! j)) = r"
      using ok(1) unfolding streams_ok_def by (metis in_set_conv_nth)
    show ?thesis
    proof (cases "j = i")
      case True
      with j i q False show ?thesis by auto
    next
      case jn: False
      with j have "xs ! j \<in> set ?ys" by (metis length_list_update nth nth_mem)
      with j show ?thesis by blast
    qed
  qed
  moreover have "queues_apart ?ys"
    using ok(2) apart i(1) unfolding queues_apart_def
    by (simp add: nth_list_update) (metis fst_conv)
  moreover have "log_good s' sid" using ok(1) l by (simp add: streams_ok_def log_good_def)
  ultimately show ?thesis using \<open>subs_ok s'\<close> by (auto simp: streams_ok_def)
qed

lemma anext_queue:
  "stream_anext utc env w st s = (out, st', s') \<Longrightarrow> es_phase st \<noteq> Finished \<Longrightarrow>
   es_queue st' = (if active st then es_queue st else m0_next_queue s)"
  by (auto simp: stream_anext_def stream_open_def stream_backlog_def stream_live_def Let_def active_def
      finished_def split: stream_phase.splits if_splits prod.splits sum.splits option.splits wake.splits)

lemma streams_ok_snoc: "streams_ok sid xs s \<Longrightarrow> stream_ok sid s x \<Longrightarrow> streams_ok sid (xs @ [x]) s"
  unfolding streams_ok_def by (cases x) fastforce

lemma queues_apart_inactive:
  assumes "queues_apart xs" and "\<And>j. j < length ys \<Longrightarrow> active (fst (ys ! j)) \<Longrightarrow> j < length xs \<and> ys ! j = xs ! j"
  shows "queues_apart ys"
  using assms unfolding queues_apart_def by metis

lemma queues_apart_snoc:
  assumes "queues_apart xs" and "\<not> active (fst x)"
  shows "queues_apart (xs @ [x])"
proof (rule queues_apart_inactive [OF assms(1)])
  fix j assume j: "j < length (xs @ [x])" "active (fst ((xs @ [x]) ! j))"
  then have "j \<noteq> length xs" using assms(2) by auto
  with j(1) show "j < length xs \<and> (xs @ [x]) ! j = xs ! j" by (simp add: nth_append)
qed

lemma aclose_ok:
  assumes "streams_ok sid xs s" "queues_apart xs" and i: "i < length xs" "xs ! i = (st, D)"
    and close: "stream_aclose st s = (st', s')"
  shows "streams_ok sid (xs[i := (st', D)]) s' \<and> queues_apart (xs[i := (st', D)])"
proof (cases "active st")
  case True
  then have c: "st' = finished st" "s' = stream_finally st s"
    using close by (auto simp: stream_aclose_def active_def split: stream_phase.splits)
  have "subs_ok s" "stream_ok sid s (st, D)" using assms(1) streams_okD(1) [OF assms(1) i(1)] i(2)
    by (simp_all add: streams_ok_def)
  then have "step_ok sid D st s (StopIteration, st', s')"
    using c True by (simp add: step_ok_finished stream_ok_def)
  from system_replace [OF assms(1,2) i this] True c show ?thesis
    by (simp add: yielded_def finished_def)
next
  case False
  then have c: "s' = s" "st' = finished st"
    using close by (auto simp: stream_aclose_def active_def finished_def split: stream_phase.splits)
  have "stream_ok sid s (st', D)" using c by (simp add: stream_ok_def finished_def active_def)
  then have "\<forall>x \<in> set (xs[i := (st', D)]). stream_ok sid s' x"
    using assms(1) c set_update_subset_insert [of xs i "(st', D)"] by (auto simp: streams_ok_def)
  moreover have "\<exists>x \<in> set (xs[i := (st', D)]). active (fst x) \<and> es_queue (fst x) = q"
    if q: "q \<in> set (subscribers_of s' sid')" for q sid'
  proof -
    obtain j where j: "j < length xs" "active (fst (xs ! j))" "es_queue (fst (xs ! j)) = q"
      using assms(1) c q unfolding streams_ok_def by (metis in_set_conv_nth)
    with False i have "j \<noteq> i" by auto
    with j have "xs ! j \<in> set (xs[i := (st', D)])" by (metis length_list_update nth_list_update_neq nth_mem)
    with j show ?thesis by blast
  qed
  moreover have "queues_apart (xs[i := (st', D)])"
  proof (rule queues_apart_inactive [OF assms(2)])
    fix j assume "j < length (xs[i := (st', D)])" "active (fst (xs[i := (st', D)] ! j))"
    moreover from this have "j \<noteq> i" using i(1) c by (auto simp: finished_def active_def)
    ultimately show "j < length xs \<and> xs[i := (st', D)] ! j = xs ! j" by simp
  qed
  ultimately show ?thesis using assms(1) c by (auto simp: streams_ok_def)
qed

lemma system_step_ok:
  assumes "system_ok sid y" and "fresh_ids env sid" and "plain_move m"
  shows "system_ok sid (system_step sha utc fx env m y)"
proof (cases m)
  case (Request r)
  have "streams_ok sid (sy_streams y) (m0_handle sha utc fx env r (sy_backend y))"
    using assms Request by (intro stream_bus.handle_keeps) (auto simp: system_ok_def fresh_ids_def)
  with Request assms(1) show ?thesis by (simp add: system_ok_def)
next
  case (OpenStream sid' n)
  let ?xs = "sy_streams y" and ?x = "(stream_events sid' n, [])"
  have x: "\<not> active (fst ?x)" "es_phase (fst ?x) = NotStarted" by (simp_all add: active_def stream_events_def)
  have "queues_apart (?xs @ [?x])"
    using assms(1) x by (intro queues_apart_snoc) (simp_all add: system_ok_def)
  moreover have "stream_ok sid (sy_backend y) ?x" using x by (simp add: stream_ok_def)
  then have "streams_ok sid (?xs @ [?x]) (sy_backend y)"
    using assms(1) by (intro streams_ok_snoc) (simp_all add: system_ok_def)
  ultimately show ?thesis using OpenStream by (simp add: system_ok_def)
next
  case (Resume i w)
  obtain st D where x: "sy_streams y ! i = (st, D)" by force
  obtain out st' s' where a: "stream_anext utc env w st (sy_backend y) = (out, st', s')"
    by (metis prod.exhaust)
  have ok: "streams_ok sid (sy_streams y) (sy_backend y)" "queues_apart (sy_streams y)"
    using assms(1) by (simp_all add: system_ok_def)
  show ?thesis
  proof (cases "i < length (sy_streams y) \<and> es_phase st \<noteq> Finished")
    case True
    then have "step_ok sid D st (sy_backend y) (out, st', s')"
      using stream_anext_ok [of "sy_backend y" sid st D utc env w] ok streams_okD(1) [OF ok(1), of i] a x
      by (simp add: streams_ok_def)
    from system_replace [OF ok _ x this] anext_queue [OF a] True Resume x a show ?thesis
      by (simp add: system_ok_def)
  next
    case False
    moreover have "(sy_streams y)[i := (st, D)] = sy_streams y" using x by (metis list_update_id)
    ultimately show ?thesis using Resume x a assms(1) by (auto simp: stream_anext_def yielded_def)
  qed
next
  case (CloseStream i)
  obtain st D where x: "sy_streams y ! i = (st, D)" by force
  obtain st' s' where "stream_aclose st (sy_backend y) = (st', s')" by force
  with CloseStream x assms(1) aclose_ok [of sid "sy_streams y" "sy_backend y" i st D st' s'] show ?thesis
    by (simp add: system_ok_def)
qed

lemma system_run_ok:
  "system_ok sid y \<Longrightarrow> fresh_ids env sid \<Longrightarrow> list_all plain_move ms \<Longrightarrow>
   system_ok sid (fold (system_step sha utc fx env) ms y)"
  by (induction ms arbitrary: y) (simp_all add: system_step_ok)

text \<open>A backend without subscribers, with the session \<open>sid\<close>, before any stream is opened.\<close>

definition quiet :: "m0_backend \<Rightarrow> string \<Rightarrow> bool" where
  "quiet s sid \<longleftrightarrow> m0_subscribers s = [] \<and>
     (case map_of (m0_sessions s) sid of None \<Rightarrow> False
      | Some rec \<Rightarrow> session_ok rec \<and> list_all (\<lambda>e. plain_payload (er_payload e)) (sr_events rec))"

lemma quiet_system_ok: "quiet s sid \<Longrightarrow> system_ok sid \<lparr>sy_backend = s, sy_streams = []\<rparr>"
  by (auto simp: quiet_def system_ok_def streams_ok_def queues_apart_def subs_ok_def log_good_def logs_def
      subscribers_of_def session_ok_def log_ok_def list_all_iff split: option.splits)

section \<open>Properties\<close>

lemma delivered_seqs:
  assumes "numbered A" and "delivered_ok n l D A"
  shows "map sequence_of D = map Some [int n + 1..int n + int (length D)]"
proof (rule nth_equalityI)
  fix i assume "i < length (map sequence_of D)"
  with assms show "map sequence_of D ! i = map Some [int n + 1..int n + int (length D)] ! i"
    by (auto simp: delivered_ok_def numbered_def)
qed simp

text \<open>
  Claim C1. Gap-free delivery. Let any requests, stream openings, resumptions (by an item, by a timeout)
  and closings of any number of streams interleave. As long as the queue of a stream has not
  overflowed, what the stream yielded is exactly an initial part of the session's log after the number
  the client asked for, with consecutive numbers: nothing is skipped, repeated or reordered, although
  events arrive between the subscription, the snapshot, the backlog and the live phase. And when the
  stream is live with an empty queue, it has yielded the whole log.
\<close>
theorem stream_gap_free:
  assumes "quiet s sid" and "fresh_ids env sid" and "list_all plain_move ms"
    and "y = fold (system_step sha utc fx env) ms \<lparr>sy_backend = s, sy_streams = []\<rparr>"
    and "(st, D) \<in> set (sy_streams y)" and "es_session st = sid" and "0 \<le> es_after st"
    and "active st" and "es_queue st \<notin> set (m0_stale (sy_backend y))"
  shows "(\<exists>rest. events_after (sy_backend y) sid (es_after st) = D @ rest) \<and>
    map sequence_of D = map Some [es_after st + 1..es_after st + int (length D)] \<and>
    (es_phase st = Live \<and> queue_items (sy_backend y) (es_queue st) = [] \<longrightarrow>
       D = events_after (sy_backend y) sid (es_after st))"
proof -
  let ?s = "sy_backend y" and ?A = "the_log (sy_backend y) sid" and ?n = "nat (es_after st)"
  have "system_ok sid y" using assms(1-4) by (simp add: system_run_ok quiet_system_ok)
  then have good: "log_good ?s sid" and "stream_ok sid ?s (st, D)"
    using assms(5) by (auto simp: system_ok_def streams_ok_def)
  then have content: "stream_content (es_phase st) ?n (es_last st) D ?A (queue_items ?s (es_queue st))"
    using assms(6-9) by (simp add: stream_ok_def)
  have log: "events_after ?s sid (es_after st) = drop ?n ?A" using good assms(7) by (rule events_after_drop)
  obtain l where l: "delivered_ok ?n l D ?A"
    using content assms(8) by (cases "es_phase st") (auto simp: active_def intro: that [of ?n])
  have "drop ?n ?A = D @ drop (l - ?n) (drop ?n ?A)" using l by (metis append_take_drop_id delivered_ok_def)
  moreover have "map sequence_of D = map Some [es_after st + 1..es_after st + int (length D)]"
    using delivered_seqs [OF numbered_log [OF good] l] assms(7) by simp
  moreover have "D = drop ?n ?A" if "es_phase st = Live" "queue_items ?s (es_queue st) = []"
  proof -
    have "length ?A \<le> nat (es_last st)" "delivered_ok ?n (nat (es_last st)) D ?A"
      using content that by (auto simp: queued_def)
    then show ?thesis by (simp add: delivered_ok_def diff_le_mono)
  qed
  ultimately show ?thesis using log by metis
qed

text \<open>The demo session of the witnesses, with a given queue size.\<close>

definition stream_demo :: "int \<Rightarrow> move list \<Rightarrow> stream_system" where
  "stream_demo cap ms =
     fold (system_step (\<lambda>x. x) (\<lambda>_. Inr ''utc'') None (demo_env CHR ''b'')) ms
       \<lparr>sy_backend = (demo_run CHR ''a'' demo_start m0_fresh)\<lparr>m0_subscriber_queue_size := cap\<rparr>, sy_streams = []\<rparr>"

definition demo_moves :: "move list" where
  "demo_moves = [OpenStream ''a'' 1, Resume 0 QueueReady, Request (SubmitExam ''a'' ''k''),
     Resume 0 QueueReady, Resume 0 QueueReady, Resume 0 QueueReady, Request (SessionAction ''a'' ''stop''),
     Resume 0 QueueReady]"

lemma demo_quiet: "quiet ((demo_run CHR ''a'' demo_start m0_fresh)\<lparr>m0_subscriber_queue_size := cap\<rparr>) ''a''"
  by code_simp

lemma demo_fresh: "fresh_ids (demo_env CHR ''b'') ''a''"
  by (simp add: fresh_ids_def demo_env_def)

theorem stream_gap_free_witness:
  "\<exists>st D. (st, D) \<in> set (sy_streams (stream_demo 512 demo_moves)) \<and> length D = 4 \<and>
     map sequence_of D = map Some [1 + 1..1 + int (length D)]"
proof -
  let ?y = "stream_demo 512 demo_moves"
  have "list_all (\<lambda>(st, D). length D = 4 \<and> active st \<and> es_session st = ''a'' \<and> es_after st = 1 \<and>
      es_queue st \<notin> set (m0_stale (sy_backend ?y))) (sy_streams ?y) \<and> sy_streams ?y \<noteq> [] \<and> list_all plain_move demo_moves"
    by code_simp
  then obtain st D where y: "(st, D) \<in> set (sy_streams ?y)" "length D = 4" "active st" "es_session st = ''a''"
      "es_after st = 1" "es_queue st \<notin> set (m0_stale (sy_backend ?y))" "list_all plain_move demo_moves"
    by (cases "sy_streams ?y") auto
  have "map sequence_of D = map Some [1 + 1..1 + int (length D)]"
    using stream_gap_free [OF demo_quiet demo_fresh y(7) stream_demo_def, of st D 512] y by simp
  with y show ?thesis by (metis (no_types, lifting))
qed

text \<open>
  Subscriber slots are bounded and never leak: under the same interleavings, every session has
  at most \<open>max_subscribers_per_session\<close> subscribers, and every subscribed queue belongs to a stream that
  is still active; so when all streams have finished or were closed, no session has a subscriber.
\<close>
lemma subscriber_slots:
  assumes "quiet s sid" and "fresh_ids env sid" and "list_all plain_move ms"
    and "y = fold (system_step sha utc fx env) ms \<lparr>sy_backend = s, sy_streams = []\<rparr>"
  shows "length (subscribers_of (sy_backend y) sid') \<le> m0_max_subscribers (sy_backend y) \<and>
    (list_all (\<lambda>x. \<not> active (fst x)) (sy_streams y) \<longrightarrow> subscribers_of (sy_backend y) sid' = [])"
proof -
  have "system_ok sid y" using assms by (simp add: system_run_ok quiet_system_ok)
  then have "subs_ok (sy_backend y)" and "\<forall>q \<in> set (subscribers_of (sy_backend y) sid').
      \<exists>x \<in> set (sy_streams y). active (fst x) \<and> es_queue (fst x) = q"
    by (auto simp: system_ok_def streams_ok_def)
  then show ?thesis by (auto simp: subs_ok_def list_all_iff)
qed

lemma subscriber_slots_witness:
  "subscribers_of (sy_backend (stream_demo 512 (demo_moves @ [CloseStream 0]))) ''a'' = []"
proof -
  have "list_all plain_move (demo_moves @ [CloseStream 0])"
    and "list_all (\<lambda>x. \<not> active (fst x)) (sy_streams (stream_demo 512 (demo_moves @ [CloseStream 0])))"
    by code_simp+
  with subscriber_slots [OF demo_quiet demo_fresh this(1) stream_demo_def] show ?thesis by blast
qed

text \<open>
  The reviewer's stream passes an item on only when the bearer was valid at that moment: a step
  that yields a snapshot, an event or a heartbeat is a step of the underlying stream followed by a
  check of the bearer that said yes; when the check says no, nothing is yielded and the stream has
  finished; and whenever a step ends the iteration or raises, the stream has finished.
\<close>
lemma reviewer_stream_checks_bearer:
  assumes "reviewer_anext sha utc env token w st s = (out, st', s')"
    and "stream_anext utc env w st s = (out1, st1, s1)" and "is_reviewer sha env (Some token) s1 = (r, s2)"
  shows "((case out of YieldSnapshot _ \<Rightarrow> True | YieldEvent _ \<Rightarrow> True | Heartbeat \<Rightarrow> True | _ \<Rightarrow> False) \<longrightarrow>
        out1 = out \<and> st1 = st' \<and> r = Inr True \<and> s2 = s') \<and>
    (out1 \<noteq> Pending \<and> r \<noteq> Inr True \<longrightarrow> out = StopIteration \<or> (\<exists>e. out = Raised e)) \<and>
    (out = StopIteration \<or> (\<exists>e. out = Raised e) \<longrightarrow> es_phase st' = Finished)"
proof -
  have fin: "es_phase (fst (stream_aclose x z)) = Finished" for x and z :: "'a m0_backend_scheme"
    by (simp add: stream_aclose_def finished_def split: stream_phase.split)
  show ?thesis
    using assms fin [of st1 s1] fin [of st1 s2]
    by (cases out1) (auto simp: reviewer_anext_def split: sum.splits bool.splits)
qed

lemma reviewer_stream_checks_bearer_witness:
  "\<exists>st' s'. reviewer_anext (\<lambda>x. x) (\<lambda>_. Inr ''utc'') (demo_env CHR ''b'') ''guess'' QueueReady
      (stream_events ''a'' 0) (demo_run CHR ''a'' demo_start m0_fresh) = (StopIteration, st', s') \<and>
     es_phase st' = Finished"
proof -
  let ?s = "demo_run CHR ''a'' demo_start m0_fresh" and ?utc = "\<lambda>_. Inr ''utc''" and ?e = "demo_env CHR ''b''"
  obtain out st' s' where r: "reviewer_anext (\<lambda>x. x) ?utc ?e ''guess'' QueueReady (stream_events ''a'' 0) ?s = (out, st', s')"
    by (metis prod.exhaust)
  obtain out1 st1 s1 where n: "stream_anext ?utc ?e QueueReady (stream_events ''a'' 0) ?s = (out1, st1, s1)"
    by (metis prod.exhaust)
  obtain v s2 where v: "is_reviewer (\<lambda>x. x) ?e (Some ''guess'') s1 = (v, s2)" by force
  have "(case fst (reviewer_anext (\<lambda>x. x) ?utc ?e ''guess'' QueueReady (stream_events ''a'' 0) ?s) of
      StopIteration \<Rightarrow> True | _ \<Rightarrow> False)" by code_simp
  with r have "out = StopIteration" by (cases out) auto
  with reviewer_stream_checks_bearer [OF r n v] r show ?thesis by auto
qed

end
