(* ===== verification/Temporal_Rules.thy ===== *)
theory Temporal_Rules
  imports Py_Prelude
begin

text \<open>
  The temporal rules of \<open>showcase/temporal_rules.py\<close>: the rule policy with its two loaders and the
  engine that turns per-frame observations into START, UPDATE and END events. A frame is what
  \<open>advance\<close> gets; the engine's fields are a record; \<open>uuid n\<close> is the hex string of the \<open>n\<close>-th call
  of \<open>uuid4\<close>.

  Thresholds and scores are \<open>pyfloat\<close> numbers (an integer threshold is the number it denotes),
  times are Python integers in milliseconds.
\<close>

section \<open>Policies\<close>

record rule_policy =
  rp_policy_version :: string
  rp_status :: string
  rp_selection_source :: string
  rp_head_down_on :: pyfloat
  rp_head_down_off :: pyfloat
  rp_side_look_on :: pyfloat
  rp_side_look_off :: pyfloat
  rp_motion_duration_ms :: int
  rp_presence_duration_ms :: int
  rp_release_ms :: int
  rp_merge_gap_ms :: int
  rp_cooldown_ms :: int

definition rule_policy_demo :: rule_policy where
  "rule_policy_demo =
     \<lparr>rp_policy_version = ''rules-demo-v2'', rp_status = ''DEMO_ONLY'', rp_selection_source = ''SYNTHETIC'',
      rp_head_down_on = Finite 15, rp_head_down_off = Finite 8, rp_side_look_on = Finite 25,
      rp_side_look_off = Finite 15, rp_motion_duration_ms = 2000, rp_presence_duration_ms = 1500,
      rp_release_ms = 400, rp_merge_gap_ms = 700, rp_cooldown_ms = 1000\<rparr>"

definition THRESHOLD_FIELDS :: "string list" where
  "THRESHOLD_FIELDS = [''head_down_on'', ''head_down_off'', ''side_look_on'', ''side_look_off'']"

definition DURATION_FIELDS :: "string list" where
  "DURATION_FIELDS =
     [''motion_duration_ms'', ''presence_duration_ms'', ''release_ms'', ''merge_gap_ms'', ''cooldown_ms'']"

definition VERSION_FIELDS :: "string list" where
  "VERSION_FIELDS = [''policy_version'', ''status'', ''selection_source'']"

definition to_document :: "rule_policy \<Rightarrow> pydict" where
  "to_document p =
     [(''policy_version'', JStr (rp_policy_version p)), (''status'', JStr (rp_status p)),
      (''selection_source'', JStr (rp_selection_source p)),
      (''head_down_on'', JFloat (rp_head_down_on p)), (''head_down_off'', JFloat (rp_head_down_off p)),
      (''side_look_on'', JFloat (rp_side_look_on p)), (''side_look_off'', JFloat (rp_side_look_off p)),
      (''motion_duration_ms'', JInt (rp_motion_duration_ms p)),
      (''presence_duration_ms'', JInt (rp_presence_duration_ms p)),
      (''release_ms'', JInt (rp_release_ms p)), (''merge_gap_ms'', JInt (rp_merge_gap_ms p)),
      (''cooldown_ms'', JInt (rp_cooldown_ms p))]"

text \<open>
  \<open>math.isfinite(v)\<close> and \<open>float(v)\<close> of a Python integer raise when it is outside the range of a
  double. \<open>number v\<close> is the value of a JSON number that is not a Boolean.
\<close>

definition int_to_float :: "int \<Rightarrow> py_error + pyfloat" where
  "int_to_float n =
     (if \<bar>n\<bar> < 2 ^ 1024 - 2 ^ 970 then Inr (Finite (of_int n))
      else Inl (OverflowError ''int too large to convert to float''))"

fun number :: "json \<Rightarrow> (py_error + pyfloat) option" where
  "number (JInt n) = Some (int_to_float n)"
| "number (JFloat f) = Some (Inr f)"
| "number _ = None"

fun check_thresholds :: "pydict \<Rightarrow> string \<Rightarrow> string list \<Rightarrow> py_error + unit" where
  "check_thresholds d err [] = Inr ()"
| "check_thresholds d err (k # ks) =
     (case map_of d k of
        None \<Rightarrow> Inl (KeyError k)
      | Some v \<Rightarrow>
          (case number v of
             None \<Rightarrow> Inl (ValueError err)
           | Some (Inl e) \<Rightarrow> Inl e
           | Some (Inr f) \<Rightarrow> if \<not> pf_isfinite f then Inl (ValueError err) else check_thresholds d err ks))"

fun check_durations :: "pydict \<Rightarrow> string \<Rightarrow> string list \<Rightarrow> py_error + unit" where
  "check_durations d err [] = Inr ()"
| "check_durations d err (k # ks) =
     (case map_of d k of
        None \<Rightarrow> Inl (KeyError k)
      | Some (JInt n) \<Rightarrow> if 0 \<le> n \<and> n \<le> 60000 then check_durations d err ks else Inl (ValueError err)
      | Some _ \<Rightarrow> Inl (ValueError err))"

text \<open>Fields of a document that passed the checks.\<close>

fun as_float :: "json option \<Rightarrow> pyfloat" where
  "as_float (Some (JInt n)) = Finite (of_int n)"
| "as_float (Some (JFloat f)) = f"
| "as_float _ = NaN"

text \<open>\<open>float(v)\<close>: an integer is rounded.\<close>

fun as_double :: "json option \<Rightarrow> pyfloat" where
  "as_double (Some (JInt n)) = double_of (of_int n)"
| "as_double v = as_float v"

fun as_int :: "json option \<Rightarrow> int" where
  "as_int (Some (JInt n)) = n"
| "as_int _ = 0"

fun as_str :: "json option \<Rightarrow> string" where
  "as_str (Some (JStr s)) = s"
| "as_str _ = []"

text \<open>\<open>v in {a, b}\<close> for strings; a list or a dictionary is not hashable.\<close>

fun in_str_set :: "json option \<Rightarrow> string list \<Rightarrow> py_error + bool" where
  "in_str_set (Some (JStr s)) xs = Inr (s \<in> set xs)"
| "in_str_set (Some (JArr _)) xs = Inl (TypeError ''unhashable type: list'')"
| "in_str_set (Some (JObj _)) xs = Inl (TypeError ''unhashable type: dict'')"
| "in_str_set _ xs = Inr False"

definition document_fields :: "string list" where
  "document_fields = VERSION_FIELDS @ THRESHOLD_FIELDS @ DURATION_FIELDS"

definition policy_of_document :: "pydict \<Rightarrow> rule_policy" where
  "policy_of_document d =
     \<lparr>rp_policy_version = as_str (map_of d ''policy_version''), rp_status = as_str (map_of d ''status''),
      rp_selection_source = as_str (map_of d ''selection_source''),
      rp_head_down_on = as_float (map_of d ''head_down_on''), rp_head_down_off = as_float (map_of d ''head_down_off''),
      rp_side_look_on = as_float (map_of d ''side_look_on''), rp_side_look_off = as_float (map_of d ''side_look_off''),
      rp_motion_duration_ms = as_int (map_of d ''motion_duration_ms''),
      rp_presence_duration_ms = as_int (map_of d ''presence_duration_ms''),
      rp_release_ms = as_int (map_of d ''release_ms''), rp_merge_gap_ms = as_int (map_of d ''merge_gap_ms''),
      rp_cooldown_ms = as_int (map_of d ''cooldown_ms'')\<rparr>"

definition check_frozen :: "pydict \<Rightarrow> bool \<Rightarrow> py_error + unit" where
  "check_frozen d research =
     (if \<not> research then Inr ()
      else if map_of d ''status'' \<noteq> Some (JStr ''FROZEN'') then Inl (ValueError ''POLICY_NOT_FROZEN'')
      else case in_str_set (map_of d ''selection_source'') [''PILOT'', ''CALIBRATION''] of
             Inl e \<Rightarrow> Inl e
           | Inr ok \<Rightarrow> if ok then Inr () else Inl (ValueError ''POLICY_NOT_FROZEN''))"

definition hysteresis_ok :: "rule_policy \<Rightarrow> bool" where
  "hysteresis_ok p \<longleftrightarrow>
     pf_le (Finite 0) (rp_head_down_off p) \<and> pf_less (rp_head_down_off p) (rp_head_down_on p) \<and>
     pf_le (Finite 0) (rp_side_look_off p) \<and> pf_less (rp_side_look_off p) (rp_side_look_on p) \<and>
     0 < rp_motion_duration_ms p \<and> 0 < rp_presence_duration_ms p"

definition nonempty_str :: "json option \<Rightarrow> bool" where
  "nonempty_str v = (case v of Some (JStr s) \<Rightarrow> s \<noteq> [] | _ \<Rightarrow> False)"

definition from_document :: "pydict \<Rightarrow> bool \<Rightarrow> py_error + rule_policy" where
  "from_document d research =
     (if set (map fst d) \<noteq> set document_fields then Inl (ValueError ''POLICY_SCHEMA_INVALID'')
      else case check_frozen d research of Inl e \<Rightarrow> Inl e | Inr _ \<Rightarrow>
           case check_thresholds d ''POLICY_THRESHOLD_INVALID'' THRESHOLD_FIELDS of Inl e \<Rightarrow> Inl e | Inr _ \<Rightarrow>
           case check_durations d ''POLICY_DURATION_INVALID'' DURATION_FIELDS of Inl e \<Rightarrow> Inl e | Inr _ \<Rightarrow>
           if \<not> hysteresis_ok (policy_of_document d) then Inl (ValueError ''POLICY_HYSTERESIS_INVALID'')
           else if \<not> list_all (\<lambda>k. nonempty_str (map_of d k)) VERSION_FIELDS
           then Inl (ValueError ''POLICY_VERSION_INVALID'')
           else Inr (policy_of_document d))"

definition PROTOCOL_THRESHOLD_FIELDS :: "string list" where
  "PROTOCOL_THRESHOLD_FIELDS = [''head_down_start_degrees'', ''head_down_end_degrees'',
     ''side_look_start_degrees'', ''side_look_end_degrees'']"

definition PROTOCOL_DURATION_FIELDS :: "string list" where
  "PROTOCOL_DURATION_FIELDS = [''persistence_ms'', ''presence_persistence_ms'', ''release_ms'',
     ''merge_gap_ms'', ''cooldown_ms'', ''stride_ms'']"

definition PROTOCOL_EVENT_POLICY_FIELDS :: "string list" where
  "PROTOCOL_EVENT_POLICY_FIELDS = PROTOCOL_THRESHOLD_FIELDS @ PROTOCOL_DURATION_FIELDS"

definition policy_of_protocol :: "string \<Rightarrow> string \<Rightarrow> pydict \<Rightarrow> rule_policy" where
  "policy_of_protocol version source p =
     \<lparr>rp_policy_version = version @ ''-policy'', rp_status = ''FROZEN'', rp_selection_source = source,
      rp_head_down_on = as_double (map_of p ''head_down_start_degrees''),
      rp_head_down_off = as_double (map_of p ''head_down_end_degrees''),
      rp_side_look_on = as_double (map_of p ''side_look_start_degrees''),
      rp_side_look_off = as_double (map_of p ''side_look_end_degrees''),
      rp_motion_duration_ms = as_int (map_of p ''persistence_ms''),
      rp_presence_duration_ms = as_int (map_of p ''presence_persistence_ms''),
      rp_release_ms = as_int (map_of p ''release_ms''), rp_merge_gap_ms = as_int (map_of p ''merge_gap_ms''),
      rp_cooldown_ms = as_int (map_of p ''cooldown_ms'')\<rparr>"

definition from_protocol_freeze :: "pydict \<Rightarrow> py_error + rule_policy" where
  "from_protocol_freeze d =
     (let refuse = Inl (ValueError ''PROTOCOL_POLICY_NOT_FROZEN'') in
      if map_of d ''status'' \<noteq> Some (JStr ''FROZEN'') \<or> \<not> nonempty_str (map_of d ''protocol_version'') then refuse
      else case in_str_set (map_of d ''policy_selection_source'') [''PILOT'', ''CALIBRATION''] of
        Inl e \<Rightarrow> Inl e
      | Inr ok \<Rightarrow>
          if \<not> ok then refuse
          else case map_of d ''event_policy'' of
            Some (JObj p) \<Rightarrow>
              if set (map fst p) \<noteq> set PROTOCOL_EVENT_POLICY_FIELDS then refuse
              else (case check_thresholds p ''PROTOCOL_POLICY_VALUE_INVALID'' PROTOCOL_THRESHOLD_FIELDS of
                  Inl e \<Rightarrow> Inl e
                | Inr _ \<Rightarrow>
                    (case check_durations p ''PROTOCOL_POLICY_VALUE_INVALID'' PROTOCOL_DURATION_FIELDS of
                       Inl e \<Rightarrow> Inl e
                     | Inr _ \<Rightarrow>
                         from_document (to_document (policy_of_protocol (as_str (map_of d ''protocol_version''))
                           (as_str (map_of d ''policy_selection_source'')) p)) True))
          | _ \<Rightarrow> refuse)"

section \<open>The engine\<close>

record rule_event =
  re_logical_id :: string
  re_kind :: string
  re_label :: string
  re_start_ms :: int
  re_end_ms :: int
  re_eligible_onset_ms :: int

record rule_engine =
  te_policy :: rule_policy
  te_operator_outcome :: string
  te_last_ms :: int
  te_pending :: "string option"
  te_pending_start :: int
  te_active :: "rule_event option"
  te_last_support :: int
  te_last_emission :: int
  te_cooldown_until :: int
  te_uuids :: nat

definition new_engine :: "rule_policy \<Rightarrow> rule_engine" where
  "new_engine p =
     \<lparr>te_policy = p, te_operator_outcome = ''TECHNICAL_INSUFFICIENT'', te_last_ms = -1, te_pending = None,
      te_pending_start = 0, te_active = None, te_last_support = 0, te_last_emission = 0,
      te_cooldown_until = 0, te_uuids = 0\<rparr>"

text \<open>The arguments of one call of \<open>advance\<close>.\<close>

record frame =
  fr_timestamp_ms :: int
  fr_pose_count :: int
  fr_down_score :: pyfloat
  fr_side_score :: pyfloat
  fr_quality_ok :: bool
  fr_prediction_label :: "string option"

definition engine_event :: "rule_event \<Rightarrow> string \<Rightarrow> int \<Rightarrow> rule_event" where
  "engine_event active kind end_ms =
     \<lparr>re_logical_id = re_logical_id active, re_kind = kind, re_label = re_label active,
      re_start_ms = re_start_ms active, re_end_ms = max (re_start_ms active + 1) end_ms,
      re_eligible_onset_ms = re_eligible_onset_ms active\<rparr>"

definition engine_close :: "int \<Rightarrow> rule_engine \<Rightarrow> rule_event list \<times> rule_engine" where
  "engine_close ts s =
     (case te_active s of
        None \<Rightarrow> ([], s)
      | Some a \<Rightarrow>
          ([engine_event a ''END'' (te_last_support s)],
           s\<lparr>te_active := None, te_pending := None, te_cooldown_until := ts + rp_cooldown_ms (te_policy s)\<rparr>))"

text \<open>The label a frame shows, given the label of the active event (hysteresis).\<close>

definition observation :: "rule_policy \<Rightarrow> string option \<Rightarrow> frame \<Rightarrow> string option" where
  "observation p active_label f =
     (if fr_pose_count f = 0 then Some ''NO_PERSON''
      else if 1 < fr_pose_count f then Some ''MULTIPLE_PEOPLE''
      else case fr_prediction_label f of
        Some l \<Rightarrow> if l \<in> {''PROLONGED_HEAD_DOWN'', ''PROLONGED_SIDE_LOOK''} then Some l else None
      | None \<Rightarrow>
          let down_limit = (if active_label = Some ''PROLONGED_HEAD_DOWN'' then rp_head_down_off p else rp_head_down_on p);
              side_limit = (if active_label = Some ''PROLONGED_SIDE_LOOK'' then rp_side_look_off p else rp_side_look_on p)
          in if pf_le down_limit (fr_down_score f) then Some ''PROLONGED_HEAD_DOWN''
             else if pf_le side_limit (fr_side_score f) then Some ''PROLONGED_SIDE_LOOK''
             else None)"

definition frame_usable :: "frame \<Rightarrow> bool" where
  "frame_usable f \<longleftrightarrow> fr_quality_ok f \<and> pf_isfinite (fr_down_score f) \<and> pf_isfinite (fr_side_score f)"

text \<open>The part of \<open>advance\<close> for an engine with an active event.\<close>

definition advance_active :: "frame \<Rightarrow> rule_event \<Rightarrow> rule_engine \<Rightarrow> rule_event list \<times> rule_engine" where
  "advance_active f a s =
     (let ts = fr_timestamp_ms f; p = te_policy s in
      if observation p (Some (re_label a)) f = Some (re_label a) then
        let s1 = s\<lparr>te_last_support := ts + 1\<rparr> in
        if 1000 \<le> ts - te_last_emission s
        then ([engine_event a ''UPDATE'' (ts + 1)], s1\<lparr>te_last_emission := ts\<rparr>)
        else ([], s1)
      else if max (rp_release_ms p) (rp_merge_gap_ms p) < ts - te_last_support s then engine_close ts s
      else ([], s))"

definition event_duration :: "rule_policy \<Rightarrow> frame \<Rightarrow> int" where
  "event_duration p f = (if fr_pose_count f \<noteq> 1 then rp_presence_duration_ms p else rp_motion_duration_ms p)"

text \<open>The part of \<open>advance\<close> for an engine without one.\<close>

definition advance_idle :: "(nat \<Rightarrow> string) \<Rightarrow> frame \<Rightarrow> rule_engine \<Rightarrow> rule_event list \<times> rule_engine" where
  "advance_idle uuid f s =
     (let ts = fr_timestamp_ms f; p = te_policy s in
      case observation p None f of
        None \<Rightarrow> ([], s\<lparr>te_pending := None\<rparr>)
      | Some observed \<Rightarrow>
          if ts < te_cooldown_until s then ([], s\<lparr>te_pending := None\<rparr>)
          else
            let s1 = (if te_pending s \<noteq> Some observed then s\<lparr>te_pending := Some observed, te_pending_start := ts\<rparr> else s);
                duration = event_duration p f
            in if ts - te_pending_start s1 < duration then ([], s1)
               else
                 let e = \<lparr>re_logical_id = uuid (te_uuids s1), re_kind = ''START'', re_label = observed,
                          re_start_ms = te_pending_start s1, re_end_ms = ts + 1,
                          re_eligible_onset_ms = te_pending_start s1 + duration\<rparr>
                 in ([e], s1\<lparr>te_active := Some e, te_last_support := ts + 1, te_last_emission := ts,
                             te_pending := None, te_operator_outcome := ''REVIEW_REQUIRED'',
                             te_uuids := Suc (te_uuids s1)\<rparr>))"

definition advance :: "(nat \<Rightarrow> string) \<Rightarrow> frame \<Rightarrow> rule_engine \<Rightarrow> (py_error + rule_event list) \<times> rule_engine" where
  "advance uuid f s =
     (let ts = fr_timestamp_ms f in
      if ts \<le> te_last_ms s \<or> ts < 0 then (Inl (ValueError ''TIMESTAMP_NOT_MONOTONIC''), s)
      else
        let s1 = s\<lparr>te_last_ms := ts\<rparr> in
        if \<not> frame_usable f then
          (case engine_close ts (s1\<lparr>te_operator_outcome := ''TECHNICAL_INSUFFICIENT'', te_pending := None\<rparr>) of
             (es, s2) \<Rightarrow> (Inr es, s2))
        else
          (case te_active s1 of
             Some a \<Rightarrow>
               (case advance_active f a (s1\<lparr>te_operator_outcome := ''REVIEW_REQUIRED''\<rparr>) of (es, s2) \<Rightarrow> (Inr es, s2))
           | None \<Rightarrow>
               (case advance_idle uuid f (s1\<lparr>te_operator_outcome := ''NORMAL''\<rparr>) of (es, s2) \<Rightarrow> (Inr es, s2))))"

text \<open>Runs: the events of all frames, a refused frame giving none.\<close>

definition advance_events :: "(nat \<Rightarrow> string) \<Rightarrow> frame \<Rightarrow> rule_engine \<Rightarrow> rule_event list \<times> rule_engine" where
  "advance_events uuid f s =
     (case advance uuid f s of (Inr es, s') \<Rightarrow> (es, s') | (Inl _, s') \<Rightarrow> ([], s'))"

fun run_frames :: "(nat \<Rightarrow> string) \<Rightarrow> frame list \<Rightarrow> rule_engine \<Rightarrow> rule_event list \<times> rule_engine" where
  "run_frames uuid [] s = ([], s)"
| "run_frames uuid (f # fs) s =
     (case advance_events uuid f s of (es, s1) \<Rightarrow>
      case run_frames uuid fs s1 of (es', s2) \<Rightarrow> (es @ es', s2))"

section \<open>The shape of the event stream\<close>

definition same_event :: "rule_event \<Rightarrow> rule_event \<Rightarrow> bool" where
  "same_event a b \<longleftrightarrow> re_logical_id a = re_logical_id b \<and> re_label a = re_label b \<and>
     re_start_ms a = re_start_ms b \<and> re_eligible_onset_ms a = re_eligible_onset_ms b"

text \<open>
  \<open>events_ok c lo a es\<close>: the events \<open>es\<close> continue a stream whose open event is \<open>a\<close>; a START opens an
  event no earlier than \<open>lo\<close>, an UPDATE or END repeats the open event and never shrinks it, and after
  an END nothing starts before the cool-down \<open>c\<close> has passed.
\<close>

fun events_ok :: "int \<Rightarrow> int \<Rightarrow> rule_event option \<Rightarrow> rule_event list \<Rightarrow> bool" where
  "events_ok c lo a [] = True"
| "events_ok c lo None (e # es) =
     (re_kind e = ''START'' \<and> lo \<le> re_start_ms e \<and> re_start_ms e \<le> re_eligible_onset_ms e \<and>
      re_eligible_onset_ms e < re_end_ms e \<and> events_ok c lo (Some e) es)"
| "events_ok c lo (Some a) (e # es) =
     (same_event a e \<and> re_end_ms a \<le> re_end_ms e \<and>
      (re_kind e = ''UPDATE'' \<and> events_ok c lo (Some e) es \<or>
       re_kind e = ''END'' \<and> events_ok c (re_end_ms e + c) None es))"

text \<open>The engine state against the part of the stream it has emitted.\<close>

definition durations_ok :: "rule_policy \<Rightarrow> bool" where
  "durations_ok p \<longleftrightarrow> 0 \<le> rp_motion_duration_ms p \<and> 0 \<le> rp_presence_duration_ms p"

definition engine_ok :: "rule_policy \<Rightarrow> int \<Rightarrow> rule_event option \<Rightarrow> rule_engine \<Rightarrow> bool" where
  "engine_ok p lo opened s \<longleftrightarrow> te_policy s = p \<and> te_last_support s \<le> te_last_ms s + 1 \<and>
     (case te_active s of
        Some a \<Rightarrow> (case opened of None \<Rightarrow> False
          | Some e \<Rightarrow> same_event a e \<and> re_end_ms e \<le> te_last_support s \<and> re_start_ms a < te_last_support s)
      | None \<Rightarrow> opened = None \<and> lo \<le> te_cooldown_until s \<and>
          (te_pending s \<noteq> None \<longrightarrow> lo \<le> te_pending_start s \<and> te_pending_start s \<le> te_last_ms s))"

definition continues :: "rule_policy \<Rightarrow> int \<Rightarrow> rule_event option \<Rightarrow> rule_event list \<Rightarrow> rule_engine \<Rightarrow> bool" where
  "continues p lo opened es s \<longleftrightarrow> (\<exists>lo' opened'. engine_ok p lo' opened' s \<and>
     (\<forall>rest. events_ok (rp_cooldown_ms p) lo' opened' rest \<longrightarrow> events_ok (rp_cooldown_ms p) lo opened (es @ rest)))"

lemma continues_silent: "engine_ok p lo opened s \<Longrightarrow> continues p lo opened [] s"
  by (auto simp: continues_def)

lemma close_continues:
  assumes "engine_ok p lo opened s" and "te_last_support s \<le> ts"
  shows "continues p lo opened (fst (engine_close ts s)) (snd (engine_close ts s))"
proof (cases "te_active s")
  case None
  with assms show ?thesis by (simp add: engine_close_def continues_silent)
next
  case (Some a)
  then obtain e where e: "opened = Some e" "same_event a e" "re_end_ms e \<le> te_last_support s"
      "re_start_ms a < te_last_support s" "te_policy s = p"
    using assms(1) by (auto simp: engine_ok_def split: option.splits)
  let ?fin = "engine_event a ''END'' (te_last_support s)"
  have "re_end_ms ?fin = te_last_support s" using e by (simp add: engine_event_def)
  moreover have "engine_ok p (te_last_support s + rp_cooldown_ms p) None (snd (engine_close ts s))"
    using Some e assms by (simp add: engine_close_def engine_ok_def)
  moreover have "same_event e ?fin" using e by (simp add: same_event_def engine_event_def)
  moreover have "re_kind ?fin = ''END''" by (simp add: engine_event_def)
  ultimately show ?thesis
    using Some e unfolding continues_def
    by (intro exI [of _ "te_last_support s + rp_cooldown_ms p"] exI [of _ None])
      (simp add: engine_close_def)
qed

lemma active_continues:
  assumes "engine_ok p lo opened s" and "te_active s = Some a" and "te_last_ms s = fr_timestamp_ms f"
    and "te_last_support s \<le> fr_timestamp_ms f"
  shows "continues p lo opened (fst (advance_active f a s)) (snd (advance_active f a s))"
proof -
  obtain e where e: "opened = Some e" "same_event a e" "re_end_ms e \<le> te_last_support s"
      "re_start_ms a < te_last_support s" "te_policy s = p"
    using assms(1,2) by (auto simp: engine_ok_def split: option.splits)
  let ?ts = "fr_timestamp_ms f"
  show ?thesis
  proof (cases "observation p (Some (re_label a)) f = Some (re_label a) \<and> 1000 \<le> ?ts - te_last_emission s")
    case True
    let ?u = "engine_event a ''UPDATE'' (?ts + 1)"
    have "re_end_ms ?u = ?ts + 1" "re_kind ?u = ''UPDATE''" "same_event e ?u"
      using e assms(4) by (auto simp: engine_event_def same_event_def)
    moreover have "engine_ok p lo (Some ?u) (snd (advance_active f a s))"
      using True e assms by (auto simp: advance_active_def Let_def engine_ok_def engine_event_def same_event_def)
    ultimately show ?thesis
      using True e assms(4) unfolding continues_def
      by (intro exI [of _ lo] exI [of _ "Some ?u"]) (auto simp: advance_active_def Let_def)
  next
    case False
    then show ?thesis
      using e assms close_continues [OF assms(1), of ?ts]
      by (auto simp: advance_active_def Let_def engine_ok_def intro!: continues_silent)
  qed
qed

lemma idle_continues:
  assumes "engine_ok p lo None s" and "te_active s = None" and "durations_ok p"
    and "te_pending s \<noteq> None \<Longrightarrow> te_pending_start s < fr_timestamp_ms f"
    and "te_last_ms s = fr_timestamp_ms f"
  shows "continues p lo None (fst (advance_idle uuid f s)) (snd (advance_idle uuid f s))"
proof -
  let ?ts = "fr_timestamp_ms f" and ?d = "event_duration p f"
  have p: "te_policy s = p" and lo: "lo \<le> te_cooldown_until s" using assms(1,2) by (auto simp: engine_ok_def)
  have d: "0 \<le> ?d" using assms(3) by (simp add: durations_ok_def event_duration_def)
  show ?thesis
  proof (cases "observation p None f = None \<or> ?ts < te_cooldown_until s")
    case True
    with p assms show ?thesis
      by (auto simp: advance_idle_def Let_def engine_ok_def split: option.splits intro!: continues_silent)
  next
    case False
    then obtain l where l: "observation p None f = Some l" and cool: "te_cooldown_until s \<le> ?ts" by auto
    define start where "start = (if te_pending s \<noteq> Some l then ?ts else te_pending_start s)"
    have start: "lo \<le> start" "start \<le> ?ts"
      using assms lo cool by (auto simp: start_def engine_ok_def)
    show ?thesis
    proof (cases "?ts - start < ?d")
      case True
      with l p cool start assms show ?thesis
        by (auto simp: advance_idle_def Let_def start_def engine_ok_def intro!: continues_silent split: if_splits)
    next
      case False
      let ?e = "\<lparr>re_logical_id = uuid (te_uuids s), re_kind = ''START'', re_label = l, re_start_ms = start,
        re_end_ms = ?ts + 1, re_eligible_onset_ms = start + ?d\<rparr>"
      have run: "fst (advance_idle uuid f s) = [?e]" "te_active (snd (advance_idle uuid f s)) = Some ?e"
        "te_last_support (snd (advance_idle uuid f s)) = ?ts + 1" "te_last_ms (snd (advance_idle uuid f s)) = ?ts"
        "te_policy (snd (advance_idle uuid f s)) = p"
        using False l p cool assms(5) by (auto simp: advance_idle_def Let_def start_def split: if_splits)
      then have "engine_ok p lo (Some ?e) (snd (advance_idle uuid f s))"
        using start by (simp add: engine_ok_def same_event_def)
      with run start d False show ?thesis
        unfolding continues_def by (intro exI [of _ lo] exI [of _ "Some ?e"]) simp
    qed
  qed
qed

lemma advance_events_eq:
  "advance_events uuid f s =
     (if fr_timestamp_ms f \<le> te_last_ms s \<or> fr_timestamp_ms f < 0 then ([], s)
      else if \<not> frame_usable f then engine_close (fr_timestamp_ms f)
        (s\<lparr>te_last_ms := fr_timestamp_ms f, te_operator_outcome := ''TECHNICAL_INSUFFICIENT'', te_pending := None\<rparr>)
      else case te_active s of
        Some a \<Rightarrow> advance_active f a (s\<lparr>te_last_ms := fr_timestamp_ms f, te_operator_outcome := ''REVIEW_REQUIRED''\<rparr>)
      | None \<Rightarrow> advance_idle uuid f (s\<lparr>te_last_ms := fr_timestamp_ms f, te_operator_outcome := ''NORMAL''\<rparr>))"
  by (auto simp: advance_events_def advance_def Let_def split: prod.splits option.splits)

lemma advance_continues:
  assumes "engine_ok p lo opened s" and "durations_ok p"
  shows "continues p lo opened (fst (advance_events uuid f s)) (snd (advance_events uuid f s))"
proof -
  let ?ts = "fr_timestamp_ms f"
  let ?bad = "s\<lparr>te_last_ms := ?ts, te_operator_outcome := ''TECHNICAL_INSUFFICIENT'', te_pending := None\<rparr>"
  let ?rev = "s\<lparr>te_last_ms := ?ts, te_operator_outcome := ''REVIEW_REQUIRED''\<rparr>"
  let ?nrm = "s\<lparr>te_last_ms := ?ts, te_operator_outcome := ''NORMAL''\<rparr>"
  consider (refused) "?ts \<le> te_last_ms s \<or> ?ts < 0"
    | (bad) "te_last_ms s < ?ts" "0 \<le> ?ts" "\<not> frame_usable f"
    | (active) a where "te_last_ms s < ?ts" "0 \<le> ?ts" "frame_usable f" "te_active s = Some a"
    | (idle) "te_last_ms s < ?ts" "0 \<le> ?ts" "frame_usable f" "te_active s = None"
    by fastforce
  then show ?thesis
  proof cases
    case refused
    with assms(1) show ?thesis by (simp add: advance_events_eq continues_silent)
  next
    case bad
    have "engine_ok p lo opened ?bad" using assms(1) bad by (auto simp: engine_ok_def split: option.splits)
    moreover have "te_last_support ?bad \<le> ?ts" using assms(1) bad by (simp add: engine_ok_def)
    ultimately show ?thesis using bad close_continues [of p lo opened ?bad ?ts]
      by (simp add: advance_events_eq)
  next
    case active
    have "engine_ok p lo opened ?rev" using assms(1) active by (auto simp: engine_ok_def split: option.splits)
    moreover have "te_last_support ?rev \<le> ?ts" using assms(1) active by (simp add: engine_ok_def)
    ultimately show ?thesis using active active_continues [of p lo opened ?rev a f]
      by (simp add: advance_events_eq)
  next
    case idle
    have o: "opened = None" using assms(1) idle by (simp add: engine_ok_def)
    have "engine_ok p lo None ?nrm" using assms(1) idle by (auto simp: engine_ok_def)
    moreover have "te_pending ?nrm \<noteq> None \<Longrightarrow> te_pending_start ?nrm < ?ts"
      using assms(1) idle by (auto simp: engine_ok_def)
    ultimately show ?thesis using idle o assms(2) idle_continues [of p lo ?nrm f uuid]
      by (simp add: advance_events_eq)
  qed
qed

lemma run_continues:
  assumes "engine_ok p lo opened s" and "durations_ok p"
  shows "continues p lo opened (fst (run_frames uuid fs s)) (snd (run_frames uuid fs s))"
  using assms(1)
proof (induction fs arbitrary: s lo opened)
  case Nil
  then show ?case by (simp add: continues_silent)
next
  case (Cons f fs)
  obtain es s1 where a: "advance_events uuid f s = (es, s1)" by force
  obtain es' s2 where r: "run_frames uuid fs s1 = (es', s2)" by force
  obtain lo' opened' where ok: "engine_ok p lo' opened' s1"
    and here: "\<And>rest. events_ok (rp_cooldown_ms p) lo' opened' rest \<Longrightarrow> events_ok (rp_cooldown_ms p) lo opened (es @ rest)"
    using advance_continues [OF Cons.prems assms(2), of uuid f] a by (auto simp: continues_def)
  from Cons.IH [OF ok] here a r show ?case by (auto simp: continues_def)
qed

lemma events_okI: "continues p lo opened es s \<Longrightarrow> events_ok (rp_cooldown_ms p) lo opened es"
proof -
  assume "continues p lo opened es s"
  then obtain lo' opened' where "\<forall>rest. events_ok (rp_cooldown_ms p) lo' opened' rest \<longrightarrow>
      events_ok (rp_cooldown_ms p) lo opened (es @ rest)" by (auto simp: continues_def)
  then show ?thesis by (metis append_Nil2 events_ok.simps(1))
qed

lemma engine_ok_new: "engine_ok p 0 None (new_engine p)"
  by (simp add: engine_ok_def new_engine_def)

subsection \<open>Every START has its END\<close>

definition starts :: "rule_event list \<Rightarrow> nat" where
  "starts es = length (filter (\<lambda>e. re_kind e = ''START'') es)"

definition ends :: "rule_event list \<Rightarrow> nat" where
  "ends es = length (filter (\<lambda>e. re_kind e = ''END'') es)"

definition opened_count :: "rule_engine \<Rightarrow> nat" where
  "opened_count s = (if te_active s = None then 0 else 1)"

lemma close_count:
  "starts (fst (engine_close ts s)) + opened_count s = ends (fst (engine_close ts s)) + opened_count (snd (engine_close ts s))"
  by (simp add: engine_close_def starts_def ends_def opened_count_def engine_event_def split: option.split)

lemma advance_count:
  "starts (fst (advance_events uuid f s)) + opened_count s =
   ends (fst (advance_events uuid f s)) + opened_count (snd (advance_events uuid f s))"
proof -
  have a: "starts (fst (advance_active f a z)) + opened_count z =
      ends (fst (advance_active f a z)) + opened_count (snd (advance_active f a z))" for a z
    using close_count [of "fr_timestamp_ms f" z]
    by (auto simp: advance_active_def Let_def starts_def ends_def opened_count_def engine_event_def)
  have i: "te_active z = None \<Longrightarrow> starts (fst (advance_idle uuid f z)) + opened_count z =
      ends (fst (advance_idle uuid f z)) + opened_count (snd (advance_idle uuid f z))" for z
    by (auto simp: advance_idle_def Let_def starts_def ends_def opened_count_def split: option.split)
  have s: "opened_count (s\<lparr>te_last_ms := x, te_operator_outcome := y\<rparr>) = opened_count s"
    "opened_count (s\<lparr>te_last_ms := x, te_operator_outcome := y, te_pending := z\<rparr>) = opened_count s" for x y z
    by (simp_all add: opened_count_def)
  show ?thesis
    using a [of _ "s\<lparr>te_last_ms := fr_timestamp_ms f, te_operator_outcome := ''REVIEW_REQUIRED''\<rparr>"]
      i [of "s\<lparr>te_last_ms := fr_timestamp_ms f, te_operator_outcome := ''NORMAL''\<rparr>"]
      close_count [of "fr_timestamp_ms f"
        "s\<lparr>te_last_ms := fr_timestamp_ms f, te_operator_outcome := ''TECHNICAL_INSUFFICIENT'', te_pending := None\<rparr>"]
    by (auto simp: advance_events_eq s split: option.splits)
      (auto simp: starts_def ends_def)
qed

lemma run_count:
  "starts (fst (run_frames uuid fs s)) + opened_count s =
   ends (fst (run_frames uuid fs s)) + opened_count (snd (run_frames uuid fs s))"
proof (induction fs arbitrary: s)
  case (Cons f fs)
  obtain es s1 where a: "advance_events uuid f s = (es, s1)" by force
  with advance_count [of uuid f s] Cons.IH [of s1] show ?case
    by (auto simp: starts_def ends_def split: prod.split)
qed (simp add: starts_def ends_def)

text \<open>
  Claim C14. The event stream is well formed. For every list of frames, with whatever timestamps, scores and
  quality flags, followed by a final close at any time, the emitted events are START, UPDATE, \<dots>, END groups:
  an UPDATE or END has the identity, label, start and onset of the START before it, its end never moves
  back, the onset lies between start and end, the next event starts only after the previous one ended
  and the cool-down has passed, and as many events ended as started.
\<close>
theorem event_stream_well_formed:
  assumes "durations_ok p" and "run_frames uuid fs (new_engine p) = (es, s)"
    and "engine_close ts s = (es', s')"
  shows "events_ok (rp_cooldown_ms p) 0 None (es @ es') \<and> starts (es @ es') = ends (es @ es')"
proof -
  obtain lo opened where ok: "engine_ok p lo opened s" and rest: "\<And>r. events_ok (rp_cooldown_ms p) lo opened r \<Longrightarrow>
      events_ok (rp_cooldown_ms p) 0 None (es @ r)"
    using run_continues [OF engine_ok_new assms(1), of uuid fs] assms(2) by (auto simp: continues_def)
  have "events_ok (rp_cooldown_ms p) lo opened es'"
  proof -
    have "fst (engine_close ts s) = fst (engine_close (max ts (te_last_support s)) s)"
      by (simp add: engine_close_def split: option.split)
    with events_okI [OF close_continues [OF ok, of "max ts (te_last_support s)"]] assms(3) show ?thesis
      by simp
  qed
  moreover have "opened_count (new_engine p) = 0" "opened_count s' = 0"
    using assms(3) by (auto simp: opened_count_def new_engine_def engine_close_def split: option.splits)
  then have "starts (es @ es') = ends (es @ es')"
    using run_count [of uuid fs "new_engine p"] close_count [of ts s] assms(2,3)
    by (simp add: starts_def ends_def)
  ultimately show ?thesis using rest by blast
qed

definition head_down_frame :: "int \<Rightarrow> rat \<Rightarrow> frame" where
  "head_down_frame ts score = \<lparr>fr_timestamp_ms = ts, fr_pose_count = 1, fr_down_score = Finite score,
     fr_side_score = Finite 0, fr_quality_ok = True, fr_prediction_label = None\<rparr>"

definition head_down_run :: "frame list" where
  "head_down_run = [head_down_frame 0 20, head_down_frame 2000 20, head_down_frame 3500 9, head_down_frame 5000 0]"

theorem event_stream_well_formed_witness:
  "events_ok 1000 0 None (fst (run_frames (\<lambda>n. ''id'') head_down_run (new_engine rule_policy_demo))) \<and>
   map re_kind (fst (run_frames (\<lambda>n. ''id'') head_down_run (new_engine rule_policy_demo))) = [''START'', ''UPDATE'', ''END'']"
proof -
  let ?r = "run_frames (\<lambda>n. ''id'') head_down_run (new_engine rule_policy_demo)"
  have kinds: "map re_kind (fst ?r) = [''START'', ''UPDATE'', ''END''] \<and> te_active (snd ?r) = None" by code_simp
  then have c: "engine_close 0 (snd ?r) = ([], snd ?r)" by (simp add: engine_close_def)
  have "durations_ok rule_policy_demo" by code_simp
  from event_stream_well_formed [OF this _ c, of "\<lambda>n. ''id''" head_down_run "fst ?r"] kinds show ?thesis
    by (simp add: rule_policy_demo_def)
qed

section \<open>When an event starts\<close>

text \<open>What one accepted usable frame does to an engine without an active event.\<close>

lemma idle_step:
  assumes "te_active s = None" and "te_last_ms s < fr_timestamp_ms f" and "0 \<le> fr_timestamp_ms f"
    and "frame_usable f" and "observation (te_policy s) None f = Some l"
    and "te_cooldown_until s \<le> fr_timestamp_ms f"
    and "start = (if te_pending s = Some l then te_pending_start s else fr_timestamp_ms f)"
    and "advance_events uuid f s = (es, s')"
  shows "fr_timestamp_ms f - start < event_duration (te_policy s) f \<Longrightarrow>
      es = [] \<and> te_active s' = None \<and> te_pending s' = Some l \<and> te_pending_start s' = start \<and>
      te_cooldown_until s' = te_cooldown_until s \<and> te_policy s' = te_policy s \<and> te_last_ms s' = fr_timestamp_ms f"
    and "\<not> fr_timestamp_ms f - start < event_duration (te_policy s) f \<Longrightarrow>
      \<exists>e. es = [e] \<and> re_kind e = ''START'' \<and> re_label e = l \<and> re_start_ms e = start"
  using assms by (auto simp: advance_events_eq advance_idle_def Let_def split: if_splits)

text \<open>
  Claim C15. A sustained observation is reported. If an engine, after any frames \<open>gs\<close>, has no active
  event, is out of its cool-down and gets usable frames with increasing timestamps that all show the same label, and they span at
  least the duration the policy asks for, then a START event with that label is among the emitted ones.
\<close>
theorem sustained_observation_starts_event:
  assumes "durations_ok p" and "s = snd (run_frames uuid gs (new_engine p))" and "te_active s = None"
    and "sorted_wrt (<) (map fr_timestamp_ms (g # fs))" and "te_last_ms s < fr_timestamp_ms g"
    and "0 \<le> fr_timestamp_ms g" and "te_cooldown_until s \<le> fr_timestamp_ms g"
    and "list_all (\<lambda>f. frame_usable f \<and> observation p None f = Some l \<and> event_duration p f = d) (g # fs)"
    and "d \<le> fr_timestamp_ms (last (g # fs)) - fr_timestamp_ms g"
  shows "\<exists>e \<in> set (fst (run_frames uuid (g # fs) s)). re_kind e = ''START'' \<and> re_label e = l"
proof -
  have gen: "\<exists>e \<in> set (fst (run_frames uuid (h # hs) z)). re_kind e = ''START'' \<and> re_label e = l"
    if "te_active z = None" "te_policy z = p" "sorted_wrt (<) (map fr_timestamp_ms (h # hs))"
      "te_last_ms z < fr_timestamp_ms h" "0 \<le> fr_timestamp_ms h" "te_cooldown_until z \<le> fr_timestamp_ms h"
      "list_all (\<lambda>f. frame_usable f \<and> observation p None f = Some l \<and> event_duration p f = d) (h # hs)"
      "d \<le> fr_timestamp_ms (last (h # hs)) - (if te_pending z = Some l then te_pending_start z else fr_timestamp_ms h)"
    for h hs z
    using that
  proof (induction hs arbitrary: h z)
    case (Nil h z)
    obtain es z' where "advance_events uuid h z = (es, z')" by force
    with idle_step(2) [of z h l _ uuid es z'] Nil show ?case by auto
  next
    case (Cons k hs h z)
    obtain es z' where a: "advance_events uuid h z = (es, z')" by force
    define start where "start = (if te_pending z = Some l then te_pending_start z else fr_timestamp_ms h)"
    show ?case
    proof (cases "fr_timestamp_ms h - start < d")
      case True
      have "es = [] \<and> te_active z' = None \<and> te_pending z' = Some l \<and> te_pending_start z' = start \<and>
          te_cooldown_until z' = te_cooldown_until z \<and> te_policy z' = p \<and> te_last_ms z' = fr_timestamp_ms h"
        using idle_step(1) [OF _ _ _ _ _ _ start_def a] Cons.prems True by simp
      with Cons.IH [of z' k] Cons.prems start_def have
        "\<exists>e \<in> set (fst (run_frames uuid (k # hs) z')). re_kind e = ''START'' \<and> re_label e = l" by simp
      then show ?thesis using a by (auto split: prod.splits)
    next
      case False
      then obtain e where "es = [e]" "re_kind e = ''START''" "re_label e = l"
        using idle_step(2) [OF _ _ _ _ _ _ start_def a] Cons.prems by auto
      then show ?thesis using a by (auto split: prod.splits)
    qed
  qed
  obtain lo opened where "engine_ok p lo opened s"
    using run_continues [OF engine_ok_new assms(1), of uuid gs] assms(2) by (auto simp: continues_def)
  then have "te_policy s = p" "te_pending s \<noteq> None \<Longrightarrow> te_pending_start s \<le> te_last_ms s"
    using assms(3) by (auto simp: engine_ok_def)
  then show ?thesis using assms by (intro gen) auto
qed

theorem sustained_observation_starts_event_witness:
  "\<exists>e \<in> set (fst (run_frames (\<lambda>n. ''id'') [head_down_frame 6100 16, head_down_frame 7000 17, head_down_frame 8100 20]
      (snd (run_frames (\<lambda>n. ''id'') head_down_run (new_engine rule_policy_demo))))).
     re_kind e = ''START'' \<and> re_label e = ''PROLONGED_HEAD_DOWN''"
proof -
  let ?s = "snd (run_frames (\<lambda>n. ''id'') head_down_run (new_engine rule_policy_demo))"
  have "durations_ok rule_policy_demo" "te_active ?s = None" "te_last_ms ?s < 6100" "te_cooldown_until ?s \<le> 6100"
    "list_all (\<lambda>f. frame_usable f \<and> observation rule_policy_demo None f = Some ''PROLONGED_HEAD_DOWN'' \<and>
        event_duration rule_policy_demo f = 2000) [head_down_frame 6100 16, head_down_frame 7000 17, head_down_frame 8100 20]"
    by code_simp+
  then show ?thesis
    by (intro sustained_observation_starts_event [where gs = head_down_run and p = rule_policy_demo and d = 2000])
      (simp_all add: head_down_frame_def)
qed

text \<open>The frames since the pending observation began all show it.\<close>

definition shown :: "rule_policy \<Rightarrow> string \<Rightarrow> int \<Rightarrow> frame list \<Rightarrow> bool" where
  "shown p l start fs \<longleftrightarrow> (\<exists>pre g run. fs = pre @ g # run \<and> fr_timestamp_ms g = start \<and>
     list_all (\<lambda>f. frame_usable f \<and> observation p None f = Some l) (g # run))"

definition pending_shown :: "rule_policy \<Rightarrow> frame list \<Rightarrow> rule_engine \<Rightarrow> bool" where
  "pending_shown p fs s \<longleftrightarrow> te_policy s = p \<and>
     (\<forall>l. te_active s = None \<and> te_pending s = Some l \<longrightarrow> shown p l (te_pending_start s) fs) \<and>
     (te_active s \<noteq> None \<longrightarrow> te_pending s = None)"

lemma shown_snoc:
  assumes "frame_usable f" and "observation p None f = Some l"
  shows "shown p l (fr_timestamp_ms f) (fs @ [f])"
    and "shown p l start fs \<Longrightarrow> shown p l start (fs @ [f])"
proof -
  show "shown p l (fr_timestamp_ms f) (fs @ [f])"
    unfolding shown_def using assms by (intro exI [of _ fs] exI [of _ f] exI [of _ "[]"]) simp
  assume "shown p l start fs"
  then obtain pre g run where "fs = pre @ g # run" "fr_timestamp_ms g = start"
    "list_all (\<lambda>f. frame_usable f \<and> observation p None f = Some l) (g # run)" by (auto simp: shown_def)
  with assms have "fs @ [f] = pre @ g # (run @ [f])" "fr_timestamp_ms g = start"
    "list_all (\<lambda>f. frame_usable f \<and> observation p None f = Some l) (g # (run @ [f]))" by simp_all
  then show "shown p l start (fs @ [f])" unfolding shown_def by blast
qed

lemma advance_pending:
  assumes "pending_shown p fs s" and "te_last_ms s < fr_timestamp_ms f" and "0 \<le> fr_timestamp_ms f"
    and run: "advance_events uuid f s = (es, s')"
  shows "pending_shown p (fs @ [f]) s' \<and> (\<forall>e \<in> set es. re_kind e = ''START'' \<longrightarrow>
      shown p (re_label e) (re_start_ms e) (fs @ [f]) \<and> event_duration p f \<le> fr_timestamp_ms f - re_start_ms e)"
proof (cases "frame_usable f \<and> te_active s = None")
  case False
  then show ?thesis
    using assms
    by (auto simp: advance_events_eq advance_active_def engine_close_def pending_shown_def engine_event_def Let_def
        split: option.splits if_splits)
next
  case True
  let ?ts = "fr_timestamp_ms f"
  have p: "te_policy s = p" using assms(1) by (simp add: pending_shown_def)
  show ?thesis
  proof (cases "observation p None f = None \<or> ?ts < te_cooldown_until s")
    case o: True
    with True assms p show ?thesis
      by (auto simp: advance_events_eq advance_idle_def pending_shown_def Let_def split: option.splits if_splits)
  next
    case False
    then obtain l where l: "observation p None f = Some l" by auto
    define start where "start = (if te_pending s = Some l then te_pending_start s else ?ts)"
    have sh: "shown p l start (fs @ [f])"
      using shown_snoc [of f p l] True l assms(1) by (auto simp: start_def pending_shown_def)
    show ?thesis
    proof (cases "?ts - start < event_duration p f")
      case short: True
      with idle_step(1) [OF _ _ _ _ _ _ start_def run] True False l p assms(2,3) sh show ?thesis
        by (simp add: pending_shown_def)
    next
      case long: False
      with idle_step(2) [OF _ _ _ _ _ _ start_def run] True False l p assms(2,3) obtain e where
        e: "es = [e]" "re_label e = l" "re_start_ms e = start" by auto
      have "te_active s' \<noteq> None \<and> te_pending s' = None \<and> te_policy s' = p"
        using run True False l p assms(2,3) long
        by (auto simp: advance_events_eq advance_idle_def Let_def start_def split: if_splits)
      with e sh long show ?thesis by (simp add: pending_shown_def)
    qed
  qed
qed

lemma run_frames_snoc:
  "run_frames uuid (fs @ [f]) s = (case run_frames uuid fs s of (es, s1) \<Rightarrow>
     case advance_events uuid f s1 of (es', s2) \<Rightarrow> (es @ es', s2))"
  by (induction fs arbitrary: s) (auto split: prod.splits)

lemma advance_last_ms:
  "te_last_ms s < fr_timestamp_ms f \<Longrightarrow> 0 \<le> fr_timestamp_ms f \<Longrightarrow>
   te_last_ms (snd (advance_events uuid f s)) = fr_timestamp_ms f"
  by (auto simp: advance_events_eq advance_active_def advance_idle_def engine_close_def Let_def
      split: option.split)

lemma run_pending:
  assumes "sorted_wrt (<) (map fr_timestamp_ms fs)" and "list_all (\<lambda>f. 0 \<le> fr_timestamp_ms f) fs"
  shows "pending_shown p fs (snd (run_frames uuid fs (new_engine p))) \<and>
    te_last_ms (snd (run_frames uuid fs (new_engine p))) = (if fs = [] then -1 else fr_timestamp_ms (last fs))"
  using assms
proof (induction fs rule: rev_induct)
  case Nil
  then show ?case by (simp add: pending_shown_def new_engine_def)
next
  case (snoc f fs)
  let ?s = "snd (run_frames uuid fs (new_engine p))"
  have "te_last_ms ?s < fr_timestamp_ms f"
    using snoc by (auto simp: sorted_wrt_append)
  moreover have "0 \<le> fr_timestamp_ms f" using snoc.prems by simp
  moreover have "pending_shown p fs ?s" using snoc by (simp add: sorted_wrt_append)
  ultimately show ?case
    using advance_pending [of p fs ?s f uuid "fst (advance_events uuid f ?s)" "snd (advance_events uuid f ?s)"]
      advance_last_ms [of ?s f uuid]
    by (simp add: run_frames_snoc case_prod_beta)
qed

text \<open>
  Claim C16. An event starts only for cause. When a frame of a run with increasing timestamps makes the
  engine emit a START, then the frames from the event's start time up to this one were all usable and
  all showed the event's label above the switch-on threshold, and they span at least the duration the
  policy asks for.
\<close>
theorem start_only_when_shown:
  assumes "sorted_wrt (<) (map fr_timestamp_ms (fs @ [f]))" and "list_all (\<lambda>f. 0 \<le> fr_timestamp_ms f) (fs @ [f])"
    and "advance uuid f (snd (run_frames uuid fs (new_engine p))) = (Inr es, s')"
    and "e \<in> set es" and "re_kind e = ''START''"
  shows "\<exists>pre g run. fs @ [f] = pre @ g # run \<and> fr_timestamp_ms g = re_start_ms e \<and>
    list_all (\<lambda>h. frame_usable h \<and> observation p None h = Some (re_label e)) (g # run) \<and>
    event_duration p f \<le> fr_timestamp_ms f - re_start_ms e"
proof -
  let ?s = "snd (run_frames uuid fs (new_engine p))"
  have "pending_shown p fs ?s" "te_last_ms ?s < fr_timestamp_ms f"
    using run_pending [of fs p uuid] assms(1,2) by (auto simp: sorted_wrt_append split: if_splits)
  moreover have "advance_events uuid f ?s = (es, s')" using assms(3) by (simp add: advance_events_def)
  ultimately show ?thesis
    using advance_pending [of p fs ?s f uuid es s'] assms(2,4,5) unfolding shown_def by force
qed

theorem start_only_when_shown_witness:
  "\<exists>pre g run. [head_down_frame 0 20, head_down_frame 2000 20] = pre @ g # run \<and> fr_timestamp_ms g = 0 \<and>
    list_all (\<lambda>h. frame_usable h \<and> observation rule_policy_demo None h = Some ''PROLONGED_HEAD_DOWN'') (g # run)"
proof -
  let ?s = "snd (run_frames (\<lambda>n. ''id'') [head_down_frame 0 20] (new_engine rule_policy_demo))"
  let ?e = "\<lparr>re_logical_id = ''id'', re_kind = ''START'', re_label = ''PROLONGED_HEAD_DOWN'', re_start_ms = 0,
    re_end_ms = 2001, re_eligible_onset_ms = 2000\<rparr>"
  have "fst (advance (\<lambda>n. ''id'') (head_down_frame 2000 20) ?s) = Inr [?e]" by code_simp
  then obtain s' where a: "advance (\<lambda>n. ''id'') (head_down_frame 2000 20) ?s = (Inr [?e], s')"
    by (metis prod.collapse)
  show ?thesis
    using start_only_when_shown [OF _ _ a, of ?e] by (auto simp: head_down_frame_def)
qed

section \<open>Which policies are admitted\<close>

text \<open>A valid policy, said without the checks of the loader: four finite thresholds, each pair in order, and times of at most a minute.\<close>

definition ordered_thresholds :: "pyfloat \<Rightarrow> pyfloat \<Rightarrow> bool" where
  "ordered_thresholds off on \<longleftrightarrow> (\<exists>a b. off = Finite a \<and> on = Finite b \<and> 0 \<le> a \<and> a < b)"

definition policy_valid :: "rule_policy \<Rightarrow> bool" where
  "policy_valid p \<longleftrightarrow>
     ordered_thresholds (rp_head_down_off p) (rp_head_down_on p) \<and> ordered_thresholds (rp_side_look_off p) (rp_side_look_on p) \<and>
     rp_motion_duration_ms p \<in> {1..60000} \<and> rp_presence_duration_ms p \<in> {1..60000} \<and>
     rp_release_ms p \<in> {0..60000} \<and> rp_merge_gap_ms p \<in> {0..60000} \<and> rp_cooldown_ms p \<in> {0..60000} \<and>
     rp_policy_version p \<noteq> [] \<and> rp_status p \<noteq> [] \<and> rp_selection_source p \<noteq> []"

definition research_policy :: "rule_policy \<Rightarrow> bool" where
  "research_policy p \<longleftrightarrow> rp_status p = ''FROZEN'' \<and> rp_selection_source p \<in> {''PILOT'', ''CALIBRATION''}"

lemma ordered_thresholds_iff:
  "ordered_thresholds off on \<longleftrightarrow> pf_isfinite off \<and> pf_isfinite on \<and> pf_le (Finite 0) off \<and> pf_less off on"
  by (cases off; cases on) (auto simp: ordered_thresholds_def pf_le_def)

lemma policy_valid_iff:
  "policy_valid p \<longleftrightarrow> hysteresis_ok p \<and>
     list_all pf_isfinite [rp_head_down_on p, rp_head_down_off p, rp_side_look_on p, rp_side_look_off p] \<and>
     list_all (\<lambda>n. 0 \<le> n \<and> n \<le> 60000) [rp_motion_duration_ms p, rp_presence_duration_ms p, rp_release_ms p,
       rp_merge_gap_ms p, rp_cooldown_ms p] \<and>
     rp_policy_version p \<noteq> [] \<and> rp_status p \<noteq> [] \<and> rp_selection_source p \<noteq> []"
  by (auto simp: policy_valid_def hysteresis_ok_def ordered_thresholds_iff)

lemma check_thresholds_ok:
  "check_thresholds d err ks = Inr u \<Longrightarrow> k \<in> set ks \<Longrightarrow> pf_isfinite (as_float (map_of d k))"
proof (induction ks)
  case (Cons h ks)
  from Cons.prems(1) obtain v f where v: "map_of d h = Some v" "number v = Some (Inr f)" "pf_isfinite f"
    and rest: "check_thresholds d err ks = Inr u"
    by (auto split: option.splits sum.splits if_splits)
  then have "pf_isfinite (as_float (map_of d h))" by (cases v) (auto simp: int_to_float_def split: if_splits)
  with Cons rest show ?case by auto
qed simp

lemma check_durations_ok:
  "check_durations d err ks = Inr u \<Longrightarrow> k \<in> set ks \<Longrightarrow> 0 \<le> as_int (map_of d k) \<and> as_int (map_of d k) \<le> 60000"
  by (induction ks) (auto split: option.splits json.splits if_splits)

lemma from_document_cases:
  assumes "from_document d r = Inr p"
  shows "p = policy_of_document d" "hysteresis_ok p" "list_all (\<lambda>k. nonempty_str (map_of d k)) VERSION_FIELDS"
    "check_frozen d r = Inr ()" "check_thresholds d ''POLICY_THRESHOLD_INVALID'' THRESHOLD_FIELDS = Inr ()"
    "check_durations d ''POLICY_DURATION_INVALID'' DURATION_FIELDS = Inr ()"
  using assms by (auto simp: from_document_def split: if_splits sum.splits)

lemma from_document_valid:
  assumes "from_document d r = Inr p"
  shows "policy_valid p"
proof -
  note c = from_document_cases [OF assms]
  have "list_all pf_isfinite [rp_head_down_on p, rp_head_down_off p, rp_side_look_on p, rp_side_look_off p]"
    using check_thresholds_ok [OF c(5)] c(1) by (simp add: policy_of_document_def THRESHOLD_FIELDS_def)
  moreover have "list_all (\<lambda>n. 0 \<le> n \<and> n \<le> 60000) [rp_motion_duration_ms p, rp_presence_duration_ms p,
      rp_release_ms p, rp_merge_gap_ms p, rp_cooldown_ms p]"
    using check_durations_ok [OF c(6)] c(1) by (simp add: policy_of_document_def DURATION_FIELDS_def)
  moreover have "rp_policy_version p \<noteq> [] \<and> rp_status p \<noteq> [] \<and> rp_selection_source p \<noteq> []"
    using c(1,3) by (auto simp: policy_of_document_def VERSION_FIELDS_def nonempty_str_def
        split: option.splits json.splits)
  ultimately show ?thesis using c(2) by (simp add: policy_valid_iff)
qed

lemma from_document_research:
  assumes "from_document d True = Inr p"
  shows "research_policy p"
proof -
  note c = from_document_cases [OF assms]
  have "map_of d ''status'' = Some (JStr ''FROZEN'')"
    and "in_str_set (map_of d ''selection_source'') [''PILOT'', ''CALIBRATION''] = Inr True"
    using c(4) by (auto simp: check_frozen_def split: if_splits sum.splits)
  moreover from this(2) have "as_str (map_of d ''selection_source'') \<in> {''PILOT'', ''CALIBRATION''}"
    by (cases "(map_of d ''selection_source'', [''PILOT'', ''CALIBRATION''])" rule: in_str_set.cases) auto
  ultimately show ?thesis using c(1) by (simp add: policy_of_document_def research_policy_def)
qed

lemma document_round_trip:
  assumes v: "policy_valid p" and "research \<longrightarrow> research_policy p"
  shows "from_document (to_document p) research = Inr p"
proof -
  have "policy_of_document (to_document p) = p" by (simp add: policy_of_document_def to_document_def)
  moreover have "set (map fst (to_document p)) = set document_fields"
    by (auto simp: to_document_def document_fields_def VERSION_FIELDS_def THRESHOLD_FIELDS_def DURATION_FIELDS_def)
  moreover have "check_thresholds (to_document p) e THRESHOLD_FIELDS = Inr ()" for e
    using v by (simp add: THRESHOLD_FIELDS_def to_document_def policy_valid_iff)
  moreover have "check_durations (to_document p) e DURATION_FIELDS = Inr ()" for e
    using v by (simp add: DURATION_FIELDS_def to_document_def policy_valid_iff)
  moreover have "list_all (\<lambda>k. nonempty_str (map_of (to_document p) k)) VERSION_FIELDS"
    using v by (simp add: VERSION_FIELDS_def to_document_def policy_valid_iff nonempty_str_def)
  moreover have "check_frozen (to_document p) research = Inr ()"
    using assms(2) by (auto simp: check_frozen_def to_document_def research_policy_def)
  moreover have "hysteresis_ok p" using v by (simp add: policy_valid_iff)
  ultimately show ?thesis by (simp add: from_document_def)
qed

text \<open>
  Claim C17. The loader admits exactly the valid policies. Writing a policy to a document and reading it back gives the policy when it is
  valid and, for research, frozen and selected by a pilot or a calibration, and fails otherwise; and whatever
  document the loader accepts, the policy it returns is valid and, for research, such a one. (Valid: finite thresholds,
  switching off at zero or more and below switching on, times within a minute, event times positive, versions not empty.)
\<close>
theorem policy_document_round_trip:
  "(from_document (to_document p) research = Inr p \<longleftrightarrow> policy_valid p \<and> (research \<longrightarrow> research_policy p)) \<and>
   (from_document d research = Inr q \<longrightarrow> policy_valid q \<and> (research \<longrightarrow> research_policy q))"
proof (intro conjI iffI impI)
  have sound: "policy_valid x \<and> (research \<longrightarrow> research_policy x)" if "from_document e research = Inr x" for e x
  proof (cases research)
    case True
    with that have "from_document e True = Inr x" by simp
    then show ?thesis using from_document_valid [OF that] from_document_research by simp
  next
    case False
    then show ?thesis using from_document_valid [OF that] by simp
  qed
  note sound [THEN conjunct1] sound [THEN conjunct2, rule_format]
  then show "from_document (to_document p) research = Inr p \<Longrightarrow> policy_valid p"
    "from_document (to_document p) research = Inr p \<Longrightarrow> research \<Longrightarrow> research_policy p"
    "from_document d research = Inr q \<Longrightarrow> policy_valid q"
    "from_document d research = Inr q \<Longrightarrow> research \<Longrightarrow> research_policy q" by simp_all
qed (rule document_round_trip; simp)

theorem policy_document_round_trip_witness:
  "policy_valid rule_policy_demo \<and> from_document (to_document rule_policy_demo) True \<noteq> Inr rule_policy_demo"
proof -
  have "from_document (to_document rule_policy_demo) False = Inr rule_policy_demo"
    by (rule document_round_trip) (simp_all add: rule_policy_demo_def policy_valid_def ordered_thresholds_def)
  moreover have "\<not> research_policy rule_policy_demo" by (simp add: research_policy_def rule_policy_demo_def)
  ultimately show ?thesis
    using policy_document_round_trip [of rule_policy_demo False "to_document rule_policy_demo" rule_policy_demo]
      policy_document_round_trip [of rule_policy_demo True "[]" rule_policy_demo] by blast
qed

text \<open>
  Only frozen policies enter research. A policy that the research loader or the protocol loader
  returns is valid, frozen and selected by a pilot or a calibration; the demo policy is refused.
\<close>
lemma research_policy_frozen:
  "((from_document d True = Inr p \<or> from_protocol_freeze d = Inr p) \<longrightarrow> policy_valid p \<and> research_policy p) \<and>
   from_document (to_document rule_policy_demo) True = Inl (ValueError ''POLICY_NOT_FROZEN'')"
proof -
  have "from_protocol_freeze d = Inr p \<Longrightarrow> \<exists>e. from_document e True = Inr p"
    by (auto simp: from_protocol_freeze_def Let_def split: if_splits sum.splits option.splits json.splits)
  moreover have "from_document (to_document rule_policy_demo) True = Inl (ValueError ''POLICY_NOT_FROZEN'')"
    by code_simp
  ultimately show ?thesis using from_document_valid from_document_research by blast
qed

definition frozen_protocol :: pydict where
  "frozen_protocol = [(''status'', JStr ''FROZEN''), (''protocol_version'', JStr ''v1''),
     (''policy_selection_source'', JStr ''PILOT''),
     (''event_policy'', JObj [(''head_down_start_degrees'', JInt 15), (''head_down_end_degrees'', JFloat (Finite 8)),
       (''side_look_start_degrees'', JInt 25), (''side_look_end_degrees'', JInt 15), (''persistence_ms'', JInt 2000),
       (''presence_persistence_ms'', JInt 1500), (''release_ms'', JInt 400), (''merge_gap_ms'', JInt 700),
       (''cooldown_ms'', JInt 1000), (''stride_ms'', JInt 100)])]"

lemma research_policy_frozen_witness:
  "\<exists>p. from_protocol_freeze frozen_protocol = Inr p \<and> policy_valid p \<and> rp_status p = ''FROZEN''"
proof -
  have "(case from_protocol_freeze frozen_protocol of Inr _ \<Rightarrow> True | _ \<Rightarrow> False)"
    using double_of_int [of 15] double_of_int [of 25]
    by (simp add: from_protocol_freeze_def frozen_protocol_def from_document_def to_document_def policy_of_protocol_def
        policy_of_document_def check_frozen_def document_fields_def VERSION_FIELDS_def THRESHOLD_FIELDS_def
        DURATION_FIELDS_def PROTOCOL_EVENT_POLICY_FIELDS_def PROTOCOL_THRESHOLD_FIELDS_def
        PROTOCOL_DURATION_FIELDS_def int_to_float_def hysteresis_ok_def nonempty_str_def pf_le_def)
  then obtain p where p: "from_protocol_freeze frozen_protocol = Inr p" by (auto split: sum.splits)
  with research_policy_frozen [of frozen_protocol p] show ?thesis by (auto simp: research_policy_def)
qed

end
