(* ===== verification/M1_Store.thy ===== *)
theory M1_Store
  imports Session_Repository
begin

text \<open>
  The tables of the M1 database (\<open>m1.py\<close>, \<open>_DDL\<close>) as lists of row records, the statements the
  backend executes on them, with the primary key, unique, foreign key, check and not-null constraints
  as guards that raise \<open>IntegrityError\<close>, and the store operations of \<open>M1Store\<close>.

  A column with serialised JSON holds the JSON value itself (\<open>json.loads\<close> of \<open>json.dumps\<close>); a
  REAL column holds \<open>sql_real t\<close>, since SQLite stores NaN as NULL.
\<close>

section \<open>Rows\<close>

record storage_root_row =
  sr_id :: string
  sr_encryption_status :: string
  sr_acl_status :: string

record study_row =
  st_id :: string
  st_code :: string
  st_status :: string

record participant_row =
  pa_id :: string
  pa_study_id :: string
  pa_pseudonym :: string
  pa_withdrawn_at :: "pyfloat option"

record session_row =
  se_id :: string
  se_study_id :: "string option"
  se_participant_id :: "string option"
  se_kind :: session_kind
  se_state :: session_state
  se_event_seq :: int
  se_submitted :: bool
  se_duration_seconds :: int
  se_started_at :: "pyfloat option"
  se_collection_blocked :: bool
  se_withdrawn_at :: "pyfloat option"

record consent_row =
  co_id :: string
  co_session_id :: string
  co_version :: string

record retention_row =
  rt_id :: string
  rt_session_id :: string
  rt_decision :: string

record attempt_row =
  ex_id :: string
  ex_session_id :: string

record answer_row =
  an_id :: string
  an_session_id :: string
  an_answer_id :: json
  an_question_id :: json
  an_value :: json

record event_row =
  ev_session_id :: string
  ev_record :: event_record

record idempotency_row =
  id_scope :: string
  id_key :: string
  id_request_hash :: string
  id_response :: json

record artifact_row =
  ar_id :: string
  ar_session_id :: string
  ar_status :: artifact_status

record dependency_row =
  dp_parent :: string
  dp_child :: string

record receipt_row =
  wr_id :: string
  wr_participant_id :: string
  wr_subject_session_id :: string
  wr_response :: json

record task_row =
  wt_id :: string
  wt_subject_session_id :: string
  wt_artifact_id :: string
  wt_status :: withdrawal_task_status

datatype intent_status = INTENT_PENDING | INTENT_QUARANTINED

record intent_row =
  wi_id :: string
  wi_session_id :: string
  wi_path :: string
  wi_status :: intent_status

record audit_row =
  au_id :: string
  au_event_type :: string
  au_session_id :: "string option"

record m1_db =
  db_storage_roots :: "storage_root_row list"
  db_studies :: "study_row list"
  db_participants :: "participant_row list"
  db_sessions :: "session_row list"
  db_consents :: "consent_row list"
  db_retention :: "retention_row list"
  db_attempts :: "attempt_row list"
  db_answers :: "answer_row list"
  db_events :: "event_row list"
  db_idempotency :: "idempotency_row list"
  db_artifacts :: "artifact_row list"
  db_dependencies :: "dependency_row list"
  db_receipts :: "receipt_row list"
  db_tasks :: "task_row list"
  db_intents :: "intent_row list"
  db_audit :: "audit_row list"

definition empty_db :: m1_db where
  "empty_db = \<lparr>db_storage_roots = [], db_studies = [], db_participants = [], db_sessions = [], db_consents = [],
     db_retention = [], db_attempts = [], db_answers = [], db_events = [], db_idempotency = [],
     db_artifacts = [], db_dependencies = [], db_receipts = [], db_tasks = [], db_intents = [], db_audit = []\<rparr>"

section \<open>Queries\<close>

definition sql_real :: "pyfloat \<Rightarrow> pyfloat option" where
  "sql_real t = (if t = NaN then None else Some t)"

definition find_session :: "m1_db \<Rightarrow> string \<Rightarrow> session_row option" where
  "find_session db sid = find (\<lambda>r. se_id r = sid) (db_sessions db)"

definition find_participant :: "m1_db \<Rightarrow> string \<Rightarrow> participant_row option" where
  "find_participant db pid = find (\<lambda>r. pa_id r = pid) (db_participants db)"

definition find_artifact :: "m1_db \<Rightarrow> string \<Rightarrow> artifact_row option" where
  "find_artifact db aid = find (\<lambda>r. ar_id r = aid) (db_artifacts db)"

definition find_receipt :: "m1_db \<Rightarrow> string \<Rightarrow> receipt_row option" where
  "find_receipt db pid = find (\<lambda>r. wr_participant_id r = pid) (db_receipts db)"

definition find_idempotency :: "m1_db \<Rightarrow> string \<Rightarrow> string \<Rightarrow> idempotency_row option" where
  "find_idempotency db scope key = find (\<lambda>r. id_scope r = scope \<and> id_key r = key) (db_idempotency db)"

text \<open>The participant of a session: the (left) join of the two tables.\<close>

definition session_participant :: "m1_db \<Rightarrow> session_row \<Rightarrow> participant_row option" where
  "session_participant db r = (case se_participant_id r of None \<Rightarrow> None | Some pid \<Rightarrow> find_participant db pid)"

definition participant_sessions :: "m1_db \<Rightarrow> string \<Rightarrow> string list" where
  "participant_sessions db pid = map se_id (filter (\<lambda>r. se_participant_id r = Some pid) (db_sessions db))"

section \<open>Statements\<close>

text \<open>An insertion that is refused when a constraint does not hold.\<close>

definition db_insert :: "(m1_db \<Rightarrow> bool) \<Rightarrow> (m1_db \<Rightarrow> m1_db) \<Rightarrow> (m1_db, unit) pyop" where
  "db_insert ok f db = (if ok db then (Inr (), f db) else (Inl (IntegrityError ''constraint failed''), db))"

definition insert_study :: "study_row \<Rightarrow> pyfloat \<Rightarrow> (m1_db, unit) pyop" where
  "insert_study r created =
     db_insert (\<lambda>db. st_id r \<notin> st_id ` set (db_studies db) \<and> st_code r \<notin> st_code ` set (db_studies db) \<and>
         st_status r = ''APPROVAL_PENDING'' \<and> sql_real created \<noteq> None)
       (\<lambda>db. db\<lparr>db_studies := db_studies db @ [r]\<rparr>)"

definition insert_participant :: "participant_row \<Rightarrow> pyfloat \<Rightarrow> (m1_db, unit) pyop" where
  "insert_participant r created =
     db_insert (\<lambda>db. pa_id r \<notin> pa_id ` set (db_participants db) \<and>
         pa_pseudonym r \<notin> pa_pseudonym ` set (db_participants db) \<and>
         pa_study_id r \<in> st_id ` set (db_studies db) \<and> sql_real created \<noteq> None)
       (\<lambda>db. db\<lparr>db_participants := db_participants db @ [r]\<rparr>)"

definition insert_session :: "session_row \<Rightarrow> pyfloat \<Rightarrow> (m1_db, unit) pyop" where
  "insert_session r created =
     db_insert (\<lambda>db. se_id r \<notin> se_id ` set (db_sessions db) \<and>
         (case se_study_id r of None \<Rightarrow> True | Some i \<Rightarrow> i \<in> st_id ` set (db_studies db)) \<and>
         (case se_participant_id r of None \<Rightarrow> True | Some i \<Rightarrow> i \<in> pa_id ` set (db_participants db)) \<and>
         sql_real created \<noteq> None)
       (\<lambda>db. db\<lparr>db_sessions := db_sessions db @ [r]\<rparr>)"

definition has_session :: "m1_db \<Rightarrow> string \<Rightarrow> bool" where
  "has_session db sid \<longleftrightarrow> sid \<in> se_id ` set (db_sessions db)"

text \<open>\<open>INSERT OR REPLACE\<close>: rows that clash on the primary key or on the unique session are deleted.\<close>

definition replace_consent :: "consent_row \<Rightarrow> pyfloat \<Rightarrow> (m1_db, unit) pyop" where
  "replace_consent r confirmed =
     db_insert (\<lambda>db. has_session db (co_session_id r) \<and> sql_real confirmed \<noteq> None)
       (\<lambda>db. db\<lparr>db_consents := filter (\<lambda>c. co_id c \<noteq> co_id r \<and> co_session_id c \<noteq> co_session_id r) (db_consents db) @ [r]\<rparr>)"

definition replace_storage_root :: "storage_root_row \<Rightarrow> pyfloat \<Rightarrow> (m1_db, unit) pyop" where
  "replace_storage_root r configured =
     db_insert (\<lambda>db. sql_real configured \<noteq> None)
       (\<lambda>db. db\<lparr>db_storage_roots := filter (\<lambda>c. sr_id c \<noteq> sr_id r) (db_storage_roots db) @ [r]\<rparr>)"

definition insert_retention :: "retention_row \<Rightarrow> pyfloat \<Rightarrow> (m1_db, unit) pyop" where
  "insert_retention r recorded =
     db_insert (\<lambda>db. rt_id r \<notin> rt_id ` set (db_retention db) \<and> rt_session_id r \<notin> rt_session_id ` set (db_retention db) \<and>
         has_session db (rt_session_id r) \<and> sql_real recorded \<noteq> None)
       (\<lambda>db. db\<lparr>db_retention := db_retention db @ [r]\<rparr>)"

definition insert_attempt :: "attempt_row \<Rightarrow> pyfloat \<Rightarrow> (m1_db, unit) pyop" where
  "insert_attempt r created =
     db_insert (\<lambda>db. ex_id r \<notin> ex_id ` set (db_attempts db) \<and> has_session db (ex_session_id r) \<and> sql_real created \<noteq> None)
       (\<lambda>db. db\<lparr>db_attempts := db_attempts db @ [r]\<rparr>)"

text \<open>
  The two identifiers of an answer come from the payload: a list or a dictionary cannot be bound to a
  statement, and NULL is not allowed.
\<close>

definition bindable :: "json \<Rightarrow> bool" where
  "bindable v = (case v of JArr _ \<Rightarrow> False | JObj _ \<Rightarrow> False | _ \<Rightarrow> True)"

definition insert_answer :: "answer_row \<Rightarrow> pyfloat \<Rightarrow> (m1_db, unit) pyop" where
  "insert_answer r created = py_then
     (py_guard (\<not> bindable (an_answer_id r) \<or> \<not> bindable (an_question_id r))
        (ProgrammingError ''type is not supported''))
     (db_insert (\<lambda>db. an_id r \<notin> an_id ` set (db_answers db) \<and> has_session db (an_session_id r) \<and>
         an_answer_id r \<noteq> JNull \<and> an_question_id r \<noteq> JNull \<and> sql_real created \<noteq> None)
       (\<lambda>db. db\<lparr>db_answers := db_answers db @ [r]\<rparr>))"

definition insert_event :: "event_row \<Rightarrow> pyfloat \<Rightarrow> (m1_db, unit) pyop" where
  "insert_event r created =
     db_insert (\<lambda>db. (ev_session_id r, er_seq (ev_record r)) \<notin> (\<lambda>x. (ev_session_id x, er_seq (ev_record x))) ` set (db_events db) \<and>
         has_session db (ev_session_id r) \<and> sql_real created \<noteq> None)
       (\<lambda>db. db\<lparr>db_events := db_events db @ [r]\<rparr>)"

definition insert_idempotency :: "idempotency_row \<Rightarrow> pyfloat \<Rightarrow> (m1_db, unit) pyop" where
  "insert_idempotency r created =
     db_insert (\<lambda>db. find_idempotency db (id_scope r) (id_key r) = None \<and> sql_real created \<noteq> None)
       (\<lambda>db. db\<lparr>db_idempotency := db_idempotency db @ [r]\<rparr>)"

definition insert_artifact :: "artifact_row \<Rightarrow> pyfloat \<Rightarrow> (m1_db, unit) pyop" where
  "insert_artifact r created =
     db_insert (\<lambda>db. ar_id r \<notin> ar_id ` set (db_artifacts db) \<and> has_session db (ar_session_id r) \<and> sql_real created \<noteq> None)
       (\<lambda>db. db\<lparr>db_artifacts := db_artifacts db @ [r]\<rparr>)"

definition insert_dependency :: "dependency_row \<Rightarrow> (m1_db, unit) pyop" where
  "insert_dependency r =
     db_insert (\<lambda>db. r \<notin> set (db_dependencies db) \<and> dp_parent r \<in> ar_id ` set (db_artifacts db) \<and>
         dp_child r \<in> ar_id ` set (db_artifacts db))
       (\<lambda>db. db\<lparr>db_dependencies := db_dependencies db @ [r]\<rparr>)"

definition insert_receipt :: "receipt_row \<Rightarrow> pyfloat \<Rightarrow> (m1_db, unit) pyop" where
  "insert_receipt r created =
     db_insert (\<lambda>db. wr_id r \<notin> wr_id ` set (db_receipts db) \<and>
         wr_participant_id r \<notin> wr_participant_id ` set (db_receipts db) \<and>
         wr_participant_id r \<in> pa_id ` set (db_participants db) \<and>
         has_session db (wr_subject_session_id r) \<and> sql_real created \<noteq> None)
       (\<lambda>db. db\<lparr>db_receipts := db_receipts db @ [r]\<rparr>)"

text \<open>
  \<open>INSERT OR IGNORE\<close> skips a row that violates a unique, not-null or check constraint; a missing
  foreign key still raises.
\<close>

definition insert_or_ignore_task :: "task_row \<Rightarrow> pyfloat \<Rightarrow> (m1_db, unit) pyop" where
  "insert_or_ignore_task r created db =
     (if wt_id r \<in> wt_id ` set (db_tasks db) \<or>
         (wt_subject_session_id r, wt_artifact_id r) \<in> (\<lambda>t. (wt_subject_session_id t, wt_artifact_id t)) ` set (db_tasks db) \<or>
         sql_real created = None
      then (Inr (), db)
      else db_insert (\<lambda>db. has_session db (wt_subject_session_id r) \<and> wt_artifact_id r \<in> ar_id ` set (db_artifacts db))
             (\<lambda>db. db\<lparr>db_tasks := db_tasks db @ [r]\<rparr>) db)"

definition insert_intent :: "intent_row \<Rightarrow> pyfloat \<Rightarrow> (m1_db, unit) pyop" where
  "insert_intent r created =
     db_insert (\<lambda>db. wi_id r \<notin> wi_id ` set (db_intents db) \<and> has_session db (wi_session_id r) \<and> sql_real created \<noteq> None)
       (\<lambda>db. db\<lparr>db_intents := db_intents db @ [r]\<rparr>)"

definition insert_audit :: "audit_row \<Rightarrow> pyfloat \<Rightarrow> (m1_db, unit) pyop" where
  "insert_audit r created =
     db_insert (\<lambda>db. au_id r \<notin> au_id ` set (db_audit db) \<and>
         (case au_session_id r of None \<Rightarrow> True | Some i \<Rightarrow> has_session db i) \<and> sql_real created \<noteq> None)
       (\<lambda>db. db\<lparr>db_audit := db_audit db @ [r]\<rparr>)"

text \<open>\<open>UPDATE \<dots> WHERE\<close>: the rows that satisfy the condition, in place.\<close>

definition update_where :: "('r \<Rightarrow> bool) \<Rightarrow> ('r \<Rightarrow> 'r) \<Rightarrow> 'r list \<Rightarrow> 'r list" where
  "update_where c f rows = map (\<lambda>r. if c r then f r else r) rows"

lemma update_where_map: "(\<And>r. g (f r) = g r) \<Longrightarrow> map g (update_where c f rows) = map g rows"
  by (auto simp: update_where_def)

definition update_sessions :: "(session_row \<Rightarrow> bool) \<Rightarrow> (session_row \<Rightarrow> session_row) \<Rightarrow> m1_db \<Rightarrow> m1_db" where
  "update_sessions c f db = db\<lparr>db_sessions := update_where c f (db_sessions db)\<rparr>"

text \<open>The body of \<open>_event\<close> once the session row is known: the next number, then the row.\<close>

definition db_append_event :: "pyfloat \<Rightarrow> string \<Rightarrow> string \<Rightarrow> pydict \<Rightarrow> (m1_db, event_record) pyop" where
  "db_append_event now sid event_type payload db =
     (case find_session db sid of
        None \<Rightarrow> (Inl (KeyError sid), db)
      | Some row \<Rightarrow>
          let e = \<lparr>er_seq = se_event_seq row + 1, er_type = event_type, er_payload = payload\<rparr> in
          py_then (py_mod (update_sessions (\<lambda>r. se_id r = sid) (\<lambda>r. r\<lparr>se_event_seq := er_seq e\<rparr>)))
         (py_then (insert_event \<lparr>ev_session_id = sid, ev_record = e\<rparr> now)
         (py_ret e)) db)"

definition db_events_after :: "m1_db \<Rightarrow> string \<Rightarrow> int \<Rightarrow> event_record list" where
  "db_events_after db sid n =
     sort_key er_seq (map ev_record (filter (\<lambda>r. ev_session_id r = sid \<and> n < er_seq (ev_record r)) (db_events db)))"

section \<open>\<open>M1Store\<close>\<close>

text \<open>
  \<open>transaction\<close>: commit when the body returns, restore the tables when it raises.
\<close>

definition rollback :: "(m1_db, 'a) pyop \<Rightarrow> (m1_db, 'a) pyop" where
  "rollback m db = (case m db of (Inl e, _) \<Rightarrow> (Inl e, db) | (Inr x, db') \<Rightarrow> (Inr x, db'))"

definition parent_refused :: "m1_db \<Rightarrow> string \<Rightarrow> bool" where
  "parent_refused db parent =
     (case find_artifact db parent of
        None \<Rightarrow> True
      | Some a \<Rightarrow>
          (case find_session db (ar_session_id a) of
             None \<Rightarrow> True
           | Some r \<Rightarrow> ar_status a \<noteq> VALID \<or> se_state r = WITHDRAWN \<or>
               (case session_participant db r of None \<Rightarrow> False | Some p \<Rightarrow> pa_withdrawn_at p \<noteq> None)))"

definition require_valid_parents :: "string list \<Rightarrow> (m1_db, unit) pyop" where
  "require_valid_parents parents = py_for parents (\<lambda>parent.
     py_bind (py_get (\<lambda>db. parent_refused db parent)) (\<lambda>refused.
     py_guard refused (InvalidTransition ''Artifact parent is missing, invalidated, or belongs to a withdrawn record'')))"

definition add_dependency :: "string \<Rightarrow> string \<Rightarrow> (m1_db, unit) pyop" where
  "add_dependency parent child = rollback
     (py_then (require_valid_parents [parent])
     (py_bind (py_get (\<lambda>db. find_artifact db child = None)) (\<lambda>missing.
      py_then (py_guard missing (InvalidTransition ''Artifact dependency child is missing''))
      (insert_dependency \<lparr>dp_parent = parent, dp_child = child\<rparr>))))"

text \<open>The last check of \<open>_validate_schema\<close> when a database is opened again.\<close>

definition no_recording_research :: "m1_db \<Rightarrow> bool" where
  "no_recording_research db \<longleftrightarrow> \<not> list_ex (\<lambda>r. se_kind r = RESEARCH \<and> se_state r = RECORDING) (db_sessions db)"

section \<open>The withdrawal closure\<close>

text \<open>
  The recursive query of \<open>withdraw\<close>: the artifacts of the participant's sessions and everything
  derived from them. One round adds the children of what is known; \<open>length edges\<close> rounds are enough,
  since every round that adds anything adds the child of an edge for the first time.
\<close>

definition lineage_step :: "dependency_row list \<Rightarrow> string list \<Rightarrow> string list" where
  "lineage_step edges ids =
     ids @ remdups (filter (\<lambda>c. c \<notin> set ids) (map dp_child (filter (\<lambda>d. dp_parent d \<in> set ids) edges)))"

definition lineage_of :: "m1_db \<Rightarrow> string \<Rightarrow> string list" where
  "lineage_of db pid =
     (lineage_step (db_dependencies db) ^^ length (db_dependencies db))
       (remdups (map ar_id (filter (\<lambda>a. ar_session_id a \<in> set (participant_sessions db pid)) (db_artifacts db))))"

end
