(* ===== verification/M1_Backend.thy ===== *)
theory M1_Backend
  imports M1_Store M0_Backend
begin

text \<open>
  The durable research workspace \<open>M1Backend\<close> of \<open>m1.py\<close>: demo sessions, answers and submission on
  the database, studies, participants and research sessions, operator consent, artifacts and their
  lineage, withdrawal and the recovery of interrupted writes. The state extends the demo backend with
  the tables; only the tables are rolled back when a transaction fails, clock readings, drawn tokens
  and published events are not.

  Parameters: \<open>digest\<close> is the SHA-256 of the canonical JSON of a request, \<open>pystr\<close> is \<open>str\<close>, \<open>parse_date\<close> is
  \<open>date.fromisoformat\<close>, \<open>today\<close> is \<open>date.fromtimestamp\<close>, and \<open>move_partial\<close> is what the file
  system answers when a partial file is moved to quarantine.
\<close>

section \<open>State and transactions\<close>

record m1_backend = m0_backend +
  m1_db :: m1_db
  m1_open :: bool

definition db_op :: "(m1_db, 'a) pyop \<Rightarrow> ('m m1_backend_scheme, 'a) pyop" where
  "db_op m s = (case m (m1_db s) of (r, db) \<Rightarrow> (r, s\<lparr>m1_db := db\<rparr>))"

definition db_get :: "(m1_db \<Rightarrow> 'a) \<Rightarrow> ('m m1_backend_scheme, 'a) pyop" where
  "db_get f = py_get (\<lambda>s. f (m1_db s))"

definition transaction :: "('m m1_backend_scheme, 'a) pyop \<Rightarrow> ('m m1_backend_scheme, 'a) pyop" where
  "transaction m s =
     (if \<not> m1_open s then (Inl (ProgrammingError ''Cannot operate on a closed database.''), s)
      else case m s of
        (Inl e, s') \<Rightarrow> (Inl e, s'\<lparr>m1_db := m1_db s\<rparr>)
      | (Inr x, s') \<Rightarrow> (Inr x, s'))"

definition require_open :: "('m m1_backend_scheme, unit) pyop" where
  "require_open s = (if m1_open s then (Inr (), s)
     else (Inl (ProgrammingError ''Cannot operate on a closed database.''), s))"

definition store_close :: "('m m1_backend_scheme, unit) pyop" where
  "store_close = py_mod (\<lambda>s. s\<lparr>m1_open := False\<rparr>)"

text \<open>\<open>_record_reviewer_audit\<close>: a closed store has nothing to audit to.\<close>

definition record_reviewer_audit :: "py_env \<Rightarrow> string \<Rightarrow> ('m m1_backend_scheme, unit) pyop" where
  "record_reviewer_audit env kind s =
     (case transaction (py_bind (token_urlsafe env 8) (\<lambda>tok.
        py_bind (read_clock env) (\<lambda>now.
        db_op (insert_audit \<lparr>au_id = ''reviewer-audit-'' @ tok, au_event_type = kind, au_session_id = None\<rparr> now)))) s of
        (Inl (ProgrammingError m), s') \<Rightarrow> (Inr (), s')
      | (r, s') \<Rightarrow> (r, s'))"

section \<open>Events and idempotency\<close>

definition record_of_row :: "session_row \<Rightarrow> session_record" where
  "record_of_row r = (new_session_record (se_id r))\<lparr>sr_state := se_state r, sr_event_seq := se_event_seq r,
     sr_submitted := se_submitted r, sr_duration_seconds := se_duration_seconds r, sr_started_at := se_started_at r\<rparr>"

definition m1_record :: "string \<Rightarrow> ('m m1_backend_scheme, session_record option) pyop" where
  "m1_record sid = py_then require_open (db_get (\<lambda>db. map_option record_of_row (find_session db sid)))"

definition m1_event :: "py_env \<Rightarrow> string \<Rightarrow> string \<Rightarrow> pydict \<Rightarrow> ('m m1_backend_scheme, pydict) pyop" where
  "m1_event env sid event_type payload =
     py_bind (db_get (\<lambda>db. find_session db sid = None)) (\<lambda>missing.
     py_then (py_guard missing (KeyError sid))
    (py_bind (read_clock env) (\<lambda>now.
     py_bind (db_op (db_append_event now sid event_type payload)) (\<lambda>e.
     py_ret (er_as_dict e)))))"

definition publish :: "string \<Rightarrow> pydict option \<Rightarrow> ('m m1_backend_scheme, unit) pyop" where
  "publish sid event = (case event of None \<Rightarrow> py_ret () | Some e \<Rightarrow> py_mod (fanout sid e))"

definition checked_key :: "string option \<Rightarrow> string \<Rightarrow> py_error + string" where
  "checked_key key fallback =
     (let value = (case key of Some k \<Rightarrow> if k = [] then fallback else k | None \<Rightarrow> fallback) in
      if \<not> (1 \<le> length value \<and> length value \<le> 128) \<or> list_ex (\<lambda>c. c \<in> set [CHR 0x5C, CHR ''/'', CHR '':'']) value
      then Inl (InvalidTransition ''Invalid idempotency key'') else Inr value)"

text \<open>
  \<open>_mutate\<close>. The operation also returns the event it appended (the \<open>nonlocal event\<close> of the code);
  a replay returns none.
\<close>

definition mutate :: "(pydict \<Rightarrow> string) \<Rightarrow> py_env \<Rightarrow> string \<Rightarrow> string \<Rightarrow> pydict \<Rightarrow>
    ('m m1_backend_scheme, pydict \<times> pydict option) pyop \<Rightarrow> ('m m1_backend_scheme, pydict \<times> pydict option) pyop" where
  "mutate digest env scope key payload operation =
     transaction
      (py_bind (db_get (\<lambda>db. find_idempotency db scope key)) (\<lambda>found.
       case found of
         Some row \<Rightarrow>
           if id_request_hash row \<noteq> digest payload then
             py_raise (IdempotencyConflict ''Idempotency key was reused with a different request payload'')
           else (case id_response row of
               JObj d \<Rightarrow> py_ret (d, None)
             | _ \<Rightarrow> py_raise (SchemaIntegrityError ''idempotency response is malformed''))
       | None \<Rightarrow>
           py_bind operation (\<lambda>(response, event).
           py_bind (read_clock env) (\<lambda>now.
           py_then (db_op (insert_idempotency \<lparr>id_scope = scope, id_key = key, id_request_hash = digest payload,
               id_response = JObj response\<rparr> now))
           (py_ret (response, event))))))"

text \<open>The usual frame of a mutation: key, \<open>_mutate\<close>, publish the event, return the response.\<close>

definition mutation :: "(pydict \<Rightarrow> string) \<Rightarrow> py_env \<Rightarrow> string \<Rightarrow> string option \<Rightarrow> string \<Rightarrow> string \<Rightarrow> pydict \<Rightarrow>
    ('m m1_backend_scheme, pydict \<times> pydict option) pyop \<Rightarrow> ('m m1_backend_scheme, pydict) pyop" where
  "mutation digest env sid key fallback scope payload operation =
     py_bind (py_lift (checked_key key fallback)) (\<lambda>k.
     py_bind (mutate digest env scope k payload operation) (\<lambda>(response, event).
     py_then (publish sid event) (py_ret response)))"

definition m1_append_event :: "py_env \<Rightarrow> string \<Rightarrow> string \<Rightarrow> pydict \<Rightarrow> ('m m1_backend_scheme, pydict) pyop" where
  "m1_append_event env sid event_type payload =
     py_bind (transaction (m1_event env sid event_type payload)) (\<lambda>event.
     py_then (publish sid (Some event)) (py_ret event))"

definition m1_append_demo_event :: "py_env \<Rightarrow> string \<Rightarrow> pydict \<Rightarrow> ('m m1_backend_scheme, pydict) pyop" where
  "m1_append_demo_event env sid payload = m1_append_event env sid ''DemoEvent'' payload"

section \<open>Demo sessions\<close>

definition new_session_row :: "string \<Rightarrow> session_kind \<Rightarrow> int \<Rightarrow> session_row" where
  "new_session_row sid kind duration =
     \<lparr>se_id = sid, se_study_id = None, se_participant_id = None, se_kind = kind, se_state = DRAFT,
      se_event_seq = 0, se_submitted = False, se_duration_seconds = duration, se_started_at = None,
      se_collection_blocked = False, se_withdrawn_at = None\<rparr>"

definition m1_create_session :: "py_env \<Rightarrow> ('m m1_backend_scheme, session_record \<times> string) pyop" where
  "m1_create_session env =
     py_bind (token_urlsafe env 18) (\<lambda>session_id.
     py_bind (token_urlsafe env 12) (\<lambda>pairing.
     py_bind (py_get m0_duration_seconds) (\<lambda>duration.
     py_then (transaction (py_bind (read_clock env) (\<lambda>now.
         db_op (insert_session (new_session_row session_id DEMO duration) now))))
    (py_then (py_mod (\<lambda>s. s\<lparr>m0_pairing_codes := AList.update pairing session_id (m0_pairing_codes s)\<rparr>))
    (py_bind (m1_record session_id) (\<lambda>found.
     case found of None \<Rightarrow> py_raise AssertionError | Some rec \<Rightarrow> py_ret (rec, pairing)))))))"

definition m1_snapshot :: "(pyfloat \<Rightarrow> py_error + string) \<Rightarrow> py_env \<Rightarrow> string \<Rightarrow> ('m m1_backend_scheme, session_snapshot option) pyop" where
  "m1_snapshot utc env sid =
     py_bind (m1_record sid) (\<lambda>found.
     case found of
       None \<Rightarrow> py_ret None
     | Some rec \<Rightarrow> py_bind (snapshot_of utc env rec) (\<lambda>snap. py_ret (Some snap)))"

text \<open>The write of a session action: the compare-and-set of the state, then the event.\<close>

definition session_action_write :: "py_env \<Rightarrow> string \<Rightarrow> session_row \<Rightarrow> session_state \<Rightarrow> pyfloat option \<Rightarrow>
    ('m m1_backend_scheme, pydict option) pyop" where
  "session_action_write env sid row next_state started_at =
     (if next_state \<noteq> se_state row then
              let hit = (\<lambda>r. se_id r = sid \<and> se_state r = se_state row) in
              py_bind (db_get (\<lambda>db. length (filter hit (db_sessions db)))) (\<lambda>rowcount.
              py_then (db_op (py_mod (update_sessions hit (\<lambda>r. r\<lparr>se_state := next_state,
                  se_started_at := (case started_at of None \<Rightarrow> None | Some when \<Rightarrow> sql_real when)\<rparr>))))
             (py_then (py_guard (rowcount \<noteq> 1) (SchemaIntegrityError ''session lifecycle compare-and-set failed''))
             (py_bind (m1_event env sid ''SessionStateChanged'' [(''state'', JStr (session_state_str next_state))]) (\<lambda>e.
              py_ret (Some e)))))
            else py_ret None)"

text \<open>The transaction of \<open>apply_session_action\<close>: the record after it and the event, if any.\<close>

definition session_action_tx :: "py_env \<Rightarrow> string \<Rightarrow> string \<Rightarrow> ('m m1_backend_scheme, (session_record \<times> pydict option) option) pyop" where
  "session_action_tx env sid action =
     py_bind (db_get (\<lambda>db. find_session db sid)) (\<lambda>found.
     case found of
       None \<Rightarrow> py_ret None
     | Some row \<Rightarrow>
         py_then (py_guard (se_kind row = RESEARCH)
           (InvalidTransition ''Research sessions cannot enter the M0 lifecycle in M1''))
        (py_bind (py_lift (transition (se_state row) action)) (\<lambda>next_state.
         py_bind (if action = ''start'' \<and> next_state \<noteq> se_state row
                  then py_bind (read_clock env) (\<lambda>now. py_ret (Some now)) else py_ret (se_started_at row)) (\<lambda>started_at.
         py_bind (session_action_write env sid row next_state started_at) (\<lambda>event.
         py_bind (db_get (\<lambda>db. find_session db sid)) (\<lambda>persisted.
         case persisted of
           None \<Rightarrow> py_raise AssertionError
         | Some q \<Rightarrow> py_ret (Some ((new_session_record sid)\<lparr>sr_state := next_state, sr_event_seq := se_event_seq q,
               sr_submitted := se_submitted q, sr_duration_seconds := se_duration_seconds row,
               sr_started_at := started_at\<rparr>, event))))))))"

definition m1_apply_session_action ::
    "(pyfloat \<Rightarrow> py_error + string) \<Rightarrow> py_env \<Rightarrow> string \<Rightarrow> string \<Rightarrow> ('m m1_backend_scheme, session_snapshot option) pyop" where
  "m1_apply_session_action utc env sid action =
     py_bind (transaction (session_action_tx env sid action)) (\<lambda>res.
     case res of
       None \<Rightarrow> py_ret None
     | Some (rec, event) \<Rightarrow>
         py_then (publish sid event)
        (py_bind (snapshot_of utc env rec) (\<lambda>snap. py_ret (Some snap))))"

definition m1_events_after :: "string \<Rightarrow> int \<Rightarrow> ('m m1_backend_scheme, pydict list) pyop" where
  "m1_events_after sid n = py_then require_open (db_get (\<lambda>db. map er_as_dict (db_events_after db sid n)))"

definition answer_operation :: "py_env \<Rightarrow> string \<Rightarrow> pydict \<Rightarrow> ('m m1_backend_scheme, pydict \<times> pydict option) pyop" where
  "answer_operation env sid payload =
     py_bind (db_get (\<lambda>db. find_session db sid)) (\<lambda>found.
     case found of
       None \<Rightarrow> py_raise (KeyError sid)
     | Some row \<Rightarrow>
         py_then (py_guard (se_state row \<noteq> RECORDING \<or> se_submitted row)
           (InvalidTransition ''Answers are accepted only while the session is recording''))
        (py_bind (token_urlsafe env 12) (\<lambda>tok.
         case (map_of payload ''answer_id'', map_of payload ''question_id'') of
           (None, _) \<Rightarrow> py_raise (KeyError ''answer_id'')
         | (_, None) \<Rightarrow> py_raise (KeyError ''question_id'')
         | (Some answer_id, Some question_id) \<Rightarrow>
             py_bind (read_clock env) (\<lambda>now.
             py_then (db_op (insert_answer \<lparr>an_id = tok, an_session_id = sid, an_answer_id = answer_id,
                an_question_id = question_id,
                an_value = (case map_of payload ''value'' of None \<Rightarrow> JNull | Some v \<Rightarrow> v)\<rparr> now))
            (py_bind (m1_event env sid ''AnswerRecorded'' [(''answer_id'', answer_id)]) (\<lambda>e.
             py_ret ([(''schema_version'', JInt 1), (''accepted'', JBool True)], Some e)))))))"

definition m1_record_answer :: "(pydict \<Rightarrow> string) \<Rightarrow> (json \<Rightarrow> string) \<Rightarrow> py_env \<Rightarrow> string \<Rightarrow> string \<Rightarrow> pydict \<Rightarrow>
    ('m m1_backend_scheme, pydict) pyop" where
  "m1_record_answer digest pystr env sid key payload =
     (case map_of payload ''answer_id'' of
        None \<Rightarrow> py_raise (KeyError ''answer_id'')
      | Some a \<Rightarrow> mutation digest env sid (Some key) (pystr a) (''answer:'' @ sid) payload (answer_operation env sid payload))"

definition submit_operation :: "py_env \<Rightarrow> string \<Rightarrow> ('m m1_backend_scheme, pydict \<times> pydict option) pyop" where
  "submit_operation env sid =
     py_bind (db_get (\<lambda>db. find_session db sid)) (\<lambda>found.
     case found of
       None \<Rightarrow> py_raise (KeyError sid)
     | Some row \<Rightarrow>
         py_then (py_guard (se_state row \<noteq> RECORDING)
           (InvalidTransition ''Exam can be submitted only while the session is recording''))
        (py_then (py_guard (se_submitted row)
           (IdempotencyConflict ''Exam was already submitted with a different idempotency key''))
        (py_then (db_op (py_mod (update_sessions (\<lambda>r. se_id r = sid) (\<lambda>r. r\<lparr>se_submitted := True\<rparr>))))
        (py_bind (token_urlsafe env 12) (\<lambda>tok.
         py_bind (read_clock env) (\<lambda>now.
         py_then (db_op (insert_attempt \<lparr>ex_id = tok, ex_session_id = sid\<rparr> now))
        (py_bind (m1_event env sid ''ExamSubmitted'' []) (\<lambda>e.
         py_ret ([(''schema_version'', JInt 1), (''submitted'', JBool True)], Some e)))))))))"

definition m1_submit_exam :: "(pydict \<Rightarrow> string) \<Rightarrow> py_env \<Rightarrow> string \<Rightarrow> string \<Rightarrow> ('m m1_backend_scheme, pydict) pyop" where
  "m1_submit_exam digest env sid key =
     mutation digest env sid (Some key) ''submit'' (''submit:'' @ sid) [(''submit'', JBool True)] (submit_operation env sid)"

definition m1_replay_demo_alerts :: "py_env \<Rightarrow> json list option \<Rightarrow> string \<Rightarrow> ('m m1_backend_scheme, pydict list) pyop" where
  "m1_replay_demo_alerts env fx sid =
     py_bind (m1_record sid) (\<lambda>found.
     py_then (py_guard (found = None) (KeyError sid))
    (py_bind (py_lift (fixture_events fx)) (\<lambda>events.
     py_then (py_for events (\<lambda>f.
        py_bind (py_lift (fixture_payload FIXTURE_KEYS f)) (\<lambda>payload.
        py_bind (m1_append_demo_event env sid payload) (\<lambda>_. py_ret ()))))
    (py_bind (m1_events_after sid 0) (\<lambda>all. py_ret (py_last_n (length events) all))))))"

section \<open>Studies, participants, research sessions\<close>

definition study_operation :: "py_env \<Rightarrow> string \<Rightarrow> ('m m1_backend_scheme, pydict \<times> pydict option) pyop" where
  "study_operation env code =
     py_bind (token_urlsafe env 9) (\<lambda>tok.
     py_bind (read_clock env) (\<lambda>now.
     let study_id = ''study-'' @ tok in
     py_then (db_op (insert_study \<lparr>st_id = study_id, st_code = code, st_status = ''APPROVAL_PENDING''\<rparr> now))
     (py_ret ([(''schema_version'', JInt 1), (''study_id'', JStr study_id), (''status'', JStr ''APPROVAL_PENDING'')], None))))"

definition create_study :: "(pydict \<Rightarrow> string) \<Rightarrow> py_env \<Rightarrow> string \<Rightarrow> string option \<Rightarrow> ('m m1_backend_scheme, pydict) pyop" where
  "create_study digest env code key =
     mutation digest env [] key (''study-'' @ code) ''research-study'' [(''study_code'', JStr code)] (study_operation env code)"

definition participant_operation :: "py_env \<Rightarrow> string \<Rightarrow> ('m m1_backend_scheme, pydict \<times> pydict option) pyop" where
  "participant_operation env study_id =
     py_bind (db_get (\<lambda>db. study_id \<in> st_id ` set (db_studies db))) (\<lambda>known.
     py_then (py_guard (\<not> known) (KeyError study_id))
    (py_bind (token_urlsafe env 9) (\<lambda>t1.
     py_bind (token_urlsafe env 8) (\<lambda>t2.
     py_bind (read_clock env) (\<lambda>now.
     py_then (db_op (insert_participant \<lparr>pa_id = ''participant-'' @ t1, pa_study_id = study_id,
         pa_pseudonym = ''p-'' @ t2, pa_withdrawn_at = None\<rparr> now))
     (py_ret ([(''schema_version'', JInt 1), (''participant_id'', JStr (''participant-'' @ t1)),
        (''participant_pseudonym'', JStr (''p-'' @ t2))], None)))))))"

definition create_participant :: "(pydict \<Rightarrow> string) \<Rightarrow> py_env \<Rightarrow> string \<Rightarrow> string option \<Rightarrow> ('m m1_backend_scheme, pydict) pyop" where
  "create_participant digest env study_id key =
     mutation digest env [] key (''participant-'' @ study_id) ''research-participant'' [(''study_id'', JStr study_id)]
       (participant_operation env study_id)"

definition retention_decision :: "string option \<Rightarrow> string option \<Rightarrow> string" where
  "retention_decision policy_ref end_date =
     (case policy_ref of
        Some r \<Rightarrow> if r \<noteq> [] then r else (case end_date of Some d \<Rightarrow> if d \<noteq> [] then d else ''PENDING'' | None \<Rightarrow> ''PENDING'')
      | None \<Rightarrow> (case end_date of Some d \<Rightarrow> if d \<noteq> [] then d else ''PENDING'' | None \<Rightarrow> ''PENDING''))"

definition research_session_operation :: "py_env \<Rightarrow> string \<Rightarrow> string \<Rightarrow> string \<Rightarrow> ('m m1_backend_scheme, pydict \<times> pydict option) pyop" where
  "research_session_operation env study_id participant_id decision =
     py_bind (db_get (\<lambda>db. find (\<lambda>p. pa_id p = participant_id \<and> pa_study_id p = study_id) (db_participants db))) (\<lambda>found.
     case found of
       None \<Rightarrow> py_raise (KeyError participant_id)
     | Some p \<Rightarrow>
         py_then (py_guard (pa_withdrawn_at p \<noteq> None) (InvalidTransition ''Withdrawn participant cannot receive a session''))
        (py_bind (token_urlsafe env 12) (\<lambda>tok.
         py_bind (py_get m0_duration_seconds) (\<lambda>duration.
         py_bind (read_clock env) (\<lambda>now.
         let session_id = ''research-'' @ tok in
         py_then (db_op (insert_session ((new_session_row session_id RESEARCH duration)\<lparr>se_study_id := Some study_id,
             se_participant_id := Some participant_id\<rparr>) now))
        (py_bind (token_urlsafe env 8) (\<lambda>rtok.
         py_bind (read_clock env) (\<lambda>later.
         py_then (db_op (insert_retention \<lparr>rt_id = ''retention-'' @ rtok, rt_session_id = session_id, rt_decision = decision\<rparr> later))
         (py_ret ([(''schema_version'', JInt 1), (''session_id'', JStr session_id), (''session_kind'', JStr ''RESEARCH''),
            (''state'', JStr ''DRAFT''), (''participant_pseudonym'', JStr (pa_pseudonym p))], None))))))))))"

text \<open>\<open>parse_date\<close> and \<open>today\<close> give the day number of a date, or \<open>None\<close> when it is not a date.\<close>

definition create_research_session :: "(pydict \<Rightarrow> string) \<Rightarrow> (string \<Rightarrow> int option) \<Rightarrow> (pyfloat \<Rightarrow> py_error + int) \<Rightarrow> py_env \<Rightarrow>
    string \<Rightarrow> string \<Rightarrow> string option \<Rightarrow> string option \<Rightarrow> string option \<Rightarrow> ('m m1_backend_scheme, pydict) pyop" where
  "create_research_session digest parse_date today env study_id participant_id key policy_ref end_date =
     py_then (py_guard (policy_ref \<noteq> None \<and> end_date \<noteq> None) (InvalidTransition ''Only one retention value may be supplied''))
    (py_then
      (case end_date of
         None \<Rightarrow> py_ret ()
       | Some d \<Rightarrow>
           (case parse_date d of
              None \<Rightarrow> py_raise (InvalidTransition ''Retention end date must be a valid ISO date'')
            | Some day \<Rightarrow>
                py_bind (read_clock env) (\<lambda>now.
                py_bind (py_lift (today now)) (\<lambda>current.
                py_guard (day < current) (InvalidTransition ''Retention end date may not be in the past'')))))
     (mutation digest env [] key (''session-'' @ participant_id) ''research-session''
       [(''study_id'', JStr study_id), (''participant_id'', JStr participant_id),
        (''retention_policy_reference'', case policy_ref of None \<Rightarrow> JNull | Some r \<Rightarrow> JStr r),
        (''retention_end_date'', case end_date of None \<Rightarrow> JNull | Some d \<Rightarrow> JStr d)]
       (research_session_operation env study_id participant_id (retention_decision policy_ref end_date))))"

text \<open>\<open>_require_mutable_research\<close>: the inner join of the research session with its participant.\<close>

definition research_join :: "m1_db \<Rightarrow> string \<Rightarrow> (session_row \<times> participant_row) option" where
  "research_join db sid =
     (case find_session db sid of
        None \<Rightarrow> None
      | Some r \<Rightarrow> (case session_participant db r of None \<Rightarrow> None | Some p \<Rightarrow> Some (r, p)))"

definition require_mutable_research :: "string \<Rightarrow> (m1_db, unit) pyop" where
  "require_mutable_research sid =
     py_bind (py_get (\<lambda>db. research_join db sid)) (\<lambda>row.
     case row of
       None \<Rightarrow> py_raise (KeyError sid)
     | Some (r, p) \<Rightarrow>
         py_then (py_guard (se_kind r \<noteq> RESEARCH) (KeyError sid))
         (py_guard (pa_withdrawn_at p \<noteq> None \<or> se_state r = WITHDRAWN \<or> se_collection_blocked r)
           (InvalidTransition ''Withdrawn or blocked research records cannot be mutated'')))"

definition mutable_research :: "string \<Rightarrow> ('m m1_backend_scheme, unit) pyop" where
  "mutable_research sid = py_then require_open (db_op (require_mutable_research sid))"

definition consent_operation :: "py_env \<Rightarrow> string \<Rightarrow> string \<Rightarrow> string \<Rightarrow> ('m m1_backend_scheme, pydict \<times> pydict option) pyop" where
  "consent_operation env sid receipt_id version =
     py_then (db_op (require_mutable_research sid))
    (py_bind (read_clock env) (\<lambda>now.
     py_then (db_op (replace_consent \<lparr>co_id = receipt_id, co_session_id = sid, co_version = version\<rparr> now))
    (py_then (db_op (py_mod (update_sessions (\<lambda>r. se_id r = sid \<and> se_state r = DRAFT) (\<lambda>r. r\<lparr>se_state := CONSENT_CONFIRMED\<rparr>))))
    (py_bind (m1_event env sid ''OperatorConsentConfirmed'' [(''consent_version'', JStr version)]) (\<lambda>e.
     py_ret ([(''schema_version'', JInt 1), (''session_id'', JStr sid), (''consent_confirmed'', JBool True)], Some e))))))"

definition confirm_operator_consent :: "(pydict \<Rightarrow> string) \<Rightarrow> py_env \<Rightarrow> string \<Rightarrow> string \<Rightarrow> string \<Rightarrow> string option \<Rightarrow>
    ('m m1_backend_scheme, pydict) pyop" where
  "confirm_operator_consent digest env sid receipt_id version key =
     py_then (mutable_research sid)
     (mutation digest env sid key (''consent-'' @ sid) (''research-consent:'' @ sid)
       [(''receipt_id'', JStr receipt_id), (''version'', JStr version)] (consent_operation env sid receipt_id version))"

section \<open>Reading a research session\<close>

record research_view =
  rs_session_id :: string
  rs_session_kind :: session_kind
  rs_state :: session_state
  rs_participant_pseudonym :: string
  rs_collection_blocked :: bool
  rs_participant_withdrawn :: bool

definition research_session :: "string \<Rightarrow> ('m m1_backend_scheme, research_view) pyop" where
  "research_session sid = py_then require_open
    (py_bind (db_get (\<lambda>db. research_join db sid)) (\<lambda>row.
     case row of
       None \<Rightarrow> py_raise (KeyError sid)
     | Some (r, p) \<Rightarrow> py_ret \<lparr>rs_session_id = se_id r, rs_session_kind = se_kind r, rs_state = se_state r,
         rs_participant_pseudonym = pa_pseudonym p, rs_collection_blocked = se_collection_blocked r,
         rs_participant_withdrawn = (pa_withdrawn_at p \<noteq> None)\<rparr>))"

text \<open>
  \<open>readiness\<close>: the joined row of study, retention record, storage root and consent, then the gates in
  the order of the code.
\<close>

definition readiness_row :: "m1_db \<Rightarrow> string \<Rightarrow> (study_row \<times> retention_row \<times> consent_row option \<times> storage_root_row) option" where
  "readiness_row db sid =
     (case find_session db sid of
        None \<Rightarrow> None
      | Some r \<Rightarrow>
          (case (find (\<lambda>x. Some (st_id x) = se_study_id r) (db_studies db),
                 find (\<lambda>x. rt_session_id x = sid) (db_retention db),
                 find (\<lambda>x. sr_id x = ''active'') (db_storage_roots db)) of
             (Some st, Some rt, Some sroot) \<Rightarrow> Some (st, rt, find (\<lambda>x. co_session_id x = sid) (db_consents db), sroot)
           | _ \<Rightarrow> None))"

definition readiness_gates :: "study_row \<times> retention_row \<times> consent_row option \<times> storage_root_row \<Rightarrow> readiness_gate list" where
  "readiness_gates row = (case row of (st, rt, co, sroot) \<Rightarrow>
     [RESEARCH_COLLECTION_NOT_IMPLEMENTED]
     @ (if st_status st \<noteq> ''APPROVED'' then [INSTITUTIONAL_APPROVAL_REQUIRED] else [])
     @ (if co = None then [OPERATOR_CONSENT_REQUIRED] else [])
     @ (if rt_decision rt = ''PENDING'' then [RETENTION_DECISION_REQUIRED] else [])
     @ [RETENTION_AUTHORITY_UNVERIFIED]
     @ (if sr_encryption_status sroot \<noteq> ''VERIFIED'' then [STORAGE_ENCRYPTION_UNVERIFIED] else [])
     @ (if sr_acl_status sroot \<noteq> ''VERIFIED'' then [STORAGE_ACL_UNVERIFIED] else []))"

definition readiness :: "string \<Rightarrow> ('m m1_backend_scheme, bool \<times> readiness_gate list) pyop" where
  "readiness sid = py_then require_open
    (py_bind (db_get (\<lambda>db. readiness_row db sid)) (\<lambda>row.
     case row of None \<Rightarrow> py_raise (KeyError sid) | Some r \<Rightarrow> py_ret (False, readiness_gates r)))"

definition start_research_session :: "string \<Rightarrow> ('m m1_backend_scheme, bool) pyop" where
  "start_research_session sid = py_bind (research_session sid) (\<lambda>_. py_ret False)"

definition recovery :: "string \<Rightarrow> ('m m1_backend_scheme, session_state \<times> bool) pyop" where
  "recovery sid = py_bind (research_session sid) (\<lambda>v. py_ret (rs_state v, rs_collection_blocked v))"

definition artifact_status_of :: "string \<Rightarrow> ('m m1_backend_scheme, artifact_status) pyop" where
  "artifact_status_of aid = py_then require_open
    (py_bind (db_get (\<lambda>db. find_artifact db aid)) (\<lambda>row.
     case row of None \<Rightarrow> py_raise (KeyError aid) | Some a \<Rightarrow> py_ret (ar_status a)))"

section \<open>Artifacts and withdrawal\<close>

definition register_artifact :: "py_env \<Rightarrow> string \<Rightarrow> string \<Rightarrow> string list \<Rightarrow> ('m m1_backend_scheme, unit) pyop" where
  "register_artifact env artifact_id sid parents =
     py_then (mutable_research sid)
     (transaction
       (py_then (db_op (require_mutable_research sid))
       (py_then (db_op (require_valid_parents parents))
       (py_bind (read_clock env) (\<lambda>now.
        py_then (db_op (insert_artifact \<lparr>ar_id = artifact_id, ar_session_id = sid, ar_status = VALID\<rparr> now))
        (py_for parents (\<lambda>parent. db_op (insert_dependency \<lparr>dp_parent = parent, dp_child = artifact_id\<rparr>))))))))"

definition m1_add_dependency :: "string \<Rightarrow> string \<Rightarrow> ('m m1_backend_scheme, unit) pyop" where
  "m1_add_dependency parent child = py_then require_open (db_op (add_dependency parent child))"

definition task_count :: "m1_db \<Rightarrow> string \<Rightarrow> nat" where
  "task_count db pid = length (filter (\<lambda>t. wt_subject_session_id t \<in> set (participant_sessions db pid)) (db_tasks db))"

text \<open>The two updates of the participant and of all their sessions.\<close>

definition mark_withdrawn :: "string \<Rightarrow> pyfloat \<Rightarrow> pyfloat \<Rightarrow> m1_db \<Rightarrow> m1_db" where
  "mark_withdrawn pid at1 at2 db =
     update_sessions (\<lambda>r. se_participant_id r = Some pid)
       (\<lambda>r. r\<lparr>se_state := WITHDRAWN, se_collection_blocked := True,
             se_withdrawn_at := (case se_withdrawn_at r of None \<Rightarrow> sql_real at2 | Some x \<Rightarrow> Some x)\<rparr>)
       (db\<lparr>db_participants := update_where (\<lambda>p. pa_id p = pid)
          (\<lambda>p. p\<lparr>pa_withdrawn_at := (case pa_withdrawn_at p of None \<Rightarrow> sql_real at1 | Some x \<Rightarrow> Some x)\<rparr>) (db_participants db)\<rparr>)"

definition invalidate_artifact :: "py_env \<Rightarrow> string \<Rightarrow> string \<Rightarrow> ('m m1_backend_scheme, unit) pyop" where
  "invalidate_artifact env sid aid =
     py_then (db_op (py_mod (\<lambda>db. db\<lparr>db_artifacts :=
        update_where (\<lambda>a. ar_id a = aid) (\<lambda>a. a\<lparr>ar_status := INVALIDATED\<rparr>) (db_artifacts db)\<rparr>)))
    (py_bind (token_urlsafe env 8) (\<lambda>tok.
     py_bind (read_clock env) (\<lambda>now.
     db_op (insert_or_ignore_task \<lparr>wt_id = ''withdrawal-'' @ tok, wt_subject_session_id = sid, wt_artifact_id = aid,
       wt_status = PENDING\<rparr> now))))"

definition withdraw_operation :: "py_env \<Rightarrow> string \<Rightarrow> string \<Rightarrow> string \<Rightarrow> ('m m1_backend_scheme, pydict \<times> pydict option) pyop" where
  "withdraw_operation env sid pid pseudonym =
     py_bind (db_get (\<lambda>db. case find_session db sid of
         Some r \<Rightarrow> se_kind r = RESEARCH \<and> se_participant_id r = Some pid | None \<Rightarrow> False)) (\<lambda>current.
     py_then (py_guard (\<not> current) (KeyError sid))
    (py_bind (db_get (\<lambda>db. find_receipt db pid)) (\<lambda>receipt.
     case receipt of
       Some w \<Rightarrow>
         (case wr_response w of
            JObj d \<Rightarrow> py_ret (d, None)
          | _ \<Rightarrow> py_raise (SchemaIntegrityError ''withdrawal canonical response is malformed''))
     | None \<Rightarrow>
         py_bind (read_clock env) (\<lambda>at1.
         py_bind (read_clock env) (\<lambda>at2.
         py_then (db_op (py_mod (mark_withdrawn pid at1 at2)))
        (py_bind (db_get (\<lambda>db. lineage_of db pid)) (\<lambda>artifacts.
         py_then (py_for artifacts (invalidate_artifact env sid))
        (py_bind (m1_event env sid ''WithdrawalRequested'' []) (\<lambda>event.
         py_bind (db_get (\<lambda>db. task_count db pid)) (\<lambda>count.
         py_bind (token_urlsafe env 8) (\<lambda>atok.
         py_bind (read_clock env) (\<lambda>at3.
         py_then (db_op (insert_audit \<lparr>au_id = ''audit-'' @ atok, au_event_type = ''ParticipantWithdrawn'', au_session_id = Some sid\<rparr> at3))
        (py_bind (token_urlsafe env 8) (\<lambda>wtok.
         let receipt_id = ''withdrawal-receipt-'' @ wtok;
             response = [(''schema_version'', JInt 1), (''withdrawal_receipt_id'', JStr receipt_id),
               (''participant_pseudonym'', JStr pseudonym), (''terminal'', JBool True), (''task_count'', JInt (int count))]
         in py_bind (read_clock env) (\<lambda>at4.
            py_then (db_op (insert_receipt \<lparr>wr_id = receipt_id, wr_participant_id = pid, wr_subject_session_id = sid,
               wr_response = JObj response\<rparr> at4))
            (py_ret (response, Some event)))))))))))))))))"

definition withdraw :: "(pydict \<Rightarrow> string) \<Rightarrow> py_env \<Rightarrow> string \<Rightarrow> string option \<Rightarrow> ('m m1_backend_scheme, pydict) pyop" where
  "withdraw digest env sid key =
     py_bind (research_session sid) (\<lambda>view.
     py_bind (db_get (\<lambda>db. find_session db sid)) (\<lambda>row.
     case row of
       None \<Rightarrow> py_raise (KeyError sid)
     | Some r \<Rightarrow>
         py_then (py_guard (se_kind r \<noteq> RESEARCH) (KeyError sid))
         (case se_participant_id r of
            None \<Rightarrow> py_raise (KeyError sid)
          | Some pid \<Rightarrow>
              mutation digest env sid key (''withdraw-'' @ pid) (''research-withdraw:'' @ pid)
                [(''participant_id'', JStr pid), (''participant_pseudonym'', JStr (rs_participant_pseudonym view))]
                (withdraw_operation env sid pid (rs_participant_pseudonym view)))))"

definition withdrawal_status :: "string \<Rightarrow> ('m m1_backend_scheme, pydict) pyop" where
  "withdrawal_status sid =
     py_bind (research_session sid) (\<lambda>view.
     py_bind (db_get (\<lambda>db. research_join db sid)) (\<lambda>row.
     case row of
       None \<Rightarrow> py_raise (KeyError sid)
     | Some (r, p) \<Rightarrow>
         py_then (py_guard (se_kind r \<noteq> RESEARCH) (KeyError sid))
        (py_bind (db_get (\<lambda>db. find_receipt db (pa_id p))) (\<lambda>receipt.
         case receipt of
           Some w \<Rightarrow>
             (case wr_response w of
                JObj d \<Rightarrow> py_ret d
              | _ \<Rightarrow> py_raise (SchemaIntegrityError ''withdrawal canonical response is malformed''))
         | None \<Rightarrow>
             py_bind (db_get (\<lambda>db. task_count db (pa_id p))) (\<lambda>count.
             py_ret [(''schema_version'', JInt 1), (''withdrawal_receipt_id'', JNull),
               (''participant_pseudonym'', JStr (rs_participant_pseudonym view)), (''terminal'', JBool False),
               (''task_count'', JInt (int count))])))))"

section \<open>Write intents and recovery\<close>

text \<open>
  The lexical part of \<open>_partial_file\<close>: the path, with backslashes read as slashes, has at least three
  segments, begins with \<open>staging/partials\<close> and has no empty or dot segment. \<open>is_absolute\<close> is
  \<open>Path(value).is_absolute()\<close>; \<open>fs\<close> is what the file system says about the path after that: the
  resolved path relative to the root, or the exception.
\<close>

fun split_on :: "char \<Rightarrow> string \<Rightarrow> string \<Rightarrow> string list" where
  "split_on c acc [] = [rev acc]"
| "split_on c acc (x # xs) = (if x = c then rev acc # split_on c [] xs else split_on c (x # acc) xs)"

definition path_segments :: "string \<Rightarrow> string list" where
  "path_segments value = split_on CHR ''/'' [] (map (\<lambda>c. if c = CHR 0x5C then CHR ''/'' else c) value)"

definition partial_path_ok :: "(string \<Rightarrow> bool) \<Rightarrow> string \<Rightarrow> bool" where
  "partial_path_ok is_absolute value \<longleftrightarrow>
     \<not> is_absolute value \<and> 3 \<le> length (path_segments value) \<and>
     take 2 (path_segments value) = [''staging'', ''partials''] \<and>
     list_all (\<lambda>seg. seg \<notin> {[], ''.'', ''..''}) (path_segments value)"

definition partial_file :: "(string \<Rightarrow> bool) \<Rightarrow> (string \<Rightarrow> py_error + string) \<Rightarrow> string \<Rightarrow> py_error + string" where
  "partial_file is_absolute fs value =
     (if \<not> partial_path_ok is_absolute value
      then Inl (InvalidTransition ''Write intent must name a file within staging/partials'')
      else fs value)"

definition create_write_intent :: "(string \<Rightarrow> bool) \<Rightarrow> (string \<Rightarrow> py_error + string) \<Rightarrow> py_env \<Rightarrow> string \<Rightarrow> string \<Rightarrow>
    ('m m1_backend_scheme, unit) pyop" where
  "create_write_intent is_absolute fs env sid path =
     py_then (mutable_research sid)
    (py_bind (py_lift (partial_file is_absolute fs path)) (\<lambda>safe.
     transaction
       (py_then (db_op (require_mutable_research sid))
       (py_bind (token_urlsafe env 8) (\<lambda>tok.
        py_bind (read_clock env) (\<lambda>now.
        db_op (insert_intent \<lparr>wi_id = ''intent-'' @ tok, wi_session_id = sid, wi_path = safe, wi_status = INTENT_PENDING\<rparr> now)))))))"

text \<open>
  The transaction of \<open>_recover_pending_intents\<close> for one row, and the loop. \<open>move id path\<close> is the outcome
  of moving the partial file to quarantine: \<open>None\<close>, or the exception; an \<open>InvalidTransition\<close> is passed over.
\<close>

definition recover_intent_tx :: "intent_row \<Rightarrow> ('m m1_backend_scheme, unit) pyop" where
  "recover_intent_tx w = transaction
     (py_then (db_op (py_mod (\<lambda>db. db\<lparr>db_intents :=
         update_where (\<lambda>i. wi_id i = wi_id w) (\<lambda>i. i\<lparr>wi_status := INTENT_QUARANTINED\<rparr>) (db_intents db)\<rparr>)))
     (py_bind (db_get (\<lambda>db. find_session db (wi_session_id w))) (\<lambda>found.
      case found of
        None \<Rightarrow> py_raise (SchemaIntegrityError ''pending write intent session is missing'')
      | Some r \<Rightarrow>
          py_bind (db_get (\<lambda>db. session_participant db r)) (\<lambda>p.
          let recovered = (if se_state r = WITHDRAWN \<or> (case p of None \<Rightarrow> False | Some q \<Rightarrow> pa_withdrawn_at q \<noteq> None)
                           then WITHDRAWN else FAILED)
          in db_op (py_mod (update_sessions (\<lambda>x. se_id x = wi_session_id w)
               (\<lambda>x. x\<lparr>se_state := recovered, se_collection_blocked := True\<rparr>)))))))"

definition recover_intent :: "(string \<Rightarrow> string \<Rightarrow> py_error option) \<Rightarrow> intent_row \<Rightarrow> ('m m1_backend_scheme, unit) pyop" where
  "recover_intent move w =
     (case move (wi_id w) (wi_path w) of
        None \<Rightarrow> recover_intent_tx w
      | Some (InvalidTransition _) \<Rightarrow> recover_intent_tx w
      | Some e \<Rightarrow> py_raise e)"

definition recover_pending_intents :: "(string \<Rightarrow> string \<Rightarrow> py_error option) \<Rightarrow> ('m m1_backend_scheme, unit) pyop" where
  "recover_pending_intents move = py_then require_open
    (py_bind (db_get (\<lambda>db. filter (\<lambda>w. wi_status w = INTENT_PENDING) (db_intents db))) (\<lambda>rows.
     py_for rows (recover_intent move)))"

text \<open>The constructor on an opened store.\<close>

definition m1_start :: "(string \<Rightarrow> string \<Rightarrow> py_error option) \<Rightarrow> py_env \<Rightarrow> string \<Rightarrow> string \<Rightarrow> ('m m1_backend_scheme, unit) pyop" where
  "m1_start move env encryption acl =
     py_then (transaction (py_bind (read_clock env) (\<lambda>now.
        db_op (replace_storage_root \<lparr>sr_id = ''active'', sr_encryption_status = encryption, sr_acl_status = acl\<rparr> now))))
     (recover_pending_intents move)"

end
