(* ===== verification/M1_Changes.thy ===== *)
theory M1_Changes
  imports M1_Backend
begin

text \<open>
  What the operations of the research workspace do to the tables, as an abstract step relation:
  \<open>db_change\<close> lists the guarded changes, every operation refines a sequence of them (or none, when it
  raises), and the invariants of the database are proved by induction on the relation.
\<close>

named_theorems effect_intros \<open>rules for the table changes of an operation that returns\<close>

section \<open>The withdrawal closure is the set of derived artifacts\<close>

definition derives :: "dependency_row list \<Rightarrow> (string \<times> string) set" where
  "derives edges = (\<lambda>d. (dp_parent d, dp_child d)) ` set edges"

lemma set_lineage_step: "set (lineage_step edges ids) = set ids \<union> derives edges `` set ids"
  by (auto simp: lineage_step_def derives_def image_iff)

lemma lineage_step_mono: "set ids \<subseteq> set ((lineage_step edges ^^ n) ids)"
  by (induction n) (auto simp: set_lineage_step)

lemma lineage_step_sound: "set ((lineage_step edges ^^ n) ids) \<subseteq> (derives edges)\<^sup>* `` set ids"
proof (induction n)
  case (Suc n)
  have "derives edges `` ((derives edges)\<^sup>* `` set ids) \<subseteq> (derives edges)\<^sup>* `` set ids"
    by (auto intro: rtrancl_into_rtrancl)
  with Suc show ?case by (simp add: set_lineage_step) blast
qed auto

definition closed_under :: "(string \<times> string) set \<Rightarrow> string set \<Rightarrow> bool" where
  "closed_under E S \<longleftrightarrow> E `` S \<subseteq> S"

lemma closed_rtrancl: "closed_under E S \<Longrightarrow> R \<subseteq> S \<Longrightarrow> E\<^sup>* `` R \<subseteq> S"
proof
  fix x assume "closed_under E S" "R \<subseteq> S" "x \<in> E\<^sup>* `` R"
  then obtain r where "r \<in> S" "(r, x) \<in> E\<^sup>*" by auto
  from this(2,1) show "x \<in> S"
    by (induction rule: rtrancl_induct) (use \<open>closed_under E S\<close> in \<open>auto simp: closed_under_def\<close>)
qed

lemma lineage_progress:
  "closed_under (derives edges) (set ((lineage_step edges ^^ n) ids)) \<or>
   card (dp_child ` set edges - set ((lineage_step edges ^^ n) ids)) + n \<le> card (dp_child ` set edges)"
proof (induction n)
  case 0
  show ?case by (simp add: card_mono)
next
  case (Suc n)
  let ?S = "set ((lineage_step edges ^^ n) ids)" and ?C = "dp_child ` set edges"
  let ?T = "set ((lineage_step edges ^^ Suc n) ids)"
  have T: "?T = ?S \<union> derives edges `` ?S" by (simp add: set_lineage_step)
  show ?case
  proof (cases "closed_under (derives edges) ?S")
    case True
    then have "?T = ?S" using T by (auto simp: closed_under_def)
    with True show ?thesis by simp
  next
    case False
    then obtain c where "c \<in> derives edges `` ?S" "c \<notin> ?S" by (auto simp: closed_under_def)
    moreover have "derives edges `` ?S \<subseteq> ?C" by (auto simp: derives_def)
    ultimately have "?C - ?T \<subset> ?C - ?S" using T by auto
    then have "card (?C - ?T) < card (?C - ?S)" by (simp add: psubset_card_mono)
    with Suc False show ?thesis by simp
  qed
qed

lemma lineage_rounds_enough:
  "set ((lineage_step edges ^^ length edges) ids) = (derives edges)\<^sup>* `` set ids"
proof -
  let ?S = "set ((lineage_step edges ^^ length edges) ids)"
  have "card (dp_child ` set edges) \<le> length edges"
    by (metis card_image_le card_length finite_set le_trans)
  then have "closed_under (derives edges) ?S \<or> card (dp_child ` set edges - ?S) = 0"
    using lineage_progress [of edges "length edges" ids] by linarith
  moreover have "derives edges `` X \<subseteq> dp_child ` set edges" for X by (auto simp: derives_def)
  ultimately have "closed_under (derives edges) ?S" by (fastforce simp: closed_under_def)
  then show ?thesis
    using lineage_step_mono [of ids "length edges" edges] lineage_step_sound closed_rtrancl by blast
qed

definition roots_of :: "m1_db \<Rightarrow> string \<Rightarrow> string set" where
  "roots_of db pid = ar_id ` {a \<in> set (db_artifacts db).
     ar_session_id a \<in> se_id ` {r \<in> set (db_sessions db). se_participant_id r = Some pid}}"

theorem lineage_is_closure:
  "set (lineage_of db pid) = (derives (db_dependencies db))\<^sup>* `` roots_of db pid"
proof -
  have "set (remdups (map ar_id (filter (\<lambda>a. ar_session_id a \<in> set (participant_sessions db pid)) (db_artifacts db))))
      = roots_of db pid"
    by (simp add: roots_of_def participant_sessions_def)
  then show ?thesis unfolding lineage_of_def lineage_rounds_enough by simp
qed

section \<open>The changes\<close>

text \<open>All records of a participant are withdrawn and everything derived from them is invalidated.\<close>

definition withdrawn_closed :: "m1_db \<Rightarrow> string \<Rightarrow> bool" where
  "withdrawn_closed db pid \<longleftrightarrow>
     (\<forall>p \<in> set (db_participants db). pa_id p = pid \<longrightarrow> pa_withdrawn_at p \<noteq> None) \<and>
     (\<forall>r \<in> set (db_sessions db). se_participant_id r = Some pid \<longrightarrow> se_state r = WITHDRAWN \<and> se_collection_blocked r) \<and>
     (\<forall>a \<in> set (db_artifacts db). ar_id a \<in> set (lineage_of db pid) \<longrightarrow> ar_status a = INVALIDATED)"

definition has_receipt :: "m1_db \<Rightarrow> string \<Rightarrow> bool" where
  "has_receipt db pid \<longleftrightarrow> pid \<in> wr_participant_id ` set (db_receipts db)"

inductive db_change :: "m1_db \<Rightarrow> m1_db \<Rightarrow> bool" where
  study: "insert_study r t db = (Inr (), db') \<Longrightarrow> db_change db db'"
| participant: "insert_participant r t db = (Inr (), db') \<Longrightarrow> pa_withdrawn_at r = None \<Longrightarrow> db_change db db'"
| demo: "insert_session (new_session_row sid DEMO d) t db = (Inr (), db') \<Longrightarrow> db_change db db'"
| research: "insert_session ((new_session_row sid RESEARCH d)\<lparr>se_study_id := Some st, se_participant_id := Some pid\<rparr>) t db = (Inr (), db') \<Longrightarrow>
    p \<in> set (db_participants db) \<Longrightarrow> pa_id p = pid \<Longrightarrow> pa_withdrawn_at p = None \<Longrightarrow> db_change db db'"
| retention: "insert_retention r t db = (Inr (), db') \<Longrightarrow> db_change db db'"
| consent: "replace_consent r t db = (Inr (), db') \<Longrightarrow> db_change db db'"
| sroot: "replace_storage_root r t db = (Inr (), db') \<Longrightarrow> db_change db db'"
| attempt: "insert_attempt r t db = (Inr (), db') \<Longrightarrow> db_change db db'"
| answer: "insert_answer r t db = (Inr (), db') \<Longrightarrow> db_change db db'"
| event: "db_append_event t sid k p db = (Inr e, db') \<Longrightarrow> db_change db db'"
| idempotency: "insert_idempotency r t db = (Inr (), db') \<Longrightarrow>
    (\<And>pid. id_scope r = ''research-withdraw:'' @ pid \<Longrightarrow> has_receipt db pid) \<Longrightarrow> db_change db db'"
| audit: "insert_audit r t db = (Inr (), db') \<Longrightarrow> db_change db db'"
| intent: "insert_intent r t db = (Inr (), db') \<Longrightarrow> db_change db db'"
| submitted: "db_change db (update_sessions (\<lambda>r. se_id r = sid) (\<lambda>r. r\<lparr>se_submitted := True\<rparr>) db)"
| action: "find_session db sid = Some row \<Longrightarrow> se_kind row \<noteq> RESEARCH \<Longrightarrow> transition (se_state row) a = Inr st \<Longrightarrow>
    db_change db (update_sessions (\<lambda>r. se_id r = sid \<and> se_state r = se_state row)
      (\<lambda>r. r\<lparr>se_state := st, se_started_at := x\<rparr>) db)"
| confirm: "db_change db (update_sessions (\<lambda>r. se_id r = sid \<and> se_state r = DRAFT) (\<lambda>r. r\<lparr>se_state := CONSENT_CONFIRMED\<rparr>) db)"
| artifact: "insert_artifact \<lparr>ar_id = aid, ar_session_id = sid, ar_status = VALID\<rparr> t db = (Inr (), db') \<Longrightarrow>
    find_session db sid = Some r \<Longrightarrow> se_state r \<noteq> WITHDRAWN \<Longrightarrow> db_change db db'"
| dependency: "insert_dependency d db = (Inr (), db') \<Longrightarrow> \<not> parent_refused db (dp_parent d) \<Longrightarrow> db_change db db'"
| mark: "db_change db (mark_withdrawn pid t1 t2 db)"
| invalidate: "db_change db (db\<lparr>db_artifacts :=
    update_where (\<lambda>a. ar_id a = aid) (\<lambda>a. a\<lparr>ar_status := INVALIDATED\<rparr>) (db_artifacts db)\<rparr>)"
| task: "insert_or_ignore_task w t db = (Inr (), db') \<Longrightarrow> db_change db db'"
| receipt: "insert_receipt w t db = (Inr (), db') \<Longrightarrow> withdrawn_closed db (wr_participant_id w) \<Longrightarrow> db_change db db'"
| quarantine: "db_change db (db\<lparr>db_intents :=
    update_where (\<lambda>i. wi_id i = iid) (\<lambda>i. i\<lparr>wi_status := INTENT_QUARANTINED\<rparr>) (db_intents db)\<rparr>)"
| recover: "find_session db sid = Some r \<Longrightarrow>
    st = (if se_state r = WITHDRAWN \<or> (case session_participant db r of None \<Rightarrow> False | Some q \<Rightarrow> pa_withdrawn_at q \<noteq> None)
          then WITHDRAWN else FAILED) \<Longrightarrow>
    db_change db (update_sessions (\<lambda>x. se_id x = sid) (\<lambda>x. x\<lparr>se_state := st, se_collection_blocked := True\<rparr>) db)"

section \<open>Operations refine the changes\<close>

text \<open>
  \<open>effect m\<close>: when \<open>m\<close> returns, it has made a sequence of changes. \<open>safe m\<close>: also when it raises.
\<close>

definition effect :: "(m1_backend, 'a) pyop \<Rightarrow> bool" where
  "effect m \<longleftrightarrow> (\<forall>s x s'. m s = (Inr x, s') \<longrightarrow> db_change\<^sup>*\<^sup>* (m1_db s) (m1_db s'))"

definition safe :: "(m1_backend, 'a) pyop \<Rightarrow> bool" where
  "safe m \<longleftrightarrow> (\<forall>D. keeps (\<lambda>s. db_change\<^sup>*\<^sup>* D (m1_db s)) m)"

lemma safeI: "(\<And>D. keeps (\<lambda>s. db_change\<^sup>*\<^sup>* D (m1_db s)) m) \<Longrightarrow> safe m"
  by (simp add: safe_def)

lemma safeD: "safe m \<Longrightarrow> db_change\<^sup>*\<^sup>* (m1_db s) (m1_db (snd (m s)))"
proof -
  assume "safe m"
  then have "keeps (\<lambda>z. db_change\<^sup>*\<^sup>* (m1_db s) (m1_db z)) m" by (simp add: safe_def)
  from keepsD [OF this, of s] show ?thesis by simp
qed

lemma effectI: "(\<And>s x s'. m s = (Inr x, s') \<Longrightarrow> db_change\<^sup>*\<^sup>* (m1_db s) (m1_db s')) \<Longrightarrow> effect m"
  by (simp add: effect_def)

lemma effectD: "effect m \<Longrightarrow> m s = (Inr x, s') \<Longrightarrow> db_change\<^sup>*\<^sup>* (m1_db s) (m1_db s')"
  by (simp add: effect_def)

lemma effect_bind [effect_intros]: "effect m \<Longrightarrow> (\<And>x. effect (f x)) \<Longrightarrow> effect (py_bind m f)"
  by (fastforce simp: effect_def py_bind_Inr_iff intro: rtranclp_trans)

lemma effect_then [effect_intros]: "effect m \<Longrightarrow> effect k \<Longrightarrow> effect (py_then m k)"
  by (simp add: py_then_def effect_bind)

lemma effect_for [effect_intros]: "(\<And>x. effect (body x)) \<Longrightarrow> effect (py_for xs body)"
proof (induction xs)
  case Nil
  show ?case by (simp add: effect_def py_ret_def)
next
  case (Cons x xs)
  then show ?case by (simp add: effect_then)
qed

lemma effect_basic [effect_intros]:
  "effect (py_ret x)" "effect (py_raise e)" "effect (py_lift r)" "effect (py_get g)" "effect (py_guard b e)"
  "effect (db_get h)" "effect (read_clock env)" "effect (token_urlsafe env n)" "effect require_open"
  by (auto simp: effect_def py_run db_get_def require_open_def)

lemma effect_cases [effect_intros]:
  "(b \<Longrightarrow> effect m) \<Longrightarrow> (\<not> b \<Longrightarrow> effect k) \<Longrightarrow> effect (if b then m else k)"
  "(x = None \<Longrightarrow> effect m) \<Longrightarrow> (\<And>y. x = Some y \<Longrightarrow> effect (f y)) \<Longrightarrow> effect (case x of None \<Rightarrow> m | Some y \<Rightarrow> f y)"
  "(\<And>a b. z = (a, b) \<Longrightarrow> effect (g a b)) \<Longrightarrow> effect (case z of (a, b) \<Rightarrow> g a b)"
  "(\<And>y. y = u \<Longrightarrow> effect (h y)) \<Longrightarrow> effect (let y = u in h y)"
  by (auto split: option.split prod.split)

lemma db_op_Inr: "db_op m s = (Inr x, s') \<longleftrightarrow> (\<exists>db'. m (m1_db s) = (Inr x, db') \<and> s' = s\<lparr>m1_db := db'\<rparr>)"
  by (auto simp: db_op_def split: prod.splits)

lemma effect_db_op: "(\<And>db x db'. m db = (Inr x, db') \<Longrightarrow> db_change db db') \<Longrightarrow> effect (db_op m)"
  by (auto simp: effect_def db_op_Inr)

lemma effect_db_op_unit: "(\<And>db db'. m db = (Inr (), db') \<Longrightarrow> db_change db db') \<Longrightarrow> effect (db_op m)"
  by (rule effect_db_op) simp

lemma effect_db_read: "(\<And>db x db'. m db = (Inr x, db') \<Longrightarrow> db' = db) \<Longrightarrow> effect (db_op m)"
  by (fastforce simp: effect_def db_op_Inr)

lemma effect_statements [effect_intros]:
  "effect (db_op (insert_study r t))" "effect (db_op (insert_retention rt t))" "effect (db_op (replace_consent co t))"
  "effect (db_op (replace_storage_root sr t))" "effect (db_op (insert_attempt at' t))" "effect (db_op (insert_answer an t))"
  "effect (db_op (insert_audit au t))" "effect (db_op (insert_intent wi t))"
  "effect (db_op (insert_or_ignore_task w t))"
  "effect (db_op (insert_session (new_session_row sid DEMO d) t))"
  "effect (db_op (insert_participant \<lparr>pa_id = pid, pa_study_id = st, pa_pseudonym = ps, pa_withdrawn_at = None\<rparr> t))"
  by (rule effect_db_op_unit, erule db_change.intros; simp)+

lemma effect_event [effect_intros]: "effect (db_op (db_append_event t sid k p))"
  by (rule effect_db_op) (rule db_change.event)

lemma effect_updates [effect_intros]:
  "effect (db_op (py_mod (update_sessions (\<lambda>r. se_id r = sid) (\<lambda>r. r\<lparr>se_submitted := True\<rparr>))))"
  "effect (db_op (py_mod (update_sessions (\<lambda>r. se_id r = sid \<and> se_state r = DRAFT) (\<lambda>r. r\<lparr>se_state := CONSENT_CONFIRMED\<rparr>))))"
  "effect (db_op (py_mod (mark_withdrawn pid t1 t2)))"
  "effect (db_op (py_mod (\<lambda>db. db\<lparr>db_artifacts :=
        update_where (\<lambda>a. ar_id a = aid) (\<lambda>a. a\<lparr>ar_status := INVALIDATED\<rparr>) (db_artifacts db)\<rparr>)))"
  "effect (db_op (py_mod (\<lambda>db. db\<lparr>db_intents :=
         update_where (\<lambda>i. wi_id i = iid) (\<lambda>i. i\<lparr>wi_status := INTENT_QUARANTINED\<rparr>) (db_intents db)\<rparr>)))"
  by (rule effect_db_op_unit; auto simp: py_mod_def intro: db_change.intros)+

lemma require_mutable_Inr:
  "require_mutable_research sid db = (Inr u, db') \<Longrightarrow> db' = db \<and> (\<exists>r p. research_join db sid = Some (r, p) \<and>
     se_kind r = RESEARCH \<and> pa_withdrawn_at p = None \<and> se_state r \<noteq> WITHDRAWN \<and> \<not> se_collection_blocked r)"
  by (auto simp: require_mutable_research_def py_Inr_iffs split: option.splits)

lemma effect_require [effect_intros]: "effect (db_op (require_mutable_research sid))"
  by (rule effect_db_read) (use require_mutable_Inr in blast)

lemma effect_m1_event [effect_intros]: "effect (m1_event env sid k p)"
  unfolding m1_event_def by (intro effect_intros)

lemma safe_transaction: "effect m \<Longrightarrow> safe (transaction m)"
  by (fastforce simp: safe_def keeps_def transaction_def effect_def intro: rtranclp_trans
      split: prod.splits sum.splits)

lemma effect_safe: "safe m \<Longrightarrow> effect m"
  unfolding effect_def by (metis safeD snd_conv)

lemma safe_bind: "safe m \<Longrightarrow> (\<And>x. safe (f x)) \<Longrightarrow> safe (py_bind m f)"
  by (simp add: safe_def keeps_bind)

lemma safe_then: "safe m \<Longrightarrow> safe k \<Longrightarrow> safe (py_then m k)"
  by (simp add: safe_def keeps_then)

lemma safe_basic:
  "safe (py_ret x)" "safe (py_raise e)" "safe (py_lift r)" "safe (py_get g)" "safe (py_guard b e)"
  "safe (db_get h)" "safe (read_clock env)" "safe (token_urlsafe env n)" "safe require_open"
  by (auto simp: safe_def keeps_def py_run db_get_def require_open_def)

lemma safe_for: "(\<And>x. safe (body x)) \<Longrightarrow> safe (py_for xs body)"
  by (simp add: safe_def keeps_for)

lemma safe_cases:
  "(b \<Longrightarrow> safe m) \<Longrightarrow> (\<not> b \<Longrightarrow> safe k) \<Longrightarrow> safe (if b then m else k)"
  "(x = None \<Longrightarrow> safe m) \<Longrightarrow> (\<And>y. x = Some y \<Longrightarrow> safe (f y)) \<Longrightarrow> safe (case x of None \<Rightarrow> m | Some y \<Rightarrow> f y)"
  "(\<And>a b. z = (a, b) \<Longrightarrow> safe (g a b)) \<Longrightarrow> safe (case z of (a, b) \<Rightarrow> g a b)"
  "(\<And>y. y = u \<Longrightarrow> safe (h y)) \<Longrightarrow> safe (let y = u in h y)"
  by (auto split: option.split prod.split)

lemma fanout_m1_db [simp]: "m1_db (fanout sid e s) = m1_db s"
proof -
  have "m1_db (fold (put_nowait e) qs s) = m1_db s" for qs
    by (induction qs arbitrary: s) (auto simp: put_nowait_def Let_def)
  then show ?thesis by (simp add: fanout_def)
qed

lemma safe_publish: "safe (publish sid e)"
  by (auto simp: safe_def keeps_def publish_def py_run split: option.split)

lemmas safe_intros = safe_bind safe_then safe_basic safe_for safe_cases safe_publish safe_transaction

subsection \<open>Mutations\<close>

lemma safe_mutate:
  assumes "effect operation"
    and "\<And>s x s' pid. operation s = (Inr x, s') \<Longrightarrow> scope = ''research-withdraw:'' @ pid \<Longrightarrow> has_receipt (m1_db s') pid"
  shows "safe (mutate digest env scope key payload operation)"
proof -
  have op: "effect (py_bind operation (\<lambda>(response, event). py_bind (read_clock env) (\<lambda>now.
      py_then (db_op (insert_idempotency \<lparr>id_scope = scope, id_key = key, id_request_hash = digest payload,
          id_response = JObj response\<rparr> now)) (py_ret (response, event)))))" (is "effect ?body")
  proof (rule effectI)
    fix s x s' assume "?body s = (Inr x, s')"
    then obtain y s1 db' where o: "operation s = (Inr y, s1)"
      and i: "insert_idempotency \<lparr>id_scope = scope, id_key = key, id_request_hash = digest payload,
        id_response = JObj (fst y)\<rparr> (env_clock env (clock_reads s1)) (m1_db s1) = (Inr (), db')" and s': "m1_db s' = db'"
      by (auto simp: py_Inr_iffs db_op_Inr read_clock_def split: prod.splits)
    have "db_change (m1_db s1) db'" using i assms(2) [OF o] by (intro db_change.idempotency [OF i]) auto
    with effectD [OF assms(1) o] s' show "db_change\<^sup>*\<^sup>* (m1_db s) (m1_db s')" by simp
  qed
  have replay: "effect (case id_response row of JObj d \<Rightarrow> py_ret (d, None) |
      _ \<Rightarrow> py_raise (SchemaIntegrityError ''idempotency response is malformed''))" for row
    by (auto intro: effect_intros split: json.split)
  show ?thesis
    unfolding mutate_def by (rule safe_transaction op replay effect_bind effect_basic effect_cases)+
qed

lemma safe_mutation:
  assumes "effect operation"
    and "\<And>s x s' pid. operation s = (Inr x, s') \<Longrightarrow> scope = ''research-withdraw:'' @ pid \<Longrightarrow> has_receipt (m1_db s') pid"
  shows "safe (mutation digest env sid key fallback scope payload operation)"
  unfolding mutation_def by (intro safe_intros safe_mutate assms)

lemma effect_answer [effect_intros]: "effect (answer_operation env sid payload)"
  unfolding answer_operation_def
  by (auto intro!: effect_intros split: option.split)

lemma effect_submit [effect_intros]: "effect (submit_operation env sid)"
  unfolding submit_operation_def by (intro effect_intros)

lemma effect_study [effect_intros]: "effect (study_operation env code)"
  unfolding study_operation_def by (intro effect_intros)

lemma effect_participant [effect_intros]: "effect (participant_operation env study_id)"
  unfolding participant_operation_def by (intro effect_intros)

lemma effect_consent [effect_intros]: "effect (consent_operation env sid receipt_id version)"
  unfolding consent_operation_def by (intro effect_intros)

lemma find_SomeD: "find P xs = Some x \<Longrightarrow> x \<in> set xs \<and> P x"
  by (auto simp: find_Some_iff)

lemma effect_research [effect_intros]: "effect (research_session_operation env study_id pid decision)"
proof (rule effectI)
  fix s x s' assume "research_session_operation env study_id pid decision s = (Inr x, s')"
  then obtain p sid d t db1 rr t' db2 where p: "find (\<lambda>p. pa_id p = pid \<and> pa_study_id p = study_id) (db_participants (m1_db s)) = Some p"
    "pa_withdrawn_at p = None"
    and i: "insert_session ((new_session_row sid RESEARCH d)\<lparr>se_study_id := Some study_id, se_participant_id := Some pid\<rparr>) t (m1_db s) = (Inr (), db1)"
    and r: "insert_retention rr t' db1 = (Inr (), db2)" and s': "m1_db s' = db2"
    by (auto simp: research_session_operation_def py_Inr_iffs db_op_Inr db_get_def read_clock_def token_urlsafe_def Let_def
        split: option.splits)
  have "db_change (m1_db s) db1" using db_change.research [OF i _ _ p(2)] find_SomeD [OF p(1)] by auto
  moreover have "db_change db1 db2" using r by (rule db_change.retention)
  ultimately show "db_change\<^sup>*\<^sup>* (m1_db s) (m1_db s')" using s' by auto
qed

lemma action_write_changes:
  assumes "session_action_write env sid row st started z = (Inr x, z')" and "find_session (m1_db z) sid = Some row"
    and "se_kind row \<noteq> RESEARCH" and "transition (se_state row) a = Inr st"
  shows "db_change\<^sup>*\<^sup>* (m1_db z) (m1_db (z' :: m1_backend))"
proof (cases "st = se_state row")
  case True
  with assms(1) show ?thesis by (simp add: session_action_write_def py_ret_def)
next
  case False
  let ?hit = "\<lambda>r. se_id r = sid \<and> se_state r = se_state row"
  define y where "y = (case started of None \<Rightarrow> None | Some when \<Rightarrow> sql_real when)"
  from False assms(1) obtain e z2 where
    "m1_event env sid ''SessionStateChanged'' [(''state'', JStr (session_state_str st))]
      (z\<lparr>m1_db := update_sessions ?hit (\<lambda>r. r\<lparr>se_state := st, se_started_at := y\<rparr>) (m1_db z)\<rparr>) = (Inr e, z')"
    by (auto simp: session_action_write_def Let_def py_Inr_iffs db_get_def db_op_Inr y_def)
  from effectD [OF effect_m1_event this] show ?thesis
    using db_change.action [OF assms(2-4), of y] by (simp add: converse_rtranclp_into_rtranclp)
qed

lemma effect_action [effect_intros]: "effect (session_action_tx env sid a)"
proof (rule effectI)
  fix s s' :: m1_backend and x
  assume run: "session_action_tx env sid a s = (Inr x, s')"
  show "db_change\<^sup>*\<^sup>* (m1_db s) (m1_db s')"
  proof (cases "find_session (m1_db s) sid")
    case None
    with run show ?thesis by (simp add: session_action_tx_def py_Inr_iffs db_get_def)
  next
    case (Some row)
    have W: "db_change\<^sup>*\<^sup>* (m1_db s) (m1_db s')"
      if "session_action_write env sid row st started z = (Inr e, s')" "m1_db z = m1_db s" "se_kind row \<noteq> RESEARCH"
        "transition (se_state row) a = Inr st" for st started z e
      using action_write_changes [OF that(1) _ that(3,4)] Some that(2) by simp
    show ?thesis
      using run Some
      by (auto simp: session_action_tx_def py_Inr_iffs db_get_def py_lift_def read_clock_def
          split: if_splits option.splits intro: W)
  qed
qed

subsection \<open>Artifacts\<close>

lemma require_valid_Inr:
  "require_valid_parents ps db = (Inr u, db') \<Longrightarrow> db' = db \<and> (\<forall>p \<in> set ps. \<not> parent_refused db p)"
  unfolding require_valid_parents_def
  by (induction ps arbitrary: u) (auto simp: py_Inr_iffs)

lemma db_insert_Inr: "db_insert ok f db = (Inr u, db') \<longleftrightarrow> ok db \<and> db' = f db"
  by (auto simp: db_insert_def)

lemma find_append_Some: "find P xs = Some x \<Longrightarrow> find P (xs @ ys) = Some x"
  by (induction xs) (auto split: if_splits)

lemma find_append_None: "find P xs = None \<Longrightarrow> find P (xs @ ys) = find P ys"
  by (induction xs) (auto split: if_splits)

lemma parent_refused_artifact:
  "insert_artifact a t db = (Inr (), db') \<Longrightarrow> \<not> parent_refused db p \<Longrightarrow> \<not> parent_refused db' p"
  by (auto simp: insert_artifact_def db_insert_Inr parent_refused_def find_artifact_def find_session_def
      session_participant_def find_participant_def find_append_Some split: option.splits)

lemma parent_refused_dependency:
  "insert_dependency d db = (Inr (), db') \<Longrightarrow> parent_refused db' p = parent_refused db p"
  by (auto simp: insert_dependency_def db_insert_Inr parent_refused_def find_artifact_def find_session_def
      session_participant_def find_participant_def split: option.splits)

lemma dependencies_changes:
  assumes "py_for ps (\<lambda>parent. db_op (insert_dependency \<lparr>dp_parent = parent, dp_child = aid\<rparr>)) s = (Inr u, s')"
    and "\<forall>p \<in> set ps. \<not> parent_refused (m1_db s) p"
  shows "db_change\<^sup>*\<^sup>* (m1_db s) (m1_db (s' :: m1_backend))"
  using assms
proof (induction ps arbitrary: s u)
  case (Cons p ps)
  then obtain db1 where i: "insert_dependency \<lparr>dp_parent = p, dp_child = aid\<rparr> (m1_db s) = (Inr (), db1)"
    and rest: "py_for ps (\<lambda>parent. db_op (insert_dependency \<lparr>dp_parent = parent, dp_child = aid\<rparr>)) (s\<lparr>m1_db := db1\<rparr>) = (Inr u, s')"
    by (auto simp: py_then_Inr_iff db_op_Inr)
  have "db_change (m1_db s) db1" using i Cons.prems(2) by (intro db_change.dependency [OF i]) auto
  moreover have "db_change\<^sup>*\<^sup>* db1 (m1_db s')"
    using Cons.IH [OF rest] Cons.prems(2) parent_refused_dependency [OF i] by simp
  ultimately show ?case by (rule converse_rtranclp_into_rtranclp)
qed (simp add: py_ret_def)

lemma safe_register_artifact: "safe (register_artifact env aid sid parents)"
proof -
  have body: "effect (py_then (db_op (require_mutable_research sid))
       (py_then (db_op (require_valid_parents parents))
       (py_bind (read_clock env) (\<lambda>now.
        py_then (db_op (insert_artifact \<lparr>ar_id = aid, ar_session_id = sid, ar_status = VALID\<rparr> now))
        (py_for parents (\<lambda>parent. db_op (insert_dependency \<lparr>dp_parent = parent, dp_child = aid\<rparr>)))))))" (is "effect ?m")
  proof (rule effectI)
    fix s s' :: m1_backend and u assume "?m s = (Inr u, s')"
    then obtain db1 where m: "require_mutable_research sid (m1_db s) = (Inr (), m1_db s)"
      and v: "require_valid_parents parents (m1_db s) = (Inr (), m1_db s)"
      and i: "insert_artifact \<lparr>ar_id = aid, ar_session_id = sid, ar_status = VALID\<rparr> (env_clock env (clock_reads s)) (m1_db s) = (Inr (), db1)"
      and f: "py_for parents (\<lambda>parent. db_op (insert_dependency \<lparr>dp_parent = parent, dp_child = aid\<rparr>))
          (s\<lparr>clock_reads := Suc (clock_reads s), m1_db := db1\<rparr>) = (Inr u, s')"
      by (auto simp: py_Inr_iffs db_op_Inr read_clock_def dest: require_mutable_Inr require_valid_Inr)
        (metis (no_types, lifting) require_mutable_Inr require_valid_Inr)
    obtain r where "find_session (m1_db s) sid = Some r" "se_state r \<noteq> WITHDRAWN"
      using require_mutable_Inr [OF m] by (auto simp: research_join_def split: option.splits)
    with i have "db_change (m1_db s) db1" by (rule db_change.artifact)
    moreover have "db_change\<^sup>*\<^sup>* db1 (m1_db s')"
      using dependencies_changes [OF f] require_valid_Inr [OF v] parent_refused_artifact [OF i] by simp
    ultimately show "db_change\<^sup>*\<^sup>* (m1_db s) (m1_db s')" by (rule converse_rtranclp_into_rtranclp)
  qed
  have "safe (mutable_research sid)"
    by (auto simp: safe_def keeps_def mutable_research_def py_run require_open_def db_op_def require_mutable_research_def
        split: option.splits prod.splits)
  with body show ?thesis unfolding register_artifact_def by (intro safe_then safe_transaction)
qed

lemma safe_add_dependency: "safe (m1_add_dependency parent child)"
proof -
  have "db_change\<^sup>*\<^sup>* db (snd (add_dependency parent child db))" for db
  proof (cases "add_dependency parent child db")
    case (Pair r db')
    show ?thesis
    proof (cases r)
      case (Inl e)
      with Pair show ?thesis by (auto simp: add_dependency_def rollback_def split: prod.splits sum.splits)
    next
      case (Inr u)
      with Pair have "insert_dependency \<lparr>dp_parent = parent, dp_child = child\<rparr> db = (Inr (), db')" "\<not> parent_refused db parent"
        by (auto simp: add_dependency_def rollback_def py_Inr_iffs dest!: require_valid_Inr split: prod.splits sum.splits)
      with Pair show ?thesis using db_change.dependency by fastforce
    qed
  qed
  then have "safe (db_op (add_dependency parent child) :: (m1_backend, unit) pyop)"
    by (auto simp: safe_def keeps_def db_op_def split: prod.split) (metis rtranclp_trans snd_conv)
  then show ?thesis unfolding m1_add_dependency_def by (intro safe_then safe_basic)
qed

subsection \<open>Withdrawal\<close>

text \<open>The part of the tables \<open>withdrawn_closed\<close> looks at.\<close>

definition wview :: "m1_db \<Rightarrow> (string \<times> bool) list \<times> (string \<times> string option \<times> session_state \<times> bool) list \<times>
    artifact_row list \<times> dependency_row list" where
  "wview db = (map (\<lambda>p. (pa_id p, pa_withdrawn_at p \<noteq> None)) (db_participants db),
     map (\<lambda>r. (se_id r, se_participant_id r, se_state r, se_collection_blocked r)) (db_sessions db),
     db_artifacts db, db_dependencies db)"

lemma ball_map_eq:
  assumes "map f xs = map f ys" and "\<And>x y. f x = f y \<Longrightarrow> P x = P y"
  shows "(\<forall>x \<in> set xs. P x) = (\<forall>y \<in> set ys. P y)"
proof -
  have same: "f ` set xs = f ` set ys" using arg_cong [OF assms(1), of set] by simp
  have "\<forall>y \<in> set B. P y" if "f ` set A = f ` set B" "\<forall>x \<in> set A. P x" for A B
  proof
    fix y assume "y \<in> set B"
    then have "f y \<in> f ` set A" using that(1) by simp
    then obtain x where "x \<in> set A" "f x = f y" by auto
    then show "P y" using assms(2) that(2) by blast
  qed
  from this [OF same] this [OF same [symmetric]] show ?thesis by blast
qed

lemma participant_sessions_cong:
  assumes "map (\<lambda>r. (se_id r, se_participant_id r)) (db_sessions db') = map (\<lambda>r. (se_id r, se_participant_id r)) (db_sessions db)"
  shows "participant_sessions db' pid = participant_sessions db pid"
proof -
  have "participant_sessions x pid = map fst (filter (\<lambda>(i, p). p = Some pid) (map (\<lambda>r. (se_id r, se_participant_id r)) (db_sessions x)))" for x
    by (simp add: participant_sessions_def filter_map o_def)
  with assms show ?thesis by simp
qed

lemma lineage_cong:
  assumes "map (\<lambda>r. (se_id r, se_participant_id r)) (db_sessions db') = map (\<lambda>r. (se_id r, se_participant_id r)) (db_sessions db)"
    and "map (\<lambda>a. (ar_id a, ar_session_id a)) (db_artifacts db') = map (\<lambda>a. (ar_id a, ar_session_id a)) (db_artifacts db)"
    and "db_dependencies db' = db_dependencies db"
  shows "lineage_of db' pid = lineage_of db pid"
proof -
  have ids: "map ar_id (filter (\<lambda>a. ar_session_id a \<in> S) (db_artifacts x)) =
      map fst (filter (\<lambda>(i, t). t \<in> S) (map (\<lambda>a. (ar_id a, ar_session_id a)) (db_artifacts x)))" for x S
    by (simp add: filter_map o_def)
  have "map ar_id (filter (\<lambda>a. ar_session_id a \<in> S) (db_artifacts db')) =
      map ar_id (filter (\<lambda>a. ar_session_id a \<in> S) (db_artifacts db))" for S
    by (simp only: ids assms(2))
  then show ?thesis
    unfolding lineage_of_def participant_sessions_cong [OF assms(1)] assms(3) by metis
qed

lemma sessions_ids_of_view:
  "map (\<lambda>r. (se_id r, se_participant_id r, se_state r, se_collection_blocked r)) xs =
     map (\<lambda>r. (se_id r, se_participant_id r, se_state r, se_collection_blocked r)) ys \<Longrightarrow>
   map (\<lambda>r. (se_id r, se_participant_id r)) xs = map (\<lambda>r. (se_id r, se_participant_id r)) ys"
proof -
  assume "map (\<lambda>r. (se_id r, se_participant_id r, se_state r, se_collection_blocked r)) xs =
     map (\<lambda>r. (se_id r, se_participant_id r, se_state r, se_collection_blocked r)) ys"
  then have "map (\<lambda>(a, b, c, d). (a, b)) (map (\<lambda>r. (se_id r, se_participant_id r, se_state r, se_collection_blocked r)) xs) =
     map (\<lambda>(a, b, c, d). (a, b)) (map (\<lambda>r. (se_id r, se_participant_id r, se_state r, se_collection_blocked r)) ys)" by simp
  then show ?thesis by (simp add: o_def)
qed

lemma withdrawn_closed_cong:
  assumes "wview db' = wview db"
  shows "withdrawn_closed db' pid = withdrawn_closed db pid"
proof -
  have p: "map (\<lambda>p. (pa_id p, pa_withdrawn_at p \<noteq> None)) (db_participants db') = map (\<lambda>p. (pa_id p, pa_withdrawn_at p \<noteq> None)) (db_participants db)"
    and s: "map (\<lambda>r. (se_id r, se_participant_id r, se_state r, se_collection_blocked r)) (db_sessions db') =
      map (\<lambda>r. (se_id r, se_participant_id r, se_state r, se_collection_blocked r)) (db_sessions db)"
    and a: "db_artifacts db' = db_artifacts db" "db_dependencies db' = db_dependencies db"
    using assms by (auto simp: wview_def)
  have "lineage_of db' pid = lineage_of db pid"
    using sessions_ids_of_view [OF s] a by (intro lineage_cong) auto
  moreover have "(\<forall>p \<in> set (db_participants db'). pa_id p = pid \<longrightarrow> pa_withdrawn_at p \<noteq> None) =
      (\<forall>p \<in> set (db_participants db). pa_id p = pid \<longrightarrow> pa_withdrawn_at p \<noteq> None)"
    by (rule ball_map_eq [OF p]) auto
  moreover have "(\<forall>r \<in> set (db_sessions db'). se_participant_id r = Some pid \<longrightarrow> se_state r = WITHDRAWN \<and> se_collection_blocked r) =
      (\<forall>r \<in> set (db_sessions db). se_participant_id r = Some pid \<longrightarrow> se_state r = WITHDRAWN \<and> se_collection_blocked r)"
    by (rule ball_map_eq [OF s]) auto
  ultimately show ?thesis using a by (simp add: withdrawn_closed_def)
qed

declare update_where_map [simp]

lemma append_event_wview: "db_append_event t sid k p db = (Inr e, db') \<Longrightarrow> wview db' = wview db"
  by (auto simp: db_append_event_def insert_event_def db_insert_Inr py_Inr_iffs Let_def wview_def update_sessions_def
      split: option.splits)

lemma invalidate_loop:
  assumes "py_for ids (invalidate_artifact env sid) s = (Inr u, s')"
    and "\<forall>a \<in> set (db_artifacts (m1_db s)). ar_id a \<in> X \<longrightarrow> ar_status a = INVALIDATED"
  shows "db_participants (m1_db s') = db_participants (m1_db s) \<and> db_sessions (m1_db s') = db_sessions (m1_db s) \<and>
    db_dependencies (m1_db s') = db_dependencies (m1_db s) \<and>
    map (\<lambda>a. (ar_id a, ar_session_id a)) (db_artifacts (m1_db s')) = map (\<lambda>a. (ar_id a, ar_session_id a)) (db_artifacts (m1_db s)) \<and>
    (\<forall>a \<in> set (db_artifacts (m1_db s')). ar_id a \<in> X \<union> set ids \<longrightarrow> ar_status a = INVALIDATED)"
  using assms
proof (induction ids arbitrary: s u X)
  case (Cons i ids)
  then obtain s1 where inv: "invalidate_artifact env sid i s = (Inr (), s1)"
    and rest: "py_for ids (invalidate_artifact env sid) s1 = (Inr u, s')"
    by (auto simp: py_then_Inr_iff)
  have s1: "db_participants (m1_db s1) = db_participants (m1_db s)" "db_sessions (m1_db s1) = db_sessions (m1_db s)"
    "db_dependencies (m1_db s1) = db_dependencies (m1_db s)"
    "db_artifacts (m1_db s1) = update_where (\<lambda>a. ar_id a = i) (\<lambda>a. a\<lparr>ar_status := INVALIDATED\<rparr>) (db_artifacts (m1_db s))"
    using inv
    by (auto simp: invalidate_artifact_def py_Inr_iffs db_op_Inr token_urlsafe_def read_clock_def
        insert_or_ignore_task_def db_insert_Inr split: if_splits)
  have "\<forall>a \<in> set (db_artifacts (m1_db s1)). ar_id a \<in> insert i X \<longrightarrow> ar_status a = INVALIDATED"
    using Cons.prems(2) s1(4) by (auto simp: update_where_def)
  from Cons.IH [OF rest this] s1 show ?case by simp
qed (simp add: py_ret_def)

end
