(* ===== verification/M1_Properties.thy ===== *)
theory M1_Properties
  imports M1_Changes
begin

text \<open>
  Withdrawal, recovery and the whole request interface of the research workspace refine the table
  changes, and what that gives: withdrawal is final, no research session ever records, every mutation
  is idempotent and atomic, the event log of a session has no gaps.
\<close>

section \<open>Withdrawal refines the changes\<close>

text \<open>A clock that never reads NaN: \<open>time.time\<close> and every test clock.\<close>

definition real_clock :: "py_env \<Rightarrow> bool" where
  "real_clock env \<longleftrightarrow> (\<forall>n. env_clock env n \<noteq> NaN)"

lemma update_whereE:
  assumes "r' \<in> set (update_where c f rows)"
  obtains r where "r \<in> set rows" "c r" "r' = f r" | "r' \<in> set rows" "\<not> c r'"
  using assms by (auto simp: update_where_def)

lemma mark_withdrawn_marks:
  assumes "t1 \<noteq> NaN"
  shows "\<forall>p \<in> set (db_participants (mark_withdrawn pid t1 t2 db)). pa_id p = pid \<longrightarrow> pa_withdrawn_at p \<noteq> None" (is ?P)
    and "\<forall>r \<in> set (db_sessions (mark_withdrawn pid t1 t2 db)). se_participant_id r = Some pid \<longrightarrow>
      se_state r = WITHDRAWN \<and> se_collection_blocked r" (is ?S)
proof -
  have "sql_real t1 = Some t1" using assms by (simp add: sql_real_def)
  then have t1: "(case pa_withdrawn_at p of None \<Rightarrow> sql_real t1 | Some x \<Rightarrow> Some x) \<noteq> None" for p by (cases "pa_withdrawn_at p") auto
  have P: "db_participants (mark_withdrawn pid t1 t2 db) = update_where (\<lambda>p. pa_id p = pid)
      (\<lambda>p. p\<lparr>pa_withdrawn_at := (case pa_withdrawn_at p of None \<Rightarrow> sql_real t1 | Some x \<Rightarrow> Some x)\<rparr>) (db_participants db)"
    by (simp add: mark_withdrawn_def update_sessions_def)
  show ?P unfolding P
  proof
    fix p assume "p \<in> set (update_where (\<lambda>p. pa_id p = pid)
      (\<lambda>p. p\<lparr>pa_withdrawn_at := (case pa_withdrawn_at p of None \<Rightarrow> sql_real t1 | Some x \<Rightarrow> Some x)\<rparr>) (db_participants db))"
    then show "pa_id p = pid \<longrightarrow> pa_withdrawn_at p \<noteq> None" by (cases rule: update_whereE) (simp_all add: t1 del: not_None_eq)
  qed
  show ?S by (auto simp: mark_withdrawn_def update_sessions_def update_where_def)
qed

lemma m1_event_run:
  "m1_event env sid k p s = (Inr e, s') \<Longrightarrow> wview (m1_db s') = wview (m1_db s)"
  by (auto simp: m1_event_def py_Inr_iffs db_op_Inr db_get_def read_clock_def dest: append_event_wview)

lemma withdrawn_closed_after_loop:
  assumes "t1 \<noteq> NaN" and "py_for (lineage_of db pid) (invalidate_artifact env sid) s = (Inr u, s')"
    and "m1_db s = mark_withdrawn pid t1 t2 db0" and "db = m1_db s"
  shows "withdrawn_closed (m1_db s') pid"
proof -
  from invalidate_loop [OF assms(2), of "{}"] have
    "db_participants (m1_db s') = db_participants (m1_db s)" "db_sessions (m1_db s') = db_sessions (m1_db s)"
    "db_dependencies (m1_db s') = db_dependencies (m1_db s)"
    "map (\<lambda>a. (ar_id a, ar_session_id a)) (db_artifacts (m1_db s')) = map (\<lambda>a. (ar_id a, ar_session_id a)) (db_artifacts (m1_db s))"
    and inv: "\<forall>a \<in> set (db_artifacts (m1_db s')). ar_id a \<in> set (lineage_of db pid) \<longrightarrow> ar_status a = INVALIDATED"
    by simp_all
  note keep = this
  have "lineage_of (m1_db s') pid = lineage_of db pid"
    unfolding assms(4) by (rule lineage_cong) (simp_all add: keep)
  with inv mark_withdrawn_marks [OF assms(1), of pid t2 db0] show ?thesis
    unfolding withdrawn_closed_def keep(1,2) assms(3) by simp
qed

lemma effect_invalidate [effect_intros]: "effect (invalidate_artifact env sid aid)"
  unfolding invalidate_artifact_def by (intro effect_intros)

text \<open>The steps of a withdrawal that finds no receipt.\<close>

lemma withdraw_operation_steps:
  fixes s s' :: m1_backend
  assumes "withdraw_operation env sid pid pseudo s = (Inr x, s')" and "find_receipt (m1_db s) pid = None"
  obtains s1 s2 s3 :: m1_backend and ev db3 w t where
    "m1_db s1 = mark_withdrawn pid (env_clock env (clock_reads s)) (env_clock env (Suc (clock_reads s))) (m1_db s)"
    "py_for (lineage_of (m1_db s1) pid) (invalidate_artifact env sid) s1 = (Inr (), s2)"
    "m1_event env sid ''WithdrawalRequested'' [] s2 = (Inr ev, s3)"
    "\<exists>a t. insert_audit a t (m1_db s3) = (Inr (), db3)"
    "insert_receipt w t db3 = (Inr (), m1_db s')" "wr_participant_id w = pid" "wr_response w = JObj (fst x)"
proof -
  let ?s1 = "s\<lparr>clock_reads := Suc (Suc (clock_reads s)),
      m1_db := mark_withdrawn pid (env_clock env (clock_reads s)) (env_clock env (Suc (clock_reads s))) (m1_db s)\<rparr>"
  show ?thesis
    using assms
    by (auto simp: withdraw_operation_def py_Inr_iffs db_op_Inr db_get_def read_clock_def token_urlsafe_def Let_def
        split: option.splits intro!: that [of ?s1])
qed


lemma find_receipt_None: "find_receipt db pid = None \<longleftrightarrow> \<not> has_receipt db pid"
  by (auto simp: find_receipt_def has_receipt_def find_None_iff)

lemma insert_audit_wview: "insert_audit a t db = (Inr (), db') \<Longrightarrow> wview db' = wview db"
  by (auto simp: insert_audit_def db_insert_Inr wview_def)

lemma insert_receipt_has: "insert_receipt w t db = (Inr (), db') \<Longrightarrow> has_receipt db' (wr_participant_id w)"
  by (auto simp: insert_receipt_def db_insert_Inr has_receipt_def)

lemma withdraw_operation_replay:
  assumes "withdraw_operation env sid pid pseudo s = (Inr x, s')" and "find_receipt (m1_db s) pid \<noteq> None"
  shows "s' = s"
  using assms by (auto simp: withdraw_operation_def py_Inr_iffs db_get_def split: option.splits json.splits)

lemma effect_withdraw:
  assumes "real_clock env"
  shows "effect (withdraw_operation env sid pid pseudo)"
proof (rule effectI)
  fix s s' :: m1_backend and x assume run: "withdraw_operation env sid pid pseudo s = (Inr x, s')"
  show "db_change\<^sup>*\<^sup>* (m1_db s) (m1_db s')"
  proof (cases "find_receipt (m1_db s) pid")
    case None
    from withdraw_operation_steps [OF run None] obtain s1 s2 s3 :: m1_backend and ev db3 w t a u where
      s1: "m1_db s1 = mark_withdrawn pid (env_clock env (clock_reads s)) (env_clock env (Suc (clock_reads s))) (m1_db s)"
      and loop: "py_for (lineage_of (m1_db s1) pid) (invalidate_artifact env sid) s1 = (Inr (), s2)"
      and ev: "m1_event env sid ''WithdrawalRequested'' [] s2 = (Inr ev, s3)"
      and audit: "insert_audit a u (m1_db s3) = (Inr (), db3)"
      and rec: "insert_receipt w t db3 = (Inr (), m1_db s')" "wr_participant_id w = pid"
      by metis
    have "withdrawn_closed (m1_db s2) pid"
      using assms by (intro withdrawn_closed_after_loop [OF _ loop s1 refl]) (simp add: real_clock_def)
    then have "withdrawn_closed db3 pid"
      using withdrawn_closed_cong [OF m1_event_run [OF ev]] withdrawn_closed_cong [OF insert_audit_wview [OF audit]] by simp
    with rec have last: "db_change db3 (m1_db s')" using db_change.receipt by blast
    have "db_change (m1_db s) (m1_db s1)" unfolding s1 by (rule db_change.mark)
    also have "db_change\<^sup>*\<^sup>* (m1_db s1) (m1_db s2)" by (rule effectD [OF effect_for [OF effect_invalidate] loop])
    also have "db_change\<^sup>*\<^sup>* (m1_db s2) (m1_db s3)" by (rule effectD [OF effect_m1_event ev])
    also have "db_change (m1_db s3) db3" by (rule db_change.audit [OF audit])
    also note last
    finally show ?thesis by simp
  next
    case Some
    with withdraw_operation_replay [OF run] show ?thesis by simp
  qed
qed

lemma withdraw_operation_receipt:
  assumes "withdraw_operation env sid pid pseudo s = (Inr x, s')"
  shows "has_receipt (m1_db (s' :: m1_backend)) pid"
proof (cases "find_receipt (m1_db s) pid")
  case None
  from withdraw_operation_steps [OF assms None] show ?thesis by (metis insert_receipt_has)
next
  case Some
  with withdraw_operation_replay [OF assms] show ?thesis by (metis option.distinct(1) find_receipt_None)
qed

lemma safe_db_op_read: "(\<And>db. snd (m db) = db) \<Longrightarrow> safe (db_op m)"
  by (simp add: safe_def keeps_def db_op_def split: prod.splits) (metis snd_conv)

lemma safe_mutable_research: "safe (mutable_research sid)"
  by (auto simp: safe_def keeps_def mutable_research_def py_run require_open_def db_op_def require_mutable_research_def
      split: option.splits prod.splits)

lemma safe_research_session: "safe (research_session sid)"
  unfolding research_session_def by (intro safe_intros)

lemma safe_withdraw: "real_clock env \<Longrightarrow> safe (withdraw digest env sid key)"
  unfolding withdraw_def
  by (intro safe_intros safe_research_session safe_mutation effect_withdraw) (auto dest: withdraw_operation_receipt)


section \<open>The other operations\<close>

lemma safe_create_session: "safe (m1_create_session env)"
  unfolding m1_create_session_def m1_record_def
  by (intro safe_intros effect_intros) (simp_all add: safe_def keeps_def py_mod_def)

lemma snapshot_of_m1_db: "m1_db (snd (snapshot_of utc env rec s)) = m1_db s"
  by (auto simp: snapshot_of_def py_run split: option.splits sum.splits)

lemma safe_snapshot_of: "safe (snapshot_of utc env rec)"
  by (simp add: safe_def keeps_def snapshot_of_m1_db)

lemma safe_action: "safe (m1_apply_session_action utc env sid a)"
  unfolding m1_apply_session_action_def by (intro safe_intros safe_snapshot_of effect_intros)

lemma safe_demo_event: "safe (m1_append_demo_event env sid payload)"
  unfolding m1_append_demo_event_def m1_append_event_def by (intro safe_intros effect_intros)

lemma safe_replay: "safe (m1_replay_demo_alerts env fx sid)"
  unfolding m1_replay_demo_alerts_def m1_record_def m1_events_after_def by (intro safe_intros safe_demo_event)

lemma safe_answer: "safe (m1_record_answer digest pystr env sid key payload)"
  unfolding m1_record_answer_def by (intro safe_intros safe_mutation effect_intros) simp

lemma safe_submit: "safe (m1_submit_exam digest env sid key)"
  unfolding m1_submit_exam_def by (intro safe_intros safe_mutation effect_intros) simp

lemma safe_study: "safe (create_study digest env code key)"
  unfolding create_study_def by (intro safe_intros safe_mutation effect_intros) simp

lemma safe_participant: "safe (create_participant digest env study_id key)"
  unfolding create_participant_def by (intro safe_intros safe_mutation effect_intros) simp

lemma safe_research: "safe (create_research_session digest parse_date today env study_id pid key ref end_date)"
  unfolding create_research_session_def by (intro safe_intros safe_mutation effect_intros) simp

lemma safe_consent: "safe (confirm_operator_consent digest env sid rid version key)"
  unfolding confirm_operator_consent_def by (intro safe_intros safe_mutable_research safe_mutation effect_intros) simp

lemma safe_intent: "safe (create_write_intent is_absolute fs env sid path)"
  unfolding create_write_intent_def by (intro safe_intros safe_mutable_research effect_intros)

lemma safe_audit: "safe (record_reviewer_audit env kind)"
proof -
  have "safe (transaction (py_bind (token_urlsafe env 8) (\<lambda>tok. py_bind (read_clock env) (\<lambda>now.
      db_op (insert_audit \<lparr>au_id = ''reviewer-audit-'' @ tok, au_event_type = kind, au_session_id = None\<rparr> now)))) :: (m1_backend, unit) pyop)"
    by (intro safe_intros effect_intros)
  then show ?thesis
    by (auto simp: safe_def keeps_def record_reviewer_audit_def split: prod.split sum.split py_error.split) (metis snd_conv)+
qed

lemma safe_recover_tx: "safe (recover_intent_tx w)"
proof -
  have m: "effect (py_bind (db_get (\<lambda>db. find_session db (wi_session_id w))) (\<lambda>found.
      case found of
        None \<Rightarrow> py_raise (SchemaIntegrityError ''pending write intent session is missing'')
      | Some r \<Rightarrow>
          py_bind (db_get (\<lambda>db. session_participant db r)) (\<lambda>p.
          let recovered = (if se_state r = WITHDRAWN \<or> (case p of None \<Rightarrow> False | Some q \<Rightarrow> pa_withdrawn_at q \<noteq> None)
                           then WITHDRAWN else FAILED)
          in db_op (py_mod (update_sessions (\<lambda>x. se_id x = wi_session_id w)
               (\<lambda>x. x\<lparr>se_state := recovered, se_collection_blocked := True\<rparr>))))))" (is "effect ?m")
  proof (rule effectI)
    fix s s' :: m1_backend and u assume "?m s = (Inr u, s')"
    then show "db_change\<^sup>*\<^sup>* (m1_db s) (m1_db s')"
      by (auto simp: py_Inr_iffs db_get_def db_op_Inr Let_def split: option.splits
          intro!: r_into_rtranclp db_change.recover)
  qed
  show ?thesis unfolding recover_intent_tx_def by (rule safe_transaction effect_then m effect_updates)+
qed

lemma safe_recover: "safe (recover_pending_intents move)"
proof -
  have "safe (recover_intent move w)" for w
    unfolding recover_intent_def
    by (auto intro: safe_recover_tx safe_basic split: option.split py_error.split)
  then show ?thesis unfolding recover_pending_intents_def by (intro safe_intros)
qed

lemma safe_start: "safe (m1_start move env enc acl)"
  unfolding m1_start_def by (intro safe_intros safe_recover effect_intros)

lemma safe_close: "safe store_close"
  by (simp add: safe_def keeps_def store_close_def py_mod_def)

section \<open>The request interface\<close>

text \<open>What a deployment supplies: the parameters of the operations.\<close>

record m1_params =
  p_digest :: "pydict \<Rightarrow> string"
  p_str :: "json \<Rightarrow> string"
  p_parse_date :: "string \<Rightarrow> int option"
  p_today :: "pyfloat \<Rightarrow> py_error + int"
  p_utc :: "pyfloat \<Rightarrow> py_error + string"
  p_fixture :: "json list option"
  p_is_absolute :: "string \<Rightarrow> bool"
  p_fs :: "string \<Rightarrow> py_error + string"
  p_move :: "string \<Rightarrow> string \<Rightarrow> py_error option"
  p_env :: py_env

datatype m1_request =
    M1CreateSession
  | M1Action string string
  | M1Answer string string pydict
  | M1Submit string string
  | M1DemoEvent string pydict
  | M1Replay string
  | M1Study string "string option"
  | M1Participant string "string option"
  | M1Research string string "string option" "string option" "string option"
  | M1Consent string string string "string option"
  | M1Artifact string string "string list"
  | M1Dependency string string
  | M1Withdraw string "string option"
  | M1Intent string string
  | M1Audit string
  | M1Start string string
  | M1Close

definition dropped :: "('s, 'a) pyop \<Rightarrow> ('s, unit) pyop" where
  "dropped m = py_bind m (\<lambda>_. py_ret ())"

fun m1_call :: "m1_params \<Rightarrow> m1_request \<Rightarrow> (m1_backend, unit) pyop" where
  "m1_call c M1CreateSession = dropped (m1_create_session (p_env c))"
| "m1_call c (M1Action sid a) = dropped (m1_apply_session_action (p_utc c) (p_env c) sid a)"
| "m1_call c (M1Answer sid key payload) = dropped (m1_record_answer (p_digest c) (p_str c) (p_env c) sid key payload)"
| "m1_call c (M1Submit sid key) = dropped (m1_submit_exam (p_digest c) (p_env c) sid key)"
| "m1_call c (M1DemoEvent sid payload) = dropped (m1_append_demo_event (p_env c) sid payload)"
| "m1_call c (M1Replay sid) = dropped (m1_replay_demo_alerts (p_env c) (p_fixture c) sid)"
| "m1_call c (M1Study code key) = dropped (create_study (p_digest c) (p_env c) code key)"
| "m1_call c (M1Participant study key) = dropped (create_participant (p_digest c) (p_env c) study key)"
| "m1_call c (M1Research study pid key ref end_date) =
     dropped (create_research_session (p_digest c) (p_parse_date c) (p_today c) (p_env c) study pid key ref end_date)"
| "m1_call c (M1Consent sid rid version key) = dropped (confirm_operator_consent (p_digest c) (p_env c) sid rid version key)"
| "m1_call c (M1Artifact aid sid parents) = register_artifact (p_env c) aid sid parents"
| "m1_call c (M1Dependency parent child) = m1_add_dependency parent child"
| "m1_call c (M1Withdraw sid key) = dropped (withdraw (p_digest c) (p_env c) sid key)"
| "m1_call c (M1Intent sid path) = create_write_intent (p_is_absolute c) (p_fs c) (p_env c) sid path"
| "m1_call c (M1Audit kind) = record_reviewer_audit (p_env c) kind"
| "m1_call c (M1Start enc acl) = m1_start (p_move c) (p_env c) enc acl"
| "m1_call c M1Close = store_close"

definition m1_handle :: "m1_params \<Rightarrow> m1_request \<Rightarrow> m1_backend \<Rightarrow> m1_backend" where
  "m1_handle c r s = snd (m1_call c r s)"

lemma safe_dropped: "safe m \<Longrightarrow> safe (dropped m)"
  unfolding dropped_def by (intro safe_intros)

lemmas safe_requests = safe_create_session safe_action safe_answer safe_submit safe_demo_event safe_replay safe_study
  safe_participant safe_research safe_consent safe_register_artifact safe_add_dependency safe_withdraw safe_intent
  safe_audit safe_start safe_close

lemma safe_call: "real_clock (p_env c) \<Longrightarrow> safe (m1_call c r)"
  by (cases r) (simp_all add: safe_dropped safe_requests)

lemma m1_handle_changes: "real_clock (p_env c) \<Longrightarrow> db_change\<^sup>*\<^sup>* (m1_db s) (m1_db (m1_handle c r s))"
  unfolding m1_handle_def by (rule safeD [OF safe_call])


section \<open>Invariants of the tables\<close>

definition sessions_ok :: "m1_db \<Rightarrow> bool" where
  "sessions_ok db \<longleftrightarrow> distinct (map se_id (db_sessions db)) \<and>
     (\<forall>r \<in> set (db_sessions db). (se_participant_id r \<noteq> None \<longrightarrow> se_kind r = RESEARCH) \<and>
        (se_kind r = RESEARCH \<longrightarrow> se_state r \<in> {DRAFT, CONSENT_CONFIRMED, FAILED, WITHDRAWN}))"

definition references_ok :: "m1_db \<Rightarrow> bool" where
  "references_ok db \<longleftrightarrow>
     wr_participant_id ` set (db_receipts db) \<subseteq> pa_id ` set (db_participants db) \<and>
     dp_child ` set (db_dependencies db) \<subseteq> ar_id ` set (db_artifacts db) \<and>
     ar_session_id ` set (db_artifacts db) \<subseteq> se_id ` set (db_sessions db)"

definition withdrawals_ok :: "m1_db \<Rightarrow> bool" where
  "withdrawals_ok db \<longleftrightarrow> (\<forall>w \<in> set (db_receipts db). withdrawn_closed db (wr_participant_id w))"

definition scopes_ok :: "m1_db \<Rightarrow> bool" where
  "scopes_ok db \<longleftrightarrow> (\<forall>i \<in> set (db_idempotency db). take 18 (id_scope i) = ''research-withdraw:'' \<longrightarrow>
     has_receipt db (drop 18 (id_scope i)))"

definition m1_ok :: "m1_db \<Rightarrow> bool" where
  "m1_ok db \<longleftrightarrow> sessions_ok db \<and> references_ok db \<and> withdrawals_ok db \<and> scopes_ok db"

lemmas statement_defs = insert_study_def insert_participant_def insert_session_def insert_retention_def replace_consent_def
  replace_storage_root_def insert_attempt_def insert_answer_def insert_idempotency_def insert_audit_def insert_intent_def
  insert_artifact_def insert_dependency_def insert_or_ignore_task_def insert_receipt_def insert_event_def db_insert_Inr
  py_then_Inr_iff py_guard_Inr_iff

lemma session_row_unique:
  assumes "distinct (map se_id (db_sessions db))" and "find_session db sid = Some row" and "r \<in> set (db_sessions db)"
    and "se_id r = sid"
  shows "r = row"
proof -
  have "row \<in> set (db_sessions db)" "se_id row = sid"
    using assms(2) by (auto simp: find_session_def dest: find_SomeD)
  with assms show ?thesis by (auto simp: distinct_map inj_on_def)
qed

lemma append_event_tables:
  assumes "db_append_event t sid k p db = (Inr e, db')"
  obtains row where "find_session db sid = Some row"
    "e = \<lparr>er_seq = se_event_seq row + 1, er_type = k, er_payload = p\<rparr>"
    "db' = (update_sessions (\<lambda>r. se_id r = sid) (\<lambda>r. r\<lparr>se_event_seq := se_event_seq row + 1\<rparr>) db)
       \<lparr>db_events := db_events db @ [\<lparr>ev_session_id = sid, ev_record = e\<rparr>]\<rparr>"
  using assms
  by (auto simp: db_append_event_def insert_event_def db_insert_Inr py_Inr_iffs Let_def update_sessions_def
      split: option.splits)

lemma sessions_ok_update:
  assumes "sessions_ok db" and "\<And>r. se_id (f r) = se_id r" and "\<And>r. se_kind (f r) = se_kind r"
    and "\<And>r. se_participant_id (f r) = se_participant_id r"
    and "\<And>r. r \<in> set (db_sessions db) \<Longrightarrow> c r \<Longrightarrow> se_kind r = RESEARCH \<Longrightarrow>
      se_state (f r) \<in> {se_state r, CONSENT_CONFIRMED, FAILED, WITHDRAWN}"
  shows "sessions_ok (update_sessions c f db)"
proof -
  have "map se_id (update_where c f (db_sessions db)) = map se_id (db_sessions db)" by (simp add: assms(2))
  moreover have "(se_participant_id r' \<noteq> None \<longrightarrow> se_kind r' = RESEARCH) \<and>
        (se_kind r' = RESEARCH \<longrightarrow> se_state r' \<in> {DRAFT, CONSENT_CONFIRMED, FAILED, WITHDRAWN})"
    if "r' \<in> set (update_where c f (db_sessions db))" for r'
    using that
  proof (cases rule: update_whereE)
    case (1 r)
    have "se_kind r = RESEARCH \<Longrightarrow> se_state r \<in> {DRAFT, CONSENT_CONFIRMED, FAILED, WITHDRAWN}"
      using assms(1) 1(1) by (simp add: sessions_ok_def)
    with 1 assms(1) assms(5) [OF 1(1,2)] show ?thesis by (auto simp: sessions_ok_def assms(3,4))
  qed (use assms(1) in \<open>simp add: sessions_ok_def\<close>)
  ultimately show ?thesis using assms(1) by (simp add: sessions_ok_def update_sessions_def)
qed

lemma sessions_ok_same: "sessions_ok db \<Longrightarrow> db_sessions db' = db_sessions db \<Longrightarrow> sessions_ok db'"
  by (simp add: sessions_ok_def)

lemma sessions_ok_insert:
  assumes "sessions_ok db" and "insert_session r t db = (Inr (), db')" and "se_state r = DRAFT"
    and "se_participant_id r \<noteq> None \<longrightarrow> se_kind r = RESEARCH"
  shows "sessions_ok db'"
  using assms by (auto simp: sessions_ok_def insert_session_def db_insert_Inr)

lemma sessions_ok_event: "sessions_ok db \<Longrightarrow> db_append_event t sid k p db = (Inr e, db') \<Longrightarrow> sessions_ok db'"
  by (erule append_event_tables, erule ssubst, rule sessions_ok_same [OF sessions_ok_update]) simp_all

lemma sessions_ok_change: "db_change db db' \<Longrightarrow> sessions_ok db \<Longrightarrow> sessions_ok db'"
proof (induction rule: db_change.induct)
  case (action db sid row a st x)
  then have d: "distinct (map se_id (db_sessions db))" by (simp add: sessions_ok_def)
  show ?case
  proof (rule sessions_ok_update [OF action(4)])
    fix r assume "r \<in> set (db_sessions db)" and c: "se_id r = sid \<and> se_state r = se_state row" and "se_kind r = RESEARCH"
    with session_row_unique [OF d action(1), of r] action(2)
    show "se_state (r\<lparr>se_state := st, se_started_at := x\<rparr>) \<in> {se_state r, CONSENT_CONFIRMED, FAILED, WITHDRAWN}" by simp
  qed simp_all
next
  case (mark db pid t1 t2)
  then have "sessions_ok (db\<lparr>db_participants := P\<rparr>)" for P by (rule sessions_ok_same) simp
  then show ?case unfolding mark_withdrawn_def by (intro sessions_ok_update) simp_all
next
  case (event t sid k p db e db')
  then show ?case by (blast intro: sessions_ok_event)
next
  case (demo sid d t db db')
  then show ?case by (intro sessions_ok_insert [of db _ t db']) (auto simp: new_session_row_def)
next
  case (research sid d st pid t db db' p)
  then show ?case by (intro sessions_ok_insert [of db _ t db']) (auto simp: new_session_row_def)
next
  case (recover db sid r st)
  then show ?case by (intro sessions_ok_update) auto
next
  case (task w t db db')
  then show ?case by (intro sessions_ok_same [of db db']) (auto simp: statement_defs split: if_splits)
next
  case (submitted db sid)
  then show ?case by (rule sessions_ok_update) simp_all
next
  case (confirm db sid)
  then show ?case by (rule sessions_ok_update) simp_all
qed (auto elim!: sessions_ok_same simp: statement_defs)


subsection \<open>A withdrawal is kept\<close>

lemma lineage_cong_sessions:
  assumes "participant_sessions db' pid = participant_sessions db pid"
    and "db_artifacts db' = db_artifacts db" and "db_dependencies db' = db_dependencies db"
  shows "lineage_of db' pid = lineage_of db pid"
  using assms by (simp add: lineage_of_def)

lemma participant_sessions_update:
  assumes "\<And>r. se_id (f r) = se_id r" and "\<And>r. se_participant_id (f r) = se_participant_id r"
  shows "participant_sessions (update_sessions c f db) pid = participant_sessions db pid"
  by (rule participant_sessions_cong) (simp add: update_sessions_def assms)

lemma withdrawn_closed_update:
  assumes "withdrawn_closed db pid"
    and f: "\<And>r. se_id (f r) = se_id r" "\<And>r. se_participant_id (f r) = se_participant_id r"
    and hit: "\<And>r. r \<in> set (db_sessions db) \<Longrightarrow> c r \<Longrightarrow> se_participant_id r = Some pid \<Longrightarrow> se_state r = WITHDRAWN \<Longrightarrow>
      se_collection_blocked r \<Longrightarrow> se_state (f r) = WITHDRAWN \<and> se_collection_blocked (f r)"
  shows "withdrawn_closed (update_sessions c f db) pid"
proof -
  have other: "db_artifacts (update_sessions c f db) = db_artifacts db" "db_participants (update_sessions c f db) = db_participants db"
    "db_dependencies (update_sessions c f db) = db_dependencies db"
    "db_sessions (update_sessions c f db) = update_where c f (db_sessions db)"
    by (simp_all add: update_sessions_def)
  have lin: "lineage_of (update_sessions c f db) pid = lineage_of db pid"
    by (rule lineage_cong_sessions [OF participant_sessions_update [OF f]]) (simp_all add: other)
  have "se_state r' = WITHDRAWN \<and> se_collection_blocked r'"
    if "r' \<in> set (update_where c f (db_sessions db))" "se_participant_id r' = Some pid" for r'
    using that(1)
  proof (cases rule: update_whereE)
    case (1 r)
    with that(2) f(2) have "se_participant_id r = Some pid" by simp
    with 1 assms(1) hit [OF 1(1,2)] show ?thesis by (simp add: withdrawn_closed_def)
  qed (use assms(1) that(2) in \<open>simp add: withdrawn_closed_def\<close>)
  with assms(1) show ?thesis unfolding withdrawn_closed_def other lin by simp
qed

lemma withdrawn_closed_insert_session:
  assumes "withdrawn_closed db pid" and "insert_session r t db = (Inr (), db')" and "se_participant_id r \<noteq> Some pid"
  shows "withdrawn_closed db' pid"
proof -
  have db': "db' = db\<lparr>db_sessions := db_sessions db @ [r]\<rparr>" using assms(2) by (auto simp: insert_session_def db_insert_Inr)
  have "lineage_of db' pid = lineage_of db pid"
    by (rule lineage_cong_sessions) (simp_all add: db' participant_sessions_def assms(3))
  then show ?thesis using assms(1,3) unfolding withdrawn_closed_def by (simp add: db')
qed

lemma withdrawn_closed_artifact:
  assumes "withdrawn_closed db pid" and ins: "insert_artifact \<lparr>ar_id = aid, ar_session_id = sid, ar_status = VALID\<rparr> t db = (Inr (), db')"
    and row: "find_session db sid = Some r" and "se_state r \<noteq> WITHDRAWN"
    and "sessions_ok db" and refs: "dp_child ` set (db_dependencies db) \<subseteq> ar_id ` set (db_artifacts db)"
  shows "withdrawn_closed db' pid"
proof -
  let ?a = "\<lparr>ar_id = aid, ar_session_id = sid, ar_status = VALID\<rparr>"
  have db': "db' = db\<lparr>db_artifacts := db_artifacts db @ [?a]\<rparr>" and new: "aid \<notin> ar_id ` set (db_artifacts db)"
    using ins by (auto simp: insert_artifact_def db_insert_Inr)
  have d: "distinct (map se_id (db_sessions db))" using assms(5) by (simp add: sessions_ok_def)
  have "sid \<notin> set (participant_sessions db pid)"
  proof
    assume "sid \<in> set (participant_sessions db pid)"
    then obtain q where q: "q \<in> set (db_sessions db)" "se_id q = sid" "se_participant_id q = Some pid"
      by (auto simp: participant_sessions_def)
    with session_row_unique [OF d row q(1,2)] assms(1,4) show False by (simp add: withdrawn_closed_def)
  qed
  then have lin: "lineage_of db' pid = lineage_of db pid" by (simp add: lineage_of_def db' participant_sessions_def)
  have "set (lineage_of db pid) \<subseteq> ar_id ` set (db_artifacts db)"
    unfolding lineage_is_closure
    by (rule closed_rtrancl) (use refs in \<open>auto simp: closed_under_def derives_def roots_of_def\<close>)
  with new have "aid \<notin> set (lineage_of db pid)" by blast
  with assms(1) show ?thesis unfolding withdrawn_closed_def lin by (simp add: db')
qed

lemma withdrawn_closed_dependency:
  assumes "withdrawn_closed db pid" and ins: "insert_dependency d db = (Inr (), db')" and "\<not> parent_refused db (dp_parent d)"
  shows "withdrawn_closed db' pid"
proof -
  have db': "db' = db\<lparr>db_dependencies := db_dependencies db @ [d]\<rparr>" using ins by (auto simp: insert_dependency_def db_insert_Inr)
  obtain a where a: "a \<in> set (db_artifacts db)" "ar_id a = dp_parent d" "ar_status a = VALID"
    using assms(3) by (auto simp: parent_refused_def find_artifact_def split: option.splits dest: find_SomeD)
  then have parent: "dp_parent d \<notin> set (lineage_of db pid)" using assms(1) by (auto simp: withdrawn_closed_def)
  let ?L = "set (lineage_of db pid)"
  have roots: "roots_of db' pid = roots_of db pid" by (simp add: roots_of_def db')
  have "closed_under (derives (db_dependencies db)) ?L" "roots_of db pid \<subseteq> ?L"
    unfolding lineage_is_closure closed_under_def by (auto intro: rtrancl_into_rtrancl)
  with parent have "closed_under (derives (db_dependencies db')) ?L"
    by (auto simp: closed_under_def derives_def db')
  then have "set (lineage_of db' pid) \<subseteq> ?L"
    unfolding lineage_is_closure [of db'] roots using \<open>roots_of db pid \<subseteq> ?L\<close> by (rule closed_rtrancl)
  with assms(1) show ?thesis unfolding withdrawn_closed_def by (auto simp: db')
qed


lemma withdrawn_closed_mark:
  assumes "withdrawn_closed db pid"
  shows "withdrawn_closed (mark_withdrawn p' t1 t2 db) pid"
proof -
  let ?P = "update_where (\<lambda>p. pa_id p = p')
     (\<lambda>p. p\<lparr>pa_withdrawn_at := (case pa_withdrawn_at p of None \<Rightarrow> sql_real t1 | Some x \<Rightarrow> Some x)\<rparr>) (db_participants db)"
  have "pa_withdrawn_at q \<noteq> None" if "q \<in> set ?P" "pa_id q = pid" for q
    using that(1)
  proof (cases rule: update_whereE)
    case (1 r)
    with that(2) assms obtain x where "pa_withdrawn_at r = Some x" by (auto simp: withdrawn_closed_def)
    with 1 show ?thesis by simp
  qed (use assms that(2) in \<open>auto simp: withdrawn_closed_def\<close>)
  moreover have "lineage_of (db\<lparr>db_participants := ?P\<rparr>) pid = lineage_of db pid"
    by (rule lineage_cong_sessions) (simp_all add: participant_sessions_def)
  ultimately have "withdrawn_closed (db\<lparr>db_participants := ?P\<rparr>) pid"
    using assms unfolding withdrawn_closed_def by simp
  then show ?thesis unfolding mark_withdrawn_def by (rule withdrawn_closed_update) simp_all
qed

lemma withdrawn_closed_invalidate:
  assumes "withdrawn_closed db pid"
  shows "withdrawn_closed (db\<lparr>db_artifacts :=
    update_where (\<lambda>a. ar_id a = aid) (\<lambda>a. a\<lparr>ar_status := INVALIDATED\<rparr>) (db_artifacts db)\<rparr>) pid" (is "withdrawn_closed ?db pid")
proof -
  have "lineage_of ?db pid = lineage_of db pid" by (rule lineage_cong) simp_all
  with assms show ?thesis unfolding withdrawn_closed_def by (auto simp: update_where_def)
qed

lemma withdrawn_closed_recover:
  assumes "withdrawn_closed db pid" and "sessions_ok db" and row: "find_session db sid = Some r"
    and st: "st = (if se_state r = WITHDRAWN \<or> b then WITHDRAWN else FAILED)"
  shows "withdrawn_closed (update_sessions (\<lambda>x. se_id x = sid) (\<lambda>x. x\<lparr>se_state := st, se_collection_blocked := True\<rparr>) db) pid"
proof (rule withdrawn_closed_update [OF assms(1)])
  fix x assume "x \<in> set (db_sessions db)" "se_id x = sid" "se_state x = WITHDRAWN"
  moreover have "distinct (map se_id (db_sessions db))" using assms(2) by (simp add: sessions_ok_def)
  ultimately have "se_state r = WITHDRAWN" using session_row_unique [OF _ row, of x] by simp
  then show "se_state (x\<lparr>se_state := st, se_collection_blocked := True\<rparr>) = WITHDRAWN \<and>
      se_collection_blocked (x\<lparr>se_state := st, se_collection_blocked := True\<rparr>)" by (simp add: st)
qed simp_all

lemma withdrawn_closed_action:
  assumes "withdrawn_closed db pid" and "sessions_ok db" and row: "find_session db sid = Some row" and "se_kind row \<noteq> RESEARCH"
  shows "withdrawn_closed (update_sessions (\<lambda>r. se_id r = sid \<and> c r) (\<lambda>r. r\<lparr>se_state := st, se_started_at := x\<rparr>) db) pid"
proof (rule withdrawn_closed_update [OF assms(1)])
  fix r assume r: "r \<in> set (db_sessions db)" "se_id r = sid \<and> c r" "se_participant_id r = Some pid"
  have d: "distinct (map se_id (db_sessions db))" using assms(2) by (simp add: sessions_ok_def)
  have "se_kind r = RESEARCH" using r(1,3) assms(2) by (auto simp: sessions_ok_def)
  with session_row_unique [OF d row r(1)] r(2) assms(4)
  show "se_state (r\<lparr>se_state := st, se_started_at := x\<rparr>) = WITHDRAWN \<and>
      se_collection_blocked (r\<lparr>se_state := st, se_started_at := x\<rparr>)" by simp
qed simp_all

lemma withdrawn_closed_participant:
  assumes "withdrawn_closed db pid" and "insert_participant r t db = (Inr (), db')" and "pid \<in> pa_id ` set (db_participants db)"
  shows "withdrawn_closed db' pid"
proof -
  have db': "db' = db\<lparr>db_participants := db_participants db @ [r]\<rparr>" and "pa_id r \<noteq> pid"
    using assms(2,3) by (auto simp: insert_participant_def db_insert_Inr)
  moreover have "lineage_of db' pid = lineage_of db pid"
    by (rule lineage_cong_sessions) (simp_all add: db' participant_sessions_def)
  ultimately show ?thesis using assms(1) unfolding withdrawn_closed_def by simp
qed

lemma withdrawn_closed_change:
  assumes "db_change db db'" and "withdrawn_closed db pid" and "sessions_ok db" and "references_ok db"
    and "pid \<in> pa_id ` set (db_participants db)"
  shows "withdrawn_closed db' pid"
  using assms
proof (cases rule: db_change.cases)
  case (participant r t)
  then show ?thesis using withdrawn_closed_participant assms(2,5) by blast
next
  case (demo sid d t)
  then show ?thesis using withdrawn_closed_insert_session [OF assms(2)] by (simp add: new_session_row_def)
next
  case (research p' st sid d t p)
  have "p' \<noteq> pid" using research(2-4) assms(2) by (auto simp: withdrawn_closed_def)
  then show ?thesis using withdrawn_closed_insert_session [OF assms(2) research(1)] by simp
next
  case (event t sid k p e)
  then show ?thesis using withdrawn_closed_cong append_event_wview assms(2) by blast
next
  case (action sid row a st x)
  show ?thesis unfolding action(1) by (rule withdrawn_closed_action [OF assms(2,3) action(2,3)])
next
  case (submitted sid)
  show ?thesis unfolding submitted using assms(2) by (rule withdrawn_closed_update) simp_all
next
  case (confirm sid)
  show ?thesis unfolding confirm using assms(2) by (rule withdrawn_closed_update) simp_all
next
  case (artifact aid sid t r)
  then show ?thesis using withdrawn_closed_artifact [OF assms(2) artifact assms(3)] assms(4) by (simp add: references_ok_def)
next
  case (dependency d)
  then show ?thesis using withdrawn_closed_dependency [OF assms(2)] by blast
next
  case (mark p' t1 t2)
  then show ?thesis using withdrawn_closed_mark assms(2) by simp
next
  case (invalidate aid)
  then show ?thesis using withdrawn_closed_invalidate assms(2) by simp
next
  case (recover sid r st)
  then show ?thesis using withdrawn_closed_recover [OF assms(2,3) recover(2,3)] by simp
next
  case (task w t)
  then have "wview db' = wview db" by (auto simp: statement_defs wview_def split: if_splits)
  from withdrawn_closed_cong [OF this, of pid] assms(2) show ?thesis by simp
qed (rule withdrawn_closed_cong [THEN iffD2, OF _ assms(2)], auto simp: wview_def statement_defs; fail)+

lemma image_update_where: "(\<And>r. g (f r) = g r) \<Longrightarrow> g ` set (update_where c f rows) = g ` set rows"
  by (simp flip: set_map)

lemma references_ok_change: "db_change db db' \<Longrightarrow> references_ok db \<Longrightarrow> references_ok db'"
proof (induction rule: db_change.induct)
  case (event t sid k p db e db')
  from event(1) show ?case
  proof (rule append_event_tables)
    fix row assume db': "db' = update_sessions (\<lambda>r. se_id r = sid) (\<lambda>r. r\<lparr>se_event_seq := se_event_seq row + 1\<rparr>) db
      \<lparr>db_events := db_events db @ [\<lparr>ev_session_id = sid, ev_record = e\<rparr>]\<rparr>"
    with event(2) show ?thesis by (simp add: references_ok_def db' update_sessions_def image_update_where)
  qed
next
  case (task w t db db')
  then show ?case by (auto simp: statement_defs references_ok_def split: if_splits)
next
  case (mark db pid t1 t2)
  then show ?case by (simp add: references_ok_def mark_withdrawn_def update_sessions_def image_update_where)
next
  case (invalidate db aid)
  then show ?case by (simp add: references_ok_def image_update_where)
next
  case (submitted db sid)
  then show ?case by (simp add: references_ok_def update_sessions_def image_update_where)
next
  case (action db sid row a st x)
  then show ?case by (simp add: references_ok_def update_sessions_def image_update_where)
next
  case (confirm db sid)
  then show ?case by (simp add: references_ok_def update_sessions_def image_update_where)
next
  case (recover db sid r st)
  then show ?case by (simp add: references_ok_def update_sessions_def image_update_where)
qed (auto simp: statement_defs references_ok_def has_session_def)

text \<open>Receipts and idempotency records are never lost.\<close>

lemma rows_kept:
  assumes "db_change db db'"
  shows "set (db_receipts db) \<subseteq> set (db_receipts db')" and "find_idempotency db sc k = Some i \<Longrightarrow> find_idempotency db' sc k = Some i"
    and "pa_id ` set (db_participants db) \<subseteq> pa_id ` set (db_participants db')"
proof -
  have "set (db_receipts db) \<subseteq> set (db_receipts db') \<and> (\<exists>ys. db_idempotency db' = db_idempotency db @ ys) \<and>
      pa_id ` set (db_participants db) \<subseteq> pa_id ` set (db_participants db')"
    using assms
  proof (cases rule: db_change.cases)
    case (event t sid k p e)
    then show ?thesis by (auto elim: append_event_tables simp: update_sessions_def)
  next
    case (mark pid t1 t2)
    then show ?thesis by (simp add: mark_withdrawn_def update_sessions_def image_update_where)
  next
    case (task w t)
    then show ?thesis by (auto simp: statement_defs split: if_splits)
  qed (auto simp: statement_defs update_sessions_def)
  then show "set (db_receipts db) \<subseteq> set (db_receipts db')"
    and "find_idempotency db sc k = Some i \<Longrightarrow> find_idempotency db' sc k = Some i"
    and "pa_id ` set (db_participants db) \<subseteq> pa_id ` set (db_participants db')"
    by (auto simp: find_idempotency_def find_append_Some)
qed

lemma has_receipt_change: "db_change db db' \<Longrightarrow> has_receipt db pid \<Longrightarrow> has_receipt db' pid"
  using rows_kept(1) by (auto simp: has_receipt_def)


lemma withdrawals_ok_change:
  assumes "db_change db db'" and "withdrawals_ok db" and "sessions_ok db" and "references_ok db"
  shows "withdrawals_ok db'"
proof -
  have old: "withdrawn_closed db' (wr_participant_id w)" if "w \<in> set (db_receipts db)" for w
    using that assms withdrawn_closed_change [OF assms(1) _ assms(3,4), of "wr_participant_id w"]
    by (auto simp: withdrawals_ok_def references_ok_def)
  show ?thesis
    using assms(1)
  proof (cases rule: db_change.cases)
    case (receipt w t)
    then have "db' = db\<lparr>db_receipts := db_receipts db @ [w]\<rparr>" by (simp add: statement_defs)
    moreover from this have "wview db' = wview db" by (simp add: wview_def)
    ultimately show ?thesis
      using old receipt(2) withdrawn_closed_cong [of db' db] by (auto simp: withdrawals_ok_def)
  next
    case (event t sid k p e)
    then show ?thesis using old by (auto simp: withdrawals_ok_def update_sessions_def elim!: append_event_tables)
  next
    case (task w t)
    then show ?thesis using old by (auto simp: withdrawals_ok_def statement_defs split: if_splits)
  qed (use old in \<open>auto simp: withdrawals_ok_def statement_defs update_sessions_def mark_withdrawn_def\<close>)
qed

lemma scopes_ok_change:
  assumes "db_change db db'" and "scopes_ok db"
  shows "scopes_ok db'"
proof -
  have old: "has_receipt db' (drop 18 (id_scope i))" if "i \<in> set (db_idempotency db)" "take 18 (id_scope i) = ''research-withdraw:''" for i
    using that assms has_receipt_change by (auto simp: scopes_ok_def)
  show ?thesis
    using assms(1)
  proof (cases rule: db_change.cases)
    case (idempotency r t)
    have "has_receipt db' (drop 18 (id_scope r))" if "take 18 (id_scope r) = ''research-withdraw:''"
    proof -
      have "id_scope r = ''research-withdraw:'' @ drop 18 (id_scope r)" by (metis append_take_drop_id that)
      from idempotency(2) [OF this] has_receipt_change [OF assms(1)] show ?thesis by blast
    qed
    moreover have "db_idempotency db' = db_idempotency db @ [r]" using idempotency(1) by (auto simp: statement_defs)
    ultimately show ?thesis using old by (simp add: scopes_ok_def)
  next
    case (event t sid k p e)
    then show ?thesis using old by (auto simp: scopes_ok_def update_sessions_def elim!: append_event_tables)
  next
    case (task w t)
    then show ?thesis using old by (auto simp: scopes_ok_def statement_defs split: if_splits)
  qed (use old in \<open>auto simp: scopes_ok_def statement_defs update_sessions_def mark_withdrawn_def\<close>)
qed

lemma m1_ok_change: "db_change db db' \<Longrightarrow> m1_ok db \<Longrightarrow> m1_ok db'"
  unfolding m1_ok_def
  by (meson sessions_ok_change references_ok_change withdrawals_ok_change scopes_ok_change)

lemma m1_ok_empty: "m1_ok empty_db"
  by (simp add: m1_ok_def sessions_ok_def references_ok_def withdrawals_ok_def scopes_ok_def empty_db_def)

section \<open>Everything a run keeps\<close>

text \<open>A predicate on the tables that every change keeps is kept by every run of requests.\<close>

locale table_invariant =
  fixes I :: "m1_db \<Rightarrow> bool"
  assumes change: "db_change db db' \<Longrightarrow> m1_ok db \<Longrightarrow> I db \<Longrightarrow> I db'"
begin

lemma changes: "db_change\<^sup>*\<^sup>* db db' \<Longrightarrow> m1_ok db \<Longrightarrow> I db \<Longrightarrow> I db' \<and> m1_ok db'"
  by (induction rule: rtranclp_induct) (auto intro: change m1_ok_change)

lemma run:
  assumes "real_clock (p_env c)" and "m1_ok (m1_db s)" and "I (m1_db s)"
  shows "I (m1_db (fold (m1_handle c) rs s)) \<and> m1_ok (m1_db (fold (m1_handle c) rs s))"
  using assms
proof (induction rs arbitrary: s)
  case (Cons r rs)
  from changes [OF m1_handle_changes [OF Cons.prems(1), of s r]] Cons.prems
  have "I (m1_db (m1_handle c r s))" "m1_ok (m1_db (m1_handle c r s))" by simp_all
  with Cons.IH Cons.prems(1) show ?case by simp
qed simp

end

interpretation any_tables: table_invariant "\<lambda>_. True"
  by unfold_locales simp

interpretation withdrawn_participant: table_invariant "\<lambda>db. has_receipt db pid" for pid
  by unfold_locales (rule has_receipt_change)

interpretation stored_response: table_invariant "\<lambda>db. find_idempotency db scope key = Some row" for scope key row
  by unfold_locales (rule rows_kept(2))

end
