(* ===== verification/M1_Log.thy ===== *)
theory M1_Log
  imports M1_Properties
begin

text \<open>
  The event log of the database implements the same interface as the in-memory log: numbers from 1
  without gaps, reading after a number gives exactly the later events. The state invariant is kept by
  every table change, so by every run.
\<close>

section \<open>The stored log of a session\<close>

definition log_of :: "m1_db \<Rightarrow> string \<Rightarrow> event_record list" where
  "log_of db sid = map ev_record (filter (\<lambda>e. ev_session_id e = sid) (db_events db))"

definition events_ok :: "m1_db \<Rightarrow> bool" where
  "events_ok db \<longleftrightarrow>
     (\<forall>r \<in> set (db_sessions db). 0 \<le> se_event_seq r \<and> map er_seq (log_of db (se_id r)) = [1..se_event_seq r]) \<and>
     ev_session_id ` set (db_events db) \<subseteq> se_id ` set (db_sessions db)"

definition db_last_seq :: "m1_db \<Rightarrow> string \<Rightarrow> int" where
  "db_last_seq db sid = (case find_session db sid of None \<Rightarrow> 0 | Some r \<Rightarrow> se_event_seq r)"

lemma events_ok_same:
  "events_ok db \<Longrightarrow> db_sessions db' = db_sessions db \<Longrightarrow> db_events db' = db_events db \<Longrightarrow> events_ok db'"
  by (simp add: events_ok_def log_of_def)

lemma events_ok_update:
  assumes "events_ok db" and f: "\<And>r. se_id (f r) = se_id r" "\<And>r. se_event_seq (f r) = se_event_seq r"
    and db': "db_sessions db' = update_where c f (db_sessions db)" "db_events db' = db_events db"
  shows "events_ok db'"
proof -
  have log: "log_of db' sid = log_of db sid" for sid by (simp add: log_of_def db')
  have "0 \<le> se_event_seq r' \<and> map er_seq (log_of db (se_id r')) = [1..se_event_seq r']"
    if "r' \<in> set (update_where c f (db_sessions db))" for r'
    using that by (cases rule: update_whereE) (use assms(1) f in \<open>auto simp: events_ok_def\<close>)
  with assms(1) show ?thesis by (simp add: events_ok_def log db' image_update_where f)
qed

lemma log_of_no_events: "sid \<notin> ev_session_id ` set (db_events db) \<Longrightarrow> log_of db sid = []"
  by (auto simp: log_of_def filter_empty_conv)

lemma events_ok_insert_session:
  assumes "events_ok db" and "insert_session r t db = (Inr (), db')" and "se_event_seq r = 0"
  shows "events_ok db'"
proof -
  have db': "db' = db\<lparr>db_sessions := db_sessions db @ [r]\<rparr>" and new: "se_id r \<notin> se_id ` set (db_sessions db)"
    using assms(2) by (auto simp: insert_session_def db_insert_Inr)
  have "log_of db (se_id r) = []" using assms(1) new by (intro log_of_no_events) (auto simp: events_ok_def)
  moreover have "log_of db' sid = log_of db sid" for sid by (simp add: log_of_def db')
  ultimately show ?thesis using assms(1,3) by (auto simp: events_ok_def db')
qed

lemma events_ok_append:
  assumes "events_ok db" and "db_append_event t sid k p db = (Inr e, db')"
  shows "events_ok db'"
proof (rule append_event_tables [OF assms(2)])
  fix row assume row: "find_session db sid = Some row" and e: "e = \<lparr>er_seq = se_event_seq row + 1, er_type = k, er_payload = p\<rparr>"
    and db': "db' = (update_sessions (\<lambda>r. se_id r = sid) (\<lambda>r. r\<lparr>se_event_seq := se_event_seq row + 1\<rparr>) db)
       \<lparr>db_events := db_events db @ [\<lparr>ev_session_id = sid, ev_record = e\<rparr>]\<rparr>"
  have in_db: "row \<in> set (db_sessions db)" "se_id row = sid" using row by (auto simp: find_session_def dest: find_SomeD)
  have log: "log_of db' i = log_of db i @ (if i = sid then [e] else [])" for i by (simp add: log_of_def db')
  have "0 \<le> se_event_seq r' \<and> map er_seq (log_of db' (se_id r')) = [1..se_event_seq r']"
    if "r' \<in> set (update_where (\<lambda>r. se_id r = sid) (\<lambda>r. r\<lparr>se_event_seq := se_event_seq row + 1\<rparr>) (db_sessions db))" for r'
    using that
  proof (cases rule: update_whereE)
    case (1 r)
    have "0 \<le> se_event_seq row" "map er_seq (log_of db sid) = [1..se_event_seq row]"
      using assms(1) in_db by (auto simp: events_ok_def)
    with 1 show ?thesis by (simp add: log e upto_rec2)
  qed (use assms(1) in \<open>auto simp: events_ok_def log\<close>)
  moreover have "se_id ` set (db_sessions db') = se_id ` set (db_sessions db)"
    by (simp add: db' update_sessions_def image_update_where)
  ultimately show ?thesis
    using assms(1) in_db unfolding events_ok_def by (auto simp: db' update_sessions_def)
qed

lemma events_ok_change: "db_change db db' \<Longrightarrow> events_ok db \<Longrightarrow> events_ok db'"
proof (induction rule: db_change.induct)
  case (event t sid k p db e db')
  then show ?case using events_ok_append by blast
next
  case (demo sid d t db db')
  show ?case by (rule events_ok_insert_session [OF demo(2,1)]) (simp add: new_session_row_def)
next
  case (research sid d st pid t db db' p)
  show ?case by (rule events_ok_insert_session [OF research(5,1)]) (simp add: new_session_row_def)
next
  case (submitted db sid)
  then show ?case by (rule events_ok_update) (simp_all add: update_sessions_def)
next
  case (action db sid row a st x)
  then show ?case by (intro events_ok_update [OF action(4)]) (simp_all add: update_sessions_def)
next
  case (confirm db sid)
  then show ?case by (rule events_ok_update) (simp_all add: update_sessions_def)
next
  case (mark db pid t1 t2)
  then show ?case by (rule events_ok_update) (simp_all add: update_sessions_def mark_withdrawn_def)
next
  case (recover db sid r st)
  then show ?case by (intro events_ok_update [OF recover(3)]) (simp_all add: update_sessions_def)
next
  case (task w t db db')
  then show ?case by (intro events_ok_same [of db db']) (auto simp: statement_defs split: if_splits)
qed (auto elim!: events_ok_same simp: statement_defs)

interpretation stored_log: table_invariant events_ok
  by unfold_locales (rule events_ok_change)

section \<open>The interface of the event log\<close>

lemma db_events_after_log: "0 \<le> n \<Longrightarrow> db_events_after db sid n = sort_key er_seq (filter (\<lambda>e. n < er_seq e) (log_of db sid))"
proof -
  have "filter (\<lambda>r. ev_session_id r = sid \<and> n < er_seq (ev_record r)) xs =
      filter (\<lambda>r. n < er_seq (ev_record r)) (filter (\<lambda>r. ev_session_id r = sid) xs)" for xs
    by (simp add: conj_commute)
  then show ?thesis by (simp add: db_events_after_def log_of_def filter_map o_def)
qed

lemma db_events_after_all:
  assumes "map er_seq (log_of db sid) = [1..n]"
  shows "db_events_after db sid 0 = log_of db sid"
proof -
  have "set (map er_seq (log_of db sid)) = {1..n}" unfolding assms by simp
  then have "\<forall>e \<in> set (log_of db sid). 0 < er_seq e" by force
  then have "filter (\<lambda>e. 0 < er_seq e) (log_of db sid) = log_of db sid" by (simp add: filter_id_conv)
  moreover have "sorted (map er_seq (log_of db sid))" unfolding assms by simp
  ultimately show ?thesis by (simp add: db_events_after_log sorted_sort_id sort_key_id_if_sorted)
qed

lemma log_of_session:
  assumes "events_ok db"
  shows "map er_seq (log_of db sid) = [1..db_last_seq db sid]"
proof (cases "find_session db sid")
  case None
  then have "sid \<notin> se_id ` set (db_sessions db)" by (auto simp: find_session_def find_None_iff)
  then have "log_of db sid = []" using assms by (intro log_of_no_events) (auto simp: events_ok_def)
  with None show ?thesis by (simp add: db_last_seq_def)
next
  case (Some r)
  then have "r \<in> set (db_sessions db)" "se_id r = sid" by (auto simp: find_session_def dest: find_SomeD)
  with assms Some show ?thesis by (auto simp: db_last_seq_def events_ok_def)
qed

lemma session_row_update:
  assumes "\<And>r. se_id (f r) = se_id r"
  shows "find_session (update_sessions (\<lambda>r. se_id r = sid) f db) sid' =
    (if sid' = sid then map_option f (find_session db sid) else find_session db sid')"
proof -
  have "find (\<lambda>r. se_id r = sid') (update_where (\<lambda>r. se_id r = sid) f xs) =
      (if sid' = sid then map_option f (find (\<lambda>r. se_id r = sid) xs) else find (\<lambda>r. se_id r = sid') xs)" for xs
    by (induction xs) (auto simp: update_where_def assms)
  then show ?thesis by (simp add: find_session_def update_sessions_def)
qed

interpretation db_log: event_log "\<lambda>sid k p. rollback (db_append_event t sid k p)" db_events_after db_last_seq events_ok for t
proof (unfold_locales, goal_cases)
  case (1 s sid k p)
  then show ?case
    by (cases "db_append_event t sid k p s") (auto simp: rollback_def dest: events_ok_append split: sum.split)
next
  case (2 sid k p s x s')
  then show ?case by (auto simp: rollback_def split: prod.splits sum.splits)
next
  case (3 s sid k p e s')
  then have "db_append_event t sid k p s = (Inr e, s')" by (auto simp: rollback_def split: prod.splits sum.splits)
  then show ?case
    by (rule append_event_tables) (auto simp: db_last_seq_def find_session_def [of "_\<lparr>db_events := _\<rparr>"] session_row_update
        simp flip: find_session_def)
next
  case (4 s sid k p e s')
  then have run: "db_append_event t sid k p s = (Inr e, s')" by (auto simp: rollback_def split: prod.splits sum.splits)
  then have "log_of s' sid = log_of s sid @ [e]" by (rule append_event_tables) (simp add: log_of_def)
  then show ?case
    using log_of_session [OF 4(1), of sid] log_of_session [OF events_ok_append [OF 4(1) run], of sid]
    by (simp add: db_events_after_all)
next
  case (5 sid k p s e s' sid' n)
  then have run: "db_append_event t sid k p s = (Inr e, s')" by (auto simp: rollback_def split: prod.splits sum.splits)
  then have "db_events_after s' sid' n = db_events_after s sid' n"
    using 5(2) by (auto simp: db_events_after_def elim!: append_event_tables)
  moreover from run have "find_session s' sid' = find_session s sid'"
    by (rule append_event_tables) (use 5(2) in \<open>simp add: find_session_def [of "_\<lparr>db_events := _\<rparr>"] session_row_update
        flip: find_session_def\<close>)
  ultimately show ?case by (simp add: db_last_seq_def)
next
  case (6 n s sid)
  have "filter (\<lambda>e. n < er_seq e) (filter (\<lambda>e. 0 < er_seq e) xs) = filter (\<lambda>e. n < er_seq e) xs" for xs :: "event_record list"
    using 6 by (auto intro!: filter_cong)
  then show ?case using 6 by (simp add: db_events_after_log filter_sort del: filter_filter)
next
  case (7 s sid)
  then show ?case using log_of_session [OF 7, of sid] by (simp add: db_events_after_all)
qed

end
