(* ===== verification/M1_Guarantees.thy ===== *)
theory M1_Guarantees
  imports M1_Log
begin

text \<open>
  What the research workspace promises: its requests refine the table changes, withdrawal is final, a
  research session never records, mutations are idempotent and atomic, the stored log has no gaps,
  start-up recovery leaves no interrupted write.
\<close>

section \<open>A concrete workspace\<close>

definition m1_fresh :: m1_backend where
  "m1_fresh = m0_backend.extend m0_fresh (m1_backend.fields empty_db True)"

definition m1_demo_env :: py_env where
  "m1_demo_env = \<lparr>env_clock = \<lambda>_. Finite 0, env_monotonic = \<lambda>_. Finite 0, env_token = \<lambda>n _. replicate n CHR ''t''\<rparr>"

text \<open>A digest that keeps the first value of the request: enough to tell the examples' requests apart.\<close>

definition m1_demo_digest :: "pydict \<Rightarrow> string" where
  "m1_demo_digest d = (case d of (_, JStr v) # _ \<Rightarrow> v | _ \<Rightarrow> [])"

definition m1_demo :: m1_params where
  "m1_demo = \<lparr>p_digest = m1_demo_digest, p_str = \<lambda>_. ''str'', p_parse_date = \<lambda>_. None, p_today = \<lambda>_. Inr 0,
     p_utc = \<lambda>_. Inr ''utc'', p_fixture = None, p_is_absolute = \<lambda>_. False, p_fs = Inr, p_move = \<lambda>_ _. None, p_env = m1_demo_env\<rparr>"

definition m1_demo_run :: "m1_request list \<Rightarrow> m1_backend \<Rightarrow> m1_backend" where
  "m1_demo_run rs s = fold (m1_handle m1_demo) rs s"

definition m1_demo_start :: "m1_request list" where
  "m1_demo_start = [M1Start ''UNVERIFIED'' ''UNVERIFIED'', M1Study ''c'' None, M1Participant ''study-'' None,
     M1Research ''study-'' ''participant-t'' None None None,
     M1Artifact ''x'' ''research-ttt'' [], M1Artifact ''y'' ''research-ttt'' [''x'']]"

lemma real_clock_demo: "real_clock (p_env m1_demo)"
  by (simp add: real_clock_def m1_demo_def m1_demo_env_def)

lemma m1_fresh_db: "m1_db m1_fresh = empty_db"
  by (simp add: m1_fresh_def m0_backend.defs m0_fresh_def rv_state.defs rv_fresh_def m1_backend.defs)

lemma m1_demo_ok: "m1_ok (m1_db (m1_demo_run rs m1_fresh))"
  unfolding m1_demo_run_def using any_tables.run [OF real_clock_demo] by (simp add: m1_fresh_db m1_ok_empty)

section \<open>Refinement\<close>

text \<open>
  Every request of the workspace, whether it returns or raises, changes the tables by a
  sequence of the guarded changes of the specification \<open>db_change\<close>, provided the clock is never NaN.
\<close>
lemma m1_requests_refine:
  assumes "real_clock (p_env c)"
  shows "db_change\<^sup>*\<^sup>* (m1_db s) (m1_db (snd (m1_call c r s)))"
  using safeD [OF safe_call [OF assms]] .

lemma m1_requests_refine_witness:
  "db_change\<^sup>*\<^sup>* empty_db (m1_db (snd (m1_call m1_demo (M1Study ''c'' None) m1_fresh)))"
  using m1_requests_refine [OF real_clock_demo, of m1_fresh "M1Study ''c'' None"] by (simp add: m1_fresh_db)

section \<open>What a mutation does\<close>

lemma publish_m1_db: "publish sid ev s = (Inr u, s') \<Longrightarrow> m1_db s' = m1_db s"
  by (auto simp: publish_def py_run split: option.splits)

lemma mutation_cases:
  assumes "mutation digest env sid key fallback scope payload operation s = (Inr x, s')"
  obtains (replay) k row where "checked_key key fallback = Inr k" "m1_open s" "find_idempotency (m1_db s) scope k = Some row"
      "id_request_hash row = digest payload" "id_response row = JObj x" "s' = s"
    | (fresh) k ev z where "checked_key key fallback = Inr k" "m1_open s" "find_idempotency (m1_db s) scope k = None"
      "operation s = (Inr (x, ev), z)" "find_idempotency (m1_db z) scope k = None"
      "m1_db s' = (m1_db z)\<lparr>db_idempotency := db_idempotency (m1_db z) @
        [\<lparr>id_scope = scope, id_key = k, id_request_hash = digest payload, id_response = JObj x\<rparr>]\<rparr>"
proof -
  from assms obtain k ev z where k: "checked_key key fallback = Inr k"
    and m: "mutate digest env scope k payload operation s = (Inr (x, ev), z)" and p: "publish sid ev z = (Inr (), s')"
    by (auto simp: mutation_def py_Inr_iffs py_lift_def)
  have "m1_open s" using m by (auto simp: mutate_def transaction_def split: if_splits)
  show ?thesis
  proof (cases "find_idempotency (m1_db s) scope k")
    case (Some row)
    with m p \<open>m1_open s\<close> k show ?thesis
      by (intro replay [of k row])
        (auto simp: mutate_def transaction_def py_Inr_iffs db_get_def py_run publish_def split: if_splits json.splits)
  next
    case None
    with m \<open>m1_open s\<close> obtain y where "operation s = (Inr (x, ev), y)"
      and "insert_idempotency \<lparr>id_scope = scope, id_key = k, id_request_hash = digest payload, id_response = JObj x\<rparr>
        (env_clock env (clock_reads y)) (m1_db y) = (Inr (), m1_db z)"
      by (auto simp: mutate_def transaction_def py_Inr_iffs db_get_def db_op_Inr read_clock_def split: prod.splits sum.splits)
    with None k \<open>m1_open s\<close> publish_m1_db [OF p] show ?thesis
      by (intro fresh [of k ev y]) (auto simp: insert_idempotency_def db_insert_Inr)
  qed
qed

section \<open>Withdrawal\<close>

lemma research_session_Inr: "research_session sid s = (Inr v, s') \<Longrightarrow> s' = s \<and> m1_open s"
  by (auto simp: research_session_def py_Inr_iffs db_get_def require_open_def split: if_splits option.splits)

lemma withdraw_runs_mutation:
  assumes "withdraw digest env sid key s = (Inr x, s')" and "find_session (m1_db s) sid = Some r" and "se_participant_id r = Some pid"
  obtains payload pseudo where "mutation digest env sid key (''withdraw-'' @ pid) (''research-withdraw:'' @ pid) payload
      (withdraw_operation env sid pid pseudo) s = (Inr x, s')"
proof -
  obtain v z where "research_session sid s = (Inr v, z)"
    using assms(1) unfolding withdraw_def by (elim py_bind_InrD)
  with research_session_Inr [OF this] have v: "research_session sid s = (Inr v, s)" by simp
  show ?thesis
    using assms(1-3) by (intro that) (auto simp: withdraw_def py_bind_def [of "research_session sid"] v py_Inr_iffs db_get_def)
qed

lemma withdraw_receipt:
  assumes "withdraw digest env sid key s = (Inr x, s')" and "find_session (m1_db s) sid = Some r"
    and "se_participant_id r = Some pid" and "scopes_ok (m1_db s)"
  shows "has_receipt (m1_db (s' :: m1_backend)) pid"
proof -
  from withdraw_runs_mutation [OF assms(1-3)] obtain pseudo payload where
    run: "mutation digest env sid key (''withdraw-'' @ pid) (''research-withdraw:'' @ pid) payload
      (withdraw_operation env sid pid pseudo) s = (Inr x, s')" .
  then show ?thesis
  proof (cases rule: mutation_cases)
    case (replay k row)
    then have row: "row \<in> set (db_idempotency (m1_db s))" "id_scope row = ''research-withdraw:'' @ pid"
      by (auto simp: find_idempotency_def dest: find_SomeD)
    with assms(4) replay(6) show ?thesis by (auto simp: scopes_ok_def)
  next
    case (fresh k ev z)
    from withdraw_operation_receipt [OF fresh(4)] fresh(6) show ?thesis by (simp add: has_receipt_def)
  qed
qed

lemma withdrawn_closed_ok: "m1_ok db \<Longrightarrow> has_receipt db pid \<Longrightarrow> withdrawn_closed db pid"
  by (auto simp: m1_ok_def withdrawals_ok_def has_receipt_def)

text \<open>
  Claim C7. Withdrawal is final. Once \<open>withdraw\<close> has returned for a session of a participant, then after
  any further requests (restarts and recovery included) the participant is withdrawn, all their
  sessions are WITHDRAWN and blocked, and every artifact of those sessions and everything derived from
  them is INVALIDATED.
\<close>
theorem withdrawal_is_final:
  assumes "real_clock (p_env c)" and "m1_ok (m1_db s)"
    and "find_session (m1_db s) sid = Some r" and "se_participant_id r = Some pid"
    and "withdraw (p_digest c) (p_env c) sid key s = (Inr response, s')"
  shows "withdrawn_closed (m1_db (fold (m1_handle c) rs s')) pid \<and> has_receipt (m1_db (fold (m1_handle c) rs s')) pid"
proof -
  have "db_change\<^sup>*\<^sup>* (m1_db s) (m1_db s')"
    using safeD [OF safe_withdraw [OF assms(1)], of s "p_digest c" sid key] assms(5) by simp
  with assms(2) have "m1_ok (m1_db s')" using any_tables.changes by blast
  moreover have "has_receipt (m1_db s') pid"
    using withdraw_receipt [OF assms(5,3,4)] assms(2) by (simp add: m1_ok_def)
  ultimately show ?thesis using withdrawn_participant.run [OF assms(1)] withdrawn_closed_ok by blast
qed

definition m1_demo_withdrawn :: m1_backend where
  "m1_demo_withdrawn = snd (withdraw m1_demo_digest m1_demo_env ''research-ttt'' None (m1_demo_run m1_demo_start m1_fresh))"

theorem withdrawal_is_final_witness:
  "withdrawn_closed (m1_db (m1_demo_run [M1Artifact ''z'' ''research-ttt'' [], M1Dependency ''y'' ''x''] m1_demo_withdrawn)) ''participant-t'' \<and>
   ar_status ` set (db_artifacts (m1_db m1_demo_withdrawn)) = {INVALIDATED}"
proof -
  let ?s = "m1_demo_run m1_demo_start m1_fresh"
  have "(case fst (withdraw m1_demo_digest m1_demo_env ''research-ttt'' None ?s) of Inr _ \<Rightarrow> True | Inl _ \<Rightarrow> False) \<and>
      map_option se_participant_id (find_session (m1_db ?s) ''research-ttt'') = Some (Some ''participant-t'') \<and>
      ar_status ` set (db_artifacts (m1_db m1_demo_withdrawn)) = {INVALIDATED}"
    by code_simp
  then obtain x r where run: "withdraw (p_digest m1_demo) (p_env m1_demo) ''research-ttt'' None ?s = (Inr x, m1_demo_withdrawn)"
    and r: "find_session (m1_db ?s) ''research-ttt'' = Some r" "se_participant_id r = Some ''participant-t''"
    and st: "ar_status ` set (db_artifacts (m1_db m1_demo_withdrawn)) = {INVALIDATED}"
    by (auto simp: m1_demo_def m1_demo_withdrawn_def split: sum.splits) (metis prod.collapse)
  from withdrawal_is_final [OF real_clock_demo m1_demo_ok r run, of "[M1Artifact ''z'' ''research-ttt'' [], M1Dependency ''y'' ''x'']"] st
  show ?thesis unfolding m1_demo_run_def by blast
qed


lemma withdrawn_join:
  assumes "m1_ok db" and "has_receipt db pid" and "find_session db sid = Some r" and "se_participant_id r = Some pid"
  obtains p where "research_join db sid = Some (r, p)" "se_kind r = RESEARCH" "pa_withdrawn_at p \<noteq> None"
proof -
  have "pid \<in> pa_id ` set (db_participants db)" using assms(1,2) by (auto simp: m1_ok_def references_ok_def has_receipt_def)
  then obtain p where p: "find_participant db pid = Some p"
    by (cases "find_participant db pid") (auto simp: find_participant_def find_None_iff)
  then have "p \<in> set (db_participants db)" "pa_id p = pid" by (auto simp: find_participant_def dest: find_SomeD)
  with withdrawn_closed_ok [OF assms(1,2)] have w: "pa_withdrawn_at p \<noteq> None" by (simp add: withdrawn_closed_def)
  have "r \<in> set (db_sessions db)" using assms(3) by (auto simp: find_session_def dest: find_SomeD)
  then have "se_kind r = RESEARCH" using assms(1,4) by (auto simp: m1_ok_def sessions_ok_def)
  then show ?thesis using p w assms(3,4) by (intro that [of p]) (auto simp: research_join_def session_participant_def)
qed

text \<open>
  A withdrawn participant's records are frozen: for every session of the participant, registering
  an artifact, confirming consent or opening a write is refused with an error and changes nothing.
\<close>
lemma withdrawn_session_refuses:
  assumes "m1_ok (m1_db s)" and "has_receipt (m1_db s) pid" and "m1_open s"
    and "find_session (m1_db s) sid = Some r" and "se_participant_id r = Some pid"
    and "refused = InvalidTransition ''Withdrawn or blocked research records cannot be mutated''"
  shows "register_artifact env aid sid parents s = (Inl refused, s) \<and>
    confirm_operator_consent digest env sid rid version key s = (Inl refused, s) \<and>
    create_write_intent is_absolute fs env sid path s = (Inl refused, s)"
proof -
  from withdrawn_join [OF assms(1,2,4,5)] obtain p where "research_join (m1_db s) sid = Some (r, p)" "se_kind r = RESEARCH"
    "pa_withdrawn_at p \<noteq> None" .
  then have "mutable_research sid s = (Inl refused, s)"
    using assms(3) by (simp add: mutable_research_def require_mutable_research_def py_run require_open_def db_op_def assms(6))
  then show ?thesis
    by (simp add: register_artifact_def confirm_operator_consent_def create_write_intent_def py_then_def py_bind_def)
qed

lemma withdrawn_session_refuses_witness:
  "register_artifact m1_demo_env ''z'' ''research-ttt'' [] m1_demo_withdrawn =
    (Inl (InvalidTransition ''Withdrawn or blocked research records cannot be mutated''), m1_demo_withdrawn)"
proof -
  have "(let db = m1_db m1_demo_withdrawn in m1_open m1_demo_withdrawn \<and> has_receipt db ''participant-t'' \<and>
      map_option se_participant_id (find_session db ''research-ttt'') = Some (Some ''participant-t''))"
    by code_simp
  then obtain r where "m1_open m1_demo_withdrawn" "has_receipt (m1_db m1_demo_withdrawn) ''participant-t''"
    "find_session (m1_db m1_demo_withdrawn) ''research-ttt'' = Some r" "se_participant_id r = Some ''participant-t''"
    by (auto simp: Let_def)
  moreover have "db_change\<^sup>*\<^sup>* (m1_db (m1_demo_run m1_demo_start m1_fresh)) (m1_db m1_demo_withdrawn)"
    using safeD [OF safe_withdraw] real_clock_demo unfolding m1_demo_withdrawn_def by (simp add: m1_demo_def)
  then have "m1_ok (m1_db m1_demo_withdrawn)" using any_tables.changes m1_demo_ok by blast
  ultimately show ?thesis by (simp add: withdrawn_session_refuses)
qed

text \<open>
  Claim C13. The withdrawal sweep is complete and exact: the rounds of \<open>lineage_of\<close> reach precisely the
  artifacts of the participant's sessions and those derived from them through any chain of recorded
  dependencies.
\<close>
theorem withdrawal_sweep_exact:
  "set (lineage_of db pid) = (derives (db_dependencies db))\<^sup>* `` roots_of db pid"
  by (rule lineage_is_closure)

section \<open>Research sessions never record\<close>

text \<open>
  Claim C12. No run of requests puts a research session into RECORDING (or any other state than DRAFT,
  CONSENT_CONFIRMED, FAILED or WITHDRAWN): the check made when a database is opened again succeeds on
  everything the workspace writes, and the readiness of a session is never positive.
\<close>
theorem research_never_records:
  assumes "real_clock (p_env c)" and "m1_ok (m1_db s)" and "t = fold (m1_handle c) rs s"
  shows "no_recording_research (m1_db t) \<and>
    (\<forall>r \<in> set (db_sessions (m1_db t)). se_kind r = RESEARCH \<longrightarrow> se_state r \<in> {DRAFT, CONSENT_CONFIRMED, FAILED, WITHDRAWN}) \<and>
    (\<forall>sid ready gates t'. readiness sid t = (Inr (ready, gates), t') \<longrightarrow>
       \<not> ready \<and> RESEARCH_COLLECTION_NOT_IMPLEMENTED \<in> set gates \<and> t' = t)"
proof -
  have "sessions_ok (m1_db t)" using any_tables.run [OF assms(1,2), of rs] assms(3) by (simp add: m1_ok_def)
  then have st: "\<forall>r \<in> set (db_sessions (m1_db t)). se_kind r = RESEARCH \<longrightarrow> se_state r \<in> {DRAFT, CONSENT_CONFIRMED, FAILED, WITHDRAWN}"
    by (simp add: sessions_ok_def)
  then have "no_recording_research (m1_db t)" by (auto simp: no_recording_research_def list_ex_iff)
  moreover have "readiness sid t = (Inr (ready, gates), t') \<Longrightarrow>
       \<not> ready \<and> RESEARCH_COLLECTION_NOT_IMPLEMENTED \<in> set gates \<and> t' = t" for sid ready gates t'
    by (auto simp: readiness_def py_Inr_iffs require_open_def db_get_def readiness_gates_def
        split: if_splits option.splits prod.splits)
  ultimately show ?thesis using st by blast
qed

theorem research_never_records_witness:
  "no_recording_research (m1_db (m1_demo_run (m1_demo_start @ [M1Action ''research-ttt'' ''start'']) m1_fresh)) \<and>
   length (db_sessions (m1_db (m1_demo_run m1_demo_start m1_fresh))) = 1"
proof -
  have "length (db_sessions (m1_db (m1_demo_run m1_demo_start m1_fresh))) = 1" by code_simp
  moreover have "m1_ok (m1_db m1_fresh)" by (simp add: m1_fresh_db m1_ok_empty)
  ultimately show ?thesis
    using research_never_records [OF real_clock_demo _ refl, of m1_fresh "m1_demo_start @ [M1Action ''research-ttt'' ''start'']"]
    unfolding m1_demo_run_def by blast
qed

section \<open>Idempotency and atomicity\<close>

text \<open>
  Claim C8. A mutation is idempotent for ever: after it returned, and after any further requests on the
  open store, the same scope, key and payload give the same response and change nothing, without running the
  operation again; another payload under the same key is refused as a conflict.
\<close>
theorem m1_mutation_idempotent:
  assumes "mutation digest env sid key fallback scope payload operation s = (Inr x, s1)"
    and "real_clock (p_env c)" and "m1_ok (m1_db s1)" and "t = fold (m1_handle c) rs s1" and "m1_open t"
  shows "mutation digest env' sid' key fallback scope payload operation' t = (Inr x, t) \<and>
    (digest payload' \<noteq> digest payload \<longrightarrow> mutation digest env' sid' key fallback scope payload' operation' t =
      (Inl (IdempotencyConflict ''Idempotency key was reused with a different request payload''), t))"
proof -
  from assms(1) obtain k row where k: "checked_key key fallback = Inr k" and "find_idempotency (m1_db s1) scope k = Some row"
    and row: "id_request_hash row = digest payload" "id_response row = JObj x"
  proof (cases rule: mutation_cases)
    case (fresh k ev z)
    have "find_idempotency (m1_db s1) scope k = Some \<lparr>id_scope = scope, id_key = k, id_request_hash = digest payload, id_response = JObj x\<rparr>"
      using fresh(5,6) by (simp add: find_idempotency_def find_append_None)
    with fresh(1) show ?thesis by (intro that) auto
  qed (use that in blast)
  then have "find_idempotency (m1_db t) scope k = Some row" using stored_response.run [OF assms(2,3)] assms(4) by simp
  with k row assms(5) show ?thesis
    by (auto simp: mutation_def mutate_def transaction_def py_run db_get_def publish_def)
qed

theorem m1_mutation_idempotent_witness:
  "\<exists>x t. t = m1_demo_run [M1Participant ''study-'' None] (snd (create_study m1_demo_digest m1_demo_env ''c'' None m1_fresh)) \<and>
    fst (create_study m1_demo_digest m1_demo_env ''c'' None m1_fresh) = Inr x \<and>
    create_study m1_demo_digest m1_demo_env ''c'' None t = (Inr x, t)"
proof -
  let ?m = "create_study m1_demo_digest m1_demo_env ''c'' None"
  let ?t = "m1_demo_run [M1Participant ''study-'' None] (snd (?m m1_fresh))"
  have e: "(case fst (?m m1_fresh) of Inr _ \<Rightarrow> True | Inl _ \<Rightarrow> False) \<and> m1_open ?t" by code_simp
  then obtain x where x: "?m m1_fresh = (Inr x, snd (?m m1_fresh))" by (cases "?m m1_fresh") (auto split: sum.splits)
  have "m1_ok (m1_db (snd (?m m1_fresh)))"
    using any_tables.changes [OF safeD [OF safe_study]] by (simp add: m1_fresh_db m1_ok_empty)
  from m1_mutation_idempotent [OF x [unfolded create_study_def] real_clock_demo this [unfolded create_study_def] refl,
      of "[M1Participant ''study-'' None]" m1_demo_env "[]" "study_operation m1_demo_env ''c''"] e
  have "?m ?t = (Inr x, ?t)" unfolding create_study_def m1_demo_run_def by blast
  moreover have "fst (?m m1_fresh) = Inr x" by (metis x fst_conv)
  ultimately show ?thesis by blast
qed


text \<open>Operations that leave the tables as they were when they raise.\<close>

definition atomic :: "(m1_backend, 'a) pyop \<Rightarrow> bool" where
  "atomic m \<longleftrightarrow> (\<forall>s e s'. m s = (Inl e, s') \<longrightarrow> m1_db s' = m1_db s)"

definition reads_only :: "(m1_backend, 'a) pyop \<Rightarrow> bool" where
  "reads_only m \<longleftrightarrow> (\<forall>s. m1_db (snd (m s)) = m1_db s)"

definition never_raises :: "(m1_backend, 'a) pyop \<Rightarrow> bool" where
  "never_raises m \<longleftrightarrow> (\<forall>s e s'. m s \<noteq> (Inl e, s'))"

lemma reads_only_bind: "reads_only m \<Longrightarrow> (\<And>x. reads_only (f x)) \<Longrightarrow> reads_only (py_bind m f)"
  unfolding reads_only_def by (auto simp: py_bind_def split: prod.split sum.split) (metis snd_conv)+

lemma reads_only_basic:
  "reads_only (py_ret x)" "reads_only (py_raise e)" "reads_only (py_lift r)" "reads_only (py_get g)" "reads_only (py_guard b e)"
  "reads_only (db_get h)" "reads_only (read_clock env)" "reads_only (token_urlsafe env n)" "reads_only require_open"
  by (auto simp: reads_only_def py_run db_get_def require_open_def)

lemma reads_only_cases:
  "(x = None \<Longrightarrow> reads_only m) \<Longrightarrow> (\<And>y. x = Some y \<Longrightarrow> reads_only (f y)) \<Longrightarrow> reads_only (case x of None \<Rightarrow> m | Some y \<Rightarrow> f y)"
  "(\<And>a b. z = (a, b) \<Longrightarrow> reads_only (g a b)) \<Longrightarrow> reads_only (case z of (a, b) \<Rightarrow> g a b)"
  by (auto split: option.split prod.split)

lemma reads_only_research: "reads_only (research_session sid)" "reads_only (mutable_research sid)"
  by (auto simp: reads_only_def research_session_def mutable_research_def require_mutable_research_def require_open_def db_op_def py_run
      db_get_def split: option.split prod.split)

lemma atomic_reads: "reads_only m \<Longrightarrow> atomic m"
  unfolding atomic_def reads_only_def by (metis snd_conv)

lemma atomic_transaction: "atomic (transaction m)"
  by (auto simp: atomic_def transaction_def split: if_splits prod.splits sum.splits)

lemma atomic_bind: "reads_only m \<Longrightarrow> (\<And>x. atomic (f x)) \<Longrightarrow> atomic (py_bind m f)"
  unfolding atomic_def reads_only_def
  by (auto simp: py_bind_def split: prod.splits sum.splits) (metis snd_conv)+

lemma atomic_bind_total: "atomic m \<Longrightarrow> (\<And>x. never_raises (f x)) \<Longrightarrow> atomic (py_bind m f)"
  unfolding atomic_def never_raises_def by (auto simp: py_bind_def split: prod.splits sum.splits)

lemma atomic_then: "reads_only m \<Longrightarrow> atomic k \<Longrightarrow> atomic (py_then m k)"
  by (simp add: py_then_def atomic_bind)

lemma atomic_cases:
  "(x = None \<Longrightarrow> atomic m) \<Longrightarrow> (\<And>y. x = Some y \<Longrightarrow> atomic (f y)) \<Longrightarrow> atomic (case x of None \<Rightarrow> m | Some y \<Rightarrow> f y)"
  "(\<And>a b. z = (a, b) \<Longrightarrow> atomic (g a b)) \<Longrightarrow> atomic (case z of (a, b) \<Rightarrow> g a b)"
  by (auto split: option.split prod.split)

lemma never_raises_publish: "never_raises (py_then (publish sid ev) (py_ret x))"
  by (auto simp: never_raises_def publish_def py_run split: option.split)

lemma atomic_mutation: "atomic (mutation digest env sid key fallback scope payload operation)"
proof -
  have "never_raises (case z of (response, ev) \<Rightarrow> py_then (publish sid ev) (py_ret response))" for z :: "pydict \<times> pydict option"
    by (cases z) (simp add: never_raises_publish)
  then show ?thesis
    unfolding mutation_def mutate_def
    by (intro atomic_bind reads_only_basic atomic_bind_total [OF atomic_transaction])
qed

lemma atomic_dropped: "atomic m \<Longrightarrow> atomic (dropped m)"
  unfolding dropped_def by (rule atomic_bind_total) (simp_all add: never_raises_def py_ret_def)

lemmas atomic_intros = atomic_then atomic_bind reads_only_bind reads_only_basic reads_only_cases reads_only_research atomic_transaction atomic_mutation atomic_cases
  atomic_reads [OF reads_only_basic(2)]

text \<open>The three requests that run more than one transaction, or work after the commit.\<close>

fun several_steps :: "m1_request \<Rightarrow> bool" where
  "several_steps (M1Action _ _) = True"
| "several_steps (M1Replay _) = True"
| "several_steps (M1Start _ _) = True"
| "several_steps _ = False"


lemma atomic_create_session: "atomic (m1_create_session env)"
proof -
  have "m1_db s' = m1_db s" if "m1_create_session env s = (Inl e, s')" for s s' :: m1_backend and e
    using that
    by (auto simp: m1_create_session_def py_run transaction_def db_op_def insert_session_def db_insert_def new_session_row_def
        m1_record_def require_open_def db_get_def find_session_def find_None_iff
        split: if_splits option.splits prod.splits)
  then show ?thesis by (simp add: atomic_def)
qed

lemma atomic_dependency: "atomic (m1_add_dependency parent child)"
proof -
  have "atomic (db_op (add_dependency parent child) :: (m1_backend, unit) pyop)"
    by (auto simp: atomic_def db_op_def add_dependency_def rollback_def split: prod.splits sum.splits)
  then show ?thesis unfolding m1_add_dependency_def by (intro atomic_intros)
qed

lemma atomic_demo_event: "atomic (m1_append_demo_event env sid payload)"
  unfolding m1_append_demo_event_def m1_append_event_def
  by (intro atomic_bind_total [OF atomic_transaction] never_raises_publish)

lemma atomic_audit: "atomic (record_reviewer_audit env kind)"
  by (auto simp: atomic_def record_reviewer_audit_def transaction_def split: if_splits prod.splits sum.splits py_error.splits)

lemma reads_only_guards: "reads_only (py_then (py_guard b e) m) \<longleftrightarrow> b \<or> reads_only m"
  by (auto simp: reads_only_def py_run)

lemma atomic_operations:
  "atomic (m1_record_answer digest pystr env sid k payload)" "atomic (m1_submit_exam digest env sid k)"
  "atomic (create_study digest env code key)" "atomic (create_participant digest env study key)"
  "atomic (create_research_session digest parse_date today env study pid key ref end_date)"
  "atomic (confirm_operator_consent digest env sid rid version key)" "atomic (register_artifact env aid sid parents)"
  "atomic (withdraw digest env sid key)" "atomic (create_write_intent is_absolute fs env sid path)" "atomic store_close"
proof -
  show "atomic (create_research_session digest parse_date today env study pid key ref end_date)"
    unfolding create_research_session_def by (intro atomic_intros)
  show "atomic (withdraw digest env sid key)"
    unfolding withdraw_def by (intro atomic_intros)
  show "atomic store_close" by (simp add: atomic_def store_close_def py_mod_def)
qed (unfold m1_record_answer_def m1_submit_exam_def create_study_def create_participant_def confirm_operator_consent_def
    register_artifact_def create_write_intent_def, (intro atomic_intros)+)

text \<open>
  Claim C9. Failed requests change nothing: a request that raises leaves every table as it was. The exceptions
  are the demo replay and the start-up, which run several transactions, and the session action, which
  formats the snapshot after its commit.
\<close>
theorem failed_request_changes_nothing:
  assumes "m1_call c r s = (Inl e, s')" and "\<not> several_steps r"
  shows "m1_db s' = m1_db s"
proof -
  have "atomic (m1_call c r)"
    using assms(2)
    by (cases r) (simp_all add: atomic_dropped atomic_operations atomic_create_session atomic_demo_event atomic_dependency atomic_audit)
  with assms(1) show ?thesis by (simp add: atomic_def)
qed

theorem failed_request_changes_nothing_witness:
  "\<exists>e s'. m1_call m1_demo (M1Participant ''nobody'' None) m1_fresh = (Inl e, s') \<and> m1_db s' = empty_db"
proof -
  have "case fst (m1_call m1_demo (M1Participant ''nobody'' None) m1_fresh) of Inl _ \<Rightarrow> True | Inr _ \<Rightarrow> False" by code_simp
  then obtain e s' where run: "m1_call m1_demo (M1Participant ''nobody'' None) m1_fresh = (Inl e, s')"
    by (cases "m1_call m1_demo (M1Participant ''nobody'' None) m1_fresh") (auto split: sum.splits)
  have "m1_db s' = empty_db" using failed_request_changes_nothing [OF run] unfolding m1_fresh_db by simp
  with run show ?thesis by blast
qed

section \<open>The stored event log\<close>

text \<open>
  Claim C10. The stored log of every session has the numbers 1, 2, ... without gaps after any run of
  requests, the counter of the session is the last number, and reading after \<open>n\<close> gives exactly the events
  with the numbers above \<open>n\<close>, in order.
\<close>
theorem stored_log_gap_free:
  assumes "real_clock (p_env c)" and "m1_ok (m1_db s)" and "events_ok (m1_db s)" and "t = fold (m1_handle c) rs s" and "0 \<le> n"
  shows "map er_seq (db_events_after (m1_db t) sid n) = [n + 1..db_last_seq (m1_db t) sid]"
proof -
  have "events_ok (m1_db t)" using stored_log.run [OF assms(1-3)] assms(4) by simp
  then show ?thesis using assms(5) by (rule db_log.seqs_after)
qed

theorem stored_log_gap_free_witness:
  "map er_seq (db_events_after (m1_db (m1_demo_run [M1CreateSession, M1Action [] ''consent'', M1DemoEvent [] []] m1_fresh)) [] 0) = [1..2]"
proof -
  let ?rs = "[M1CreateSession, M1Action [] ''consent'', M1DemoEvent [] []]"
  have "events_ok (m1_db m1_fresh)" by (simp add: m1_fresh_db events_ok_def empty_db_def)
  moreover have "m1_ok (m1_db m1_fresh)" by (simp add: m1_fresh_db m1_ok_empty)
  moreover have "db_last_seq (m1_db (m1_demo_run ?rs m1_fresh)) [] = 2" by code_simp
  ultimately show ?thesis
    using stored_log_gap_free [OF real_clock_demo _ _ refl, of m1_fresh 0 ?rs "[]"] unfolding m1_demo_run_def by simp
qed


section \<open>Recovery\<close>

text \<open>What recovering the intents \<open>ws\<close> establishes for intents with the ids \<open>X\<close> and sessions with the ids \<open>Y\<close>.\<close>

definition settled :: "string set \<Rightarrow> string set \<Rightarrow> m1_db \<Rightarrow> bool" where
  "settled X Y db \<longleftrightarrow> (\<forall>i \<in> set (db_intents db). wi_id i \<in> X \<longrightarrow> wi_status i = INTENT_QUARANTINED) \<and>
     (\<forall>r \<in> set (db_sessions db). se_id r \<in> Y \<longrightarrow> se_collection_blocked r \<and> se_state r \<in> {FAILED, WITHDRAWN})"

lemma recover_intent_settles:
  assumes "recover_intent move w s = (Inr u, s')" and "settled X Y (m1_db s)"
  shows "settled (insert (wi_id w) X) (insert (wi_session_id w) Y) (m1_db s') \<and>
    set (map wi_id (db_intents (m1_db s'))) = set (map wi_id (db_intents (m1_db s))) \<and>
    (\<forall>i \<in> set (db_intents (m1_db s')). wi_status i = INTENT_PENDING \<longrightarrow> i \<in> set (db_intents (m1_db s)))"
proof -
  have "recover_intent_tx w s = (Inr u, s')"
    using assms(1) by (auto simp: recover_intent_def split: option.splits py_error.splits)
  then obtain st where st: "st \<in> {FAILED, WITHDRAWN}" and db: "m1_db s' = update_sessions (\<lambda>x. se_id x = wi_session_id w)
      (\<lambda>x. x\<lparr>se_state := st, se_collection_blocked := True\<rparr>) ((m1_db s)\<lparr>db_intents :=
         update_where (\<lambda>i. wi_id i = wi_id w) (\<lambda>i. i\<lparr>wi_status := INTENT_QUARANTINED\<rparr>) (db_intents (m1_db s))\<rparr>)"
    by (auto simp: recover_intent_tx_def transaction_def py_Inr_iffs db_op_Inr db_get_def Let_def
        split: if_splits prod.splits sum.splits option.splits)
  have ids: "set (map wi_id (db_intents (m1_db s'))) = set (map wi_id (db_intents (m1_db s)))"
    by (simp add: db update_sessions_def image_update_where)
  have "\<forall>i \<in> set (db_intents (m1_db s')). (wi_id i \<in> insert (wi_id w) X \<longrightarrow> wi_status i = INTENT_QUARANTINED) \<and>
      (wi_status i = INTENT_PENDING \<longrightarrow> i \<in> set (db_intents (m1_db s)))"
    using assms(2) by (auto simp: db update_sessions_def settled_def elim!: update_whereE)
  moreover have "\<forall>r \<in> set (db_sessions (m1_db s')). se_id r \<in> insert (wi_session_id w) Y \<longrightarrow>
      se_collection_blocked r \<and> se_state r \<in> {FAILED, WITHDRAWN}"
    using assms(2) st by (auto simp: db update_sessions_def settled_def elim!: update_whereE)
  ultimately show ?thesis using ids by (simp add: settled_def)
qed

lemma recover_loop:
  assumes "py_for ws (recover_intent move) s = (Inr u, s')" and "settled X Y (m1_db s)"
  shows "settled (X \<union> wi_id ` set ws) (Y \<union> wi_session_id ` set ws) (m1_db s') \<and>
    (\<forall>i \<in> set (db_intents (m1_db s')). wi_status i = INTENT_PENDING \<longrightarrow> i \<in> set (db_intents (m1_db s)))"
  using assms
proof (induction ws arbitrary: s u X Y)
  case (Cons w ws)
  then obtain s1 where w: "recover_intent move w s = (Inr (), s1)" and rest: "py_for ws (recover_intent move) s1 = (Inr u, s')"
    by (auto simp: py_then_Inr_iff)
  from recover_intent_settles [OF w Cons.prems(2)] Cons.IH [OF rest] show ?case by fastforce
qed (simp add: py_ret_def)

text \<open>
  Claim C11. When the start-up recovery returns, no write is left pending, and every session that had a
  pending write is blocked and FAILED, or stays WITHDRAWN when its participant had withdrawn.
\<close>
theorem recovery_settles_every_write:
  assumes "recover_pending_intents move s = (Inr (), s')"
  shows "(\<forall>i \<in> set (db_intents (m1_db s')). wi_status i = INTENT_QUARANTINED) \<and>
    (\<forall>i \<in> set (db_intents (m1_db s)). \<forall>r \<in> set (db_sessions (m1_db s')).
       wi_status i = INTENT_PENDING \<and> se_id r = wi_session_id i \<longrightarrow> se_collection_blocked r \<and> se_state r \<in> {FAILED, WITHDRAWN})"
proof -
  let ?ws = "filter (\<lambda>w. wi_status w = INTENT_PENDING) (db_intents (m1_db s))"
  have "py_for ?ws (recover_intent move) s = (Inr (), s')"
    using assms by (auto simp: recover_pending_intents_def py_Inr_iffs require_open_def db_get_def split: if_splits)
  note loop = recover_loop [OF this, of "{}" "{}"]
  have "settled {} {} (m1_db s)" by (simp add: settled_def)
  from loop [OF this] have st: "settled (wi_id ` set ?ws) (wi_session_id ` set ?ws) (m1_db s')"
    and old: "\<forall>i \<in> set (db_intents (m1_db s')). wi_status i = INTENT_PENDING \<longrightarrow> i \<in> set (db_intents (m1_db s))"
    by simp_all
  have "wi_status i = INTENT_QUARANTINED" if i: "i \<in> set (db_intents (m1_db s'))" for i
  proof (cases "wi_status i")
    case INTENT_PENDING
    with old i have "i \<in> set ?ws" by simp
    with st i show ?thesis unfolding settled_def by blast
  qed
  moreover have "se_collection_blocked r \<and> se_state r \<in> {FAILED, WITHDRAWN}"
    if "i \<in> set (db_intents (m1_db s))" "r \<in> set (db_sessions (m1_db s'))" "wi_status i = INTENT_PENDING" "se_id r = wi_session_id i" for i r
  proof -
    have "i \<in> set ?ws" using that by simp
    with st that(2,4) show ?thesis unfolding settled_def by (metis image_eqI)
  qed
  ultimately show ?thesis by blast
qed

theorem recovery_settles_every_write_witness:
  "\<exists>s'. recover_pending_intents (\<lambda>_ _. None) (m1_demo_run (m1_demo_start @ [M1Intent ''research-ttt'' ''staging/partials/f'']) m1_fresh) = (Inr (), s') \<and>
     (\<forall>i \<in> set (db_intents (m1_db s')). wi_status i = INTENT_QUARANTINED) \<and> db_intents (m1_db s') \<noteq> []"
proof -
  let ?s = "m1_demo_run (m1_demo_start @ [M1Intent ''research-ttt'' ''staging/partials/f'']) m1_fresh"
  have "(case recover_pending_intents (\<lambda>_ _. None) ?s of (Inr _, s') \<Rightarrow> db_intents (m1_db s') \<noteq> [] | (Inl _, s') \<Rightarrow> False)" by code_simp
  then obtain s' where run: "recover_pending_intents (\<lambda>_ _. None) ?s = (Inr (), s')" and "db_intents (m1_db s') \<noteq> []"
    by (auto split: prod.splits sum.splits)
  with recovery_settles_every_write [OF run] show ?thesis by blast
qed

section \<open>A consent receipt used twice\<close>

text \<open>
  Confirming consent for one session with a receipt identifier that another session's consent
  already has deletes the other session's consent: afterwards that session has none, and its
  readiness again asks for operator consent.
\<close>
lemma consent_receipt_reuse:
  assumes "consent_operation env sid rid version s = (Inr x, s')" and "other \<noteq> sid"
    and "\<forall>c \<in> set (db_consents (m1_db s)). co_session_id c = other \<longrightarrow> co_id c = rid"
  shows "(\<forall>c \<in> set (db_consents (m1_db s')). co_session_id c \<noteq> other) \<and>
    (\<forall>row. readiness_row (m1_db s') other = Some row \<longrightarrow> OPERATOR_CONSENT_REQUIRED \<in> set (readiness_gates row))"
proof -
  have ev: "db_consents (m1_db z') = db_consents (m1_db z)" if "m1_event env i k p z = (Inr e, z')" for i k p z e and z' :: "'a m1_backend_scheme"
    using that by (auto simp: m1_event_def py_Inr_iffs db_op_Inr db_get_def read_clock_def update_sessions_def elim!: append_event_tables)
  let ?c = "\<lparr>co_id = rid, co_session_id = sid, co_version = version\<rparr>"
  let ?cs = "filter (\<lambda>c. co_id c \<noteq> rid \<and> co_session_id c \<noteq> sid) (db_consents (m1_db s)) @ [?c]"
  let ?z = "s\<lparr>clock_reads := Suc (clock_reads s), m1_db := update_sessions (\<lambda>r. se_id r = sid \<and> se_state r = DRAFT)
      (\<lambda>r. r\<lparr>se_state := CONSENT_CONFIRMED\<rparr>) ((m1_db s)\<lparr>db_consents := ?cs\<rparr>)\<rparr>"
  obtain db1 where "require_mutable_research sid (m1_db s) = (Inr (), db1)"
    using assms(1) unfolding consent_operation_def py_then_Inr_iff db_op_Inr by blast
  with require_mutable_Inr have rm: "require_mutable_research sid (m1_db s) = (Inr (), m1_db s)" by blast
  have "\<exists>e. m1_event env sid ''OperatorConsentConfirmed'' [(''consent_version'', JStr version)] ?z = (Inr e, s')"
    using assms(1) rm
    by (simp add: consent_operation_def py_Inr_iffs db_op_Inr read_clock_def replace_consent_def db_insert_Inr) blast
  then have "db_consents (m1_db s') = ?cs" using ev by (auto simp: update_sessions_def)
  with assms(2,3) have none: "\<forall>c \<in> set (db_consents (m1_db s')). co_session_id c \<noteq> other" by auto
  then have "find (\<lambda>x. co_session_id x = other) (db_consents (m1_db s')) = None" by (simp add: find_None_iff)
  then have "OPERATOR_CONSENT_REQUIRED \<in> set (readiness_gates row)" if "readiness_row (m1_db s') other = Some row" for row
    using that by (auto simp: readiness_row_def readiness_gates_def split: option.splits)
  with none show ?thesis by blast
qed

definition m1_demo_two :: m1_backend where
  "m1_demo_two = m1_demo_run [M1Start ''UNVERIFIED'' ''UNVERIFIED'', M1Study ''c'' None, M1Participant ''study-'' None,
     M1Research ''study-'' ''participant-t'' None None None, M1Consent ''research-ttt'' ''r'' ''v1'' None,
     M1Research ''study-'' ''participant-t'' (Some ''k'') None None] m1_fresh"

lemma consent_receipt_reuse_witness:
  "\<exists>x s'. consent_operation m1_demo_env ''research-ttttt'' ''r'' ''v1'' m1_demo_two = (Inr x, s') \<and>
     length (db_consents (m1_db m1_demo_two)) = 1 \<and> (\<forall>c \<in> set (db_consents (m1_db s')). co_session_id c \<noteq> ''research-ttt'')"
proof -
  have "(case fst (consent_operation m1_demo_env ''research-ttttt'' ''r'' ''v1'' m1_demo_two) of Inr _ \<Rightarrow> True | Inl _ \<Rightarrow> False) \<and>
     length (db_consents (m1_db m1_demo_two)) = 1 \<and> (\<forall>c \<in> set (db_consents (m1_db m1_demo_two)). co_id c = ''r'')" by code_simp
  then obtain x s' where run: "consent_operation m1_demo_env ''research-ttttt'' ''r'' ''v1'' m1_demo_two = (Inr x, s')"
    and "length (db_consents (m1_db m1_demo_two)) = 1" "\<forall>c \<in> set (db_consents (m1_db m1_demo_two)). co_id c = ''r''"
    by (cases "consent_operation m1_demo_env ''research-ttttt'' ''r'' ''v1'' m1_demo_two") (auto split: sum.splits)
  with consent_receipt_reuse [OF run, of "''research-ttt''"] show ?thesis by auto
qed

end
