(* ===== verification/D1_Data.thy ===== *)
theory D1_Data
  imports Py_Prelude "HOL-Library.Char_ord" "HOL-Library.List_Lexorder" "HOL-Library.Product_Lexorder"
begin

text \<open>
  The data of the measurement contract (\<open>m2_d1_contract.py\<close>): its enumerations, the request, the receipt
  and their canonical payloads. Fields hold values of their declared types, so the \<open>isinstance\<close>
  guards of the code are true. \<open>sha\<close> is \<open>_digest\<close>: SHA-256 of the canonical JSON text.
\<close>

section \<open>Enumerations\<close>

datatype input_kind = TEST_CHART | SYNTHETIC_VIDEO
datatype evidence_kind = SIMULATED
datatype run_kind = PREFLIGHT_60S | NOMINAL_20M
datatype privacy_decision = CLEAR | UNSAFE | UNKNOWN
datatype frame_disposition = PROCESSED | DROPPED_EXPLICIT | FRAME_FAILED
datatype drop_reason = BACKPRESSURE
datatype stage_state = SUCCEEDED | STAGE_FAILED | NOT_ATTEMPTED
datatype validation_outcome = BACKEND_CONTRACT_PASS | NO_GO
datatype device_gate_decision = UNVERIFIED

datatype d1_failure =
    INPUT_UNAVAILABLE | INPUT_MALFORMED | FRAME_STALLED | CLOCK_REGRESSION | POSE_ENGINE_UNAVAILABLE
  | POSE_ENGINE_EXCEPTION | POSE_OUTPUT_INVALID | QUALITY_INSUFFICIENT | ENCODER_UNAVAILABLE
  | ENCODER_WRITE_FAILED | ENCODER_FINALIZE_FAILED | DISK_UNAVAILABLE | DISK_SPACE_INSUFFICIENT
  | DISK_THROUGHPUT_INSUFFICIENT | DISK_FSYNC_FAILED | ATOMIC_RENAME_FAILED | MANIFEST_VALIDATION_FAILED
  | SCHEMA_INCOMPATIBLE | PRIVACY_STOP | UNKNOWN_TECHNICAL_FAILURE

fun input_kind_str :: "input_kind \<Rightarrow> string" where
  "input_kind_str TEST_CHART = ''TEST_CHART''"
| "input_kind_str SYNTHETIC_VIDEO = ''SYNTHETIC_VIDEO''"

fun evidence_kind_str :: "evidence_kind \<Rightarrow> string" where
  "evidence_kind_str SIMULATED = ''SIMULATED''"

fun run_kind_str :: "run_kind \<Rightarrow> string" where
  "run_kind_str PREFLIGHT_60S = ''PREFLIGHT_60S''"
| "run_kind_str NOMINAL_20M = ''NOMINAL_20M''"

fun disposition_str :: "frame_disposition \<Rightarrow> string" where
  "disposition_str PROCESSED = ''PROCESSED''"
| "disposition_str DROPPED_EXPLICIT = ''DROPPED_EXPLICIT''"
| "disposition_str FRAME_FAILED = ''FAILED''"

fun drop_reason_str :: "drop_reason \<Rightarrow> string" where
  "drop_reason_str BACKPRESSURE = ''BACKPRESSURE''"

fun stage_state_str :: "stage_state \<Rightarrow> string" where
  "stage_state_str SUCCEEDED = ''SUCCEEDED''"
| "stage_state_str STAGE_FAILED = ''FAILED''"
| "stage_state_str NOT_ATTEMPTED = ''NOT_ATTEMPTED''"

fun outcome_str :: "validation_outcome \<Rightarrow> string" where
  "outcome_str BACKEND_CONTRACT_PASS = ''BACKEND_CONTRACT_PASS''"
| "outcome_str NO_GO = ''NO_GO''"

fun device_gate_str :: "device_gate_decision \<Rightarrow> string" where
  "device_gate_str UNVERIFIED = ''UNVERIFIED''"

fun failure_str :: "d1_failure \<Rightarrow> string" where
  "failure_str INPUT_UNAVAILABLE = ''INPUT_UNAVAILABLE''"
| "failure_str INPUT_MALFORMED = ''INPUT_MALFORMED''"
| "failure_str FRAME_STALLED = ''FRAME_STALLED''"
| "failure_str CLOCK_REGRESSION = ''CLOCK_REGRESSION''"
| "failure_str POSE_ENGINE_UNAVAILABLE = ''POSE_ENGINE_UNAVAILABLE''"
| "failure_str POSE_ENGINE_EXCEPTION = ''POSE_ENGINE_EXCEPTION''"
| "failure_str POSE_OUTPUT_INVALID = ''POSE_OUTPUT_INVALID''"
| "failure_str QUALITY_INSUFFICIENT = ''QUALITY_INSUFFICIENT''"
| "failure_str ENCODER_UNAVAILABLE = ''ENCODER_UNAVAILABLE''"
| "failure_str ENCODER_WRITE_FAILED = ''ENCODER_WRITE_FAILED''"
| "failure_str ENCODER_FINALIZE_FAILED = ''ENCODER_FINALIZE_FAILED''"
| "failure_str DISK_UNAVAILABLE = ''DISK_UNAVAILABLE''"
| "failure_str DISK_SPACE_INSUFFICIENT = ''DISK_SPACE_INSUFFICIENT''"
| "failure_str DISK_THROUGHPUT_INSUFFICIENT = ''DISK_THROUGHPUT_INSUFFICIENT''"
| "failure_str DISK_FSYNC_FAILED = ''DISK_FSYNC_FAILED''"
| "failure_str ATOMIC_RENAME_FAILED = ''ATOMIC_RENAME_FAILED''"
| "failure_str MANIFEST_VALIDATION_FAILED = ''MANIFEST_VALIDATION_FAILED''"
| "failure_str SCHEMA_INCOMPATIBLE = ''SCHEMA_INCOMPATIBLE''"
| "failure_str PRIVACY_STOP = ''PRIVACY_STOP''"
| "failure_str UNKNOWN_TECHNICAL_FAILURE = ''UNKNOWN_TECHNICAL_FAILURE''"

definition d1_failures :: "d1_failure list" where
  "d1_failures = [INPUT_UNAVAILABLE, INPUT_MALFORMED, FRAME_STALLED, CLOCK_REGRESSION, POSE_ENGINE_UNAVAILABLE,
     POSE_ENGINE_EXCEPTION, POSE_OUTPUT_INVALID, QUALITY_INSUFFICIENT, ENCODER_UNAVAILABLE, ENCODER_WRITE_FAILED,
     ENCODER_FINALIZE_FAILED, DISK_UNAVAILABLE, DISK_SPACE_INSUFFICIENT, DISK_THROUGHPUT_INSUFFICIENT, DISK_FSYNC_FAILED,
     ATOMIC_RENAME_FAILED, MANIFEST_VALIDATION_FAILED, SCHEMA_INCOMPATIBLE, PRIVACY_STOP, UNKNOWN_TECHNICAL_FAILURE]"

text \<open>\<open>D1FailureCode(text)\<close>\<close>

definition failure_of_str :: "string \<Rightarrow> py_error + d1_failure" where
  "failure_of_str t = (case find (\<lambda>c. failure_str c = t) d1_failures of
     None \<Rightarrow> Inl (ValueError ''not a valid D1FailureCode'') | Some c \<Rightarrow> Inr c)"

lemma failure_in_list: "c \<in> set d1_failures"
  by (cases c) (simp_all add: d1_failures_def)

lemma failure_of_str_str [simp]: "failure_of_str (failure_str c) = Inr c"
  by (cases c) (simp_all add: failure_of_str_def d1_failures_def)

lemma failure_str_inj [simp]: "failure_str a = failure_str b \<longleftrightarrow> a = b"
  by (metis failure_of_str_str sum.inject(2))

declare failure_str.simps [simp del]

section \<open>Requests\<close>

record run_plan =
  pl_run_kind :: run_kind
  pl_width :: int
  pl_height :: int
  pl_frames_per_second :: int
  pl_requested_duration_seconds :: int
  pl_warmup_seconds :: int
  pl_run_end_monotonic_ns :: int

record observation =
  ob_source_kind :: input_kind
  ob_captured_monotonic_ns :: int
  ob_processed_monotonic_ns :: "int option"
  ob_disposition :: frame_disposition
  ob_quality_insufficient :: bool
  ob_failure_code :: "d1_failure option"
  ob_drop_reason :: "drop_reason option"

record throughput_sample =
  ts_second_index :: int
  ts_bytes_per_second :: pyfloat

record encoder_evidence =
  ee_encoder_open :: stage_state
  ee_encoder_write :: stage_state
  ee_encoder_finalize :: stage_state
  ee_durability :: stage_state

record disk_evidence =
  de_free_bytes :: int
  de_encoded_byte_count :: int
  de_encoded_byte_rate :: pyfloat
  de_throughput_samples :: "throughput_sample list"
  de_stages :: encoder_evidence

record authority_receipt =
  ar_schema_version :: int
  ar_receipt_kind :: string
  ar_decision_date :: string
  ar_decision_owner :: string
  ar_proposal_sha256 :: string
  ar_readiness_version :: string
  ar_p1_accepted :: bool
  ar_d1_authorized :: bool
  ar_physical_camera_access_authorized :: bool
  ar_participant_collection_authorized :: bool
  ar_model_evaluation_authorized :: bool
  ar_m1_recording_or_persistence_export_authorized :: bool

record provenance_receipt =
  pr_schema_version :: int
  pr_source_kind :: input_kind
  pr_source_version :: string
  pr_generator_id :: string
  pr_canonical_input_digest :: string
  pr_frame_count :: int
  pr_simulated_no_human :: bool
  pr_dataset_use_prohibited :: bool
  pr_leakage_statement :: string
  pr_deterministic_seed :: string
  pr_baseline_id :: string
  pr_mutant_ids :: "string list"

record environment_receipt =
  en_schema_version :: int
  en_receipt_kind :: string
  en_application_revision_digest :: string
  en_release_manifest_digest :: string
  en_pose_engine_digest :: string
  en_encoder_digest :: string
  en_operating_system :: string
  en_locale :: string
  en_timezone :: string
  en_offline :: bool
  en_injected_only :: bool
  en_camera_not_accessed :: bool
  en_driver_unverified :: bool
  en_audio_prohibited :: bool

record reproduction_receipt =
  rp_schema_version :: int
  rp_receipt_kind :: string
  rp_noninteractive_invocation :: string
  rp_dependency_artifact :: string
  rp_lock_digest :: string
  rp_source_digest :: string
  rp_deterministic_seed :: string
  rp_threshold_version :: string
  rp_baseline_id :: string
  rp_mutant_ids :: "string list"
  rp_uncertainty_statement :: string
  rp_input_digest :: string
  rp_expected_evaluation_digest :: string

record validation_input =
  vi_schema_version :: int
  vi_evidence_kind :: evidence_kind
  vi_input_kind :: input_kind
  vi_plan :: run_plan
  vi_observations :: "observation list"
  vi_disk :: disk_evidence
  vi_injected_failures :: "d1_failure list"
  vi_authority :: authority_receipt
  vi_provenance :: provenance_receipt
  vi_environment :: environment_receipt
  vi_reproduction :: reproduction_receipt

section \<open>Receipts\<close>

record accounting =
  ac_delivered_frames :: int
  ac_inter_frame_gaps :: int
  ac_processed :: int
  ac_dropped_explicit :: int
  ac_failed :: int
  ac_quality_insufficient :: int
  ac_drop_reasons :: "(string \<times> int) list"

definition empty_accounting :: accounting where
  "empty_accounting = \<lparr>ac_delivered_frames = 0, ac_inter_frame_gaps = 0, ac_processed = 0, ac_dropped_explicit = 0,
     ac_failed = 0, ac_quality_insufficient = 0, ac_drop_reasons = []\<rparr>"

definition not_attempted :: encoder_evidence where
  "not_attempted = \<lparr>ee_encoder_open = NOT_ATTEMPTED, ee_encoder_write = NOT_ATTEMPTED, ee_encoder_finalize = NOT_ATTEMPTED,
     ee_durability = NOT_ATTEMPTED\<rparr>"

record metric_summary =
  ms_first_capture_monotonic_ns :: int
  ms_run_end_monotonic_ns :: int
  ms_measured_total_seconds :: pyfloat
  ms_measured_post_warmup_seconds :: pyfloat
  ms_delivered_frames_per_second :: pyfloat
  ms_p95_inter_frame_gap_ms :: "pyfloat option"
  ms_p95_pose_latency_ms :: "pyfloat option"
  ms_p99_pose_latency_ms :: "pyfloat option"
  ms_p10_throughput :: "pyfloat option"
  ms_backlog_ms :: "pyfloat option"

record d1_receipt =
  dr_schema_version :: int
  dr_outcome :: validation_outcome
  dr_device_gate_decision :: device_gate_decision
  dr_evidence_kind :: evidence_kind
  dr_failure_code :: "d1_failure option"
  dr_failure_counts :: "(string \<times> int) list"
  dr_run_kind :: run_kind
  dr_width :: int
  dr_height :: int
  dr_frames_per_second :: int
  dr_requested_duration_seconds :: int
  dr_warmup_seconds :: int
  dr_privacy_checked_frames :: int
  dr_privacy_stop_count :: int
  dr_warmup_accounting :: accounting
  dr_accounting :: accounting
  dr_metrics :: metric_summary
  dr_required_bytes :: int
  dr_free_bytes :: int
  dr_encoded_byte_count :: int
  dr_encoded_byte_rate :: pyfloat
  dr_throughput_sample_count :: int
  dr_throughput_digest :: string
  dr_stages :: encoder_evidence
  dr_seal_attempted :: bool
  dr_export_attempted :: bool
  dr_authority_digest :: string
  dr_input_digest :: string
  dr_provenance_digest :: string
  dr_environment_digest :: string
  dr_reproduction_digest :: string
  dr_evaluation_core_digest :: string
  dr_result_digest :: string

end
