(* ===== verification/D1_Contract.thy ===== *)
theory D1_Contract
  imports D1_Data
begin

text \<open>
  The evaluator of \<open>m2_d1_contract.py\<close>: request validation, accounting, metrics, thresholds, receipts and
  their verification. \<open>rnd\<close> rounds an exact result to a double (an infinity when it is too large): every
  float operation of the code is the exact operation followed by \<open>rnd\<close>, and a literal such as \<open>0.99\<close> is
  \<open>rnd (99 / 100)\<close>. \<open>sha\<close> is \<open>_digest\<close>.
\<close>

section \<open>Float arithmetic\<close>

text \<open>A true division of two integers raises when the quotient is too large.\<close>

definition finite_or_overflow :: "pyfloat \<Rightarrow> py_error + pyfloat" where
  "finite_or_overflow x = (if pf_isfinite x then Inr x else Inl (OverflowError ''integer too large for a float''))"

definition int_div :: "(rat \<Rightarrow> pyfloat) \<Rightarrow> int \<Rightarrow> int \<Rightarrow> py_error + pyfloat" where
  "int_div rnd a b = (if b = 0 then Inl (ZeroDivisionError ''division by zero'') else finite_or_overflow (rnd (of_int a / of_int b)))"

definition int_float :: "(rat \<Rightarrow> pyfloat) \<Rightarrow> int \<Rightarrow> py_error + pyfloat" where
  "int_float rnd a = finite_or_overflow (rnd (of_int a))"

fun float_div :: "(rat \<Rightarrow> pyfloat) \<Rightarrow> pyfloat \<Rightarrow> pyfloat \<Rightarrow> py_error + pyfloat" where
  "float_div rnd (Finite a) (Finite b) = (if b = 0 then Inl (ZeroDivisionError ''float division by zero'') else Inr (rnd (a / b)))"
| "float_div rnd NaN (Finite b) = (if b = 0 then Inl (ZeroDivisionError ''float division by zero'') else Inr NaN)"
| "float_div rnd PosInf (Finite b) = (if b = 0 then Inl (ZeroDivisionError ''float division by zero'') else Inr (if 0 < b then PosInf else NegInf))"
| "float_div rnd NegInf (Finite b) = (if b = 0 then Inl (ZeroDivisionError ''float division by zero'') else Inr (if 0 < b then NegInf else PosInf))"
| "float_div rnd (Finite a) PosInf = Inr (Finite 0)"
| "float_div rnd (Finite a) NegInf = Inr (Finite 0)"
| "float_div rnd _ _ = Inr NaN"

text \<open>The product with a positive factor.\<close>

fun float_scale :: "(rat \<Rightarrow> pyfloat) \<Rightarrow> rat \<Rightarrow> pyfloat \<Rightarrow> pyfloat" where
  "float_scale rnd c (Finite a) = rnd (c * a)"
| "float_scale rnd c x = x"

fun float_sub :: "(rat \<Rightarrow> pyfloat) \<Rightarrow> pyfloat \<Rightarrow> pyfloat \<Rightarrow> pyfloat" where
  "float_sub rnd (Finite a) (Finite b) = rnd (a - b)"
| "float_sub rnd x y = pf_sub x y"

fun float_abs :: "pyfloat \<Rightarrow> pyfloat" where
  "float_abs (Finite a) = Finite \<bar>a\<bar>"
| "float_abs NegInf = PosInf"
| "float_abs x = x"

text \<open>\<open>math.isclose(a, b, abs_tol=tol)\<close> with the default relative tolerance 1e-9.\<close>

definition isclose :: "(rat \<Rightarrow> pyfloat) \<Rightarrow> pyfloat \<Rightarrow> pyfloat \<Rightarrow> pyfloat \<Rightarrow> bool" where
  "isclose rnd a b tol =
     (if a = b \<and> a \<noteq> NaN then True
      else if \<not> pf_isfinite a \<or> \<not> pf_isfinite b then False
      else let diff = float_abs (float_sub rnd b a); rel = (case rnd (1 / 1000000000) of Finite q \<Rightarrow> q | _ \<Rightarrow> 0) in
        pf_le diff (float_abs (float_scale rnd rel b)) \<or> pf_le diff (float_abs (float_scale rnd rel a)) \<or> pf_le diff tol)"

section \<open>Payloads and digests\<close>

definition opt_json :: "('a \<Rightarrow> json) \<Rightarrow> 'a option \<Rightarrow> json" where
  "opt_json f x = (case x of None \<Rightarrow> JNull | Some y \<Rightarrow> f y)"

definition counts_payload :: "(string \<times> int) list \<Rightarrow> json" where
  "counts_payload cs = JArr (map (\<lambda>(n, c). JArr [JStr n, JInt c]) cs)"

definition accounting_payload :: "accounting \<Rightarrow> json" where
  "accounting_payload v = JObj [
     (''delivered_frames'', JInt (ac_delivered_frames v)),
     (''inter_frame_gaps'', JInt (ac_inter_frame_gaps v)),
     (''processed'', JInt (ac_processed v)),
     (''dropped_explicit'', JInt (ac_dropped_explicit v)),
     (''failed'', JInt (ac_failed v)),
     (''quality_insufficient'', JInt (ac_quality_insufficient v)),
     (''drop_reasons'', counts_payload (ac_drop_reasons v))]"

definition metrics_payload :: "metric_summary \<Rightarrow> json" where
  "metrics_payload v = JObj [
     (''first_capture_monotonic_ns'', JInt (ms_first_capture_monotonic_ns v)),
     (''run_end_monotonic_ns'', JInt (ms_run_end_monotonic_ns v)),
     (''measured_total_seconds'', JFloat (ms_measured_total_seconds v)),
     (''measured_post_warmup_seconds'', JFloat (ms_measured_post_warmup_seconds v)),
     (''delivered_frames_per_second'', JFloat (ms_delivered_frames_per_second v)),
     (''p95_inter_frame_gap_ms'', opt_json JFloat (ms_p95_inter_frame_gap_ms v)),
     (''p95_pose_latency_ms'', opt_json JFloat (ms_p95_pose_latency_ms v)),
     (''p99_pose_latency_ms'', opt_json JFloat (ms_p99_pose_latency_ms v)),
     (''p10_preflight_throughput_bytes_per_second'', opt_json JFloat (ms_p10_throughput v)),
     (''backlog_ms'', opt_json JFloat (ms_backlog_ms v))]"

definition stage_payload :: "encoder_evidence \<Rightarrow> json" where
  "stage_payload v = JObj [
     (''encoder_open'', JStr (stage_state_str (ee_encoder_open v))),
     (''encoder_write'', JStr (stage_state_str (ee_encoder_write v))),
     (''encoder_finalize'', JStr (stage_state_str (ee_encoder_finalize v))),
     (''durability'', JStr (stage_state_str (ee_durability v)))]"

definition throughput_payload :: "throughput_sample list \<Rightarrow> json" where
  "throughput_payload vs = JArr (map (\<lambda>t. JArr [JInt (ts_second_index t), JFloat (ts_bytes_per_second t)]) vs)"

definition authority_payload :: "authority_receipt \<Rightarrow> json" where
  "authority_payload v = JObj [
     (''schema_version'', JInt (ar_schema_version v)),
     (''receipt_kind'', JStr (ar_receipt_kind v)),
     (''decision_date'', JStr (ar_decision_date v)),
     (''decision_owner'', JStr (ar_decision_owner v)),
     (''proposal_sha256'', JStr (ar_proposal_sha256 v)),
     (''readiness_version'', JStr (ar_readiness_version v)),
     (''p1_accepted'', JBool (ar_p1_accepted v)),
     (''d1_authorized'', JBool (ar_d1_authorized v)),
     (''physical_camera_access_authorized'', JBool (ar_physical_camera_access_authorized v)),
     (''participant_collection_authorized'', JBool (ar_participant_collection_authorized v)),
     (''model_evaluation_authorized'', JBool (ar_model_evaluation_authorized v)),
     (''m1_recording_or_persistence_export_authorized'', JBool (ar_m1_recording_or_persistence_export_authorized v))]"

definition provenance_payload :: "provenance_receipt \<Rightarrow> json" where
  "provenance_payload v = JObj [
     (''schema_version'', JInt (pr_schema_version v)),
     (''source_kind'', JStr (input_kind_str (pr_source_kind v))),
     (''source_version'', JStr (pr_source_version v)),
     (''generator_id'', JStr (pr_generator_id v)),
     (''canonical_input_digest'', JStr (pr_canonical_input_digest v)),
     (''frame_count'', JInt (pr_frame_count v)),
     (''simulated_no_human'', JBool (pr_simulated_no_human v)),
     (''dataset_use_prohibited'', JBool (pr_dataset_use_prohibited v)),
     (''leakage_statement'', JStr (pr_leakage_statement v)),
     (''deterministic_seed'', JStr (pr_deterministic_seed v)),
     (''baseline_id'', JStr (pr_baseline_id v)),
     (''mutant_ids'', JArr (map JStr (pr_mutant_ids v)))]"

definition environment_payload :: "environment_receipt \<Rightarrow> json" where
  "environment_payload v = JObj [
     (''schema_version'', JInt (en_schema_version v)),
     (''receipt_kind'', JStr (en_receipt_kind v)),
     (''application_revision_digest'', JStr (en_application_revision_digest v)),
     (''release_manifest_digest'', JStr (en_release_manifest_digest v)),
     (''pose_engine_digest'', JStr (en_pose_engine_digest v)),
     (''encoder_digest'', JStr (en_encoder_digest v)),
     (''operating_system'', JStr (en_operating_system v)),
     (''locale'', JStr (en_locale v)),
     (''timezone'', JStr (en_timezone v)),
     (''offline'', JBool (en_offline v)),
     (''injected_only'', JBool (en_injected_only v)),
     (''camera_not_accessed'', JBool (en_camera_not_accessed v)),
     (''driver_unverified'', JBool (en_driver_unverified v)),
     (''audio_prohibited'', JBool (en_audio_prohibited v))]"

definition reproduction_payload :: "reproduction_receipt \<Rightarrow> json" where
  "reproduction_payload v = JObj [
     (''schema_version'', JInt (rp_schema_version v)),
     (''receipt_kind'', JStr (rp_receipt_kind v)),
     (''noninteractive_invocation'', JStr (rp_noninteractive_invocation v)),
     (''dependency_artifact'', JStr (rp_dependency_artifact v)),
     (''lock_digest'', JStr (rp_lock_digest v)),
     (''source_digest'', JStr (rp_source_digest v)),
     (''deterministic_seed'', JStr (rp_deterministic_seed v)),
     (''threshold_version'', JStr (rp_threshold_version v)),
     (''baseline_id'', JStr (rp_baseline_id v)),
     (''mutant_ids'', JArr (map JStr (rp_mutant_ids v))),
     (''uncertainty_statement'', JStr (rp_uncertainty_statement v)),
     (''input_digest'', JStr (rp_input_digest v)),
     (''expected_evaluation_digest'', JStr (rp_expected_evaluation_digest v))]"

definition observation_payload :: "observation \<Rightarrow> json" where
  "observation_payload v = JObj [
     (''source_kind'', JStr (input_kind_str (ob_source_kind v))),
     (''captured_monotonic_ns'', JInt (ob_captured_monotonic_ns v)),
     (''processed_monotonic_ns'', opt_json JInt (ob_processed_monotonic_ns v)),
     (''disposition'', JStr (disposition_str (ob_disposition v))),
     (''quality_insufficient'', JBool (ob_quality_insufficient v)),
     (''failure_code'', opt_json (\<lambda>c. JStr (failure_str c)) (ob_failure_code v)),
     (''drop_reason'', opt_json (\<lambda>c. JStr (drop_reason_str c)) (ob_drop_reason v))]"

definition input_core_payload :: "run_plan \<Rightarrow> observation list \<Rightarrow> disk_evidence \<Rightarrow> json" where
  "input_core_payload plan obs disk = JObj [
     (''plan'', JObj [
        (''run_kind'', JStr (run_kind_str (pl_run_kind plan))),
        (''width'', JInt (pl_width plan)),
        (''height'', JInt (pl_height plan)),
        (''frames_per_second'', JInt (pl_frames_per_second plan)),
        (''requested_duration_seconds'', JInt (pl_requested_duration_seconds plan)),
        (''warmup_seconds'', JInt (pl_warmup_seconds plan)),
        (''run_end_monotonic_ns'', JInt (pl_run_end_monotonic_ns plan))]),
     (''observations'', JArr (map observation_payload obs)),
     (''disk'', JObj [
        (''free_bytes'', JInt (de_free_bytes disk)),
        (''encoded_byte_count'', JInt (de_encoded_byte_count disk)),
        (''encoded_byte_rate'', JFloat (de_encoded_byte_rate disk)),
        (''throughput_samples'', throughput_payload (de_throughput_samples disk)),
        (''stages'', stage_payload (de_stages disk))])]"

definition canonical_input_digest :: "(json \<Rightarrow> string) \<Rightarrow> run_plan \<Rightarrow> observation list \<Rightarrow> disk_evidence \<Rightarrow> string" where
  "canonical_input_digest sha plan obs disk = sha (input_core_payload plan obs disk)"

definition canonical_evaluation_digest :: "(json \<Rightarrow> string) \<Rightarrow> validation_input \<Rightarrow> string" where
  "canonical_evaluation_digest sha q = sha (JObj [
     (''core_version'', JInt 1),
     (''input_digest'', JStr (canonical_input_digest sha (vi_plan q) (vi_observations q) (vi_disk q))),
     (''input_kind'', JStr (input_kind_str (vi_input_kind q))),
     (''injected_failures'', JArr (map (\<lambda>c. JStr (failure_str c)) (vi_injected_failures q)))])"

definition privacy_stop_digest :: "(json \<Rightarrow> string) \<Rightarrow> int \<Rightarrow> string" where
  "privacy_stop_digest sha checked = sha (JObj [
     (''receipt_scope'', JStr ''PRIVACY_STOP_MINIMAL_V1''),
     (''privacy_checked_frames'', JInt checked),
     (''privacy_stop_count'', JInt 1)])"

definition canonical_payload :: "d1_receipt \<Rightarrow> json" where
  "canonical_payload r = JObj [
     (''accounting'', accounting_payload (dr_accounting r)),
     (''authority_digest'', JStr (dr_authority_digest r)),
     (''device_gate_decision'', JStr (device_gate_str (dr_device_gate_decision r))),
     (''encoded_byte_count'', JInt (dr_encoded_byte_count r)),
     (''encoded_byte_rate'', JFloat (dr_encoded_byte_rate r)),
     (''environment_digest'', JStr (dr_environment_digest r)),
     (''evaluation_core_digest'', JStr (dr_evaluation_core_digest r)),
     (''evidence_kind'', JStr (evidence_kind_str (dr_evidence_kind r))),
     (''export_attempted'', JBool (dr_export_attempted r)),
     (''failure_code'', opt_json (\<lambda>c. JStr (failure_str c)) (dr_failure_code r)),
     (''failure_counts'', counts_payload (dr_failure_counts r)),
     (''frames_per_second'', JInt (dr_frames_per_second r)),
     (''free_bytes'', JInt (dr_free_bytes r)),
     (''input_digest'', JStr (dr_input_digest r)),
     (''metrics'', metrics_payload (dr_metrics r)),
     (''outcome'', JStr (outcome_str (dr_outcome r))),
     (''privacy_checked_frames'', JInt (dr_privacy_checked_frames r)),
     (''privacy_stop_count'', JInt (dr_privacy_stop_count r)),
     (''provenance_digest'', JStr (dr_provenance_digest r)),
     (''reproduction_digest'', JStr (dr_reproduction_digest r)),
     (''required_bytes'', JInt (dr_required_bytes r)),
     (''requested_duration_seconds'', JInt (dr_requested_duration_seconds r)),
     (''run_kind'', JStr (run_kind_str (dr_run_kind r))),
     (''schema_version'', JInt (dr_schema_version r)),
     (''seal_attempted'', JBool (dr_seal_attempted r)),
     (''stages'', stage_payload (dr_stages r)),
     (''throughput_digest'', JStr (dr_throughput_digest r)),
     (''throughput_sample_count'', JInt (dr_throughput_sample_count r)),
     (''warmup_accounting'', accounting_payload (dr_warmup_accounting r)),
     (''warmup_seconds'', JInt (dr_warmup_seconds r)),
     (''width'', JInt (dr_width r)),
     (''height'', JInt (dr_height r))]"

definition recompute_digest :: "(json \<Rightarrow> string) \<Rightarrow> d1_receipt \<Rightarrow> string" where
  "recompute_digest sha r = sha (canonical_payload r)"

definition is_digest :: "string \<Rightarrow> bool" where
  "is_digest v \<longleftrightarrow> length v = 64 \<and> list_all (\<lambda>c. c \<in> set ''0123456789abcdef'') v"

section \<open>Validation of a request\<close>

definition CANONICAL_PROPOSAL_SHA256 :: string where
  "CANONICAL_PROPOSAL_SHA256 = ''2CD5F6FDB17D70FD5593E50B8387BC38DABF70430DFFFECDBE64439DC884AFD5''"

definition REPRODUCTION_INVOCATION :: string where
  "REPRODUCTION_INVOCATION = ''python -m pytest tests/backend/test_m2_d1_contract.py''"

definition DEPENDENCY_ARTIFACT_NAME :: string where
  "DEPENDENCY_ARTIFACT_NAME = ''uv.lock''"

definition DEPENDENCY_ARTIFACT_SHA256 :: string where
  "DEPENDENCY_ARTIFACT_SHA256 = ''baf657e935bd76c34e097c6d7f02ebed902758b965148e5585f1cc7cad8b608c''"

fun provenance_allowlist :: "input_kind \<Rightarrow> string \<times> string \<times> string \<times> string list" where
  "provenance_allowlist TEST_CHART = (''chart-v1'', ''d1-fixture-generator-v1'', ''d1-baseline-v1'', [''mutant-ledger-v1''])"
| "provenance_allowlist SYNTHETIC_VIDEO =
     (''video-v1'', ''d1-video-generator-v1'', ''d1-video-baseline-v1'', [''video-mutant-ledger-v1''])"

fun required_duration :: "run_kind \<Rightarrow> int" where
  "required_duration PREFLIGHT_60S = 60"
| "required_duration NOMINAL_20M = 1200"

definition plan_ok :: "run_plan \<Rightarrow> bool" where
  "plan_ok p \<longleftrightarrow> pl_requested_duration_seconds p = required_duration (pl_run_kind p) \<and>
     (pl_width p, pl_height p, pl_frames_per_second p, pl_warmup_seconds p) = (1280, 720, 15, 5) \<and>
     0 \<le> pl_run_end_monotonic_ns p"

definition authority_ok :: "authority_receipt \<Rightarrow> bool" where
  "authority_ok v \<longleftrightarrow> ar_schema_version v = 1 \<and> ar_receipt_kind v = ''D1_C1_AUTHORITY'' \<and> ar_decision_date v = ''2026-08-26'' \<and>
     ar_decision_owner v = ''root'' \<and> ar_proposal_sha256 v = CANONICAL_PROPOSAL_SHA256 \<and> ar_readiness_version v = ''0.4'' \<and>
     (ar_p1_accepted v, ar_d1_authorized v) = (True, True) \<and>
     \<not> (ar_physical_camera_access_authorized v \<or> ar_participant_collection_authorized v \<or> ar_model_evaluation_authorized v \<or>
        ar_m1_recording_or_persistence_export_authorized v)"

definition disk_shape_ok :: "disk_evidence \<Rightarrow> bool" where
  "disk_shape_ok d \<longleftrightarrow> 0 \<le> de_free_bytes d \<and> 0 \<le> de_encoded_byte_count d \<and> pf_isfinite (de_encoded_byte_rate d) \<and>
     \<not> pf_less (de_encoded_byte_rate d) (Finite 0) \<and> length (de_throughput_samples d) = 60"

definition samples_ok :: "throughput_sample list \<Rightarrow> bool" where
  "samples_ok ts \<longleftrightarrow> map ts_second_index ts = map int [0..<length ts] \<and>
     list_all (\<lambda>t. pf_isfinite (ts_bytes_per_second t) \<and> \<not> pf_less (ts_bytes_per_second t) (Finite 0)) ts"

definition provenance_ok :: "(json \<Rightarrow> string) \<Rightarrow> validation_input \<Rightarrow> bool" where
  "provenance_ok sha q \<longleftrightarrow> (let v = vi_provenance q in
     pr_schema_version v = 1 \<and> pr_source_kind v = vi_input_kind q \<and>
     (pr_source_version v, pr_generator_id v, pr_baseline_id v, pr_mutant_ids v) = provenance_allowlist (vi_input_kind q) \<and>
     pr_canonical_input_digest v = canonical_input_digest sha (vi_plan q) (vi_observations q) (vi_disk q) \<and>
     pr_frame_count v = int (length (vi_observations q)) \<and> pr_simulated_no_human v \<and> pr_dataset_use_prohibited v \<and>
     pr_leakage_statement v = ''N/A'' \<and> pr_deterministic_seed v = ''N/A'')"

definition environment_ok :: "environment_receipt \<Rightarrow> bool" where
  "environment_ok v \<longleftrightarrow> en_schema_version v = 1 \<and> en_receipt_kind v = ''D1_C1_INJECTED_ENVIRONMENT'' \<and>
     list_all is_digest [en_application_revision_digest v, en_release_manifest_digest v, en_pose_engine_digest v, en_encoder_digest v] \<and>
     (en_operating_system v, en_locale v, en_timezone v) = (''SIMULATED-N/A'', ''N/A'', ''N/A'') \<and>
     (en_offline v, en_injected_only v, en_camera_not_accessed v, en_driver_unverified v, en_audio_prohibited v) =
       (True, True, True, True, True)"

definition reproduction_ok :: "(json \<Rightarrow> string) \<Rightarrow> validation_input \<Rightarrow> bool" where
  "reproduction_ok sha q \<longleftrightarrow> (let v = vi_reproduction q; p = vi_provenance q in
     rp_schema_version v = 1 \<and> rp_receipt_kind v = ''D1_C1_REPRODUCTION'' \<and>
     rp_noninteractive_invocation v = REPRODUCTION_INVOCATION \<and> rp_dependency_artifact v = DEPENDENCY_ARTIFACT_NAME \<and>
     rp_lock_digest v = DEPENDENCY_ARTIFACT_SHA256 \<and> rp_source_digest v = pr_canonical_input_digest p \<and>
     rp_deterministic_seed v = ''N/A'' \<and> rp_threshold_version v = ''d1-thresholds-v1'' \<and> rp_baseline_id v = pr_baseline_id p \<and>
     rp_mutant_ids v = pr_mutant_ids p \<and> rp_uncertainty_statement v = ''SIMULATED_EVALUATOR_ONLY'' \<and>
     rp_input_digest v = pr_canonical_input_digest p \<and> rp_expected_evaluation_digest v = canonical_evaluation_digest sha q)"

definition require :: "bool \<Rightarrow> string \<Rightarrow> py_error + unit" where
  "require b message = (if b then Inr () else Inl (ValueError message))"

definition validate_request :: "(json \<Rightarrow> string) \<Rightarrow> validation_input \<Rightarrow> py_error + unit" where
  "validate_request sha q =
     res_bind (require (vi_schema_version q = 1) ''input schema is not supported'') (\<lambda>_.
     res_bind (require (plan_ok (vi_plan q)) ''plan must retain the exact D1 profile and durations'') (\<lambda>_.
     res_bind (require (authority_ok (vi_authority q)) ''input authority is not accepted'') (\<lambda>_.
     res_bind (require (disk_shape_ok (vi_disk q)) ''disk aggregate is malformed'') (\<lambda>_.
     res_bind (require (samples_ok (de_throughput_samples (vi_disk q))) ''disk throughput samples are malformed'') (\<lambda>_.
     res_bind (require (provenance_ok sha q) ''input provenance is malformed'') (\<lambda>_.
     res_bind (require (environment_ok (vi_environment q)) ''input environment is malformed'') (\<lambda>_.
     require (reproduction_ok sha q) ''input reproduction receipt is malformed'')))))))"

end
