(* ===== verification/D1_Evaluator.thy ===== *)
theory D1_Evaluator
  imports D1_Contract
begin

text \<open>
  The evaluation of a valid request (\<open>evaluate\<close>, \<open>_evaluate_under_lease\<close> and what they call) and the check of
  a receipt (\<open>verify_receipt_semantics\<close>). The privacy guard is a parameter: its answer for the frame it
  sees as the \<open>n\<close>-th, or an exception. The owner lease is a pair of outcomes (of \<open>acquire\<close> and \<open>release\<close>); the
  calls made on it are part of the result.
\<close>

section \<open>Accounting\<close>

definition bump :: "string \<Rightarrow> (string \<times> int) list \<Rightarrow> (string \<times> int) list" where
  "bump k d = AList.update k ((case map_of d k of None \<Rightarrow> 0 | Some n \<Rightarrow> n) + 1) d"

definition count_if :: "('a \<Rightarrow> bool) \<Rightarrow> 'a list \<Rightarrow> int" where
  "count_if P xs = int (length (filter P xs))"

definition drop_reasons_of :: "observation list \<Rightarrow> (string \<times> int) list" where
  "drop_reasons_of items = sort (fold (\<lambda>x d. case ob_drop_reason x of None \<Rightarrow> d | Some r \<Rightarrow> bump (drop_reason_str r) d) items [])"

definition accounting_of :: "observation list \<Rightarrow> accounting" where
  "accounting_of items = \<lparr>
     ac_delivered_frames = int (length items),
     ac_inter_frame_gaps = max (int (length items) - 1) 0,
     ac_processed = count_if (\<lambda>x. ob_disposition x = PROCESSED) items,
     ac_dropped_explicit = count_if (\<lambda>x. ob_disposition x = DROPPED_EXPLICIT) items,
     ac_failed = count_if (\<lambda>x. ob_disposition x = FRAME_FAILED) items,
     ac_quality_insufficient = count_if ob_quality_insufficient items,
     ac_drop_reasons = drop_reasons_of items\<rparr>"

definition count_observation :: "observation \<Rightarrow> (string \<times> int) list \<Rightarrow> (string \<times> int) list" where
  "count_observation x d =
     (let d1 = (case ob_failure_code x of None \<Rightarrow> d | Some c \<Rightarrow> bump (failure_str c) d)
      in if ob_quality_insufficient x then bump (failure_str QUALITY_INSUFFICIENT) d1 else d1)"

definition failure_counts :: "validation_input \<Rightarrow> bool \<Rightarrow> (string \<times> int) list" where
  "failure_counts q privacy_stop =
     sort ((if privacy_stop then bump (failure_str PRIVACY_STOP) else id)
       (fold (\<lambda>c. bump (failure_str c)) (vi_injected_failures q) (fold count_observation (vi_observations q) [])))"

definition first_count_code :: "(string \<times> int) list \<Rightarrow> py_error + d1_failure" where
  "first_count_code counts = (case counts of [] \<Rightarrow> Inl (IndexError ''tuple index out of range'') | (name, _) # _ \<Rightarrow> failure_of_str name)"

section \<open>Observations\<close>

definition disposition_fields_ok :: "int \<Rightarrow> observation \<Rightarrow> bool" where
  "disposition_fields_ok run_end x =
     (case ob_disposition x of
        PROCESSED \<Rightarrow> (case ob_processed_monotonic_ns x of
            None \<Rightarrow> False
          | Some t \<Rightarrow> ob_captured_monotonic_ns x \<le> t \<and> t \<le> run_end \<and> ob_failure_code x = None \<and> ob_drop_reason x = None)
      | DROPPED_EXPLICIT \<Rightarrow> ob_processed_monotonic_ns x = None \<and> ob_failure_code x = None \<and> ob_drop_reason x \<noteq> None
      | FRAME_FAILED \<Rightarrow> ob_processed_monotonic_ns x = None \<and> ob_failure_code x \<noteq> None \<and> ob_drop_reason x = None)"

fun validate_observations :: "validation_input \<Rightarrow> int option \<Rightarrow> int option \<Rightarrow> observation list \<Rightarrow> d1_failure option" where
  "validate_observations q prev_cap prev_proc [] = None"
| "validate_observations q prev_cap prev_proc (x # xs) =
     (if ob_source_kind x \<noteq> vi_input_kind q then Some SCHEMA_INCOMPATIBLE
      else if ob_captured_monotonic_ns x < 0 \<or> ob_captured_monotonic_ns x > pl_run_end_monotonic_ns (vi_plan q)
        then Some SCHEMA_INCOMPATIBLE
      else if prev_cap = Some (ob_captured_monotonic_ns x) then Some FRAME_STALLED
      else if (case prev_cap of None \<Rightarrow> False | Some c \<Rightarrow> ob_captured_monotonic_ns x < c) then Some CLOCK_REGRESSION
      else if (case prev_cap of None \<Rightarrow> False | Some c \<Rightarrow> ob_captured_monotonic_ns x - c \<ge> 1000000000) then Some FRAME_STALLED
      else if \<not> disposition_fields_ok (pl_run_end_monotonic_ns (vi_plan q)) x then Some SCHEMA_INCOMPATIBLE
      else if ob_disposition x = PROCESSED \<and>
          (case (prev_proc, ob_processed_monotonic_ns x) of (Some p, Some t) \<Rightarrow> t \<le> p | _ \<Rightarrow> False) then Some CLOCK_REGRESSION
      else if ob_quality_insufficient x \<and> ob_disposition x \<noteq> PROCESSED then Some SCHEMA_INCOMPATIBLE
      else validate_observations q (Some (ob_captured_monotonic_ns x))
             (if ob_disposition x = PROCESSED then ob_processed_monotonic_ns x else prev_proc) xs)"

definition warmup_boundary :: "validation_input \<Rightarrow> int" where
  "warmup_boundary q = ob_captured_monotonic_ns (hd (vi_observations q)) + pl_warmup_seconds (vi_plan q) * 1000000000"

definition split_warmup :: "validation_input \<Rightarrow> observation list \<times> observation list" where
  "split_warmup q =
     (if vi_observations q = [] then ([], [])
      else (filter (\<lambda>x. ob_captured_monotonic_ns x < warmup_boundary q) (vi_observations q),
            filter (\<lambda>x. ob_captured_monotonic_ns x \<ge> warmup_boundary q) (vi_observations q)))"

section \<open>Metrics\<close>

fun finite_part :: "pyfloat \<Rightarrow> rat" where
  "finite_part (Finite q) = q"
| "finite_part _ = 0"

definition nearest_rank :: "(rat \<Rightarrow> pyfloat) \<Rightarrow> pyfloat list \<Rightarrow> int \<Rightarrow> py_error + pyfloat" where
  "nearest_rank rnd values percentile =
     (if values = [] \<or> \<not> (1 \<le> percentile \<and> percentile \<le> 100)
        then Inl (ValueError ''percentile requires nonempty values and a 1..100 rank'')
      else if \<not> list_all pf_isfinite values then Inl (ValueError ''percentile values must be finite'')
      else let ranked = sort (map finite_part values) in
        res_bind (int_div rnd (percentile * int (length ranked)) 100) (\<lambda>x.
        res_bind (pf_ceil x) (\<lambda>n.
        if n - 1 < int (length ranked) \<and> - int (length ranked) \<le> n - 1
        then Inr (Finite (ranked ! nat ((n - 1) mod int (length ranked))))
        else Inl (IndexError ''list index out of range''))))"

definition optional_rank :: "(rat \<Rightarrow> pyfloat) \<Rightarrow> pyfloat list \<Rightarrow> int \<Rightarrow> py_error + pyfloat option" where
  "optional_rank rnd values percentile =
     (if values = [] then Inr None else res_bind (nearest_rank rnd values percentile) (\<lambda>v. Inr (Some v)))"

fun res_map :: "('a \<Rightarrow> py_error + 'b) \<Rightarrow> 'a list \<Rightarrow> py_error + 'b list" where
  "res_map f [] = Inr []"
| "res_map f (x # xs) = res_bind (f x) (\<lambda>y. res_bind (res_map f xs) (\<lambda>ys. Inr (y # ys)))"

definition gaps_of :: "(rat \<Rightarrow> pyfloat) \<Rightarrow> observation list \<Rightarrow> py_error + pyfloat list" where
  "gaps_of rnd post = res_map (\<lambda>(l, r). int_div rnd (ob_captured_monotonic_ns r - ob_captured_monotonic_ns l) 1000000)
     (zip post (tl post))"

definition latencies_of :: "(rat \<Rightarrow> pyfloat) \<Rightarrow> observation list \<Rightarrow> py_error + pyfloat list" where
  "latencies_of rnd processed = res_map (\<lambda>(c, t). int_div rnd (t - c) 1000000)
     (List.map_filter (\<lambda>x. map_option (\<lambda>t. (ob_captured_monotonic_ns x, t)) (ob_processed_monotonic_ns x)) processed)"

text \<open>\<open>item.processed_monotonic_ns or -1\<close>: zero counts as absent.\<close>

definition completion_key :: "observation \<Rightarrow> int" where
  "completion_key x = (case ob_processed_monotonic_ns x of None \<Rightarrow> -1 | Some t \<Rightarrow> if t = 0 then -1 else t)"

definition latest_completed :: "observation list \<Rightarrow> observation option" where
  "latest_completed xs = (case xs of [] \<Rightarrow> None
     | x # rest \<Rightarrow> Some (fold (\<lambda>y best. if completion_key best < completion_key y then y else best) rest x))"

definition metrics_of :: "(rat \<Rightarrow> pyfloat) \<Rightarrow> validation_input \<Rightarrow> observation list \<Rightarrow> py_error + metric_summary option" where
  "metrics_of rnd q post =
     (if vi_observations q = [] \<or> post = [] then Inr None
      else
        let first = ob_captured_monotonic_ns (hd (vi_observations q)); run_end = pl_run_end_monotonic_ns (vi_plan q) in
        res_bind (int_div rnd (run_end - first) 1000000000) (\<lambda>total.
        res_bind (int_div rnd (run_end - warmup_boundary q) 1000000000) (\<lambda>post_seconds.
        if pf_le total (Finite 0) \<or> pf_le post_seconds (Finite 0) \<or> \<not> pf_isfinite total \<or> \<not> pf_isfinite post_seconds then Inr None
        else
          let processed = filter (\<lambda>x. ob_disposition x = PROCESSED) post in
          res_bind (gaps_of rnd post) (\<lambda>gaps.
          res_bind (latencies_of rnd processed) (\<lambda>latencies.
          res_bind (case latest_completed processed of
              None \<Rightarrow> Inr None
            | Some x \<Rightarrow> res_bind (int_div rnd (ob_captured_monotonic_ns (last post) - ob_captured_monotonic_ns x) 1000000)
                (\<lambda>b. Inr (Some b))) (\<lambda>backlog.
          if (case backlog of None \<Rightarrow> False | Some b \<Rightarrow> pf_less b (Finite 0)) then Inr None
          else
            res_bind (int_float rnd (int (length post))) (\<lambda>n.
            res_bind (float_div rnd n post_seconds) (\<lambda>fps.
            res_bind (optional_rank rnd gaps 95) (\<lambda>p95gap.
            res_bind (optional_rank rnd latencies 95) (\<lambda>p95.
            res_bind (optional_rank rnd latencies 99) (\<lambda>p99.
            res_bind (nearest_rank rnd (map ts_bytes_per_second (de_throughput_samples (vi_disk q))) 10) (\<lambda>p10.
            Inr (Some \<lparr>ms_first_capture_monotonic_ns = first, ms_run_end_monotonic_ns = run_end,
              ms_measured_total_seconds = total, ms_measured_post_warmup_seconds = post_seconds,
              ms_delivered_frames_per_second = fps, ms_p95_inter_frame_gap_ms = p95gap, ms_p95_pose_latency_ms = p95,
              ms_p99_pose_latency_ms = p99, ms_p10_throughput = Some p10, ms_backlog_ms = backlog\<rparr>)))))))))))))"

definition required_bytes_for :: "(rat \<Rightarrow> pyfloat) \<Rightarrow> pyfloat \<Rightarrow> int \<Rightarrow> py_error + int" where
  "required_bytes_for rnd rate duration =
     res_bind (pf_int (float_scale rnd (of_int duration) (float_scale rnd 2 rate))) (\<lambda>n. Inr (max (2 * 1024 ^ 3) n))"

definition over :: "pyfloat option \<Rightarrow> rat \<Rightarrow> bool" where
  "over x limit = (case x of None \<Rightarrow> True | Some v \<Rightarrow> pf_less (Finite limit) v)"

definition threshold_failure :: "(rat \<Rightarrow> pyfloat) \<Rightarrow> validation_input \<Rightarrow> accounting \<Rightarrow> metric_summary \<Rightarrow> py_error + d1_failure option" where
  "threshold_failure rnd q acc m =
     (let requested = Finite (of_int (pl_requested_duration_seconds (vi_plan q))) in
      if pf_less (ms_measured_total_seconds m) requested \<or> pf_less (ms_measured_post_warmup_seconds m) requested
        then Inr (Some QUALITY_INSUFFICIENT)
      else if pf_less (ms_delivered_frames_per_second m) (Finite (27 / 2)) \<or>
          (ms_p95_inter_frame_gap_ms m \<noteq> None \<and> over (ms_p95_inter_frame_gap_ms m) 200) then Inr (Some QUALITY_INSUFFICIENT)
      else if over (ms_p95_pose_latency_ms m) 200 \<or> over (ms_p99_pose_latency_ms m) 500 then Inr (Some QUALITY_INSUFFICIENT)
      else if over (ms_backlog_ms m) 2000 then Inr (Some QUALITY_INSUFFICIENT)
      else
        res_bind (int_div rnd (ac_processed acc) (ac_delivered_frames acc)) (\<lambda>done.
        if pf_less done (rnd (99 / 100)) then Inr (Some QUALITY_INSUFFICIENT)
        else
          res_bind (int_div rnd (ac_dropped_explicit acc + ac_failed acc) (ac_delivered_frames acc)) (\<lambda>lost.
          if pf_less (rnd (1 / 100)) lost then Inr (Some QUALITY_INSUFFICIENT)
          else
            res_bind (required_bytes_for rnd (de_encoded_byte_rate (vi_disk q)) (pl_requested_duration_seconds (vi_plan q))) (\<lambda>required.
            if de_free_bytes (vi_disk q) < required then Inr (Some DISK_SPACE_INSUFFICIENT)
            else if (case ms_p10_throughput m of None \<Rightarrow> True
                | Some v \<Rightarrow> pf_less v (float_scale rnd 2 (de_encoded_byte_rate (vi_disk q)))) then Inr (Some DISK_THROUGHPUT_INSUFFICIENT)
            else Inr None))))"

definition stage_failure :: "encoder_evidence \<Rightarrow> d1_failure option" where
  "stage_failure s =
     (if ee_encoder_open s = STAGE_FAILED then Some ENCODER_UNAVAILABLE
      else if ee_encoder_write s = STAGE_FAILED then Some ENCODER_WRITE_FAILED
      else if ee_encoder_finalize s = STAGE_FAILED then Some ENCODER_FINALIZE_FAILED
      else if ee_durability s = STAGE_FAILED then Some DISK_FSYNC_FAILED
      else None)"

section \<open>Receipts\<close>

definition empty_metrics :: "validation_input \<Rightarrow> metric_summary" where
  "empty_metrics q = \<lparr>ms_first_capture_monotonic_ns = 0, ms_run_end_monotonic_ns = pl_run_end_monotonic_ns (vi_plan q),
     ms_measured_total_seconds = Finite 0, ms_measured_post_warmup_seconds = Finite 0, ms_delivered_frames_per_second = Finite 0,
     ms_p95_inter_frame_gap_ms = None, ms_p95_pose_latency_ms = None, ms_p99_pose_latency_ms = None, ms_p10_throughput = None,
     ms_backlog_ms = None\<rparr>"

definition receipt_of :: "(json \<Rightarrow> string) \<Rightarrow> (rat \<Rightarrow> pyfloat) \<Rightarrow> validation_input \<Rightarrow> validation_outcome \<Rightarrow> d1_failure option \<Rightarrow>
    (string \<times> int) list \<Rightarrow> int \<Rightarrow> int \<Rightarrow> accounting \<Rightarrow> accounting \<Rightarrow> metric_summary \<Rightarrow> bool \<Rightarrow> py_error + d1_receipt" where
  "receipt_of sha rnd q outcome code counts checked stops warmup acc metrics scrubbed =
     (let plan = vi_plan q; disk = vi_disk q in
      res_bind (if scrubbed then Inr 0 else required_bytes_for rnd (de_encoded_byte_rate disk) (pl_requested_duration_seconds plan)) (\<lambda>required.
      let base = \<lparr>dr_schema_version = 1, dr_outcome = outcome, dr_device_gate_decision = UNVERIFIED, dr_evidence_kind = SIMULATED,
        dr_failure_code = code, dr_failure_counts = counts, dr_run_kind = pl_run_kind plan, dr_width = pl_width plan,
        dr_height = pl_height plan, dr_frames_per_second = pl_frames_per_second plan,
        dr_requested_duration_seconds = pl_requested_duration_seconds plan, dr_warmup_seconds = pl_warmup_seconds plan,
        dr_privacy_checked_frames = checked, dr_privacy_stop_count = stops, dr_warmup_accounting = warmup, dr_accounting = acc,
        dr_metrics = metrics, dr_required_bytes = required, dr_free_bytes = (if scrubbed then 0 else de_free_bytes disk),
        dr_encoded_byte_count = (if scrubbed then 0 else de_encoded_byte_count disk),
        dr_encoded_byte_rate = (if scrubbed then Finite 0 else de_encoded_byte_rate disk),
        dr_throughput_sample_count = (if scrubbed then 0 else int (length (de_throughput_samples disk))),
        dr_throughput_digest = (if scrubbed then sha (JArr []) else sha (throughput_payload (de_throughput_samples disk))),
        dr_stages = (if scrubbed then not_attempted else de_stages disk),
        dr_seal_attempted = False, dr_export_attempted = False,
        dr_authority_digest = sha (authority_payload (vi_authority q)),
        dr_input_digest = (if scrubbed then privacy_stop_digest sha checked else canonical_input_digest sha plan (vi_observations q) disk),
        dr_provenance_digest = (if scrubbed then privacy_stop_digest sha checked else sha (provenance_payload (vi_provenance q))),
        dr_environment_digest = sha (environment_payload (vi_environment q)),
        dr_reproduction_digest = (if scrubbed then privacy_stop_digest sha checked else sha (reproduction_payload (vi_reproduction q))),
        dr_evaluation_core_digest = (if scrubbed then privacy_stop_digest sha checked else canonical_evaluation_digest sha q),
        dr_result_digest = []\<rparr>
      in Inr (base\<lparr>dr_result_digest := recompute_digest sha base\<rparr>)))"

definition failure_receipt :: "(json \<Rightarrow> string) \<Rightarrow> (rat \<Rightarrow> pyfloat) \<Rightarrow> validation_input \<Rightarrow> d1_failure \<Rightarrow> observation list \<Rightarrow>
    accounting option \<Rightarrow> metric_summary option \<Rightarrow> int \<Rightarrow> int \<Rightarrow> (string \<times> int) list option \<Rightarrow> py_error + d1_receipt" where
  "failure_receipt sha rnd q code warmup acc metrics checked stops counts =
     (let base = (case counts of None \<Rightarrow> failure_counts q (0 < stops) | Some cs \<Rightarrow> cs);
          all_counts = (if failure_str code \<in> fst ` set base then base else sort (base @ [(failure_str code, 1)])) in
      if code = PRIVACY_STOP
      then receipt_of sha rnd q NO_GO (Some code) all_counts checked stops empty_accounting empty_accounting (empty_metrics q) True
      else receipt_of sha rnd q NO_GO (Some code) all_counts checked stops (accounting_of warmup)
             (case acc of None \<Rightarrow> empty_accounting | Some a \<Rightarrow> a) (case metrics of None \<Rightarrow> empty_metrics q | Some m \<Rightarrow> m) False)"

section \<open>Evaluation\<close>

text \<open>The privacy loop: the number of frames inspected and whether it stopped.\<close>

fun privacy_loop :: "(nat \<Rightarrow> observation \<Rightarrow> py_error + privacy_decision) \<Rightarrow> nat \<Rightarrow> observation list \<Rightarrow> py_error + (nat \<times> bool)" where
  "privacy_loop guard n [] = Inr (n, False)"
| "privacy_loop guard n (x # xs) =
     (if guard n x = Inr CLEAR then privacy_loop guard (Suc n) xs
      else case guard n x of
        Inl e \<Rightarrow> except_Exception (Inl e) (Inr (Suc n, True))
      | Inr _ \<Rightarrow> Inr (Suc n, True))"

definition evaluate_cleared :: "(json \<Rightarrow> string) \<Rightarrow> (rat \<Rightarrow> pyfloat) \<Rightarrow> validation_input \<Rightarrow> int \<Rightarrow> py_error + d1_receipt" where
  "evaluate_cleared sha rnd q checked =
     (case validate_observations q None None (vi_observations q) of
        Some err \<Rightarrow> failure_receipt sha rnd q err [] None None checked 0 None
      | None \<Rightarrow>
        (case split_warmup q of (warmup, post) \<Rightarrow>
         let acc = accounting_of post; counts = failure_counts q False in
         if counts \<noteq> [] then res_bind (first_count_code counts) (\<lambda>c. failure_receipt sha rnd q c warmup (Some acc) None checked 0 (Some counts))
         else if ac_delivered_frames acc = 0 then failure_receipt sha rnd q INPUT_UNAVAILABLE warmup (Some acc) None checked 0 None
         else if ac_processed acc + ac_dropped_explicit acc + ac_failed acc \<noteq> ac_delivered_frames acc
           then failure_receipt sha rnd q SCHEMA_INCOMPATIBLE warmup (Some acc) None checked 0 None
         else if ac_quality_insufficient acc \<noteq> 0 then failure_receipt sha rnd q QUALITY_INSUFFICIENT warmup (Some acc) None checked 0 None
         else case stage_failure (de_stages (vi_disk q)) of
           Some c \<Rightarrow> failure_receipt sha rnd q c warmup (Some acc) None checked 0 None
         | None \<Rightarrow>
           res_bind (metrics_of rnd q post) (\<lambda>found.
           case found of
             None \<Rightarrow> failure_receipt sha rnd q SCHEMA_INCOMPATIBLE warmup (Some acc) None checked 0 None
           | Some m \<Rightarrow>
             if de_encoded_byte_count (vi_disk q) \<le> 0 \<or> pf_le (de_encoded_byte_rate (vi_disk q)) (Finite 0)
               then failure_receipt sha rnd q ENCODER_WRITE_FAILED warmup (Some acc) (Some m) checked 0 None
             else
               res_bind (int_float rnd (de_encoded_byte_count (vi_disk q))) (\<lambda>bytes.
               res_bind (float_div rnd bytes (de_encoded_byte_rate (vi_disk q))) (\<lambda>seconds.
               if \<not> isclose rnd seconds (ms_measured_total_seconds m) (rnd (1 / 1000))
                 then failure_receipt sha rnd q SCHEMA_INCOMPATIBLE warmup (Some acc) (Some m) checked 0 None
               else
                 res_bind (threshold_failure rnd q acc m) (\<lambda>failed.
                 case failed of
                   Some c \<Rightarrow> failure_receipt sha rnd q c warmup (Some acc) (Some m) checked 0 None
                 | None \<Rightarrow> receipt_of sha rnd q BACKEND_CONTRACT_PASS None [] checked 0 (accounting_of warmup) acc m False))))))"

definition evaluate_under_lease :: "(json \<Rightarrow> string) \<Rightarrow> (rat \<Rightarrow> pyfloat) \<Rightarrow> (nat \<Rightarrow> observation \<Rightarrow> py_error + privacy_decision) \<Rightarrow>
    validation_input \<Rightarrow> py_error + d1_receipt" where
  "evaluate_under_lease sha rnd guard q =
     res_bind (privacy_loop guard 0 (vi_observations q)) (\<lambda>(checked, stopped).
      if stopped then failure_receipt sha rnd q PRIVACY_STOP [] None None (int checked) 1 (Some [(failure_str PRIVACY_STOP, 1)])
      else evaluate_cleared sha rnd q (int checked))"

datatype lease_call = Acquire | Release

definition evaluate :: "(json \<Rightarrow> string) \<Rightarrow> (rat \<Rightarrow> pyfloat) \<Rightarrow> (nat \<Rightarrow> observation \<Rightarrow> py_error + privacy_decision) \<Rightarrow>
    (py_error + bool) \<Rightarrow> (py_error + unit) \<Rightarrow> validation_input \<Rightarrow> (py_error + d1_receipt) \<times> lease_call list" where
  "evaluate sha rnd guard acquire release q =
     (let refused = failure_receipt sha rnd q SCHEMA_INCOMPATIBLE [] None None 0 0 None in
      case validate_request sha q of
        Inl e \<Rightarrow> (Inl e, [])
      | Inr _ \<Rightarrow>
        (case acquire of
           Inl e \<Rightarrow> (except_Exception (Inl e) refused, [Acquire])
         | Inr acquired \<Rightarrow>
           if \<not> acquired then (refused, [Acquire])
           else
             (case except_Exception (evaluate_under_lease sha rnd guard q)
                     (failure_receipt sha rnd q UNKNOWN_TECHNICAL_FAILURE [] None None 0 0 None) of
                Inl e \<Rightarrow> (Inl e, [Acquire])
              | Inr r \<Rightarrow>
                  (case release of
                     Inl e \<Rightarrow> (except_Exception (Inl e) refused, [Acquire, Release])
                   | Inr _ \<Rightarrow> (Inr r, [Acquire, Release])))))"

section \<open>Verification of a receipt\<close>

definition accounting_is_semantic :: "accounting \<Rightarrow> bool" where
  "accounting_is_semantic v \<longleftrightarrow>
     list_all (\<lambda>n. 0 \<le> n) [ac_delivered_frames v, ac_inter_frame_gaps v, ac_processed v, ac_dropped_explicit v, ac_failed v,
       ac_quality_insufficient v] \<and>
     ac_inter_frame_gaps v = max (ac_delivered_frames v - 1) 0 \<and>
     ac_processed v + ac_dropped_explicit v + ac_failed v = ac_delivered_frames v \<and>
     ac_quality_insufficient v \<le> ac_processed v \<and>
     ac_drop_reasons v = sort (ac_drop_reasons v) \<and>
     list_all (\<lambda>(name, count). name = drop_reason_str BACKPRESSURE \<and> 0 < count) (ac_drop_reasons v) \<and>
     sum_list (map snd (ac_drop_reasons v)) = ac_dropped_explicit v"

definition failure_counts_are_semantic :: "(string \<times> int) list \<Rightarrow> bool" where
  "failure_counts_are_semantic cs \<longleftrightarrow> cs = sort cs \<and> distinct (map fst cs) \<and>
     list_all (\<lambda>(name, count). 0 < count \<and> name \<in> set (map failure_str d1_failures)) cs"

definition stages_succeeded :: "encoder_evidence \<Rightarrow> bool" where
  "stages_succeeded s \<longleftrightarrow> ee_encoder_open s = SUCCEEDED \<and> ee_encoder_write s = SUCCEEDED \<and> ee_encoder_finalize s = SUCCEEDED \<and>
     ee_durability s = SUCCEEDED"

definition nonneg_float :: "pyfloat \<Rightarrow> bool" where
  "nonneg_float x \<longleftrightarrow> pf_isfinite x \<and> pf_le (Finite 0) x"

definition metrics_are_semantic :: "(rat \<Rightarrow> pyfloat) \<Rightarrow> metric_summary \<Rightarrow> d1_receipt \<Rightarrow> py_error + bool" where
  "metrics_are_semantic rnd m r =
     (case (ms_p95_inter_frame_gap_ms m, ms_p95_pose_latency_ms m, ms_p99_pose_latency_ms m, ms_p10_throughput m, ms_backlog_ms m) of
        (Some gap, Some p95, Some p99, Some p10, Some backlog) \<Rightarrow>
          if \<not> list_all nonneg_float [ms_measured_total_seconds m, ms_measured_post_warmup_seconds m, ms_delivered_frames_per_second m,
              gap, p95, p99, p10, backlog] then Inr False
          else if ms_first_capture_monotonic_ns m < 0 \<or> ms_run_end_monotonic_ns m < ms_first_capture_monotonic_ns m then Inr False
          else
            res_bind (int_div rnd (ms_run_end_monotonic_ns m - ms_first_capture_monotonic_ns m) 1000000000) (\<lambda>expected_total.
            if \<not> isclose rnd (ms_measured_total_seconds m) expected_total (rnd (1 / 1000)) then Inr False
            else if \<not> isclose rnd (float_sub rnd (ms_measured_total_seconds m) (ms_measured_post_warmup_seconds m))
                (Finite (of_int (dr_warmup_seconds r))) (rnd (1 / 1000)) then Inr False
            else if pf_less (ms_measured_total_seconds m) (Finite (of_int (dr_requested_duration_seconds r))) then Inr False
            else if pf_less (ms_measured_post_warmup_seconds m) (Finite (of_int (dr_requested_duration_seconds r))) then Inr False
            else
              res_bind (int_float rnd (ac_delivered_frames (dr_accounting r))) (\<lambda>n.
              res_bind (float_div rnd n (ms_measured_post_warmup_seconds m)) (\<lambda>expected_fps.
              if \<not> isclose rnd (ms_delivered_frames_per_second m) expected_fps (rnd (1 / 1000000)) then Inr False
              else if pf_less (ms_delivered_frames_per_second m) (Finite (27 / 2)) \<or> pf_less (Finite 200) gap then Inr False
              else if pf_less (Finite 200) p95 \<or> pf_less (Finite 500) p99 then Inr False
              else if pf_less (Finite 2000) backlog then Inr False
              else if pf_less p10 (float_scale rnd 2 (dr_encoded_byte_rate r)) then Inr False
              else if ac_delivered_frames (dr_accounting r) = 0 then Inr False
              else
                res_bind (int_div rnd (ac_processed (dr_accounting r)) (ac_delivered_frames (dr_accounting r))) (\<lambda>done.
                if pf_less done (rnd (99 / 100)) then Inr False
                else
                  res_bind (int_div rnd (ac_dropped_explicit (dr_accounting r) + ac_failed (dr_accounting r))
                    (ac_delivered_frames (dr_accounting r))) (\<lambda>lost. Inr (pf_le lost (rnd (1 / 100))))))))
      | _ \<Rightarrow> Inr False)"

definition verify_privacy_stop :: "(json \<Rightarrow> string) \<Rightarrow> d1_receipt \<Rightarrow> bool" where
  "verify_privacy_stop sha r \<longleftrightarrow> (let d = privacy_stop_digest sha (dr_privacy_checked_frames r) in
     dr_outcome r = NO_GO \<and> dr_failure_counts r = [(failure_str PRIVACY_STOP, 1)] \<and> 1 \<le> dr_privacy_checked_frames r \<and>
     dr_privacy_stop_count r = 1 \<and> dr_warmup_accounting r = empty_accounting \<and> dr_accounting r = empty_accounting \<and>
     dr_required_bytes r = 0 \<and> dr_free_bytes r = 0 \<and> dr_encoded_byte_count r = 0 \<and> dr_encoded_byte_rate r = Finite 0 \<and>
     dr_throughput_sample_count r = 0 \<and> dr_throughput_digest r = sha (JArr []) \<and> dr_stages r = not_attempted \<and>
     dr_input_digest r = d \<and> dr_provenance_digest r = d \<and> dr_reproduction_digest r = d \<and> dr_evaluation_core_digest r = d \<and>
     dr_result_digest r = recompute_digest sha r)"

definition verify_pass :: "(rat \<Rightarrow> pyfloat) \<Rightarrow> d1_receipt \<Rightarrow> py_error + bool" where
  "verify_pass rnd r =
     (if dr_failure_code r \<noteq> None \<or> dr_failure_counts r \<noteq> [] \<or> dr_privacy_stop_count r \<noteq> 0 \<or>
         dr_privacy_checked_frames r \<noteq> ac_delivered_frames (dr_warmup_accounting r) + ac_delivered_frames (dr_accounting r) then Inr False
      else if ac_quality_insufficient (dr_accounting r) \<noteq> 0 \<or> dr_encoded_byte_count r \<le> 0 then Inr False
      else if pf_le (dr_encoded_byte_rate r) (Finite 0) \<or> \<not> stages_succeeded (dr_stages r) then Inr False
      else
        res_bind (metrics_are_semantic rnd (dr_metrics r) r) (\<lambda>ok.
        if \<not> ok then Inr False
        else
          res_bind (int_float rnd (dr_encoded_byte_count r)) (\<lambda>bytes.
          res_bind (float_div rnd bytes (dr_encoded_byte_rate r)) (\<lambda>seconds.
          Inr (isclose rnd seconds (ms_measured_total_seconds (dr_metrics r)) (rnd (1 / 1000)))))))"

definition verify_receipt_semantics :: "(json \<Rightarrow> string) \<Rightarrow> (rat \<Rightarrow> pyfloat) \<Rightarrow> d1_receipt \<Rightarrow> py_error + bool" where
  "verify_receipt_semantics sha rnd r =
     (if dr_schema_version r \<noteq> 1 then Inr False
      else if dr_seal_attempted r \<or> dr_export_attempted r then Inr False
      else if \<not> accounting_is_semantic (dr_warmup_accounting r) \<or> \<not> accounting_is_semantic (dr_accounting r) then Inr False
      else if \<not> failure_counts_are_semantic (dr_failure_counts r) then Inr False
      else if dr_requested_duration_seconds r \<noteq> required_duration (dr_run_kind r) \<or>
          (dr_width r, dr_height r, dr_frames_per_second r, dr_warmup_seconds r) \<noteq> (1280, 720, 15, 5) then Inr False
      else if dr_failure_code r = Some PRIVACY_STOP then Inr (verify_privacy_stop sha r)
      else
        res_bind (required_bytes_for rnd (dr_encoded_byte_rate r) (dr_requested_duration_seconds r)) (\<lambda>expected.
        if dr_required_bytes r \<noteq> expected \<or> dr_free_bytes r < dr_required_bytes r then Inr False
        else if dr_throughput_sample_count r \<noteq> 60 \<or> \<not> is_digest (dr_throughput_digest r) then Inr False
        else
          res_bind (case dr_outcome r of
              BACKEND_CONTRACT_PASS \<Rightarrow> verify_pass rnd r
            | NO_GO \<Rightarrow> Inr (case dr_failure_code r of None \<Rightarrow> False | Some c \<Rightarrow> failure_str c \<in> fst ` set (dr_failure_counts r))) (\<lambda>ok.
          if \<not> ok then Inr False
          else if dr_privacy_checked_frames r < 0 \<or> dr_privacy_stop_count r < 0 then Inr False
          else if dr_privacy_checked_frames r < dr_privacy_stop_count r then Inr False
          else Inr (dr_result_digest r = recompute_digest sha r))))"

end
