(* ===== verification/D1_Properties.thy ===== *)
theory D1_Properties
  imports D1_Evaluator
begin

text \<open>
  Lemmas on the evaluator of the measurement contract: the counting dictionaries, the accounting of validated
  observations, the shape of every receipt, and the inversion of a passed run.
\<close>

section \<open>Counting dictionaries\<close>

text \<open>Distinct names from the failure codes, with positive counts.\<close>

definition counts_ok :: "(string \<times> int) list \<Rightarrow> bool" where
  "counts_ok d \<longleftrightarrow> distinct (map fst d) \<and> (\<forall>(n, c) \<in> set d. 0 < c \<and> n \<in> set (map failure_str d1_failures))"

lemma set_update_distinct:
  "distinct (map fst d) \<Longrightarrow> set (AList.update k v d) = {(n, c) \<in> set d. n \<noteq> k} \<union> {(k, v)}"
  by (induction d) (auto simp: image_iff)

lemma counts_ok_bump:
  assumes "counts_ok d"
  shows "counts_ok (bump (failure_str c) d)"
proof -
  have d: "distinct (map fst d)" using assms by (simp add: counts_ok_def)
  have "0 < (case map_of d (failure_str c) of None \<Rightarrow> 0 | Some n \<Rightarrow> n) + 1"
    using assms by (auto simp: counts_ok_def split: option.split dest!: map_of_SomeD)
  moreover have "failure_str c \<in> set (map failure_str d1_failures)" using failure_in_list by simp
  ultimately show ?thesis
    using assms unfolding counts_ok_def bump_def set_update_distinct [OF d]
    by (auto simp: distinct_update)
qed

lemma bump_names: "fst ` set (bump k d) = insert k (fst ` set d)"
  by (simp add: bump_def dom_update [unfolded dom_fst])

lemma counts_ok_fold_codes: "counts_ok d \<Longrightarrow> counts_ok (fold (\<lambda>c. bump (failure_str c)) cs d)"
  by (induction cs arbitrary: d) (auto intro: counts_ok_bump)

lemma counts_ok_fold_observations: "counts_ok d \<Longrightarrow> counts_ok (fold count_observation xs d)"
  by (induction xs arbitrary: d) (auto simp: count_observation_def Let_def intro: counts_ok_bump split: option.split)

lemma counts_ok_sort: "counts_ok d \<Longrightarrow> failure_counts_are_semantic (sort d)"
proof -
  assume "counts_ok d"
  moreover have "distinct (map fst (sort d)) = distinct (map fst d)"
    by (simp add: distinct_map)
  ultimately show ?thesis by (auto simp: counts_ok_def failure_counts_are_semantic_def list_all_iff sorted_sort_id)
qed

lemma failure_counts_semantic: "failure_counts_are_semantic (failure_counts q b)"
proof -
  have "counts_ok []" by (simp add: counts_ok_def)
  then show ?thesis
    unfolding failure_counts_def
    by (intro counts_ok_sort) (simp add: counts_ok_bump counts_ok_fold_codes counts_ok_fold_observations)
qed

lemma failure_counts_add:
  assumes "failure_counts_are_semantic d" and "failure_str c \<notin> fst ` set d"
  shows "failure_counts_are_semantic (sort (d @ [(failure_str c, 1)]))"
proof (rule counts_ok_sort)
  have "failure_str c \<in> set (map failure_str d1_failures)" using failure_in_list by simp
  with assms show "counts_ok (d @ [(failure_str c, 1)])"
    by (auto simp: counts_ok_def failure_counts_are_semantic_def list_all_iff)
qed

section \<open>Accounting of validated observations\<close>

definition observation_ok :: "int \<Rightarrow> observation \<Rightarrow> bool" where
  "observation_ok run_end x \<longleftrightarrow> disposition_fields_ok run_end x \<and> (ob_quality_insufficient x \<longrightarrow> ob_disposition x = PROCESSED)"

lemma validated_observations:
  "validate_observations q pc pp xs = None \<Longrightarrow> x \<in> set xs \<Longrightarrow>
     observation_ok (pl_run_end_monotonic_ns (vi_plan q)) x \<and> 0 \<le> ob_captured_monotonic_ns x \<and>
     ob_captured_monotonic_ns x \<le> pl_run_end_monotonic_ns (vi_plan q)"
  by (induction q pc pp xs rule: validate_observations.induct) (auto simp: observation_ok_def split: if_splits)

lemma drop_reason_of_ok: "observation_ok e x \<Longrightarrow> ob_drop_reason x \<noteq> None \<longleftrightarrow> ob_disposition x = DROPPED_EXPLICIT"
  by (auto simp: observation_ok_def disposition_fields_ok_def split: frame_disposition.splits option.splits)

lemma drop_reasons_count:
  assumes "\<forall>x \<in> set xs. observation_ok e x" and "0 \<le> k"
  shows "fold (\<lambda>x d. case ob_drop_reason x of None \<Rightarrow> d | Some r \<Rightarrow> bump (drop_reason_str r) d) xs
      (if k = 0 then [] else [(''BACKPRESSURE'', k)]) =
    (let n = k + count_if (\<lambda>x. ob_disposition x = DROPPED_EXPLICIT) xs in if n = 0 then [] else [(''BACKPRESSURE'', n)])"
  using assms
proof (induction xs arbitrary: k)
  case (Cons x xs)
  show ?case
  proof (cases "ob_drop_reason x")
    case None
    with Cons.prems(1) have "ob_disposition x \<noteq> DROPPED_EXPLICIT" using drop_reason_of_ok [of e x] by simp
    with None Cons show ?thesis by (simp add: count_if_def)
  next
    case (Some r)
    with Cons.prems(1) have d: "ob_disposition x = DROPPED_EXPLICIT" using drop_reason_of_ok [of e x] by simp
    have "bump (drop_reason_str r) (if k = 0 then [] else [(''BACKPRESSURE'', k)]) = [(''BACKPRESSURE'', k + 1)]"
      by (cases r) (simp add: bump_def)
    with Some d Cons.IH [of "k + 1"] Cons.prems show ?thesis by (simp add: count_if_def algebra_simps)
  qed
qed (simp add: count_if_def)

lemma partition_by_disposition:
  "count_if (\<lambda>x. ob_disposition x = PROCESSED) xs + count_if (\<lambda>x. ob_disposition x = DROPPED_EXPLICIT) xs +
     count_if (\<lambda>x. ob_disposition x = FRAME_FAILED) xs = int (length xs)"
proof (induction xs)
  case (Cons x xs)
  then show ?case by (cases "ob_disposition x") (auto simp: count_if_def)
qed (simp add: count_if_def)

lemma accounting_semantic:
  assumes "\<forall>x \<in> set xs. observation_ok e x"
  shows "accounting_is_semantic (accounting_of xs)"
proof -
  have drops: "drop_reasons_of xs = (let n = count_if (\<lambda>x. ob_disposition x = DROPPED_EXPLICIT) xs in
      if n = 0 then [] else [(''BACKPRESSURE'', n)])"
    using drop_reasons_count [OF assms, of 0] by (auto simp: drop_reasons_of_def Let_def)
  have "length (filter ob_quality_insufficient xs) \<le> length (filter (\<lambda>x. ob_disposition x = PROCESSED) xs)"
    using assms by (induction xs) (auto simp: observation_ok_def)
  with partition_by_disposition [of xs] drops show ?thesis
    by (auto simp: accounting_is_semantic_def accounting_of_def count_if_def Let_def)
qed

lemma split_warmup_subset:
  "split_warmup q = (w, p) \<Longrightarrow> set w \<subseteq> set (vi_observations q) \<and> set p \<subseteq> set (vi_observations q)"
  by (auto simp: split_warmup_def split: if_splits)


section \<open>Shape of the receipts\<close>

lemma receipt_of_Inr:
  assumes "receipt_of sha rnd q outcome code counts checked stops warmup acc metrics scrubbed = Inr r"
  shows "dr_schema_version r = 1" "dr_outcome r = outcome" "dr_failure_code r = code" "dr_failure_counts r = counts"
    "dr_run_kind r = pl_run_kind (vi_plan q)" "dr_width r = pl_width (vi_plan q)" "dr_height r = pl_height (vi_plan q)"
    "dr_frames_per_second r = pl_frames_per_second (vi_plan q)" "dr_warmup_seconds r = pl_warmup_seconds (vi_plan q)"
    "dr_requested_duration_seconds r = pl_requested_duration_seconds (vi_plan q)"
    "dr_privacy_checked_frames r = checked" "dr_privacy_stop_count r = stops" "dr_warmup_accounting r = warmup"
    "dr_accounting r = acc" "dr_metrics r = metrics" "\<not> dr_seal_attempted r" "\<not> dr_export_attempted r"
    "dr_result_digest r = recompute_digest sha r"
    "\<not> scrubbed \<Longrightarrow> required_bytes_for rnd (de_encoded_byte_rate (vi_disk q)) (pl_requested_duration_seconds (vi_plan q)) =
       Inr (dr_required_bytes r)"
    "\<not> scrubbed \<Longrightarrow> dr_free_bytes r = de_free_bytes (vi_disk q)"
    "\<not> scrubbed \<Longrightarrow> dr_encoded_byte_count r = de_encoded_byte_count (vi_disk q)"
    "\<not> scrubbed \<Longrightarrow> dr_encoded_byte_rate r = de_encoded_byte_rate (vi_disk q)"
    "\<not> scrubbed \<Longrightarrow> dr_throughput_sample_count r = int (length (de_throughput_samples (vi_disk q)))"
    "\<not> scrubbed \<Longrightarrow> dr_throughput_digest r = sha (throughput_payload (de_throughput_samples (vi_disk q)))"
    "\<not> scrubbed \<Longrightarrow> dr_stages r = de_stages (vi_disk q)"
  using assms
  by (auto simp: receipt_of_def Let_def res_bind_Inr_iff recompute_digest_def canonical_payload_def split: if_splits)

lemma receipt_of_total:
  "scrubbed \<or> (\<exists>n. required_bytes_for rnd (de_encoded_byte_rate (vi_disk q)) (pl_requested_duration_seconds (vi_plan q)) = Inr n) \<Longrightarrow>
   \<exists>r. receipt_of sha rnd q outcome code counts checked stops warmup acc metrics scrubbed = Inr r"
  by (auto simp: receipt_of_def Let_def)

lemma failure_receipt_total:
  "code = PRIVACY_STOP \<or> (\<exists>n. required_bytes_for rnd (de_encoded_byte_rate (vi_disk q)) (pl_requested_duration_seconds (vi_plan q)) = Inr n) \<Longrightarrow>
   \<exists>r. failure_receipt sha rnd q code warmup acc metrics checked stops counts = Inr r"
  unfolding failure_receipt_def Let_def by (auto intro: receipt_of_total)

lemma validate_request_Inr:
  "validate_request sha q = Inr u \<longleftrightarrow> vi_schema_version q = 1 \<and> plan_ok (vi_plan q) \<and> authority_ok (vi_authority q) \<and>
     disk_shape_ok (vi_disk q) \<and> samples_ok (de_throughput_samples (vi_disk q)) \<and> provenance_ok sha q \<and>
     environment_ok (vi_environment q) \<and> reproduction_ok sha q"
  by (auto simp: validate_request_def res_bind_Inr_iff require_def split: if_splits)

text \<open>What every receipt with a failure code other than the privacy stop satisfies.\<close>

definition no_go_ok :: "(json \<Rightarrow> string) \<Rightarrow> (rat \<Rightarrow> pyfloat) \<Rightarrow> validation_input \<Rightarrow> d1_receipt \<Rightarrow> bool" where
  "no_go_ok sha rnd q r \<longleftrightarrow>
     verify_receipt_semantics sha rnd r = Inr (dr_required_bytes r \<le> dr_free_bytes r)"

lemma verify_no_go:
  assumes "failure_receipt sha rnd q code warmup acc metrics checked 0 counts = Inr r" and "code \<noteq> PRIVACY_STOP"
    and "validate_request sha q = Inr u" and "\<And>x. is_digest (sha x)" and "0 \<le> checked"
    and "\<forall>x \<in> set warmup. observation_ok e x" and "\<forall>a. acc = Some a \<longrightarrow> accounting_is_semantic a"
    and "\<forall>c. counts = Some c \<longrightarrow> failure_counts_are_semantic c"
  shows "no_go_ok sha rnd q r"
proof -
  define base where "base = (case counts of None \<Rightarrow> failure_counts q (0 < (0 :: int)) | Some cs \<Rightarrow> cs)"
  define cs where "cs = (if failure_str code \<in> fst ` set base then base else sort (base @ [(failure_str code, 1)]))"
  define a where "a = (case acc of None \<Rightarrow> empty_accounting | Some a \<Rightarrow> a)"
  have r: "receipt_of sha rnd q NO_GO (Some code) cs checked 0 (accounting_of warmup) a
      (case metrics of None \<Rightarrow> empty_metrics q | Some m \<Rightarrow> m) False = Inr r"
    using assms(1) unfolding failure_receipt_def Let_def if_not_P [OF assms(2)] cs_def base_def a_def .
  note f = receipt_of_Inr [OF r]
  have base: "failure_counts_are_semantic base" using assms(8) failure_counts_semantic by (auto simp: base_def split: option.split)
  then have counts: "failure_counts_are_semantic cs" by (simp add: cs_def failure_counts_add)
  have listed: "failure_str code \<in> fst ` set cs" by (auto simp: cs_def)
  have "accounting_is_semantic empty_accounting" by (simp add: accounting_is_semantic_def empty_accounting_def)
  then have acc_ok: "accounting_is_semantic a" using assms(7) by (auto simp: a_def split: option.split)
  have plan: "pl_requested_duration_seconds (vi_plan q) = required_duration (pl_run_kind (vi_plan q))"
    "(pl_width (vi_plan q), pl_height (vi_plan q), pl_frames_per_second (vi_plan q), pl_warmup_seconds (vi_plan q)) = (1280, 720, 15, 5)"
    and samples: "length (de_throughput_samples (vi_disk q)) = 60"
    using assms(3) by (auto simp: validate_request_Inr plan_ok_def disk_shape_ok_def)
  show ?thesis
    unfolding no_go_ok_def verify_receipt_semantics_def
    using f plan samples counts listed acc_ok accounting_semantic [OF assms(6)] assms(2,4,5) by simp
qed


lemma failure_receipt_code:
  "failure_receipt sha rnd q code warmup acc metrics checked stops counts = Inr r \<Longrightarrow>
   dr_failure_code r = Some code \<and> dr_outcome r = NO_GO"
  by (auto simp: failure_receipt_def Let_def split: if_splits dest: receipt_of_Inr(2,3))

lemma cleared_no_go:
  assumes "evaluate_cleared sha rnd q checked = Inr r" and "dr_failure_code r = Some c" and "c \<noteq> PRIVACY_STOP"
    and valid: "validate_request sha q = Inr u" and sha: "\<And>x. is_digest (sha x)" and "0 \<le> checked"
  shows "no_go_ok sha rnd q r"
proof (cases "validate_observations q None None (vi_observations q)")
  case (Some err)
  then have f: "failure_receipt sha rnd q err [] None None checked 0 None = Inr r"
    using assms(1) by (simp add: evaluate_cleared_def)
  then have "err \<noteq> PRIVACY_STOP" using failure_receipt_code [OF f] assms(2,3) by simp
  then show ?thesis using f valid sha assms(6) by (intro verify_no_go [where e = 0]) auto
next
  case None
  obtain w p where wp: "split_warmup q = (w, p)" by force
  have obs: "\<forall>x \<in> set w. observation_ok (pl_run_end_monotonic_ns (vi_plan q)) x"
    "\<forall>x \<in> set p. observation_ok (pl_run_end_monotonic_ns (vi_plan q)) x"
    using validated_observations [OF None] split_warmup_subset [OF wp] by blast+
  have F: "no_go_ok sha rnd q r"
    if f: "failure_receipt sha rnd q code w (Some (accounting_of p)) m checked 0 cs = Inr r" and "cs \<in> {None, Some (failure_counts q False)}"
    for code m cs
  proof -
    have "code \<noteq> PRIVACY_STOP" using failure_receipt_code [OF f] assms(2,3) by simp
    with that obs sha assms(6) show ?thesis
      by (intro verify_no_go [OF f _ valid]) (auto intro: accounting_semantic simp: failure_counts_semantic)
  qed
  have P: False if "receipt_of sha rnd q BACKEND_CONTRACT_PASS None [] checked 0 a b m False = Inr r" for a b m
    using receipt_of_Inr(3) [OF that] assms(2) by simp
  show ?thesis
    using assms(1) None wp
    by (auto simp: evaluate_cleared_def Let_def res_bind_Inr_iff split: if_splits option.splits intro: F dest: P)
qed

section \<open>A passed run\<close>

lemma bump_not_Nil [simp]: "bump k d \<noteq> []"
  by (cases d) (auto simp: bump_def)

lemma fold_codes_Nil: "fold (\<lambda>c. bump (failure_str c)) cs d = [] \<longleftrightarrow> cs = [] \<and> d = []"
  by (induction cs arbitrary: d) auto

lemma count_observation_Nil: "count_observation x d = [] \<longleftrightarrow> d = [] \<and> ob_failure_code x = None \<and> \<not> ob_quality_insufficient x"
  by (auto simp: count_observation_def Let_def split: option.split)

lemma fold_observations_Nil:
  "fold count_observation xs d = [] \<longleftrightarrow> d = [] \<and> (\<forall>x \<in> set xs. ob_failure_code x = None \<and> \<not> ob_quality_insufficient x)"
  by (induction xs arbitrary: d) (auto simp: count_observation_Nil)

lemma failure_counts_Nil:
  "failure_counts q False = [] \<longleftrightarrow> vi_injected_failures q = [] \<and>
     (\<forall>x \<in> set (vi_observations q). ob_failure_code x = None \<and> \<not> ob_quality_insufficient x)"
proof -
  have "sort xs = [] \<longleftrightarrow> xs = []" for xs :: "(string \<times> int) list" by (metis length_0_conv length_sort)
  then show ?thesis by (auto simp: failure_counts_def fold_codes_Nil fold_observations_Nil)
qed

lemma privacy_loop_clear:
  "privacy_loop guard n xs = Inr (k, False) \<Longrightarrow> k = n + length xs \<and> (\<forall>i < length xs. guard (n + i) (xs ! i) = Inr CLEAR)"
proof (induction xs arbitrary: n)
  case (Cons x xs)
  then have "guard n x = Inr CLEAR" "privacy_loop guard (Suc n) xs = Inr (k, False)"
    by (auto simp: except_Exception_def split: if_splits sum.splits)
  with Cons.IH [of "Suc n"] show ?case by (auto simp: nth_Cons split: nat.split)
qed simp

lemma cleared_pass:
  assumes "evaluate_cleared sha rnd q checked = Inr r" and "dr_outcome r = BACKEND_CONTRACT_PASS"
  obtains w p m where "split_warmup q = (w, p)" "validate_observations q None None (vi_observations q) = None"
    "failure_counts q False = []" "stage_failure (de_stages (vi_disk q)) = None"
    "metrics_of rnd q p = Inr (Some m)" "threshold_failure rnd q (accounting_of p) m = Inr None"
    "receipt_of sha rnd q BACKEND_CONTRACT_PASS None [] checked 0 (accounting_of w) (accounting_of p) m False = Inr r"
proof -
  have F: False if "failure_receipt sha rnd q code w a m k n cs = Inr r" for code w a m k n cs
    using failure_receipt_code [OF that] assms(2) by simp
  obtain w p where wp: "split_warmup q = (w, p)" by force
  show ?thesis
    using assms(1) wp
    by (auto simp: evaluate_cleared_def Let_def res_bind_def split: if_splits option.splits sum.splits dest: F intro: that)
qed

lemma threshold_failure_None:
  assumes "threshold_failure rnd q acc m = Inr None"
  shows "\<not> pf_less (ms_measured_total_seconds m) (Finite (of_int (pl_requested_duration_seconds (vi_plan q))))"
    "\<not> pf_less (ms_measured_post_warmup_seconds m) (Finite (of_int (pl_requested_duration_seconds (vi_plan q))))"
    "\<not> pf_less (ms_delivered_frames_per_second m) (Finite (27 / 2))"
    "ms_p95_inter_frame_gap_ms m \<noteq> None \<longrightarrow> \<not> over (ms_p95_inter_frame_gap_ms m) 200"
    "\<not> over (ms_p95_pose_latency_ms m) 200" "\<not> over (ms_p99_pose_latency_ms m) 500" "\<not> over (ms_backlog_ms m) 2000"
    "\<exists>done. int_div rnd (ac_processed acc) (ac_delivered_frames acc) = Inr done \<and> \<not> pf_less done (rnd (99 / 100))"
    "\<exists>lost. int_div rnd (ac_dropped_explicit acc + ac_failed acc) (ac_delivered_frames acc) = Inr lost \<and> \<not> pf_less (rnd (1 / 100)) lost"
    "\<exists>required. required_bytes_for rnd (de_encoded_byte_rate (vi_disk q)) (pl_requested_duration_seconds (vi_plan q)) = Inr required \<and>
       required \<le> de_free_bytes (vi_disk q)"
    "\<exists>v. ms_p10_throughput m = Some v \<and> \<not> pf_less v (float_scale rnd 2 (de_encoded_byte_rate (vi_disk q)))"
  using assms by (auto simp: threshold_failure_def Let_def res_bind_Inr_iff split: if_splits option.splits)

lemma stage_failure_None:
  "stage_failure s = None \<longleftrightarrow> STAGE_FAILED \<notin> {ee_encoder_open s, ee_encoder_write s, ee_encoder_finalize s, ee_durability s}"
  by (auto simp: stage_failure_def)

text \<open>
  The receipt of an evaluation is that of a refusal, of a technical failure, or that of the body.
\<close>

lemma evaluate_Inr:
  assumes "fst (evaluate sha rnd guard acquire release q) = Inr r"
  shows "validate_request sha q = Inr () \<and>
    ((\<exists>c \<in> {SCHEMA_INCOMPATIBLE, UNKNOWN_TECHNICAL_FAILURE}. failure_receipt sha rnd q c [] None None 0 0 None = Inr r) \<or>
     acquire = Inr True \<and> release = Inr () \<and> evaluate_under_lease sha rnd guard q = Inr r)"
  using assms by (auto simp: evaluate_def Let_def except_Exception_def split: sum.splits if_splits)

lemma evaluate_pass:
  assumes "fst (evaluate sha rnd guard acquire release q) = Inr r" and "dr_outcome r = BACKEND_CONTRACT_PASS"
  shows "validate_request sha q = Inr () \<and> acquire = Inr True \<and> release = Inr () \<and>
    (\<exists>n. privacy_loop guard 0 (vi_observations q) = Inr (n, False) \<and> evaluate_cleared sha rnd q (int n) = Inr r)"
proof -
  have F: False if "failure_receipt sha rnd q code w a m k n cs = Inr r" for code w a m k n cs
    using failure_receipt_code [OF that] assms(2) by simp
  show ?thesis
    using evaluate_Inr [OF assms(1)]
    by (auto simp: evaluate_under_lease_def res_bind_Inr_iff split: if_splits dest: F)
qed

text \<open>Nothing in the body raises anything but an \<open>Exception\<close>, except the guard.\<close>

lemma ordinary_numbers [simp]:
  "ordinary (int_div rnd a b)" "ordinary (int_float rnd a)" "ordinary (pf_ceil x)" "ordinary (pf_int x)" "ordinary (failure_of_str name)"
  by (simp_all add: finite_or_overflow_def int_div_def int_float_def failure_of_str_def split: option.split) (cases x; simp)+
lemma ordinary_float_div [simp]: "ordinary (float_div rnd x y)"
  by (cases x; cases y) simp_all

lemma ordinary_res_map [simp]: "(\<And>x. ordinary (f x)) \<Longrightarrow> ordinary (res_map f xs)"
  by (induction xs) simp_all

lemma ordinary_ranks [simp]: "ordinary (nearest_rank rnd xs p)" "ordinary (optional_rank rnd xs p)"
proof -
  show r: "ordinary (nearest_rank rnd xs p)" by (simp add: nearest_rank_def Let_def)
  show "ordinary (optional_rank rnd xs p)" by (simp add: optional_rank_def r)
qed

lemma ordinary_metrics [simp]: "ordinary (metrics_of rnd q post)"
  by (simp add: metrics_of_def Let_def gaps_of_def latencies_of_def split_beta split: option.split)

lemma ordinary_required [simp]: "ordinary (required_bytes_for rnd rate n)"
  by (simp add: required_bytes_for_def)

lemma ordinary_thresholds [simp]: "ordinary (threshold_failure rnd q acc m)"
  by (simp add: threshold_failure_def Let_def)

lemma ordinary_receipts [simp]:
  "ordinary (receipt_of sha rnd q out c cs k j w a m z)" "ordinary (failure_receipt sha rnd q code u b d k j ds)"
  by (simp_all add: failure_receipt_def receipt_of_def Let_def)

lemma ordinary_cleared: "ordinary (evaluate_cleared sha rnd q n)"
  by (simp add: evaluate_cleared_def Let_def first_count_code_def split_beta split: list.split option.split)

lemma ordinary_body: "evaluate_under_lease sha rnd guard q = Inl e \<Longrightarrow> is_exception e \<or> (\<exists>i x. guard i x = Inl e)"
proof -
  have loop: "privacy_loop guard n xs = Inl e \<Longrightarrow> \<exists>i x. guard i x = Inl e" for n xs
    by (induction xs arbitrary: n) (auto simp: except_Exception_def split: if_splits sum.splits)
  assume "evaluate_under_lease sha rnd guard q = Inl e"
  then show ?thesis
    using ordinary_cleared [of sha rnd q] ordinary_receipts(2) [of sha rnd q]
    by (auto simp: evaluate_under_lease_def ordinary_def res_bind_def split: sum.splits if_splits dest: loop) (metis sum.simps(5))+
qed

text \<open>No privacy stop is counted when none was injected or observed.\<close>

lemma observation_names:
  "\<forall>x \<in> set xs. ob_failure_code x \<noteq> Some PRIVACY_STOP \<Longrightarrow>
   fst ` set (fold count_observation xs d) \<subseteq> fst ` set d \<union> failure_str ` (- {PRIVACY_STOP})"
proof (induction xs arbitrary: d)
  case (Cons x xs)
  then have "fst ` set (fold count_observation xs (count_observation x d)) \<subseteq>
      fst ` set (count_observation x d) \<union> failure_str ` (- {PRIVACY_STOP})" by simp
  moreover have "fst ` set (count_observation x d) \<subseteq> fst ` set d \<union> failure_str ` (- {PRIVACY_STOP})"
    using Cons.prems by (auto simp: count_observation_def Let_def bump_names split: option.splits)
  ultimately show ?case by auto
qed simp

lemma failure_counts_names:
  assumes "PRIVACY_STOP \<notin> set (vi_injected_failures q)" and "\<forall>x \<in> set (vi_observations q). ob_failure_code x \<noteq> Some PRIVACY_STOP"
  shows "fst ` set (failure_counts q False) \<subseteq> failure_str ` (- {PRIVACY_STOP})"
proof -
  have "fst ` set (fold (\<lambda>c. bump (failure_str c)) cs d) = fst ` set d \<union> failure_str ` set cs" for cs d
    by (induction cs arbitrary: d) (auto simp: bump_names)
  then show ?thesis
    using observation_names [OF assms(2), of "[]"] assms(1) by (auto simp: failure_counts_def image_iff)
qed

end
