(* ===== verification/D1_Guarantees.thy ===== *)
theory D1_Guarantees
  imports D1_Properties
begin

text \<open>
  What the evaluator of the measurement contract guarantees: a pass meets every threshold, a privacy stop
  reveals nothing of the request, receipts are consistent, the evaluation always answers and gives the
  lease back, unless the required space overflows.
\<close>

section \<open>Example requests\<close>

text \<open>A request that validates, with the given observations and disk evidence.\<close>

definition sample_sha :: "json \<Rightarrow> string" where
  "sample_sha _ = replicate 64 CHR ''0''"

definition sample_plan :: run_plan where
  "sample_plan = \<lparr>pl_run_kind = PREFLIGHT_60S, pl_width = 1280, pl_height = 720, pl_frames_per_second = 15,
     pl_requested_duration_seconds = 60, pl_warmup_seconds = 5, pl_run_end_monotonic_ns = 65000000000\<rparr>"

definition sample_authority :: authority_receipt where
  "sample_authority = \<lparr>ar_schema_version = 1, ar_receipt_kind = ''D1_C1_AUTHORITY'', ar_decision_date = ''2026-08-26'',
     ar_decision_owner = ''root'', ar_proposal_sha256 = CANONICAL_PROPOSAL_SHA256, ar_readiness_version = ''0.4'',
     ar_p1_accepted = True, ar_d1_authorized = True, ar_physical_camera_access_authorized = False,
     ar_participant_collection_authorized = False, ar_model_evaluation_authorized = False,
     ar_m1_recording_or_persistence_export_authorized = False\<rparr>"

definition sample_environment :: environment_receipt where
  "sample_environment = (let d = replicate 64 CHR ''0'' in \<lparr>en_schema_version = 1, en_receipt_kind = ''D1_C1_INJECTED_ENVIRONMENT'',
     en_application_revision_digest = d, en_release_manifest_digest = d, en_pose_engine_digest = d, en_encoder_digest = d,
     en_operating_system = ''SIMULATED-N/A'', en_locale = ''N/A'', en_timezone = ''N/A'', en_offline = True, en_injected_only = True,
     en_camera_not_accessed = True, en_driver_unverified = True, en_audio_prohibited = True\<rparr>)"

definition sample_provenance :: "nat \<Rightarrow> provenance_receipt" where
  "sample_provenance n = \<lparr>pr_schema_version = 1, pr_source_kind = TEST_CHART, pr_source_version = ''chart-v1'',
     pr_generator_id = ''d1-fixture-generator-v1'', pr_canonical_input_digest = sample_sha JNull, pr_frame_count = int n,
     pr_simulated_no_human = True, pr_dataset_use_prohibited = True, pr_leakage_statement = ''N/A'', pr_deterministic_seed = ''N/A'',
     pr_baseline_id = ''d1-baseline-v1'', pr_mutant_ids = [''mutant-ledger-v1'']\<rparr>"

definition sample_reproduction :: reproduction_receipt where
  "sample_reproduction = \<lparr>rp_schema_version = 1, rp_receipt_kind = ''D1_C1_REPRODUCTION'',
     rp_noninteractive_invocation = REPRODUCTION_INVOCATION, rp_dependency_artifact = DEPENDENCY_ARTIFACT_NAME,
     rp_lock_digest = DEPENDENCY_ARTIFACT_SHA256, rp_source_digest = sample_sha JNull, rp_deterministic_seed = ''N/A'',
     rp_threshold_version = ''d1-thresholds-v1'', rp_baseline_id = ''d1-baseline-v1'', rp_mutant_ids = [''mutant-ledger-v1''],
     rp_uncertainty_statement = ''SIMULATED_EVALUATOR_ONLY'', rp_input_digest = sample_sha JNull,
     rp_expected_evaluation_digest = sample_sha JNull\<rparr>"

definition sample_request :: "observation list \<Rightarrow> disk_evidence \<Rightarrow> validation_input" where
  "sample_request obs disk = \<lparr>vi_schema_version = 1, vi_evidence_kind = SIMULATED, vi_input_kind = TEST_CHART, vi_plan = sample_plan,
     vi_observations = obs, vi_disk = disk, vi_injected_failures = [], vi_authority = sample_authority,
     vi_provenance = sample_provenance (length obs), vi_environment = sample_environment, vi_reproduction = sample_reproduction\<rparr>"

definition sample_disk :: "pyfloat \<Rightarrow> int \<Rightarrow> stage_state \<Rightarrow> disk_evidence" where
  "sample_disk rate free durability = \<lparr>de_free_bytes = free, de_encoded_byte_count = 65000, de_encoded_byte_rate = rate,
     de_throughput_samples = map (\<lambda>i. \<lparr>ts_second_index = int i, ts_bytes_per_second = Finite 2000\<rparr>) [0..<60],
     de_stages = \<lparr>ee_encoder_open = SUCCEEDED, ee_encoder_write = SUCCEEDED, ee_encoder_finalize = SUCCEEDED, ee_durability = durability\<rparr>\<rparr>"

lemma sample_sha_digest: "is_digest (sample_sha x)"
  by (simp add: is_digest_def sample_sha_def list_all_iff)

lemma sample_request_valid:
  assumes "pf_isfinite rate" and "\<not> pf_less rate (Finite 0)" and "0 \<le> free"
  shows "validate_request sample_sha (sample_request obs (sample_disk rate free st)) = Inr ()"
proof -
  have "plan_ok sample_plan" by (simp add: plan_ok_def sample_plan_def)
  moreover have "authority_ok sample_authority" by (simp add: authority_ok_def sample_authority_def)
  moreover have "environment_ok sample_environment"
    by (simp add: environment_ok_def sample_environment_def Let_def is_digest_def list_all_iff)
  moreover have "disk_shape_ok (sample_disk rate free st)" using assms by (simp add: disk_shape_ok_def sample_disk_def)
  moreover have "samples_ok (de_throughput_samples (sample_disk rate free st))"
    by (simp add: samples_ok_def sample_disk_def list_all_iff)
  moreover have "provenance_ok sample_sha (sample_request obs (sample_disk rate free st))"
    by (simp add: provenance_ok_def sample_request_def sample_provenance_def canonical_input_digest_def sample_sha_def)
  moreover have "reproduction_ok sample_sha (sample_request obs (sample_disk rate free st))"
    by (simp add: reproduction_ok_def sample_request_def sample_provenance_def sample_reproduction_def canonical_evaluation_digest_def
        sample_sha_def)
  ultimately show ?thesis by (simp add: validate_request_Inr sample_request_def)
qed

text \<open>Twenty frames per second, each processed after a millisecond.\<close>

definition sample_frame :: "nat \<Rightarrow> observation" where
  "sample_frame i = \<lparr>ob_source_kind = TEST_CHART, ob_captured_monotonic_ns = int i * 50000000,
     ob_processed_monotonic_ns = Some (int i * 50000000 + 1000000), ob_disposition = PROCESSED, ob_quality_insufficient = False,
     ob_failure_code = None, ob_drop_reason = None\<rparr>"

definition sample_frames :: "nat \<Rightarrow> observation list" where
  "sample_frames n = map sample_frame [0..<n]"

subsection \<open>The example run passes\<close>

lemma res_map_const: "(\<forall>x \<in> set xs. f x = Inr y) \<Longrightarrow> res_map f xs = Inr (replicate (length xs) y)"
  by (induction xs) auto

lemma nearest_rank_replicate:
  assumes "0 < n" and "1 \<le> p" and "p \<le> 100"
  shows "nearest_rank Finite (replicate n (Finite v)) p = Inr (Finite v)"
proof -
  let ?k = "\<lceil>rat_of_int (p * int n) / 100\<rceil>"
  have "0 < rat_of_int (p * int n) / 100" using assms by simp
  then have lo: "1 \<le> ?k" by linarith
  have "rat_of_int (p * int n) / 100 \<le> of_int (int n)"
  proof -
    have "p * int n \<le> 100 * int n" using assms(3) by (simp add: mult_right_mono)
    then have "rat_of_int (p * int n) \<le> rat_of_int (100 * int n)" by (simp only: of_int_le_iff)
    then show ?thesis by simp
  qed
  then have hi: "?k \<le> int n" by (simp add: ceiling_le_iff)
  have "sort (map finite_part (replicate n (Finite v))) = replicate n v" by (simp add: sorted_sort_id sorted_replicate)
  moreover have "- int n < ?k" using lo by linarith
  ultimately show ?thesis
    using lo hi assms by (auto simp: nearest_rank_def int_div_def finite_or_overflow_def Let_def list_all_iff)
qed

lemma sample_frames_valid:
  assumes "b \<le> 1300" and "vi_input_kind q = TEST_CHART" and "pl_run_end_monotonic_ns (vi_plan q) = 65000000000"
    and "pc = None \<and> pp = None \<or> pc = Some (int a * 50000000 - 50000000) \<and> pp = Some (int a * 50000000 - 49000000)"
  shows "validate_observations q pc pp (map sample_frame [a..<b]) = None"
  using assms
proof (induction "b - a" arbitrary: a pc pp)
  case (Suc n)
  then have ab: "a < b" "[a..<b] = a # [Suc a..<b]" by (simp_all add: upt_conv_Cons)
  have "validate_observations q (Some (int a * 50000000)) (Some (int a * 50000000 + 1000000)) (map sample_frame [Suc a..<b]) = None"
    using Suc.hyps(2) Suc.prems by (intro Suc.hyps(1)) auto
  moreover have "int a * 50000000 + 1000000 \<le> 65000000000" using ab Suc.prems(1) by simp
  ultimately show ?case using Suc.prems ab by (auto simp: sample_frame_def disposition_fields_ok_def)
qed simp

lemma filter_upt: "filter (\<lambda>i. k \<le> i) [0..<n] = [k..<n]" "filter (\<lambda>i. i < k) [0..<n] = [0..<min k n]"
  by (induction n) (auto simp: min_def le_Suc_eq not_le)

lemma sample_split:
  assumes "vi_observations q = sample_frames n" and "vi_plan q = sample_plan" and "k = 100" and "k < n"
  shows "split_warmup q = (map sample_frame [0..<k], map sample_frame [k..<n])" and "warmup_boundary q = 5000000000"
    and "hd (vi_observations q) = sample_frame 0"
proof -
  show h: "hd (vi_observations q) = sample_frame 0" using assms(1,4) by (simp add: sample_frames_def hd_map)
  then show b: "warmup_boundary q = 5000000000"
    unfolding warmup_boundary_def using assms(2) by (simp add: sample_plan_def sample_frame_def)
  have "(\<lambda>x. ob_captured_monotonic_ns x < 5000000000) \<circ> sample_frame = (\<lambda>i. i < k)"
    "(\<lambda>x. ob_captured_monotonic_ns x \<ge> 5000000000) \<circ> sample_frame = (\<lambda>i. k \<le> i)"
    using assms(3) by (auto simp: sample_frame_def)
  moreover have "sample_frames n \<noteq> []" using assms(4) by (simp add: sample_frames_def)
  ultimately show "split_warmup q = (map sample_frame [0..<k], map sample_frame [k..<n])"
    unfolding split_warmup_def b assms(1) using assms(4)
    by (simp add: sample_frames_def filter_map filter_upt)
qed

lemma sample_accounting:
  "accounting_of (map sample_frame is) = \<lparr>ac_delivered_frames = int (length is), ac_inter_frame_gaps = max (int (length is) - 1) 0,
     ac_processed = int (length is), ac_dropped_explicit = 0, ac_failed = 0, ac_quality_insufficient = 0, ac_drop_reasons = []\<rparr>"
proof -
  have "fold (\<lambda>x d. case ob_drop_reason x of None \<Rightarrow> d | Some r \<Rightarrow> bump (drop_reason_str r) d) (map sample_frame is) d = d" for d
    by (induction "is") (auto simp: sample_frame_def)
  then show ?thesis
    by (simp add: accounting_of_def count_if_def drop_reasons_of_def filter_map o_def sample_frame_def)
qed

lemma sample_gaps: "gaps_of Finite (map sample_frame [a..<b]) = Inr (replicate (b - a - 1) (Finite 50))"
proof -
  have "int_div Finite (ob_captured_monotonic_ns r - ob_captured_monotonic_ns l) 1000000 = Inr (Finite 50)"
    if "(l, r) \<in> set (zip (map sample_frame [a..<b]) (tl (map sample_frame [a..<b])))" for l r
    using that by (auto simp: in_set_zip nth_tl sample_frame_def int_div_def finite_or_overflow_def)
  then show ?thesis by (simp add: gaps_of_def res_map_const [where y = "Finite 50"] split_beta)
qed

lemma sample_latencies: "latencies_of Finite (map sample_frame is) = Inr (replicate (length is) (Finite 1))"
proof -
  have "List.map_filter (\<lambda>x. map_option (\<lambda>t. (ob_captured_monotonic_ns x, t)) (ob_processed_monotonic_ns x)) (map sample_frame is) =
      map (\<lambda>i. (int i * 50000000, int i * 50000000 + 1000000)) is"
    by (induction "is") (auto simp: sample_frame_def map_filter_simps)
  then show ?thesis
    unfolding latencies_of_def by (simp add: res_map_const [where y = "Finite 1"] int_div_def finite_or_overflow_def)
qed

lemma sample_latest: "a < b \<Longrightarrow> latest_completed (map sample_frame [a..<b]) = Some (sample_frame (b - 1))"
proof (induction b)
  case (Suc b)
  show ?case
  proof (cases "a < b")
    case True
    then have "[a..<b] = a # [Suc a..<b]" by (simp add: upt_conv_Cons)
    with True Suc.IH show ?thesis
      by (auto simp: latest_completed_def completion_key_def sample_frame_def)
  next
    case False
    with Suc.prems have "a = b" by simp
    then show ?thesis by (simp add: latest_completed_def)
  qed
qed simp

definition sample_run :: "stage_state \<Rightarrow> validation_input" where
  "sample_run st = sample_request (sample_frames 1300) (sample_disk (Finite 1000) (2 * 1024 ^ 3) st)"

lemma sample_metrics:
  assumes "k = 100" and "n = 1300" and "q = sample_request (sample_frames n) (sample_disk (Finite 1000) (2 * 1024 ^ 3) st)"
  shows "metrics_of Finite q (map sample_frame [k..<n]) = Inr (Some \<lparr>ms_first_capture_monotonic_ns = 0,
     ms_run_end_monotonic_ns = 65000000000, ms_measured_total_seconds = Finite 65, ms_measured_post_warmup_seconds = Finite 60,
     ms_delivered_frames_per_second = Finite 20, ms_p95_inter_frame_gap_ms = Some (Finite 50), ms_p95_pose_latency_ms = Some (Finite 1),
     ms_p99_pose_latency_ms = Some (Finite 1), ms_p10_throughput = Some (Finite 2000), ms_backlog_ms = Some (Finite 0)\<rparr>)"
proof -
  let ?post = "map sample_frame [k..<n]"
  have kn: "k < n" "n - k = 1200" "n - k - 1 = 1199" using assms by simp_all
  have obs: "vi_observations q = sample_frames n" "vi_plan q = sample_plan" by (simp_all add: assms(3) sample_request_def)
  note sp = sample_split [OF obs assms(1) kn(1)]
  have ne: "vi_observations q \<noteq> []" "?post \<noteq> []" using kn obs by (auto simp: sample_frames_def)
  have processed: "filter (\<lambda>x. ob_disposition x = PROCESSED) ?post = ?post" by (simp add: filter_id_conv sample_frame_def)
  have last: "last ?post = sample_frame (n - 1)" using kn by (simp add: last_map)
  have rate: "map ts_bytes_per_second (de_throughput_samples (vi_disk q)) = replicate 60 (Finite 2000)"
    by (simp add: assms(3) sample_request_def sample_disk_def o_def map_replicate_const)
  have ranks: "optional_rank Finite (replicate 1199 (Finite 50)) 95 = Inr (Some (Finite 50))"
    "optional_rank Finite (replicate 1200 (Finite 1)) 95 = Inr (Some (Finite 1))"
    "optional_rank Finite (replicate 1200 (Finite 1)) 99 = Inr (Some (Finite 1))"
    "nearest_rank Finite (replicate 60 (Finite 2000)) 10 = Inr (Finite 2000)"
    by (simp_all add: optional_rank_def nearest_rank_replicate)
  have times: "ob_captured_monotonic_ns (sample_frame 0) = 0" "pl_run_end_monotonic_ns (vi_plan q) = 65000000000"
    by (simp_all add: sample_frame_def obs sample_plan_def)
  have len: "length ?post = 1200" "length [k..<n] = 1200" using kn by simp_all
  show ?thesis
    unfolding metrics_of_def Let_def processed sample_gaps sample_latencies sample_latest [OF kn(1)] last rate sp times kn(3) len
    using ne by (simp add: int_div_def int_float_def finite_or_overflow_def pf_le_def ranks)
qed

lemma sample_run_passes:
  assumes "st \<noteq> STAGE_FAILED" and "\<And>i x. guard i x = Inr CLEAR"
  obtains r where "evaluate sample_sha Finite guard (Inr True) (Inr ()) (sample_run st) = (Inr r, [Acquire, Release])"
    "dr_outcome r = BACKEND_CONTRACT_PASS" "dr_stages r = de_stages (sample_disk (Finite 1000) 0 st)"
proof -
  define q where "q = sample_run st"
  define k n where "k = (100 :: nat)" and "n = (1300 :: nat)"
  have q: "q = sample_request (sample_frames n) (sample_disk (Finite 1000) (2 * 1024 ^ 3) st)" by (simp add: q_def sample_run_def n_def)
  have kn: "k < n" "n - k = 1200" by (simp_all add: k_def n_def)
  have obs: "vi_observations q = sample_frames n" "vi_plan q = sample_plan" "vi_input_kind q = TEST_CHART" "vi_injected_failures q = []"
    "vi_disk q = sample_disk (Finite 1000) (2 * 1024 ^ 3) st"
    by (simp_all add: q sample_request_def)
  have valid: "validate_request sample_sha q = Inr ()" unfolding q by (rule sample_request_valid) simp_all
  have loop: "privacy_loop guard m xs = Inr (m + length xs, False)" for m xs by (induction xs arbitrary: m) (auto simp: assms(2))
  have vobs: "validate_observations q None None (vi_observations q) = None"
    unfolding obs sample_frames_def by (rule sample_frames_valid) (simp_all add: obs sample_plan_def n_def)
  have counts: "failure_counts q False = []"
    unfolding failure_counts_Nil obs by (auto simp: sample_frames_def sample_frame_def)
  have stage: "stage_failure (de_stages (vi_disk q)) = None" using assms(1) by (simp add: obs stage_failure_def sample_disk_def)
  note sp = sample_split(1) [OF obs(1,2) k_def kn(1)]
  define A where "A = accounting_of (map sample_frame [k..<n])"
  have acc: "ac_delivered_frames A = 1200" "ac_processed A = 1200" "ac_dropped_explicit A = 0" "ac_failed A = 0" "ac_quality_insufficient A = 0"
    using kn by (simp_all add: A_def sample_accounting)
  let ?m = "\<lparr>ms_first_capture_monotonic_ns = 0,
     ms_run_end_monotonic_ns = 65000000000, ms_measured_total_seconds = Finite 65, ms_measured_post_warmup_seconds = Finite 60,
     ms_delivered_frames_per_second = Finite 20, ms_p95_inter_frame_gap_ms = Some (Finite 50), ms_p95_pose_latency_ms = Some (Finite 1),
     ms_p99_pose_latency_ms = Some (Finite 1), ms_p10_throughput = Some (Finite 2000), ms_backlog_ms = Some (Finite 0)\<rparr>"
  have th: "threshold_failure Finite q A ?m = Inr None"
    by (simp add: acc threshold_failure_def over_def obs sample_plan_def sample_disk_def int_div_def finite_or_overflow_def
        required_bytes_for_def)
  have disk: "de_encoded_byte_count (vi_disk q) = 65000" "de_encoded_byte_rate (vi_disk q) = Finite 1000"
    by (simp_all add: obs sample_disk_def)
  have "\<exists>r. receipt_of sample_sha Finite q BACKEND_CONTRACT_PASS None [] (int n) 0 (accounting_of (map sample_frame [0..<k]))
      A ?m False = Inr r"
    by (rule receipt_of_total) (simp add: required_bytes_for_def disk)
  then obtain r where r: "receipt_of sample_sha Finite q BACKEND_CONTRACT_PASS None [] (int n) 0 (accounting_of (map sample_frame [0..<k]))
      A ?m False = Inr r" ..
  have "evaluate_cleared sample_sha Finite q (int n) = Inr r"
    unfolding evaluate_cleared_def vobs sp Let_def option.case prod.case A_def [symmetric]
    by (simp add: counts stage sample_metrics [OF k_def n_def q] th r disk isclose_def int_float_def finite_or_overflow_def
        pf_le_def acc)
  then have "evaluate sample_sha Finite guard (Inr True) (Inr ()) q = (Inr r, [Acquire, Release])"
    using valid by (simp add: evaluate_def Let_def evaluate_under_lease_def loop obs sample_frames_def)
  then show ?thesis
    using that receipt_of_Inr [OF r] by (simp add: q_def obs [unfolded q_def] sample_disk_def)
qed

section \<open>Passed and refused runs\<close>

text \<open>
  Claim C18. A run passes only when everything was in order: the request carried the exact authority (no
  camera, no participants, no model, no export), the privacy guard cleared every single frame, no frame and no
  injected event failed, no encoder or disk stage failed, the run and its part after the warm-up lasted the
  requested time, at least 13.5 frames a second were delivered, gaps, latencies and backlog stay within their limits, after the warm-up
  at least 99 in 100 delivered frames were processed and at most 1 in 100 dropped or failed, and disk space and throughput suffice.
\<close>
theorem pass_meets_thresholds:
  assumes "fst (evaluate sha rnd guard acquire release q) = Inr r" and "dr_outcome r = BACKEND_CONTRACT_PASS"
  shows "authority_ok (vi_authority q) \<and> plan_ok (vi_plan q) \<and>
    (\<forall>i < length (vi_observations q). guard i (vi_observations q ! i) = Inr CLEAR) \<and>
    dr_privacy_checked_frames r = int (length (vi_observations q)) \<and>
    vi_injected_failures q = [] \<and> (\<forall>x \<in> set (vi_observations q). ob_failure_code x = None \<and> \<not> ob_quality_insufficient x) \<and>
    STAGE_FAILED \<notin> {ee_encoder_open (dr_stages r), ee_encoder_write (dr_stages r), ee_encoder_finalize (dr_stages r), ee_durability (dr_stages r)} \<and>
    metrics_of rnd q (snd (split_warmup q)) = Inr (Some (dr_metrics r)) \<and>
    \<not> pf_less (ms_measured_total_seconds (dr_metrics r)) (Finite (of_int (required_duration (pl_run_kind (vi_plan q))))) \<and>
    \<not> pf_less (ms_measured_post_warmup_seconds (dr_metrics r)) (Finite (of_int (required_duration (pl_run_kind (vi_plan q))))) \<and>
    \<not> pf_less (ms_delivered_frames_per_second (dr_metrics r)) (Finite (27 / 2)) \<and>
    (ms_p95_inter_frame_gap_ms (dr_metrics r) \<noteq> None \<longrightarrow> \<not> over (ms_p95_inter_frame_gap_ms (dr_metrics r)) 200) \<and>
    \<not> over (ms_p95_pose_latency_ms (dr_metrics r)) 200 \<and> \<not> over (ms_p99_pose_latency_ms (dr_metrics r)) 500 \<and>
    \<not> over (ms_backlog_ms (dr_metrics r)) 2000 \<and>
    dr_accounting r = accounting_of (snd (split_warmup q)) \<and>
    (\<exists>done. int_div rnd (ac_processed (dr_accounting r)) (ac_delivered_frames (dr_accounting r)) = Inr done \<and>
       \<not> pf_less done (rnd (99 / 100))) \<and>
    (\<exists>lost. int_div rnd (ac_dropped_explicit (dr_accounting r) + ac_failed (dr_accounting r)) (ac_delivered_frames (dr_accounting r)) =
       Inr lost \<and> \<not> pf_less (rnd (1 / 100)) lost) \<and>
    dr_required_bytes r \<le> dr_free_bytes r \<and>
    (\<exists>v. ms_p10_throughput (dr_metrics r) = Some v \<and> \<not> pf_less v (float_scale rnd 2 (dr_encoded_byte_rate r)))"
proof -
  from evaluate_pass [OF assms] obtain n where v: "validate_request sha q = Inr ()"
    and n: "privacy_loop guard 0 (vi_observations q) = Inr (n, False)" and c: "evaluate_cleared sha rnd q (int n) = Inr r" by blast
  from cleared_pass [OF c assms(2)] obtain w p m where wp: "split_warmup q = (w, p)" and counts: "failure_counts q False = []"
    and st: "stage_failure (de_stages (vi_disk q)) = None" and m: "metrics_of rnd q p = Inr (Some m)"
    and th: "threshold_failure rnd q (accounting_of p) m = Inr None"
    and r: "receipt_of sha rnd q BACKEND_CONTRACT_PASS None [] (int n) 0 (accounting_of w) (accounting_of p) m False = Inr r" .
  note f = receipt_of_Inr [OF r] and t = threshold_failure_None [OF th]
  have "plan_ok (vi_plan q)" "authority_ok (vi_authority q)" using v by (simp_all add: validate_request_Inr)
  moreover have "pl_requested_duration_seconds (vi_plan q) = required_duration (pl_run_kind (vi_plan q))"
    using \<open>plan_ok (vi_plan q)\<close> by (simp add: plan_ok_def)
  ultimately show ?thesis
    using privacy_loop_clear [OF n] counts [unfolded failure_counts_Nil] st [unfolded stage_failure_None] m wp f t by auto
qed

theorem pass_meets_thresholds_witness:
  "\<exists>r. fst (evaluate sample_sha Finite (\<lambda>_ _. Inr CLEAR) (Inr True) (Inr ()) (sample_run SUCCEEDED)) = Inr r \<and>
     dr_outcome r = BACKEND_CONTRACT_PASS \<and> \<not> over (ms_p95_pose_latency_ms (dr_metrics r)) 200"
proof -
  obtain r where r: "fst (evaluate sample_sha Finite (\<lambda>_ _. Inr CLEAR) (Inr True) (Inr ()) (sample_run SUCCEEDED)) = Inr r"
    "dr_outcome r = BACKEND_CONTRACT_PASS"
    by (rule sample_run_passes [of SUCCEEDED "\<lambda>_ _. Inr CLEAR"]) auto
  with pass_meets_thresholds [OF r] show ?thesis by blast
qed

text \<open>
  Claim C20. Receipts of refused runs: a receipt that \<open>evaluate\<close> returns with a failure code other than the
  privacy stop passes \<open>verify_receipt_semantics\<close> exactly when the free space it reports covers the
  required bytes. In particular a receipt with the code DISK_SPACE_INSUFFICIENT never verifies.
\<close>
theorem no_go_verifies_iff_space:
  assumes "fst (evaluate sha rnd guard acquire release q) = Inr r" and "\<forall>x. is_digest (sha x)"
    and "dr_failure_code r = Some c" and "c \<noteq> PRIVACY_STOP"
  shows "verify_receipt_semantics sha rnd r = Inr (dr_required_bytes r \<le> dr_free_bytes r)"
proof -
  note run = evaluate_Inr [OF assms(1)]
  then have valid: "validate_request sha q = Inr ()" by blast
  have F: "no_go_ok sha rnd q r" if f: "failure_receipt sha rnd q code [] None None 0 0 None = Inr r" for code
    using f failure_receipt_code [OF f] assms(2-4) by (intro verify_no_go [OF f _ valid, where e = 0]) auto
  have S: False if "failure_receipt sha rnd q PRIVACY_STOP w a m k n cs = Inr r" for w a m k n cs
    using failure_receipt_code [OF that] assms(3,4) by simp
  have L: "no_go_ok sha rnd q r" if "evaluate_under_lease sha rnd guard q = Inr r"
    using that assms(2-4) valid
    by (auto simp: evaluate_under_lease_def res_bind_Inr_iff split: prod.splits if_splits intro: cleared_no_go dest: S)
  have "no_go_ok sha rnd q r" using run by (auto intro: F L)
  then show ?thesis by (simp add: no_go_ok_def)
qed

definition refused_run :: "int \<Rightarrow> (py_error + d1_receipt) \<times> lease_call list" where
  "refused_run free = evaluate sample_sha Finite (\<lambda>_ _. Inr CLEAR) (Inr True) (Inr ()) (sample_request [] (sample_disk (Finite 1000) free SUCCEEDED))"

theorem no_go_verifies_iff_space_witness:
  "\<exists>r r'. fst (refused_run 0) = Inr r \<and> verify_receipt_semantics sample_sha Finite r = Inr False \<and>
     fst (refused_run (4 * 1024 ^ 3)) = Inr r' \<and> verify_receipt_semantics sample_sha Finite r' = Inr True"
proof -
  have valid: "validate_request sample_sha (sample_request [] (sample_disk (Finite 1000) free SUCCEEDED)) = Inr ()" if "0 \<le> free" for free
    using that by (simp add: sample_request_valid)
  have run: "\<exists>r. fst (refused_run free) = Inr r \<and> dr_failure_code r = Some INPUT_UNAVAILABLE \<and> dr_free_bytes r = free \<and>
      dr_required_bytes r = 2 * 1024 ^ 3" if "0 \<le> free" for free
    using valid [OF that]
    by (simp add: refused_run_def evaluate_def evaluate_under_lease_def evaluate_cleared_def split_warmup_def failure_counts_def
        accounting_of_def failure_receipt_def receipt_of_def required_bytes_for_def Let_def sample_request_def sample_disk_def sample_plan_def)
  from run [of 0] run [of "4 * 1024 ^ 3"] obtain r r' where
    r: "fst (refused_run 0) = Inr r" "dr_failure_code r = Some INPUT_UNAVAILABLE" "dr_free_bytes r = 0" "dr_required_bytes r = 2 * 1024 ^ 3"
    and r': "fst (refused_run (4 * 1024 ^ 3)) = Inr r'" "dr_failure_code r' = Some INPUT_UNAVAILABLE" "dr_free_bytes r' = 4 * 1024 ^ 3"
      "dr_required_bytes r' = 2 * 1024 ^ 3" by auto
  have "verify_receipt_semantics sample_sha Finite r = Inr False" "verify_receipt_semantics sample_sha Finite r' = Inr True"
    using no_go_verifies_iff_space [OF r(1) [unfolded refused_run_def] _ r(2)] no_go_verifies_iff_space [OF r'(1) [unfolded refused_run_def] _ r'(2)]
      r r' by (simp_all add: sample_sha_digest)
  with r(1) r'(1) show ?thesis by blast
qed


text \<open>
  A passed run can fail its own verification: \<open>evaluate\<close> refuses only stages that FAILED, while
  \<open>verify_receipt_semantics\<close> demands that all four SUCCEEDED, so a pass with a stage that was not attempted
  does not verify.
\<close>
lemma pass_with_skipped_stage_not_verified:
  assumes "fst (evaluate sha rnd guard acquire release q) = Inr r" and "dr_outcome r = BACKEND_CONTRACT_PASS"
    and "NOT_ATTEMPTED \<in> {ee_encoder_open (de_stages (vi_disk q)), ee_encoder_write (de_stages (vi_disk q)),
      ee_encoder_finalize (de_stages (vi_disk q)), ee_durability (de_stages (vi_disk q))}"
  shows "verify_receipt_semantics sha rnd r = Inr False"
proof -
  from evaluate_pass [OF assms(1,2)] obtain n where v: "validate_request sha q = Inr ()"
    and c: "evaluate_cleared sha rnd q (int n) = Inr r" by blast
  from cleared_pass [OF c assms(2)] obtain w p m where
    r: "receipt_of sha rnd q BACKEND_CONTRACT_PASS None [] (int n) 0 (accounting_of w) (accounting_of p) m False = Inr r" .
  note f = receipt_of_Inr [OF r]
  have "verify_pass rnd r = Inr False" using assms(3) f by (auto simp: verify_pass_def stages_succeeded_def)
  moreover have "pl_requested_duration_seconds (vi_plan q) = required_duration (pl_run_kind (vi_plan q))"
    using v by (simp add: validate_request_Inr plan_ok_def)
  ultimately show ?thesis using f by (simp add: verify_receipt_semantics_def)
qed

lemma pass_with_skipped_stage_not_verified_witness:
  "\<exists>r. fst (evaluate sample_sha Finite (\<lambda>_ _. Inr CLEAR) (Inr True) (Inr ()) (sample_run NOT_ATTEMPTED)) = Inr r \<and>
     dr_outcome r = BACKEND_CONTRACT_PASS \<and> verify_receipt_semantics sample_sha Finite r = Inr False"
proof -
  obtain r where r: "fst (evaluate sample_sha Finite (\<lambda>_ _. Inr CLEAR) (Inr True) (Inr ()) (sample_run NOT_ATTEMPTED)) = Inr r"
    "dr_outcome r = BACKEND_CONTRACT_PASS"
    by (rule sample_run_passes [of NOT_ATTEMPTED "\<lambda>_ _. Inr CLEAR"]) auto
  with pass_with_skipped_stage_not_verified [OF r] show ?thesis
    by (simp add: sample_run_def sample_request_def sample_disk_def)
qed

section \<open>Privacy stops\<close>







text \<open>
  The scrubbing of a privacy stop is lost when giving the lease back raises: the answer is then an
  ordinary SCHEMA_INCOMPATIBLE receipt that reports no privacy stop and carries the digest of the
  full input.
\<close>
lemma release_failure_undoes_scrubbing:
  assumes "validate_request sha q = Inr u" and "privacy_loop guard 0 (vi_observations q) = Inr (n, True)"
    and "fst (evaluate sha rnd guard (Inr True) (Inl e) q) = Inr r"
  shows "dr_failure_code r = Some SCHEMA_INCOMPATIBLE \<and> dr_privacy_stop_count r = 0 \<and>
    dr_input_digest r = canonical_input_digest sha (vi_plan q) (vi_observations q) (vi_disk q)"
proof -
  have "\<exists>x. evaluate_under_lease sha rnd guard q = Inr x"
    unfolding evaluate_under_lease_def assms(2) by (simp add: failure_receipt_total)
  then have f: "failure_receipt sha rnd q SCHEMA_INCOMPATIBLE [] None None 0 0 None = Inr r"
    using assms(1,3) by (auto simp: evaluate_def Let_def except_Exception_def split: if_splits)
  then show ?thesis
    by (auto simp: failure_receipt_def Let_def receipt_of_def res_bind_Inr_iff split: if_splits)
qed

lemma release_failure_undoes_scrubbing_witness:
  "\<exists>r. fst (evaluate sample_sha Finite (\<lambda>_ _. Inr UNSAFE) (Inr True) (Inl (ValueError [])) (sample_request (sample_frames 2) (sample_disk (Finite 1000) 0 SUCCEEDED))) = Inr r \<and>
     dr_failure_code r = Some SCHEMA_INCOMPATIBLE"
proof -
  let ?q = "sample_request (sample_frames 2) (sample_disk (Finite 1000) 0 SUCCEEDED)"
  have v: "validate_request sample_sha ?q = Inr ()" by (simp add: sample_request_valid)
  have p: "privacy_loop (\<lambda>_ _. Inr UNSAFE) 0 (vi_observations ?q) = Inr (1, True)"
    by (simp add: sample_request_def sample_frames_def upt_rec)
  have "\<exists>n. required_bytes_for Finite (de_encoded_byte_rate (vi_disk ?q)) (pl_requested_duration_seconds (vi_plan ?q)) = Inr n"
    by (simp add: required_bytes_for_def sample_request_def sample_disk_def sample_plan_def)
  then have "\<exists>x. failure_receipt sample_sha Finite ?q code w a m k j cs = Inr x" for code w a m k j cs
    by (simp add: failure_receipt_total)
  then obtain x y where "failure_receipt sample_sha Finite ?q PRIVACY_STOP [] None None 1 1 (Some [(failure_str PRIVACY_STOP, 1)]) = Inr x"
    "failure_receipt sample_sha Finite ?q SCHEMA_INCOMPATIBLE [] None None 0 0 None = Inr y" by meson
  then have run: "fst (evaluate sample_sha Finite (\<lambda>_ _. Inr UNSAFE) (Inr True) (Inl (ValueError [])) ?q) = Inr y"
    by (simp add: evaluate_def Let_def v evaluate_under_lease_def p)
  from release_failure_undoes_scrubbing [OF v p run] run show ?thesis by blast
qed

section \<open>The owner lease\<close>

text \<open>
  Claim C21. Evaluation always answers, short of the death of the process: for a valid request whose required space is a finite
  number, \<open>evaluate\<close> returns a receipt and gives a lease it acquired back exactly once, whatever the guard, the lease and the
  measurements do (raising an \<open>Exception\<close> included); or it raises, and then no \<open>Exception\<close>, but what the lease
  or the guard raised to end the process. The lease is then given back only when the giving back itself raised.
\<close>
theorem evaluate_always_answers:
  assumes "validate_request sha q = Inr u"
    and "required_bytes_for rnd (de_encoded_byte_rate (vi_disk q)) (pl_requested_duration_seconds (vi_plan q)) = Inr n"
  shows "(\<exists>r. evaluate sha rnd guard acquire release q = (Inr r, if acquire = Inr True then [Acquire, Release] else [Acquire])) \<or>
    (\<exists>e. \<not> is_exception e \<and>
       (evaluate sha rnd guard acquire release q = (Inl e, [Acquire]) \<and> (acquire = Inl e \<or> (\<exists>i x. guard i x = Inl e)) \<or>
        evaluate sha rnd guard acquire release q = (Inl e, [Acquire, Release]) \<and> acquire = Inr True \<and> release = Inl e))"
proof -
  have F: "\<exists>r. failure_receipt sha rnd q code w a m k j cs = Inr r" for code w a m k j cs
    using assms(2) by (simp add: failure_receipt_total)
  then obtain s t where st: "failure_receipt sha rnd q SCHEMA_INCOMPATIBLE [] None None 0 0 None = Inr s"
    "failure_receipt sha rnd q UNKNOWN_TECHNICAL_FAILURE [] None None 0 0 None = Inr t" by meson
  note body = ordinary_body [of sha rnd guard q]
  show ?thesis
  proof (cases "acquire = Inr True")
    case True
    then show ?thesis using body
      by (auto simp: evaluate_def Let_def assms(1) st except_Exception_def split: sum.split)
  next
    case False
    then show ?thesis
      by (auto simp: evaluate_def Let_def assms(1) st except_Exception_def split: sum.split)
  qed
qed

theorem evaluate_always_answers_witness:
  "\<exists>r. evaluate sample_sha Finite (\<lambda>_ _. Inl (ValueError [])) (Inr True) (Inr ()) (sample_request [] (sample_disk (Finite 1000) 0 SUCCEEDED)) =
     (Inr r, [Acquire, Release])"
proof -
  let ?q = "sample_request [] (sample_disk (Finite 1000) 0 SUCCEEDED)"
  have "validate_request sample_sha ?q = Inr ()" by (simp add: sample_request_valid)
  moreover have "required_bytes_for Finite (de_encoded_byte_rate (vi_disk ?q)) (pl_requested_duration_seconds (vi_plan ?q)) = Inr (2 * 1024 ^ 3)"
    by (simp add: required_bytes_for_def sample_request_def sample_disk_def sample_plan_def)
  ultimately show ?thesis
    using evaluate_always_answers [of sample_sha ?q "()" Finite _ "\<lambda>_ _. Inl (ValueError [])" "Inr True" "Inr ()"] by auto
qed

lemma isl_res_bindI: "(\<And>y. a = Inr y \<Longrightarrow> isl (f y)) \<Longrightarrow> isl (res_bind a f)"
  by (cases a) simp_all

lemma isl_ifI: "isl x \<Longrightarrow> isl y \<Longrightarrow> isl (if b then x else y)"
  by simp

lemma isl_optionI: "(x = None \<Longrightarrow> isl a) \<Longrightarrow> (\<And>c. x = Some c \<Longrightarrow> isl (f c)) \<Longrightarrow> isl (case x of None \<Rightarrow> a | Some c \<Rightarrow> f c)"
  by (cases x) simp_all

lemmas isl_intros = isl_res_bindI isl_ifI isl_optionI

lemma stage_failure_not_privacy: "stage_failure z \<noteq> Some PRIVACY_STOP"
  by (simp add: stage_failure_def)

lemma threshold_failure_not_privacy: "threshold_failure rnd q a m \<noteq> Inr (Some PRIVACY_STOP)"
  by (simp add: threshold_failure_def Let_def res_bind_def split: sum.split)

text \<open>When no receipt can be built, every branch of the evaluation raises.\<close>

lemma evaluate_cleared_raises:
  assumes "\<And>c w a m k j cs. c \<noteq> PRIVACY_STOP \<Longrightarrow> isl (failure_receipt sha rnd q c w a m k j cs)"
    and "\<And>out c cs k j w a m. isl (receipt_of sha rnd q out c cs k j w a m False)"
    and "\<And>w a m k j cs. isl (res_bind (first_count_code (failure_counts q False)) (\<lambda>c. failure_receipt sha rnd q c w a m k j cs))"
    and "\<And>pc pp xs. validate_observations q pc pp xs \<noteq> Some PRIVACY_STOP"
  shows "isl (evaluate_cleared sha rnd q checked)"
proof (cases "validate_observations q None None (vi_observations q)")
  case (Some c)
  then have "c \<noteq> PRIVACY_STOP" using assms(4) by blast
  then show ?thesis using assms(1) Some by (simp add: evaluate_cleared_def)
next
  case None
  obtain w p where wp: "split_warmup q = (w, p)" by fastforce
  have thresholds: "threshold_failure rnd q a m = Inr (Some c) \<Longrightarrow> c \<noteq> PRIVACY_STOP" for a m c
    using threshold_failure_not_privacy by metis
  have stages: "stage_failure (de_stages (vi_disk q)) = Some c \<Longrightarrow> c \<noteq> PRIVACY_STOP" for c
    using stage_failure_not_privacy by metis
  show ?thesis
    unfolding evaluate_cleared_def None wp Let_def prod.case option.case
    by (intro isl_ifI assms(3)) (intro isl_intros assms(1,2); simp add: stages thresholds)+
qed

text \<open>
  A byte rate so large that twice its value overflows makes \<open>evaluate\<close> itself raise, outside every
  handler, and the lease it acquired is never given back.
\<close>
lemma evaluate_overflow_keeps_lease:
  assumes "validate_request sha q = Inr u" and "de_encoded_byte_rate (vi_disk q) = Finite rate" and "rnd (2 * rate) = PosInf"
    and "privacy_loop guard 0 (vi_observations q) = Inr (n, False)" and "PRIVACY_STOP \<notin> set (vi_injected_failures q)"
    and "\<forall>x \<in> set (vi_observations q). ob_failure_code x \<noteq> Some PRIVACY_STOP"
  shows "evaluate sha rnd guard (Inr True) release q =
    (Inl (OverflowError ''cannot convert float infinity to integer''), [Acquire])"
proof -
  let ?e = "OverflowError ''cannot convert float infinity to integer''"
  have req: "required_bytes_for rnd (de_encoded_byte_rate (vi_disk q)) (pl_requested_duration_seconds (vi_plan q)) = Inl ?e"
    by (simp add: required_bytes_for_def assms(2,3))
  have R: "receipt_of sha rnd q out c cs k j w a m False = Inl ?e" for out c cs k j w a m
    by (simp add: receipt_of_def Let_def req)
  have F: "failure_receipt sha rnd q code w a m k j cs = Inl ?e" if "code \<noteq> PRIVACY_STOP" for code w a m k j cs
    using that by (simp add: failure_receipt_def Let_def R)
  have isl_F: "code \<noteq> PRIVACY_STOP \<Longrightarrow> isl (failure_receipt sha rnd q code w a m k j cs)" for code w a m k j cs
    by (simp add: F)
  have "fst ` set (failure_counts q False) \<subseteq> failure_str ` (- {PRIVACY_STOP})"
    using assms(5,6) by (rule failure_counts_names)
  then have C: "isl (res_bind (first_count_code (failure_counts q False)) (\<lambda>c. failure_receipt sha rnd q c w a m k j cs))" for w a m k j cs
    by (cases "failure_counts q False") (auto simp: first_count_code_def intro!: isl_F)
  have V: "validate_observations q pc pp xs \<noteq> Some PRIVACY_STOP" for pc pp xs
    by (induction q pc pp xs rule: validate_observations.induct) auto
  have "isl (evaluate_cleared sha rnd q (int n))"
    by (rule evaluate_cleared_raises [OF isl_F _ C V]) (simp_all add: R)
  then obtain e where "evaluate_cleared sha rnd q (int n) = Inl e" by (auto simp: isl_def)
  then show ?thesis using assms(1,4) ordinary_cleared [of sha rnd q "int n"] by (auto simp: evaluate_def Let_def evaluate_under_lease_def F)
qed


lemma evaluate_overflow_keeps_lease_witness:
  "snd (evaluate sample_sha (\<lambda>q. if q \<le> 10 ^ 308 then Finite q else PosInf) (\<lambda>_ _. Inr CLEAR) (Inr True) (Inr ())
     (sample_request [] (sample_disk (Finite (10 ^ 308)) 0 SUCCEEDED))) = [Acquire]"
proof -
  let ?q = "sample_request [] (sample_disk (Finite (10 ^ 308)) 0 SUCCEEDED)" and ?rnd = "\<lambda>q. if q \<le> (10 :: rat) ^ 308 then Finite q else PosInf"
  have "validate_request sample_sha ?q = Inr ()" by (rule sample_request_valid) simp_all
  moreover have "de_encoded_byte_rate (vi_disk ?q) = Finite (10 ^ 308)" by (simp add: sample_request_def sample_disk_def)
  moreover have "?rnd (2 * 10 ^ 308) = PosInf" by simp
  moreover have "privacy_loop (\<lambda>_ _. Inr CLEAR) 0 (vi_observations ?q) = Inr (0, False)" by (simp add: sample_request_def)
  moreover have "PRIVACY_STOP \<notin> set (vi_injected_failures ?q)" "\<forall>x \<in> set (vi_observations ?q). ob_failure_code x \<noteq> Some PRIVACY_STOP"
    by (simp_all add: sample_request_def)
  ultimately have "evaluate sample_sha ?rnd (\<lambda>_ _. Inr CLEAR) (Inr True) (Inr ()) ?q =
      (Inl (OverflowError ''cannot convert float infinity to integer''), [Acquire])"
    by (rule evaluate_overflow_keeps_lease)
  then show ?thesis by simp
qed

section \<open>Percentiles\<close>

lemma length_filter_sort: "length (filter P (sort xs)) = length (filter P xs)"
  by (simp add: filter_sort)

lemma sorted_count_le: "sorted xs \<Longrightarrow> i < length xs \<Longrightarrow> Suc i \<le> length (filter (\<lambda>y. y \<le> xs ! i) xs)"
proof -
  assume xs: "sorted xs" "i < length xs"
  have "filter (\<lambda>y. y \<le> xs ! i) (take (Suc i) xs) = take (Suc i) xs"
    using xs by (auto simp: filter_id_conv in_set_conv_nth intro!: sorted_nth_mono [OF xs(1)])
  moreover have "length (filter P (take k xs)) \<le> length (filter P xs)" for P k
    by (metis append_take_drop_id filter_append le_add1 length_append)
  ultimately show ?thesis using xs(2) by (metis Suc_leI length_take min.absorb2)
qed

lemma sorted_count_less: "sorted xs \<Longrightarrow> i < length xs \<Longrightarrow> length (filter (\<lambda>y. y < xs ! i) xs) \<le> i"
proof -
  assume xs: "sorted xs" "i < length xs"
  have "filter (\<lambda>y. y < xs ! i) (drop i xs) = []"
    using xs by (auto simp: filter_empty_conv in_set_conv_nth not_less intro!: sorted_nth_mono [OF xs(1)])
  moreover have "filter P xs = filter P (take i xs) @ filter P (drop i xs)" for P
    by (metis append_take_drop_id filter_append)
  ultimately have "length (filter (\<lambda>y. y < xs ! i) xs) = length (filter (\<lambda>y. y < xs ! i) (take i xs))" by simp
  also have "\<dots> \<le> i" using length_filter_le [of _ "take i xs"] xs(2) by (metis length_take min.absorb2 less_imp_le_nat)
  finally show ?thesis .
qed

text \<open>
  The percentile is the nearest rank: of \<open>n\<close> finite values, \<open>nearest_rank\<close> returns one of them, at least
  \<open>percentile\<close> per cent of the values are at most that value, and fewer than that are below it, provided rounding
  \<open>percentile * n / 100\<close> does not move it across an integer.
\<close>
lemma nearest_rank_correct:
  assumes "values \<noteq> []" and "1 \<le> p" and "p \<le> 100" and "\<forall>v \<in> set values. pf_isfinite v"
    and "int_div rnd (p * int (length values)) 100 = Inr x" and "pf_ceil x = Inr \<lceil>rat_of_int (p * int (length values)) / 100\<rceil>"
  shows "\<exists>v. nearest_rank rnd values p = Inr (Finite v) \<and> Finite v \<in> set values \<and>
    p * int (length values) \<le> 100 * int (length (filter (\<lambda>y. finite_part y \<le> v) values)) \<and>
    100 * int (length (filter (\<lambda>y. finite_part y < v) values)) < p * int (length values)"
proof -
  let ?n = "int (length values)" and ?ranked = "sort (map finite_part values)"
  define k where "k = \<lceil>rat_of_int (p * ?n) / 100\<rceil>"
  have ceil: "pf_ceil x = Inr k" using assms(6) by (simp only: k_def)
  have n: "0 < ?n" using assms(1) by simp
  have up: "p * ?n \<le> 100 * k"
  proof -
    have "rat_of_int (p * ?n) / 100 \<le> of_int k" unfolding k_def by (rule le_of_int_ceiling)
    then have "rat_of_int (p * ?n) \<le> 100 * of_int k" by (simp only: divide_le_eq_numeral1(1) mult.commute)
    then have "rat_of_int (p * ?n) \<le> of_int (100 * k)" by (simp only: of_int_mult of_int_numeral)
    then show ?thesis by (simp only: of_int_le_iff)
  qed
  have down: "100 * (k - 1) < p * ?n"
  proof -
    have "of_int k - 1 < rat_of_int (p * ?n) / 100" unfolding k_def by (rule ceiling_correct [THEN conjunct1])
    then have "rat_of_int (100 * (k - 1)) < rat_of_int (p * ?n)" by (simp only: of_int_mult of_int_numeral of_int_diff of_int_1 less_divide_eq_numeral1(1) mult.commute [of _ 100])
    then show ?thesis by (simp only: of_int_less_iff)
  qed
  have "0 < p * ?n" using n assms(2) by simp
  then have k1: "1 \<le> k" using up by linarith
  have "p * ?n \<le> 100 * ?n" using assms(3) by (simp add: mult_right_mono)
  then have "100 * (k - 1) < 100 * ?n" using down by (rule order.strict_trans2 [rotated])
  then have kn: "k \<le> ?n" by simp
  define i where "i = nat (k - 1)"
  have i: "int i = k - 1" "int (Suc i) = k" using k1 by (simp_all add: i_def)
  then have "int i < ?n" using kn by linarith
  then have il: "i < length ?ranked" by simp
  have "nearest_rank rnd values p = Inr (Finite (?ranked ! i))"
    using assms(1-5) ceil k1 kn by (simp add: nearest_rank_def list_all_iff Let_def i_def)
  moreover have "?ranked ! i \<in> finite_part ` set values" using il nth_mem [of i ?ranked] by simp
  then have "Finite (?ranked ! i) \<in> set values" using assms(4) by (force elim!: pf_isfinite.elims)
  moreover have "int (length (filter (\<lambda>y. finite_part y \<le> ?ranked ! i) values)) \<ge> k"
    using sorted_count_le [OF sorted_sort il] i(2) by (simp add: length_filter_sort filter_map o_def)
  moreover have "int (length (filter (\<lambda>y. finite_part y < ?ranked ! i) values)) \<le> k - 1"
    using sorted_count_less [OF sorted_sort il] i(1) by (simp add: length_filter_sort filter_map o_def)
  ultimately show ?thesis using up down by (intro exI [of _ "?ranked ! i"]) auto
qed

lemma nearest_rank_correct_witness:
  "\<exists>v. nearest_rank Finite [Finite 3, Finite 1, Finite 2] 50 = Inr (Finite v) \<and>
    50 * 3 \<le> 100 * int (length (filter (\<lambda>y. finite_part y \<le> v) [Finite 3, Finite 1, Finite 2]))"
  using nearest_rank_correct [of "[Finite 3, Finite 1, Finite 2]" 50 Finite "Finite (3 / 2)"]
  by (auto simp: int_div_def finite_or_overflow_def)

end
