(* ===== verification/R1_Store.thy ===== *)
theory R1_Store
  imports M1_Backend "HOL-Library.Char_ord" "HOL-Library.List_Lexorder"
begin

text \<open>
  The version 3 store of \<open>m1_r1.py\<close>: the tables of the deletion reconciliation with their constraints,
  the registration of deletion targets, their binding to the tasks of a withdrawal, and the recovery of an
  interrupted run. The state extends the durable workspace with the new tables and with what the
  reconciliation keeps in memory.

  Parameters, collected in \<open>r1_lib\<close>: the SHA-256 of the canonical JSON of a value and of a text, \<open>scrypt\<close>, the
  Unicode normalisation NFC and case folding, the identity digest of the storage root and the clocks and
  tokens. As in the workspace, a timestamp column that nothing reads is not stored, but NaN (which SQLite
  stores as NULL) violates its NOT NULL constraint.
\<close>

record r1_lib =
  lib_sha :: "json \<Rightarrow> string"
  lib_sha_text :: "string \<Rightarrow> string"
  lib_scrypt :: "string \<Rightarrow> string \<Rightarrow> string"
  lib_nfc :: "string \<Rightarrow> string"
  lib_casefold :: "string \<Rightarrow> string"
  lib_root_identity :: string
  lib_env :: py_env

section \<open>Rows\<close>

datatype target_kind = LOCAL_RESEARCH_FILE | LOCAL_EXPORT_STAGING_FILE | EXTERNAL_COPY
datatype root_scope = RESEARCH_ROOT | EXPORT_STAGING | EXTERNAL_SCOPE
datatype target_state = PENDING_CONFIRMATION | IN_PROGRESS | LOCAL_DELETION_VERIFIED | EXTERNAL_DELETION_ATTESTED
  | TARGET_RECOVERY_REQUIRED | TARGET_BLOCKED
datatype challenge_action = EXECUTE_LOCAL_RECONCILIATION | ATTEST_EXTERNAL_DELETION
datatype challenge_status = ISSUED | CONSUMED | EXPIRED | REVOKED
datatype execution_kind = LOCAL_RUN | EXTERNAL_ATTESTATION
datatype run_state = QUEUED | RUNNING | RUN_COMPLETED | RUN_BLOCKED | RUN_RECOVERY_REQUIRED | FAILED_TECHNICAL
datatype attempt_stage = PREDELETE_PENDING | PREDELETE_VERIFIED | DELETE_MARKED | ABSENCE_VERIFIED
  | STAGE_RECOVERY_REQUIRED | STAGE_BLOCKED
datatype procedure_status = APPROVED | PROCEDURE_REVOKED
datatype m2_intent_status = M2_PENDING | M2_SEALED | M2_FAILED | M2_QUARANTINED

fun target_kind_str :: "target_kind \<Rightarrow> string" where
  "target_kind_str LOCAL_RESEARCH_FILE = ''LOCAL_RESEARCH_FILE''"
| "target_kind_str LOCAL_EXPORT_STAGING_FILE = ''LOCAL_EXPORT_STAGING_FILE''"
| "target_kind_str EXTERNAL_COPY = ''EXTERNAL_COPY''"

fun root_scope_str :: "root_scope \<Rightarrow> string" where
  "root_scope_str RESEARCH_ROOT = ''RESEARCH_ROOT''"
| "root_scope_str EXPORT_STAGING = ''EXPORT_STAGING''"
| "root_scope_str EXTERNAL_SCOPE = ''EXTERNAL_ATTESTATION''"

fun target_state_str :: "target_state \<Rightarrow> string" where
  "target_state_str PENDING_CONFIRMATION = ''PENDING_CONFIRMATION''"
| "target_state_str IN_PROGRESS = ''IN_PROGRESS''"
| "target_state_str LOCAL_DELETION_VERIFIED = ''LOCAL_DELETION_VERIFIED''"
| "target_state_str EXTERNAL_DELETION_ATTESTED = ''EXTERNAL_DELETION_ATTESTED''"
| "target_state_str TARGET_RECOVERY_REQUIRED = ''RECOVERY_REQUIRED''"
| "target_state_str TARGET_BLOCKED = ''BLOCKED''"

definition is_local :: "target_kind \<Rightarrow> bool" where
  "is_local k \<longleftrightarrow> k \<in> {LOCAL_RESEARCH_FILE, LOCAL_EXPORT_STAGING_FILE}"

text \<open>The tables of the second version that the reconciliation reads (\<open>m2_persistence.py\<close>).\<close>

record manifest_row =
  mf_artifact_id :: string
  mf_artifact_kind :: string
  mf_technical_input_kind :: string
  mf_schema_version :: int
  mf_relative_path :: string
  mf_byte_size :: int
  mf_sha256 :: string
  mf_capture_profile_version :: string
  mf_monotonic_timing_origin :: string
  mf_processing_version :: string
  mf_technical_failure_code :: "string option"
  mf_sealed_at :: pyfloat

record m2_intent_row =
  mi_id :: string
  mi_session_id :: string
  mi_artifact_id :: string
  mi_partial_path :: string
  mi_final_path :: string
  mi_request_hash :: string
  mi_status :: m2_intent_status

record target_row =
  tg_id :: string
  tg_artifact_id :: string
  tg_kind :: target_kind
  tg_scope :: root_scope
  tg_locator_digest :: string
  tg_relative_path :: "string option"
  tg_export_id :: "string option"
  tg_expected_byte_size :: "int option"
  tg_expected_sha256 :: "string option"
  tg_manifest_schema_version :: int
  tg_manifest_sha256 :: string

record task_target_row =
  tt_task_id :: string
  tt_participant_id :: string
  tt_receipt_id :: string
  tt_subject_session_id :: string
  tt_artifact_id :: string
  tt_artifact_session_id :: string
  tt_target_id :: string
  tt_kind :: target_kind
  tt_scope :: root_scope
  tt_state :: target_state
  tt_version :: int
  tt_blocker :: "string option"

record procedure_row =
  pr_id :: string
  pr_reference :: string
  pr_source_sha256 :: string
  pr_status :: procedure_status
  pr_approved_at :: pyfloat
  pr_expires_at :: "pyfloat option"
  pr_revoked_at :: "pyfloat option"

record hold_row =
  ho_id :: string
  ho_participant_id :: string
  ho_active :: bool

record step_up_row =
  su_id :: string
  su_session_digest :: string
  su_epoch :: int
  su_verified_at :: pyfloat
  su_expires_at :: pyfloat
  su_consumed_at :: "pyfloat option"

record challenge_row =
  ch_id :: string
  ch_participant_id :: string
  ch_receipt_id :: string
  ch_session_digest :: string
  ch_token_digest :: string
  ch_plan_sha256 :: string
  ch_state_version :: int
  ch_step_up_id :: string
  ch_step_up_verified_at :: pyfloat
  ch_step_up_expires_at :: pyfloat
  ch_target_id :: "string option"
  ch_target_kind :: "target_kind option"
  ch_root_scope :: "root_scope option"
  ch_action :: challenge_action
  ch_status :: challenge_status
  ch_issued_at :: pyfloat
  ch_expires_at :: pyfloat
  ch_consumed_at :: "pyfloat option"

record execution_row =
  xe_id :: string
  xe_challenge_id :: string
  xe_kind :: execution_kind

record run_row =
  rn_id :: string
  rn_execution_id :: string
  rn_participant_id :: string
  rn_challenge_id :: string
  rn_plan_sha256 :: string
  rn_state :: run_state
  rn_failure_code :: "string option"

record recon_attempt_row =
  at_id :: string
  at_run_id :: string
  at_task_id :: string
  at_target_id :: string
  at_number :: int
  at_stage :: attempt_stage
  at_byte_size :: "int option"
  at_sha256 :: "string option"
  at_volume :: "string option"
  at_file :: "string option"
  at_failure_code :: "string option"

record attestation_row =
  ea_id :: string
  ea_execution_id :: string
  ea_participant_id :: string
  ea_receipt_id :: string
  ea_plan_sha256 :: string
  ea_task_id :: string
  ea_target_id :: string
  ea_challenge_id :: string
  ea_procedure_id :: string
  ea_session_digest :: string

record recon_receipt_row =
  rr_id :: string
  rr_participant_id :: string
  rr_receipt_id :: string
  rr_body :: json
  rr_body_sha256 :: string

record r1_tables =
  t_manifests :: "manifest_row list"
  t_m2_intents :: "m2_intent_row list"
  t_targets :: "target_row list"
  t_task_targets :: "task_target_row list"
  t_procedures :: "procedure_row list"
  t_holds :: "hold_row list"
  t_step_ups :: "step_up_row list"
  t_challenges :: "challenge_row list"
  t_executions :: "execution_row list"
  t_runs :: "run_row list"
  t_attempts :: "recon_attempt_row list"
  t_attestations :: "attestation_row list"
  t_recon_receipts :: "recon_receipt_row list"

section \<open>State and transactions\<close>

text \<open>
  In memory: the reviewer authenticator, the monotonic deadlines of the issued challenges, the handles of
  directories and files that are open, and how many deletions were started.
\<close>

record r1_backend = m1_backend +
  r1_db :: r1_tables
  r1_auth :: authenticator
  r1_deadlines :: "(string \<times> (pyfloat \<times> pyfloat)) list"
  r1_handles :: "string list"
  r1_deletions :: nat

definition r1_get :: "(m1_db \<Rightarrow> r1_tables \<Rightarrow> 'a) \<Rightarrow> (r1_backend, 'a) pyop" where
  "r1_get f = py_get (\<lambda>s. f (m1_db s) (r1_db s))"

definition r1_transaction :: "(r1_backend, 'a) pyop \<Rightarrow> (r1_backend, 'a) pyop" where
  "r1_transaction m s =
     (if \<not> m1_open s then (Inl (ProgrammingError ''Cannot operate on a closed database.''), s)
      else case m s of
        (Inl e, s') \<Rightarrow> (Inl e, s'\<lparr>m1_db := m1_db s, r1_db := r1_db s\<rparr>)
      | (Inr x, s') \<Rightarrow> (Inr x, s'))"

text \<open>A statement that changes the new tables, refused when a constraint does not hold.\<close>

definition r1_statement :: "(m1_db \<Rightarrow> r1_tables \<Rightarrow> bool) \<Rightarrow> (r1_tables \<Rightarrow> r1_tables) \<Rightarrow> (r1_backend, unit) pyop" where
  "r1_statement ok f s =
     (if ok (m1_db s) (r1_db s) then (Inr (), s\<lparr>r1_db := f (r1_db s)\<rparr>)
      else (Inl (IntegrityError ''constraint failed''), s))"

declare r1_get_def [py_run] r1_transaction_def [py_run] r1_statement_def [py_run]

section \<open>Statements\<close>

definition target_row_ok :: "target_row \<Rightarrow> bool" where
  "target_row_ok r \<longleftrightarrow> length (tg_locator_digest r) = 64 \<and> 1 \<le> tg_manifest_schema_version r \<and> length (tg_manifest_sha256 r) = 64 \<and>
     (is_local (tg_kind r) \<and> tg_scope r \<in> {RESEARCH_ROOT, EXPORT_STAGING} \<and> tg_relative_path r \<noteq> None \<and> tg_export_id r = None \<and>
        (case tg_expected_byte_size r of None \<Rightarrow> False | Some n \<Rightarrow> 0 \<le> n) \<and>
        (case tg_expected_sha256 r of None \<Rightarrow> False | Some d \<Rightarrow> length d = 64) \<or>
      tg_kind r = EXTERNAL_COPY \<and> tg_scope r = EXTERNAL_SCOPE \<and> tg_relative_path r = None \<and> tg_export_id r \<noteq> None \<and>
        tg_expected_byte_size r = None \<and> tg_expected_sha256 r = None)"

definition target_unique :: "r1_tables \<Rightarrow> target_row \<Rightarrow> bool" where
  "target_unique t r \<longleftrightarrow> tg_id r \<notin> tg_id ` set (t_targets t) \<and> tg_locator_digest r \<notin> tg_locator_digest ` set (t_targets t)"

definition has_artifact :: "m1_db \<Rightarrow> string \<Rightarrow> bool" where
  "has_artifact db aid \<longleftrightarrow> aid \<in> ar_id ` set (db_artifacts db)"

definition add_target :: "target_row \<Rightarrow> r1_tables \<Rightarrow> r1_tables" where
  "add_target r t = t\<lparr>t_targets := t_targets t @ [r]\<rparr>"

definition insert_target :: "target_row \<Rightarrow> pyfloat \<Rightarrow> (r1_backend, unit) pyop" where
  "insert_target r created = r1_statement
     (\<lambda>db t. target_row_ok r \<and> target_unique t r \<and> has_artifact db (tg_artifact_id r) \<and> sql_real created \<noteq> None) (add_target r)"

text \<open>\<open>INSERT OR IGNORE\<close>: a row that violates a unique, check or not-null constraint is skipped, a missing foreign key raises.\<close>

definition insert_or_ignore_target :: "target_row \<Rightarrow> pyfloat \<Rightarrow> (r1_backend, unit) pyop" where
  "insert_or_ignore_target r created s =
     (if \<not> target_row_ok r \<or> \<not> target_unique (r1_db s) r \<or> sql_real created = None then (Inr (), s)
      else r1_statement (\<lambda>db t. has_artifact db (tg_artifact_id r)) (add_target r) s)"

definition task_target_ok :: "task_target_row \<Rightarrow> bool" where
  "task_target_ok r \<longleftrightarrow> 0 \<le> tt_version r \<and>
     (is_local (tt_kind r) \<and> tt_scope r \<in> {RESEARCH_ROOT, EXPORT_STAGING} \<and> tt_state r \<noteq> EXTERNAL_DELETION_ATTESTED \<or>
      tt_kind r = EXTERNAL_COPY \<and> tt_scope r = EXTERNAL_SCOPE \<and> tt_state r \<noteq> LOCAL_DELETION_VERIFIED)"

definition session_of_participant :: "m1_db \<Rightarrow> string \<Rightarrow> string \<Rightarrow> bool" where
  "session_of_participant db sid pid \<longleftrightarrow> (\<exists>r \<in> set (db_sessions db). se_id r = sid \<and> se_participant_id r = Some pid)"

definition task_target_references :: "m1_db \<Rightarrow> r1_tables \<Rightarrow> task_target_row \<Rightarrow> bool" where
  "task_target_references db t r \<longleftrightarrow>
     (\<exists>k \<in> set (db_tasks db). wt_id k = tt_task_id r \<and> wt_subject_session_id k = tt_subject_session_id r \<and> wt_artifact_id k = tt_artifact_id r) \<and>
     (\<exists>w \<in> set (db_receipts db). wr_id w = tt_receipt_id r \<and> wr_participant_id w = tt_participant_id r) \<and>
     session_of_participant db (tt_subject_session_id r) (tt_participant_id r) \<and>
     (\<exists>a \<in> set (db_artifacts db). ar_id a = tt_artifact_id r \<and> ar_session_id a = tt_artifact_session_id r) \<and>
     session_of_participant db (tt_artifact_session_id r) (tt_participant_id r) \<and>
     (\<exists>g \<in> set (t_targets t). tg_id g = tt_target_id r \<and> tg_artifact_id g = tt_artifact_id r \<and> tg_kind g = tt_kind r \<and> tg_scope g = tt_scope r)"

definition insert_or_ignore_task_target :: "task_target_row \<Rightarrow> pyfloat \<Rightarrow> (r1_backend, unit) pyop" where
  "insert_or_ignore_task_target r updated s =
     (if tt_target_id r \<in> tt_target_id ` set (t_task_targets (r1_db s)) \<or> \<not> task_target_ok r \<or> sql_real updated = None then (Inr (), s)
      else r1_statement (\<lambda>db t. task_target_references db t r) (\<lambda>t. t\<lparr>t_task_targets := t_task_targets t @ [r]\<rparr>) s)"

text \<open>\<open>UPDATE withdrawal_task_targets\<close>; every update writes the timestamp and counts the version up.\<close>

definition update_task_targets :: "(task_target_row \<Rightarrow> bool) \<Rightarrow> target_state \<Rightarrow> string option \<Rightarrow> pyfloat \<Rightarrow> (r1_backend, unit) pyop" where
  "update_task_targets c st blocker updated =
     (let f = (\<lambda>r. r\<lparr>tt_state := st, tt_version := tt_version r + 1, tt_blocker := blocker\<rparr>) in
      r1_statement (\<lambda>_ t. list_all (\<lambda>r. c r \<longrightarrow> task_target_ok (f r) \<and> sql_real updated \<noteq> None) (t_task_targets t))
        (\<lambda>t. t\<lparr>t_task_targets := update_where c f (t_task_targets t)\<rparr>))"

definition valid_reference :: "string \<Rightarrow> bool" where
  "valid_reference v \<longleftrightarrow> 1 \<le> length v \<and> length v \<le> 128 \<and>
     list_all (\<lambda>c. c \<in> set ''ABCDEFGHIJKLMNOPQRSTUVWXYZabcdefghijklmnopqrstuvwxyz0123456789._-'') v"

definition insert_procedure :: "procedure_row \<Rightarrow> (r1_backend, unit) pyop" where
  "insert_procedure r = r1_statement
     (\<lambda>_ t. pr_id r \<notin> pr_id ` set (t_procedures t) \<and> pr_reference r \<notin> pr_reference ` set (t_procedures t) \<and> valid_reference (pr_reference r) \<and>
        length (pr_source_sha256 r) = 64 \<and> sql_real (pr_approved_at r) \<noteq> None \<and>
        (case pr_expires_at r of None \<Rightarrow> True | Some e \<Rightarrow> pf_less (pr_approved_at r) e) \<and>
        (pr_status r = APPROVED \<longleftrightarrow> pr_revoked_at r = None))
     (\<lambda>t. t\<lparr>t_procedures := t_procedures t @ [r]\<rparr>)"

definition insert_step_up :: "step_up_row \<Rightarrow> (r1_backend, unit) pyop" where
  "insert_step_up r = r1_statement
     (\<lambda>_ t. su_id r \<notin> su_id ` set (t_step_ups t) \<and> length (su_session_digest r) = 64 \<and> 0 \<le> su_epoch r \<and>
        pf_less (su_verified_at r) (su_expires_at r) \<and> pf_le (su_expires_at r) (pf_add (su_verified_at r) (Finite 120)) \<and>
        (case su_consumed_at r of None \<Rightarrow> True | Some c \<Rightarrow> pf_le c (su_expires_at r)))
     (\<lambda>t. t\<lparr>t_step_ups := t_step_ups t @ [r]\<rparr>)"

definition consume_step_up :: "string \<Rightarrow> pyfloat \<Rightarrow> (r1_backend, unit) pyop" where
  "consume_step_up sid now = r1_statement
     (\<lambda>_ t. list_all (\<lambda>r. su_id r = sid \<longrightarrow> (case sql_real now of None \<Rightarrow> True | Some c \<Rightarrow> pf_le c (su_expires_at r))) (t_step_ups t))
     (\<lambda>t. t\<lparr>t_step_ups := update_where (\<lambda>r. su_id r = sid) (\<lambda>r. r\<lparr>su_consumed_at := sql_real now\<rparr>) (t_step_ups t)\<rparr>)"

definition challenge_ok :: "challenge_row \<Rightarrow> bool" where
  "challenge_ok r \<longleftrightarrow> length (ch_session_digest r) = 64 \<and> length (ch_token_digest r) = 64 \<and> length (ch_plan_sha256 r) = 64 \<and>
     0 \<le> ch_state_version r \<and> pf_less (ch_issued_at r) (ch_expires_at r) \<and> pf_le (ch_step_up_verified_at r) (ch_issued_at r) \<and>
     pf_le (ch_expires_at r) (ch_step_up_expires_at r) \<and>
     (case ch_action r of
        EXECUTE_LOCAL_RECONCILIATION \<Rightarrow> ch_target_id r = None \<and> ch_target_kind r = None \<and> ch_root_scope r = None
      | ATTEST_EXTERNAL_DELETION \<Rightarrow> ch_target_id r \<noteq> None \<and> ch_target_kind r = Some EXTERNAL_COPY \<and> ch_root_scope r = Some EXTERNAL_SCOPE) \<and>
     (ch_status r = CONSUMED \<longleftrightarrow> ch_consumed_at r \<noteq> None)"

definition challenge_references :: "m1_db \<Rightarrow> r1_tables \<Rightarrow> challenge_row \<Rightarrow> bool" where
  "challenge_references db t r \<longleftrightarrow>
     ch_participant_id r \<in> pa_id ` set (db_participants db) \<and> ch_receipt_id r \<in> wr_id ` set (db_receipts db) \<and>
     (case ch_target_id r of None \<Rightarrow> True | Some i \<Rightarrow>
        (\<exists>g \<in> set (t_targets t). tg_id g = i \<and> Some (tg_kind g) = ch_target_kind r \<and> Some (tg_scope g) = ch_root_scope r)) \<and>
     (\<exists>u \<in> set (t_step_ups t). su_id u = ch_step_up_id r \<and> su_session_digest u = ch_session_digest r \<and>
        su_verified_at u = ch_step_up_verified_at r \<and> su_expires_at u = ch_step_up_expires_at r)"

definition insert_challenge :: "challenge_row \<Rightarrow> (r1_backend, unit) pyop" where
  "insert_challenge r = r1_statement
     (\<lambda>db t. ch_id r \<notin> ch_id ` set (t_challenges t) \<and> ch_token_digest r \<notin> ch_token_digest ` set (t_challenges t) \<and>
        ch_step_up_id r \<notin> ch_step_up_id ` set (t_challenges t) \<and> challenge_ok r \<and> challenge_references db t r)
     (\<lambda>t. t\<lparr>t_challenges := t_challenges t @ [r]\<rparr>)"

text \<open>\<open>UPDATE reconciliation_challenges SET status=\<dots>\<close> to a status without a consumption time.\<close>

definition close_challenges :: "(challenge_row \<Rightarrow> bool) \<Rightarrow> challenge_status \<Rightarrow> (r1_backend, unit) pyop" where
  "close_challenges c st = r1_statement
     (\<lambda>_ t. list_all (\<lambda>r. c r \<longrightarrow> challenge_ok (r\<lparr>ch_status := st\<rparr>)) (t_challenges t))
     (\<lambda>t. t\<lparr>t_challenges := update_where c (\<lambda>r. r\<lparr>ch_status := st\<rparr>) (t_challenges t)\<rparr>)"

definition consume_challenge_row :: "string \<Rightarrow> pyfloat \<Rightarrow> (r1_backend, unit) pyop" where
  "consume_challenge_row cid now =
     (let c = (\<lambda>r. ch_id r = cid \<and> ch_status r = ISSUED); f = (\<lambda>r. r\<lparr>ch_status := CONSUMED, ch_consumed_at := sql_real now\<rparr>) in
      r1_statement (\<lambda>_ t. list_all (\<lambda>r. c r \<longrightarrow> challenge_ok (f r)) (t_challenges t))
        (\<lambda>t. t\<lparr>t_challenges := update_where c f (t_challenges t)\<rparr>))"

definition insert_execution :: "execution_row \<Rightarrow> pyfloat \<Rightarrow> (r1_backend, unit) pyop" where
  "insert_execution r created = r1_statement
     (\<lambda>_ t. xe_id r \<notin> xe_id ` set (t_executions t) \<and> xe_challenge_id r \<notin> xe_challenge_id ` set (t_executions t) \<and>
        xe_challenge_id r \<in> ch_id ` set (t_challenges t) \<and> sql_real created \<noteq> None)
     (\<lambda>t. t\<lparr>t_executions := t_executions t @ [r]\<rparr>)"

definition insert_run :: "run_row \<Rightarrow> pyfloat \<Rightarrow> (r1_backend, unit) pyop" where
  "insert_run r created = r1_statement
     (\<lambda>db t. rn_id r \<notin> rn_id ` set (t_runs t) \<and> rn_execution_id r \<notin> rn_execution_id ` set (t_runs t) \<and>
        rn_participant_id r \<in> pa_id ` set (db_participants db) \<and> length (rn_plan_sha256 r) = 64 \<and> sql_real created \<noteq> None \<and>
        (\<exists>e \<in> set (t_executions t). xe_id e = rn_execution_id r \<and> xe_challenge_id e = rn_challenge_id r \<and> xe_kind e = LOCAL_RUN))
     (\<lambda>t. t\<lparr>t_runs := t_runs t @ [r]\<rparr>)"

definition update_runs :: "(run_row \<Rightarrow> bool) \<Rightarrow> (run_row \<Rightarrow> run_row) \<Rightarrow> (r1_backend, unit) pyop" where
  "update_runs c f = r1_statement (\<lambda>_ _. True) (\<lambda>t. t\<lparr>t_runs := update_where c f (t_runs t)\<rparr>)"

definition insert_recon_attempt :: "recon_attempt_row \<Rightarrow> pyfloat \<Rightarrow> (r1_backend, unit) pyop" where
  "insert_recon_attempt r created = r1_statement
     (\<lambda>db t. at_id r \<notin> at_id ` set (t_attempts t) \<and>
        (at_run_id r, at_target_id r) \<notin> (\<lambda>a. (at_run_id a, at_target_id a)) ` set (t_attempts t) \<and>
        (at_task_id r, at_target_id r, at_number r) \<notin> (\<lambda>a. (at_task_id a, at_target_id a, at_number a)) ` set (t_attempts t) \<and>
        1 \<le> at_number r \<and> at_run_id r \<in> rn_id ` set (t_runs t) \<and> at_task_id r \<in> wt_id ` set (db_tasks db) \<and>
        at_target_id r \<in> tg_id ` set (t_targets t) \<and> sql_real created \<noteq> None)
     (\<lambda>t. t\<lparr>t_attempts := t_attempts t @ [r]\<rparr>)"

definition update_attempts :: "(recon_attempt_row \<Rightarrow> bool) \<Rightarrow> (recon_attempt_row \<Rightarrow> recon_attempt_row) \<Rightarrow> pyfloat \<Rightarrow> (r1_backend, unit) pyop" where
  "update_attempts c f updated = r1_statement
     (\<lambda>_ t. list_all (\<lambda>r. c r \<longrightarrow> sql_real updated \<noteq> None) (t_attempts t)) (\<lambda>t. t\<lparr>t_attempts := update_where c f (t_attempts t)\<rparr>)"

definition insert_attestation :: "attestation_row \<Rightarrow> pyfloat \<Rightarrow> (r1_backend, unit) pyop" where
  "insert_attestation r attested = r1_statement
     (\<lambda>db t. ea_id r \<notin> ea_id ` set (t_attestations t) \<and> ea_execution_id r \<notin> ea_execution_id ` set (t_attestations t) \<and>
        (ea_task_id r, ea_target_id r) \<notin> (\<lambda>a. (ea_task_id a, ea_target_id a)) ` set (t_attestations t) \<and>
        ea_participant_id r \<in> pa_id ` set (db_participants db) \<and> ea_receipt_id r \<in> wr_id ` set (db_receipts db) \<and>
        length (ea_plan_sha256 r) = 64 \<and> length (ea_session_digest r) = 64 \<and> ea_procedure_id r \<in> pr_id ` set (t_procedures t) \<and>
        sql_real attested \<noteq> None \<and>
        (\<exists>e \<in> set (t_executions t). xe_id e = ea_execution_id r \<and> xe_challenge_id e = ea_challenge_id r \<and> xe_kind e = EXTERNAL_ATTESTATION) \<and>
        (\<exists>m \<in> set (t_task_targets t). tt_task_id m = ea_task_id r \<and> tt_target_id m = ea_target_id r \<and> tt_kind m = EXTERNAL_COPY \<and>
           tt_scope m = EXTERNAL_SCOPE \<and> tt_participant_id m = ea_participant_id r \<and> tt_receipt_id m = ea_receipt_id r) \<and>
        (\<exists>c \<in> set (t_challenges t). ch_id c = ea_challenge_id r \<and> ch_participant_id c = ea_participant_id r \<and>
           ch_receipt_id c = ea_receipt_id r \<and> ch_plan_sha256 c = ea_plan_sha256 r \<and> ch_action c = ATTEST_EXTERNAL_DELETION \<and>
           ch_target_id c = Some (ea_target_id r) \<and> ch_target_kind c = Some EXTERNAL_COPY \<and> ch_root_scope c = Some EXTERNAL_SCOPE))
     (\<lambda>t. t\<lparr>t_attestations := t_attestations t @ [r]\<rparr>)"

definition insert_recon_receipt :: "recon_receipt_row \<Rightarrow> pyfloat \<Rightarrow> (r1_backend, unit) pyop" where
  "insert_recon_receipt r created = r1_statement
     (\<lambda>db t. rr_id r \<notin> rr_id ` set (t_recon_receipts t) \<and> rr_participant_id r \<notin> rr_participant_id ` set (t_recon_receipts t) \<and>
        rr_receipt_id r \<notin> rr_receipt_id ` set (t_recon_receipts t) \<and> rr_participant_id r \<in> pa_id ` set (db_participants db) \<and>
        rr_receipt_id r \<in> wr_id ` set (db_receipts db) \<and> length (rr_body_sha256 r) = 64 \<and> sql_real created \<noteq> None)
     (\<lambda>t. t\<lparr>t_recon_receipts := t_recon_receipts t @ [r]\<rparr>)"

end
