(* ===== verification/R1_Targets.thy ===== *)
theory R1_Targets
  imports R1_Store
begin

text \<open>
  The operations of \<open>ResearchStoreV3\<close> and \<open>M1R1Backend\<close> on deletion targets: path normalisation, the binding of
  a manifest, registration of local and external targets, the binding of targets to the tasks of a
  withdrawal, and the recovery of interrupted reconciliation runs.
\<close>

section \<open>Names and paths\<close>

definition opaque :: "string \<Rightarrow> string \<Rightarrow> ('s, unit) pyop" where
  "opaque value label = py_guard
     (\<not> (1 \<le> length value \<and> length value \<le> 128 \<and>
         list_all (\<lambda>c. c \<in> set ''ABCDEFGHIJKLMNOPQRSTUVWXYZabcdefghijklmnopqrstuvwxyz0123456789-_'') value))
     (PersistenceFailure (''invalid opaque '' @ label))"

definition opaque_external_id :: "string \<Rightarrow> py_error + string" where
  "opaque_external_id value = (if valid_reference value then Inr value else Inl (TargetRegistrationError ''invalid export id''))"

text \<open>\<open>PurePosixPath(path).parts\<close> of a path that does not begin with a slash: empty and single-dot segments vanish.\<close>

definition posix_parts :: "string \<Rightarrow> string list" where
  "posix_parts path = filter (\<lambda>p. p \<noteq> [] \<and> p \<noteq> ''.'') (split_on CHR ''/'' [] path)"

fun join_path :: "string list \<Rightarrow> string" where
  "join_path [] = []"
| "join_path [p] = p"
| "join_path (p # ps) = p @ CHR ''/'' # join_path ps"

definition reserved_names :: "string list" where
  "reserved_names = [''aux'', ''clock$'', ''com1'', ''com2'', ''com3'', ''com4'', ''com5'', ''com6'', ''com7'', ''com8'', ''com9'', ''con'',
     ''lpt1'', ''lpt2'', ''lpt3'', ''lpt4'', ''lpt5'', ''lpt6'', ''lpt7'', ''lpt8'', ''lpt9'', ''nul'', ''prn'']"

definition ends_badly :: "string \<Rightarrow> bool" where
  "ends_badly p \<longleftrightarrow> p \<noteq> [] \<and> last p \<in> {CHR '' '', CHR ''.''}"

definition part_refused :: "r1_lib \<Rightarrow> string \<Rightarrow> bool" where
  "part_refused lib p \<longleftrightarrow> ends_badly p \<or> lib_casefold lib (takeWhile (\<lambda>c. c \<noteq> CHR ''.'') p) \<in> set reserved_names"

definition normalized_relative_path :: "r1_lib \<Rightarrow> string \<Rightarrow> py_error + string" where
  "normalized_relative_path lib value =
     (let path = map (\<lambda>c. if c = CHR 0x5C then CHR ''/'' else c) value; parts = posix_parts path;
          invalid = Inl (TargetRegistrationError ''invalid server-derived relative path'') in
      if path \<noteq> lib_nfc lib path then Inl (TargetRegistrationError ''relative path is not NFC'')
      else if path = [] \<or> hd path = CHR ''/'' \<or> CHR 0x5C \<in> set path \<or> CHR '':'' \<in> set path then invalid
      else if parts = [] \<or> list_ex (\<lambda>p. p \<in> {[], ''.'', ''..''}) parts then invalid
      else if list_ex (part_refused lib) parts then invalid
      else Inr (join_path parts))"

section \<open>Manifests and locators\<close>

definition opt_str :: "string option \<Rightarrow> json" where
  "opt_str x = (case x of None \<Rightarrow> JNull | Some v \<Rightarrow> JStr v)"

definition manifest_body :: "r1_lib \<Rightarrow> manifest_row \<Rightarrow> py_error + json" where
  "manifest_body lib r = res_bind (normalized_relative_path lib (mf_relative_path r)) (\<lambda>path. Inr (JObj
     [(''artifact_id'', JStr (mf_artifact_id r)), (''artifact_kind'', JStr (mf_artifact_kind r)), (''byte_size'', JInt (mf_byte_size r)),
      (''capture_profile_version'', JStr (mf_capture_profile_version r)), (''manifest_schema_version'', JInt (mf_schema_version r)),
      (''monotonic_timing_origin'', JStr (mf_monotonic_timing_origin r)), (''processing_version'', JStr (mf_processing_version r)),
      (''relative_path'', JStr path), (''sha256'', JStr (mf_sha256 r)),
      (''technical_failure_code'', opt_str (mf_technical_failure_code r)), (''technical_input_kind'', JStr (mf_technical_input_kind r))]))"

definition manifest_binding :: "r1_lib \<Rightarrow> manifest_row \<Rightarrow> py_error + string" where
  "manifest_binding lib r = res_bind (manifest_body lib r) (\<lambda>body. Inr (lib_sha lib body))"

definition find_manifest :: "r1_tables \<Rightarrow> string \<Rightarrow> manifest_row option" where
  "find_manifest t aid = find (\<lambda>m. mf_artifact_id m = aid) (t_manifests t)"

definition manifest_binding_sha256 :: "r1_lib \<Rightarrow> string \<Rightarrow> (r1_backend, string) pyop" where
  "manifest_binding_sha256 lib aid =
     py_then (opaque aid ''artifact id'')
    (py_bind (py_then require_open (r1_get (\<lambda>_ t. find_manifest t aid))) (\<lambda>found.
     case found of None \<Rightarrow> py_raise (KeyError aid) | Some m \<Rightarrow> py_lift (manifest_binding lib m)))"

definition target_identity :: "r1_lib \<Rightarrow> string \<Rightarrow> pydict \<Rightarrow> string \<times> string" where
  "target_identity lib aid locator =
     (let d = lib_sha lib (JObj locator) in (''target-'' @ take 24 (lib_sha_text lib (aid @ '':'' @ d)), d))"

definition local_locator :: "string \<Rightarrow> string \<Rightarrow> pydict" where
  "local_locator aid path = [(''artifact_id'', JStr aid), (''relative_path'', JStr path), (''root_scope'', JStr ''RESEARCH_ROOT''),
     (''target_kind'', JStr ''LOCAL_RESEARCH_FILE'')]"

definition external_locator :: "string \<Rightarrow> string \<Rightarrow> pydict" where
  "external_locator aid export_id = [(''artifact_id'', JStr aid), (''export_id'', JStr export_id),
     (''root_scope'', JStr ''EXTERNAL_ATTESTATION''), (''target_kind'', JStr ''EXTERNAL_COPY'')]"

section \<open>Registration\<close>

text \<open>The refusal of \<open>persist\<close>: another artifact has a target whose path differs at most in case.\<close>

definition path_collides :: "r1_lib \<Rightarrow> r1_tables \<Rightarrow> string \<Rightarrow> string \<Rightarrow> bool" where
  "path_collides lib t aid path \<longleftrightarrow> list_ex (\<lambda>g. case tg_relative_path g of
       None \<Rightarrow> False
     | Some p \<Rightarrow> lib_casefold lib p = lib_casefold lib path \<and> tg_artifact_id g \<noteq> aid) (t_targets t)"

definition persist_guard :: "r1_lib \<Rightarrow> string \<Rightarrow> string \<Rightarrow> (r1_backend, unit) pyop" where
  "persist_guard lib aid final_relative =
     py_bind (py_lift (normalized_relative_path lib final_relative)) (\<lambda>path.
     py_bind (py_then require_open (r1_get (\<lambda>_ t. path_collides lib t aid path))) (\<lambda>collides.
     py_guard collides (TargetRegistrationError ''local target case-fold collision'')))"

definition after_manifest_insert :: "r1_lib \<Rightarrow> string \<Rightarrow> string \<Rightarrow> int \<Rightarrow> string \<Rightarrow> (r1_backend, unit) pyop" where
  "after_manifest_insert lib aid relative_path byte_size digest =
     py_bind (r1_get (\<lambda>_ t. find_manifest t aid)) (\<lambda>found.
     case found of
       None \<Rightarrow> py_raise (SchemaIntegrityError ''sealed artifact manifest is missing'')
     | Some m \<Rightarrow>
         py_bind (py_lift (normalized_relative_path lib relative_path)) (\<lambda>path.
         py_bind (py_lift (manifest_binding lib m)) (\<lambda>binding.
         py_bind (read_clock (lib_env lib)) (\<lambda>now.
         case target_identity lib aid (local_locator aid path) of (tid, locator) \<Rightarrow>
           insert_target \<lparr>tg_id = tid, tg_artifact_id = aid, tg_kind = LOCAL_RESEARCH_FILE, tg_scope = RESEARCH_ROOT,
             tg_locator_digest = locator, tg_relative_path = Some path, tg_export_id = None, tg_expected_byte_size = Some byte_size,
             tg_expected_sha256 = Some digest, tg_manifest_schema_version = mf_schema_version m, tg_manifest_sha256 = binding\<rparr> now))))"

definition find_target :: "r1_tables \<Rightarrow> string \<Rightarrow> target_row option" where
  "find_target t tid = find (\<lambda>g. tg_id g = tid) (t_targets t)"

definition register_external_target :: "r1_lib \<Rightarrow> string \<Rightarrow> string \<Rightarrow> string \<Rightarrow> (r1_backend, string) pyop" where
  "register_external_target lib aid export manifest_sha256 =
     py_then (opaque aid ''artifact id'')
    (py_bind (py_lift (opaque_external_id export)) (\<lambda>export_id.
     r1_transaction
      (py_bind (r1_get (\<lambda>db t. (find_manifest t aid, find_artifact db aid))) (\<lambda>row.
       case row of
         (Some m, Some a) \<Rightarrow>
           py_then (py_guard (ar_status a \<noteq> VALID) (TargetRegistrationError ''artifact manifest is not valid''))
          (py_bind (py_lift (manifest_binding lib m)) (\<lambda>actual.
           py_then (py_guard (manifest_sha256 \<noteq> actual) (TargetRegistrationError ''manifest binding does not match''))
          (py_bind (read_clock (lib_env lib)) (\<lambda>now.
           case target_identity lib aid (external_locator aid export_id) of (tid, locator) \<Rightarrow>
             py_then (insert_or_ignore_target \<lparr>tg_id = tid, tg_artifact_id = aid, tg_kind = EXTERNAL_COPY, tg_scope = EXTERNAL_SCOPE,
                 tg_locator_digest = locator, tg_relative_path = None, tg_export_id = Some export_id, tg_expected_byte_size = None,
                 tg_expected_sha256 = None, tg_manifest_schema_version = mf_schema_version m, tg_manifest_sha256 = actual\<rparr> now)
            (py_bind (r1_get (\<lambda>_ t. find_target t tid)) (\<lambda>persisted.
             py_then (py_guard (case persisted of None \<Rightarrow> True
                 | Some g \<Rightarrow> (tg_artifact_id g, tg_kind g, tg_scope g, tg_locator_digest g, tg_export_id g, tg_manifest_sha256 g) \<noteq>
                     (aid, EXTERNAL_COPY, EXTERNAL_SCOPE, locator, Some export_id, actual))
               (TargetRegistrationError ''external target idempotency conflict''))
             (py_ret tid)))))))
       | _ \<Rightarrow> py_raise (TargetRegistrationError ''artifact manifest is not valid'')))))"

section \<open>Withdrawal\<close>

definition r1_register_artifact :: "(r1_backend, unit) pyop" where
  "r1_register_artifact = py_raise (InvalidTransition ''TARGET_REGISTRATION_REQUIRED'')"

text \<open>The rows that \<open>_after_withdrawal_receipt\<close> binds: a task of the participant, its artifact, and a target of that artifact.\<close>

definition withdrawal_bindings :: "m1_db \<Rightarrow> r1_tables \<Rightarrow> string \<Rightarrow> string \<Rightarrow> task_target_row list" where
  "withdrawal_bindings db t pid receipt_id =
     concat (map (\<lambda>k. concat (map (\<lambda>a. map (\<lambda>g.
         \<lparr>tt_task_id = wt_id k, tt_participant_id = pid, tt_receipt_id = receipt_id, tt_subject_session_id = wt_subject_session_id k,
          tt_artifact_id = wt_artifact_id k, tt_artifact_session_id = ar_session_id a, tt_target_id = tg_id g, tt_kind = tg_kind g,
          tt_scope = tg_scope g, tt_state = PENDING_CONFIRMATION, tt_version = 0, tt_blocker = None\<rparr>)
         (filter (\<lambda>g. tg_artifact_id g = wt_artifact_id k) (t_targets t)))
       (filter (\<lambda>a. ar_id a = wt_artifact_id k) (db_artifacts db))))
     (filter (\<lambda>k. session_of_participant db (wt_subject_session_id k) pid) (db_tasks db)))"

definition after_withdrawal_receipt :: "r1_lib \<Rightarrow> string \<Rightarrow> string \<Rightarrow> (r1_backend, unit) pyop" where
  "after_withdrawal_receipt lib pid receipt_id =
     py_bind (r1_get (\<lambda>db t. withdrawal_bindings db t pid receipt_id)) (\<lambda>rows.
     py_for rows (\<lambda>r. py_bind (read_clock (lib_env lib)) (\<lambda>now. insert_or_ignore_task_target r now)))"

text \<open>
  The operation of \<open>withdraw\<close> with its hook, which the code calls right before the response is returned and
  only when the receipt is new; and \<open>withdraw\<close> with that operation, whose transaction covers all tables.
\<close>

definition r1_withdraw_operation :: "r1_lib \<Rightarrow> string \<Rightarrow> string \<Rightarrow> string \<Rightarrow> (r1_backend, pydict \<times> pydict option) pyop" where
  "r1_withdraw_operation lib sid pid pseudonym =
     py_bind (withdraw_operation (lib_env lib) sid pid pseudonym) (\<lambda>(response, event).
     case (event, map_of response ''withdrawal_receipt_id'') of
       (Some _, Some (JStr receipt_id)) \<Rightarrow> py_then (after_withdrawal_receipt lib pid receipt_id) (py_ret (response, event))
     | _ \<Rightarrow> py_ret (response, event))"

definition r1_withdraw :: "r1_lib \<Rightarrow> (pydict \<Rightarrow> string) \<Rightarrow> string \<Rightarrow> string option \<Rightarrow> (r1_backend, pydict) pyop" where
  "r1_withdraw lib digest sid key s =
     (case py_bind (research_session sid) (\<lambda>view.
       py_bind (db_get (\<lambda>db. find_session db sid)) (\<lambda>row.
       case row of
         None \<Rightarrow> py_raise (KeyError sid)
       | Some r \<Rightarrow>
           py_then (py_guard (se_kind r \<noteq> RESEARCH) (KeyError sid))
           (case se_participant_id r of
              None \<Rightarrow> py_raise (KeyError sid)
            | Some pid \<Rightarrow>
                mutation digest (lib_env lib) sid key (''withdraw-'' @ pid) (''research-withdraw:'' @ pid)
                  [(''participant_id'', JStr pid), (''participant_pseudonym'', JStr (rs_participant_pseudonym view))]
                  (r1_withdraw_operation lib sid pid (rs_participant_pseudonym view))))) s of
        (Inl e, s') \<Rightarrow> (Inl e, s'\<lparr>r1_db := r1_db s\<rparr>)
      | (Inr x, s') \<Rightarrow> (Inr x, s'))"

section \<open>Recovery\<close>

text \<open>The reconciliation part of \<open>recover\<close>: nothing is deleted, everything interrupted is marked.\<close>

definition recover_reconciliation :: "r1_lib \<Rightarrow> (r1_backend, int) pyop" where
  "recover_reconciliation lib = r1_transaction
     (py_bind (r1_get (\<lambda>_ t. int (length (filter (\<lambda>r. rn_state r \<in> {QUEUED, RUNNING}) (t_runs t))))) (\<lambda>interrupted.
      py_bind (read_clock (lib_env lib)) (\<lambda>now1.
      py_then (update_runs (\<lambda>r. rn_state r \<in> {QUEUED, RUNNING})
        (\<lambda>r. r\<lparr>rn_state := RUN_RECOVERY_REQUIRED, rn_failure_code := Some ''PROCESS_INTERRUPTED''\<rparr>))
     (py_bind (read_clock (lib_env lib)) (\<lambda>now2.
      py_then (update_task_targets (\<lambda>r. tt_state r = IN_PROGRESS) TARGET_RECOVERY_REQUIRED (Some ''PROCESS_INTERRUPTED'') now2)
     (py_bind (read_clock (lib_env lib)) (\<lambda>now3.
      py_then (update_attempts (\<lambda>a. at_stage a \<in> {PREDELETE_PENDING, PREDELETE_VERIFIED, DELETE_MARKED})
        (\<lambda>a. a\<lparr>at_stage := STAGE_RECOVERY_REQUIRED, at_failure_code := Some ''PROCESS_INTERRUPTED''\<rparr>) now3)
      (py_ret interrupted))))))))"

end
