(* ===== verification/Recon_Plan.thy ===== *)
theory Recon_Plan
  imports R1_Targets
begin

text \<open>
  The reconciliation plan of a withdrawn participant and the receipt drawn from it (\<open>reconciliation.py\<close>,
  \<open>ReconciliationPlanner\<close> and \<open>ReconciliationReceipt\<close>). The bodies are records with the fields of the code's
  dictionaries; \<open>plan_body_json\<close> and \<open>receipt_body_json\<close> are the dictionaries whose canonical JSON is hashed.
\<close>

section \<open>Plans\<close>

record plan_target =
  pt_scope :: root_scope
  pt_state :: target_state
  pt_version :: int
  pt_target_id :: string
  pt_kind :: target_kind
  pt_task_id :: string

record plan_task =
  pk_artifact_id :: string
  pk_task_id :: string

record plan_body =
  pb_blocker_codes :: "string list"
  pb_complete :: bool
  pb_confirmation_phrase :: string
  pb_external_target_total :: int
  pb_local_target_total :: int
  pb_participant_id :: string
  pb_participant_pseudonym :: string
  pb_recovery_required_total :: int
  pb_blocked_target_total :: int
  pb_target_state_version :: int
  pb_targets :: "plan_target list"
  pb_tasks :: "plan_task list"
  pb_withdrawal_receipt_id :: string

record recon_plan =
  rp_participant_id :: string
  rp_withdrawal_receipt_id :: string
  rp_participant_pseudonym :: string
  rp_target_state_version :: int
  rp_body :: plan_body
  rp_plan_sha256 :: string

definition plan_target_json :: "plan_target \<Rightarrow> json" where
  "plan_target_json p = JObj [(''root_scope'', JStr (root_scope_str (pt_scope p))), (''state'', JStr (target_state_str (pt_state p))),
     (''state_version'', JInt (pt_version p)), (''target_id'', JStr (pt_target_id p)), (''target_kind'', JStr (target_kind_str (pt_kind p))),
     (''withdrawal_task_id'', JStr (pt_task_id p))]"

definition plan_task_json :: "plan_task \<Rightarrow> json" where
  "plan_task_json k = JObj [(''artifact_id'', JStr (pk_artifact_id k)), (''withdrawal_task_id'', JStr (pk_task_id k))]"

definition plan_body_json :: "plan_body \<Rightarrow> json" where
  "plan_body_json b = JObj
     [(''blocker_codes'', JArr (map JStr (pb_blocker_codes b))), (''complete'', JBool (pb_complete b)),
      (''confirmation_phrase'', JStr (pb_confirmation_phrase b)), (''external_target_total'', JInt (pb_external_target_total b)),
      (''local_target_total'', JInt (pb_local_target_total b)), (''operational_ledger_version'', JInt 3),
      (''participant_id'', JStr (pb_participant_id b)), (''participant_pseudonym'', JStr (pb_participant_pseudonym b)),
      (''plan_schema_version'', JInt 1), (''recovery_required_total'', JInt (pb_recovery_required_total b)),
      (''blocked_target_total'', JInt (pb_blocked_target_total b)), (''target_state_version'', JInt (pb_target_state_version b)),
      (''target_total'', JInt (int (length (pb_targets b)))), (''targets'', JArr (map plan_target_json (pb_targets b))),
      (''task_total'', JInt (int (length (pb_tasks b)))), (''tasks'', JArr (map plan_task_json (pb_tasks b))),
      (''withdrawal_receipt_id'', JStr (pb_withdrawal_receipt_id b))]"

text \<open>The terminal states of a target, by kind.\<close>

definition terminal_target :: "plan_target \<Rightarrow> bool" where
  "terminal_target p \<longleftrightarrow> pt_kind p = EXTERNAL_COPY \<and> pt_state p = EXTERNAL_DELETION_ATTESTED \<or>
     is_local (pt_kind p) \<and> pt_state p = LOCAL_DELETION_VERIFIED"

definition reconcilable :: "plan_target \<Rightarrow> bool" where
  "reconcilable p \<longleftrightarrow> pt_state p \<in> {PENDING_CONFIRMATION, TARGET_RECOVERY_REQUIRED}"

definition total :: "('a \<Rightarrow> bool) \<Rightarrow> 'a list \<Rightarrow> int" where
  "total P xs = int (length (filter P xs))"

section \<open>The planner\<close>

definition participant_tasks :: "m1_db \<Rightarrow> string \<Rightarrow> task_row list" where
  "participant_tasks db pid = sort_key wt_id (filter (\<lambda>k. session_of_participant db (wt_subject_session_id k) pid) (db_tasks db))"

text \<open>The bound targets of the withdrawal with their registration and the status of their artifact.\<close>

definition target_mappings :: "m1_db \<Rightarrow> r1_tables \<Rightarrow> string \<Rightarrow> string \<Rightarrow> (task_target_row \<times> target_row \<times> artifact_status) list" where
  "target_mappings db t pid receipt_id = sort_key (\<lambda>(m, _). tt_target_id m)
     (List.map_filter (\<lambda>m. case (find_target t (tt_target_id m), find_artifact db (tt_artifact_id m)) of
          (Some g, Some a) \<Rightarrow> Some (m, g, ar_status a)
        | _ \<Rightarrow> None)
       (filter (\<lambda>m. tt_participant_id m = pid \<and> tt_receipt_id m = receipt_id) (t_task_targets t)))"

definition manifest_mismatch :: "r1_lib \<Rightarrow> target_kind \<Rightarrow> manifest_row \<Rightarrow> target_row \<Rightarrow> bool" where
  "manifest_mismatch lib kind f g =
     (case manifest_binding lib f of
        Inl _ \<Rightarrow> True
      | Inr b \<Rightarrow> b \<noteq> tg_manifest_sha256 g \<or>
          kind = LOCAL_RESEARCH_FILE \<and>
            (Inr (tg_relative_path g) \<noteq> map_sum id Some (normalized_relative_path lib (mf_relative_path f)) \<or>
             tg_expected_byte_size g \<noteq> Some (mf_byte_size f) \<or> tg_expected_sha256 g \<noteq> Some (mf_sha256 f)))"

definition target_blockers :: "r1_lib \<Rightarrow> r1_tables \<Rightarrow> task_target_row \<times> target_row \<times> artifact_status \<Rightarrow> string list" where
  "target_blockers lib t row = (case row of (m, g, status) \<Rightarrow>
     (case tt_state m of
        TARGET_BLOCKED \<Rightarrow> [case tt_blocker m of Some (c # cs) \<Rightarrow> c # cs | _ \<Rightarrow> ''TARGET_BLOCKED'']
      | TARGET_RECOVERY_REQUIRED \<Rightarrow> [''RECOVERY_REQUIRED'']
      | _ \<Rightarrow> []) @
     (if status \<noteq> INVALIDATED then [''ARTIFACT_NOT_INVALIDATED''] else []) @
     (case find_manifest t (tt_artifact_id m) of
        None \<Rightarrow> [''MANIFEST_BINDING_INVALID'']
      | Some f \<Rightarrow> if manifest_mismatch lib (tt_kind m) f g then [''MANIFEST_BINDING_INVALID''] else []))"

definition plan_blockers :: "r1_lib \<Rightarrow> m1_db \<Rightarrow> r1_tables \<Rightarrow> string \<Rightarrow> task_row list \<Rightarrow>
    (task_target_row \<times> target_row \<times> artifact_status) list \<Rightarrow> string list" where
  "plan_blockers lib db t pid tasks mappings =
     (let mine = set (participant_sessions db pid); m2 = (\<lambda>st. list_ex (\<lambda>i. mi_session_id i \<in> mine \<and> mi_status i = st) (t_m2_intents t)) in
      (if list_ex (\<lambda>k. wt_id k \<notin> (\<lambda>(m, _). tt_task_id m) ` set mappings) tasks then [''TARGET_BINDING_MISSING''] else []) @
      (if list_ex (\<lambda>i. wi_session_id i \<in> mine \<and> wi_status i = INTENT_PENDING) (db_intents db) \<or> m2 M2_PENDING
         then [''ACTIVE_WRITE_INTENT''] else []) @
      (if m2 M2_FAILED then [''FAILED_WRITE_INTENT_UNRESOLVED''] else []) @
      (if m2 M2_QUARANTINED then [''QUARANTINED_WRITE_INTENT_UNRESOLVED''] else []) @
      (if list_ex (\<lambda>h. ho_participant_id h = pid \<and> ho_active h) (t_holds t) then [''APPROVED_HOLD_ACTIVE''] else []) @
      concat (map (target_blockers lib t) mappings))"

definition hex_digit :: "char \<Rightarrow> int" where
  "hex_digit c = (let n = of_char c in if n \<le> (57 :: int) then n - 48 else n - 87)"

definition hex_int :: "string \<Rightarrow> int" where
  "hex_int s = fold (\<lambda>c n. 16 * n + hex_digit c) s 0"

definition plan_target_of :: "task_target_row \<Rightarrow> plan_target" where
  "plan_target_of m = \<lparr>pt_scope = tt_scope m, pt_state = tt_state m, pt_version = tt_version m, pt_target_id = tt_target_id m,
     pt_kind = tt_kind m, pt_task_id = tt_task_id m\<rparr>"

definition plan_task_of :: "task_row \<Rightarrow> plan_task" where
  "plan_task_of k = \<lparr>pk_artifact_id = wt_artifact_id k, pk_task_id = wt_id k\<rparr>"

definition state_binding :: "plan_target list \<Rightarrow> json" where
  "state_binding targets = JArr (map (\<lambda>p. JArr [JStr (pt_target_id p), JStr (target_state_str (pt_state p)), JInt (pt_version p)]) targets)"

definition build_plan :: "r1_lib \<Rightarrow> m1_db \<Rightarrow> r1_tables \<Rightarrow> string \<Rightarrow> string \<Rightarrow> string \<Rightarrow> recon_plan" where
  "build_plan lib db t pid pseudonym receipt_id =
     (let tasks = participant_tasks db pid; mappings = target_mappings db t pid receipt_id;
          blockers = sort (remdups (plan_blockers lib db t pid tasks mappings));
          targets = map (\<lambda>(m, _). plan_target_of m) mappings;
          version = hex_int (take 15 (lib_sha lib (state_binding targets)));
          body = \<lparr>pb_blocker_codes = blockers, pb_complete = (tasks \<noteq> [] \<and> blockers = [] \<and> list_all terminal_target targets),
            pb_confirmation_phrase = ''DOI_SOAT '' @ pseudonym,
            pb_external_target_total = total (\<lambda>p. pt_kind p = EXTERNAL_COPY) targets,
            pb_local_target_total = total (\<lambda>p. is_local (pt_kind p)) targets,
            pb_participant_id = pid, pb_participant_pseudonym = pseudonym,
            pb_recovery_required_total = total (\<lambda>p. pt_state p = TARGET_RECOVERY_REQUIRED) targets,
            pb_blocked_target_total = total (\<lambda>p. pt_state p = TARGET_BLOCKED) targets,
            pb_target_state_version = version, pb_targets = targets, pb_tasks = map plan_task_of tasks,
            pb_withdrawal_receipt_id = receipt_id\<rparr>
      in \<lparr>rp_participant_id = pid, rp_withdrawal_receipt_id = receipt_id, rp_participant_pseudonym = pseudonym,
          rp_target_state_version = version, rp_body = body, rp_plan_sha256 = lib_sha lib (plan_body_json body)\<rparr>)"

definition plan_subject :: "m1_db \<Rightarrow> string \<Rightarrow> (participant_row \<times> string option) option" where
  "plan_subject db sid =
     (case find_session db sid of
        None \<Rightarrow> None
      | Some r \<Rightarrow> if se_kind r \<noteq> RESEARCH then None
          else map_option (\<lambda>p. (p, map_option wr_id (find_receipt db (pa_id p)))) (session_participant db r))"

definition plan_for_session :: "r1_lib \<Rightarrow> string \<Rightarrow> (r1_backend, recon_plan) pyop" where
  "plan_for_session lib sid =
     py_then (opaque sid ''session id'')
    (r1_transaction
      (py_bind (r1_get (\<lambda>db t. (db, t))) (\<lambda>(db, t).
       case plan_subject db sid of
         None \<Rightarrow> py_raise (KeyError sid)
       | Some (p, None) \<Rightarrow> py_raise (ReconciliationBlocked ''WITHDRAWAL_NOT_RECORDED'')
       | Some (p, Some receipt_id) \<Rightarrow> py_ret (build_plan lib db t (pa_id p) (pa_pseudonym p) receipt_id))))"

section \<open>Receipts\<close>

record receipt_body =
  rb_blocked_target_total :: int
  rb_complete :: bool
  rb_completion_basis :: "string list"
  rb_external_deletion_attested_total :: int
  rb_external_target_total :: int
  rb_local_deletion_verified_total :: int
  rb_local_target_total :: int
  rb_participant_pseudonym :: string
  rb_plan_sha256 :: string
  rb_recovery_required_total :: int
  rb_task_completed :: int
  rb_task_total :: int
  rb_withdrawal_receipt_id :: string

definition receipt_body_json :: "receipt_body \<Rightarrow> json" where
  "receipt_body_json b = JObj
     [(''blocked_target_total'', JInt (rb_blocked_target_total b)), (''collection_authorized'', JBool False),
      (''complete'', JBool (rb_complete b)), (''completion_basis'', JArr (map JStr (rb_completion_basis b))),
      (''external_deletion_attested_total'', JInt (rb_external_deletion_attested_total b)),
      (''external_target_total'', JInt (rb_external_target_total b)), (''human_review_required'', JBool True),
      (''local_deletion_verified_total'', JInt (rb_local_deletion_verified_total b)),
      (''local_target_total'', JInt (rb_local_target_total b)), (''operational_ledger_version'', JInt 3),
      (''participant_pseudonym'', JStr (rb_participant_pseudonym b)), (''plan_sha256'', JStr (rb_plan_sha256 b)),
      (''real_data_deletion_authorized_for_this_run'', JBool False), (''receipt_schema_version'', JInt 1),
      (''recovery_required_total'', JInt (rb_recovery_required_total b)), (''research_ready'', JBool False),
      (''task_completed'', JInt (rb_task_completed b)), (''task_total'', JInt (rb_task_total b)),
      (''withdrawal_receipt_id'', JStr (rb_withdrawal_receipt_id b))]"

definition task_is_completed :: "plan_target list \<Rightarrow> plan_task \<Rightarrow> bool" where
  "task_is_completed targets k =
     (let mine = filter (\<lambda>p. pt_task_id p = pk_task_id k) targets in mine \<noteq> [] \<and> list_all terminal_target mine)"

definition receipt_from_plan :: "recon_plan \<Rightarrow> receipt_body" where
  "receipt_from_plan plan =
     (let targets = pb_targets (rp_body plan); tasks = pb_tasks (rp_body plan);
          local_targets = filter (\<lambda>p. is_local (pt_kind p)) targets; external = filter (\<lambda>p. pt_kind p = EXTERNAL_COPY) targets;
          local_verified = total (\<lambda>p. pt_state p = LOCAL_DELETION_VERIFIED) local_targets;
          external_attested = total (\<lambda>p. pt_state p = EXTERNAL_DELETION_ATTESTED) external
      in \<lparr>rb_blocked_target_total = total (\<lambda>p. pt_state p = TARGET_BLOCKED) targets, rb_complete = pb_complete (rp_body plan),
          rb_completion_basis = (if external_attested \<noteq> 0 then [''EXTERNAL_DELETION_ATTESTED''] else []) @
            (if local_verified \<noteq> 0 then [''LOCAL_DELETION_VERIFIED''] else []),
          rb_external_deletion_attested_total = external_attested, rb_external_target_total = int (length external),
          rb_local_deletion_verified_total = local_verified, rb_local_target_total = int (length local_targets),
          rb_participant_pseudonym = rp_participant_pseudonym plan, rb_plan_sha256 = rp_plan_sha256 plan,
          rb_recovery_required_total = total (\<lambda>p. pt_state p = TARGET_RECOVERY_REQUIRED) targets,
          rb_task_completed = total (task_is_completed targets) tasks, rb_task_total = int (length tasks),
          rb_withdrawal_receipt_id = rp_withdrawal_receipt_id plan\<rparr>)"

end
