(* ===== verification/Recon_Confirm.thy ===== *)
theory Recon_Confirm
  imports Recon_Plan
begin

text \<open>
  \<open>ConfirmationService\<close> of \<open>reconciliation.py\<close>: a reviewer who proves the PIN again gets a challenge bound to the
  current plan; the challenge is consumed once, within 120 seconds on both clocks, by the same reviewer session and
  while the plan has not changed. The authorities that permit an attestation or an import are predicates
  (or absent).
\<close>

section \<open>The reviewer session\<close>

definition pop_deadline :: "string \<Rightarrow> (r1_backend, unit) pyop" where
  "pop_deadline cid = py_mod (\<lambda>s. s\<lparr>r1_deadlines := AList.delete cid (r1_deadlines s)\<rparr>)"

definition revoke_issued_challenges :: "string \<Rightarrow> (r1_backend, unit) pyop" where
  "revoke_issued_challenges digest =
     py_bind (r1_transaction
      (py_bind (r1_get (\<lambda>_ t. map ch_id (filter (\<lambda>r. ch_session_digest r = digest \<and> ch_status r = ISSUED) (t_challenges t)))) (\<lambda>ids.
       py_then (close_challenges (\<lambda>r. ch_session_digest r = digest \<and> ch_status r = ISSUED) REVOKED)
       (py_ret ids)))) (\<lambda>ids.
     py_for ids pop_deadline)"

text \<open>
  \<open>reviewer_session_digest\<close> of the workspace, with the registered revocation callback: the digests of the
  sessions it ended are handed to \<open>revoke_issued_challenges\<close>. The callback and the rest of the call touch
  different parts of the state, so it may run after them; an exception of a hook replaces one of the callback.
\<close>

definition reviewer_digest :: "r1_lib \<Rightarrow> string \<Rightarrow> (r1_backend, string option) pyop" where
  "reviewer_digest lib token s =
     (case reviewer_session_digest (lib_sha_text lib) (lib_env lib) (Some token) s of (r, s1) \<Rightarrow>
      case py_for (drop (length (rv_revoked s)) (rv_revoked s1)) revoke_issued_challenges s1 of (c, s2) \<Rightarrow>
        (case r of Inl e \<Rightarrow> (Inl e, s2) | Inr d \<Rightarrow> (case c of Inl e \<Rightarrow> (Inl e, s2) | Inr _ \<Rightarrow> (Inr d, s2))))"

definition session_digest :: "r1_lib \<Rightarrow> string \<Rightarrow> (r1_backend, string) pyop" where
  "session_digest lib token =
     py_bind (reviewer_digest lib token) (\<lambda>d.
     case d of
       None \<Rightarrow> py_raise (ChallengeRejected ''REVIEWER_SESSION_INVALID'')
     | Some d \<Rightarrow> if length d \<noteq> 64 then py_raise (ChallengeRejected ''REVIEWER_SESSION_INVALID'') else py_ret d)"

text \<open>\<open>__init__\<close>: no deadline is known, so every challenge still issued is expired.\<close>

definition confirmation_start :: "(r1_backend, unit) pyop" where
  "confirmation_start =
     py_then (py_mod (\<lambda>s. s\<lparr>r1_deadlines := []\<rparr>))
    (py_then (r1_transaction (close_challenges (\<lambda>r. ch_status r = ISSUED) EXPIRED))
     (register_reviewer_session_revocation (\<lambda>_. None)))"

section \<open>Issuing\<close>

record issued_challenge =
  ic_challenge_id :: string
  ic_challenge_token :: string
  ic_action :: challenge_action
  ic_target_id :: "string option"
  ic_plan_sha256 :: string
  ic_target_state_version :: int
  ic_confirmation_phrase :: string
  ic_expires_at :: pyfloat

definition action_of_str :: "string \<Rightarrow> challenge_action option" where
  "action_of_str a = (if a = ''EXECUTE_LOCAL_RECONCILIATION'' then Some EXECUTE_LOCAL_RECONCILIATION
     else if a = ''ATTEST_EXTERNAL_DELETION'' then Some ATTEST_EXTERNAL_DELETION else None)"

fun execution_kind_of :: "challenge_action \<Rightarrow> execution_kind" where
  "execution_kind_of EXECUTE_LOCAL_RECONCILIATION = LOCAL_RUN"
| "execution_kind_of ATTEST_EXTERNAL_DELETION = EXTERNAL_ATTESTATION"

fun decimal :: "nat \<Rightarrow> string" where
  "decimal n = (if n < 10 then [''0123456789'' ! n] else decimal (n div 10) @ [''0123456789'' ! (n mod 10)])"

declare decimal.simps [simp del]

definition auth_op :: "(authenticator, 'a) pyop \<Rightarrow> (r1_backend, 'a) pyop" where
  "auth_op m s = (case m (r1_auth s) of (r, a) \<Rightarrow> (r, s\<lparr>r1_auth := a\<rparr>))"

definition rejection_if :: "bool \<Rightarrow> string \<Rightarrow> ('s, unit) pyop" where
  "rejection_if b code = py_guard b (ChallengeRejected code)"

text \<open>What a challenge may be bound to under the current plan.\<close>

definition bind_target :: "recon_plan \<Rightarrow> challenge_action \<Rightarrow> string option \<Rightarrow> py_error + (target_kind option \<times> root_scope option)" where
  "bind_target plan action target_id =
     (case action of
        EXECUTE_LOCAL_RECONCILIATION \<Rightarrow>
          if target_id \<noteq> None then Inl (ChallengeRejected ''LOCAL_CHALLENGE_MUST_NOT_BIND_TARGET'')
          else if \<not> list_ex (\<lambda>p. is_local (pt_kind p) \<and> reconcilable p) (pb_targets (rp_body plan))
            then Inl (ChallengeRejected ''NO_LOCAL_TARGET_REQUIRES_RECONCILIATION'')
          else Inr (None, None)
      | ATTEST_EXTERNAL_DELETION \<Rightarrow>
          if \<not> list_ex (\<lambda>p. Some (pt_target_id p) = target_id \<and> pt_kind p = EXTERNAL_COPY \<and> pt_scope p = EXTERNAL_SCOPE \<and> reconcilable p)
              (pb_targets (rp_body plan))
            then Inl (ChallengeRejected ''EXTERNAL_TARGET_BINDING_INVALID'')
          else Inr (Some EXTERNAL_COPY, Some EXTERNAL_SCOPE))"

definition open_blockers :: "recon_plan \<Rightarrow> string list" where
  "open_blockers plan = filter (\<lambda>c. c \<noteq> ''RECOVERY_REQUIRED'') (pb_blocker_codes (rp_body plan))"

definition next_epoch :: "r1_tables \<Rightarrow> int" where
  "next_epoch t = fold max (map su_epoch (t_step_ups t)) (-1) + 1"

text \<open>The part under the lock: the two tokens, the two rows in one transaction, then the deadline.\<close>

definition issue_challenge :: "r1_lib \<Rightarrow> recon_plan \<Rightarrow> string \<Rightarrow> challenge_action \<Rightarrow> string option \<Rightarrow> target_kind option \<Rightarrow> root_scope option \<Rightarrow>
    pyfloat \<Rightarrow> pyfloat \<Rightarrow> (r1_backend, issued_challenge) pyop" where
  "issue_challenge lib plan digest action target_id kind scope now monotonic_now =
     (let expires_at = pf_add now (Finite 120) in
      py_bind (token_urlsafe (lib_env lib) 18) (\<lambda>tok.
      py_bind (token_urlsafe (lib_env lib) 32) (\<lambda>challenge_token.
      py_bind (token_urlsafe (lib_env lib) 18) (\<lambda>stok.
      let cid = ''challenge-'' @ tok; suid = ''step-up-'' @ stok in
      py_then (r1_transaction
        (py_bind (r1_get (\<lambda>_ t. next_epoch t)) (\<lambda>epoch.
         py_then (insert_step_up \<lparr>su_id = suid, su_session_digest = digest, su_epoch = epoch, su_verified_at = now,
             su_expires_at = expires_at, su_consumed_at = None\<rparr>)
         (insert_challenge \<lparr>ch_id = cid, ch_participant_id = rp_participant_id plan, ch_receipt_id = rp_withdrawal_receipt_id plan,
             ch_session_digest = digest, ch_token_digest = lib_sha_text lib challenge_token, ch_plan_sha256 = rp_plan_sha256 plan,
             ch_state_version = rp_target_state_version plan, ch_step_up_id = suid, ch_step_up_verified_at = now,
             ch_step_up_expires_at = expires_at, ch_target_id = target_id, ch_target_kind = kind, ch_root_scope = scope,
             ch_action = action, ch_status = ISSUED, ch_issued_at = now, ch_expires_at = expires_at, ch_consumed_at = None\<rparr>))))
     (py_then (py_mod (\<lambda>s. s\<lparr>r1_deadlines := AList.update cid (monotonic_now, pf_add monotonic_now (Finite 120)) (r1_deadlines s)\<rparr>))
      (py_ret \<lparr>ic_challenge_id = cid, ic_challenge_token = challenge_token, ic_action = action, ic_target_id = target_id,
         ic_plan_sha256 = rp_plan_sha256 plan, ic_target_state_version = rp_target_state_version plan,
         ic_confirmation_phrase = pb_confirmation_phrase (rp_body plan), ic_expires_at = expires_at\<rparr>))))))"

definition create_challenge :: "r1_lib \<Rightarrow> string \<Rightarrow> string \<Rightarrow> string \<Rightarrow> string \<Rightarrow> string \<Rightarrow> string option \<Rightarrow> (r1_backend, issued_challenge) pyop" where
  "create_challenge lib sid reviewer_token pin client_key action_name target_id =
     py_bind (session_digest lib reviewer_token) (\<lambda>digest.
     py_bind (read_clock (lib_env lib)) (\<lambda>now.
     py_bind (read_monotonic (lib_env lib)) (\<lambda>monotonic_now.
     let expires_at = pf_add now (Finite 120); monotonic_expires_at = pf_add monotonic_now (Finite 120) in
     py_then (rejection_if (\<not> pf_isfinite now \<or> \<not> pf_isfinite expires_at) ''CLOCK_INVALID'')
    (py_then (rejection_if (\<not> pf_isfinite monotonic_now \<or> \<not> pf_isfinite monotonic_expires_at) ''MONOTONIC_CLOCK_INVALID'')
    (py_bind (auth_op (authenticate (lib_scrypt lib) pin (''reconciliation-step-up:'' @ client_key) monotonic_now)) (\<lambda>login.
     py_then (rejection_if (\<not> lr_accepted login)
       (''PIN_STEP_UP_REJECTED'' @ (case lr_retry_after login of None \<Rightarrow> [] | Some n \<Rightarrow> CHR '':'' # decimal (nat n))))
     (case action_of_str action_name of
        None \<Rightarrow> py_raise (ChallengeRejected ''CHALLENGE_ACTION_INVALID'')
      | Some action \<Rightarrow>
          py_bind (plan_for_session lib sid) (\<lambda>plan.
          py_bind (reviewer_digest lib reviewer_token) (\<lambda>current_digest.
          py_bind (read_clock (lib_env lib)) (\<lambda>current_now.
          py_bind (read_monotonic (lib_env lib)) (\<lambda>current_monotonic.
          py_then (rejection_if (current_digest \<noteq> Some digest) ''REVIEWER_SESSION_INVALID'')
         (py_then (rejection_if (\<not> pf_isfinite current_now) ''CLOCK_INVALID'')
         (py_then (rejection_if (\<not> pf_isfinite current_monotonic \<or> pf_less current_monotonic monotonic_now) ''MONOTONIC_CLOCK_INVALID'')
         (py_then (rejection_if (pf_less current_now now) ''CLOCK_ROLLBACK_DETECTED'')
         (py_then (rejection_if (pf_le expires_at current_now \<or> pf_le monotonic_expires_at current_monotonic) ''CHALLENGE_EXPIRED'')
         (py_then (rejection_if (open_blockers plan \<noteq> []) (''PLAN_BLOCKED:'' @ hd (open_blockers plan)))
         (py_bind (py_lift (bind_target plan action target_id)) (\<lambda>(kind, scope).
          issue_challenge lib plan digest action target_id kind scope now monotonic_now))))))))))))))))))"

section \<open>Consuming\<close>

record consumed_challenge =
  cc_challenge_id :: string
  cc_execution_id :: string
  cc_execution_kind :: execution_kind
  cc_participant_id :: string
  cc_withdrawal_receipt_id :: string
  cc_plan_sha256 :: string
  cc_target_id :: "string option"
  cc_reviewer_session_digest :: string

type_synonym external_authority = "string \<Rightarrow> string \<Rightarrow> string \<Rightarrow> string \<Rightarrow> string \<Rightarrow> bool"

definition procedure_current :: "r1_tables \<Rightarrow> string \<Rightarrow> pyfloat \<Rightarrow> bool" where
  "procedure_current t pid now =
     (case find (\<lambda>p. pr_id p = pid) (t_procedures t) of
        None \<Rightarrow> False
      | Some p \<Rightarrow> pr_status p = APPROVED \<and> pr_revoked_at p = None \<and> \<not> pf_less now (pr_approved_at p) \<and>
          (case pr_expires_at p of None \<Rightarrow> True | Some e \<Rightarrow> \<not> pf_le e now))"

definition insert_external_attestation :: "r1_lib \<Rightarrow> consumed_challenge \<Rightarrow> string \<Rightarrow> pyfloat \<Rightarrow> (r1_backend, string \<times> string) pyop" where
  "insert_external_attestation lib c procedure_id attested_at =
     (case (cc_execution_kind c, cc_target_id c) of
        (EXTERNAL_ATTESTATION, Some tid) \<Rightarrow>
          py_bind (r1_get (\<lambda>_ t. procedure_current t procedure_id attested_at)) (\<lambda>current.
          py_then (rejection_if (\<not> current) ''PROCEDURE_AUTHORITY_NOT_CURRENT'')
         (py_bind (r1_get (\<lambda>_ t. find (\<lambda>m. tt_participant_id m = cc_participant_id c \<and> tt_receipt_id m = cc_withdrawal_receipt_id c \<and>
              tt_target_id m = tid) (t_task_targets t))) (\<lambda>found.
          case found of
            None \<Rightarrow> py_raise (ChallengeRejected ''EXTERNAL_TARGET_BINDING_INVALID'')
          | Some m \<Rightarrow>
              py_then (rejection_if (tt_kind m \<noteq> EXTERNAL_COPY \<or> tt_scope m \<noteq> EXTERNAL_SCOPE \<or>
                 tt_state m \<notin> {PENDING_CONFIRMATION, TARGET_RECOVERY_REQUIRED}) ''EXTERNAL_TARGET_BINDING_INVALID'')
             (py_bind (token_urlsafe (lib_env lib) 18) (\<lambda>tok.
              py_then (insert_attestation \<lparr>ea_id = ''attestation-'' @ tok, ea_execution_id = cc_execution_id c,
                 ea_participant_id = cc_participant_id c, ea_receipt_id = cc_withdrawal_receipt_id c, ea_plan_sha256 = cc_plan_sha256 c,
                 ea_task_id = tt_task_id m, ea_target_id = tid, ea_challenge_id = cc_challenge_id c, ea_procedure_id = procedure_id,
                 ea_session_digest = cc_reviewer_session_digest c\<rparr> attested_at)
             (py_then (update_task_targets (\<lambda>r. tt_task_id r = tt_task_id m \<and> tt_target_id r = tid) EXTERNAL_DELETION_ATTESTED None attested_at)
              (py_ret (''attestation-'' @ tok, tid))))))))
      | _ \<Rightarrow> py_raise (ChallengeRejected ''EXTERNAL_TARGET_BINDING_INVALID''))"

definition accept_challenge :: "r1_lib \<Rightarrow> challenge_row \<Rightarrow> string \<Rightarrow> string option \<Rightarrow> pyfloat \<Rightarrow>
    (r1_backend, consumed_challenge \<times> (string \<times> string) option) pyop" where
  "accept_challenge lib ch digest procedure_id now =
     py_bind (token_urlsafe (lib_env lib) 18) (\<lambda>tok.
     let xid = ''execution-'' @ tok;
         consumed = \<lparr>cc_challenge_id = ch_id ch, cc_execution_id = xid, cc_execution_kind = execution_kind_of (ch_action ch),
           cc_participant_id = ch_participant_id ch, cc_withdrawal_receipt_id = ch_receipt_id ch, cc_plan_sha256 = ch_plan_sha256 ch,
           cc_target_id = ch_target_id ch, cc_reviewer_session_digest = digest\<rparr> in
     py_then (insert_execution \<lparr>xe_id = xid, xe_challenge_id = ch_id ch, xe_kind = execution_kind_of (ch_action ch)\<rparr> now)
    (py_then (consume_challenge_row (ch_id ch) now)
    (py_then (consume_step_up (ch_step_up_id ch) now)
    (py_bind (case procedure_id of
        None \<Rightarrow> py_ret None
      | Some p \<Rightarrow> py_bind (insert_external_attestation lib consumed p now) (\<lambda>a. py_ret (Some a))) (\<lambda>attestation.
     py_then (pop_deadline (ch_id ch)) (py_ret (consumed, attestation)))))))"

text \<open>Close the challenge, forget its deadline and report the reason.\<close>

definition reject_closing :: "challenge_row \<Rightarrow> challenge_status \<Rightarrow> string \<Rightarrow> (r1_backend, string + 'a) pyop" where
  "reject_closing ch st code =
     py_then (close_challenges (\<lambda>r. ch_id r = ch_id ch) st) (py_then (pop_deadline (ch_id ch)) (py_ret (Inl code)))"

definition attestation_permitted :: "r1_lib \<Rightarrow> challenge_row \<Rightarrow> string option \<Rightarrow> external_authority option \<Rightarrow> bool" where
  "attestation_permitted lib ch procedure_id authority =
     (case (authority, ch_target_id ch, procedure_id) of
        (Some permits, Some tid, Some p) \<Rightarrow> permits (lib_root_identity lib) (ch_id ch) (ch_plan_sha256 ch) tid p
      | _ \<Rightarrow> False)"

definition challenge_matches_plan :: "challenge_row \<Rightarrow> recon_plan \<Rightarrow> bool" where
  "challenge_matches_plan ch plan \<longleftrightarrow> ch_participant_id ch = rp_participant_id plan \<and> ch_receipt_id ch = rp_withdrawal_receipt_id plan \<and>
     ch_plan_sha256 ch = rp_plan_sha256 plan \<and> ch_state_version ch = rp_target_state_version plan"

definition judge_challenge :: "r1_lib \<Rightarrow> recon_plan \<Rightarrow> string \<Rightarrow> string option \<Rightarrow> string \<Rightarrow> string option \<Rightarrow> external_authority option \<Rightarrow>
    pyfloat \<Rightarrow> pyfloat \<Rightarrow> challenge_row \<Rightarrow> (r1_backend, string + consumed_challenge \<times> (string \<times> string) option) pyop" where
  "judge_challenge lib plan digest current_digest phrase procedure_id authority now monotonic_now ch =
     (if ch_status ch = CONSUMED then py_ret (Inl ''CHALLENGE_ALREADY_CONSUMED'')
      else if ch_status ch \<noteq> ISSUED then py_ret (Inl ''CHALLENGE_NOT_ACTIVE'')
      else if current_digest \<noteq> Some digest then reject_closing ch REVOKED ''REVIEWER_SESSION_INVALID''
      else if \<not> pf_isfinite now then reject_closing ch REVOKED ''CLOCK_INVALID''
      else if ch_session_digest ch \<noteq> digest then py_ret (Inl ''REVIEWER_SESSION_INVALID'')
      else
        py_bind (py_get (\<lambda>s. map_of (r1_deadlines s) (ch_id ch))) (\<lambda>deadline.
        case deadline of
          None \<Rightarrow> py_then (close_challenges (\<lambda>r. ch_id r = ch_id ch) EXPIRED) (py_ret (Inl ''CHALLENGE_EXPIRED''))
        | Some (issued, expires) \<Rightarrow>
            if \<not> pf_isfinite monotonic_now \<or> pf_less monotonic_now issued then reject_closing ch REVOKED ''MONOTONIC_CLOCK_INVALID''
            else if pf_le expires monotonic_now then reject_closing ch EXPIRED ''CHALLENGE_EXPIRED''
            else if pf_less now (ch_issued_at ch) then reject_closing ch REVOKED ''CLOCK_ROLLBACK_DETECTED''
            else if pf_le (ch_expires_at ch) now then reject_closing ch EXPIRED ''CHALLENGE_EXPIRED''
            else if phrase \<noteq> pb_confirmation_phrase (rp_body plan) then py_ret (Inl ''CONFIRMATION_PHRASE_MISMATCH'')
            else if \<not> challenge_matches_plan ch plan then reject_closing ch REVOKED ''PLAN_CHANGED''
            else if ch_action ch = ATTEST_EXTERNAL_DELETION \<and> procedure_id = None
              then py_ret (Inl ''EXTERNAL_ATTESTATION_REQUIRES_PROCEDURE'')
            else if ch_action ch = ATTEST_EXTERNAL_DELETION \<and> \<not> attestation_permitted lib ch procedure_id authority
              then py_raise (ProcedureAuthorityNotIssued ''AUTHORITY_NOT_ISSUED'')
            else py_bind (accept_challenge lib ch digest procedure_id now) (\<lambda>r. py_ret (Inr r))))"

text \<open>The body of the transaction of \<open>_consume\<close>.\<close>

definition challenge_verdict :: "r1_lib \<Rightarrow> recon_plan \<Rightarrow> string \<Rightarrow> string option \<Rightarrow> string \<Rightarrow> string \<Rightarrow> string option \<Rightarrow> external_authority option \<Rightarrow>
    (r1_backend, string + consumed_challenge \<times> (string \<times> string) option) pyop" where
  "challenge_verdict lib plan digest current_digest challenge_token phrase procedure_id authority =
     py_bind (read_clock (lib_env lib)) (\<lambda>now.
     py_bind (read_monotonic (lib_env lib)) (\<lambda>monotonic_now.
     py_bind (r1_get (\<lambda>_ t. find (\<lambda>r. ch_token_digest r = lib_sha_text lib challenge_token) (t_challenges t))) (\<lambda>found.
     case found of
       None \<Rightarrow> py_ret (Inl ''CHALLENGE_INVALID'')
     | Some ch \<Rightarrow> judge_challenge lib plan digest current_digest phrase procedure_id authority now monotonic_now ch)))"

definition consume :: "r1_lib \<Rightarrow> string \<Rightarrow> string \<Rightarrow> string \<Rightarrow> string \<Rightarrow> string option \<Rightarrow> external_authority option \<Rightarrow>
    (r1_backend, consumed_challenge \<times> (string \<times> string) option) pyop" where
  "consume lib sid reviewer_token challenge_token phrase procedure_id authority =
     py_bind (session_digest lib reviewer_token) (\<lambda>digest.
     py_bind (plan_for_session lib sid) (\<lambda>plan.
     py_bind (reviewer_digest lib reviewer_token) (\<lambda>current_digest.
     py_bind (r1_transaction (challenge_verdict lib plan digest current_digest challenge_token phrase procedure_id authority)) (\<lambda>verdict.
     case verdict of Inl code \<Rightarrow> py_raise (ChallengeRejected code) | Inr r \<Rightarrow> py_ret r))))"

definition consume_challenge :: "r1_lib \<Rightarrow> string \<Rightarrow> string \<Rightarrow> string \<Rightarrow> string \<Rightarrow> (r1_backend, consumed_challenge) pyop" where
  "consume_challenge lib sid reviewer_token challenge_token phrase =
     py_bind (consume lib sid reviewer_token challenge_token phrase None None) (\<lambda>(c, _). py_ret c)"

definition attest_external_deletion :: "r1_lib \<Rightarrow> string \<Rightarrow> string \<Rightarrow> string \<Rightarrow> string \<Rightarrow> string \<Rightarrow> external_authority option \<Rightarrow>
    (r1_backend, string \<times> string) pyop" where
  "attest_external_deletion lib sid reviewer_token challenge_token phrase procedure_id authority =
     py_bind (consume lib sid reviewer_token challenge_token phrase (Some procedure_id) authority) (\<lambda>(_, attestation).
     case attestation of None \<Rightarrow> py_raise (ChallengeRejected ''EXTERNAL_ATTESTATION_NOT_RECORDED'') | Some a \<Rightarrow> py_ret a)"

definition import_procedure_authority :: "r1_lib \<Rightarrow> string \<Rightarrow> string \<Rightarrow> string \<Rightarrow> (string \<Rightarrow> string \<Rightarrow> bool) option \<Rightarrow> (r1_backend, unit) pyop" where
  "import_procedure_authority lib authority_id reference source_sha256 authority =
     py_then (py_guard (case authority of None \<Rightarrow> True | Some permits \<Rightarrow> \<not> permits reference source_sha256)
       (ProcedureAuthorityNotIssued ''AUTHORITY_NOT_ISSUED''))
    (py_then (opaque authority_id ''procedure authority id'')
    (py_then (py_guard (\<not> valid_reference reference) (ProcedureAuthorityNotIssued ''PROCEDURE_REFERENCE_INVALID''))
    (py_then (py_guard (length source_sha256 \<noteq> 64 \<or> \<not> list_all (\<lambda>c. c \<in> set ''0123456789abcdef'') source_sha256)
       (ProcedureAuthorityNotIssued ''PROCEDURE_SOURCE_DIGEST_INVALID''))
    (r1_transaction (py_bind (read_clock (lib_env lib)) (\<lambda>now.
       insert_procedure \<lparr>pr_id = authority_id, pr_reference = reference, pr_source_sha256 = source_sha256, pr_status = APPROVED,
         pr_approved_at = now, pr_expires_at = None, pr_revoked_at = None\<rparr>))))))"

end
