(* ===== verification/Recon_Deletion.thy ===== *)
theory Recon_Deletion
  imports Recon_Confirm "HOL-Library.Word"
begin

unbundle bit_operations_syntax

text \<open>
  \<open>WindowsHandleDeletionPrimitive\<close> of \<open>reconciliation_execution.py\<close>: one file is deleted through a handle while the
  handles of its parent directories stay open. What the Windows calls answer during one deletion is the
  parameter \<open>win_os\<close>; paths are relative to the storage root. The open handles are part of the state.
\<close>

record file_information =
  fi_attributes :: "32 word"
  fi_volume :: "32 word"
  fi_size_high :: "32 word"
  fi_size_low :: "32 word"
  fi_links :: "32 word"
  fi_index_high :: "32 word"
  fi_index_low :: "32 word"

datatype lstat_answer = Missing | RegularFile | OtherFile | LstatFails

text \<open>
  \<open>wo_information p n\<close> is what the \<open>n\<close>-th query on the handle of \<open>p\<close> returns, \<open>wo_content p n\<close> what the \<open>n\<close>-th
  pass over the file reads (or that it fails); the absence hook is the test seam of the constructor, which may raise.
\<close>

record win_os =
  wo_attributes :: "string \<Rightarrow> 32 word"
  wo_create :: "string \<Rightarrow> bool"
  wo_information :: "string \<Rightarrow> nat \<Rightarrow> file_information option"
  wo_final_path :: "string \<Rightarrow> string option"
  wo_resolve :: "string \<Rightarrow> py_error + string"
  wo_same_path :: "string \<Rightarrow> string \<Rightarrow> bool"
  wo_content :: "string \<Rightarrow> nat \<Rightarrow> string option"
  wo_disposition :: bool
  wo_absence_hook_raises :: bool
  wo_lstat :: "string \<Rightarrow> lstat_answer"

record deletion_target =
  dt_target_id :: string
  dt_root_scope :: root_scope
  dt_relative_path :: string
  dt_expected_byte_size :: int
  dt_expected_sha256 :: string
  dt_required_volume :: "string option"
  dt_required_file :: "string option"

record predelete_snapshot =
  ps_byte_size :: int
  ps_sha256 :: string
  ps_volume :: string
  ps_file :: string

definition blocked :: "string \<Rightarrow> py_error" where
  "blocked code = DeletionBlocked code False"

definition relative_parts :: "string \<Rightarrow> py_error + string list" where
  "relative_parts value =
     (if value = [] \<or> hd value \<in> {CHR ''/'', CHR 0x5C} \<or> CHR 0x5C \<in> set value \<or> CHR '':'' \<in> set value
        then Inl (blocked ''TARGET_RELATIVE_PATH_INVALID'')
      else if posix_parts value = [] \<or> list_ex (\<lambda>p. p \<in> {[], ''.'', ''..''}) (posix_parts value)
        then Inl (blocked ''TARGET_RELATIVE_PATH_INVALID'')
      else if list_ex ends_badly (posix_parts value) then Inl (blocked ''TARGET_RELATIVE_PATH_INVALID'')
      else Inr (posix_parts value))"

section \<open>Handles\<close>

definition close_handle :: "string \<Rightarrow> r1_backend \<Rightarrow> r1_backend" where
  "close_handle path s = s\<lparr>r1_handles := remove1 path (r1_handles s)\<rparr>"

definition is_reparse :: "32 word \<Rightarrow> bool" where
  "is_reparse a \<longleftrightarrow> a AND 0x400 \<noteq> 0"

definition open_handle :: "win_os \<Rightarrow> string \<Rightarrow> bool \<Rightarrow> (r1_backend, unit) pyop" where
  "open_handle os path directory s =
     (if wo_attributes os path = 0xFFFFFFFF \<or> is_reparse (wo_attributes os path)
        then (Inl (blocked ''TARGET_REPARSE_OR_UNAVAILABLE''), s)
      else if \<not> wo_create os path then (Inl (blocked ''TARGET_HANDLE_ACQUISITION_FAILED''), s)
      else
        let s1 = s\<lparr>r1_handles := r1_handles s @ [path]\<rparr> in
        case wo_information os path 0 of
          None \<Rightarrow> (Inl (blocked ''TARGET_IDENTITY_UNAVAILABLE''), s1)
        | Some info \<Rightarrow>
            if is_reparse (fi_attributes info) then (Inl (blocked ''TARGET_REPARSE_OR_UNAVAILABLE''), close_handle path s1)
            else if (fi_attributes info AND 0x10 \<noteq> 0) \<noteq> directory
              then (Inl (blocked ''TARGET_FILESYSTEM_TYPE_INVALID''), close_handle path s1)
            else (Inr (), s1))"

text \<open>The handle leads to the path: \<open>_same_path(_final_path(handle), path.resolve(strict=True))\<close>.\<close>

definition check_final_path :: "win_os \<Rightarrow> string \<Rightarrow> string \<Rightarrow> py_error + unit" where
  "check_final_path os path code =
     (case wo_final_path os path of
        None \<Rightarrow> Inl (blocked ''TARGET_FINAL_PATH_UNAVAILABLE'')
      | Some final \<Rightarrow>
          (case wo_resolve os path of
             Inl e \<Rightarrow> Inl e
           | Inr resolved \<Rightarrow> if wo_same_path os final resolved then Inr () else Inl (blocked code)))"

text \<open>Opening the parent directories: the outcome and the handles that were added to \<open>directory_handles\<close>.\<close>

fun open_directories :: "win_os \<Rightarrow> string list \<Rightarrow> string list \<Rightarrow> r1_backend \<Rightarrow> ((py_error + unit) \<times> string list) \<times> r1_backend" where
  "open_directories os [] acc s = ((Inr (), acc), s)"
| "open_directories os (d # ds) acc s =
     (case open_handle os d True s of
        (Inl e, s1) \<Rightarrow> ((Inl e, acc), s1)
      | (Inr _, s1) \<Rightarrow>
          (case check_final_path os d ''TARGET_PARENT_IDENTITY_CHANGED'' of
             Inl e \<Rightarrow> ((Inl e, acc), s1)
           | Inr _ \<Rightarrow> open_directories os ds (acc @ [d]) s1))"

section \<open>Verification of the target\<close>

definition identity_snapshot :: "r1_lib \<Rightarrow> file_information \<Rightarrow> int \<Rightarrow> string \<Rightarrow> predelete_snapshot" where
  "identity_snapshot lib info byte_size digest =
     \<lparr>ps_byte_size = byte_size, ps_sha256 = digest, ps_volume = lib_sha_text lib (decimal (unat (fi_volume info))),
      ps_file = lib_sha_text lib (decimal (unat (fi_volume info)) @ '':'' @ decimal (unat (fi_index_high info)) @ '':'' @
        decimal (unat (fi_index_low info)))\<rparr>"

definition verify_target :: "r1_lib \<Rightarrow> win_os \<Rightarrow> string \<Rightarrow> deletion_target \<Rightarrow> nat \<Rightarrow> py_error + file_information \<times> predelete_snapshot" where
  "verify_target lib os path target n =
     (case wo_information os path (Suc n) of
        None \<Rightarrow> Inl (blocked ''TARGET_IDENTITY_UNAVAILABLE'')
      | Some info \<Rightarrow>
          if fi_attributes info AND (0x400 OR 0x10) \<noteq> 0 then Inl (blocked ''TARGET_FILESYSTEM_TYPE_INVALID'')
          else if fi_links info \<noteq> 1 then Inl (blocked ''TARGET_MULTIPLE_LINKS'')
          else
            (case wo_content os path n of
               None \<Rightarrow> Inl (blocked ''TARGET_READ_FAILED'')
             | Some bytes \<Rightarrow>
                 if int (length bytes) \<noteq> dt_expected_byte_size target then Inl (blocked ''TARGET_SIZE_MISMATCH'')
                 else if lib_sha_text lib bytes \<noteq> dt_expected_sha256 target then Inl (blocked ''TARGET_HASH_MISMATCH'')
                 else Inr (info, identity_snapshot lib info (int (length bytes)) (lib_sha_text lib bytes))))"

definition same_identity :: "file_information \<Rightarrow> file_information \<Rightarrow> bool" where
  "same_identity a b \<longleftrightarrow> (fi_volume a, fi_index_high a, fi_index_low a, fi_links a, fi_size_high a, fi_size_low a) =
     (fi_volume b, fi_index_high b, fi_index_low b, fi_links b, fi_size_high b, fi_size_low b)"

definition recovery_identity_ok :: "deletion_target \<Rightarrow> predelete_snapshot \<Rightarrow> bool" where
  "recovery_identity_ok target snap \<longleftrightarrow> (dt_required_volume target = None \<and> dt_required_file target = None) \<or>
     (dt_required_volume target = Some (ps_volume snap) \<and> dt_required_file target = Some (ps_file snap))"

text \<open>The part of \<open>delete\<close> between the opening of the target and the request to delete it.\<close>

definition delete_open_target :: "r1_lib \<Rightarrow> win_os \<Rightarrow> string \<Rightarrow> deletion_target \<Rightarrow> (predelete_snapshot \<Rightarrow> (r1_backend, unit) pyop) \<Rightarrow>
    (r1_backend, unit) pyop" where
  "delete_open_target lib os path target on_verified =
     py_bind (py_lift (check_final_path os path ''TARGET_FINAL_PATH_MISMATCH'')) (\<lambda>_.
     py_bind (py_lift (verify_target lib os path target 0)) (\<lambda>(first, snap).
     py_then (py_guard (\<not> recovery_identity_ok target snap) (blocked ''RECOVERY_TARGET_IDENTITY_CHANGED''))
    (py_then (\<lambda>s. case on_verified snap s of (r, s1) \<Rightarrow> (except_Exception r (Inl (blocked ''VERIFIED_CALLBACK_FAILED'')), s1))
    (py_bind (py_lift (verify_target lib os path target 1)) (\<lambda>(second, snap2).
     py_then (py_guard (\<not> same_identity first second \<or> snap2 \<noteq> snap) (blocked ''TARGET_IDENTITY_CHANGED''))
     (py_guard (\<not> wo_disposition os) (blocked ''TARGET_DISPOSITION_FAILED'')))))))"

text \<open>After the request: the file must be gone.\<close>

definition absence_check :: "win_os \<Rightarrow> string \<Rightarrow> py_error + unit" where
  "absence_check os path =
     (if wo_absence_hook_raises os then Inl (DeletionBlocked ''ABSENCE_VERIFICATION_HOOK_FAILED'' True)
      else case wo_lstat os path of
        Missing \<Rightarrow> Inr ()
      | RegularFile \<Rightarrow> Inl (DeletionBlocked ''TARGET_REPLACED_OR_STILL_PRESENT'' True)
      | OtherFile \<Rightarrow> Inl (DeletionBlocked ''TARGET_ABSENCE_UNVERIFIED'' True)
      | LstatFails \<Rightarrow> Inl (OSError ''lstat''))"

definition scope_base :: "root_scope \<Rightarrow> string list" where
  "scope_base scope = (if scope = RESEARCH_ROOT then [] else [''export-staging''])"

definition parent_directories :: "string list \<Rightarrow> string list \<Rightarrow> string list" where
  "parent_directories base parts = map (\<lambda>n. join_path (base @ take n parts)) [0..<length parts]"

definition as_blocked :: "py_error \<Rightarrow> py_error" where
  "as_blocked e = (case e of OSError _ \<Rightarrow> blocked ''TARGET_FILESYSTEM_OPERATION_FAILED'' | _ \<Rightarrow> e)"

definition delete_file :: "r1_lib \<Rightarrow> win_os \<Rightarrow> deletion_target \<Rightarrow> (predelete_snapshot \<Rightarrow> (r1_backend, unit) pyop) \<Rightarrow> (r1_backend, unit) pyop" where
  "delete_file lib os target on_verified s =
     (if dt_root_scope target \<notin> {RESEARCH_ROOT, EXPORT_STAGING} then (Inl (blocked ''TARGET_ROOT_SCOPE_INVALID''), s)
      else if dt_expected_byte_size target < 0 \<or> length (dt_expected_sha256 target) \<noteq> 64 then (Inl (blocked ''TARGET_MANIFEST_INVALID''), s)
      else case relative_parts (dt_relative_path target) of
        Inl e \<Rightarrow> (Inl e, s)
      | Inr parts \<Rightarrow>
          let base = scope_base (dt_root_scope target); path = join_path (base @ parts) in
          (case open_directories os (parent_directories base parts) [] s of
             ((Inl e, acc), s1) \<Rightarrow> (Inl (as_blocked e), fold close_handle (rev acc) s1)
           | ((Inr _, acc), s1) \<Rightarrow>
               (case open_handle os path False s1 of
                  (Inl e, s2) \<Rightarrow> (Inl (as_blocked e), fold close_handle (rev acc) s2)
                | (Inr _, s2) \<Rightarrow>
                    (case delete_open_target lib os path target on_verified s2 of
                       (Inl e, s3) \<Rightarrow> (Inl (as_blocked e), fold close_handle (rev acc) (close_handle path s3))
                     | (Inr _, s3) \<Rightarrow> (absence_check os path, fold close_handle (rev acc) (close_handle path s3))))))"

end
