(* ===== verification/Recon_Execution.thy ===== *)
theory Recon_Execution
  imports Recon_Deletion
begin

text \<open>
  \<open>ReconciliationCoordinator\<close> and \<open>ReconciliationFinalizer\<close> of \<open>reconciliation_execution.py\<close>: one run deletes the local
  targets of a consumed challenge, each through the deletion primitive, recording every attempt; the final receipt is
  stored once every target has terminal evidence. \<open>os n\<close> is what Windows answers during the \<open>n\<close>-th deletion.
  The fault hook of the coordinator is a test seam and is absent.
\<close>

section \<open>The coordinator\<close>

record execution_binding =
  eb_root_identity_digest :: string
  eb_execution_id :: string
  eb_plan_sha256 :: string
  eb_target_ids :: "string list"

type_synonym execution_authority = "execution_binding \<Rightarrow> bool"

definition recovery_snapshot :: "r1_tables \<Rightarrow> string \<Rightarrow> predelete_snapshot option" where
  "recovery_snapshot t tid =
     (case sort_key (\<lambda>a. - at_number a) (filter (\<lambda>a. at_target_id a = tid \<and> at_stage a = STAGE_RECOVERY_REQUIRED \<and> at_byte_size a \<noteq> None \<and>
          at_sha256 a \<noteq> None \<and> at_volume a \<noteq> None \<and> at_file a \<noteq> None) (t_attempts t)) of
        [] \<Rightarrow> None
      | a # _ \<Rightarrow> Some \<lparr>ps_byte_size = the (at_byte_size a), ps_sha256 = the (at_sha256 a), ps_volume = the (at_volume a), ps_file = the (at_file a)\<rparr>)"

definition plan_for_consumed :: "r1_lib \<Rightarrow> consumed_challenge \<Rightarrow> (r1_backend, recon_plan) pyop" where
  "plan_for_consumed lib c =
     py_bind (py_then require_open (r1_get (\<lambda>db _. find (\<lambda>w. wr_id w = cc_withdrawal_receipt_id c \<and> wr_participant_id w = cc_participant_id c)
       (db_receipts db)))) (\<lambda>found.
     case found of
       None \<Rightarrow> py_raise (ReconciliationBlocked ''WITHDRAWAL_BINDING_INVALID'')
     | Some w \<Rightarrow>
         py_bind (plan_for_session lib (wr_subject_session_id w)) (\<lambda>plan.
         py_then (py_guard (rp_plan_sha256 plan \<noteq> cc_plan_sha256 c) (ReconciliationBlocked ''PLAN_CHANGED''))
        (py_then (py_guard (open_blockers plan \<noteq> []) (ReconciliationBlocked ''PLAN_BLOCKED''))
         (py_ret plan))))"

definition local_target_ids :: "recon_plan \<Rightarrow> string list" where
  "local_target_ids plan = sort (map pt_target_id (filter (\<lambda>p. is_local (pt_kind p) \<and> reconcilable p) (pb_targets (rp_body plan))))"

definition authority_binding :: "r1_lib \<Rightarrow> consumed_challenge \<Rightarrow> (r1_backend, execution_binding) pyop" where
  "authority_binding lib c =
     py_then (py_guard (cc_execution_kind c \<noteq> LOCAL_RUN \<or> cc_target_id c \<noteq> None) (ReconciliationBlocked ''LOCAL_EXECUTION_BINDING_INVALID''))
    (py_bind (plan_for_consumed lib c) (\<lambda>plan.
     py_then (py_guard (local_target_ids plan = []) (ReconciliationBlocked ''NO_LOCAL_TARGET_REQUIRES_RECONCILIATION''))
    (py_bind (r1_get (\<lambda>_ t. list_ex (\<lambda>p. pt_target_id p \<in> set (local_target_ids plan) \<and> pt_state p = TARGET_RECOVERY_REQUIRED \<and>
        recovery_snapshot t (pt_target_id p) = None) (pb_targets (rp_body plan)))) (\<lambda>lost.
     py_then (py_guard lost (ReconciliationBlocked ''RECOVERY_SNAPSHOT_REQUIRED''))
     (py_ret \<lparr>eb_root_identity_digest = lib_root_identity lib, eb_execution_id = cc_execution_id c, eb_plan_sha256 = cc_plan_sha256 c,
        eb_target_ids = local_target_ids plan\<rparr>)))))"

definition next_attempt_number :: "r1_tables \<Rightarrow> string \<Rightarrow> string \<Rightarrow> int" where
  "next_attempt_number t task tid =
     fold max (map at_number (filter (\<lambda>a. at_task_id a = task \<and> at_target_id a = tid) (t_attempts t))) 0 + 1"

text \<open>The joined row of a target in progress; a local target has a path, a size and a digest.\<close>

definition in_progress_target :: "r1_tables \<Rightarrow> string \<Rightarrow> (string \<times> target_row) option" where
  "in_progress_target t tid =
     (case find (\<lambda>m. tt_target_id m = tid \<and> tt_state m = IN_PROGRESS) (t_task_targets t) of
        None \<Rightarrow> None
      | Some m \<Rightarrow> map_option (\<lambda>g. (tt_task_id m, g)) (find_target t (tt_target_id m)))"

definition begin_attempt :: "r1_lib \<Rightarrow> string \<Rightarrow> string \<Rightarrow> (r1_backend, string \<times> target_row) pyop" where
  "begin_attempt lib run_id tid =
     py_bind (read_clock (lib_env lib)) (\<lambda>now.
     r1_transaction
      (py_bind (r1_get (\<lambda>_ t. in_progress_target t tid)) (\<lambda>row.
       case row of
         None \<Rightarrow> py_raise (ReconciliationBlocked ''LOCAL_TARGET_BINDING_INVALID'')
       | Some (task, g) \<Rightarrow>
           py_then (py_guard (\<not> is_local (tg_kind g)) (ReconciliationBlocked ''LOCAL_TARGET_BINDING_INVALID''))
          (py_bind (r1_get (\<lambda>_ t. next_attempt_number t task tid)) (\<lambda>number.
           py_bind (token_urlsafe (lib_env lib) 18) (\<lambda>tok.
           py_then (insert_recon_attempt \<lparr>at_id = ''attempt-'' @ tok, at_run_id = run_id, at_task_id = task, at_target_id = tid,
               at_number = number, at_stage = PREDELETE_PENDING, at_byte_size = None, at_sha256 = None, at_volume = None, at_file = None,
               at_failure_code = None\<rparr> now)
           (py_ret (''attempt-'' @ tok, g))))))))"

definition record_verified :: "r1_lib \<Rightarrow> string \<Rightarrow> predelete_snapshot \<Rightarrow> (r1_backend, unit) pyop" where
  "record_verified lib attempt_id snap = r1_transaction
     (py_bind (read_clock (lib_env lib)) (\<lambda>now.
      update_attempts (\<lambda>a. at_id a = attempt_id) (\<lambda>a. a\<lparr>at_stage := PREDELETE_VERIFIED, at_byte_size := Some (ps_byte_size snap),
        at_sha256 := Some (ps_sha256 snap), at_volume := Some (ps_volume snap), at_file := Some (ps_file snap)\<rparr>) now))"

definition record_failure :: "r1_lib \<Rightarrow> string \<Rightarrow> string \<Rightarrow> string \<Rightarrow> string \<Rightarrow> bool \<Rightarrow> (r1_backend, unit) pyop" where
  "record_failure lib run_id attempt_id tid code may_have_occurred = r1_transaction
     (py_bind (read_clock (lib_env lib)) (\<lambda>now1.
      py_then (update_attempts (\<lambda>a. at_id a = attempt_id) (\<lambda>a. a\<lparr>at_stage := (if may_have_occurred then STAGE_RECOVERY_REQUIRED else STAGE_BLOCKED),
        at_failure_code := Some code\<rparr>) now1)
     (py_bind (read_clock (lib_env lib)) (\<lambda>now2.
      py_then (update_task_targets (\<lambda>r. tt_target_id r = tid) (if may_have_occurred then TARGET_RECOVERY_REQUIRED else TARGET_BLOCKED) (Some code) now2)
     (py_bind (read_clock (lib_env lib)) (\<lambda>now3.
      update_runs (\<lambda>r. rn_id r = run_id) (\<lambda>r. r\<lparr>rn_state := (if may_have_occurred then RUN_RECOVERY_REQUIRED else RUN_BLOCKED),
        rn_failure_code := Some code\<rparr>)))))))"

definition record_absence :: "r1_lib \<Rightarrow> string \<Rightarrow> string \<Rightarrow> (r1_backend, unit) pyop" where
  "record_absence lib attempt_id tid = r1_transaction
     (py_bind (read_clock (lib_env lib)) (\<lambda>now1.
      py_then (update_attempts (\<lambda>a. at_id a = attempt_id \<and> at_stage a = PREDELETE_VERIFIED) (\<lambda>a. a\<lparr>at_stage := ABSENCE_VERIFIED\<rparr>) now1)
     (py_bind (read_clock (lib_env lib)) (\<lambda>now2.
      update_task_targets (\<lambda>r. tt_target_id r = tid \<and> tt_state r = IN_PROGRESS) LOCAL_DELETION_VERIFIED None now2))))"

definition deletion_target_of :: "r1_tables \<Rightarrow> string \<Rightarrow> target_row \<Rightarrow> deletion_target" where
  "deletion_target_of t tid g =
     \<lparr>dt_target_id = tid, dt_root_scope = tg_scope g,
      dt_relative_path = (case tg_relative_path g of None \<Rightarrow> ''None'' | Some p \<Rightarrow> p),
      dt_expected_byte_size = (case tg_expected_byte_size g of None \<Rightarrow> 0 | Some n \<Rightarrow> n),
      dt_expected_sha256 = (case tg_expected_sha256 g of None \<Rightarrow> ''None'' | Some d \<Rightarrow> d),
      dt_required_volume = map_option ps_volume (recovery_snapshot t tid), dt_required_file = map_option ps_file (recovery_snapshot t tid)\<rparr>"

definition start_deletion :: "(r1_backend, nat) pyop" where
  "start_deletion s = (Inr (r1_deletions s), s\<lparr>r1_deletions := Suc (r1_deletions s)\<rparr>)"

definition settle_attempt :: "r1_lib \<Rightarrow> string \<Rightarrow> string \<Rightarrow> string \<Rightarrow> py_error + unit \<Rightarrow> (r1_backend, unit) pyop" where
  "settle_attempt lib run_id attempt_id tid answer =
     (case answer of
        Inl (DeletionBlocked code may) \<Rightarrow> py_then (record_failure lib run_id attempt_id tid code may) (py_raise (DeletionBlocked code may))
      | Inl e \<Rightarrow> py_raise e
      | Inr _ \<Rightarrow> record_absence lib attempt_id tid)"

text \<open>\<open>try: m except \<dots>\<close>: the outcome as a value.\<close>

definition py_try :: "('s, 'a) pyop \<Rightarrow> ('s, py_error + 'a) pyop" where
  "py_try m s = (case m s of (r, s') \<Rightarrow> (Inr r, s'))"

definition run_target :: "r1_lib \<Rightarrow> (nat \<Rightarrow> win_os) \<Rightarrow> string \<Rightarrow> string \<Rightarrow> (r1_backend, unit) pyop" where
  "run_target lib os run_id tid =
     py_bind (begin_attempt lib run_id tid) (\<lambda>(attempt_id, g).
     py_bind (r1_get (\<lambda>_ t. deletion_target_of t tid g)) (\<lambda>target.
     py_bind start_deletion (\<lambda>n.
     py_bind (py_try (delete_file lib (os n) target (record_verified lib attempt_id))) (\<lambda>answer.
     settle_attempt lib run_id attempt_id tid answer))))"

definition execution_matches :: "r1_tables \<Rightarrow> consumed_challenge \<Rightarrow> bool" where
  "execution_matches t c \<longleftrightarrow>
     (case find (\<lambda>e. xe_id e = cc_execution_id c \<and> xe_challenge_id e = cc_challenge_id c) (t_executions t) of
        None \<Rightarrow> False
      | Some e \<Rightarrow> (case find (\<lambda>r. ch_id r = xe_challenge_id e) (t_challenges t) of
            None \<Rightarrow> False
          | Some ch \<Rightarrow> xe_kind e = LOCAL_RUN \<and> ch_status ch = CONSUMED \<and> ch_action ch = EXECUTE_LOCAL_RECONCILIATION \<and>
              ch_plan_sha256 ch = cc_plan_sha256 c \<and> ch_participant_id ch = cc_participant_id c))"

definition open_run :: "string \<Rightarrow> consumed_challenge \<Rightarrow> string list \<Rightarrow> pyfloat \<Rightarrow> (r1_backend, (string \<times> run_state) option) pyop" where
  "open_run run_id c target_ids now = r1_transaction
     (py_bind (r1_get (\<lambda>_ t. execution_matches t c)) (\<lambda>ok.
      py_then (py_guard (\<not> ok) (ReconciliationBlocked ''LOCAL_EXECUTION_BINDING_INVALID''))
     (py_bind (r1_get (\<lambda>_ t. find (\<lambda>r. rn_execution_id r = cc_execution_id c) (t_runs t))) (\<lambda>existing.
      case existing of
        Some r \<Rightarrow> py_ret (Some (rn_id r, rn_state r))
      | None \<Rightarrow>
          py_then (insert_run \<lparr>rn_id = run_id, rn_execution_id = cc_execution_id c, rn_participant_id = cc_participant_id c,
              rn_challenge_id = cc_challenge_id c, rn_plan_sha256 = cc_plan_sha256 c, rn_state = RUNNING, rn_failure_code = None\<rparr> now)
         (py_then (update_task_targets (\<lambda>r. tt_target_id r \<in> set target_ids \<and> tt_state r \<in> {PENDING_CONFIRMATION, TARGET_RECOVERY_REQUIRED})
            IN_PROGRESS None now)
          (py_ret None))))))"

definition run_local :: "r1_lib \<Rightarrow> (nat \<Rightarrow> win_os) \<Rightarrow> consumed_challenge \<Rightarrow> execution_authority option \<Rightarrow> (r1_backend, string \<times> run_state) pyop" where
  "run_local lib os c authority =
     py_bind (authority_binding lib c) (\<lambda>binding.
     py_then (py_guard (case authority of None \<Rightarrow> True | Some permits \<Rightarrow> \<not> permits binding)
       (ReconciliationAuthorityNotIssued ''AUTHORITY_NOT_ISSUED''))
    (py_bind (read_clock (lib_env lib)) (\<lambda>now.
     py_bind (token_urlsafe (lib_env lib) 18) (\<lambda>tok.
     py_bind (open_run (''run-'' @ tok) c (eb_target_ids binding) now) (\<lambda>existing.
     case existing of
       Some r \<Rightarrow> py_ret r
     | None \<Rightarrow>
         py_then (py_for (eb_target_ids binding) (run_target lib os (''run-'' @ tok)))
        (py_bind (read_clock (lib_env lib)) (\<lambda>terminal_at.
         py_then (r1_transaction (update_runs (\<lambda>r. rn_id r = ''run-'' @ tok) (\<lambda>r. r\<lparr>rn_state := RUN_COMPLETED\<rparr>)))
         (py_ret (''run-'' @ tok, RUN_COMPLETED)))))))))"

section \<open>The finalizer\<close>

record recon_receipt =
  re_body :: json
  re_body_sha256 :: string

definition existing_receipt :: "r1_lib \<Rightarrow> m1_db \<Rightarrow> r1_tables \<Rightarrow> string \<Rightarrow> py_error + recon_receipt option" where
  "existing_receipt lib db t sid =
     (case find_session db sid of
        None \<Rightarrow> Inr None
      | Some r \<Rightarrow>
          (case find (\<lambda>x. Some (rr_participant_id x) = se_participant_id r) (t_recon_receipts t) of
             None \<Rightarrow> Inr None
           | Some row \<Rightarrow>
               (case rr_body row of
                  JObj _ \<Rightarrow> if lib_sha lib (rr_body row) \<noteq> rr_body_sha256 row
                    then Inl (SchemaIntegrityError ''reconciliation receipt binding is invalid'')
                    else Inr (Some \<lparr>re_body = rr_body row, re_body_sha256 = rr_body_sha256 row\<rparr>)
                | _ \<Rightarrow> Inl (SchemaIntegrityError ''reconciliation receipt is malformed''))))"

definition external_evidence :: "r1_tables \<Rightarrow> string \<Rightarrow> string \<Rightarrow> string \<Rightarrow> pyfloat \<Rightarrow> pyfloat \<Rightarrow> bool" where
  "external_evidence t tid pid receipt_id now1 now2 \<longleftrightarrow>
     (\<exists>a \<in> set (t_attestations t). \<exists>e \<in> set (t_executions t). \<exists>c \<in> set (t_challenges t). \<exists>p \<in> set (t_procedures t).
        xe_id e = ea_execution_id a \<and> xe_challenge_id e = ea_challenge_id a \<and> ch_id c = ea_challenge_id a \<and> pr_id p = ea_procedure_id a \<and>
        ea_target_id a = tid \<and> ea_participant_id a = pid \<and> ea_receipt_id a = receipt_id \<and> ch_plan_sha256 c = ea_plan_sha256 a \<and>
        ch_participant_id c = ea_participant_id a \<and> ch_receipt_id c = ea_receipt_id a \<and> ch_target_id c = Some (ea_target_id a) \<and>
        xe_kind e = EXTERNAL_ATTESTATION \<and> ch_action c = ATTEST_EXTERNAL_DELETION \<and> ch_status c = CONSUMED \<and>
        pr_status p = APPROVED \<and> pr_revoked_at p = None \<and> pf_le (pr_approved_at p) now1 \<and>
        (case pr_expires_at p of None \<Rightarrow> True | Some x \<Rightarrow> pf_less now2 x))"

definition local_evidence :: "r1_tables \<Rightarrow> string \<Rightarrow> string \<Rightarrow> string \<Rightarrow> bool" where
  "local_evidence t tid pid receipt_id \<longleftrightarrow>
     (\<exists>a \<in> set (t_attempts t). \<exists>r \<in> set (t_runs t). \<exists>e \<in> set (t_executions t). \<exists>c \<in> set (t_challenges t).
        rn_id r = at_run_id a \<and> xe_id e = rn_execution_id r \<and> xe_challenge_id e = rn_challenge_id r \<and> ch_id c = rn_challenge_id r \<and>
        at_target_id a = tid \<and> at_stage a = ABSENCE_VERIFIED \<and> rn_participant_id r = pid \<and> rn_state r = RUN_COMPLETED \<and>
        ch_plan_sha256 c = rn_plan_sha256 r \<and> ch_participant_id c = rn_participant_id r \<and> ch_receipt_id c = receipt_id \<and>
        ch_target_id c = None \<and> xe_kind e = LOCAL_RUN \<and> ch_action c = EXECUTE_LOCAL_RECONCILIATION \<and> ch_status c = CONSUMED)"

definition require_terminal_evidence :: "r1_lib \<Rightarrow> recon_plan \<Rightarrow> (r1_backend, unit) pyop" where
  "require_terminal_evidence lib plan = py_for (pb_targets (rp_body plan)) (\<lambda>p.
     if pt_kind p = EXTERNAL_COPY then
       py_bind (read_clock (lib_env lib)) (\<lambda>now1.
       py_bind (read_clock (lib_env lib)) (\<lambda>now2.
       py_bind (r1_get (\<lambda>_ t. external_evidence t (pt_target_id p) (rp_participant_id plan) (rp_withdrawal_receipt_id plan) now1 now2)) (\<lambda>ok.
       py_guard (\<not> ok) (ReconciliationBlocked ''TERMINAL_EVIDENCE_BINDING_INVALID''))))
     else
       py_bind (r1_get (\<lambda>_ t. local_evidence t (pt_target_id p) (rp_participant_id plan) (rp_withdrawal_receipt_id plan))) (\<lambda>ok.
       py_guard (\<not> ok) (ReconciliationBlocked ''TERMINAL_EVIDENCE_BINDING_INVALID'')))"

text \<open>A task is completed when it has targets of the participant and none of them is unfinished.\<close>

definition completed_tasks :: "r1_tables \<Rightarrow> string \<Rightarrow> string list" where
  "completed_tasks t pid =
     (let mine = filter (\<lambda>m. tt_participant_id m = pid) (t_task_targets t);
          unfinished = filter (\<lambda>m. \<not> (tt_kind m = EXTERNAL_COPY \<and> tt_state m = EXTERNAL_DELETION_ATTESTED \<or>
            tt_kind m \<noteq> EXTERNAL_COPY \<and> tt_state m = LOCAL_DELETION_VERIFIED)) mine
      in filter (\<lambda>k. k \<notin> tt_task_id ` set unfinished) (remdups (map tt_task_id mine)))"

definition complete_tasks :: "string \<Rightarrow> (r1_backend, unit) pyop" where
  "complete_tasks pid = py_mod (\<lambda>s. s\<lparr>m1_db := (m1_db s)\<lparr>db_tasks :=
     update_where (\<lambda>k. wt_id k \<in> set (completed_tasks (r1_db s) pid)) (\<lambda>k. k\<lparr>wt_status := COMPLETED\<rparr>) (db_tasks (m1_db s))\<rparr>\<rparr>)"

definition finalize :: "r1_lib \<Rightarrow> string \<Rightarrow> (r1_backend, recon_receipt) pyop" where
  "finalize lib sid =
     py_bind (plan_for_session lib sid) (\<lambda>plan.
     py_bind (py_then require_open (r1_get (\<lambda>db t. existing_receipt lib db t sid))) (\<lambda>found.
     py_bind (py_lift found) (\<lambda>existing.
     if \<not> pb_complete (rp_body plan) then
       py_raise (if existing \<noteq> None then SchemaIntegrityError ''reconciliation receipt state is invalid''
         else ReconciliationBlocked ''RECONCILIATION_NOT_COMPLETE'')
     else
       let body = receipt_body_json (receipt_from_plan plan); receipt = \<lparr>re_body = body, re_body_sha256 = lib_sha lib body\<rparr> in
       r1_transaction
        (py_then (require_terminal_evidence lib plan)
         (case existing of
            Some old \<Rightarrow> py_then (py_guard (re_body old \<noteq> re_body receipt \<or> re_body_sha256 old \<noteq> re_body_sha256 receipt)
                (SchemaIntegrityError ''reconciliation receipt replay binding is invalid''))
              (py_ret old)
          | None \<Rightarrow>
              py_then (complete_tasks (rp_participant_id plan))
             (py_bind (read_clock (lib_env lib)) (\<lambda>now.
              py_then (insert_recon_receipt \<lparr>rr_id = ''reconciliation-receipt-'' @ take 24 (re_body_sha256 receipt),
                  rr_participant_id = rp_participant_id plan, rr_receipt_id = rp_withdrawal_receipt_id plan, rr_body = re_body receipt,
                  rr_body_sha256 = re_body_sha256 receipt\<rparr> now)
              (py_ret receipt))))))))"

end
