(* ===== verification/Recon_Properties.thy ===== *)
theory Recon_Properties
  imports Recon_Execution
begin

text \<open>
  What every operation of the reconciliation leaves intact: the rules that carry a predicate on the new tables
  through the operations, and the rows of the challenges under all requests.
\<close>

section \<open>Predicates on the tables\<close>

definition on_tables :: "(r1_tables \<Rightarrow> bool) \<Rightarrow> r1_backend \<Rightarrow> bool" where
  "on_tables Q s = Q (r1_db s)"

lemma keeps_r1_get [keeps_intros]: "keeps P (r1_get f)"
  by (auto simp: keeps_def py_run)

lemma keeps_r1_get_bind:
  "(\<And>s. P s \<Longrightarrow> P (snd (f (g (m1_db s) (r1_db s)) s))) \<Longrightarrow> keeps P (py_bind (r1_get g) f)"
  by (auto simp: keeps_def py_run)

lemma keeps_r1_transaction [keeps_intros]:
  "keeps (on_tables Q) m \<Longrightarrow> keeps (on_tables Q) (r1_transaction m)"
  by (fastforce simp: keeps_def on_tables_def r1_transaction_def split: prod.split sum.split)

lemma keeps_r1_statement:
  "(\<And>db t. ok db t \<Longrightarrow> Q t \<Longrightarrow> Q (f t)) \<Longrightarrow> keeps (on_tables Q) (r1_statement ok f)"
  by (auto simp: keeps_def on_tables_def r1_statement_def)

lemma keeps_r1_clock [keeps_intros]: "keeps (on_tables Q) (read_clock e)"
  and keeps_r1_monotonic [keeps_intros]: "keeps (on_tables Q) (read_monotonic e)"
  and keeps_r1_token [keeps_intros]: "keeps (on_tables Q) (token_urlsafe e k)"
  and keeps_r1_auth [keeps_intros]: "keeps (on_tables Q) (auth_op m)"
  and keeps_r1_pop [keeps_intros]: "keeps (on_tables Q) (pop_deadline cid)"
  and keeps_r1_start [keeps_intros]: "keeps (on_tables Q) start_deletion"
  by (auto simp: keeps_def on_tables_def py_run auth_op_def pop_deadline_def start_deletion_def split: prod.split)

lemma keeps_require_open [keeps_intros]: "keeps P require_open"
  by (simp add: keeps_def require_open_def)

lemma keeps_rejection_if [keeps_intros]: "keeps P (rejection_if b code)"
  by (simp add: rejection_if_def keeps_guard)

lemma keeps_opaque [keeps_intros]: "keeps P (opaque v l)"
  by (simp add: opaque_def keeps_guard)

subsection \<open>Reviewer sessions\<close>

lemma keeps_emit [keeps_intros]: "keeps (on_tables Q) (emit_reviewer_audit kind)"
  unfolding emit_reviewer_audit_def by (intro keeps_intros) (simp add: on_tables_def)

lemma keeps_invalidate [keeps_intros]: "keeps (on_tables Q) (invalidate_reviewer_session kind)"
  unfolding invalidate_reviewer_session_def clear_reviewer_token_def
  by (auto intro!: keeps_intros simp: on_tables_def split: option.split)

lemma keeps_reviewer_expiry [keeps_intros]: "keeps (on_tables Q) (reviewer_expiry sha env token)"
  unfolding reviewer_expiry_def by (auto intro!: keeps_intros simp: on_tables_def split: option.split)

lemma keeps_reviewer_session_digest [keeps_intros]: "keeps (on_tables Q) (reviewer_session_digest sha env token)"
  unfolding reviewer_session_digest_def by (auto intro!: keeps_intros simp: on_tables_def split: option.split)

lemma keeps_reviewer_digest:
  assumes "\<And>d. keeps (on_tables Q) (revoke_issued_challenges d)"
  shows "keeps (on_tables Q) (reviewer_digest lib token)"
proof (rule keepsI)
  fix s assume s: "on_tables Q s"
  obtain r s1 where r: "reviewer_session_digest (lib_sha_text lib) (lib_env lib) (Some token) s = (r, s1)" by fastforce
  obtain c s2 where c: "py_for (drop (length (rv_revoked s)) (rv_revoked s1)) revoke_issued_challenges s1 = (c, s2)" by fastforce
  have "on_tables Q s1" using keeps_reviewer_session_digest s r by (rule keepsD_eq)
  moreover have "keeps (on_tables Q) (py_for ds revoke_issued_challenges)" for ds by (intro keeps_for assms)
  ultimately have "on_tables Q s2" using c keepsD_eq by metis
  then show "on_tables Q (snd (reviewer_digest lib token s))" by (simp add: reviewer_digest_def r c split: sum.split)
qed

lemma keeps_plan_for_session [keeps_intros]: "keeps (on_tables Q) (plan_for_session lib sid)"
  unfolding plan_for_session_def by (auto intro!: keeps_intros simp: on_tables_def split: option.split)

subsection \<open>Deletion\<close>

lemma on_tables_close [simp]: "on_tables Q (close_handle p s) = on_tables Q s"
  by (simp add: on_tables_def close_handle_def)

lemma on_tables_fold_close [simp]: "on_tables Q (fold close_handle ps s) = on_tables Q s"
  by (induction ps arbitrary: s) simp_all

lemma keeps_open_handle [keeps_intros]: "keeps (on_tables Q) (open_handle os p d)"
  by (auto simp: keeps_def open_handle_def Let_def close_handle_def on_tables_def split: option.split)

lemma open_directories_tables: "on_tables Q s \<Longrightarrow> on_tables Q (snd (open_directories os ds acc s))"
proof (induction os ds acc s rule: open_directories.induct)
  case (2 os d ds acc s)
  obtain r s1 where r: "open_handle os d True s = (r, s1)" by fastforce
  then have s1: "on_tables Q s1" using keepsD_eq [OF keeps_open_handle "2.prems"] by blast
  show ?case using s1 "2.IH" [OF r [symmetric]] by (cases r) (auto simp: r split: sum.split)
qed simp

lemma keeps_delete_open_target:
  assumes "\<And>snap. keeps (on_tables Q) (on_verified snap)"
  shows "keeps (on_tables Q) (delete_open_target lib os path target on_verified)"
proof -
  have "keeps (on_tables Q) (\<lambda>s. case on_verified snap s of (r, s1) \<Rightarrow> (except_Exception r (Inl e), s1))" for snap e
    using assms [of snap] by (fastforce simp: keeps_def split: prod.split)
  then show ?thesis unfolding delete_open_target_def by (intro keeps_intros)
qed

lemma keeps_delete_file:
  assumes "\<And>snap. keeps (on_tables Q) (on_verified snap)"
  shows "keeps (on_tables Q) (delete_file lib os target on_verified)"
proof (rule keepsI)
  fix s assume s: "on_tables Q s"
  show "on_tables Q (snd (delete_file lib os target on_verified s))"
  proof (cases "relative_parts (dt_relative_path target)")
    case (Inr parts)
    let ?base = "scope_base (dt_root_scope target)" and ?dirs = "parent_directories (scope_base (dt_root_scope target)) parts"
    let ?path = "join_path (?base @ parts)"
    obtain r1 acc s1 where o1: "open_directories os ?dirs [] s = ((r1, acc), s1)" by (metis surj_pair)
    obtain r2 s2 where o2: "open_handle os ?path False s1 = (r2, s2)" by fastforce
    obtain r3 s3 where o3: "delete_open_target lib os ?path target on_verified s2 = (r3, s3)" by fastforce
    have s1: "on_tables Q s1" using open_directories_tables [OF s, of os ?dirs "[]"] o1 by simp
    then have s2: "on_tables Q s2" using keepsD_eq [OF keeps_open_handle _ o2] by blast
    then have s3: "on_tables Q s3" using keepsD_eq [OF keeps_delete_open_target [OF assms] _ o3] by blast
    show ?thesis using s s1 s2 s3
      by (simp only: delete_file_def Inr sum.case Let_def o1 o2 o3 prod.case) (simp split: sum.split)
  qed (simp add: delete_file_def s)
qed

lemma keeps_py_try [keeps_intros]: "keeps P m \<Longrightarrow> keeps P (py_try m)"
  by (fastforce simp: keeps_def py_try_def split: prod.split)

subsection \<open>Operations of the workspace\<close>

lemma keeps_db_op_tables [keeps_intros]: "keeps (on_tables Q) (db_op m)"
  by (simp add: keeps_def db_op_def on_tables_def split: prod.split)

lemma keeps_db_get_tables [keeps_intros]: "keeps (on_tables Q) (db_get f)"
  by (simp add: db_get_def keeps_get)

lemma keeps_transaction_tables [keeps_intros]: "keeps (on_tables Q) m \<Longrightarrow> keeps (on_tables Q) (transaction m)"
  by (fastforce simp: keeps_def transaction_def on_tables_def split: prod.split sum.split)

section \<open>Predicates on the challenges\<close>

text \<open>
  The laws a predicate on the challenge rows has to obey so that every request keeps it: fresh rows are
  added, issued rows are closed or consumed, and nothing else happens to the table.
\<close>

locale challenge_predicate =
  fixes Q :: "challenge_row list \<Rightarrow> bool"
  assumes fresh: "Q cs \<Longrightarrow> ch_id r \<notin> ch_id ` set cs \<Longrightarrow> ch_token_digest r \<notin> ch_token_digest ` set cs \<Longrightarrow> Q (cs @ [r])"
    and close_issued: "Q cs \<Longrightarrow> (\<And>r. c r \<Longrightarrow> ch_status r = ISSUED) \<Longrightarrow> Q (update_where c (\<lambda>r. r\<lparr>ch_status := st\<rparr>) cs)"
    and close_found: "Q cs \<Longrightarrow> ch \<in> set cs \<Longrightarrow> ch_status ch = ISSUED \<Longrightarrow>
      Q (update_where (\<lambda>r. ch_id r = ch_id ch) (\<lambda>r. r\<lparr>ch_status := st\<rparr>) cs)"
    and consume_issued: "Q cs \<Longrightarrow> Q (update_where (\<lambda>r. ch_id r = cid \<and> ch_status r = ISSUED)
      (\<lambda>r. r\<lparr>ch_status := CONSUMED, ch_consumed_at := consumed_at\<rparr>) cs)"
begin

abbreviation inv :: "r1_backend \<Rightarrow> bool" where
  "inv \<equiv> on_tables (\<lambda>t. Q (t_challenges t))"

lemma keeps_statements:
  "keeps inv (insert_challenge r)" "keeps inv (insert_step_up u)" "keeps inv (consume_step_up i now)"
  "keeps inv (consume_challenge_row cid now)" "keeps inv (insert_execution x now)" "keeps inv (insert_attestation a now)"
  "keeps inv (update_task_targets c st b now)" "keeps inv (insert_procedure p)" "keeps inv (insert_run rn now)"
  "keeps inv (update_runs c' f)" "keeps inv (insert_recon_attempt att now)" "keeps inv (update_attempts c'' f' now)"
  "keeps inv (insert_target g now)" "keeps inv (insert_recon_receipt rr now)"
  unfolding insert_challenge_def insert_step_up_def consume_step_up_def consume_challenge_row_def insert_execution_def
    insert_attestation_def update_task_targets_def insert_procedure_def insert_run_def update_runs_def insert_recon_attempt_def
    update_attempts_def insert_target_def insert_recon_receipt_def add_target_def Let_def
  by (rule keeps_r1_statement; simp add: fresh consume_issued)+

lemma keeps_close: "(\<And>r. c r \<Longrightarrow> ch_status r = ISSUED) \<Longrightarrow> keeps inv (close_challenges c st)"
  unfolding close_challenges_def by (rule keeps_r1_statement) (simp add: close_issued)

lemma keeps_revoke: "keeps inv (revoke_issued_challenges d)"
  unfolding revoke_issued_challenges_def by (intro keeps_intros keeps_close) simp

lemma keeps_session: "keeps inv (reviewer_digest lib token)" "keeps inv (session_digest lib token)"
  unfolding session_digest_def by (auto intro!: keeps_intros keeps_reviewer_digest keeps_revoke split: option.split)

lemma keeps_start: "keeps inv confirmation_start"
  unfolding confirmation_start_def register_reviewer_session_revocation_def
  by (intro keeps_intros keeps_close) (simp_all add: on_tables_def)

lemma keeps_issue: "keeps inv (issue_challenge lib plan d a i k sc now mnow)"
  unfolding issue_challenge_def Let_def by (intro keeps_intros keeps_statements) (simp add: on_tables_def)

lemma keeps_create: "keeps inv (create_challenge lib sid token pin client action i)"
  unfolding create_challenge_def Let_def
  by (intro keeps_intros keeps_session keeps_issue)

lemma keeps_accept: "keeps inv (accept_challenge lib ch d p now)"
  unfolding accept_challenge_def insert_external_attestation_def Let_def
  by (auto intro!: keeps_intros keeps_statements split: option.split execution_kind.split)

lemma reject_inv:
  "inv s \<Longrightarrow> ch \<in> set (t_challenges (r1_db s)) \<Longrightarrow> ch_status ch = ISSUED \<Longrightarrow> inv (snd (reject_closing ch st code s))"
  by (simp add: reject_closing_def close_challenges_def py_run pop_deadline_def on_tables_def close_found)

lemma judge_inv:
  assumes "inv s" and "ch \<in> set (t_challenges (r1_db s))"
  shows "inv (snd (judge_challenge lib plan d cd phrase p authority now mnow ch s))"
proof (cases "ch_status ch = ISSUED")
  case True
  have A: "inv (snd (py_bind (accept_challenge lib ch d p now) (\<lambda>r. py_ret (Inr r)) s))"
    using assms(1) by (rule keepsD [rotated]) (intro keeps_intros keeps_accept)
  have E: "inv (snd (py_then (close_challenges (\<lambda>r. ch_id r = ch_id ch) EXPIRED) (py_ret v) s))" for v
    using assms True by (simp add: close_challenges_def py_run on_tables_def close_found)
  have I: "inv (snd (x s)) \<Longrightarrow> inv (snd (y s)) \<Longrightarrow> inv (snd ((if b then x else y) s))" for b and x y :: "(r1_backend, 'c) pyop"
    by simp
  have D: "inv (snd (a s)) \<Longrightarrow> (\<And>i e. inv (snd (f i e s))) \<Longrightarrow>
      inv (snd (py_bind (py_get g) (\<lambda>d. case d of None \<Rightarrow> a | Some (i, e) \<Rightarrow> f i e) s))" for a :: "(r1_backend, 'c) pyop" and f g
    by (simp add: py_bind_def py_get_def split: option.split)
  show ?thesis unfolding judge_challenge_def
    by (intro I D reject_inv [OF assms True] A E) (simp_all add: py_ret_def py_raise_def assms(1))
qed (simp add: judge_challenge_def py_ret_def assms(1))

lemma keeps_verdict: "keeps inv (challenge_verdict lib plan d cd ct phrase p authority)"
proof -
  have "keeps inv (py_bind (r1_get (\<lambda>_ t. find (\<lambda>r. ch_token_digest r = x) (t_challenges t))) (\<lambda>found.
      case found of None \<Rightarrow> py_ret (Inl ''CHALLENGE_INVALID'')
      | Some ch \<Rightarrow> judge_challenge lib plan d cd phrase p authority now mnow ch))" for x now mnow
    by (rule keeps_r1_get_bind) (auto simp: py_ret_def find_Some_iff split: option.split intro!: judge_inv)
  then show ?thesis unfolding challenge_verdict_def by (rule keeps_bind [OF keeps_r1_clock keeps_bind [OF keeps_r1_monotonic]])
qed

lemma keeps_consume: "keeps inv (consume lib sid token ct phrase p authority)"
  unfolding consume_def by (intro keeps_intros keeps_session keeps_verdict)

lemma keeps_confirm:
  "keeps inv (consume_challenge lib sid token ct phrase)"
  "keeps inv (attest_external_deletion lib sid token ct phrase p authority)"
  "keeps inv (import_procedure_authority lib i ref src permits)"
  unfolding consume_challenge_def attest_external_deletion_def import_procedure_authority_def
  by (intro keeps_intros keeps_consume keeps_statements)+

lemma keeps_targets:
  "keeps inv (register_external_target lib aid ex m)"
  "keeps inv (after_manifest_insert lib aid path n d)"
  "keeps inv (recover_reconciliation lib)"
  "keeps inv (after_withdrawal_receipt lib pid rid)"
proof -
  have I: "keeps inv (insert_or_ignore_target g now)" "keeps inv (insert_or_ignore_task_target r now)" for g now r
    by (auto simp: keeps_def insert_or_ignore_target_def insert_or_ignore_task_target_def r1_statement_def add_target_def on_tables_def)
  show "keeps inv (register_external_target lib aid ex m)"
    unfolding register_external_target_def by (auto intro!: keeps_intros I split: option.split prod.split)
  show "keeps inv (after_manifest_insert lib aid path n d)"
    unfolding after_manifest_insert_def by (auto intro!: keeps_intros keeps_statements split: option.split prod.split)
  show "keeps inv (recover_reconciliation lib)"
    unfolding recover_reconciliation_def by (intro keeps_intros keeps_statements)
  show "keeps inv (after_withdrawal_receipt lib pid rid)"
    unfolding after_withdrawal_receipt_def by (intro keeps_intros I)
qed

lemma keeps_coordinator:
  "keeps inv (run_target lib os run tid)" "keeps inv (authority_binding lib c)" "keeps inv (run_local lib os c authority)"
proof -
  have attempt: "keeps inv (begin_attempt lib run tid)" for run tid
    unfolding begin_attempt_def by (auto intro!: keeps_intros keeps_statements split: option.split prod.split)
  have record_ops: "keeps inv (record_verified lib a snap)" "keeps inv (record_failure lib run a tid code may)"
      "keeps inv (record_absence lib a tid)" for a snap run tid code may
    unfolding record_verified_def record_failure_def record_absence_def by (intro keeps_intros keeps_statements)+
  have settle: "keeps inv (settle_attempt lib run a tid r)" for run a tid r
  proof (cases r)
    case (Inl e)
    then show ?thesis by (cases e) (auto simp: settle_attempt_def intro!: keeps_intros record_ops)
  qed (simp add: settle_attempt_def record_ops)
  show target: "keeps inv (run_target lib os run tid)" for run tid
    unfolding run_target_def by (intro keeps_intros attempt settle keeps_delete_file record_ops)
  show binding: "keeps inv (authority_binding lib c)"
    unfolding authority_binding_def plan_for_consumed_def by (intro keeps_intros)
  have opened: "keeps inv (open_run run c ids now)" for run ids now
    unfolding open_run_def by (intro keeps_intros keeps_statements)
  show "keeps inv (run_local lib os c authority)"
    unfolding run_local_def by (intro keeps_intros keeps_statements target binding opened)
qed

lemma keeps_finalize: "keeps inv (finalize lib sid)"
proof -
  have tasks: "keeps inv (complete_tasks pid)" for pid
    unfolding complete_tasks_def by (intro keeps_intros) (simp add: on_tables_def)
  show ?thesis
    unfolding finalize_def require_terminal_evidence_def Let_def by (intro keeps_intros keeps_statements tasks)
qed

end

section \<open>Requests\<close>

datatype r1_request =
    ServiceStart
  | RevokeSession string
  | CreateChallenge string string string string string "string option"
  | ConsumeChallenge string string string string
  | AttestDeletion string string string string string "external_authority option"
  | ImportProcedure string string string "(string \<Rightarrow> string \<Rightarrow> bool) option"
  | RegisterExternal string string string
  | BindTargets string string
  | RunLocal consumed_challenge "execution_authority option"
  | Finalize string
  | Recover

definition drop_result :: "('s, 'a) pyop \<Rightarrow> ('s, unit) pyop" where
  "drop_result m s = (case m s of (Inl e, s') \<Rightarrow> (Inl e, s') | (Inr _, s') \<Rightarrow> (Inr (), s'))"

fun r1_call :: "r1_lib \<Rightarrow> (nat \<Rightarrow> win_os) \<Rightarrow> r1_request \<Rightarrow> (r1_backend, unit) pyop" where
  "r1_call lib os ServiceStart = confirmation_start"
| "r1_call lib os (RevokeSession d) = revoke_issued_challenges d"
| "r1_call lib os (CreateChallenge sid token pin client action i) = drop_result (create_challenge lib sid token pin client action i)"
| "r1_call lib os (ConsumeChallenge sid token ct phrase) = drop_result (consume_challenge lib sid token ct phrase)"
| "r1_call lib os (AttestDeletion sid token ct phrase p authority) = drop_result (attest_external_deletion lib sid token ct phrase p authority)"
| "r1_call lib os (ImportProcedure i reference source authority) = import_procedure_authority lib i reference source authority"
| "r1_call lib os (RegisterExternal aid export m) = drop_result (register_external_target lib aid export m)"
| "r1_call lib os (BindTargets pid receipt) = r1_transaction (after_withdrawal_receipt lib pid receipt)"
| "r1_call lib os (RunLocal c authority) = drop_result (run_local lib os c authority)"
| "r1_call lib os (Finalize sid) = drop_result (finalize lib sid)"
| "r1_call lib os Recover = drop_result (recover_reconciliation lib)"

definition r1_handle :: "r1_lib \<Rightarrow> (nat \<Rightarrow> win_os) \<Rightarrow> r1_request \<Rightarrow> r1_backend \<Rightarrow> r1_backend" where
  "r1_handle lib os r s = snd (r1_call lib os r s)"

lemma keeps_drop_result [keeps_intros]: "keeps P m \<Longrightarrow> keeps P (drop_result m)"
  by (fastforce simp: keeps_def drop_result_def split: prod.split sum.split)

context challenge_predicate
begin

lemma keeps_call: "keeps inv (r1_call lib os r)"
  by (cases r) (auto intro!: keeps_intros keeps_start keeps_revoke keeps_create keeps_confirm keeps_targets keeps_coordinator keeps_finalize)

lemma run_inv: "inv s \<Longrightarrow> inv (fold (r1_handle lib os) rs s)"
  by (induction rs arbitrary: s) (auto simp: r1_handle_def intro: keepsD [OF keeps_call])

end

subsection \<open>Keys and closed challenges\<close>

definition challenge_keys :: "challenge_row list \<Rightarrow> bool" where
  "challenge_keys cs \<longleftrightarrow> distinct (map ch_id cs) \<and> distinct (map ch_token_digest cs)"

lemma update_where_other: "r \<in> set rs \<Longrightarrow> \<not> c r \<Longrightarrow> r \<in> set (update_where c f rs)"
  by (force simp: update_where_def)

interpretation keys: challenge_predicate challenge_keys
  by unfold_locales (auto simp: challenge_keys_def update_where_map)

text \<open>A closed challenge (consumed, expired or revoked) stays as it is.\<close>

definition closed_challenge :: "challenge_row \<Rightarrow> challenge_row list \<Rightarrow> bool" where
  "closed_challenge c cs \<longleftrightarrow> challenge_keys cs \<and> c \<in> set cs \<and> ch_status c \<noteq> ISSUED"

lemma same_id: "challenge_keys cs \<Longrightarrow> a \<in> set cs \<Longrightarrow> b \<in> set cs \<Longrightarrow> ch_id a = ch_id b \<Longrightarrow> a = b"
  unfolding challenge_keys_def by (metis distinct_map inj_onD)

lemma same_token: "challenge_keys cs \<Longrightarrow> a \<in> set cs \<Longrightarrow> b \<in> set cs \<Longrightarrow> ch_token_digest a = ch_token_digest b \<Longrightarrow> a = b"
  unfolding challenge_keys_def by (metis distinct_map inj_onD)

interpretation closed: challenge_predicate "closed_challenge c" for c
proof unfold_locales
  fix cs ch st assume "closed_challenge c cs" "ch \<in> set cs" "ch_status ch = ISSUED"
  moreover from this have "ch_id c \<noteq> ch_id ch" using same_id unfolding closed_challenge_def by metis
  ultimately show "closed_challenge c (update_where (\<lambda>r. ch_id r = ch_id ch) (\<lambda>r. r\<lparr>ch_status := st\<rparr>) cs)"
    using keys.close_found by (simp add: closed_challenge_def update_where_other)
next
  fix cs and r :: challenge_row assume "closed_challenge c cs" "ch_id r \<notin> ch_id ` set cs" "ch_token_digest r \<notin> ch_token_digest ` set cs"
  then show "closed_challenge c (cs @ [r])" using keys.fresh by (simp add: closed_challenge_def)
next
  fix cs and cond :: "challenge_row \<Rightarrow> bool" and st assume cc: "closed_challenge c cs" and issued: "\<And>r. cond r \<Longrightarrow> ch_status r = ISSUED"
  then have "\<not> cond c" unfolding closed_challenge_def by blast
  then show "closed_challenge c (update_where cond (\<lambda>r. r\<lparr>ch_status := st\<rparr>) cs)"
    using cc keys.close_issued [OF _ issued] by (simp add: closed_challenge_def update_where_other)
next
  fix cs :: "challenge_row list" and cid t assume "closed_challenge c cs"
  then show "closed_challenge c (update_where (\<lambda>r. ch_id r = cid \<and> ch_status r = ISSUED) (\<lambda>r. r\<lparr>ch_status := CONSUMED, ch_consumed_at := t\<rparr>) cs)"
    using keys.consume_issued by (simp add: closed_challenge_def update_where_other)
qed

end
