(* ===== verification/Recon_Guarantees.thy ===== *)
theory Recon_Guarantees
  imports Recon_Properties "HOL-Library.Multiset"
begin

text \<open>
  The properties of the deletion reconciliation: a challenge is consumed at most once and only under the
  conditions it was issued for; a file is deleted only after it was read twice with the registered content; a
  normalised path is stable and accepted by the deletion; an interrupted target without a snapshot blocks its
  participant.
\<close>

section \<open>A sample\<close>

text \<open>One withdrawn participant, a live reviewer session and one issued challenge; every digest is the same text.\<close>

definition hash64 :: string where
  "hash64 = replicate 64 CHR ''a''"

definition sample_lib :: r1_lib where
  "sample_lib = \<lparr>lib_sha = (\<lambda>_. hash64), lib_sha_text = (\<lambda>_. hash64), lib_scrypt = (\<lambda>p _. p), lib_nfc = (\<lambda>x. x), lib_casefold = (\<lambda>x. x),
     lib_root_identity = ''r'', lib_env = \<lparr>env_clock = (\<lambda>_. Finite 1), env_monotonic = (\<lambda>_. Finite 1), env_token = (\<lambda>n _. replicate n CHR ''t'')\<rparr>\<rparr>"

definition sample_challenge :: challenge_row where
  "sample_challenge = \<lparr>ch_id = ''c'', ch_participant_id = ''p'', ch_receipt_id = ''w'', ch_session_digest = hash64, ch_token_digest = hash64,
     ch_plan_sha256 = hash64, ch_state_version = hex_int (take 15 hash64), ch_step_up_id = ''u'', ch_step_up_verified_at = Finite 0,
     ch_step_up_expires_at = Finite 120, ch_target_id = None, ch_target_kind = None, ch_root_scope = None,
     ch_action = EXECUTE_LOCAL_RECONCILIATION, ch_status = ISSUED, ch_issued_at = Finite 0, ch_expires_at = Finite 120, ch_consumed_at = None\<rparr>"

definition sample_m1_db :: m1_db where
  "sample_m1_db = empty_db\<lparr>
     db_participants := [\<lparr>pa_id = ''p'', pa_study_id = ''y'', pa_pseudonym = ''P'', pa_withdrawn_at = Some (Finite 0)\<rparr>],
     db_sessions := [\<lparr>se_id = ''s'', se_study_id = Some ''y'', se_participant_id = Some ''p'', se_kind = RESEARCH, se_state = WITHDRAWN,
       se_event_seq = 0, se_submitted = False, se_duration_seconds = 60, se_started_at = None, se_collection_blocked = True,
       se_withdrawn_at = Some (Finite 0)\<rparr>],
     db_receipts := [\<lparr>wr_id = ''w'', wr_participant_id = ''p'', wr_subject_session_id = ''s'', wr_response = JNull\<rparr>]\<rparr>"

definition sample_tables :: "task_target_row list \<Rightarrow> target_row list \<Rightarrow> r1_tables" where
  "sample_tables mappings targets = \<lparr>t_manifests = [], t_m2_intents = [], t_targets = targets, t_task_targets = mappings, t_procedures = [], t_holds = [],
     t_step_ups = [\<lparr>su_id = ''u'', su_session_digest = hash64, su_epoch = 0, su_verified_at = Finite 0, su_expires_at = Finite 120, su_consumed_at = None\<rparr>],
     t_challenges = [sample_challenge], t_executions = [], t_runs = [], t_attempts = [], t_attestations = [], t_recon_receipts = []\<rparr>"

definition sample_state :: "m1_db \<Rightarrow> r1_tables \<Rightarrow> r1_backend" where
  "sample_state db t = \<lparr>clock_reads = 0, monotonic_reads = 0, token_reads = 0, rv_digest = Some hash64, rv_issued_at = Some (Finite 0),
     rv_expiry = Some (Finite 7200), rv_mono_issued = Some (Finite 0), rv_mono_expiry = Some (Finite 7200), rv_callback = None, rv_hooks = [],
     rv_revoked = [], rv_audit = [], m0_sessions = [], m0_duration_seconds = 60, m0_candidate_tokens = [], m0_candidate_csrf_tokens = [],
     m0_pairing_codes = [], m0_subscriber_queue_size = 1, m0_max_subscribers = 1, m0_subscribers = [], m0_queues = [], m0_stale = [],
     m0_next_queue = 0, m1_db = db, m1_open = True, r1_db = t, r1_auth = new_authenticator (\<lambda>p _. p) [] [],
     r1_deadlines = [(''c'', (Finite 0, Finite 120))], r1_handles = [], r1_deletions = 0\<rparr>"

lemma sample_consumes:
  "\<not> isl (fst (consume sample_lib ''s'' ''tok'' ''ct'' ''DOI_SOAT P'' None None (sample_state sample_m1_db (sample_tables [] []))))"
  by code_simp

section \<open>Consuming a challenge\<close>

lemma r1_transaction_InrD: "r1_transaction m s = (Inr x, s') \<Longrightarrow> m s = (Inr x, s')"
  by (auto simp: r1_transaction_def split: if_splits prod.splits sum.splits)

lemma verdict_result: "(case v of Inl code \<Rightarrow> py_raise (f code) | Inr r \<Rightarrow> py_ret r) s = (Inr r', s') \<longleftrightarrow> v = Inr r' \<and> s' = s"
  by (auto simp: py_ret_def py_raise_def split: sum.splits)

lemma consume_InrD:
  assumes "consume lib sid token ct phrase p authority s = (Inr r, s')"
  obtains d s1 plan s2 cd s3 where "session_digest lib token s = (Inr d, s1)" and "plan_for_session lib sid s1 = (Inr plan, s2)"
    and "reviewer_digest lib token s2 = (Inr cd, s3)" and "challenge_verdict lib plan d cd ct phrase p authority s3 = (Inr (Inr r), s')"
  using assms unfolding consume_def
  by (auto simp: py_bind_Inr_iff verdict_result dest!: r1_transaction_InrD)

text \<open>The checks of an accepted challenge.\<close>

definition accepted :: "r1_lib \<Rightarrow> recon_plan \<Rightarrow> string \<Rightarrow> string option \<Rightarrow> string \<Rightarrow> string option \<Rightarrow> external_authority option \<Rightarrow>
    (string \<times> (pyfloat \<times> pyfloat)) list \<Rightarrow> pyfloat \<Rightarrow> pyfloat \<Rightarrow> challenge_row \<Rightarrow> bool" where
  "accepted lib plan d cd phrase p authority deadlines now mnow ch \<longleftrightarrow>
     ch_status ch = ISSUED \<and> cd = Some d \<and> ch_session_digest ch = d \<and> pf_isfinite now \<and> pf_isfinite mnow \<and>
     (case map_of deadlines (ch_id ch) of None \<Rightarrow> False | Some (issued, expires) \<Rightarrow> \<not> pf_less mnow issued \<and> \<not> pf_le expires mnow) \<and>
     \<not> pf_less now (ch_issued_at ch) \<and> \<not> pf_le (ch_expires_at ch) now \<and> phrase = pb_confirmation_phrase (rp_body plan) \<and>
     challenge_matches_plan ch plan \<and>
     (ch_action ch = ATTEST_EXTERNAL_DELETION \<longrightarrow> p \<noteq> None \<and> attestation_permitted lib ch p authority)"

lemma judge_InrD:
  assumes "judge_challenge lib plan d cd phrase p authority now mnow ch s = (Inr (Inr r), s')"
  shows "accepted lib plan d cd phrase p authority (r1_deadlines s) now mnow ch \<and> accept_challenge lib ch d p now s = (Inr r, s')"
proof -
  have X: "reject_closing ch st code s \<noteq> (Inr (Inr r), s')" for st code
    by (auto simp: reject_closing_def py_Inr_iffs)
  have Y: "py_then m (py_ret (Inl code)) s \<noteq> (Inr (Inr r), s')" for m code
    by (auto simp: py_Inr_iffs)
  have Z: "py_ret (Inl code) s \<noteq> (Inr (Inr r), s')" for code
    by (simp add: py_ret_def)
  show ?thesis using assms unfolding judge_challenge_def accepted_def
    by (auto simp: X Y Z py_bind_def [of "py_get _"] py_get_def split: if_splits option.splits prod.splits)
      (auto simp: py_Inr_iffs)
qed

lemma verdict_InrD:
  assumes "challenge_verdict lib plan d cd ct phrase p authority s = (Inr (Inr r), s')"
  obtains now mnow ch s1 where "r1_db s1 = r1_db s" and "r1_deadlines s1 = r1_deadlines s" and "m1_db s1 = m1_db s" and "ch \<in> set (t_challenges (r1_db s))"
    and "ch_token_digest ch = lib_sha_text lib ct" and "accepted lib plan d cd phrase p authority (r1_deadlines s) now mnow ch"
    and "accept_challenge lib ch d p now s1 = (Inr r, s')"
proof -
  obtain now mnow ch where f: "find (\<lambda>r. ch_token_digest r = lib_sha_text lib ct) (t_challenges (r1_db s)) = Some ch"
    and j: "judge_challenge lib plan d cd phrase p authority now mnow ch (snd (read_monotonic (lib_env lib) (snd (read_clock (lib_env lib) s)))) =
      (Inr (Inr r), s')"
    using assms unfolding challenge_verdict_def
    by (auto simp: py_bind_def read_clock_def read_monotonic_def r1_get_def py_get_def py_ret_def split: option.splits)
  have e: "r1_db (snd (read_monotonic (lib_env lib) (snd (read_clock (lib_env lib) s)))) = r1_db s"
    "r1_deadlines (snd (read_monotonic (lib_env lib) (snd (read_clock (lib_env lib) s)))) = r1_deadlines s"
    "m1_db (snd (read_monotonic (lib_env lib) (snd (read_clock (lib_env lib) s)))) = m1_db s"
    by (simp_all add: read_clock_def read_monotonic_def)
  show thesis
  proof (rule that)
    show "accept_challenge lib ch d p now (snd (read_monotonic (lib_env lib) (snd (read_clock (lib_env lib) s)))) = (Inr r, s')"
      using judge_InrD [OF j] ..
    show "accepted lib plan d cd phrase p authority (r1_deadlines s) now mnow ch" using judge_InrD [OF j] by (simp add: e)
  qed (use f in \<open>auto simp: e find_Some_iff\<close>)
qed

text \<open>
  The tables after a challenge was accepted: its row is consumed, and so is its step-up; its execution is recorded.
\<close>

definition accepted_tables :: "challenge_row \<Rightarrow> consumed_challenge \<Rightarrow> pyfloat \<Rightarrow> r1_tables \<Rightarrow> r1_tables" where
  "accepted_tables ch c now t = t\<lparr>
     t_executions := t_executions t @ [\<lparr>xe_id = cc_execution_id c, xe_challenge_id = ch_id ch, xe_kind = cc_execution_kind c\<rparr>],
     t_challenges := map (\<lambda>r. if ch_id r = ch_id ch \<and> ch_status r = ISSUED then r\<lparr>ch_status := CONSUMED, ch_consumed_at := Some now\<rparr> else r) (t_challenges t),
     t_step_ups := map (\<lambda>u. if su_id u = ch_step_up_id ch then u\<lparr>su_consumed_at := Some now\<rparr> else u) (t_step_ups t)\<rparr>"

text \<open>The attestation of an external deletion: its row, and its target is attested.\<close>

definition attested_tables :: "consumed_challenge \<Rightarrow> string \<Rightarrow> string \<Rightarrow> task_target_row \<Rightarrow> r1_tables \<Rightarrow> r1_tables" where
  "attested_tables c p aid m t = t\<lparr>
     t_attestations := t_attestations t @ [\<lparr>ea_id = aid, ea_execution_id = cc_execution_id c, ea_participant_id = cc_participant_id c,
       ea_receipt_id = cc_withdrawal_receipt_id c, ea_plan_sha256 = cc_plan_sha256 c, ea_task_id = tt_task_id m, ea_target_id = tt_target_id m,
       ea_challenge_id = cc_challenge_id c, ea_procedure_id = p, ea_session_digest = cc_reviewer_session_digest c\<rparr>],
     t_task_targets := map (\<lambda>r. if tt_task_id r = tt_task_id m \<and> tt_target_id r = tt_target_id m
       then r\<lparr>tt_state := EXTERNAL_DELETION_ATTESTED, tt_version := tt_version r + 1, tt_blocker := None\<rparr> else r) (t_task_targets t)\<rparr>"

text \<open>What the acceptance answers and leaves, without and with an attestation.\<close>

definition outcome_of :: "challenge_row \<Rightarrow> consumed_challenge \<Rightarrow> string option \<Rightarrow> (string \<times> string) option \<Rightarrow> pyfloat \<Rightarrow> r1_tables \<Rightarrow> r1_tables \<Rightarrow> bool" where
  "outcome_of ch c p a now t t' = (case p of
     None \<Rightarrow> a = None \<and> t' = accepted_tables ch c now t
   | Some pid \<Rightarrow> ch_action ch = ATTEST_EXTERNAL_DELETION \<and> procedure_current t pid now \<and>
       (\<exists>aid m. m \<in> set (t_task_targets t) \<and> ch_target_id ch = Some (tt_target_id m) \<and> tt_participant_id m = ch_participant_id ch \<and>
          tt_receipt_id m = ch_receipt_id ch \<and> tt_kind m = EXTERNAL_COPY \<and> tt_scope m = EXTERNAL_SCOPE \<and>
          tt_state m \<in> {PENDING_CONFIRMATION, TARGET_RECOVERY_REQUIRED} \<and>
          a = Some (aid, tt_target_id m) \<and> t' = attested_tables c pid aid m (accepted_tables ch c now t)))"

lemma statement_InrD:
  assumes "r1_statement ok f s = (Inr u, s')"
  shows "s' = s\<lparr>r1_db := f (r1_db s)\<rparr>" and "ok (m1_db s) (r1_db s)"
  using assms by (auto simp: r1_statement_def split: if_splits)

lemma update_where_if: "update_where c f xs = map (\<lambda>x. if c x then f x else x) xs"
  by (simp add: update_where_def)

lemma attestation_InrD:
  assumes "insert_external_attestation lib c p now s = (Inr a, s')"
  obtains aid m where "cc_execution_kind c = EXTERNAL_ATTESTATION" "cc_target_id c = Some (tt_target_id m)" "procedure_current (r1_db s) p now"
    "m \<in> set (t_task_targets (r1_db s))" "tt_participant_id m = cc_participant_id c" "tt_receipt_id m = cc_withdrawal_receipt_id c"
    "tt_kind m = EXTERNAL_COPY" "tt_scope m = EXTERNAL_SCOPE" "tt_state m \<in> {PENDING_CONFIRMATION, TARGET_RECOVERY_REQUIRED}"
    "a = (aid, tt_target_id m)" "r1_db s' = attested_tables c p aid m (r1_db s)" "r1_deadlines s' = r1_deadlines s" "m1_db s' = m1_db s"
proof -
  obtain tid where k: "cc_execution_kind c = EXTERNAL_ATTESTATION" "cc_target_id c = Some tid"
    using assms by (auto simp: insert_external_attestation_def py_raise_def split: execution_kind.splits option.splits)
  obtain m where m: "find (\<lambda>m. tt_participant_id m = cc_participant_id c \<and> tt_receipt_id m = cc_withdrawal_receipt_id c \<and> tt_target_id m = tid)
      (t_task_targets (r1_db s)) = Some m"
    using assms k by (auto simp: insert_external_attestation_def py_Inr_iffs rejection_if_def r1_get_def py_raise_def split: option.splits)
  then have f: "m \<in> set (t_task_targets (r1_db s))" "tt_participant_id m = cc_participant_id c" "tt_receipt_id m = cc_withdrawal_receipt_id c"
    "tt_target_id m = tid" by (auto simp: find_Some_iff)
  show thesis
    by (rule that [of m "fst a"])
      (use assms k m f in \<open>auto simp: insert_external_attestation_def py_Inr_iffs rejection_if_def r1_get_def token_urlsafe_def insert_attestation_def
        update_task_targets_def Let_def attested_tables_def update_where_if dest!: statement_InrD(1)\<close>)
qed

lemma accept_InrD:
  assumes "accept_challenge lib ch d p now s = (Inr (c, a), s')" and now: "sql_real now = Some now"
  shows "c = \<lparr>cc_challenge_id = ch_id ch, cc_execution_id = cc_execution_id c, cc_execution_kind = execution_kind_of (ch_action ch),
      cc_participant_id = ch_participant_id ch, cc_withdrawal_receipt_id = ch_receipt_id ch, cc_plan_sha256 = ch_plan_sha256 ch,
      cc_target_id = ch_target_id ch, cc_reviewer_session_digest = d\<rparr>"
    and "cc_execution_id c \<notin> xe_id ` set (t_executions (r1_db s))" and "outcome_of ch c p a now (r1_db s) (r1_db s')"
    and "r1_deadlines s' = AList.delete (ch_id ch) (r1_deadlines s)" and "m1_db s' = m1_db s"
proof -
  let ?c = "\<lambda>xid. \<lparr>cc_challenge_id = ch_id ch, cc_execution_id = xid, cc_execution_kind = execution_kind_of (ch_action ch),
      cc_participant_id = ch_participant_id ch, cc_withdrawal_receipt_id = ch_receipt_id ch, cc_plan_sha256 = ch_plan_sha256 ch,
      cc_target_id = ch_target_id ch, cc_reviewer_session_digest = d\<rparr>"
  obtain tok u where tok: "token_urlsafe (lib_env lib) 18 s = (Inr tok, u)" and rest: "py_then (insert_execution \<lparr>xe_id = ''execution-'' @ tok, xe_challenge_id = ch_id ch, xe_kind = execution_kind_of (ch_action ch)\<rparr> now)
      (py_then (consume_challenge_row (ch_id ch) now) (py_then (consume_step_up (ch_step_up_id ch) now)
      (py_bind (case p of None \<Rightarrow> py_ret None | Some p \<Rightarrow> py_bind (insert_external_attestation lib (?c (''execution-'' @ tok)) p now) (\<lambda>a. py_ret (Some a)))
        (\<lambda>b. py_then (pop_deadline (ch_id ch)) (py_ret (?c (''execution-'' @ tok), b)))))) u = (Inr (c, a), s')"
    using assms(1) unfolding accept_challenge_def Let_def by (rule py_bind_InrD)
  define xid where "xid = ''execution-'' @ tok"
  have u: "r1_db u = r1_db s" "r1_deadlines u = r1_deadlines s" "m1_db u = m1_db s" using tok by (auto simp: token_urlsafe_def)
  obtain s1 s2 s3 s4 where steps: "insert_execution \<lparr>xe_id = xid, xe_challenge_id = ch_id ch, xe_kind = execution_kind_of (ch_action ch)\<rparr> now u = (Inr (), s1)"
      "consume_challenge_row (ch_id ch) now s1 = (Inr (), s2)" "consume_step_up (ch_step_up_id ch) now s2 = (Inr (), s3)"
    and att: "(case p of None \<Rightarrow> py_ret None | Some p \<Rightarrow> py_bind (insert_external_attestation lib (?c xid) p now) (\<lambda>a. py_ret (Some a))) s3 = (Inr a, s4)"
    and pop: "pop_deadline (ch_id ch) s4 = (Inr (), s')" and c: "c = ?c xid"
    using rest unfolding xid_def [symmetric] by (auto simp: py_Inr_iffs)
  note x = statement_InrD [OF steps(1) [unfolded insert_execution_def]]
    statement_InrD(1) [OF steps(2) [unfolded consume_challenge_row_def Let_def]] statement_InrD(1) [OF steps(3) [unfolded consume_step_up_def]]
  have s3: "r1_db s3 = accepted_tables ch c now (r1_db s)" "r1_deadlines s3 = r1_deadlines s" "m1_db s3 = m1_db s"
    using x(1,3,4) u c now by (simp_all add: accepted_tables_def update_where_if)
  have s': "r1_db s' = r1_db s4" "m1_db s' = m1_db s4" "r1_deadlines s' = AList.delete (ch_id ch) (r1_deadlines s4)"
    using pop by (auto simp: pop_deadline_def py_mod_def)
  have out: "outcome_of ch c p a now (r1_db s) (r1_db s') \<and> r1_deadlines s4 = r1_deadlines s \<and> m1_db s4 = m1_db s"
  proof (cases p)
    case None
    then show ?thesis using att s3 s' by (simp add: outcome_of_def py_ret_def)
  next
    case (Some pid)
    then obtain b where b: "insert_external_attestation lib c pid now s3 = (Inr b, s4)" "a = Some b"
      using att c by (auto simp: py_Inr_iffs)
    from b(1) show ?thesis
    proof (cases rule: attestation_InrD)
      case (1 aid m)
      have "ch_action ch = ATTEST_EXTERNAL_DELETION" using 1(1) c by (cases "ch_action ch") simp_all
      moreover have "procedure_current (r1_db s) pid now" using 1(3) s3(1) by (simp add: procedure_current_def accepted_tables_def)
      moreover have "m \<in> set (t_task_targets (r1_db s))" using 1(4) s3(1) by (simp add: accepted_tables_def)
      ultimately show ?thesis using 1 s3 s' b(2) c Some unfolding outcome_of_def by auto
    qed
  qed
  show "c = ?c (cc_execution_id c)" using c by simp
  show "cc_execution_id c \<notin> xe_id ` set (t_executions (r1_db s))" using x(2) u c by simp
  show "outcome_of ch c p a now (r1_db s) (r1_db s')" "r1_deadlines s' = AList.delete (ch_id ch) (r1_deadlines s)" "m1_db s' = m1_db s"
    using out s' by simp_all
qed

subsection \<open>Only under the conditions of its issue\<close>

lemma challenge_consumption:
  assumes "consume lib sid token ct phrase p authority s = (Inr (c, a), s')"
  shows "\<exists>d s1 plan s2 s3 now mnow issued expires ch. session_digest lib token s = (Inr d, s1) \<and> plan_for_session lib sid s1 = (Inr plan, s2) \<and>
    reviewer_digest lib token s2 = (Inr (Some d), s3) \<and> phrase = pb_confirmation_phrase (rp_body plan) \<and>
    ch \<in> set (t_challenges (r1_db s3)) \<and> ch_token_digest ch = lib_sha_text lib ct \<and>
    ch_status ch = ISSUED \<and> ch_session_digest ch = d \<and> ch_plan_sha256 ch = rp_plan_sha256 plan \<and> ch_participant_id ch = rp_participant_id plan \<and>
    ch_receipt_id ch = rp_withdrawal_receipt_id plan \<and> ch_state_version ch = rp_target_state_version plan \<and>
    pf_isfinite now \<and> \<not> pf_less now (ch_issued_at ch) \<and> \<not> pf_le (ch_expires_at ch) now \<and>
    map_of (r1_deadlines s3) (ch_id ch) = Some (issued, expires) \<and> pf_isfinite mnow \<and> \<not> pf_less mnow issued \<and> \<not> pf_le expires mnow \<and>
    (ch_action ch = ATTEST_EXTERNAL_DELETION \<longrightarrow> p \<noteq> None \<and> attestation_permitted lib ch p authority) \<and>
    c = \<lparr>cc_challenge_id = ch_id ch, cc_execution_id = cc_execution_id c, cc_execution_kind = execution_kind_of (ch_action ch),
      cc_participant_id = ch_participant_id ch, cc_withdrawal_receipt_id = ch_receipt_id ch, cc_plan_sha256 = ch_plan_sha256 ch,
      cc_target_id = ch_target_id ch, cc_reviewer_session_digest = d\<rparr> \<and>
    cc_execution_id c \<notin> xe_id ` set (t_executions (r1_db s3)) \<and> outcome_of ch c p a now (r1_db s3) (r1_db s') \<and>
    m1_db s' = m1_db s3 \<and> (\<forall>k. map_of (r1_deadlines s') k = (if k = ch_id ch then None else map_of (r1_deadlines s3) k))"
proof -
  obtain d s1 plan s2 cd s3 where steps: "session_digest lib token s = (Inr d, s1)" "plan_for_session lib sid s1 = (Inr plan, s2)"
      "reviewer_digest lib token s2 = (Inr cd, s3)"
    and v: "challenge_verdict lib plan d cd ct phrase p authority s3 = (Inr (Inr (c, a)), s')"
    using assms by (rule consume_InrD)
  obtain now mnow ch s4 where s4: "r1_db s4 = r1_db s3" "r1_deadlines s4 = r1_deadlines s3" "m1_db s4 = m1_db s3"
    and ch: "ch \<in> set (t_challenges (r1_db s3))" "ch_token_digest ch = lib_sha_text lib ct"
    and acc: "accepted lib plan d cd phrase p authority (r1_deadlines s3) now mnow ch" and take: "accept_challenge lib ch d p now s4 = (Inr (c, a), s')"
    using v by (rule verdict_InrD)
  have now: "sql_real now = Some now" using acc by (auto simp: accepted_def sql_real_def)
  obtain issued expires where dl: "map_of (r1_deadlines s3) (ch_id ch) = Some (issued, expires)" "\<not> pf_less mnow issued" "\<not> pf_le expires mnow"
    using acc by (auto simp: accepted_def split: option.splits)
  have "cd = Some d" using acc by (simp add: accepted_def)
  have a: "ch_status ch = ISSUED" "ch_session_digest ch = d" "pf_isfinite now" "pf_isfinite mnow" "\<not> pf_less now (ch_issued_at ch)"
    "\<not> pf_le (ch_expires_at ch) now" "phrase = pb_confirmation_phrase (rp_body plan)" "ch_participant_id ch = rp_participant_id plan"
    "ch_receipt_id ch = rp_withdrawal_receipt_id plan" "ch_plan_sha256 ch = rp_plan_sha256 plan" "ch_state_version ch = rp_target_state_version plan"
    "ch_action ch = ATTEST_EXTERNAL_DELETION \<longrightarrow> p \<noteq> None \<and> attestation_permitted lib ch p authority"
    using acc by (simp_all add: accepted_def challenge_matches_plan_def)
  have "\<forall>k. map_of (r1_deadlines s') k = (if k = ch_id ch then None else map_of (r1_deadlines s3) k)"
    unfolding accept_InrD(4) [OF take now] by (simp add: s4 delete_conv')
  with steps(1,2) steps(3) [unfolded \<open>cd = Some d\<close>] ch dl accept_InrD [OF take now, unfolded s4] a show ?thesis
    by - (rule exI [of _ d], rule exI [of _ s1], rule exI [of _ plan], rule exI [of _ s2], rule exI [of _ s3], rule exI [of _ now],
        rule exI [of _ mnow], rule exI [of _ issued], rule exI [of _ expires], rule exI [of _ ch], intro conjI; assumption)
qed

lemma consumed_row:
  assumes "outcome_of ch c p a now t t'" and "ch \<in> set (t_challenges t)" and "ch_status ch = ISSUED"
  shows "ch\<lparr>ch_status := CONSUMED, ch_consumed_at := Some now\<rparr> \<in> set (t_challenges t')"
proof -
  have "t_challenges t' = t_challenges (accepted_tables ch c now t)"
    using assms(1) by (auto simp: outcome_of_def attested_tables_def split: option.splits)
  then show ?thesis using assms(2,3) by (force simp: accepted_tables_def)
qed

text \<open>
  Claim C23. A consumption that succeeds was asked for by a live reviewer session, with the phrase and for the plan that hold at that
  moment; its challenge was issued to that session for that plan, receipt and target state, both clocks lie inside its window, and an
  external deletion had its authority. The answer names the challenge, its kind, participant, receipt, plan, target and session, and a
  new execution; in the tables the execution is recorded, the challenge and its step-up are consumed at that moment, with a procedure also the
  attestation of the target that was bound, and nothing else changes; the deadline of the challenge is forgotten, and no other.
\<close>
theorem challenge_consumption_sound:
  assumes "consume lib sid token ct phrase p authority s = (Inr (c, a), s')"
  shows "\<exists>d s1 plan s2 s3 now mnow issued expires ch. session_digest lib token s = (Inr d, s1) \<and> plan_for_session lib sid s1 = (Inr plan, s2) \<and>
    reviewer_digest lib token s2 = (Inr (Some d), s3) \<and> phrase = pb_confirmation_phrase (rp_body plan) \<and>
    ch \<in> set (t_challenges (r1_db s3)) \<and> ch_token_digest ch = lib_sha_text lib ct \<and>
    ch_status ch = ISSUED \<and> ch_session_digest ch = d \<and> ch_plan_sha256 ch = rp_plan_sha256 plan \<and> ch_participant_id ch = rp_participant_id plan \<and>
    ch_receipt_id ch = rp_withdrawal_receipt_id plan \<and> ch_state_version ch = rp_target_state_version plan \<and>
    pf_isfinite now \<and> \<not> pf_less now (ch_issued_at ch) \<and> \<not> pf_le (ch_expires_at ch) now \<and>
    map_of (r1_deadlines s3) (ch_id ch) = Some (issued, expires) \<and> pf_isfinite mnow \<and> \<not> pf_less mnow issued \<and> \<not> pf_le expires mnow \<and>
    (ch_action ch = ATTEST_EXTERNAL_DELETION \<longrightarrow> p \<noteq> None \<and> attestation_permitted lib ch p authority) \<and>
    c = \<lparr>cc_challenge_id = ch_id ch, cc_execution_id = cc_execution_id c, cc_execution_kind = execution_kind_of (ch_action ch),
      cc_participant_id = ch_participant_id ch, cc_withdrawal_receipt_id = ch_receipt_id ch, cc_plan_sha256 = ch_plan_sha256 ch,
      cc_target_id = ch_target_id ch, cc_reviewer_session_digest = d\<rparr> \<and>
    cc_execution_id c \<notin> xe_id ` set (t_executions (r1_db s3)) \<and> outcome_of ch c p a now (r1_db s3) (r1_db s') \<and>
    m1_db s' = m1_db s3 \<and> (\<forall>k. map_of (r1_deadlines s') k = (if k = ch_id ch then None else map_of (r1_deadlines s3) k))"
  using assms by (rule challenge_consumption)

subsection \<open>At most once\<close>

text \<open>
  Claim C22. A challenge is consumed at most once: when a consumption with a token has succeeded, no later one with that token does,
  whatever sessions, phrases, procedures and authorities are presented and whatever requests of the reconciliation
  (new challenges, runs, recovery, restarts of the service) come in between.
\<close>
theorem challenge_is_single_use:
  assumes "challenge_keys (t_challenges (r1_db s))" and "consume lib sid token ct phrase p authority s = (Inr r, s')"
  shows "isl (fst (consume lib sid' token' ct phrase' p' authority' (fold (r1_handle lib os) rs s')))"
proof (rule ccontr)
  let ?t = "fold (r1_handle lib os) rs s'"
  obtain c a where r: "r = (c, a)" by force
  obtain now ch and s3 :: r1_backend where ch: "ch \<in> set (t_challenges (r1_db s3))" "ch_token_digest ch = lib_sha_text lib ct"
      "ch_status ch = ISSUED" "outcome_of ch c p a now (r1_db s3) (r1_db s')"
    using challenge_consumption [OF assms(2) [unfolded r]] by (elim exE conjE) blast
  define ch' where "ch' = ch\<lparr>ch_status := CONSUMED, ch_consumed_at := Some now\<rparr>"
  have "keys.inv s'" using keepsD_eq [OF keys.keeps_consume _ assms(2)] assms(1) by (simp add: on_tables_def)
  then have "closed.inv ch' s'" using consumed_row [OF ch(4,1,3)] by (simp add: on_tables_def closed_challenge_def ch'_def)
  then have t: "closed.inv ch' ?t" by (rule closed.run_inv)
  assume "\<not> isl (fst (consume lib sid' token' ct phrase' p' authority' ?t))"
  then obtain c2 a2 t' where second: "consume lib sid' token' ct phrase' p' authority' ?t = (Inr (c2, a2), t')"
    by (metis prod.exhaust fst_conv isl_def sum.exhaust)
  then obtain d2 u1 plan2 u2 cd2 u3 where u: "session_digest lib token' ?t = (Inr d2, u1)" "plan_for_session lib sid' u1 = (Inr plan2, u2)"
      "reviewer_digest lib token' u2 = (Inr cd2, u3)" and v: "challenge_verdict lib plan2 d2 cd2 ct phrase' p' authority' u3 = (Inr (Inr (c2, a2)), t')"
    by (rule consume_InrD)
  have "closed.inv ch' u3"
    using keepsD_eq [OF closed.keeps_session(2) t u(1)] keepsD_eq [OF keeps_plan_for_session _ u(2)] keepsD_eq [OF closed.keeps_session(1) _ u(3)] by blast
  then have closed: "closed_challenge ch' (t_challenges (r1_db u3))" by (simp add: on_tables_def)
  obtain now2 mnow2 x where x: "x \<in> set (t_challenges (r1_db u3))" "ch_token_digest x = lib_sha_text lib ct"
    and acc: "accepted lib plan2 d2 cd2 phrase' p' authority' (r1_deadlines u3) now2 mnow2 x"
    using v by (rule verdict_InrD)
  have tok: "ch_token_digest ch' = lib_sha_text lib ct" by (simp add: ch'_def ch(2))
  have "x = ch'" by (rule same_token [of "t_challenges (r1_db u3)"]) (use closed x tok in \<open>simp_all add: closed_challenge_def\<close>)
  then show False using closed acc by (simp add: closed_challenge_def accepted_def)
qed

theorem challenge_is_single_use_witness:
  "isl (fst (consume sample_lib ''s'' ''tok'' ''ct'' ''DOI_SOAT P'' None None
     (snd (consume sample_lib ''s'' ''tok'' ''ct'' ''DOI_SOAT P'' None None (sample_state sample_m1_db (sample_tables [] []))))))"
proof -
  let ?s = "sample_state sample_m1_db (sample_tables [] [])"
  obtain r s' where c: "consume sample_lib ''s'' ''tok'' ''ct'' ''DOI_SOAT P'' None None ?s = (Inr r, s')"
    using sample_consumes by (metis prod.exhaust fst_conv isl_def sum.exhaust)
  have "challenge_keys (t_challenges (r1_db ?s))" by (simp add: challenge_keys_def sample_state_def sample_tables_def)
  then have "isl (fst (consume sample_lib ''s'' ''tok'' ''ct'' ''DOI_SOAT P'' None None (fold (r1_handle sample_lib (\<lambda>_. undefined)) [] s')))"
    using c by (rule challenge_is_single_use)
  then show ?thesis by (simp add: c)
qed

theorem challenge_consumption_sound_witness:
  "\<exists>d s1 plan. session_digest sample_lib ''tok'' (sample_state sample_m1_db (sample_tables [] [])) = (Inr d, s1) \<and>
     fst (plan_for_session sample_lib ''s'' s1) = Inr plan \<and> pb_confirmation_phrase (rp_body plan) = ''DOI_SOAT P''"
proof -
  let ?s = "sample_state sample_m1_db (sample_tables [] [])"
  obtain c a s' where c: "consume sample_lib ''s'' ''tok'' ''ct'' ''DOI_SOAT P'' None None ?s = (Inr (c, a), s')"
    using sample_consumes by (metis prod.exhaust fst_conv isl_def sum.exhaust)
  show ?thesis using challenge_consumption_sound [OF c] by (elim exE conjE) (metis fst_conv)
qed

section \<open>Paths\<close>

lemma split_on_no: "c \<notin> set xs \<Longrightarrow> split_on c acc xs = [rev acc @ xs]"
  by (induction xs arbitrary: acc) auto

lemma split_on_sep: "c \<notin> set xs \<Longrightarrow> split_on c acc (xs @ c # ys) = (rev acc @ xs) # split_on c [] ys"
  by (induction xs arbitrary: acc) auto

lemma split_on_sets: "p \<in> set (split_on c acc xs) \<Longrightarrow> c \<notin> set acc \<Longrightarrow> set p \<subseteq> set acc \<union> set xs - {c}"
  by (induction c acc xs arbitrary: p rule: split_on.induct) (fastforce split: if_splits)+

lemma split_on_join:
  "ps \<noteq> [] \<Longrightarrow> \<forall>p \<in> set ps. CHR ''/'' \<notin> set p \<Longrightarrow> split_on CHR ''/'' [] (join_path ps) = ps"
  by (induction ps rule: join_path.induct) (simp_all add: split_on_no split_on_sep)

lemma posix_parts_join:
  "ps \<noteq> [] \<Longrightarrow> \<forall>p \<in> set ps. CHR ''/'' \<notin> set p \<and> p \<noteq> [] \<and> p \<noteq> ''.'' \<Longrightarrow> posix_parts (join_path ps) = ps"
  by (auto simp: posix_parts_def split_on_join filter_id_conv)

lemma set_join_path: "set (join_path ps) \<subseteq> insert CHR ''/'' (\<Union> (set ` set ps))"
  by (induction ps rule: join_path.induct) auto

lemma posix_parts_members:
  "p \<in> set (posix_parts path) \<Longrightarrow> CHR ''/'' \<notin> set p \<and> p \<noteq> [] \<and> p \<noteq> ''.'' \<and> set p \<subseteq> set path"
  using split_on_sets [of p "CHR ''/''" "[]" path] by (auto simp: posix_parts_def)

lemma join_path_hd: "ps \<noteq> [] \<Longrightarrow> hd ps \<noteq> [] \<Longrightarrow> join_path ps \<noteq> [] \<and> hd (join_path ps) = hd (hd ps)"
  by (cases ps rule: join_path.cases) auto

text \<open>
  Claim C24. Normalising a registered path is a round trip: what \<open>_normalized_relative_path\<close> returns is returned unchanged when it is
  normalised again (as every later manifest check does), and the deletion accepts it and takes it apart into the same
  segments. (\<open>p\<close> is in NFC: NFC is stable under dropping empty and dot segments.)
\<close>
theorem normalized_path_round_trip:
  assumes "normalized_relative_path lib v = Inr p" and "lib_nfc lib p = p"
  shows "normalized_relative_path lib p = Inr p \<and> relative_parts p = Inr (posix_parts p) \<and> join_path (posix_parts p) = p"
proof -
  define path where "path = map (\<lambda>c. if c = CHR 0x5C then CHR ''/'' else c) v"
  define ps where "ps = posix_parts path"
  have ps: "ps \<noteq> []" "\<not> list_ex (\<lambda>q. q \<in> {[], ''.'', ''..''}) ps" "\<not> list_ex (part_refused lib) ps" "p = join_path ps"
      "CHR '':'' \<notin> set path"
    using assms(1) by (auto simp: normalized_relative_path_def path_def ps_def Let_def split: if_splits)
  have mem: "\<forall>q \<in> set ps. CHR ''/'' \<notin> set q \<and> q \<noteq> [] \<and> q \<noteq> ''.'' \<and> set q \<subseteq> set path"
    using posix_parts_members unfolding ps_def by blast
  have parts: "posix_parts p = ps" using posix_parts_join [OF ps(1)] mem ps(4) by auto
  have "CHR 0x5C \<notin> set path" by (auto simp: path_def)
  then have chars: "CHR 0x5C \<notin> set p" "CHR '':'' \<notin> set p" using ps(4,5) set_join_path [of ps] mem by auto
  have h: "hd ps \<in> set ps" using ps(1) by simp
  then have "p \<noteq> []" "hd p = hd (hd ps)" using join_path_hd [OF ps(1)] mem ps(4) by auto
  moreover have "hd (hd ps) \<in> set (hd ps)" using h mem by simp
  moreover have "hd p \<in> set p" using calculation(1) by simp
  moreover have "CHR ''/'' \<notin> set (hd ps)" using h mem by blast
  ultimately have hd: "p \<noteq> []" "hd p \<noteq> CHR ''/''" "hd p \<noteq> CHR 0x5C" using chars by metis+
  have same: "map (\<lambda>c. if c = CHR 0x5C then CHR ''/'' else c) p = p" using chars by (auto intro!: map_idI)
  have "\<not> list_ex ends_badly ps" using ps(3) by (auto simp: list_ex_iff part_refused_def)
  then show ?thesis
    using hd chars ps(1-3) assms(2) by (simp add: normalized_relative_path_def relative_parts_def Let_def same parts ps(4) [symmetric])
qed

theorem normalized_path_round_trip_witness:
  "normalized_relative_path sample_lib ''a/b.bin'' = Inr ''a/b.bin'' \<and> relative_parts ''a/b.bin'' = Inr (posix_parts ''a/b.bin'') \<and>
     join_path (posix_parts ''a/b.bin'') = ''a/b.bin''"
proof (rule normalized_path_round_trip)
  show "normalized_relative_path sample_lib [CHR ''a'', CHR 0x5C, CHR ''.'', CHR ''/'', CHR ''b'', CHR ''.'', CHR ''b'', CHR ''i'', CHR ''n''] = Inr ''a/b.bin''"
    by code_simp
  show "lib_nfc sample_lib ''a/b.bin'' = ''a/b.bin''" by (simp add: sample_lib_def)
qed

end
