(* ===== verification/Recon_Outcomes.thy ===== *)
theory Recon_Outcomes
  imports Recon_Guarantees
begin

text \<open>
  What a deletion and a local run can end in: a file is deleted only after it was read twice with the registered
  content through the same handle, and every handle is closed again; a target whose attempt was interrupted before its
  identity was recorded stops every later run of its participant.
\<close>

section \<open>One deletion\<close>

text \<open>What one verification of the open target establishes.\<close>

definition verified_read :: "r1_lib \<Rightarrow> win_os \<Rightarrow> string \<Rightarrow> deletion_target \<Rightarrow> nat \<Rightarrow> file_information \<Rightarrow> predelete_snapshot \<Rightarrow> bool" where
  "verified_read lib os path target n info snap \<longleftrightarrow>
     wo_information os path (Suc n) = Some info \<and> fi_attributes info AND (0x400 OR 0x10) = 0 \<and> fi_links info = 1 \<and>
     (case wo_content os path n of
        None \<Rightarrow> False
      | Some bytes \<Rightarrow> int (length bytes) = dt_expected_byte_size target \<and> lib_sha_text lib bytes = dt_expected_sha256 target) \<and>
     snap = identity_snapshot lib info (dt_expected_byte_size target) (dt_expected_sha256 target)"

lemma verify_target_Inr_iff: "verify_target lib os path target n = Inr (info, snap) \<longleftrightarrow> verified_read lib os path target n info snap"
  by (auto simp: verify_target_def verified_read_def split: option.splits)

lemma check_final_path_InrD:
  "check_final_path os path code = Inr u \<Longrightarrow> \<exists>final resolved. wo_final_path os path = Some final \<and> wo_resolve os path = Inr resolved \<and>
     wo_same_path os final resolved"
  by (auto simp: check_final_path_def split: option.splits sum.splits if_splits)

lemma open_handle_Inr: "open_handle os p d s = (Inr u, s') \<Longrightarrow> r1_handles s' = r1_handles s @ [p]"
  by (auto simp: open_handle_def Let_def split: if_splits option.splits)

lemma open_directories_Inr:
  "open_directories os ds acc s = ((Inr u, acc'), s') \<Longrightarrow> acc' = acc @ ds \<and> r1_handles s' = r1_handles s @ ds"
  by (induction os ds acc s rule: open_directories.induct) (auto split: prod.splits sum.splits dest!: open_handle_Inr)

lemma handles_closed: "mset (r1_handles (fold close_handle ps s)) = mset (r1_handles s) - mset ps"
  by (induction ps arbitrary: s) (auto simp: close_handle_def mset_remove1)

lemma py_lift_Inr_iff: "py_lift r s = (Inr x, s') \<longleftrightarrow> r = Inr x \<and> s' = s"
  by (auto simp: py_lift_def)

lemma delete_open_target_InrD:
  assumes "delete_open_target lib os path target cb s = (Inr u, s')"
  obtains first second snap u' where "check_final_path os path ''TARGET_FINAL_PATH_MISMATCH'' = Inr ()"
    and "verified_read lib os path target 0 first snap" and "verified_read lib os path target 1 second snap"
    and "same_identity first second" and "recovery_identity_ok target snap" and "wo_disposition os" and "cb snap s = (Inr u', s')"
proof -
  have cb: "(case r of (x, s1) \<Rightarrow> (except_Exception x (Inl e), s1)) = (Inr v, t) \<longleftrightarrow> (\<exists>w. r = (Inr w, t))"
    for r :: "(py_error + unit) \<times> r1_backend" and e :: py_error and v t
    by (cases r) (auto simp: except_Exception_def split: sum.splits)
  note d = assms [unfolded delete_open_target_def, simplified py_bind_Inr_iff py_then_Inr_iff py_lift_Inr_iff py_guard_Inr_iff cb]
  then obtain first snap where a: "check_final_path os path ''TARGET_FINAL_PATH_MISMATCH'' = Inr ()"
      "verify_target lib os path target 0 = Inr (first, snap)" and r: "recovery_identity_ok target snap"
    and b: "\<exists>s1. (\<exists>w. cb snap s = (Inr w, s1)) \<and> (\<exists>x. verify_target lib os path target 1 = Inr x \<and>
       (case x of (second, snap2) \<Rightarrow> py_then (py_guard (\<not> same_identity first second \<or> snap2 \<noteq> snap) (blocked ''TARGET_IDENTITY_CHANGED''))
       (py_guard (\<not> wo_disposition os) (blocked ''TARGET_DISPOSITION_FAILED''))) s1 = (Inr u, s'))"
    by (auto simp: py_then_Inr_iff py_bind_Inr_iff py_lift_Inr_iff py_guard_Inr_iff cb)
  from b obtain second w s1 where "cb snap s = (Inr w, s1)" "verify_target lib os path target 1 = Inr (second, snap)" "same_identity first second"
      "wo_disposition os" "s1 = s'"
    by (auto simp: py_then_Inr_iff py_guard_Inr_iff)
  with a r show thesis by (auto intro!: that simp: verify_target_Inr_iff)
qed

text \<open>
  Claim C25. A deletion that succeeds had a path without a way out of its root, opened the file by a handle whose
  final path is the resolved path, read its content twice with the registered size and digest, found one link, no
  directory, no reparse point and the same identity both times, the identity of the earlier attempt if there was one,
  reported the snapshot between the two reads, and found the file gone afterwards; all handles it opened are closed,
  whatever the callback did to the tables.
\<close>
theorem deleted_only_when_read_twice:
  assumes "delete_file lib os target cb s = (Inr u, s')"
    and "\<And>snap t. mset (r1_handles (snd (cb snap t))) = mset (r1_handles t)"
  shows "(\<exists>parts path first second snap. relative_parts (dt_relative_path target) = Inr parts \<and>
      path = join_path (scope_base (dt_root_scope target) @ parts) \<and>
      (\<exists>final resolved. wo_final_path os path = Some final \<and> wo_resolve os path = Inr resolved \<and> wo_same_path os final resolved) \<and>
      verified_read lib os path target 0 first snap \<and> verified_read lib os path target 1 second snap \<and> same_identity first second \<and>
      recovery_identity_ok target snap \<and> (\<exists>t. fst (cb snap t) = Inr ()) \<and> wo_disposition os \<and> wo_lstat os path = Missing) \<and>
    mset (r1_handles s') = mset (r1_handles s)"
proof -
  from assms(1) obtain parts acc s1 s2 s3 where parts: "relative_parts (dt_relative_path target) = Inr parts"
    and dirs: "open_directories os (parent_directories (scope_base (dt_root_scope target)) parts) [] s = ((Inr (), acc), s1)"
    and opened: "open_handle os (join_path (scope_base (dt_root_scope target) @ parts)) False s1 = (Inr (), s2)"
    and del: "delete_open_target lib os (join_path (scope_base (dt_root_scope target) @ parts)) target cb s2 = (Inr (), s3)"
    and gone: "absence_check os (join_path (scope_base (dt_root_scope target) @ parts)) = Inr ()"
    and s': "s' = fold close_handle (rev acc) (close_handle (join_path (scope_base (dt_root_scope target) @ parts)) s3)"
    unfolding delete_file_def Let_def by (auto split: if_splits sum.splits prod.splits)
  define path where "path = join_path (scope_base (dt_root_scope target) @ parts)"
  from del obtain first second snap u' where facts: "check_final_path os path ''TARGET_FINAL_PATH_MISMATCH'' = Inr ()"
      "verified_read lib os path target 0 first snap" "verified_read lib os path target 1 second snap" "same_identity first second"
      "recovery_identity_ok target snap" "wo_disposition os" and cb: "cb snap s2 = (Inr u', s3)"
    unfolding path_def [symmetric] by (rule delete_open_target_InrD)
  have "mset (r1_handles s3) = mset (r1_handles s2)" using assms(2) [of snap s2] by (simp add: cb)
  then have "mset (r1_handles s') = mset (r1_handles s)"
    using open_directories_Inr [OF dirs] open_handle_Inr [OF opened] by (simp add: s' handles_closed close_handle_def mset_remove1)
  moreover have "wo_lstat os path = Missing"
    using gone by (auto simp: absence_check_def path_def split: if_splits lstat_answer.splits)
  moreover have "fst (cb snap s2) = Inr ()" by (simp add: cb)
  ultimately show ?thesis
    using parts facts check_final_path_InrD [OF facts(1)] unfolding path_def by blast
qed

definition sample_file :: file_information where
  "sample_file = \<lparr>fi_attributes = 0x20, fi_volume = 7, fi_size_high = 0, fi_size_low = 3, fi_links = 1, fi_index_high = 1, fi_index_low = 2\<rparr>"

definition sample_os :: win_os where
  "sample_os = \<lparr>wo_attributes = (\<lambda>p. if p = ''a.bin'' then 0x20 else 0x10), wo_create = (\<lambda>_. True),
     wo_information = (\<lambda>p _. Some (if p = ''a.bin'' then sample_file else sample_file\<lparr>fi_attributes := 0x10\<rparr>)),
     wo_final_path = Some, wo_resolve = Inr, wo_same_path = (=), wo_content = (\<lambda>_ _. Some ''abc''), wo_disposition = True,
     wo_absence_hook_raises = False, wo_lstat = (\<lambda>_. Missing)\<rparr>"

definition sample_target :: deletion_target where
  "sample_target = \<lparr>dt_target_id = ''t'', dt_root_scope = RESEARCH_ROOT, dt_relative_path = ''a.bin'', dt_expected_byte_size = 3,
     dt_expected_sha256 = hash64, dt_required_volume = None, dt_required_file = None\<rparr>"

theorem deleted_only_when_read_twice_witness:
  "r1_handles (snd (delete_file sample_lib sample_os sample_target (\<lambda>_. py_ret ()) (sample_state sample_m1_db (sample_tables [] [])))) = []"
proof -
  let ?s = "sample_state sample_m1_db (sample_tables [] [])"
  have "fst (delete_file sample_lib sample_os sample_target (\<lambda>_. py_ret ()) ?s) = Inr ()" by code_simp
  then obtain s' where d: "delete_file sample_lib sample_os sample_target (\<lambda>_. py_ret ()) ?s = (Inr (), s')" by (metis prod.collapse)
  have "mset (r1_handles s') = mset (r1_handles ?s)"
    using deleted_only_when_read_twice [OF d] by (simp add: py_ret_def)
  moreover have "r1_handles ?s = []" by (simp add: sample_state_def)
  ultimately show ?thesis by (simp add: d)
qed

section \<open>Reading the plan leaves the state alone\<close>

lemma keeps_same_transaction: "keeps (\<lambda>x. x = s) m \<Longrightarrow> keeps (\<lambda>x. x = s) (r1_transaction m)"
  by (auto simp: keeps_def r1_transaction_def split: prod.splits sum.splits)

lemma authority_binding_reads: "snd (authority_binding lib c s) = s"
proof -
  have "keeps (\<lambda>x. x = s) (plan_for_session lib sid)" for sid
    unfolding plan_for_session_def by (auto intro!: keeps_intros keeps_same_transaction split: option.split prod.split)
  then have "keeps (\<lambda>x. x = s) (authority_binding lib c)"
    unfolding authority_binding_def plan_for_consumed_def by (auto intro!: keeps_intros split: option.split)
  then show ?thesis by (auto simp: keeps_def)
qed

section \<open>An interrupted target\<close>

text \<open>The target is bound to the withdrawal that the consumed challenge is for.\<close>

definition bound_target :: "m1_db \<Rightarrow> r1_tables \<Rightarrow> consumed_challenge \<Rightarrow> task_target_row \<Rightarrow> bool" where
  "bound_target db t c m \<longleftrightarrow> m \<in> set (t_task_targets t) \<and> is_local (tt_kind m) \<and> find_target t (tt_target_id m) \<noteq> None \<and>
     find_artifact db (tt_artifact_id m) \<noteq> None \<and>
     (case find (\<lambda>w. wr_id w = cc_withdrawal_receipt_id c \<and> wr_participant_id w = cc_participant_id c) (db_receipts db) of
        None \<Rightarrow> False
      | Some w \<Rightarrow> (case plan_subject db (wr_subject_session_id w) of
            Some (p, Some rid) \<Rightarrow> tt_participant_id m = pa_id p \<and> tt_receipt_id m = rid
          | _ \<Rightarrow> False))"

definition no_identity :: "r1_tables \<Rightarrow> string \<Rightarrow> bool" where
  "no_identity t tid \<longleftrightarrow> list_all (\<lambda>a. at_target_id a = tid \<longrightarrow> at_volume a = None) (t_attempts t)"

lemma no_identity_no_snapshot: "no_identity t tid \<Longrightarrow> recovery_snapshot t tid = None"
proof -
  assume "no_identity t tid"
  then have "filter (\<lambda>a. at_target_id a = tid \<and> at_stage a = STAGE_RECOVERY_REQUIRED \<and> at_byte_size a \<noteq> None \<and>
      at_sha256 a \<noteq> None \<and> at_volume a \<noteq> None \<and> at_file a \<noteq> None) (t_attempts t) = []"
    by (auto simp: no_identity_def list_all_iff filter_empty_conv)
  then show ?thesis by (simp add: recovery_snapshot_def)
qed

lemma bound_in_plan:
  assumes "m \<in> set (t_task_targets t)" and "find_target t (tt_target_id m) \<noteq> None" and "find_artifact db (tt_artifact_id m) \<noteq> None"
  shows "plan_target_of m \<in> set (pb_targets (rp_body (build_plan lib db t (tt_participant_id m) ps (tt_receipt_id m))))"
proof -
  obtain g a where "find_target t (tt_target_id m) = Some g" "find_artifact db (tt_artifact_id m) = Some a" using assms(2,3) by blast
  then have "(m, g, ar_status a) \<in> set (target_mappings db t (tt_participant_id m) (tt_receipt_id m))"
    using assms(1) by (force simp: target_mappings_def map_filter_def)
  then show ?thesis by (force simp: build_plan_def Let_def)
qed

lemma lost_target_refuses:
  assumes "bound_target (m1_db s) (r1_db s) c m" and "tt_state m = TARGET_RECOVERY_REQUIRED" and "no_identity (r1_db s) (tt_target_id m)"
  shows "\<exists>e. run_local lib os c authority s = (Inl e, s)"
proof -
  have "authority_binding lib c s \<noteq> (Inr b, s)" for b
  proof
    assume "authority_binding lib c s = (Inr b, s)"
    then obtain plan s' where p: "plan_for_consumed lib c s = (Inr plan, s')"
      and l: "\<not> list_ex (\<lambda>p. pt_target_id p \<in> set (local_target_ids plan) \<and> pt_state p = TARGET_RECOVERY_REQUIRED \<and>
        recovery_snapshot (r1_db s') (pt_target_id p) = None) (pb_targets (rp_body plan))"
      unfolding authority_binding_def by (auto simp: py_Inr_iffs r1_get_def)
    obtain w p rid where w: "find (\<lambda>w. wr_id w = cc_withdrawal_receipt_id c \<and> wr_participant_id w = cc_participant_id c) (db_receipts (m1_db s)) = Some w"
        and sub: "plan_subject (m1_db s) (wr_subject_session_id w) = Some (p, Some rid)"
        and m: "m \<in> set (t_task_targets (r1_db s))" "tt_participant_id m = pa_id p" "tt_receipt_id m = rid" "is_local (tt_kind m)"
          "find_target (r1_db s) (tt_target_id m) \<noteq> None" "find_artifact (m1_db s) (tt_artifact_id m) \<noteq> None"
      using assms(1) by (auto simp: bound_target_def split: option.splits prod.splits)
    have plan: "plan = build_plan lib (m1_db s) (r1_db s) (pa_id p) (pa_pseudonym p) rid" and s': "s' = s"
      using p w sub unfolding plan_for_consumed_def plan_for_session_def
      by (auto simp: py_Inr_iffs r1_get_def require_open_def opaque_def dest!: r1_transaction_InrD split: option.splits if_splits)
    have "plan_target_of m \<in> set (pb_targets (rp_body plan))"
      using bound_in_plan [OF m(1,5,6), of lib "pa_pseudonym p"] by (simp add: plan m(2,3))
    moreover have "pt_target_id (plan_target_of m) \<in> set (local_target_ids plan)"
      using calculation m(4) assms(2) by (force simp: local_target_ids_def plan_target_of_def reconcilable_def)
    ultimately show False
      using l assms(2) no_identity_no_snapshot [OF assms(3)] by (auto simp: s' list_ex_iff plan_target_of_def)
  qed
  then obtain e where "authority_binding lib c s = (Inl e, s)"
    using authority_binding_reads [of lib c s] by (metis prod.collapse sum.exhaust)
  then show ?thesis by (simp add: run_local_def py_bind_def)
qed

text \<open>What recovery changes.\<close>

definition recovered_target :: "task_target_row \<Rightarrow> task_target_row" where
  "recovered_target m = (if tt_state m = IN_PROGRESS
     then m\<lparr>tt_state := TARGET_RECOVERY_REQUIRED, tt_version := tt_version m + 1, tt_blocker := Some ''PROCESS_INTERRUPTED''\<rparr> else m)"

lemma update_in_progress: "update_where (\<lambda>r. tt_state r = IN_PROGRESS)
    (\<lambda>m. m\<lparr>tt_state := TARGET_RECOVERY_REQUIRED, tt_version := tt_version m + 1, tt_blocker := Some ''PROCESS_INTERRUPTED''\<rparr>) ms =
  map recovered_target ms"
  by (simp add: update_where_def recovered_target_def)

definition identities :: "r1_tables \<Rightarrow> (string \<times> string option) list" where
  "identities t = map (\<lambda>a. (at_target_id a, at_volume a)) (t_attempts t)"

lemma no_identity_iff: "no_identity t tid \<longleftrightarrow> (\<forall>v. (tid, Some v) \<notin> set (identities t))"
  by (force simp: no_identity_def identities_def list_all_iff)

lemma recover_effect:
  assumes "recover_reconciliation lib s = (r, s')"
  shows "m1_db s' = m1_db s" and "t_targets (r1_db s') = t_targets (r1_db s)" and "identities (r1_db s') = identities (r1_db s)"
    and "r1_db s' = r1_db s \<or> t_task_targets (r1_db s') = map recovered_target (t_task_targets (r1_db s))"
    and "r = Inr n \<Longrightarrow> t_task_targets (r1_db s') = map recovered_target (t_task_targets (r1_db s))"
  using assms unfolding recover_reconciliation_def
  by (auto simp: py_run read_clock_def update_runs_def update_task_targets_def update_attempts_def Let_def update_where_map identities_def
      update_in_progress split: if_splits prod.splits sum.splits)

lemma recover_lost:
  assumes "recover_reconciliation lib s = (r, s')" and "bound_target (m1_db s) (r1_db s) c m" and "no_identity (r1_db s) (tt_target_id m)"
  shows "tt_state m = TARGET_RECOVERY_REQUIRED \<Longrightarrow> bound_target (m1_db s') (r1_db s') c m"
    and "r = Inr n \<Longrightarrow> bound_target (m1_db s') (r1_db s') c (recovered_target m)"
    and "no_identity (r1_db s') (tt_target_id m)"
proof -
  note e = recover_effect [OF assms(1)]
  have same: "tt_kind (recovered_target m) = tt_kind m" "tt_target_id (recovered_target m) = tt_target_id m"
    "tt_artifact_id (recovered_target m) = tt_artifact_id m" "tt_participant_id (recovered_target m) = tt_participant_id m"
    "tt_receipt_id (recovered_target m) = tt_receipt_id m" by (simp_all add: recovered_target_def)
  show "no_identity (r1_db s') (tt_target_id m)" using assms(3) e(3) by (simp add: no_identity_iff)
  show "bound_target (m1_db s') (r1_db s') c (recovered_target m)" if "r = Inr n"
    using assms(2) e(5) [OF that] unfolding bound_target_def find_target_def same e(1,2) by simp
  show "bound_target (m1_db s') (r1_db s') c m" if st: "tt_state m = TARGET_RECOVERY_REQUIRED"
  proof -
    have "m \<in> set (t_task_targets (r1_db s))" using assms(2) by (simp add: bound_target_def)
    moreover have "recovered_target m = m" by (simp add: recovered_target_def st)
    ultimately have "m \<in> set (t_task_targets (r1_db s'))" using e(4) by (force intro: rev_image_eqI)
    then show ?thesis using assms(2) unfolding bound_target_def find_target_def e(1,2) by simp
  qed
qed

text \<open>
  Claim C26. When a process was interrupted while a local target was in progress and no attempt on it had recorded an identity
  (the attempt row is written before the file is opened), the target can never be deleted: after the
  recovery at the next start, and after any number of further restarts, every run for the withdrawal
  is refused without any change, whatever challenge was confirmed and whatever authority is presented.
\<close>
theorem interrupted_target_blocks_participant:
  assumes "recover_reconciliation lib s = (Inr n, s1)" and "bound_target (m1_db s) (r1_db s) c m" and "tt_state m = IN_PROGRESS"
    and "no_identity (r1_db s) (tt_target_id m)"
  shows "\<exists>e. run_local lib os c authority (((\<lambda>t. snd (recover_reconciliation lib t)) ^^ k) s1) =
    (Inl e, ((\<lambda>t. snd (recover_reconciliation lib t)) ^^ k) s1)"
proof -
  let ?r = "\<lambda>t. snd (recover_reconciliation lib t)"
  define l where "l = recovered_target m"
  have st: "tt_state l = TARGET_RECOVERY_REQUIRED" and tid: "tt_target_id l = tt_target_id m"
    using assms(3) by (simp_all add: l_def recovered_target_def)
  have "bound_target (m1_db ((?r ^^ k) s1)) (r1_db ((?r ^^ k) s1)) c l \<and> no_identity (r1_db ((?r ^^ k) s1)) (tt_target_id l)"
  proof (induction k)
    case 0
    show ?case using recover_lost(2,3) [OF assms(1,2,4)] by (simp add: l_def [symmetric] tid)
  next
    case (Suc k)
    obtain r t where "recover_reconciliation lib ((?r ^^ k) s1) = (r, t)" by fastforce
    with Suc recover_lost(1,3) [of lib _ r t c l] st show ?case by simp
  qed
  then show ?thesis using lost_target_refuses [OF _ st] by blast
qed

definition sample_mapping :: task_target_row where
  "sample_mapping = \<lparr>tt_task_id = ''k'', tt_participant_id = ''p'', tt_receipt_id = ''w'', tt_subject_session_id = ''s'', tt_artifact_id = ''a'',
     tt_artifact_session_id = ''s'', tt_target_id = ''t'', tt_kind = LOCAL_RESEARCH_FILE, tt_scope = RESEARCH_ROOT, tt_state = IN_PROGRESS,
     tt_version = 1, tt_blocker = None\<rparr>"

definition sample_target_row :: target_row where
  "sample_target_row = \<lparr>tg_id = ''t'', tg_artifact_id = ''a'', tg_kind = LOCAL_RESEARCH_FILE, tg_scope = RESEARCH_ROOT, tg_locator_digest = hash64,
     tg_relative_path = Some ''a.bin'', tg_export_id = None, tg_expected_byte_size = Some 3, tg_expected_sha256 = Some hash64,
     tg_manifest_schema_version = 1, tg_manifest_sha256 = hash64\<rparr>"

definition sample_interrupted :: r1_backend where
  "sample_interrupted = sample_state
     (sample_m1_db\<lparr>db_artifacts := [\<lparr>ar_id = ''a'', ar_session_id = ''s'', ar_status = INVALIDATED\<rparr>]\<rparr>)
     ((sample_tables [sample_mapping] [sample_target_row])\<lparr>t_attempts := [\<lparr>at_id = ''x'', at_run_id = ''r'', at_task_id = ''k'', at_target_id = ''t'',
        at_number = 1, at_stage = PREDELETE_PENDING, at_byte_size = None, at_sha256 = None, at_volume = None, at_file = None,
        at_failure_code = None\<rparr>]\<rparr>)"

definition sample_consumed :: consumed_challenge where
  "sample_consumed = \<lparr>cc_challenge_id = ''c'', cc_execution_id = ''e'', cc_execution_kind = LOCAL_RUN, cc_participant_id = ''p'',
     cc_withdrawal_receipt_id = ''w'', cc_plan_sha256 = hash64, cc_target_id = None, cc_reviewer_session_digest = hash64\<rparr>"

theorem interrupted_target_blocks_participant_witness:
  "\<exists>e. fst (run_local sample_lib (\<lambda>_. sample_os) sample_consumed (Some (\<lambda>_. True))
     ((\<lambda>t. snd (recover_reconciliation sample_lib t)) (snd (recover_reconciliation sample_lib sample_interrupted)))) = Inl e"
proof -
  have "\<not> isl (fst (recover_reconciliation sample_lib sample_interrupted))" by code_simp
  then obtain n s1 where r: "recover_reconciliation sample_lib sample_interrupted = (Inr n, s1)"
    by (metis prod.exhaust fst_conv isl_def sum.exhaust)
  have "bound_target (m1_db sample_interrupted) (r1_db sample_interrupted) sample_consumed sample_mapping" by code_simp
  moreover have "tt_state sample_mapping = IN_PROGRESS" by (simp add: sample_mapping_def)
  moreover have "no_identity (r1_db sample_interrupted) (tt_target_id sample_mapping)" by code_simp
  ultimately show ?thesis
    using interrupted_target_blocks_participant [OF r, of sample_consumed sample_mapping "\<lambda>_. sample_os" "Some (\<lambda>_. True)" 1]
    by (auto simp: r)
qed

end
