(* ===== verification/P1_Files.thy ===== *)
theory P1_Files
  imports R1_Targets
begin

text \<open>
  The files of the artifact store (\<open>m2_persistence.py\<close>): the partial, the sealed and the quarantined files with their
  content, and the calls on them. Every call of the operating system and of a test hook may raise or be the last thing the
  process does: \<open>dv_io n\<close> is the answer to the \<open>n\<close>-th call, \<open>dv_close n\<close> that of a descriptor being closed, and \<open>dv_disk n\<close> what
  a file holds after the bytes given were written. Names are compared as NTFS does, up to case folding.
\<close>

datatype io_outcome = Passes | Raises py_error | Exits

datatype place = Partial | Sealed | Quarantine

type_synonym file_name = "place \<times> string"

record p1_device =
  dv_windows :: bool
  dv_root :: string
  dv_io :: "nat \<Rightarrow> io_outcome"
  dv_close :: "nat \<Rightarrow> io_outcome"
  dv_disk :: "nat \<Rightarrow> string \<Rightarrow> string"

record p1_state =
  p1_store :: r1_backend
  p1_files :: "(file_name \<times> string) list"
  p1_io :: nat

definition io_answer :: "io_outcome \<Rightarrow> (p1_state, unit) pyop" where
  "io_answer a s = (case a of Passes \<Rightarrow> Inr () | Raises e \<Rightarrow> Inl e | Exits \<Rightarrow> Inl ProcessExit, s\<lparr>p1_io := Suc (p1_io s)\<rparr>)"

definition external :: "p1_device \<Rightarrow> (p1_state, unit) pyop" where
  "external dev s = io_answer (dv_io dev (p1_io s)) s"

definition close_descriptor :: "p1_device \<Rightarrow> (p1_state, unit) pyop" where
  "close_descriptor dev s = io_answer (dv_close dev (p1_io s)) s"

definition on_store :: "(r1_backend, 'a) pyop \<Rightarrow> (p1_state, 'a) pyop" where
  "on_store m s = (case m (p1_store s) of (r, b) \<Rightarrow> (r, s\<lparr>p1_store := b\<rparr>))"

text \<open>A handler \<open>except OSError\<close> that raises another error.\<close>

definition is_os_error :: "py_error \<Rightarrow> bool" where
  "is_os_error e \<longleftrightarrow> (case e of OSError _ \<Rightarrow> True | FileNotFoundError _ \<Rightarrow> True | _ \<Rightarrow> False)"

definition wrap_os :: "string \<Rightarrow> ('s, 'a) pyop \<Rightarrow> ('s, 'a) pyop" where
  "wrap_os code m s = (case m s of
      (Inl e, s') \<Rightarrow> (Inl (if is_os_error e then PersistenceFailure code else e), s')
    | r \<Rightarrow> r)"

section \<open>Names\<close>

definition backslash :: string where
  "backslash = [CHR 0x5C]"

definition place_directories :: "place \<Rightarrow> string list" where
  "place_directories pl = (case pl of
      Partial \<Rightarrow> [''staging'', ''m2-partials''] | Sealed \<Rightarrow> [''artifacts'', ''m2''] | Quarantine \<Rightarrow> [''operational'', ''quarantine''])"

text \<open>\<open>str(path.relative_to(root))\<close> on Windows, and the same path with slashes.\<close>

definition relative_path :: "file_name \<Rightarrow> string" where
  "relative_path f = concat (map (\<lambda>d. d @ backslash) (place_directories (fst f))) @ snd f"

definition slash_path :: "file_name \<Rightarrow> string" where
  "slash_path f = join_path (place_directories (fst f) @ [snd f])"

definition partial_name :: "string \<Rightarrow> file_name" where
  "partial_name aid = (Partial, aid @ ''.part'')"

definition sealed_name :: "string \<Rightarrow> file_name" where
  "sealed_name aid = (Sealed, aid @ ''.bin'')"

section \<open>Content\<close>

definition file_key :: "r1_lib \<Rightarrow> file_name \<Rightarrow> place \<times> string" where
  "file_key lib f = (fst f, lib_casefold lib (slash_path f))"

definition find_file :: "r1_lib \<Rightarrow> (file_name \<times> string) list \<Rightarrow> file_name \<Rightarrow> string option" where
  "find_file lib files f = map_option snd (find (\<lambda>(g, _). file_key lib g = file_key lib f) files)"

definition drop_file :: "r1_lib \<Rightarrow> file_name \<Rightarrow> (file_name \<times> string) list \<Rightarrow> (file_name \<times> string) list" where
  "drop_file lib f files = filter (\<lambda>(g, _). file_key lib g \<noteq> file_key lib f) files"

definition put_file :: "r1_lib \<Rightarrow> file_name \<Rightarrow> string \<Rightarrow> (file_name \<times> string) list \<Rightarrow> (file_name \<times> string) list" where
  "put_file lib f bytes files = (f, bytes) # drop_file lib f files"

text \<open>\<open>os.replace\<close>.\<close>

definition move_file :: "r1_lib \<Rightarrow> file_name \<Rightarrow> file_name \<Rightarrow> (file_name \<times> string) list \<Rightarrow> (file_name \<times> string) list" where
  "move_file lib f g files = (case find_file lib files f of
      None \<Rightarrow> files | Some bytes \<Rightarrow> put_file lib g bytes (drop_file lib f files))"

lemma find_drop [simp]: "find_file lib (drop_file lib f files) g = (if file_key lib g = file_key lib f then None else find_file lib files g)"
  by (induction files) (auto simp: find_file_def drop_file_def)

lemma find_put [simp]: "find_file lib (put_file lib f b files) g = (if file_key lib g = file_key lib f then Some b else find_file lib files g)"
proof -
  have "find_file lib (put_file lib f b files) g = (if file_key lib f = file_key lib g then Some b else find_file lib (drop_file lib f files) g)"
    by (simp add: find_file_def put_file_def)
  then show ?thesis by auto
qed

lemma find_move:
  "find_file lib (move_file lib f g files) h =
    (if find_file lib files f = None then find_file lib files h
     else if file_key lib h = file_key lib g then find_file lib files f
     else if file_key lib h = file_key lib f then None else find_file lib files h)"
  by (simp add: move_file_def split: option.split)

section \<open>Calls\<close>

definition set_files :: "((file_name \<times> string) list \<Rightarrow> (file_name \<times> string) list) \<Rightarrow> (p1_state, unit) pyop" where
  "set_files f = py_mod (\<lambda>s. s\<lparr>p1_files := f (p1_files s)\<rparr>)"

text \<open>
  \<open>_write_durable\<close>: exclusive creation, then the bytes and \<open>fsync\<close>. On Windows the directory cannot be opened for \<open>fsync\<close>, which only
  sets the durability state that it already has.
\<close>

definition write_durable :: "r1_lib \<Rightarrow> p1_device \<Rightarrow> file_name \<Rightarrow> string \<Rightarrow> (p1_state, unit) pyop" where
  "write_durable lib dev f payload =
     py_then (external dev)
    (py_bind (py_get (\<lambda>s. find_file lib (p1_files s) f \<noteq> None)) (\<lambda>exists.
     py_then (py_guard exists (OSError ''File exists''))
    (py_bind (py_get p1_io) (\<lambda>n.
     py_then (set_files (put_file lib f (dv_disk dev n payload)))
     (external dev)))))"

text \<open>\<open>_hash_file\<close>.\<close>

definition hash_file :: "r1_lib \<Rightarrow> p1_device \<Rightarrow> file_name \<Rightarrow> (p1_state, int \<times> string) pyop" where
  "hash_file lib dev f =
     py_then (external dev)
    (py_bind (py_get (\<lambda>s. find_file lib (p1_files s) f)) (\<lambda>content.
     case content of
       None \<Rightarrow> py_raise (FileNotFoundError (snd f))
     | Some bytes \<Rightarrow> py_ret (int (length bytes), lib_sha_text lib bytes)))"

definition replace_file :: "r1_lib \<Rightarrow> p1_device \<Rightarrow> file_name \<Rightarrow> file_name \<Rightarrow> (p1_state, unit) pyop" where
  "replace_file lib dev f g =
     py_then (external dev)
    (py_bind (py_get (\<lambda>s. find_file lib (p1_files s) f = None)) (\<lambda>missing.
     py_then (py_guard missing (FileNotFoundError (snd f)))
     (set_files (move_file lib f g))))"

text \<open>\<open>_verify_final_guard\<close>; the call before stands for the handle, its type and its identity.\<close>

definition verify_final_guard :: "r1_lib \<Rightarrow> p1_device \<Rightarrow> file_name \<Rightarrow> int \<Rightarrow> string \<Rightarrow> (p1_state, unit) pyop" where
  "verify_final_guard lib dev f size_expected digest = wrap_os ''final object verification failed''
     (py_then (external dev)
     (py_bind (py_get (\<lambda>s. find_file lib (p1_files s) f)) (\<lambda>content.
      case content of
        None \<Rightarrow> py_raise (FileNotFoundError (snd f))
      | Some bytes \<Rightarrow>
          py_then (py_guard (int (length bytes) \<noteq> size_expected) (PersistenceFailure ''final object verification failed''))
          (py_guard (lib_sha_text lib bytes \<noteq> digest) (PersistenceFailure ''final object hash verification failed'')))))"

text \<open>A block that holds a descriptor: \<open>try: m finally: os.close(descriptor)\<close>.\<close>

definition with_descriptor :: "p1_device \<Rightarrow> (p1_state, 'a) pyop \<Rightarrow> (p1_state, 'a) pyop" where
  "with_descriptor dev m s = (case m s of
      (Inl ProcessExit, s') \<Rightarrow> (Inl ProcessExit, s')
    | (r, s') \<Rightarrow> (case close_descriptor dev s' of (Inl e, s'') \<Rightarrow> (Inl e, s'') | (Inr _, s'') \<Rightarrow> (r, s'')))"

definition open_final_guard :: "r1_lib \<Rightarrow> p1_device \<Rightarrow> file_name \<Rightarrow> int \<Rightarrow> string \<Rightarrow> (p1_state, unit) pyop" where
  "open_final_guard lib dev f size_expected digest =
     py_then (wrap_os ''final object could not be guarded'' (external dev))
     (\<lambda>s. case verify_final_guard lib dev f size_expected digest s of
         (Inl ProcessExit, s') \<Rightarrow> (Inl ProcessExit, s')
       | (Inl e, s') \<Rightarrow> (case close_descriptor dev s' of (Inl e', s'') \<Rightarrow> (Inl e', s'') | (Inr _, s'') \<Rightarrow> (Inl e, s''))
       | r \<Rightarrow> r)"

text \<open>\<open>_quarantine\<close>: whether there was a file to move.\<close>

definition quarantine_name :: "r1_lib \<Rightarrow> p1_device \<Rightarrow> file_name \<Rightarrow> string \<Rightarrow> file_name" where
  "quarantine_name lib dev f label =
     (Quarantine, ''m2-'' @ label @ ''-'' @ take 12 (lib_sha_text lib (dv_root dev @ backslash @ relative_path f)) @ ''.quarantine'')"

definition quarantine_file :: "r1_lib \<Rightarrow> p1_device \<Rightarrow> file_name \<Rightarrow> string \<Rightarrow> (p1_state, bool) pyop" where
  "quarantine_file lib dev f label =
     py_bind (py_get (\<lambda>s. find_file lib (p1_files s) f = None)) (\<lambda>missing.
     if missing then py_ret False
     else py_then (external dev)
         (py_then (replace_file lib dev f (quarantine_name lib dev f label)) (py_ret True)))"

end
