(* ===== verification/P1_Persist.thy ===== *)
theory P1_Persist
  imports P1_Files
begin

text \<open>
  The artifact protocol of \<open>M2PersistenceStore\<close> and \<open>ResearchStoreV3.persist\<close>: an intent is recorded, the bytes go to a partial
  file, the file is checked and renamed, and one transaction registers the artifact; a failure moves what is left
  to quarantine, and recovery does so for what a dead process left. The descriptors and handles of
  SQLite itself are not part of the model.
\<close>

section \<open>Intents\<close>

record artifact_intent =
  ai_intent_id :: string
  ai_artifact_id :: string
  ai_session_id :: string
  ai_artifact_kind :: string
  ai_technical_input_kind :: string
  ai_capture_profile_version :: string
  ai_monotonic_timing_origin :: string
  ai_processing_version :: string
  ai_parent_ids :: "string list"
  ai_technical_failure_code :: "string option"

definition ALLOWED_FAILURES :: "string list" where
  "ALLOWED_FAILURES = [''INPUT_UNAVAILABLE'', ''INPUT_MALFORMED'', ''FRAME_STALLED'', ''CLOCK_REGRESSION'', ''POSE_ENGINE_UNAVAILABLE'',
     ''POSE_ENGINE_EXCEPTION'', ''POSE_OUTPUT_INVALID'', ''QUALITY_INSUFFICIENT'', ''ENCODER_UNAVAILABLE'', ''ENCODER_WRITE_FAILED'',
     ''ENCODER_FINALIZE_FAILED'', ''DISK_UNAVAILABLE'', ''DISK_SPACE_INSUFFICIENT'', ''DISK_THROUGHPUT_INSUFFICIENT'', ''DISK_FSYNC_FAILED'',
     ''ATOMIC_RENAME_FAILED'', ''MANIFEST_VALIDATION_FAILED'', ''SCHEMA_INCOMPATIBLE'', ''PRIVACY_STOP'', ''UNKNOWN_TECHNICAL_FAILURE'']"

definition validate_intent :: "artifact_intent \<Rightarrow> ('s, unit) pyop" where
  "validate_intent i =
     py_then (opaque (ai_intent_id i) ''intent id'')
    (py_then (opaque (ai_artifact_id i) ''artifact id'')
    (py_then (opaque (ai_session_id i) ''session id'')
    (py_then (py_guard (ai_artifact_kind i \<noteq> ''TECHNICAL_FIXTURE'') (PersistenceFailure ''artifact kind is not authorized for P1''))
    (py_then (py_guard (ai_technical_input_kind i \<notin> {''DETERMINISTIC_FIXTURE'', ''AI_RENDERED_FIXTURE''})
       (PersistenceFailure ''technical input kind is not authorized for P1''))
    (py_then (py_guard (ai_capture_profile_version i \<notin> {''fixture-profile-v1'', ''ai-rendered-profile-v1''})
       (PersistenceFailure ''capture profile version is not allowlisted for P1''))
    (py_then (py_guard (ai_monotonic_timing_origin i \<notin> {''synthetic-monotonic-v1'', ''ai-rendered-monotonic-v1''})
       (PersistenceFailure ''monotonic timing origin is not allowlisted for P1''))
    (py_then (py_guard (ai_processing_version i \<notin> {''fixture-generator-v1'', ''ai-renderer-v1''})
       (PersistenceFailure ''processing version is not allowlisted for P1''))
    (py_then (py_guard (case ai_technical_failure_code i of None \<Rightarrow> False | Some c \<Rightarrow> c \<notin> set ALLOWED_FAILURES)
       (PersistenceFailure ''technical failure code is not allowlisted''))
    (py_then (py_guard (ai_artifact_id i \<in> set (ai_parent_ids i)) (InvalidTransition ''artifact parent cycle is not allowed''))
    (py_then (py_guard (\<not> distinct (ai_parent_ids i)) (PersistenceFailure ''duplicate artifact parent''))
     (py_for (ai_parent_ids i) (\<lambda>p. opaque p ''parent id''))))))))))))"

definition request_hash :: "r1_lib \<Rightarrow> artifact_intent \<Rightarrow> string \<Rightarrow> string" where
  "request_hash lib i payload = lib_sha lib (JObj
     [(''intent'', JObj
        [(''intent_id'', JStr (ai_intent_id i)), (''artifact_id'', JStr (ai_artifact_id i)), (''session_id'', JStr (ai_session_id i)),
         (''artifact_kind'', JStr (ai_artifact_kind i)), (''technical_input_kind'', JStr (ai_technical_input_kind i)),
         (''capture_profile_version'', JStr (ai_capture_profile_version i)),
         (''monotonic_timing_origin'', JStr (ai_monotonic_timing_origin i)), (''processing_version'', JStr (ai_processing_version i)),
         (''parent_ids'', JArr (map JStr (ai_parent_ids i))), (''technical_failure_code'', opt_str (ai_technical_failure_code i))]),
      (''sha256'', JStr (lib_sha_text lib payload))])"

section \<open>The tables\<close>

definition mutable_retained_refusal :: "m1_db \<Rightarrow> string \<Rightarrow> string option" where
  "mutable_retained_refusal db sid =
     (case find_session db sid of
        None \<Rightarrow> Some ''research session is missing''
      | Some r \<Rightarrow>
          (case session_participant db r of
             None \<Rightarrow> Some ''research session is missing''
           | Some p \<Rightarrow>
               if se_kind r \<noteq> RESEARCH then Some ''research session is missing''
               else if pa_withdrawn_at p \<noteq> None \<or> se_state r = WITHDRAWN \<or> se_collection_blocked r
                 then Some ''Withdrawn or blocked research records cannot be mutated''
               else if sid \<notin> rt_session_id ` set (db_retention db) then Some ''retention decision is required''
               else None))"

definition require_mutable_retained :: "string \<Rightarrow> (r1_backend, unit) pyop" where
  "require_mutable_retained sid = py_bind (r1_get (\<lambda>db _. mutable_retained_refusal db sid)) (\<lambda>refusal.
     case refusal of None \<Rightarrow> py_ret () | Some m \<Rightarrow> py_raise (InvalidTransition m))"

definition m2_parent_refusal :: "m1_db \<Rightarrow> string \<Rightarrow> string \<Rightarrow> string option" where
  "m2_parent_refusal db sid parent =
     (let missing = Some ''artifact parent is missing or invalidated'' in
      case find_artifact db parent of
        None \<Rightarrow> missing
      | Some a \<Rightarrow>
          (case find_session db (ar_session_id a) of
             None \<Rightarrow> missing
           | Some r \<Rightarrow>
               (case session_participant db r of
                  None \<Rightarrow> missing
                | Some p \<Rightarrow> if ar_status a \<noteq> VALID \<or> se_state r = WITHDRAWN \<or> pa_withdrawn_at p \<noteq> None then missing
                    else if ar_session_id a \<noteq> sid then Some ''artifact parent belongs to another session'' else None)))"

definition m2_require_valid_parents :: "string \<Rightarrow> string list \<Rightarrow> (r1_backend, unit) pyop" where
  "m2_require_valid_parents sid parents = py_for parents (\<lambda>parent.
     py_bind (r1_get (\<lambda>db _. m2_parent_refusal db sid parent)) (\<lambda>refusal.
     case refusal of None \<Rightarrow> py_ret () | Some m \<Rightarrow> py_raise (InvalidTransition m)))"

definition insert_m2_intent :: "m2_intent_row \<Rightarrow> pyfloat \<Rightarrow> (r1_backend, unit) pyop" where
  "insert_m2_intent r created = r1_statement
     (\<lambda>db t. mi_id r \<notin> mi_id ` set (t_m2_intents t) \<and> mi_artifact_id r \<notin> mi_artifact_id ` set (t_m2_intents t) \<and>
        mi_partial_path r \<notin> mi_partial_path ` set (t_m2_intents t) \<and> mi_final_path r \<notin> mi_final_path ` set (t_m2_intents t) \<and>
        has_session db (mi_session_id r) \<and> sql_real created \<noteq> None)
     (\<lambda>t. t\<lparr>t_m2_intents := t_m2_intents t @ [r]\<rparr>)"

definition update_m2_intents :: "(m2_intent_row \<Rightarrow> bool) \<Rightarrow> m2_intent_status \<Rightarrow> (r1_backend, unit) pyop" where
  "update_m2_intents c st = r1_statement (\<lambda>_ _. True)
     (\<lambda>t. t\<lparr>t_m2_intents := update_where c (\<lambda>r. r\<lparr>mi_status := st\<rparr>) (t_m2_intents t)\<rparr>)"

definition insert_manifest :: "manifest_row \<Rightarrow> (r1_backend, unit) pyop" where
  "insert_manifest r = r1_statement
     (\<lambda>db t. mf_artifact_id r \<notin> mf_artifact_id ` set (t_manifests t) \<and> has_artifact db (mf_artifact_id r) \<and>
        mf_artifact_kind r = ''TECHNICAL_FIXTURE'' \<and> mf_technical_input_kind r \<in> {''DETERMINISTIC_FIXTURE'', ''AI_RENDERED_FIXTURE''} \<and>
        mf_schema_version r = 2 \<and> mf_relative_path r \<notin> mf_relative_path ` set (t_manifests t) \<and> 0 \<le> mf_byte_size r \<and>
        length (mf_sha256 r) = 64 \<and> sql_real (mf_sealed_at r) \<noteq> None)
     (\<lambda>t. t\<lparr>t_manifests := t_manifests t @ [r]\<rparr>)"

definition artifact_status_str :: "artifact_status \<Rightarrow> string" where
  "artifact_status_str st = (case st of VALID \<Rightarrow> ''VALID'' | INVALIDATED \<Rightarrow> ''INVALIDATED'')"

definition sealed_receipt :: "string \<Rightarrow> (r1_backend, pydict) pyop" where
  "sealed_receipt aid = py_bind (r1_get (\<lambda>db t. (find_manifest t aid, find_artifact db aid))) (\<lambda>row.
     case row of
       (Some m, Some a) \<Rightarrow> py_ret
         [(''artifact_id'', JStr (mf_artifact_id m)), (''artifact_kind'', JStr (mf_artifact_kind m)),
          (''technical_input_kind'', JStr (mf_technical_input_kind m)), (''byte_size'', JInt (mf_byte_size m)), (''sha256'', JStr (mf_sha256 m)),
          (''manifest_schema_version'', JInt (mf_schema_version m)), (''validity_state'', JStr (artifact_status_str (ar_status a))),
          (''sealed_at'', JFloat (mf_sealed_at m)), (''durability_state'', JStr ''PLATFORM_UNSUPPORTED'')]
     | _ \<Rightarrow> py_raise (SchemaIntegrityError ''sealed intent is missing its manifest''))"

definition find_m2_intent :: "r1_tables \<Rightarrow> string \<Rightarrow> m2_intent_row option" where
  "find_m2_intent t iid = find (\<lambda>i. mi_id i = iid) (t_m2_intents t)"

text \<open>\<open>_create_intent\<close>: the receipt of a sealed replay, or none when a new intent was recorded.\<close>

definition create_intent :: "r1_lib \<Rightarrow> artifact_intent \<Rightarrow> string \<Rightarrow> (r1_backend, pydict option) pyop" where
  "create_intent lib i digest = r1_transaction
     (py_bind (r1_get (\<lambda>_ t. find_m2_intent t (ai_intent_id i))) (\<lambda>existing.
      case existing of
        Some row \<Rightarrow>
          py_then (py_guard (mi_request_hash row \<noteq> digest) (PersistenceFailure ''idempotency key was reused with a different request''))
          (if mi_status row = M2_SEALED then py_bind (sealed_receipt (mi_artifact_id row)) (\<lambda>r. py_ret (Some r))
           else py_raise (PersistenceFailure ''intent is already terminal or pending''))
      | None \<Rightarrow>
          py_then (require_mutable_retained (ai_session_id i))
         (py_then (m2_require_valid_parents (ai_session_id i) (ai_parent_ids i))
         (py_bind (r1_get (\<lambda>db _. has_artifact db (ai_artifact_id i))) (\<lambda>exists.
          py_then (py_guard exists (PersistenceFailure ''artifact id already exists''))
         (py_bind (read_clock (lib_env lib)) (\<lambda>now.
          py_then (insert_m2_intent \<lparr>mi_id = ai_intent_id i, mi_session_id = ai_session_id i, mi_artifact_id = ai_artifact_id i,
              mi_partial_path = relative_path (partial_name (ai_artifact_id i)), mi_final_path = relative_path (sealed_name (ai_artifact_id i)),
              mi_request_hash = digest, mi_status = M2_PENDING\<rparr> now)
          (py_ret None))))))))"

section \<open>Failure\<close>

text \<open>\<open>try: \<dots> except OSError: quarantined = False\<close>.\<close>

definition quarantine_both :: "r1_lib \<Rightarrow> p1_device \<Rightarrow> string \<Rightarrow> string \<Rightarrow> (p1_state, bool) pyop" where
  "quarantine_both lib dev aid label =
     py_bind (quarantine_file lib dev (partial_name aid) label) (\<lambda>first.
     py_bind (quarantine_file lib dev (sealed_name aid) label) (\<lambda>second. py_ret (second \<or> first)))"

definition mark_failed :: "r1_lib \<Rightarrow> p1_device \<Rightarrow> string \<Rightarrow> string \<Rightarrow> (p1_state, unit) pyop" where
  "mark_failed lib dev iid aid s =
     (case quarantine_both lib dev aid iid s of
        (Inl e, s1) \<Rightarrow>
          if is_os_error e then on_store (r1_transaction (update_m2_intents (\<lambda>r. mi_id r = iid \<and> mi_status r = M2_PENDING) M2_FAILED)) s1
          else (Inl e, s1)
      | (Inr moved, s1) \<Rightarrow>
          on_store (r1_transaction (update_m2_intents (\<lambda>r. mi_id r = iid \<and> mi_status r = M2_PENDING)
            (if moved then M2_QUARANTINED else M2_FAILED))) s1)"

section \<open>Sealing\<close>

text \<open>A transaction around calls that also touch files: only the tables are restored.\<close>

definition p1_transaction :: "(p1_state, 'a) pyop \<Rightarrow> (p1_state, 'a) pyop" where
  "p1_transaction m s =
     (if \<not> m1_open (p1_store s) then (Inl (ProgrammingError ''Cannot operate on a closed database.''), s)
      else case m s of
        (Inl e, s') \<Rightarrow> (Inl e, s'\<lparr>p1_store := (p1_store s')\<lparr>m1_db := m1_db (p1_store s), r1_db := r1_db (p1_store s)\<rparr>\<rparr>)
      | (Inr x, s') \<Rightarrow> (Inr x, s'))"

definition register_sealed :: "r1_lib \<Rightarrow> artifact_intent \<Rightarrow> int \<Rightarrow> string \<Rightarrow> (r1_backend, unit) pyop" where
  "register_sealed lib i byte_size digest =
     (let aid = ai_artifact_id i; sid = ai_session_id i; path = relative_path (sealed_name aid);
          event = [(''artifact_id'', JStr aid), (''schema_version'', JInt 2)] in
      py_bind (read_clock (lib_env lib)) (\<lambda>now1.
      py_then (db_op (insert_artifact \<lparr>ar_id = aid, ar_session_id = sid, ar_status = VALID\<rparr> now1))
     (py_bind (read_clock (lib_env lib)) (\<lambda>now2.
      py_then (insert_manifest \<lparr>mf_artifact_id = aid, mf_artifact_kind = ai_artifact_kind i, mf_technical_input_kind = ai_technical_input_kind i,
          mf_schema_version = 2, mf_relative_path = path, mf_byte_size = byte_size, mf_sha256 = digest,
          mf_capture_profile_version = ai_capture_profile_version i, mf_monotonic_timing_origin = ai_monotonic_timing_origin i,
          mf_processing_version = ai_processing_version i, mf_technical_failure_code = ai_technical_failure_code i, mf_sealed_at = now2\<rparr>)
     (py_then (after_manifest_insert lib aid path byte_size digest)
     (py_then (py_for (ai_parent_ids i) (\<lambda>parent. db_op (insert_dependency \<lparr>dp_parent = parent, dp_child = aid\<rparr>)))
     (py_bind (read_clock (lib_env lib)) (\<lambda>now3.
      py_bind (db_op (db_append_event now3 sid ''M2ArtifactSealed'' event)) (\<lambda>_.
      py_bind (read_clock (lib_env lib)) (\<lambda>now4.
      py_then (db_op (insert_audit \<lparr>au_id = ''m2-audit-'' @ ai_intent_id i, au_event_type = ''M2_ARTIFACT_SEALED'', au_session_id = Some sid\<rparr> now4))
      (update_m2_intents (\<lambda>r. mi_id r = ai_intent_id i) M2_SEALED)))))))))))"

definition commit_sealed :: "r1_lib \<Rightarrow> p1_device \<Rightarrow> artifact_intent \<Rightarrow> int \<Rightarrow> string \<Rightarrow> (p1_state, pydict) pyop" where
  "commit_sealed lib dev i byte_size digest = p1_transaction
     (py_then (on_store (require_mutable_retained (ai_session_id i)))
     (py_then (on_store (m2_require_valid_parents (ai_session_id i) (ai_parent_ids i)))
     (py_then (verify_final_guard lib dev (sealed_name (ai_artifact_id i)) byte_size digest)
     (py_then (on_store (register_sealed lib i byte_size digest))
     (py_then (external dev)
      (on_store (sealed_receipt (ai_artifact_id i))))))))"

text \<open>\<open>except Exception as exc: raise PersistenceFailure(\<dots>)\<close> around the hook after the rename.\<close>

definition rejecting :: "string \<Rightarrow> ('s, 'a) pyop \<Rightarrow> ('s, 'a) pyop" where
  "rejecting code m s = (case m s of
      (Inl ProcessExit, s') \<Rightarrow> (Inl ProcessExit, s')
    | (Inl _, s') \<Rightarrow> (Inl (PersistenceFailure code), s')
    | r \<Rightarrow> r)"

text \<open>The \<open>try\<close> block of \<open>_persist_locked\<close>; the calls in front of the steps are the fault hook and the hooks before the rename and the commit.\<close>

definition seal_artifact :: "r1_lib \<Rightarrow> p1_device \<Rightarrow> artifact_intent \<Rightarrow> string \<Rightarrow> (p1_state, pydict) pyop" where
  "seal_artifact lib dev i payload =
     (let aid = ai_artifact_id i in
      py_then (external dev)
     (py_then (write_durable lib dev (partial_name aid) payload)
     (py_then (external dev)
     (py_then (external dev)
     (py_bind (hash_file lib dev (partial_name aid)) (\<lambda>(byte_size, digest).
      py_then (py_guard (byte_size \<noteq> int (length payload) \<or> digest \<noteq> lib_sha_text lib payload)
        (PersistenceFailure ''artifact hash verification failed''))
     (py_then (external dev)
     (py_then (external dev)
     (py_then (replace_file lib dev (partial_name aid) (sealed_name aid))
     (py_then (open_final_guard lib dev (sealed_name aid) byte_size digest)
      (with_descriptor dev
       (py_then (rejecting ''final guard rejected post-rename mutation'' (external dev))
       (py_then (verify_final_guard lib dev (sealed_name aid) byte_size digest)
       (py_then (external dev)
        (commit_sealed lib dev i byte_size digest)))))))))))))))"

definition persist_error :: "py_error \<Rightarrow> py_error" where
  "persist_error e = (case e of InvalidTransition _ \<Rightarrow> e | PersistenceFailure _ \<Rightarrow> e
     | _ \<Rightarrow> PersistenceFailure ''artifact write, fsync, rename, or commit failed'')"

definition or_mark_failed :: "r1_lib \<Rightarrow> p1_device \<Rightarrow> artifact_intent \<Rightarrow> (p1_state, 'a) pyop \<Rightarrow> (p1_state, 'a) pyop" where
  "or_mark_failed lib dev i m s = (case m s of
      (Inl ProcessExit, s1) \<Rightarrow> (Inl ProcessExit, s1)
    | (Inl e, s1) \<Rightarrow> py_then (mark_failed lib dev (ai_intent_id i) (ai_artifact_id i)) (py_raise (persist_error e)) s1
    | r \<Rightarrow> r)"

text \<open>What the source of the bytes answers.\<close>

datatype source_answer = SourceBytes string | SourceNotBytes | SourceRaises

definition read_source :: "source_answer \<Rightarrow> py_error + string" where
  "read_source src = (case src of
      SourceRaises \<Rightarrow> Inl (PersistenceFailure ''artifact write source failed'')
    | SourceNotBytes \<Rightarrow> Inl (PersistenceFailure ''artifact bytes are missing or malformed'')
    | SourceBytes payload \<Rightarrow> if payload = [] then Inl (PersistenceFailure ''artifact bytes are missing or malformed'') else Inr payload)"

definition persist_locked :: "r1_lib \<Rightarrow> p1_device \<Rightarrow> artifact_intent \<Rightarrow> source_answer \<Rightarrow> (p1_state, pydict) pyop" where
  "persist_locked lib dev i src =
     py_then (validate_intent i)
    (py_bind (py_lift (read_source src)) (\<lambda>payload.
     py_then (external dev)
    (py_bind (on_store (create_intent lib i (request_hash lib i payload))) (\<lambda>replay.
     case replay of
       Some receipt \<Rightarrow> py_ret receipt
     | None \<Rightarrow> or_mark_failed lib dev i (seal_artifact lib dev i payload)))))"

text \<open>\<open>ResearchStoreV3.persist\<close>, then \<open>M2PersistenceStore.persist\<close> with the directory guards.\<close>

definition persist :: "r1_lib \<Rightarrow> p1_device \<Rightarrow> artifact_intent \<Rightarrow> source_answer \<Rightarrow> (p1_state, pydict) pyop" where
  "persist lib dev i src =
     py_then (validate_intent i)
    (py_then (external dev)
    (py_then (on_store (persist_guard lib (ai_artifact_id i) (relative_path (sealed_name (ai_artifact_id i)))))
    (py_then (py_guard (\<not> dv_windows dev) (PersistenceFailure ''PLATFORM_UNSUPPORTED: artifact sealing is Windows-only''))
    (py_then (external dev)
     (persist_locked lib dev i src)))))"

end
