(* ===== verification/P1_Recover.thy ===== *)
theory P1_Recover
  imports P1_Persist
begin

text \<open>
  What happens to artifacts after they were written: the manifest and the verified read of a sealed artifact, the state of an
  intent, and the recovery that runs when a store is opened (\<open>recover\<close> of \<open>M2PersistenceStore\<close> and of \<open>ResearchStoreV3\<close>).
\<close>

section \<open>Reading\<close>

definition manifest :: "string \<Rightarrow> (r1_backend, pydict) pyop" where
  "manifest aid =
     py_then (opaque aid ''artifact id'')
    (py_bind (py_then require_open (r1_get (\<lambda>db t. (find_manifest t aid, find_artifact db aid)))) (\<lambda>row.
     case row of
       (Some m, Some a) \<Rightarrow> py_ret
         [(''artifact_id'', JStr (mf_artifact_id m)), (''artifact_kind'', JStr (mf_artifact_kind m)),
          (''technical_input_kind'', JStr (mf_technical_input_kind m)), (''manifest_schema_version'', JInt (mf_schema_version m)),
          (''relative_path'', JStr (mf_relative_path m)), (''byte_size'', JInt (mf_byte_size m)), (''sha256'', JStr (mf_sha256 m)),
          (''capture_profile_version'', JStr (mf_capture_profile_version m)), (''monotonic_timing_origin'', JStr (mf_monotonic_timing_origin m)),
          (''processing_version'', JStr (mf_processing_version m)), (''technical_failure_code'', opt_str (mf_technical_failure_code m)),
          (''sealed_at'', JFloat (mf_sealed_at m)), (''validity_state'', JStr (artifact_status_str (ar_status a))),
          (''durability_state'', JStr ''PLATFORM_UNSUPPORTED'')]
     | _ \<Rightarrow> py_raise (KeyError aid)))"

definition manifest_or_none :: "string \<Rightarrow> (r1_backend, pydict option) pyop" where
  "manifest_or_none aid s = (case manifest aid s of
      (Inl (KeyError _), s') \<Rightarrow> (Inr None, s')
    | (Inl e, s') \<Rightarrow> (Inl e, s')
    | (Inr d, s') \<Rightarrow> (Inr (Some d), s'))"

definition m2_status_str :: "m2_intent_status \<Rightarrow> string" where
  "m2_status_str st = (case st of M2_PENDING \<Rightarrow> ''PENDING'' | M2_SEALED \<Rightarrow> ''SEALED'' | M2_FAILED \<Rightarrow> ''FAILED'' | M2_QUARANTINED \<Rightarrow> ''QUARANTINED'')"

definition intent_status_of :: "string \<Rightarrow> (r1_backend, string) pyop" where
  "intent_status_of iid =
     py_then (opaque iid ''intent id'')
    (py_bind (py_then require_open (r1_get (\<lambda>_ t. find_m2_intent t iid))) (\<lambda>found.
     case found of None \<Rightarrow> py_raise (KeyError iid) | Some i \<Rightarrow> py_ret (m2_status_str (mi_status i))))"

text \<open>The block of \<open>read_verified_artifact\<close> that holds the descriptor: the content is read in pieces, never more than the maximum.\<close>

definition read_checked :: "r1_lib \<Rightarrow> p1_device \<Rightarrow> string \<Rightarrow> int \<Rightarrow> int \<Rightarrow> string \<Rightarrow> (p1_state, string) pyop" where
  "read_checked lib dev aid maximum_bytes byte_size digest =
     py_then (external dev)
    (py_bind (py_get (\<lambda>s. find_file lib (p1_files s) (sealed_name aid))) (\<lambda>content.
     case content of
       None \<Rightarrow> py_raise (OSError ''read'')
     | Some payload \<Rightarrow>
         py_then (py_guard (maximum_bytes < int (length payload)) (PersistenceFailure ''artifact exceeds maximum size limit''))
        (py_then (py_guard (int (length payload) \<noteq> byte_size \<or> lib_sha_text lib payload \<noteq> digest)
           (PersistenceFailure ''artifact read verification failed''))
        (py_then (verify_final_guard lib dev (sealed_name aid) byte_size digest)
         (py_ret payload)))))"

text \<open>\<open>maximum_bytes\<close> is none when the argument is not an integer.\<close>

definition read_verified_artifact :: "r1_lib \<Rightarrow> p1_device \<Rightarrow> string \<Rightarrow> int option \<Rightarrow> (p1_state, string) pyop" where
  "read_verified_artifact lib dev aid maximum =
     py_then (opaque aid ''artifact id'')
    (case maximum of
       None \<Rightarrow> py_raise (PersistenceFailure ''artifact maximum size is invalid'')
     | Some maximum_bytes \<Rightarrow>
         py_then (py_guard (maximum_bytes \<le> 0) (PersistenceFailure ''artifact maximum size is invalid''))
        (py_then (py_guard (\<not> dv_windows dev) (PersistenceFailure ''PLATFORM_UNSUPPORTED: artifact verification is Windows-only''))
        (py_then (external dev)
        (py_bind (on_store (py_then require_open (r1_get (\<lambda>db t. (find_manifest t aid, find_artifact db aid))))) (\<lambda>row.
         case row of
           (Some m, Some a) \<Rightarrow>
             py_then (py_guard (ar_status a \<noteq> VALID) (PersistenceFailure ''artifact validity is not readable''))
            (py_then (external dev)
            (py_then (py_guard (mf_relative_path m \<noteq> relative_path (sealed_name aid)) (PersistenceFailure ''artifact manifest path is inconsistent''))
            (py_then (py_guard (maximum_bytes < mf_byte_size m) (PersistenceFailure ''artifact exceeds maximum size limit''))
            (py_then (open_final_guard lib dev (sealed_name aid) (mf_byte_size m) (mf_sha256 m))
             (with_descriptor dev (read_checked lib dev aid maximum_bytes (mf_byte_size m) (mf_sha256 m)))))))
         | _ \<Rightarrow> py_raise (KeyError aid))))))"

section \<open>Recovery\<close>

definition unsettled :: "m2_intent_row \<Rightarrow> bool" where
  "unsettled r \<longleftrightarrow> mi_status r \<in> {M2_PENDING, M2_FAILED}"

definition block_session :: "r1_lib \<Rightarrow> string \<Rightarrow> string \<Rightarrow> (r1_backend, unit) pyop" where
  "block_session lib iid sid =
     py_bind (r1_get (\<lambda>db _. find_session db sid)) (\<lambda>found.
     case found of
       None \<Rightarrow> py_ret ()
     | Some r \<Rightarrow>
         if se_state r = WITHDRAWN then py_ret ()
         else
           py_then (db_op (py_mod (update_sessions (\<lambda>x. se_id x = sid) (\<lambda>x. x\<lparr>se_state := FAILED, se_collection_blocked := True\<rparr>))))
          (py_bind (read_clock (lib_env lib)) (\<lambda>now1.
           py_bind (db_op (db_append_event now1 sid ''M2IntentQuarantined'' [(''intent_id'', JStr iid)])) (\<lambda>_.
           py_bind (read_clock (lib_env lib)) (\<lambda>now2.
           db_op (insert_audit \<lparr>au_id = ''m2-recovery-'' @ iid, au_event_type = ''M2_INTENT_QUARANTINED'', au_session_id = Some sid\<rparr> now2))))))"

definition terminalize_recovery :: "r1_lib \<Rightarrow> string \<Rightarrow> string \<Rightarrow> (r1_backend, unit) pyop" where
  "terminalize_recovery lib iid sid = r1_transaction
     (py_bind (read_clock (lib_env lib)) (\<lambda>_.
      py_then (update_m2_intents (\<lambda>r. mi_id r = iid \<and> unsettled r) M2_QUARANTINED)
      (block_session lib iid sid)))"

definition recover_row :: "r1_lib \<Rightarrow> p1_device \<Rightarrow> m2_intent_row \<Rightarrow> (p1_state, bool) pyop" where
  "recover_row lib dev r =
     py_then (external dev)
    (py_bind (if mi_partial_path r = relative_path (partial_name (mi_artifact_id r)) \<and> mi_final_path r = relative_path (sealed_name (mi_artifact_id r))
        then quarantine_both lib dev (mi_artifact_id r) (mi_id r) else py_ret False) (\<lambda>moved.
     py_then (on_store (terminalize_recovery lib (mi_id r) (mi_session_id r)))
     (py_ret moved)))"

fun recover_rows :: "r1_lib \<Rightarrow> p1_device \<Rightarrow> m2_intent_row list \<Rightarrow> (p1_state, int) pyop" where
  "recover_rows lib dev [] = py_ret 0"
| "recover_rows lib dev (r # rs) =
     py_bind (recover_row lib dev r) (\<lambda>moved.
     py_bind (recover_rows lib dev rs) (\<lambda>n. py_ret (n + (if moved then 1 else 0))))"

text \<open>\<open>final_dir.glob("*.bin")\<close> and the stem of a name.\<close>

definition glob_bin :: "r1_lib \<Rightarrow> (file_name \<times> string) list \<Rightarrow> file_name list" where
  "glob_bin lib files = filter (\<lambda>(pl, n). pl = Sealed \<and> drop (length n - 4) (lib_casefold lib n) = ''.bin'') (map fst files)"

definition stem :: "string \<Rightarrow> string" where
  "stem n = take (length n - 4) n"

definition recover_orphan :: "r1_lib \<Rightarrow> p1_device \<Rightarrow> file_name \<Rightarrow> (p1_state, bool) pyop" where
  "recover_orphan lib dev f =
     py_bind (on_store (py_then require_open (r1_get (\<lambda>_ t. find_manifest t (stem (snd f)) = None)))) (\<lambda>unknown.
     if unknown then quarantine_file lib dev f ''orphan'' else py_ret False)"

fun recover_orphans :: "r1_lib \<Rightarrow> p1_device \<Rightarrow> file_name list \<Rightarrow> (p1_state, int) pyop" where
  "recover_orphans lib dev [] = py_ret 0"
| "recover_orphans lib dev (f # fs) =
     py_bind (recover_orphan lib dev f) (\<lambda>moved.
     py_bind (recover_orphans lib dev fs) (\<lambda>n. py_ret (n + (if moved then 1 else 0))))"

definition recover_guarded :: "r1_lib \<Rightarrow> p1_device \<Rightarrow> (p1_state, int) pyop" where
  "recover_guarded lib dev =
     py_bind (on_store (py_then require_open (r1_get (\<lambda>_ t. filter unsettled (t_m2_intents t))))) (\<lambda>rows.
     py_bind (recover_rows lib dev rows) (\<lambda>n.
     py_then (external dev)
    (py_bind (py_get (\<lambda>s. glob_bin lib (p1_files s))) (\<lambda>orphans.
     py_bind (recover_orphans lib dev orphans) (\<lambda>k. py_ret (n + k))))))"

text \<open>The numbers of quarantined files and of interrupted reconciliation runs.\<close>

definition recover :: "r1_lib \<Rightarrow> p1_device \<Rightarrow> (p1_state, int \<times> int) pyop" where
  "recover lib dev =
     py_then (if dv_windows dev then external dev else py_ret ())
    (py_bind (recover_guarded lib dev) (\<lambda>n.
     py_bind (on_store (recover_reconciliation lib)) (\<lambda>k. py_ret (n, k))))"

end
