(* ===== verification/P1_Properties.thy ===== *)
theory P1_Properties
  imports P1_Recover Recon_Outcomes
begin

text \<open>
  The invariant of the artifact store: the file of every registered artifact is there, under its own name, with the
  registered size and digest. Each call keeps it, with its failures, and so do sealing and recovery.
\<close>

section \<open>The invariant\<close>

text \<open>The file that a name reaches, with the name it carries.\<close>

definition file_entry :: "r1_lib \<Rightarrow> (file_name \<times> string) list \<Rightarrow> file_name \<Rightarrow> (file_name \<times> string) option" where
  "file_entry lib files f = find (\<lambda>(g, _). file_key lib g = file_key lib f) files"

definition sealed_ok :: "r1_lib \<Rightarrow> (file_name \<times> string) list \<Rightarrow> manifest_row \<Rightarrow> bool" where
  "sealed_ok lib files m \<longleftrightarrow> (case file_entry lib files (sealed_name (mf_artifact_id m)) of
      None \<Rightarrow> False
    | Some (g, bytes) \<Rightarrow> g = sealed_name (mf_artifact_id m) \<and> int (length bytes) = mf_byte_size m \<and> lib_sha_text lib bytes = mf_sha256 m)"

definition seal_key :: "r1_lib \<Rightarrow> string \<Rightarrow> place \<times> string" where
  "seal_key lib aid = file_key lib (sealed_name aid)"

definition registered :: "r1_tables \<Rightarrow> string \<Rightarrow> bool" where
  "registered t aid \<longleftrightarrow>
     (\<exists>i \<in> set (t_m2_intents t). mi_artifact_id i = aid \<and> mi_status i = M2_SEALED) \<and>
     (\<exists>g \<in> set (t_targets t). tg_artifact_id g = aid \<and> tg_relative_path g = Some (slash_path (sealed_name aid)))"

definition intents_ok :: "r1_lib \<Rightarrow> r1_tables \<Rightarrow> bool" where
  "intents_ok lib t \<longleftrightarrow> distinct (map mi_id (t_m2_intents t)) \<and> distinct (map mi_artifact_id (t_m2_intents t)) \<and>
     (\<forall>i \<in> set (t_m2_intents t). unsettled i \<longrightarrow> (\<forall>m \<in> set (t_manifests t). seal_key lib (mi_artifact_id i) \<noteq> seal_key lib (mf_artifact_id m)))"

definition files_distinct :: "r1_lib \<Rightarrow> (file_name \<times> string) list \<Rightarrow> bool" where
  "files_distinct lib files \<longleftrightarrow> distinct (map (\<lambda>(g, _). file_key lib g) files)"

definition intact :: "r1_lib \<Rightarrow> p1_state \<Rightarrow> bool" where
  "intact lib s \<longleftrightarrow>
     (let t = r1_db (p1_store s) in
      (\<forall>m \<in> set (t_manifests t). sealed_ok lib (p1_files s) m \<and> has_artifact (m1_db (p1_store s)) (mf_artifact_id m) \<and> registered t (mf_artifact_id m)) \<and>
      intents_ok lib t \<and> files_distinct lib (p1_files s))"

lemma file_entry_put:
  "file_entry lib (put_file lib f b files) g = (if file_key lib g = file_key lib f then Some (f, b) else file_entry lib files g)"
proof -
  have "find (\<lambda>(h, _). file_key lib h = file_key lib g) (drop_file lib f files) = (if file_key lib g = file_key lib f then None else file_entry lib files g)"
    by (induction files) (auto simp: drop_file_def file_entry_def)
  then show ?thesis by (auto simp: file_entry_def put_file_def)
qed

lemma file_entry_drop:
  "file_entry lib (drop_file lib f files) g = (if file_key lib g = file_key lib f then None else file_entry lib files g)"
  by (induction files) (auto simp: drop_file_def file_entry_def)

lemma find_file_entry: "find_file lib files f = map_option snd (file_entry lib files f)"
  by (simp add: find_file_def file_entry_def)

lemma file_entry_move:
  "file_key lib h \<noteq> file_key lib f \<Longrightarrow> file_key lib h \<noteq> file_key lib g \<Longrightarrow> file_entry lib (move_file lib f g files) h = file_entry lib files h"
  by (auto simp: move_file_def file_entry_put file_entry_drop split: option.split)

lemma drop_distinct [simp]: "files_distinct lib files \<Longrightarrow> files_distinct lib (drop_file lib f files)"
  by (simp add: files_distinct_def drop_file_def distinct_map_filter)

lemma put_distinct [simp]: "files_distinct lib files \<Longrightarrow> files_distinct lib (put_file lib f b files)"
proof -
  assume "files_distinct lib files"
  then have "files_distinct lib (drop_file lib f files)" by simp
  then show ?thesis by (auto simp: files_distinct_def put_file_def drop_file_def)
qed

lemma move_distinct [simp]: "files_distinct lib files \<Longrightarrow> files_distinct lib (move_file lib f g files)"
  by (auto simp: move_file_def split: option.split)

text \<open>What is written at other keys does not concern a sealed file.\<close>

lemma sealed_ok_put: "file_key lib f \<noteq> seal_key lib (mf_artifact_id m) \<Longrightarrow> sealed_ok lib (put_file lib f b files) m = sealed_ok lib files m"
  by (auto simp: sealed_ok_def seal_key_def file_entry_put)

lemma sealed_ok_move:
  "file_key lib f \<noteq> seal_key lib (mf_artifact_id m) \<Longrightarrow> file_key lib g \<noteq> seal_key lib (mf_artifact_id m) \<Longrightarrow>
   sealed_ok lib (move_file lib f g files) m = sealed_ok lib files m"
  by (simp add: sealed_ok_def seal_key_def file_entry_move)

lemma other_place [simp]:
  "file_key lib (partial_name a) \<noteq> seal_key lib b" "file_key lib (quarantine_name lib dev f l) \<noteq> seal_key lib b"
  by (simp_all add: file_key_def seal_key_def partial_name_def sealed_name_def quarantine_name_def)

section \<open>Operations that touch no registered file\<close>

text \<open>The tables are as given, and no registered file has one of the keys.\<close>

definition apart :: "r1_lib \<Rightarrow> string list \<Rightarrow> r1_tables \<Rightarrow> bool" where
  "apart lib aids t \<longleftrightarrow> (\<forall>a \<in> set aids. \<forall>m \<in> set (t_manifests t). seal_key lib a \<noteq> seal_key lib (mf_artifact_id m))"

definition calm :: "r1_lib \<Rightarrow> string list \<Rightarrow> r1_backend \<Rightarrow> p1_state \<Rightarrow> bool" where
  "calm lib aids b s \<longleftrightarrow> intact lib s \<and> p1_store s = b \<and> apart lib aids (r1_db b)"

lemma intact_cong: "intact lib s \<Longrightarrow> p1_store t = p1_store s \<Longrightarrow> p1_files t = p1_files s \<Longrightarrow> intact lib t"
  by (simp add: intact_def)

lemma keeps_io [keeps_intros]: "keeps (calm lib aids b) (io_answer a)"
  by (auto simp: keeps_def io_answer_def calm_def intact_def Let_def)

lemma keeps_external [keeps_intros]: "keeps (calm lib aids b) (external dev)"
  and keeps_close_descriptor [keeps_intros]: "keeps (calm lib aids b) (close_descriptor dev)"
  using keeps_io by (auto simp: keeps_def external_def close_descriptor_def)

lemma keeps_py_get [keeps_intros]: "keeps P (py_get f)"
  by (simp add: keeps_def py_get_def)

lemma keeps_wrap_os [keeps_intros]: "keeps P m \<Longrightarrow> keeps P (wrap_os code m)"
  by (auto intro!: keepsI dest!: keepsD [of P m] simp: wrap_os_def split: prod.split sum.split)

lemma keeps_set_files:
  assumes "\<And>files. files_distinct lib files \<Longrightarrow> files_distinct lib (g files)"
    and "\<And>files m. apart lib aids (r1_db b) \<Longrightarrow> m \<in> set (t_manifests (r1_db b)) \<Longrightarrow> sealed_ok lib files m \<Longrightarrow> sealed_ok lib (g files) m"
  shows "keeps (calm lib aids b) (set_files g)"
  using assms by (auto simp: keeps_def set_files_def py_mod_def calm_def intact_def Let_def)

lemma keeps_write_durable [keeps_intros]: "keeps (calm lib aids b) (write_durable lib dev (partial_name a) payload)"
  unfolding write_durable_def by (intro keeps_intros keeps_set_files) (auto simp: sealed_ok_put)

lemma keeps_hash_file [keeps_intros]: "keeps (calm lib aids b) (hash_file lib dev f)"
  unfolding hash_file_def by (auto intro!: keeps_intros split: option.split)

lemma keeps_replace_file:
  assumes "\<And>m. apart lib aids (r1_db b) \<Longrightarrow> m \<in> set (t_manifests (r1_db b)) \<Longrightarrow>
    file_key lib f \<noteq> seal_key lib (mf_artifact_id m) \<and> file_key lib g \<noteq> seal_key lib (mf_artifact_id m)"
  shows "keeps (calm lib aids b) (replace_file lib dev f g)"
  unfolding replace_file_def by (intro keeps_intros keeps_set_files) (use assms in \<open>auto simp: sealed_ok_move\<close>)

lemma keeps_verify [keeps_intros]: "keeps (calm lib aids b) (verify_final_guard lib dev f n d)"
  unfolding verify_final_guard_def by (auto intro!: keeps_intros split: option.split)

lemma keeps_open_guard [keeps_intros]: "keeps (calm lib aids b) (open_final_guard lib dev f n d)"
proof -
  have "keeps (calm lib aids b) (\<lambda>s. case verify_final_guard lib dev f n d s of
         (Inl ProcessExit, s') \<Rightarrow> (Inl ProcessExit, s')
       | (Inl e, s') \<Rightarrow> (case close_descriptor dev s' of (Inl e', s'') \<Rightarrow> (Inl e', s'') | (Inr _, s'') \<Rightarrow> (Inl e, s''))
       | r \<Rightarrow> r)"
  proof (rule keepsI)
    fix s assume s: "calm lib aids b s"
    obtain r s1 where v: "verify_final_guard lib dev f n d s = (r, s1)" by fastforce
    obtain r2 s2 where c: "close_descriptor dev s1 = (r2, s2)" by fastforce
    have "calm lib aids b s1" using keeps_verify s v by (rule keepsD_eq)
    moreover from this have "calm lib aids b s2" using keeps_close_descriptor c keepsD_eq by metis
    ultimately show "calm lib aids b (snd (case verify_final_guard lib dev f n d s of
         (Inl ProcessExit, s') \<Rightarrow> (Inl ProcessExit, s')
       | (Inl e, s') \<Rightarrow> (case close_descriptor dev s' of (Inl e', s'') \<Rightarrow> (Inl e', s'') | (Inr _, s'') \<Rightarrow> (Inl e, s''))
       | r \<Rightarrow> r))"
      by (auto simp: v c split: sum.split py_error.split)
  qed
  then show ?thesis unfolding open_final_guard_def by (intro keeps_intros)
qed

lemma keeps_rejecting [keeps_intros]: "keeps P m \<Longrightarrow> keeps P (rejecting code m)"
  by (auto intro!: keepsI dest!: keepsD [of P m] simp: rejecting_def split: prod.split sum.split py_error.split)

lemma seal_key_member: "a \<in> set aids \<Longrightarrow> apart lib aids t \<Longrightarrow> m \<in> set (t_manifests t) \<Longrightarrow> seal_key lib a \<noteq> seal_key lib (mf_artifact_id m)"
  by (auto simp: apart_def)

lemma keeps_quarantine_file:
  assumes "\<And>m. apart lib aids (r1_db b) \<Longrightarrow> m \<in> set (t_manifests (r1_db b)) \<Longrightarrow> file_key lib f \<noteq> seal_key lib (mf_artifact_id m)"
  shows "keeps (calm lib aids b) (quarantine_file lib dev f l)"
  unfolding quarantine_file_def by (intro keeps_intros keeps_replace_file) (use assms in auto)

lemma keeps_quarantine_both: "a \<in> set aids \<Longrightarrow> keeps (calm lib aids b) (quarantine_both lib dev a l)"
  unfolding quarantine_both_def
  by (intro keeps_intros keeps_quarantine_file) (auto simp: seal_key_member seal_key_def [symmetric])

section \<open>Operations that change no file\<close>

lemma keeps_files_io [keeps_intros]: "keeps (\<lambda>s. p1_files s = F) (io_answer a)"
  by (simp add: keeps_def io_answer_def)

lemma keeps_files_external [keeps_intros]: "keeps (\<lambda>s. p1_files s = F) (external dev)"
  by (simp add: keeps_def io_answer_def external_def)

lemma keeps_files_close [keeps_intros]: "keeps (\<lambda>s. p1_files s = F) (close_descriptor dev)"
  by (simp add: keeps_def io_answer_def close_descriptor_def)

lemma keeps_files_store [keeps_intros]: "keeps (\<lambda>s. p1_files s = F) (on_store m)"
  by (simp add: keeps_def on_store_def split: prod.split)

lemma keeps_files_verify [keeps_intros]: "keeps (\<lambda>s. p1_files s = F) (verify_final_guard lib dev f n d)"
  unfolding verify_final_guard_def by (auto intro!: keeps_intros split: option.split)

lemma keeps_files_open [keeps_intros]: "keeps (\<lambda>s. p1_files s = F) (open_final_guard lib dev f n d)"
proof -
  have "p1_files (snd (verify_final_guard lib dev f n d s)) = p1_files s" for s
    using keeps_files_verify [of "p1_files s"] by (auto simp: keeps_def)
  then show ?thesis
    unfolding open_final_guard_def
    by (intro keeps_intros keepsI)
      (auto simp: close_descriptor_def io_answer_def split: prod.split sum.split py_error.split; metis snd_conv)
qed

lemma verify_InrD:
  assumes "verify_final_guard lib dev f n d s = (Inr u, s')"
  shows "\<exists>bytes. find_file lib (p1_files s) f = Some bytes \<and> int (length bytes) = n \<and> lib_sha_text lib bytes = d \<and>
    p1_files s' = p1_files s \<and> p1_store s' = p1_store s"
  using assms unfolding verify_final_guard_def wrap_os_def
  by (auto simp: py_run external_def io_answer_def split: prod.splits sum.splits option.splits if_splits io_outcome.splits)

section \<open>Sealing\<close>

text \<open>While an artifact is being sealed: its intent is recorded, and no registered or unsettled artifact shares its file name.\<close>

definition no_variant :: "r1_lib \<Rightarrow> string \<Rightarrow> r1_tables \<Rightarrow> bool" where
  "no_variant lib aid t \<longleftrightarrow>
     (\<forall>j \<in> set (t_m2_intents t). unsettled j \<longrightarrow> seal_key lib (mi_artifact_id j) = seal_key lib aid \<longrightarrow> mi_artifact_id j = aid)"

definition ready :: "r1_lib \<Rightarrow> artifact_intent \<Rightarrow> p1_state \<Rightarrow> bool" where
  "ready lib i s \<longleftrightarrow> intact lib s \<and> apart lib [ai_artifact_id i] (r1_db (p1_store s)) \<and> no_variant lib (ai_artifact_id i) (r1_db (p1_store s)) \<and>
     (\<exists>j \<in> set (t_m2_intents (r1_db (p1_store s))). mi_id j = ai_intent_id i \<and> mi_artifact_id j = ai_artifact_id i)"

definition named :: "r1_lib \<Rightarrow> artifact_intent \<Rightarrow> p1_state \<Rightarrow> bool" where
  "named lib i s \<longleftrightarrow> (case file_entry lib (p1_files s) (sealed_name (ai_artifact_id i)) of None \<Rightarrow> True | Some (g, _) \<Rightarrow> g = sealed_name (ai_artifact_id i))"

lemma keeps_ready: "(\<And>b. keeps (calm lib [ai_artifact_id i] b) m) \<Longrightarrow> keeps (ready lib i) m"
  by (auto simp: keeps_def calm_def ready_def)

lemma keeps_ready_named:
  assumes "\<And>b. keeps (calm lib [ai_artifact_id i] b) m" and "\<And>F. keeps (\<lambda>s. p1_files s = F) m"
  shows "keeps (\<lambda>s. ready lib i s \<and> named lib i s) m"
  using keeps_ready [OF assms(1)] assms(2) by (auto simp: keeps_def named_def)

text \<open>Whatever such an operation ends with, the store is intact, and after an error it can still be marked as failed.\<close>

definition sealing :: "r1_lib \<Rightarrow> artifact_intent \<Rightarrow> (p1_state \<Rightarrow> bool) \<Rightarrow> (p1_state, 'a) pyop \<Rightarrow> bool" where
  "sealing lib i P m \<longleftrightarrow> (\<forall>s. P s \<longrightarrow> intact lib (snd (m s)) \<and> (isl (fst (m s)) \<longrightarrow> fst (m s) \<noteq> Inl ProcessExit \<longrightarrow> ready lib i (snd (m s))))"

lemma ready_intact: "ready lib i s \<Longrightarrow> intact lib s"
  by (simp add: ready_def)

lemma sealing_bind:
  assumes "keeps P m" and "\<And>x. sealing lib i P (k x)" and "\<And>s. P s \<Longrightarrow> ready lib i s"
  shows "sealing lib i P (py_bind m k)"
proof -
  have "P (snd (m s))" if "P s" for s using assms(1) that by (rule keepsD)
  then show ?thesis
    using assms(2,3) unfolding sealing_def
    by (auto simp: py_bind_def split: prod.split sum.split) (metis ready_intact snd_conv fst_conv)+
qed

lemma sealing_then:
  assumes "keeps P m" and "sealing lib i P k" and "\<And>s. P s \<Longrightarrow> ready lib i s"
  shows "sealing lib i P (py_then m k)"
  unfolding py_then_def by (rule sealing_bind) (use assms in auto)

lemma sealing_with_descriptor:
  assumes "sealing lib i P m" and "\<And>n e. dv_close dev n \<noteq> Raises e"
  shows "sealing lib i P (with_descriptor dev m)"
  unfolding sealing_def
proof (intro allI impI)
  fix s assume "P s"
  obtain r s1 where m: "m s = (r, s1)" by fastforce
  have r: "intact lib s1" "isl r \<Longrightarrow> r \<noteq> Inl ProcessExit \<Longrightarrow> ready lib i s1"
    using assms(1) \<open>P s\<close> m by (auto simp: sealing_def)
  have c: "intact lib (s1\<lparr>p1_io := n\<rparr>)" "isl r \<Longrightarrow> r \<noteq> Inl ProcessExit \<Longrightarrow> ready lib i (s1\<lparr>p1_io := n\<rparr>)" for n
    using r by (auto simp: ready_def intact_def)
  show "intact lib (snd (with_descriptor dev m s)) \<and>
    (isl (fst (with_descriptor dev m s)) \<longrightarrow> fst (with_descriptor dev m s) \<noteq> Inl ProcessExit \<longrightarrow> ready lib i (snd (with_descriptor dev m s)))"
    using r c assms(2)
    by (auto simp: with_descriptor_def m close_descriptor_def io_answer_def split: sum.split py_error.split io_outcome.split)
qed

section \<open>The commit\<close>

lemma backslash_path:
  assumes "CHR 0x5C \<notin> set a"
  shows "map (\<lambda>c. if c = CHR 0x5C then CHR ''/'' else c) (relative_path (sealed_name a)) = slash_path (sealed_name a)"
proof -
  have "map (\<lambda>c. if c = CHR 0x5C then CHR ''/'' else c) a = a" using assms by (auto intro!: map_idI)
  then show ?thesis by (simp add: relative_path_def slash_path_def sealed_name_def place_directories_def backslash_def)
qed

lemma opaque_chars: "opaque a l s = (Inr u, s') \<Longrightarrow> a \<noteq> [] \<and> CHR 0x5C \<notin> set a \<and> CHR ''/'' \<notin> set a"
proof -
  let ?ok = "''ABCDEFGHIJKLMNOPQRSTUVWXYZabcdefghijklmnopqrstuvwxyz0123456789-_''"
  assume "opaque a l s = (Inr u, s')"
  then have "1 \<le> length a" and l: "\<forall>c \<in> set a. c \<in> set ?ok"
    unfolding opaque_def py_guard_Inr_iff list_all_iff by blast+
  moreover have "CHR 0x5C \<notin> set ?ok" "CHR ''/'' \<notin> set ?ok" by simp_all
  ultimately show ?thesis by fastforce
qed

lemma normalized_sealed:
  assumes "CHR 0x5C \<notin> set a" and "CHR ''/'' \<notin> set a" and "normalized_relative_path lib (relative_path (sealed_name a)) = Inr p"
  shows "p = slash_path (sealed_name a)"
proof -
  have "posix_parts (slash_path (sealed_name a)) = [''artifacts'', ''m2'', a @ ''.bin'']"
    unfolding slash_path_def sealed_name_def place_directories_def
    using posix_parts_join [of "[''artifacts'', ''m2'', a @ ''.bin'']"] assms(2) by simp
  then show ?thesis
    using assms(3) unfolding normalized_relative_path_def Let_def backslash_path [OF assms(1)]
    by (auto split: if_splits simp: slash_path_def sealed_name_def place_directories_def)
qed

lemma insert_artifact_InrD: "db_op (insert_artifact r c) b = (Inr u, b') \<Longrightarrow>
    r1_db b' = r1_db b \<and> db_artifacts (m1_db b') = db_artifacts (m1_db b) @ [r]"
  by (auto simp: db_op_def insert_artifact_def db_insert_def split: prod.splits if_splits)

lemma insert_manifest_InrD: "insert_manifest m b = (Inr u, b') \<Longrightarrow> m1_db b' = m1_db b \<and> r1_db b' = (r1_db b)\<lparr>t_manifests := t_manifests (r1_db b) @ [m]\<rparr>"
  by (auto simp: insert_manifest_def r1_statement_def split: if_splits)

lemma after_manifest_InrD:
  assumes "after_manifest_insert lib a path n d b = (Inr u, b')"
  shows "m1_db b' = m1_db b \<and> (\<exists>g p. r1_db b' = (r1_db b)\<lparr>t_targets := t_targets (r1_db b) @ [g]\<rparr> \<and> tg_artifact_id g = a \<and>
    tg_relative_path g = Some p \<and> normalized_relative_path lib path = Inr p)"
  using assms unfolding after_manifest_insert_def
  by (auto simp: py_run r1_get_def insert_target_def r1_statement_def add_target_def split: option.splits prod.splits sum.splits if_splits)

text \<open>The rest of the registration leaves the artifacts and the new tables alone.\<close>

definition same_rows :: "r1_backend \<Rightarrow> r1_backend \<Rightarrow> bool" where
  "same_rows b c \<longleftrightarrow> r1_db c = r1_db b \<and> db_artifacts (m1_db c) = db_artifacts (m1_db b)"

lemma keeps_same_db_op: "(\<And>db. db_artifacts (snd (m db)) = db_artifacts db) \<Longrightarrow> keeps (same_rows b) (db_op m)"
  by (auto simp: keeps_def same_rows_def db_op_def split: prod.split) (metis snd_conv)

lemma keeps_same_rows:
  shows "keeps (same_rows b) (read_clock e)"
    and "keeps (same_rows b) (db_op (insert_dependency d))"
    and "keeps (same_rows b) (db_op (db_append_event now sid k p))"
    and "keeps (same_rows b) (db_op (insert_audit r c))"
  by (auto intro!: keeps_same_db_op simp: insert_dependency_def insert_audit_def db_insert_def db_append_event_def py_run Let_def
      insert_event_def update_sessions_def split: option.split)
    (simp add: keeps_def same_rows_def read_clock_def)

lemma update_m2_InrD: "update_m2_intents c st b = (Inr u, b') \<Longrightarrow>
    m1_db b' = m1_db b \<and> r1_db b' = (r1_db b)\<lparr>t_m2_intents := update_where c (\<lambda>r. r\<lparr>mi_status := st\<rparr>) (t_m2_intents (r1_db b))\<rparr>"
  by (auto simp: update_m2_intents_def r1_statement_def)

lemma register_sealed_InrD:
  assumes "register_sealed lib i n d b = (Inr u, b')"
  shows "\<exists>m g p. mf_artifact_id m = ai_artifact_id i \<and> mf_byte_size m = n \<and> mf_sha256 m = d \<and> tg_artifact_id g = ai_artifact_id i \<and>
    tg_relative_path g = Some p \<and> normalized_relative_path lib (relative_path (sealed_name (ai_artifact_id i))) = Inr p \<and>
    t_manifests (r1_db b') = t_manifests (r1_db b) @ [m] \<and> t_targets (r1_db b') = t_targets (r1_db b) @ [g] \<and>
    t_m2_intents (r1_db b') = update_where (\<lambda>r. mi_id r = ai_intent_id i) (\<lambda>r. r\<lparr>mi_status := M2_SEALED\<rparr>) (t_m2_intents (r1_db b)) \<and>
    (\<exists>a. ar_id a = ai_artifact_id i \<and> db_artifacts (m1_db b') = db_artifacts (m1_db b) @ [a])"
proof -
  have clock: "read_clock e c = (Inr x, c') \<Longrightarrow> r1_db c' = r1_db c \<and> m1_db c' = m1_db c" for e x and c c' :: r1_backend
    by (auto simp: read_clock_def)
  from assms obtain b1 b2 b3 b4 b5 b6 now1 now2 m where
      c1: "read_clock (lib_env lib) b = (Inr now1, b1)"
    and a: "db_op (insert_artifact \<lparr>ar_id = ai_artifact_id i, ar_session_id = ai_session_id i, ar_status = VALID\<rparr> now1) b1 = (Inr (), b2)"
    and c2: "read_clock (lib_env lib) b2 = (Inr now2, b3)"
    and m: "insert_manifest m b3 = (Inr (), b4)" "mf_artifact_id m = ai_artifact_id i" "mf_byte_size m = n" "mf_sha256 m = d"
    and g: "after_manifest_insert lib (ai_artifact_id i) (relative_path (sealed_name (ai_artifact_id i))) n d b4 = (Inr (), b5)"
    and rest: "py_then (py_for (ai_parent_ids i) (\<lambda>parent. db_op (insert_dependency \<lparr>dp_parent = parent, dp_child = ai_artifact_id i\<rparr>)))
      (py_bind (read_clock (lib_env lib)) (\<lambda>now3.
      py_bind (db_op (db_append_event now3 (ai_session_id i) ''M2ArtifactSealed'' [(''artifact_id'', JStr (ai_artifact_id i)), (''schema_version'', JInt 2)])) (\<lambda>_.
      py_bind (read_clock (lib_env lib)) (\<lambda>now4.
      py_then (db_op (insert_audit \<lparr>au_id = ''m2-audit-'' @ ai_intent_id i, au_event_type = ''M2_ARTIFACT_SEALED'', au_session_id = Some (ai_session_id i)\<rparr> now4))
      (update_m2_intents (\<lambda>r. mi_id r = ai_intent_id i) M2_SEALED))))) b5 = (Inr u, b')"
    unfolding register_sealed_def Let_def py_then_Inr_iff [of _ _ b2] py_bind_Inr_iff [of "read_clock _" _ b]
    by (auto simp: py_Inr_iffs)
  have old: "r1_db b3 = r1_db b" "\<exists>a. ar_id a = ai_artifact_id i \<and> db_artifacts (m1_db b3) = db_artifacts (m1_db b) @ [a]"
    using clock [OF c1] insert_artifact_InrD [OF a] clock [OF c2] by auto
  obtain b6 b7 b8 b9 b10 x now3 now4 where s1: "py_for (ai_parent_ids i) (\<lambda>parent. db_op (insert_dependency \<lparr>dp_parent = parent, dp_child = ai_artifact_id i\<rparr>)) b5 = (Inr (), b6)"
    and s2: "read_clock (lib_env lib) b6 = (Inr now3, b7)"
    and s3: "db_op (db_append_event now3 (ai_session_id i) ''M2ArtifactSealed'' [(''artifact_id'', JStr (ai_artifact_id i)), (''schema_version'', JInt 2)]) b7 = (Inr x, b8)"
    and s4: "read_clock (lib_env lib) b8 = (Inr now4, b9)"
    and s5: "db_op (insert_audit \<lparr>au_id = ''m2-audit-'' @ ai_intent_id i, au_event_type = ''M2_ARTIFACT_SEALED'', au_session_id = Some (ai_session_id i)\<rparr> now4) b9 = (Inr (), b10)"
    and s6: "update_m2_intents (\<lambda>r. mi_id r = ai_intent_id i) M2_SEALED b10 = (Inr u, b')"
    using rest unfolding py_then_Inr_iff py_bind_Inr_iff by auto
  have "same_rows b5 b6" by (rule keepsD_eq [OF keeps_for [OF keeps_same_rows(2)] _ s1]) (simp add: same_rows_def)
  then have "same_rows b5 b7" by (rule keepsD_eq [OF keeps_same_rows(1) _ s2])
  then have "same_rows b5 b8" by (rule keepsD_eq [OF keeps_same_rows(3) _ s3])
  then have "same_rows b5 b9" by (rule keepsD_eq [OF keeps_same_rows(1) _ s4])
  then have "same_rows b5 b10" by (rule keepsD_eq [OF keeps_same_rows(4) _ s5])
  then have new: "r1_db b' = (r1_db b5)\<lparr>t_m2_intents := update_where (\<lambda>r. mi_id r = ai_intent_id i) (\<lambda>r. r\<lparr>mi_status := M2_SEALED\<rparr>) (t_m2_intents (r1_db b5))\<rparr>"
      "db_artifacts (m1_db b') = db_artifacts (m1_db b5)"
    using update_m2_InrD [OF s6] by (auto simp: same_rows_def)
  obtain g p where gp: "r1_db b5 = (r1_db b4)\<lparr>t_targets := t_targets (r1_db b4) @ [g]\<rparr>" "tg_artifact_id g = ai_artifact_id i" "tg_relative_path g = Some p"
      "normalized_relative_path lib (relative_path (sealed_name (ai_artifact_id i))) = Inr p" "m1_db b5 = m1_db b4"
    using after_manifest_InrD [OF g] by blast
  show ?thesis
    using m gp new old insert_manifest_InrD [OF m(1)] by (intro exI [of _ m] exI [of _ g] exI [of _ p]) auto
qed

text \<open>The invariant after the registration.\<close>

lemma seal_key_self: "seal_key lib a = file_key lib (sealed_name a)"
  by (simp add: seal_key_def)

lemma find_entry: "find_file lib files f = Some bytes \<Longrightarrow> \<exists>g. file_entry lib files f = Some (g, bytes)"
  by (auto simp: find_file_entry)

lemma has_artifact_append: "has_artifact db a \<Longrightarrow> db_artifacts db' = db_artifacts db @ [x] \<Longrightarrow> has_artifact db' a"
  by (simp add: has_artifact_def)

lemma registered_sealed:
  assumes "intents_ok lib t" and "j \<in> set (t_m2_intents t)" and "mi_id j = iid" and "mi_artifact_id j = a"
    and "t_m2_intents t' = update_where (\<lambda>r. mi_id r = iid) (\<lambda>r. r\<lparr>mi_status := M2_SEALED\<rparr>) (t_m2_intents t)"
    and "t_targets t' = t_targets t @ [g]"
  shows "registered t b \<Longrightarrow> registered t' b"
    and "tg_artifact_id g = a \<Longrightarrow> tg_relative_path g = Some (slash_path (sealed_name a)) \<Longrightarrow> registered t' a"
proof -
  have upd: "k\<lparr>mi_status := M2_SEALED\<rparr> \<in> set (t_m2_intents t')" if "k \<in> set (t_m2_intents t)" "mi_id k = iid \<or> mi_status k = M2_SEALED" for k
  proof (cases "mi_id k = iid")
    case False
    then have "k\<lparr>mi_status := M2_SEALED\<rparr> = k" using that(2) by (cases k) simp
    then show ?thesis using that(1) False by (force simp: assms(5) update_where_def)
  qed (use that(1) in \<open>force simp: assms(5) update_where_def\<close>)
  show "registered t' b" if r: "registered t b"
  proof -
    obtain k where k: "k \<in> set (t_m2_intents t)" "mi_artifact_id k = b" "mi_status k = M2_SEALED" using r by (auto simp: registered_def)
    have "\<exists>k' \<in> set (t_m2_intents t'). mi_artifact_id k' = b \<and> mi_status k' = M2_SEALED"
      by (rule bexI [OF _ upd [OF k(1)]]) (use k in simp_all)
    then show ?thesis using r assms(6) by (auto simp: registered_def)
  qed
  show "registered t' a" if "tg_artifact_id g = a" "tg_relative_path g = Some (slash_path (sealed_name a))"
  proof -
    have "\<exists>k' \<in> set (t_m2_intents t'). mi_artifact_id k' = a \<and> mi_status k' = M2_SEALED"
      by (rule bexI [OF _ upd [OF assms(2)]]) (use assms(3,4) in simp_all)
    then show ?thesis using that assms(6) by (auto simp: registered_def)
  qed
qed

lemma intents_ok_sealed:
  assumes "intents_ok lib t" and j: "j \<in> set (t_m2_intents t)" "mi_id j = iid" "mi_artifact_id j = a" and "no_variant lib a t"
    and i: "t_m2_intents t' = update_where (\<lambda>r. mi_id r = iid) (\<lambda>r. r\<lparr>mi_status := M2_SEALED\<rparr>) (t_m2_intents t)"
    and m: "t_manifests t' = t_manifests t @ [m]" "mf_artifact_id m = a"
  shows "intents_ok lib t'"
proof -
  have d: "distinct (map mi_id (t_m2_intents t))" "distinct (map mi_artifact_id (t_m2_intents t))"
    and f: "\<And>k m. k \<in> set (t_m2_intents t) \<Longrightarrow> unsettled k \<Longrightarrow> m \<in> set (t_manifests t) \<Longrightarrow> seal_key lib (mi_artifact_id k) \<noteq> seal_key lib (mf_artifact_id m)"
    using assms(1) by (auto simp: intents_ok_def)
  have "map mi_id (t_m2_intents t') = map mi_id (t_m2_intents t)" "map mi_artifact_id (t_m2_intents t') = map mi_artifact_id (t_m2_intents t)"
    by (simp_all add: i update_where_map)
  moreover have "seal_key lib (mi_artifact_id k) \<noteq> seal_key lib (mf_artifact_id n)"
    if k: "k \<in> set (t_m2_intents t')" "unsettled k" and n: "n \<in> set (t_manifests t')" for k n
  proof -
    obtain r where r: "r \<in> set (t_m2_intents t)" "k = (if mi_id r = iid then r\<lparr>mi_status := M2_SEALED\<rparr> else r)"
      using k(1) unfolding i update_where_def set_map by (rule imageE)
    then have k': "k \<in> set (t_m2_intents t)" "mi_id k \<noteq> iid"
      using k(2) by (cases "mi_id r = iid"; simp add: unsettled_def)+
    show ?thesis
    proof (cases "n = m")
      case True
      have "inj_on mi_artifact_id (set (t_m2_intents t))" using d(2) by (simp add: distinct_map)
      then have "mi_artifact_id k \<noteq> a" using k' j by (auto dest: inj_onD)
      then show ?thesis using assms(5) k'(1) k(2) unfolding no_variant_def True m(2) by blast
    next
      case False
      then have "n \<in> set (t_manifests t)" using n m(1) by auto
      then show ?thesis by (rule f [OF k'(1) k(2)])
    qed
  qed
  ultimately show ?thesis using d by (simp add: intents_ok_def)
qed

lemma sealed_intact:
  assumes "ready lib i s" and "named lib i s" and "ai_artifact_id i \<noteq> []" and chars: "CHR 0x5C \<notin> set (ai_artifact_id i)" "CHR ''/'' \<notin> set (ai_artifact_id i)"
    and bytes: "find_file lib (p1_files s) (sealed_name (ai_artifact_id i)) = Some bytes" "int (length bytes) = n" "lib_sha_text lib bytes = d"
    and reg: "register_sealed lib i n d b = (Inr u, b')" and b: "r1_db b = r1_db (p1_store s)" "m1_db b = m1_db (p1_store s)"
    and s': "p1_files s' = p1_files s" "p1_store s' = b'"
  shows "intact lib s'"
proof -
  let ?a = "ai_artifact_id i" and ?t = "r1_db (p1_store s)" and ?t' = "r1_db b'"
  obtain m g p x where m: "mf_artifact_id m = ?a" "mf_byte_size m = n" "mf_sha256 m = d" and g: "tg_artifact_id g = ?a" "tg_relative_path g = Some p"
    and p: "normalized_relative_path lib (relative_path (sealed_name ?a)) = Inr p"
    and t': "t_manifests ?t' = t_manifests ?t @ [m]" "t_targets ?t' = t_targets ?t @ [g]"
      "t_m2_intents ?t' = update_where (\<lambda>r. mi_id r = ai_intent_id i) (\<lambda>r. r\<lparr>mi_status := M2_SEALED\<rparr>) (t_m2_intents ?t)"
    and x: "ar_id x = ?a" "db_artifacts (m1_db b') = db_artifacts (m1_db (p1_store s)) @ [x]"
    using register_sealed_InrD [OF reg] unfolding b by blast
  note I = assms(1) [unfolded ready_def intact_def Let_def]
  obtain j where j: "j \<in> set (t_m2_intents ?t)" "mi_id j = ai_intent_id i" "mi_artifact_id j = ?a" using I by blast
  have iok: "intents_ok lib ?t" and nv: "no_variant lib ?a ?t" using I by auto
  have path: "p = slash_path (sealed_name ?a)" using normalized_sealed [OF chars p] .
  have "sealed_ok lib (p1_files s) m"
    using find_entry [OF bytes(1)] assms(2) bytes(2,3) m by (auto simp: sealed_ok_def named_def)
  moreover have "has_artifact (m1_db b') ?a" using x by (simp add: has_artifact_def)
  moreover have "registered ?t' ?a" using registered_sealed(2) [OF iok j t'(3,2) g(1)] g(2) path by simp
  moreover have "sealed_ok lib (p1_files s) k \<and> has_artifact (m1_db b') (mf_artifact_id k) \<and> registered ?t' (mf_artifact_id k)"
    if "k \<in> set (t_manifests ?t)" for k
    using that I has_artifact_append [OF _ x(2)] registered_sealed(1) [OF iok j t'(3,2)] by blast
  moreover have "intents_ok lib ?t'" using intents_ok_sealed [OF iok j nv t'(3,1) m(1)] .
  ultimately show ?thesis using I by (simp add: intact_def Let_def s' t'(1) m(1))
qed

lemma intact_tables:
  "intact lib s \<Longrightarrow> r1_db (p1_store t) = r1_db (p1_store s) \<Longrightarrow> m1_db (p1_store t) = m1_db (p1_store s) \<Longrightarrow> p1_files t = p1_files s \<Longrightarrow> intact lib t"
  by (simp add: intact_def)

lemma ready_tables:
  "ready lib i s \<Longrightarrow> r1_db (p1_store t) = r1_db (p1_store s) \<Longrightarrow> m1_db (p1_store t) = m1_db (p1_store s) \<Longrightarrow> p1_files t = p1_files s \<Longrightarrow> ready lib i t"
  by (simp add: ready_def intact_def)

lemma on_store_InrD: "on_store m s = (Inr x, s') \<Longrightarrow> \<exists>b. m (p1_store s) = (Inr x, b) \<and> s' = s\<lparr>p1_store := b\<rparr>"
  by (auto simp: on_store_def split: prod.splits)

lemma external_InrD: "external dev s = (Inr x, s') \<Longrightarrow> p1_store s' = p1_store s \<and> p1_files s' = p1_files s"
  by (auto simp: external_def io_answer_def)

lemma reads_only: "require_mutable_retained sid b = (r, b') \<Longrightarrow> b' = b" "sealed_receipt a b = (r2, b') \<Longrightarrow> b' = b"
  by (auto simp: require_mutable_retained_def sealed_receipt_def py_run split: option.splits prod.splits)

lemma parents_read_only: "m2_require_valid_parents sid ps b = (r, b') \<Longrightarrow> b' = b"
proof -
  have "keeps (\<lambda>x. x = b) (m2_require_valid_parents sid ps)"
    unfolding m2_require_valid_parents_def by (auto intro!: keeps_intros split: option.split)
  moreover assume "m2_require_valid_parents sid ps b = (r, b')"
  ultimately show ?thesis by (simp add: keeps_def)
qed

lemma p1_transaction_InrD: "p1_transaction m s = (Inr x, s') \<Longrightarrow> m s = (Inr x, s')"
  by (auto simp: p1_transaction_def split: if_splits prod.splits sum.splits)

lemma keeps_files_transaction [keeps_intros]: "keeps (\<lambda>x. p1_files x = F) m \<Longrightarrow> keeps (\<lambda>x. p1_files x = F) (p1_transaction m)"
  by (auto simp: keeps_def p1_transaction_def split: prod.split sum.split)

lemma commit_InrD:
  assumes "commit_sealed lib dev i n d s = (Inr x, s')"
  shows "\<exists>bytes b' u. find_file lib (p1_files s) (sealed_name (ai_artifact_id i)) = Some bytes \<and> int (length bytes) = n \<and> lib_sha_text lib bytes = d \<and>
    register_sealed lib i n d (p1_store s) = (Inr u, b') \<and> p1_files s' = p1_files s \<and> p1_store s' = b'"
proof -
  from p1_transaction_InrD [OF assms [unfolded commit_sealed_def]] obtain s1 s2 s3 s4 s5 where
      a: "on_store (require_mutable_retained (ai_session_id i)) s = (Inr (), s1)"
        "on_store (m2_require_valid_parents (ai_session_id i) (ai_parent_ids i)) s1 = (Inr (), s2)"
    and v: "verify_final_guard lib dev (sealed_name (ai_artifact_id i)) n d s2 = (Inr (), s3)"
    and r: "on_store (register_sealed lib i n d) s3 = (Inr (), s4)"
    and e: "external dev s4 = (Inr (), s5)" and f: "on_store (sealed_receipt (ai_artifact_id i)) s5 = (Inr x, s')"
    unfolding py_then_Inr_iff by blast
  have s2: "s2 = s" using on_store_InrD [OF a(1)] on_store_InrD [OF a(2)] reads_only(1) parents_read_only by fastforce
  obtain b' where b': "register_sealed lib i n d (p1_store s3) = (Inr (), b')" "s4 = s3\<lparr>p1_store := b'\<rparr>" using on_store_InrD [OF r] by blast
  have s': "p1_store s' = p1_store s5" "p1_files s' = p1_files s5" using on_store_InrD [OF f] reads_only(2) by fastforce+
  then show ?thesis using verify_InrD [OF v] external_InrD [OF e] b' by (auto simp: s2)
qed

lemma sealing_commit:
  assumes "ai_artifact_id i \<noteq> []" "CHR 0x5C \<notin> set (ai_artifact_id i)" "CHR ''/'' \<notin> set (ai_artifact_id i)"
  shows "sealing lib i (\<lambda>s. ready lib i s \<and> named lib i s) (commit_sealed lib dev i n d)"
  unfolding sealing_def
proof (intro allI impI)
  fix s assume s: "ready lib i s \<and> named lib i s"
  obtain r s' where c: "commit_sealed lib dev i n d s = (r, s')" by fastforce
  have "intact lib s' \<and> (isl r \<longrightarrow> ready lib i s')"
  proof (cases r)
    case (Inl e)
    have "r1_db (p1_store s') = r1_db (p1_store s) \<and> m1_db (p1_store s') = m1_db (p1_store s)"
      using c Inl by (auto simp: commit_sealed_def p1_transaction_def split: if_splits prod.splits sum.splits)
    moreover have "keeps (\<lambda>x. p1_files x = p1_files s) (commit_sealed lib dev i n d)"
      unfolding commit_sealed_def by (intro keeps_intros)
    ultimately show ?thesis using s c ready_tables [of lib i s s'] ready_intact by (auto dest: keepsD)
  next
    case (Inr x)
    then obtain bytes b' u where f: "find_file lib (p1_files s) (sealed_name (ai_artifact_id i)) = Some bytes" "int (length bytes) = n" "lib_sha_text lib bytes = d"
      "register_sealed lib i n d (p1_store s) = (Inr u, b')" "p1_files s' = p1_files s" "p1_store s' = b'"
      using commit_InrD c by blast
    have "intact lib s'" by (rule sealed_intact [OF _ _ assms f(1-4) refl refl f(5,6)]) (use s in simp_all)
    then show ?thesis using Inr by simp
  qed
  then show "intact lib (snd (commit_sealed lib dev i n d s)) \<and>
      (isl (fst (commit_sealed lib dev i n d s)) \<longrightarrow> fst (commit_sealed lib dev i n d s) \<noteq> Inl ProcessExit \<longrightarrow> ready lib i (snd (commit_sealed lib dev i n d s)))"
    by (simp add: c)
qed

section \<open>The whole of sealing\<close>

lemma replace_named: "replace_file lib dev f (sealed_name (ai_artifact_id i)) s = (Inr u, s') \<Longrightarrow> named lib i s'"
proof -
  assume "replace_file lib dev f (sealed_name (ai_artifact_id i)) s = (Inr u, s')"
  then obtain s1 where "find_file lib (p1_files s1) f \<noteq> None" "s' = s1\<lparr>p1_files := move_file lib f (sealed_name (ai_artifact_id i)) (p1_files s1)\<rparr>"
    by (auto simp: replace_file_def py_Inr_iffs set_files_def)
  then show ?thesis by (auto simp: named_def move_file_def file_entry_put)
qed

lemma sealing_prod: "(\<And>a b. sealing lib i P (f a b)) \<Longrightarrow> sealing lib i P (case x of (a, b) \<Rightarrow> f a b)"
  by (simp split: prod.split)

lemma sealing_replace:
  assumes "sealing lib i (\<lambda>s. ready lib i s \<and> named lib i s) k"
  shows "sealing lib i (ready lib i) (py_then (replace_file lib dev (partial_name (ai_artifact_id i)) (sealed_name (ai_artifact_id i))) k)"
proof -
  have "keeps (ready lib i) (replace_file lib dev (partial_name (ai_artifact_id i)) (sealed_name (ai_artifact_id i)))"
    by (intro keeps_ready keeps_replace_file) (auto simp: apart_def seal_key_def [symmetric])
  then show ?thesis
    using assms replace_named [of lib dev "partial_name (ai_artifact_id i)" i] unfolding sealing_def
    by (auto simp: py_then_def py_bind_def keeps_def split: prod.split sum.split) (metis ready_intact snd_conv fst_conv)+
qed

lemma sealing_seal:
  assumes "ai_artifact_id i \<noteq> []" "CHR 0x5C \<notin> set (ai_artifact_id i)" "CHR ''/'' \<notin> set (ai_artifact_id i)" and "\<And>n e. dv_close dev n \<noteq> Raises e"
  shows "sealing lib i (ready lib i) (seal_artifact lib dev i payload)"
  unfolding seal_artifact_def Let_def
  by (intro sealing_then sealing_bind sealing_prod keeps_ready keeps_intros sealing_replace sealing_with_descriptor assms(4) keeps_ready_named
        sealing_commit assms(1-3) | simp)+

subsection \<open>Recording the intent\<close>

lemma create_intent_SomeD: "create_intent lib i d b = (Inr (Some x), b') \<Longrightarrow> b' = b"
  unfolding create_intent_def
  by (drule r1_transaction_InrD) (auto simp: py_Inr_iffs r1_get_def reads_only split: option.splits if_splits)

lemma create_intent_NoneD:
  assumes "create_intent lib i d b = (Inr None, b')"
  shows "\<exists>row. m1_db b' = m1_db b \<and> r1_db b' = (r1_db b)\<lparr>t_m2_intents := t_m2_intents (r1_db b) @ [row]\<rparr> \<and> mi_id row = ai_intent_id i \<and>
      mi_artifact_id row = ai_artifact_id i \<and> mi_id row \<notin> mi_id ` set (t_m2_intents (r1_db b)) \<and>
      mi_artifact_id row \<notin> mi_artifact_id ` set (t_m2_intents (r1_db b)) \<and> \<not> has_artifact (m1_db b) (ai_artifact_id i)"
proof -
  have clock: "read_clock e c = (Inr x, c') \<Longrightarrow> r1_db c' = r1_db c \<and> m1_db c' = m1_db c" for e x and c c' :: r1_backend
    by (auto simp: read_clock_def)
  have ins: "insert_m2_intent row now c = (Inr u, c') \<Longrightarrow> m1_db c' = m1_db c \<and> r1_db c' = (r1_db c)\<lparr>t_m2_intents := t_m2_intents (r1_db c) @ [row]\<rparr> \<and>
      mi_id row \<notin> mi_id ` set (t_m2_intents (r1_db c)) \<and> mi_artifact_id row \<notin> mi_artifact_id ` set (t_m2_intents (r1_db c))" for row now u and c c' :: r1_backend
    by (auto simp: insert_m2_intent_def r1_statement_def split: if_splits)
  obtain b1 b2 b3 now row where 1: "require_mutable_retained (ai_session_id i) b = (Inr (), b1)"
    and 2: "m2_require_valid_parents (ai_session_id i) (ai_parent_ids i) b1 = (Inr (), b2)" and h: "\<not> has_artifact (m1_db b2) (ai_artifact_id i)"
    and 3: "read_clock (lib_env lib) b2 = (Inr now, b3)" and 4: "insert_m2_intent row now b3 = (Inr (), b')"
    and row: "mi_id row = ai_intent_id i" "mi_artifact_id row = ai_artifact_id i"
    using r1_transaction_InrD [OF assms [unfolded create_intent_def]]
    by (auto simp: py_Inr_iffs r1_get_def split: option.splits if_splits)
  show ?thesis
    using reads_only(1) [OF 1] parents_read_only [OF 2] h clock [OF 3] ins [OF 4] row by (intro exI [of _ row]) simp
qed

lemma r1_transaction_Inl: "r1_transaction m b = (Inl e, b') \<Longrightarrow> m1_db b' = m1_db b \<and> r1_db b' = r1_db b"
  by (auto simp: r1_transaction_def split: if_splits prod.splits sum.splits)

lemma create_ready:
  assumes "intact lib s" and "on_store (create_intent lib i d) s = (Inr None, s')" and ap: "apart lib [ai_artifact_id i] (r1_db (p1_store s))"
    and nv: "no_variant lib (ai_artifact_id i) (r1_db (p1_store s))"
  shows "ready lib i s'"
proof -
  let ?t = "r1_db (p1_store s)"
  obtain b' where c: "create_intent lib i d (p1_store s) = (Inr None, b')" and s': "s' = s\<lparr>p1_store := b'\<rparr>"
    using on_store_InrD [OF assms(2)] by blast
  obtain row where row: "m1_db b' = m1_db (p1_store s)" "r1_db b' = ?t\<lparr>t_m2_intents := t_m2_intents ?t @ [row]\<rparr>" "mi_id row = ai_intent_id i"
      "mi_artifact_id row = ai_artifact_id i" "mi_id row \<notin> mi_id ` set (t_m2_intents ?t)" "mi_artifact_id row \<notin> mi_artifact_id ` set (t_m2_intents ?t)"
    using create_intent_NoneD [OF c] by blast
  note I = assms(1) [unfolded intact_def Let_def]
  have reg: "registered ?t a \<Longrightarrow> registered (r1_db b') a" for a by (auto simp: registered_def row(2))
  have "intents_ok lib (r1_db b')" using I row ap by (auto simp: intents_ok_def apart_def)
  then show ?thesis using I row ap nv reg by (auto simp: ready_def intact_def Let_def s' apart_def no_variant_def)
qed

lemma guard_reads: "persist_guard lib a path b = (r, b') \<Longrightarrow> b' = b"
  by (auto simp: persist_guard_def py_run r1_get_def require_open_def split: sum.splits if_splits)

lemma guard_apart:
  assumes "intact lib s" and g: "persist_guard lib a (relative_path (sealed_name a)) (p1_store s) = (Inr u, b')"
    and chars: "CHR 0x5C \<notin> set a" "CHR ''/'' \<notin> set a" and fresh: "\<not> has_artifact (m1_db (p1_store s)) a"
  shows "apart lib [a] (r1_db (p1_store s))"
proof -
  obtain p where p: "normalized_relative_path lib (relative_path (sealed_name a)) = Inr p" and free: "\<not> path_collides lib (r1_db (p1_store s)) a p"
    using g unfolding persist_guard_def by (auto simp: py_Inr_iffs py_lift_Inr_iff r1_get_def require_open_def split: if_splits)
  have path: "p = slash_path (sealed_name a)" by (rule normalized_sealed [OF chars p])
  have "seal_key lib a \<noteq> seal_key lib (mf_artifact_id m)" if m: "m \<in> set (t_manifests (r1_db (p1_store s)))" for m
  proof
    assume k: "seal_key lib a = seal_key lib (mf_artifact_id m)"
    have has: "has_artifact (m1_db (p1_store s)) (mf_artifact_id m)" and "registered (r1_db (p1_store s)) (mf_artifact_id m)"
      using assms(1) m by (auto simp: intact_def Let_def)
    then obtain tg where "tg \<in> set (t_targets (r1_db (p1_store s)))" "tg_artifact_id tg = mf_artifact_id m"
        "tg_relative_path tg = Some (slash_path (sealed_name (mf_artifact_id m)))"
      by (auto simp: registered_def)
    moreover have "lib_casefold lib (slash_path (sealed_name (mf_artifact_id m))) = lib_casefold lib p"
      using k by (simp add: seal_key_def file_key_def path sealed_name_def)
    moreover have "mf_artifact_id m \<noteq> a" using has fresh by blast
    ultimately show False using free by (fastforce simp: path_collides_def list_ex_iff)
  qed
  then show ?thesis by (simp add: apart_def)
qed

subsection \<open>Marking as failed\<close>

lemma intact_settled:
  assumes "intact lib s" and c: "\<And>r. c r \<Longrightarrow> unsettled r" and st: "st \<noteq> M2_SEALED"
    and u: "r1_db (p1_store u) = (r1_db (p1_store s))\<lparr>t_m2_intents := update_where c (\<lambda>r. r\<lparr>mi_status := st\<rparr>) (t_m2_intents (r1_db (p1_store s)))\<rparr>"
      "db_artifacts (m1_db (p1_store u)) = db_artifacts (m1_db (p1_store s))" "p1_files u = p1_files s"
  shows "intact lib u"
proof -
  let ?t = "r1_db (p1_store s)" and ?f = "\<lambda>r. r\<lparr>mi_status := st\<rparr>"
  define t' where "t' = ?t\<lparr>t_m2_intents := update_where c ?f (t_m2_intents ?t)\<rparr>"
  have mem: "r \<in> set (t_m2_intents t') \<longleftrightarrow> (\<exists>x \<in> set (t_m2_intents ?t). r = (if c x then ?f x else x))" for r
    by (auto simp: t'_def update_where_def)
  have "registered t' a" if r: "registered ?t a" for a
  proof -
    obtain x where x: "x \<in> set (t_m2_intents ?t)" "mi_artifact_id x = a" "mi_status x = M2_SEALED" using r by (auto simp: registered_def)
    then have "\<not> c x" using c [of x] by (auto simp: unsettled_def)
    then have "x \<in> set (t_m2_intents t')" using x(1) mem by auto
    then show ?thesis using r x by (auto simp: registered_def t'_def)
  qed
  moreover have "intents_ok lib t'"
  proof -
    have "map mi_id (t_m2_intents t') = map mi_id (t_m2_intents ?t)" "map mi_artifact_id (t_m2_intents t') = map mi_artifact_id (t_m2_intents ?t)"
      "t_manifests t' = t_manifests ?t" by (simp_all add: t'_def update_where_map)
    moreover have "\<exists>x \<in> set (t_m2_intents ?t). unsettled x \<and> mi_artifact_id x = mi_artifact_id r"
      if rm: "r \<in> set (t_m2_intents t')" and un: "unsettled r" for r
    proof -
      obtain x where x: "x \<in> set (t_m2_intents ?t)" "r = (if c x then ?f x else x)"
        using rm mem by blast
      have "unsettled x" using x(2) un c [of x] by (cases "c x") auto
      then show ?thesis using x by (intro bexI [of _ x]) auto
    qed
    moreover have "intents_ok lib ?t" using assms(1) by (simp add: intact_def Let_def)
    ultimately show ?thesis unfolding intents_ok_def by metis
  qed
  moreover have "r1_db (p1_store u) = t'" by (simp add: u(1) t'_def)
  moreover have "has_artifact (m1_db (p1_store u)) a = has_artifact (m1_db (p1_store s)) a" for a by (simp add: has_artifact_def u(2))
  moreover have "t_manifests t' = t_manifests ?t" by (simp add: t'_def)
  ultimately show ?thesis using assms(1) by (simp add: intact_def Let_def u(3))
qed

lemma intact_update:
  assumes "intact lib s" and "\<And>r. c r \<Longrightarrow> unsettled r" and "st \<noteq> M2_SEALED"
  shows "intact lib (snd (on_store (r1_transaction (update_m2_intents c st)) s))"
proof (cases "m1_open (p1_store s)")
  case True
  show ?thesis by (rule intact_settled [OF assms]) (auto simp: True on_store_def r1_transaction_def update_m2_intents_def r1_statement_def)
next
  case False
  then show ?thesis by (intro intact_tables [OF assms(1)]) (simp_all add: on_store_def r1_transaction_def)
qed

lemma mark_failed_intact:
  assumes "ready lib i s"
  shows "intact lib (snd (mark_failed lib dev iid (ai_artifact_id i) s))"
proof -
  obtain r s1 where q: "quarantine_both lib dev (ai_artifact_id i) iid s = (r, s1)" by fastforce
  have "keeps (ready lib i) (quarantine_both lib dev (ai_artifact_id i) iid)" by (intro keeps_ready keeps_quarantine_both) simp
  then have "ready lib i s1" using assms q by (rule keepsD_eq)
  then have "intact lib s1" by (rule ready_intact)
  then show ?thesis
    by (auto simp: mark_failed_def q intro!: intact_update split: sum.split) (simp_all add: unsettled_def)
qed

subsection \<open>Persisting\<close>

lemma step_bind:
  "m s = (r, s1) \<Longrightarrow> intact lib s1 \<Longrightarrow> (\<And>x. r = Inr x \<Longrightarrow> intact lib (snd (k x s1))) \<Longrightarrow> intact lib (snd (py_bind m k s))"
  by (auto simp: py_bind_def split: sum.split)

lemma step_then:
  "m s = (r, s1) \<Longrightarrow> intact lib s1 \<Longrightarrow> (r = Inr () \<Longrightarrow> intact lib (snd (k s1))) \<Longrightarrow> intact lib (snd (py_then m k s))"
  by (auto simp: py_then_def py_bind_def split: sum.split)

lemma validate_state: "snd (validate_intent i s) = s"
proof -
  have "keeps (\<lambda>x. x = s) (validate_intent i)"
    unfolding validate_intent_def opaque_def by (intro keeps_intros)
  then show ?thesis by (simp add: keeps_def)
qed

lemma validate_chars:
  "validate_intent i s = (Inr u, s') \<Longrightarrow> ai_artifact_id i \<noteq> [] \<and> CHR 0x5C \<notin> set (ai_artifact_id i) \<and> CHR ''/'' \<notin> set (ai_artifact_id i)"
  unfolding validate_intent_def py_then_Inr_iff by (elim exE conjE) (rule opaque_chars)

lemma external_state: "external dev s = (r, s') \<Longrightarrow> p1_store s' = p1_store s \<and> p1_files s' = p1_files s"
  by (auto simp: external_def io_answer_def)

lemma seal_or_fail_intact:
  assumes "ready lib i s" and "ai_artifact_id i \<noteq> []" "CHR 0x5C \<notin> set (ai_artifact_id i)" "CHR ''/'' \<notin> set (ai_artifact_id i)"
    and "\<And>n e. dv_close dev n \<noteq> Raises e"
  shows "intact lib (snd (or_mark_failed lib dev i (seal_artifact lib dev i payload) s))"
proof -
  obtain r s1 where m: "seal_artifact lib dev i payload s = (r, s1)" by fastforce
  have *: "intact lib s1" "isl r \<Longrightarrow> r \<noteq> Inl ProcessExit \<Longrightarrow> ready lib i s1"
    using sealing_seal [OF assms(2-5), of lib payload] assms(1) m by (auto simp: sealing_def)
  have f: "intact lib (snd (py_then (mark_failed lib dev (ai_intent_id i) (ai_artifact_id i)) (py_raise e) s1))" if "ready lib i s1" for e
    using mark_failed_intact [OF that, of dev "ai_intent_id i"]
    by (auto simp: py_then_def py_bind_def py_raise_def split: prod.split sum.split)
  show ?thesis using * f by (auto simp: or_mark_failed_def m split: sum.split py_error.split)
qed

lemma persist_locked_intact:
  assumes "intact lib s" and nv: "no_variant lib (ai_artifact_id i) (r1_db (p1_store s))" and close: "\<And>n e. dv_close dev n \<noteq> Raises e"
    and guard: "persist_guard lib (ai_artifact_id i) (relative_path (sealed_name (ai_artifact_id i))) (p1_store s) = (Inr u, b')"
  shows "intact lib (snd (persist_locked lib dev i src s))"
  unfolding persist_locked_def
proof (rule step_then)
  show "validate_intent i s = (fst (validate_intent i s), s)" by (metis validate_state prod.collapse)
next
  assume "fst (validate_intent i s) = Inr ()"
  then have "validate_intent i s = (Inr (), s)" by (metis validate_state prod.collapse)
  note chars = validate_chars [OF this]
  have rest: "intact lib (snd (py_then (external dev) (py_bind (on_store (create_intent lib i (request_hash lib i payload))) (\<lambda>replay.
       case replay of Some receipt \<Rightarrow> py_ret receipt | None \<Rightarrow> or_mark_failed lib dev i (seal_artifact lib dev i payload))) s))" for payload
  proof -
    obtain r s1 where e: "external dev s = (r, s1)" by fastforce
    then have like: "p1_store s1 = p1_store s" "p1_files s1 = p1_files s" by (auto dest: external_state)
    have s1: "intact lib s1" by (rule intact_cong [OF assms(1) like])
    obtain r2 s2 where c: "on_store (create_intent lib i (request_hash lib i payload)) s1 = (r2, s2)" by fastforce
    then obtain b2 where c': "create_intent lib i (request_hash lib i payload) (p1_store s1) = (r2, b2)" "s2 = s1\<lparr>p1_store := b2\<rparr>"
      by (auto simp: on_store_def split: prod.splits)
    show ?thesis
    proof (rule step_then, rule e, rule s1, rule step_bind, rule c)
      have r2: "ready lib i s2" if "r2 = Inr None"
      proof (rule create_ready [OF s1])
        show "on_store (create_intent lib i (request_hash lib i payload)) s1 = (Inr None, s2)" using c that by simp
        show "no_variant lib (ai_artifact_id i) (r1_db (p1_store s1))" using nv by (simp add: like)
        have "\<not> has_artifact (m1_db (p1_store s)) (ai_artifact_id i)" using create_intent_NoneD c'(1) that like(1) by metis
        then show "apart lib [ai_artifact_id i] (r1_db (p1_store s1))"
          using guard_apart [OF assms(1) guard] chars by (simp add: like)
      qed
      show "intact lib s2"
      proof (cases r2)
        case (Inl e)
        then show ?thesis using r1_transaction_Inl c' intact_tables [OF s1, of s2] by (auto simp: create_intent_def)
      next
        case (Inr x)
        then show ?thesis using r2 ready_intact c' create_intent_SomeD s1 by (cases x) (auto intro: intact_cong)
      qed
      show "intact lib (snd ((case replay of Some receipt \<Rightarrow> py_ret receipt | None \<Rightarrow> or_mark_failed lib dev i (seal_artifact lib dev i payload)) s2))"
        if "r2 = Inr replay" for replay
        using that r2 seal_or_fail_intact [OF _ _ _ _ close] chars \<open>intact lib s2\<close> by (auto simp: py_ret_def split: option.split)
    qed
  qed
  show "intact lib (snd (py_bind (py_lift (read_source src)) (\<lambda>payload. py_then (external dev)
      (py_bind (on_store (create_intent lib i (request_hash lib i payload))) (\<lambda>replay.
       case replay of Some receipt \<Rightarrow> py_ret receipt | None \<Rightarrow> or_mark_failed lib dev i (seal_artifact lib dev i payload)))) s))"
    by (rule step_bind [of _ s "read_source src" s]) (auto simp: py_lift_def assms(1) rest)
qed (rule assms(1))

end
