(* ===== verification/P1_Guarantees.thy ===== *)
theory P1_Guarantees
  imports P1_Properties
begin

text \<open>
  The properties of the artifact store: whatever fails and whenever the process dies, the file of a registered artifact is
  there; recovery settles everything that was left; a verified read returns what was sealed; and the case in which
  recovery takes a sealed file away.
\<close>

section \<open>Persisting and recovering keep the store intact\<close>

lemma step_external:
  assumes "intact lib s" and "\<And>t. intact lib t \<Longrightarrow> p1_store t = p1_store s \<Longrightarrow> p1_files t = p1_files s \<Longrightarrow> intact lib (snd (k t))"
  shows "intact lib (snd (py_then (external dev) k s))"
proof -
  obtain r t where e: "external dev s = (r, t)" by fastforce
  note like = external_state [OF e]
  have "intact lib t" using assms(1) like by (auto intro: intact_cong)
  then show ?thesis using assms(2) e like by (auto simp: py_then_def py_bind_def split: sum.split)
qed

lemma step_read:
  assumes "\<And>r b'. m (p1_store s) = (r, b') \<Longrightarrow> b' = p1_store s" and "intact lib s"
    and "\<And>x. m (p1_store s) = (Inr x, p1_store s) \<Longrightarrow> intact lib (snd (k x s))"
  shows "intact lib (snd (py_bind (on_store m) k s))"
proof -
  obtain r b where m: "m (p1_store s) = (r, b)" by fastforce
  then have "b = p1_store s" by (rule assms(1))
  then show ?thesis using assms(2,3) m by (auto simp: py_bind_def on_store_def split: sum.split)
qed

lemma step_guard: "intact lib s \<Longrightarrow> (\<not> b \<Longrightarrow> intact lib (snd (k s))) \<Longrightarrow> intact lib (snd (py_then (py_guard b e) k s))"
  by (simp add: py_then_def py_bind_def py_guard_def)

lemma persist_intact:
  assumes "intact lib s" and nv: "no_variant lib (ai_artifact_id i) (r1_db (p1_store s))" and close: "\<And>n e. dv_close dev n \<noteq> Raises e"
  shows "intact lib (snd (persist lib dev i src s))"
  unfolding persist_def
proof (rule step_then)
  let ?guard = "persist_guard lib (ai_artifact_id i) (relative_path (sealed_name (ai_artifact_id i)))"
  show "validate_intent i s = (fst (validate_intent i s), s)" by (metis validate_state prod.collapse)
  have "intact lib (snd (py_bind (on_store ?guard) (\<lambda>_. py_then (py_guard (\<not> dv_windows dev)
      (PersistenceFailure ''PLATFORM_UNSUPPORTED: artifact sealing is Windows-only'')) (py_then (external dev) (persist_locked lib dev i src))) t))"
    if t: "intact lib t" "p1_store t = p1_store s" for t
    by (intro step_read step_guard step_external t(1) guard_reads)
      (assumption, rule persist_locked_intact, use nv close t(2) in simp_all)
  then show "intact lib (snd (py_then (external dev) (py_then (on_store ?guard) (py_then (py_guard (\<not> dv_windows dev)
      (PersistenceFailure ''PLATFORM_UNSUPPORTED: artifact sealing is Windows-only'')) (py_then (external dev) (persist_locked lib dev i src)))) s))"
    by (intro step_external assms(1)) (simp add: py_then_def)
qed (rule assms(1))

subsection \<open>Recovery\<close>

lemma terminalize_effect:
  assumes "terminalize_recovery lib iid sid b = (r, b')"
  shows "r1_db b' = r1_db b \<and> m1_db b' = m1_db b \<or>
    r1_db b' = (r1_db b)\<lparr>t_m2_intents := update_where (\<lambda>r. mi_id r = iid \<and> unsettled r) (\<lambda>r. r\<lparr>mi_status := M2_QUARANTINED\<rparr>) (t_m2_intents (r1_db b))\<rparr> \<and>
    db_artifacts (m1_db b') = db_artifacts (m1_db b)"
proof (cases r)
  case (Inl e)
  then show ?thesis using assms r1_transaction_Inl unfolding terminalize_recovery_def by blast
next
  case (Inr x)
  let ?f = "update_where (\<lambda>r. mi_id r = iid \<and> unsettled r) (\<lambda>r. r\<lparr>mi_status := M2_QUARANTINED\<rparr>)"
  define c where "c = (snd (read_clock (lib_env lib) b))\<lparr>r1_db := (r1_db b)\<lparr>t_m2_intents := ?f (t_m2_intents (r1_db b))\<rparr>\<rparr>"
  have c: "r1_db c = (r1_db b)\<lparr>t_m2_intents := ?f (t_m2_intents (r1_db b))\<rparr>" "m1_db c = m1_db b" by (simp_all add: c_def read_clock_def)
  have upd: "keeps (same_rows c) (db_op (py_mod (update_sessions p f)))" for p f
    by (rule keeps_same_db_op) (simp add: py_mod_def update_sessions_def)
  have "keeps (same_rows c) (block_session lib iid sid)"
    unfolding block_session_def by (auto intro!: keeps_intros keeps_same_rows upd keeps_r1_get split: option.split)
  moreover have "block_session lib iid sid c = (Inr x, b')"
    using r1_transaction_InrD [OF assms [unfolded Inr terminalize_recovery_def]]
    by (simp add: c_def py_bind_def read_clock_def py_then_def update_m2_intents_def r1_statement_def)
  moreover have "same_rows c c" by (simp add: same_rows_def)
  ultimately have "same_rows c b'" using keepsD_eq [of "same_rows c"] by blast
  then show ?thesis by (simp add: same_rows_def c)
qed

lemma terminalize_intact:
  assumes "intact lib s" and "on_store (terminalize_recovery lib iid sid) s = (r, t)"
  shows "intact lib t" and "t_manifests (r1_db (p1_store t)) = t_manifests (r1_db (p1_store s))"
proof -
  obtain b where b: "terminalize_recovery lib iid sid (p1_store s) = (r, b)" and t: "t = s\<lparr>p1_store := b\<rparr>"
    using assms(2) by (auto simp: on_store_def split: prod.splits)
  show "intact lib t"
    using terminalize_effect [OF b] by (rule disjE)
      (auto simp: t intro: intact_tables [OF assms(1)] intact_settled [OF assms(1), where st = M2_QUARANTINED and c = "\<lambda>r. mi_id r = iid \<and> unsettled r"])
  show "t_manifests (r1_db (p1_store t)) = t_manifests (r1_db (p1_store s))" using terminalize_effect [OF b] by (auto simp: t)
qed

text \<open>The manifests stay, the store is intact.\<close>

definition steady :: "r1_lib \<Rightarrow> manifest_row list \<Rightarrow> p1_state \<Rightarrow> bool" where
  "steady lib ms s \<longleftrightarrow> intact lib s \<and> t_manifests (r1_db (p1_store s)) = ms"

lemma keeps_steady:
  assumes "\<And>t. t_manifests t = ms \<Longrightarrow> apart lib aids t" and "\<And>b. t_manifests (r1_db b) = ms \<Longrightarrow> keeps (calm lib aids b) m"
  shows "keeps (steady lib ms) m"
proof (rule keepsI)
  fix s assume s: "steady lib ms s"
  then have "calm lib aids (p1_store s) s" using assms(1) by (simp add: calm_def steady_def)
  then have "calm lib aids (p1_store s) (snd (m s))" using s by (intro keepsD [OF assms(2)]) (simp_all add: steady_def)
  then show "steady lib ms (snd (m s))" using s by (simp add: calm_def steady_def)
qed

lemma keeps_steady_external: "keeps (steady lib ms) (external dev)"
  by (rule keeps_steady [of _ _ "[]"]) (simp_all add: apart_def keeps_external)

lemma recover_row_steady:
  assumes "\<And>m. m \<in> set ms \<Longrightarrow> seal_key lib (mi_artifact_id r) \<noteq> seal_key lib (mf_artifact_id m)"
  shows "keeps (steady lib ms) (recover_row lib dev r)"
proof -
  have "keeps (steady lib ms) (on_store (terminalize_recovery lib iid sid))" for iid sid
  proof (rule keepsI)
    fix s assume s: "steady lib ms s"
    obtain r t where r: "on_store (terminalize_recovery lib iid sid) s = (r, t)" by fastforce
    have "intact lib s" using s by (simp add: steady_def)
    from terminalize_intact [OF this r] show "steady lib ms (snd (on_store (terminalize_recovery lib iid sid) s))"
      using s by (simp add: steady_def r)
  qed
  moreover have "keeps (steady lib ms) (quarantine_both lib dev (mi_artifact_id r) l)" for l
    by (rule keeps_steady [of _ _ "[mi_artifact_id r]"]) (use assms in \<open>simp_all add: apart_def keeps_quarantine_both\<close>)
  ultimately show ?thesis unfolding recover_row_def by (intro keeps_intros keeps_steady_external) auto
qed

lemma recover_rows_steady:
  assumes "\<And>r m. r \<in> set rs \<Longrightarrow> m \<in> set ms \<Longrightarrow> seal_key lib (mi_artifact_id r) \<noteq> seal_key lib (mf_artifact_id m)"
  shows "keeps (steady lib ms) (recover_rows lib dev rs)"
  using assms by (induction rs) (auto intro!: keeps_intros recover_row_steady)

lemma stem_sealed [simp]: "stem (snd (sealed_name a)) = a"
  by (simp add: stem_def sealed_name_def)

text \<open>Files that could be mistaken for a registered one carry its name.\<close>

definition orphans_ok :: "r1_lib \<Rightarrow> manifest_row list \<Rightarrow> file_name list \<Rightarrow> bool" where
  "orphans_ok lib ms fs \<longleftrightarrow> (\<forall>f \<in> set fs. \<forall>m \<in> set ms. file_key lib f = seal_key lib (mf_artifact_id m) \<longrightarrow> f = sealed_name (mf_artifact_id m))"

lemma recover_orphan_steady:
  assumes "orphans_ok lib ms [f]"
  shows "keeps (steady lib ms) (recover_orphan lib dev f)"
proof (rule keepsI)
  fix s assume s: "steady lib ms s"
  show "steady lib ms (snd (recover_orphan lib dev f s))"
  proof (cases "m1_open (p1_store s) \<and> find_manifest (r1_db (p1_store s)) (stem (snd f)) = None")
    case True
    then have "file_key lib f \<noteq> seal_key lib (mf_artifact_id m)" if "m \<in> set ms" for m
      using assms s that by (auto simp: orphans_ok_def steady_def find_manifest_def find_None_iff)
    then have "keeps (steady lib ms) (quarantine_file lib dev f ''orphan'')"
      using s by (intro keeps_steady [of _ _ "[]"] keeps_quarantine_file) (auto simp: apart_def steady_def)
    moreover have "recover_orphan lib dev f s = quarantine_file lib dev f ''orphan'' s"
      using True by (simp add: recover_orphan_def py_run on_store_def require_open_def r1_get_def)
    ultimately show ?thesis using s by (simp add: keepsD)
  next
    case False
    then have "snd (recover_orphan lib dev f s) = s"
      by (auto simp: recover_orphan_def py_run on_store_def require_open_def r1_get_def)
    then show ?thesis using s by simp
  qed
qed

lemma recover_orphans_steady: "orphans_ok lib ms fs \<Longrightarrow> keeps (steady lib ms) (recover_orphans lib dev fs)"
  by (induction fs) (auto intro!: keeps_intros recover_orphan_steady simp: orphans_ok_def)

lemma find_member: "find P xs = Some x \<Longrightarrow> x \<in> set xs"
  by (induction xs) (auto split: if_splits)

lemma glob_orphans_ok:
  assumes "steady lib ms s"
  shows "orphans_ok lib ms (glob_bin lib (p1_files s))"
  unfolding orphans_ok_def
proof (intro ballI impI)
  fix f m assume f: "f \<in> set (glob_bin lib (p1_files s))" and m: "m \<in> set ms" and k: "file_key lib f = seal_key lib (mf_artifact_id m)"
  have s: "sealed_ok lib (p1_files s) m" "files_distinct lib (p1_files s)" using assms m by (auto simp: steady_def intact_def Let_def)
  obtain b where b: "(f, b) \<in> set (p1_files s)" using f by (auto simp: glob_bin_def)
  obtain c where "file_entry lib (p1_files s) (sealed_name (mf_artifact_id m)) = Some (sealed_name (mf_artifact_id m), c)"
    using s(1) by (auto simp: sealed_ok_def split: option.splits)
  then have c: "(sealed_name (mf_artifact_id m), c) \<in> set (p1_files s)" unfolding file_entry_def by (rule find_member)
  have "inj_on (\<lambda>(g, _). file_key lib g) (set (p1_files s))" using s(2) by (simp add: files_distinct_def distinct_map)
  from inj_onD [OF this _ b c] show "f = sealed_name (mf_artifact_id m)" using k by (simp add: seal_key_def)
qed

lemma recon_effect:
  assumes "recover_reconciliation lib b = (r, b')"
  shows "t_manifests (r1_db b') = t_manifests (r1_db b)" and "t_m2_intents (r1_db b') = t_m2_intents (r1_db b)"
  using assms unfolding recover_reconciliation_def
  by (auto simp: py_run read_clock_def update_runs_def update_task_targets_def update_attempts_def Let_def split: if_splits prod.splits sum.splits)

lemma recover_intact:
  assumes "intact lib s"
  shows "intact lib (snd (recover lib dev s))"
proof -
  let ?ms = "t_manifests (r1_db (p1_store s))"
  have body: "keeps (steady lib ?ms) (py_bind (recover_rows lib dev rows) (\<lambda>n. py_then (external dev)
      (py_bind (py_get (\<lambda>s. glob_bin lib (p1_files s))) (\<lambda>orphans. py_bind (recover_orphans lib dev orphans) (\<lambda>k. py_ret (n + k))))))"
    if "\<And>r m. r \<in> set rows \<Longrightarrow> m \<in> set ?ms \<Longrightarrow> seal_key lib (mi_artifact_id r) \<noteq> seal_key lib (mf_artifact_id m)" for rows
  proof -
    have "keeps (steady lib ?ms) (py_bind (py_get (\<lambda>s. glob_bin lib (p1_files s))) (\<lambda>orphans. py_bind (recover_orphans lib dev orphans) (\<lambda>k. py_ret (n + k))))" for n
    proof (rule keepsI)
      fix t assume t: "steady lib ?ms t"
      have "keeps (steady lib ?ms) (py_bind (recover_orphans lib dev (glob_bin lib (p1_files t))) (\<lambda>k. py_ret (n + k)))"
        by (intro keeps_intros recover_orphans_steady glob_orphans_ok t)
      then show "steady lib ?ms (snd (py_bind (py_get (\<lambda>s. glob_bin lib (p1_files s))) (\<lambda>orphans. py_bind (recover_orphans lib dev orphans) (\<lambda>k. py_ret (n + k))) t))"
        using keepsD t by (simp add: py_bind_def [of "py_get _"] py_get_def)
    qed
    note glob = this
    show ?thesis by (intro keeps_bind [OF recover_rows_steady [OF that]] keeps_then keeps_steady_external glob)
  qed
  have guarded: "intact lib (snd (recover_guarded lib dev t))" if t: "intact lib t" "p1_store t = p1_store s" for t
  proof (cases "m1_open (p1_store t)")
    case True
    have rows: "seal_key lib (mi_artifact_id r) \<noteq> seal_key lib (mf_artifact_id m)"
      if "r \<in> set (filter unsettled (t_m2_intents (r1_db (p1_store t))))" "m \<in> set ?ms" for r m
      using that t by (auto simp: intact_def Let_def intents_ok_def)
    have st: "steady lib ?ms t" using t by (simp add: steady_def)
    have "recover_guarded lib dev t = py_bind (recover_rows lib dev (filter unsettled (t_m2_intents (r1_db (p1_store t))))) (\<lambda>n. py_then (external dev)
        (py_bind (py_get (\<lambda>s. glob_bin lib (p1_files s))) (\<lambda>orphans. py_bind (recover_orphans lib dev orphans) (\<lambda>k. py_ret (n + k))))) t"
      using True by (simp add: recover_guarded_def py_bind_def [of "on_store _"] on_store_def py_then_def [of require_open] py_bind_def [of require_open]
          require_open_def r1_get_def py_get_def)
    moreover have "steady lib ?ms (snd (\<dots>))"
      by (rule keepsD [OF body [OF rows] st]) auto
    ultimately have "steady lib ?ms (snd (recover_guarded lib dev t))" by simp
    then show ?thesis by (simp add: steady_def)
  next
    case False
    then have "snd (recover_guarded lib dev t) = t" by (simp add: recover_guarded_def py_bind_def on_store_def py_then_def require_open_def)
    then show ?thesis using t by simp
  qed
  have last: "intact lib (snd (py_bind (on_store (recover_reconciliation lib)) (\<lambda>k. py_ret (n, k)) t))" if t: "intact lib t" for n t
  proof -
    obtain r b where r: "recover_reconciliation lib (p1_store t) = (r, b)" by fastforce
    have "intact lib (t\<lparr>p1_store := b\<rparr>)"
      using t recon_effect [OF r] recover_effect(1,2) [OF r] by (simp add: intact_def Let_def registered_def intents_ok_def)
    then show ?thesis by (simp add: py_bind_def on_store_def r py_ret_def split: sum.split)
  qed
  have "intact lib (snd (py_bind (recover_guarded lib dev) (\<lambda>n. py_bind (on_store (recover_reconciliation lib)) (\<lambda>k. py_ret (n, k))) t))"
    if t: "intact lib t" "p1_store t = p1_store s" for t
    by (rule step_bind [of _ _ "fst (recover_guarded lib dev t)" "snd (recover_guarded lib dev t)"]) (use guarded [OF t] last in auto)
  note rest = this
  show ?thesis
  proof (cases "dv_windows dev")
    case True
    show ?thesis unfolding recover_def if_P [OF True] by (intro step_external assms rest)
  next
    case False
    show ?thesis unfolding recover_def if_not_P [OF False] using rest [OF assms refl] by (simp add: py_then_def py_bind_def [of "py_ret _"] py_ret_def)
  qed
qed

section \<open>The store over time\<close>

text \<open>
  The histories of a store: artifacts are persisted, the store is recovered, artifacts are read, and other requests run that
  leave manifests, intents and files alone and remove neither artifacts nor targets. Every call may fail, except that
  closing a descriptor raises nothing, and every request may be the last of its process. No artifact is
  persisted while another one whose name differs only in case is pending or failed.
\<close>

inductive store_history :: "r1_lib \<Rightarrow> p1_state \<Rightarrow> bool" for lib where
  fresh: "t_manifests (r1_db (p1_store s)) = [] \<Longrightarrow> t_m2_intents (r1_db (p1_store s)) = [] \<Longrightarrow> files_distinct lib (p1_files s) \<Longrightarrow> store_history lib s"
| persisted: "store_history lib s \<Longrightarrow> (\<And>n e. dv_close dev n \<noteq> Raises e) \<Longrightarrow> no_variant lib (ai_artifact_id i) (r1_db (p1_store s)) \<Longrightarrow>
    store_history lib (snd (persist lib dev i src s))"
| recovered: "store_history lib s \<Longrightarrow> store_history lib (snd (recover lib dev s))"
| read: "store_history lib s \<Longrightarrow> store_history lib (snd (read_verified_artifact lib dev aid maximum s))"
| other: "store_history lib s \<Longrightarrow> t_manifests (r1_db (p1_store t)) = t_manifests (r1_db (p1_store s)) \<Longrightarrow>
    t_m2_intents (r1_db (p1_store t)) = t_m2_intents (r1_db (p1_store s)) \<Longrightarrow> set (t_targets (r1_db (p1_store s))) \<subseteq> set (t_targets (r1_db (p1_store t))) \<Longrightarrow>
    ar_id ` set (db_artifacts (m1_db (p1_store s))) \<subseteq> ar_id ` set (db_artifacts (m1_db (p1_store t))) \<Longrightarrow> p1_files t = p1_files s \<Longrightarrow> store_history lib t"

lemma keeps_with_descriptor [keeps_intros]:
  assumes "keeps P m" and "keeps P (close_descriptor dev)"
  shows "keeps P (with_descriptor dev m)"
proof (rule keepsI)
  fix s assume "P s"
  obtain r t where m: "m s = (r, t)" by fastforce
  have "P t" using assms(1) \<open>P s\<close> m by (rule keepsD_eq)
  moreover from this have "P (snd (close_descriptor dev t))" using assms(2) by (simp add: keepsD)
  ultimately show "P (snd (with_descriptor dev m s))"
    by (auto simp: with_descriptor_def m split: prod.split sum.split py_error.split)
qed

lemma keeps_store_read: "(\<And>r b'. m b = (r, b') \<Longrightarrow> b' = b) \<Longrightarrow> keeps (calm lib aids b) (on_store m)"
  by (auto simp: keeps_def on_store_def calm_def intact_def Let_def split: prod.split)

lemma keeps_read: "keeps (calm lib [] b) (read_verified_artifact lib dev aid maximum)"
  unfolding read_verified_artifact_def read_checked_def opaque_def
  by (auto intro!: keeps_intros keeps_store_read simp: py_run require_open_def r1_get_def split: option.split prod.split if_splits)

lemma read_intact:
  assumes "intact lib s"
  shows "intact lib (snd (read_verified_artifact lib dev aid maximum s))"
proof -
  have "calm lib [] (p1_store s) s" using assms by (simp add: calm_def apart_def)
  then show ?thesis using keepsD [OF keeps_read] by (simp add: calm_def)
qed

lemma history_intact: "store_history lib s \<Longrightarrow> intact lib s"
proof (induction rule: store_history.induct)
  case (fresh s)
  then show ?case by (simp add: intact_def Let_def intents_ok_def)
next
  case (other s t)
  then have "registered (r1_db (p1_store s)) a \<Longrightarrow> registered (r1_db (p1_store t)) a" for a by (auto simp: registered_def)
  then show ?case using other by (auto simp: intact_def Let_def intents_ok_def has_artifact_def)
qed (simp_all add: persist_intact recover_intact read_intact)

text \<open>
  Claim C27. In every history of a store as just described (closing a descriptor raises nothing, no artifact is persisted while one whose
  name differs only in case is unfinished, and nothing outside the store changes its files or registrations, the deletions of a
  reconciliation included), whatever other calls fail and whenever processes die, the file of a registered artifact is in its
  place with the registered size and digest: it is renamed and checked before the registration commits, and neither
  a later failure nor a recovery touches it.
\<close>
theorem sealed_files_survive:
  assumes "store_history lib s" and "m \<in> set (t_manifests (r1_db (p1_store s)))"
  shows "\<exists>bytes. find_file lib (p1_files s) (sealed_name (mf_artifact_id m)) = Some bytes \<and> int (length bytes) = mf_byte_size m \<and>
    lib_sha_text lib bytes = mf_sha256 m"
proof -
  have "sealed_ok lib (p1_files s) m" using history_intact [OF assms(1)] assms(2) by (simp add: intact_def Let_def)
  then show ?thesis by (auto simp: sealed_ok_def find_file_entry split: option.splits)
qed

subsection \<open>A sample store\<close>

text \<open>A digest that shows the text, a case folding of the letter A, one open research session with a retention record.\<close>

definition store_lib :: r1_lib where
  "store_lib = sample_lib\<lparr>lib_sha_text := \<lambda>x. take 64 (x @ replicate 64 CHR ''0''),
     lib_casefold := map (\<lambda>c. if c = CHR ''A'' then CHR ''a'' else c)\<rparr>"

definition store_db :: m1_db where
  "store_db = sample_m1_db\<lparr>db_participants := [\<lparr>pa_id = ''p'', pa_study_id = ''y'', pa_pseudonym = ''P'', pa_withdrawn_at = None\<rparr>],
     db_sessions := [\<lparr>se_id = ''s'', se_study_id = Some ''y'', se_participant_id = Some ''p'', se_kind = RESEARCH, se_state = CONSENT_CONFIRMED,
       se_event_seq = 0, se_submitted = False, se_duration_seconds = 60, se_started_at = None, se_collection_blocked = False,
       se_withdrawn_at = None\<rparr>], db_retention := [\<lparr>rt_id = ''x'', rt_session_id = ''s'', rt_decision = ''d''\<rparr>]\<rparr>"

definition store_start :: p1_state where
  "store_start = \<lparr>p1_store = sample_state store_db (sample_tables [] []), p1_files = [], p1_io = 0\<rparr>"

definition calls_pass :: p1_device where
  "calls_pass = \<lparr>dv_windows = True, dv_root = ''C:'', dv_io = (\<lambda>_. Passes), dv_close = (\<lambda>_. Passes), dv_disk = (\<lambda>_ x. x)\<rparr>"

text \<open>The disk refuses the partial file.\<close>

definition disk_full :: p1_device where
  "disk_full = calls_pass\<lparr>dv_io := \<lambda>n. if n = 4 then Raises (OSError ''No space left on device'') else Passes\<rparr>"

definition fixture :: "string \<Rightarrow> string \<Rightarrow> artifact_intent" where
  "fixture iid aid = \<lparr>ai_intent_id = iid, ai_artifact_id = aid, ai_session_id = ''s'', ai_artifact_kind = ''TECHNICAL_FIXTURE'',
     ai_technical_input_kind = ''DETERMINISTIC_FIXTURE'', ai_capture_profile_version = ''fixture-profile-v1'',
     ai_monotonic_timing_origin = ''synthetic-monotonic-v1'', ai_processing_version = ''fixture-generator-v1'', ai_parent_ids = [],
     ai_technical_failure_code = None\<rparr>"

lemma store_sealed: "\<not> isl (fst (persist store_lib calls_pass (fixture ''i'' ''a'') (SourceBytes ''abc'') store_start)) \<and>
   p1_files (snd (persist store_lib calls_pass (fixture ''i'' ''a'') (SourceBytes ''abc'') store_start)) = [((Sealed, ''a.bin''), ''abc'')]"
  by code_simp

theorem sealed_files_survive_witness:
  "\<exists>(m :: manifest_row) bytes. find_file store_lib (p1_files (snd (persist store_lib calls_pass (fixture ''i'' ''a'') (SourceBytes ''abc'') store_start)))
     (sealed_name (mf_artifact_id m)) = Some bytes \<and> lib_sha_text store_lib bytes = mf_sha256 m"
proof -
  let ?s = "snd (persist store_lib calls_pass (fixture ''i'' ''a'') (SourceBytes ''abc'') store_start)"
  have "store_history store_lib store_start"
    by (rule fresh) (simp_all add: store_start_def sample_state_def sample_tables_def files_distinct_def)
  then have h: "store_history store_lib ?s"
    by (rule persisted) (simp_all add: calls_pass_def no_variant_def store_start_def sample_state_def sample_tables_def)
  have "t_manifests (r1_db (p1_store ?s)) \<noteq> []" by code_simp
  then obtain m :: manifest_row where "m \<in> set (t_manifests (r1_db (p1_store ?s)))" by (meson hd_in_set)
  from sealed_files_survive [OF h this] show ?thesis by blast
qed

end
