(* ===== verification/P1_Settled.thy ===== *)
theory P1_Settled
  imports P1_Guarantees
begin

text \<open>
  What a finished recovery has settled: no intent is left open, no unregistered file is left among the sealed ones, and the sessions of
  the intents it settled are blocked; what a verified read returns; and what recovery does to an artifact whose name differs only in case from that
  of an unfinished intent.
\<close>

section \<open>What recovery settles\<close>

definition unsettled_ids :: "r1_tables \<Rightarrow> string set" where
  "unsettled_ids t = mi_id ` {i \<in> set (t_m2_intents t). unsettled i}"

definition stopped :: "m1_db \<Rightarrow> string \<Rightarrow> bool" where
  "stopped db sid \<longleftrightarrow> (case find_session db sid of None \<Rightarrow> True
     | Some r \<Rightarrow> se_state r = WITHDRAWN \<or> se_state r = FAILED \<and> se_collection_blocked r)"

lemma settled_update:
  assumes "t_m2_intents t' = update_where (\<lambda>r. mi_id r = iid \<and> unsettled r) (\<lambda>r. r\<lparr>mi_status := M2_QUARANTINED\<rparr>) (t_m2_intents t)"
  shows "unsettled_ids t' \<subseteq> unsettled_ids t - {iid}"
proof
  fix j assume "j \<in> unsettled_ids t'"
  then obtain i where i: "i \<in> set (t_m2_intents t')" "unsettled i" "j = mi_id i" by (auto simp: unsettled_ids_def)
  obtain r where r: "r \<in> set (t_m2_intents t)" "i = (if mi_id r = iid \<and> unsettled r then r\<lparr>mi_status := M2_QUARANTINED\<rparr> else r)"
    using i(1) unfolding assms update_where_def set_map by (rule imageE)
  have "\<not> (mi_id r = iid \<and> unsettled r)" using i(2) r(2) by (cases "mi_id r = iid \<and> unsettled r") (simp_all add: unsettled_def)
  then show "j \<in> unsettled_ids t - {iid}" using i r by (auto simp: unsettled_ids_def)
qed

lemma keeps_db_pred: "(\<And>db. P (snd (m db)) = P db) \<Longrightarrow> keeps (\<lambda>b :: r1_backend. P (m1_db b)) (db_op m)"
  by (simp add: keeps_def db_op_def case_prod_beta)

lemma keeps_r1_db:
  shows "keeps (\<lambda>b :: r1_backend. r1_db b = T) (db_op m)" and "keeps (\<lambda>b :: r1_backend. r1_db b = T) (read_clock e)"
  by (simp_all add: keeps_def db_op_def case_prod_beta read_clock_def)

lemma find_update_sessions:
  assumes "\<And>r. se_id (f r) = se_id r"
  shows "find_session (update_sessions c f db) sid = map_option (\<lambda>r. if c r then f r else r) (find_session db sid)"
proof -
  have "find (\<lambda>r. se_id r = sid) (update_where c f rs) = map_option (\<lambda>r. if c r then f r else r) (find (\<lambda>r. se_id r = sid) rs)" for rs
    using assms by (induction rs) (auto simp: update_where_def)
  then show ?thesis by (simp add: find_session_def update_sessions_def)
qed

lemma keeps_stopped:
  shows "keeps (\<lambda>b. stopped (m1_db b) sid) (read_clock e :: (r1_backend, pyfloat) pyop)"
    and "keeps (\<lambda>b. stopped (m1_db b) sid) (db_op (insert_audit r c) :: (r1_backend, unit) pyop)"
    and "keeps (\<lambda>b. stopped (m1_db b) sid) (db_op (db_append_event now x k p) :: (r1_backend, event_record) pyop)"
proof -
  show "keeps (\<lambda>b. stopped (m1_db b) sid) (read_clock e :: (r1_backend, pyfloat) pyop)" by (simp add: keeps_def read_clock_def)
  have ins: "find_session (snd (insert_audit r c db)) sid = find_session db sid" for db
    by (simp add: insert_audit_def db_insert_def find_session_def)
  show "keeps (\<lambda>b. stopped (m1_db b) sid) (db_op (insert_audit r c) :: (r1_backend, unit) pyop)"
    by (rule keeps_db_pred) (simp add: stopped_def ins)
  have "stopped (snd (db_append_event now x k p db)) sid = stopped db sid" for db
  proof -
    have events: "find_session (db\<lparr>db_events := es\<rparr>) sid = find_session db sid" for db es by (simp add: find_session_def)
    have seq: "stopped (update_sessions (\<lambda>r. se_id r = x) (\<lambda>r. r\<lparr>se_event_seq := n\<rparr>) db) sid = stopped db sid" for n db
      by (auto simp: stopped_def find_update_sessions split: option.split)
    then have seq2: "stopped ((update_sessions (\<lambda>r. se_id r = x) (\<lambda>r. r\<lparr>se_event_seq := n\<rparr>) db)\<lparr>db_events := es\<rparr>) sid = stopped db sid" for n db es
      by (simp add: stopped_def events)
    show ?thesis using seq seq2
      by (auto simp: db_append_event_def Let_def py_run insert_event_def db_insert_def split: option.split)
  qed
  then show "keeps (\<lambda>b. stopped (m1_db b) sid) (db_op (db_append_event now x k p) :: (r1_backend, event_record) pyop)"
    by (rule keeps_db_pred)
qed

lemma keeps_stopped_block:
  "keeps (\<lambda>b :: r1_backend. stopped (m1_db b) sid) (py_bind (read_clock e) (\<lambda>now1.
     py_bind (db_op (db_append_event now1 x k p)) (\<lambda>_. py_bind (read_clock e) (\<lambda>now2. db_op (insert_audit r now2)))))"
  by (intro keeps_intros keeps_stopped)

lemma run_get: "py_bind (r1_get f) k b = k (f (m1_db b) (r1_db b)) b"
  by (simp add: py_bind_def r1_get_def py_get_def)

lemma run_mod: "py_then (db_op (py_mod f)) k b = k (b\<lparr>m1_db := f (m1_db b)\<rparr>)"
  by (simp add: py_then_def py_bind_def db_op_def py_mod_def)

abbreviation block_tail :: "r1_lib \<Rightarrow> string \<Rightarrow> string \<Rightarrow> (r1_backend, unit) pyop" where
  "block_tail lib iid x \<equiv> py_bind (read_clock (lib_env lib)) (\<lambda>now1.
     py_bind (db_op (db_append_event now1 x ''M2IntentQuarantined'' [(''intent_id'', JStr iid)])) (\<lambda>_.
     py_bind (read_clock (lib_env lib)) (\<lambda>now2.
     db_op (insert_audit \<lparr>au_id = ''m2-recovery-'' @ iid, au_event_type = ''M2_INTENT_QUARANTINED'', au_session_id = Some x\<rparr> now2))))"

abbreviation blocked_sessions :: "string \<Rightarrow> m1_db \<Rightarrow> m1_db" where
  "blocked_sessions x \<equiv> update_sessions (\<lambda>r. se_id r = x) (\<lambda>r. r\<lparr>se_state := FAILED, se_collection_blocked := True\<rparr>)"

lemma block_session_cases:
  assumes "block_session lib iid x b = (r, b')"
  shows "stopped (m1_db b) x \<and> b' = b \<or> block_tail lib iid x (b\<lparr>m1_db := blocked_sessions x (m1_db b)\<rparr>) = (r, b')"
  using assms unfolding block_session_def run_get
  by (cases "find_session (m1_db b) x") (auto simp: run_mod stopped_def py_ret_def split: if_splits)

lemma blocked_stopped:
  shows "stopped (blocked_sessions x db) x" and "stopped db y \<Longrightarrow> stopped (blocked_sessions x db) y"
proof -
  show "stopped db y \<Longrightarrow> stopped (blocked_sessions x db) y"
    by (auto simp: stopped_def find_update_sessions split: option.split)
  show "stopped (blocked_sessions x db) x"
  proof (cases "find_session db x")
    case (Some r)
    then have "se_id r = x" unfolding find_session_def by (metis (mono_tags) find_Some_iff)
    then show ?thesis using Some by (simp add: stopped_def find_update_sessions)
  qed (simp add: stopped_def find_update_sessions)
qed

lemma block_session_effect:
  assumes "block_session lib iid x b = (r, b')"
  shows "r1_db b' = r1_db b" and "stopped (m1_db b') x" and "stopped (m1_db b) sid \<Longrightarrow> stopped (m1_db b') sid"
proof -
  have "keeps (\<lambda>c. r1_db c = r1_db b) (block_session lib iid x)"
    unfolding block_session_def by (auto intro!: keeps_intros keeps_r1_db keeps_r1_get split: option.split)
  then show "r1_db b' = r1_db b" using assms keepsD_eq [of "\<lambda>c. r1_db c = r1_db b"] by blast
  have tail: "stopped (m1_db b') y" if "block_tail lib iid x (b\<lparr>m1_db := blocked_sessions x (m1_db b)\<rparr>) = (r, b')"
    "stopped (blocked_sessions x (m1_db b)) y" for y
    using keepsD_eq [OF keeps_stopped_block _ that(1), of y] that(2) by simp
  show "stopped (m1_db b') x"
    using block_session_cases [OF assms] by (elim disjE conjE) (simp, rule tail, assumption, rule blocked_stopped(1))
  show "stopped (m1_db b') sid" if st: "stopped (m1_db b) sid"
    using block_session_cases [OF assms] by (elim disjE conjE) (use st in simp, rule tail, assumption, rule blocked_stopped(2) [OF st])
qed

lemma terminalize_settles:
  assumes "terminalize_recovery lib iid x b = (Inr u, b')"
  shows "unsettled_ids (r1_db b') \<subseteq> unsettled_ids (r1_db b) - {iid}" and "stopped (m1_db b') x"
    and "stopped (m1_db b) sid \<Longrightarrow> stopped (m1_db b') sid"
proof -
  let ?f = "update_where (\<lambda>r. mi_id r = iid \<and> unsettled r) (\<lambda>r. r\<lparr>mi_status := M2_QUARANTINED\<rparr>)"
  define c where "c = (snd (read_clock (lib_env lib) b))\<lparr>r1_db := (r1_db b)\<lparr>t_m2_intents := ?f (t_m2_intents (r1_db b))\<rparr>\<rparr>"
  have c: "r1_db c = (r1_db b)\<lparr>t_m2_intents := ?f (t_m2_intents (r1_db b))\<rparr>" "m1_db c = m1_db b" by (simp_all add: c_def read_clock_def)
  have run: "block_session lib iid x c = (Inr u, b')"
    using r1_transaction_InrD [OF assms [unfolded terminalize_recovery_def]]
    by (simp add: c_def py_bind_def read_clock_def py_then_def update_m2_intents_def r1_statement_def)
  note e = block_session_effect [OF run]
  show "unsettled_ids (r1_db b') \<subseteq> unsettled_ids (r1_db b) - {iid}" unfolding e(1) by (rule settled_update) (simp add: c)
  show "stopped (m1_db b') x" by (rule e(2))
  show "stopped (m1_db b) sid \<Longrightarrow> stopped (m1_db b') sid" using e(3) c by simp
qed

section \<open>Files leave the store alone\<close>

lemma store_stays [keeps_intros]:
  shows "keeps (\<lambda>s. p1_store s = b) (external dev)" and "keeps (\<lambda>s. p1_store s = b) (set_files g)"
  by (auto simp: keeps_def external_def io_answer_def set_files_def py_mod_def)

lemma quarantine_store: assumes "quarantine_file lib dev f l s = (r, s')" shows "p1_store s' = p1_store s"
proof -
  have "keeps (\<lambda>t. p1_store t = b) (quarantine_file lib dev f l)" for b
    unfolding quarantine_file_def replace_file_def by (intro keeps_intros)
  then have "keeps (\<lambda>t. p1_store t = p1_store s) (quarantine_file lib dev f l)" by simp
  from keepsD_eq [OF this _ assms] show ?thesis by simp
qed

lemma quarantine_both_store: "quarantine_both lib dev aid l s = (Inr r, s') \<Longrightarrow> p1_store s' = p1_store s"
  by (auto simp: quarantine_both_def py_Inr_iffs dest!: quarantine_store)

lemma glob_quarantine:
  assumes "quarantine_file lib dev f l s = (Inr moved, s')"
  shows "set (glob_bin lib (p1_files s')) \<subseteq> set (glob_bin lib (p1_files s)) - {f}"
proof (cases "find_file lib (p1_files s) f")
  case None
  then have "\<forall>(g, _) \<in> set (p1_files s). file_key lib g \<noteq> file_key lib f" by (auto simp: find_file_def find_None_iff)
  then show ?thesis using assms None by (auto simp: quarantine_file_def py_Inr_iffs py_get_def py_ret_def py_bind_def glob_bin_def)
next
  case (Some bytes)
  obtain u where u: "external dev s = (Inr (), u)" "replace_file lib dev f (quarantine_name lib dev f l) u = (Inr (), s')"
    using assms Some by (auto simp: quarantine_file_def py_bind_def [of "py_get _"] py_get_def py_Inr_iffs)
  obtain v where v: "external dev u = (Inr (), v)" "p1_files s' = move_file lib f (quarantine_name lib dev f l) (p1_files v)"
    using u(2) by (auto simp: replace_file_def py_Inr_iffs set_files_def)
  have "p1_files v = p1_files s" using external_state [OF u(1)] external_state [OF v(1)] by simp
  then show ?thesis using v(2) Some by (auto simp: move_file_def put_file_def drop_file_def glob_bin_def quarantine_name_def)
qed

section \<open>Unregistered files\<close>

definition known_file :: "r1_tables \<Rightarrow> file_name \<Rightarrow> bool" where
  "known_file t f \<longleftrightarrow> find_manifest t (stem (snd f)) \<noteq> None"

lemma recover_orphan_effect:
  assumes "recover_orphan lib dev f s = (Inr moved, s')"
  shows "p1_store s' = p1_store s" and "set (glob_bin lib (p1_files s')) \<subseteq> set (glob_bin lib (p1_files s))"
    and "f \<in> set (glob_bin lib (p1_files s')) \<Longrightarrow> known_file (r1_db (p1_store s)) f"
proof -
  have run: "(if find_manifest (r1_db (p1_store s)) (stem (snd f)) = None then quarantine_file lib dev f ''orphan'' else py_ret False) s = (Inr moved, s')"
    using assms by (auto simp: recover_orphan_def py_bind_def on_store_def py_then_def require_open_def r1_get_def py_get_def split: if_splits)
  have "p1_store s' = p1_store s \<and> set (glob_bin lib (p1_files s')) \<subseteq> set (glob_bin lib (p1_files s)) \<and>
    (f \<in> set (glob_bin lib (p1_files s')) \<longrightarrow> known_file (r1_db (p1_store s)) f)"
  proof (cases "find_manifest (r1_db (p1_store s)) (stem (snd f)) = None")
    case True
    then have q: "quarantine_file lib dev f ''orphan'' s = (Inr moved, s')" using run by simp
    then show ?thesis using quarantine_store [OF q] glob_quarantine [OF q] by auto
  next
    case False
    then show ?thesis using run by (auto simp: py_ret_def known_file_def)
  qed
  then show "p1_store s' = p1_store s" and "set (glob_bin lib (p1_files s')) \<subseteq> set (glob_bin lib (p1_files s))"
    and "f \<in> set (glob_bin lib (p1_files s')) \<Longrightarrow> known_file (r1_db (p1_store s)) f" by auto
qed

lemma recover_orphans_effect:
  "recover_orphans lib dev fs s = (Inr k, s') \<Longrightarrow> p1_store s' = p1_store s \<and> set (glob_bin lib (p1_files s')) \<subseteq> set (glob_bin lib (p1_files s)) \<and>
    (\<forall>f \<in> set fs. f \<in> set (glob_bin lib (p1_files s')) \<longrightarrow> known_file (r1_db (p1_store s)) f)"
proof (induction fs arbitrary: s k)
  case Nil
  then show ?case by (simp add: py_ret_def)
next
  case (Cons f fs)
  then obtain moved u n where u: "recover_orphan lib dev f s = (Inr moved, u)" "recover_orphans lib dev fs u = (Inr n, s')"
    by (auto simp: py_Inr_iffs)
  note one = recover_orphan_effect [OF u(1)]
  have rest: "p1_store s' = p1_store u" "set (glob_bin lib (p1_files s')) \<subseteq> set (glob_bin lib (p1_files u))"
    "\<And>g. g \<in> set fs \<Longrightarrow> g \<in> set (glob_bin lib (p1_files s')) \<Longrightarrow> known_file (r1_db (p1_store u)) g"
    using Cons.IH [OF u(2)] by blast+
  show ?case
  proof (intro conjI ballI impI)
    show "p1_store s' = p1_store s" using rest(1) one(1) by simp
    show "set (glob_bin lib (p1_files s')) \<subseteq> set (glob_bin lib (p1_files s))" using rest(2) one(2) by blast
    fix g assume g: "g \<in> set (f # fs)" "g \<in> set (glob_bin lib (p1_files s'))"
    then show "known_file (r1_db (p1_store s)) g" using rest(2,3) one(1,3) by (cases "g = f") auto
  qed
qed

section \<open>Unfinished intents\<close>

lemma recover_row_effect:
  assumes "recover_row lib dev r s = (Inr moved, s')"
  shows "unsettled_ids (r1_db (p1_store s')) \<subseteq> unsettled_ids (r1_db (p1_store s)) - {mi_id r}" and "stopped (m1_db (p1_store s')) (mi_session_id r)"
    and "stopped (m1_db (p1_store s)) sid \<Longrightarrow> stopped (m1_db (p1_store s')) sid"
proof -
  obtain u m v where u: "external dev s = (Inr (), u)" and v: "(if mi_partial_path r = relative_path (partial_name (mi_artifact_id r)) \<and>
      mi_final_path r = relative_path (sealed_name (mi_artifact_id r)) then quarantine_both lib dev (mi_artifact_id r) (mi_id r) else py_ret False) u = (Inr m, v)"
    and t: "on_store (terminalize_recovery lib (mi_id r) (mi_session_id r)) v = (Inr (), s')"
    using assms by (auto simp: recover_row_def py_Inr_iffs)
  have "p1_store v = p1_store s"
    using external_state [OF u] v quarantine_both_store by (auto simp: py_ret_def split: if_splits)
  moreover have "terminalize_recovery lib (mi_id r) (mi_session_id r) (p1_store v) = (Inr (), p1_store s')"
    using t by (auto simp: on_store_def split: prod.splits)
  ultimately have t: "terminalize_recovery lib (mi_id r) (mi_session_id r) (p1_store s) = (Inr (), p1_store s')" by simp
  show "unsettled_ids (r1_db (p1_store s')) \<subseteq> unsettled_ids (r1_db (p1_store s)) - {mi_id r}" by (rule terminalize_settles(1) [OF t])
  show "stopped (m1_db (p1_store s')) (mi_session_id r)" by (rule terminalize_settles(2) [OF t])
  show "stopped (m1_db (p1_store s)) sid \<Longrightarrow> stopped (m1_db (p1_store s')) sid" by (rule terminalize_settles(3) [OF t])
qed

lemma recover_rows_effect:
  "recover_rows lib dev rs s = (Inr n, s') \<Longrightarrow>
    unsettled_ids (r1_db (p1_store s')) \<subseteq> unsettled_ids (r1_db (p1_store s)) - mi_id ` set rs \<and>
    (\<forall>sid. stopped (m1_db (p1_store s)) sid \<or> sid \<in> mi_session_id ` set rs \<longrightarrow> stopped (m1_db (p1_store s')) sid)"
proof (induction rs arbitrary: s n)
  case Nil
  then show ?case by (simp add: py_ret_def)
next
  case (Cons r rs)
  then obtain moved u k where u: "recover_row lib dev r s = (Inr moved, u)" "recover_rows lib dev rs u = (Inr k, s')"
    by (auto simp: py_Inr_iffs)
  note one = recover_row_effect [OF u(1)]
  show ?case using Cons.IH [OF u(2)] one by auto
qed

section \<open>The properties\<close>

lemma recover_guarded_effect:
  assumes "recover_guarded lib dev s = (Inr n, s')"
  shows "unsettled_ids (r1_db (p1_store s')) = {}" and "\<forall>f \<in> set (glob_bin lib (p1_files s')). known_file (r1_db (p1_store s')) f"
    and "\<forall>i \<in> set (t_m2_intents (r1_db (p1_store s))). unsettled i \<longrightarrow> stopped (m1_db (p1_store s')) (mi_session_id i)"
proof -
  let ?rows = "filter unsettled (t_m2_intents (r1_db (p1_store s)))"
  obtain a u where u: "recover_rows lib dev ?rows s = (Inr a, u)" and rest: "py_then (external dev) (py_bind (py_get (\<lambda>s. glob_bin lib (p1_files s)))
      (\<lambda>orphans. py_bind (recover_orphans lib dev orphans) (\<lambda>k. py_ret (a + k)))) u = (Inr n, s')"
    using assms by (auto simp: recover_guarded_def on_store_def require_open_def r1_get_def py_Inr_iffs split: if_splits prod.splits)
  obtain v k where v: "external dev u = (Inr (), v)" and w: "recover_orphans lib dev (glob_bin lib (p1_files v)) v = (Inr k, s')"
    using rest by (auto simp: py_Inr_iffs)
  note rows = recover_rows_effect [OF u] and orphans = recover_orphans_effect [OF w]
  have store: "p1_store s' = p1_store u" using orphans external_state [OF v] by simp
  have "unsettled_ids (r1_db (p1_store s)) = mi_id ` set ?rows" by (auto simp: unsettled_ids_def)
  then show "unsettled_ids (r1_db (p1_store s')) = {}" using rows store by auto
  show "\<forall>f \<in> set (glob_bin lib (p1_files s')). known_file (r1_db (p1_store s')) f" using orphans by auto
  show "\<forall>i \<in> set (t_m2_intents (r1_db (p1_store s))). unsettled i \<longrightarrow> stopped (m1_db (p1_store s')) (mi_session_id i)"
    using rows store by auto
qed

text \<open>
  Claim C28. A recovery that returns has settled the store, whatever the calls it made answered: no intent is pending or failed any more, every file left
  among the sealed ones has a registration, and each session with an intent that was open is withdrawn or failed and
  blocked for collection.
\<close>
theorem recovery_settles_store:
  assumes "recover lib dev s = (Inr counts, s')"
  shows "(\<forall>i \<in> set (t_m2_intents (r1_db (p1_store s'))). mi_status i = M2_SEALED \<or> mi_status i = M2_QUARANTINED) \<and>
    (\<forall>f \<in> set (glob_bin lib (p1_files s')). find_manifest (r1_db (p1_store s')) (stem (snd f)) \<noteq> None) \<and>
    (\<forall>i \<in> set (t_m2_intents (r1_db (p1_store s))). unsettled i \<longrightarrow>
       (\<forall>r. find_session (m1_db (p1_store s')) (mi_session_id i) = Some r \<longrightarrow> se_state r = WITHDRAWN \<or> se_state r = FAILED \<and> se_collection_blocked r))"
proof -
  obtain t u n k where t: "p1_store t = p1_store s" and u: "recover_guarded lib dev t = (Inr n, u)"
    and w: "on_store (recover_reconciliation lib) u = (Inr k, s')"
    using assms external_state by (fastforce simp: recover_def py_Inr_iffs py_ret_def split: if_splits)
  note g = recover_guarded_effect [OF u]
  have r: "recover_reconciliation lib (p1_store u) = (Inr k, p1_store s')" and files: "p1_files s' = p1_files u"
    using w by (auto simp: on_store_def split: prod.splits)
  note e = recon_effect [OF r] recover_effect(1) [OF r]
  have "mi_status i = M2_SEALED \<or> mi_status i = M2_QUARANTINED" if "i \<in> set (t_m2_intents (r1_db (p1_store s')))" for i
  proof (rule ccontr)
    assume "\<not> ?thesis"
    then have "unsettled i" by (cases "mi_status i") (simp_all add: unsettled_def)
    then show False using that g(1) e(2) by (auto simp: unsettled_ids_def)
  qed
  moreover have "find_manifest (r1_db (p1_store s')) (stem (snd f)) \<noteq> None" if "f \<in> set (glob_bin lib (p1_files s'))" for f
    using that g(2) e(1) files by (auto simp: known_file_def find_manifest_def)
  moreover have "se_state r = WITHDRAWN \<or> se_state r = FAILED \<and> se_collection_blocked r"
    if "i \<in> set (t_m2_intents (r1_db (p1_store s)))" "unsettled i" "find_session (m1_db (p1_store s')) (mi_session_id i) = Some r" for i r
    using that g(3) t e(3) by (auto simp: stopped_def split: option.splits)
  ultimately show ?thesis by blast
qed

theorem recovery_settles_store_witness:
  "\<exists>counts s'. recover store_lib calls_pass (snd (persist store_lib disk_full (fixture ''i'' ''A'') (SourceBytes ''x'') store_start)) = (Inr counts, s') \<and>
     (\<forall>i \<in> set (t_m2_intents (r1_db (p1_store s'))). mi_status i = M2_SEALED \<or> mi_status i = M2_QUARANTINED)"
proof -
  let ?s = "snd (persist store_lib disk_full (fixture ''i'' ''A'') (SourceBytes ''x'') store_start)"
  have "\<not> isl (fst (recover store_lib calls_pass ?s))" by code_simp
  then obtain counts where "fst (recover store_lib calls_pass ?s) = Inr counts" 
    by (cases "fst (recover store_lib calls_pass ?s)") simp_all
  then have "recover store_lib calls_pass ?s = (Inr counts, snd (recover store_lib calls_pass ?s))" by (simp add: prod_eq_iff)
  from recovery_settles_store [OF this] this show ?thesis by blast
qed

subsection \<open>The verified read\<close>

definition same_place :: "p1_state \<Rightarrow> p1_state \<Rightarrow> bool" where
  "same_place s t \<longleftrightarrow> p1_store t = p1_store s \<and> p1_files t = p1_files s"

lemma keeps_same_place [keeps_intros]:
  shows "keeps (same_place s) (external dev)" and "keeps (same_place s) (close_descriptor dev)"
  by (auto simp: keeps_def same_place_def external_def close_descriptor_def io_answer_def)

lemma keeps_place_guards [keeps_intros]:
  shows "keeps (same_place s) (verify_final_guard lib dev f z d)" and "keeps (same_place s) (open_final_guard lib dev f z d)"
    and "keeps (same_place s) (read_checked lib dev aid n z d)"
proof -
  show v: "keeps (same_place s) (verify_final_guard lib dev f z d)" for f z d
    unfolding verify_final_guard_def by (intro keeps_intros)
  have "keeps (same_place s) (\<lambda>t. case verify_final_guard lib dev f z d t of
         (Inl ProcessExit, s') \<Rightarrow> (Inl ProcessExit, s')
       | (Inl e, s') \<Rightarrow> (case close_descriptor dev s' of (Inl e', s'') \<Rightarrow> (Inl e', s'') | (Inr _, s'') \<Rightarrow> (Inl e, s''))
       | r \<Rightarrow> r)"
  proof (rule keepsI)
    fix t assume t: "same_place s t"
    obtain r u where u: "verify_final_guard lib dev f z d t = (r, u)" by fastforce
    have "same_place s u" using v t u by (rule keepsD_eq)
    then have "same_place s u" "same_place s (snd (close_descriptor dev u))" by (simp_all add: keepsD keeps_same_place)
    then show "same_place s (snd (case verify_final_guard lib dev f z d t of
         (Inl ProcessExit, s') \<Rightarrow> (Inl ProcessExit, s')
       | (Inl e, s') \<Rightarrow> (case close_descriptor dev s' of (Inl e', s'') \<Rightarrow> (Inl e', s'') | (Inr _, s'') \<Rightarrow> (Inl e, s''))
       | r \<Rightarrow> r))" by (auto simp: u split: sum.split py_error.split prod.split)
  qed
  then show "keeps (same_place s) (open_final_guard lib dev f z d)"
    unfolding open_final_guard_def by (intro keeps_intros)
  show "keeps (same_place s) (read_checked lib dev aid n z d)"
    unfolding read_checked_def by (intro keeps_intros v)
qed

lemma opaque_state: "opaque v l s = (Inr u, s') \<Longrightarrow> s' = s"
  by (auto simp: opaque_def py_guard_def split: if_splits)

text \<open>The end of a read, after the registration was found.\<close>

abbreviation read_rest :: "r1_lib \<Rightarrow> p1_device \<Rightarrow> string \<Rightarrow> int \<Rightarrow> manifest_row \<Rightarrow> artifact_row \<Rightarrow> (p1_state, string) pyop" where
  "read_rest lib dev aid n m a \<equiv>
     py_then (py_guard (ar_status a \<noteq> VALID) (PersistenceFailure ''artifact validity is not readable''))
    (py_then (external dev)
    (py_then (py_guard (mf_relative_path m \<noteq> relative_path (sealed_name aid)) (PersistenceFailure ''artifact manifest path is inconsistent''))
    (py_then (py_guard (n < mf_byte_size m) (PersistenceFailure ''artifact exceeds maximum size limit''))
    (py_then (open_final_guard lib dev (sealed_name aid) (mf_byte_size m) (mf_sha256 m))
     (with_descriptor dev (read_checked lib dev aid n (mf_byte_size m) (mf_sha256 m)))))))"

lemma read_checked_content:
  assumes "read_checked lib dev aid n z d s = (Inr payload, s')"
  shows "find_file lib (p1_files s) (sealed_name aid) = Some payload" and "int (length payload) = z" and "lib_sha_text lib payload = d"
    and "int (length payload) \<le> n"
proof -
  obtain t where t: "external dev s = (Inr (), t)" and c: "(case find_file lib (p1_files t) (sealed_name aid) of None \<Rightarrow> py_raise (OSError ''read'')
     | Some payload \<Rightarrow> py_then (py_guard (n < int (length payload)) (PersistenceFailure ''artifact exceeds maximum size limit''))
        (py_then (py_guard (int (length payload) \<noteq> z \<or> lib_sha_text lib payload \<noteq> d) (PersistenceFailure ''artifact read verification failed''))
        (py_then (verify_final_guard lib dev (sealed_name aid) z d) (py_ret payload)))) t = (Inr payload, s')"
    using assms by (auto simp: read_checked_def py_Inr_iffs)
  have "p1_files t = p1_files s" using external_state [OF t] by simp
  then show "find_file lib (p1_files s) (sealed_name aid) = Some payload" and "int (length payload) = z" and "lib_sha_text lib payload = d"
    and "int (length payload) \<le> n" using c by (auto simp: py_Inr_iffs py_raise_def split: option.splits)
qed

lemma with_descriptor_InrD: "with_descriptor dev m s = (Inr x, s') \<Longrightarrow> \<exists>t. m s = (Inr x, t)"
  by (auto simp: with_descriptor_def split: prod.splits sum.splits py_error.splits)

lemma read_rest_effect:
  assumes "read_rest lib dev aid n m a t = (Inr payload, s')" and "same_place s t"
  shows "ar_status a = VALID \<and> int (length payload) = mf_byte_size m \<and> lib_sha_text lib payload = mf_sha256 m \<and> int (length payload) \<le> n \<and>
     find_file lib (p1_files s) (sealed_name aid) = Some payload \<and> p1_store s' = p1_store s \<and> p1_files s' = p1_files s"
proof -
  have "keeps (same_place s) (read_rest lib dev aid n m a)" by (intro keeps_intros keeps_with_descriptor)
  from keepsD_eq [OF this assms(2,1)] have same: "same_place s s'" .
  obtain u v where u: "external dev t = (Inr (), u)" and v: "open_final_guard lib dev (sealed_name aid) (mf_byte_size m) (mf_sha256 m) u = (Inr (), v)"
    and w: "with_descriptor dev (read_checked lib dev aid n (mf_byte_size m) (mf_sha256 m)) v = (Inr payload, s')" and a: "ar_status a = VALID"
    using assms(1) by (auto simp: py_Inr_iffs)
  have "same_place s v" using keepsD_eq [OF keeps_same_place(1) assms(2) u] keepsD_eq [OF keeps_place_guards(2) _ v] by blast
  moreover obtain x where x: "read_checked lib dev aid n (mf_byte_size m) (mf_sha256 m) v = (Inr payload, x)" using with_descriptor_InrD [OF w] by blast
  ultimately show ?thesis using read_checked_content [OF x] same a by (simp add: same_place_def)
qed

lemma store_lookup:
  assumes "on_store (py_then require_open (r1_get f)) t = (Inr x, u)"
  shows "x = f (m1_db (p1_store t)) (r1_db (p1_store t))" and "u = t"
  using assms by (auto simp: on_store_def py_then_def py_bind_def require_open_def r1_get_def py_get_def split: if_splits)

lemma read_verified_effect:
  assumes "read_verified_artifact lib dev aid maximum s = (Inr payload, s')"
  shows "\<exists>m a n. find_manifest (r1_db (p1_store s)) aid = Some m \<and> find_artifact (m1_db (p1_store s)) aid = Some a \<and> ar_status a = VALID \<and>
     int (length payload) = mf_byte_size m \<and> lib_sha_text lib payload = mf_sha256 m \<and> maximum = Some n \<and> int (length payload) \<le> n \<and>
     find_file lib (p1_files s) (sealed_name aid) = Some payload \<and> p1_store s' = p1_store s \<and> p1_files s' = p1_files s"
proof -
  obtain n where n: "maximum = Some n" using assms by (cases maximum) (auto simp: read_verified_artifact_def py_Inr_iffs)
  obtain t where t: "external dev s = (Inr (), t)" and rest: "py_bind (on_store (py_then require_open (r1_get (\<lambda>db t. (find_manifest t aid, find_artifact db aid))))) (\<lambda>row.
      case row of (Some m, Some a) \<Rightarrow> read_rest lib dev aid n m a | _ \<Rightarrow> py_raise (KeyError aid)) t = (Inr payload, s')"
    using assms n by (auto simp: read_verified_artifact_def py_then_Inr_iff py_guard_Inr_iff dest!: opaque_state)
  have t': "same_place s t" using external_state [OF t] by (simp add: same_place_def)
  obtain row u where row: "on_store (py_then require_open (r1_get (\<lambda>db t. (find_manifest t aid, find_artifact db aid)))) t = (Inr row, u)"
    and k: "(case row of (Some m, Some a) \<Rightarrow> read_rest lib dev aid n m a | _ \<Rightarrow> py_raise (KeyError aid)) u = (Inr payload, s')"
    using rest by (rule py_bind_InrD)
  have "(case (find_manifest (r1_db (p1_store s)) aid, find_artifact (m1_db (p1_store s)) aid) of
      (Some m, Some a) \<Rightarrow> read_rest lib dev aid n m a | _ \<Rightarrow> py_raise (KeyError aid)) t = (Inr payload, s')"
    using k t' unfolding store_lookup [OF row] same_place_def by metis
  then obtain m a where m: "find_manifest (r1_db (p1_store s)) aid = Some m" "find_artifact (m1_db (p1_store s)) aid = Some a"
    and r: "read_rest lib dev aid n m a t = (Inr payload, s')"
    by (cases "find_manifest (r1_db (p1_store s)) aid"; cases "find_artifact (m1_db (p1_store s)) aid") (simp_all add: py_raise_def)
  show ?thesis using m n read_rest_effect [OF r t'] by auto
qed

text \<open>
  Claim C29. A verified read that returns a payload returns what was sealed: the artifact is registered and valid, the payload has
  the registered size and digest, its size is within the limit of the caller, and the file in the place of the artifact holds
  it; no other state changes.
\<close>
theorem read_returns_sealed:
  assumes "read_verified_artifact lib dev aid maximum s = (Inr payload, s')"
  shows "\<exists>m a n. find_manifest (r1_db (p1_store s)) aid = Some m \<and> find_artifact (m1_db (p1_store s)) aid = Some a \<and> ar_status a = VALID \<and>
     int (length payload) = mf_byte_size m \<and> lib_sha_text lib payload = mf_sha256 m \<and> maximum = Some n \<and> int (length payload) \<le> n \<and>
     find_file lib (p1_files s) (sealed_name aid) = Some payload \<and> p1_store s' = p1_store s \<and> p1_files s' = p1_files s"
  using assms by (rule read_verified_effect)

theorem read_returns_sealed_witness:
  "\<exists>s'. read_verified_artifact store_lib calls_pass ''a'' (Some 10)
      (snd (persist store_lib calls_pass (fixture ''i'' ''a'') (SourceBytes ''abc'') store_start)) = (Inr ''abc'', s') \<and>
     find_file store_lib (p1_files (snd (persist store_lib calls_pass (fixture ''i'' ''a'') (SourceBytes ''abc'') store_start))) (sealed_name ''a'') = Some ''abc''"
proof -
  let ?s = "snd (persist store_lib calls_pass (fixture ''i'' ''a'') (SourceBytes ''abc'') store_start)"
  have "fst (read_verified_artifact store_lib calls_pass ''a'' (Some 10) ?s) = Inr ''abc''" by code_simp
  then have "read_verified_artifact store_lib calls_pass ''a'' (Some 10) ?s = (Inr ''abc'', snd (read_verified_artifact store_lib calls_pass ''a'' (Some 10) ?s))"
    by (simp add: prod_eq_iff)
  from read_returns_sealed [OF this] this show ?thesis by blast
qed

subsection \<open>Names that differ only in case\<close>

text \<open>Recovery puts no file among the sealed ones.\<close>

definition gone :: "r1_lib \<Rightarrow> file_name \<Rightarrow> p1_state \<Rightarrow> bool" where
  "gone lib f s \<longleftrightarrow> fst f = Sealed \<and> find_file lib (p1_files s) f = None"

lemma gone_move: "gone lib f s \<Longrightarrow> find_file lib (move_file lib g (quarantine_name lib dev g l) (p1_files s)) f = None"
  by (auto simp: gone_def find_move file_key_def quarantine_name_def)

lemma keeps_gone [keeps_intros]:
  shows "keeps (gone lib f) (external dev)" and "keeps (gone lib f) (on_store m)" and "keeps (gone lib f) (quarantine_file lib dev g l)"
proof -
  show e: "keeps (gone lib f) (external dev)" by (auto simp: keeps_def external_def io_answer_def gone_def)
  show "keeps (gone lib f) (on_store m)" by (auto simp: keeps_def on_store_def gone_def split: prod.split)
  have "keeps (gone lib f) (set_files (move_file lib g (quarantine_name lib dev g l)))"
    by (auto simp: keeps_def set_files_def py_mod_def gone_move) (simp add: gone_def gone_move)
  then show "keeps (gone lib f) (quarantine_file lib dev g l)"
    unfolding quarantine_file_def replace_file_def by (intro keeps_intros e)
qed

lemma quarantine_gone:
  assumes "quarantine_file lib dev g l s = (Inr moved, s')" and "file_key lib f = file_key lib g" and "fst f = Sealed"
  shows "gone lib f s'"
proof (cases "find_file lib (p1_files s) g")
  case None
  then have "s' = s" using assms(1) by (auto simp: quarantine_file_def py_Inr_iffs py_get_def py_ret_def py_bind_def)
  then show ?thesis using None assms(2,3) by (simp add: gone_def find_file_def)
next
  case (Some bytes)
  obtain u where u: "external dev s = (Inr (), u)" "replace_file lib dev g (quarantine_name lib dev g l) u = (Inr (), s')"
    using assms(1) Some by (auto simp: quarantine_file_def py_bind_def [of "py_get _"] py_get_def py_Inr_iffs)
  obtain v where v: "external dev u = (Inr (), v)" "p1_files s' = move_file lib g (quarantine_name lib dev g l) (p1_files v)"
    using u(2) by (auto simp: replace_file_def py_Inr_iffs set_files_def)
  have "p1_files v = p1_files s" using external_state [OF u(1)] external_state [OF v(1)] by simp
  then show ?thesis using v(2) Some assms(2,3) by (auto simp: gone_def find_move file_key_def quarantine_name_def)
qed

lemma keeps_gone_row: "keeps (gone lib f) (recover_row lib dev r)"
  unfolding recover_row_def quarantine_both_def by (intro keeps_intros)

lemma recover_row_gone:
  assumes "recover_row lib dev r s = (Inr moved, s')" and "file_key lib f = file_key lib (sealed_name (mi_artifact_id r))" and "fst f = Sealed"
    and "mi_partial_path r = relative_path (partial_name (mi_artifact_id r))" "mi_final_path r = relative_path (sealed_name (mi_artifact_id r))"
  shows "gone lib f s'"
proof -
  obtain u m v where v: "quarantine_both lib dev (mi_artifact_id r) (mi_id r) u = (Inr m, v)"
    and t: "on_store (terminalize_recovery lib (mi_id r) (mi_session_id r)) v = (Inr (), s')"
    using assms(1,4,5) by (auto simp: recover_row_def py_Inr_iffs)
  obtain w second where "quarantine_file lib dev (sealed_name (mi_artifact_id r)) (mi_id r) w = (Inr second, v)"
    using v by (auto simp: quarantine_both_def py_Inr_iffs)
  then have "gone lib f v" using assms(2,3) by (rule quarantine_gone)
  then show ?thesis using keepsD_eq [OF keeps_gone(2) _ t] by blast
qed

lemma keeps_gone_rows: "keeps (gone lib f) (recover_rows lib dev rs)"
proof (induction rs)
  case (Cons r rs)
  show ?case unfolding recover_rows.simps by (intro keeps_intros keeps_gone_row Cons)
qed (simp add: keeps_ret)

lemma recover_rows_gone:
  assumes "r \<in> set rs" and "file_key lib f = file_key lib (sealed_name (mi_artifact_id r))" and "fst f = Sealed"
    and "mi_partial_path r = relative_path (partial_name (mi_artifact_id r))" "mi_final_path r = relative_path (sealed_name (mi_artifact_id r))"
  shows "recover_rows lib dev rs s = (Inr n, s') \<Longrightarrow> gone lib f s'"
  using assms(1)
proof (induction rs arbitrary: s n)
  case (Cons x rs)
  then obtain moved u k where u: "recover_row lib dev x s = (Inr moved, u)" "recover_rows lib dev rs u = (Inr k, s')"
    by (auto simp: py_Inr_iffs)
  show ?case
  proof (cases "r \<in> set rs")
    case True
    then show ?thesis using Cons.IH [OF u(2)] by simp
  next
    case False
    then have "x = r" using Cons.prems(2) by simp
    then have x: "gone lib f u" using recover_row_gone [OF u(1)] assms(2-) by simp
    show ?thesis by (rule keepsD_eq [OF keeps_gone_rows x u(2)])
  qed
qed simp

text \<open>Recovery keeps the registrations and the artifacts.\<close>

definition same_registry :: "r1_backend \<Rightarrow> p1_state \<Rightarrow> bool" where
  "same_registry b s \<longleftrightarrow> t_manifests (r1_db (p1_store s)) = t_manifests (r1_db b) \<and> db_artifacts (m1_db (p1_store s)) = db_artifacts (m1_db b)"

lemma keeps_registry:
  shows "keeps (same_registry b) (external dev)" and "keeps (same_registry b) (quarantine_file lib dev f l)"
    and "keeps (same_registry b) (on_store (terminalize_recovery lib iid sid))" and "keeps (same_registry b) (on_store (recover_reconciliation lib))"
proof -
  have store: "keeps (same_registry b) m" if "\<And>c. keeps (\<lambda>s. p1_store s = c) m" for m :: "(p1_state, 'a) pyop"
  proof (rule keepsI)
    fix s assume "same_registry b s"
    moreover have "p1_store (snd (m s)) = p1_store s" using keepsD [OF that [of "p1_store s"]] by simp
    ultimately show "same_registry b (snd (m s))" by (simp add: same_registry_def)
  qed
  show "keeps (same_registry b) (external dev)" by (rule store) (rule store_stays)
  show "keeps (same_registry b) (quarantine_file lib dev f l)"
    by (rule store) (unfold quarantine_file_def replace_file_def, intro keeps_intros)
  show "keeps (same_registry b) (on_store (terminalize_recovery lib iid sid))"
  proof (rule keepsI)
    fix s assume s: "same_registry b s"
    obtain r c where c: "terminalize_recovery lib iid sid (p1_store s) = (r, c)" by fastforce
    show "same_registry b (snd (on_store (terminalize_recovery lib iid sid) s))"
      using terminalize_effect [OF c] s by (auto simp: on_store_def c same_registry_def)
  qed
  show "keeps (same_registry b) (on_store (recover_reconciliation lib))"
  proof (rule keepsI)
    fix s assume s: "same_registry b s"
    obtain r c where c: "recover_reconciliation lib (p1_store s) = (r, c)" by fastforce
    show "same_registry b (snd (on_store (recover_reconciliation lib) s))"
      using recon_effect [OF c] recover_effect(1) [OF c] s by (simp add: on_store_def c same_registry_def)
  qed
qed

lemma recover_registry:
  assumes "recover lib dev s = (Inr counts, s')"
  shows "same_registry (p1_store s) s'"
proof -
  let ?P = "same_registry (p1_store s)"
  have row: "keeps ?P (recover_row lib dev r)" for r
    unfolding recover_row_def quarantine_both_def by (intro keeps_intros keeps_registry)
  have rows: "keeps ?P (recover_rows lib dev rs)" for rs
  proof (induction rs)
    case (Cons r rs)
    show ?case unfolding recover_rows.simps by (intro keeps_intros row Cons)
  qed (simp add: keeps_ret)
  have look: "keeps ?P (on_store (py_then require_open (r1_get g)))" for g :: "m1_db \<Rightarrow> r1_tables \<Rightarrow> 'b"
    by (simp add: keeps_def on_store_def same_registry_def py_run require_open_def r1_get_def)
  have look2: "keeps ?P (on_store (py_then require_open (r1_get g)))" for g :: "m1_db \<Rightarrow> r1_tables \<Rightarrow> bool"
    by (simp add: keeps_def on_store_def same_registry_def py_run require_open_def r1_get_def)
  have orphan: "keeps ?P (recover_orphan lib dev f)" for f
    unfolding recover_orphan_def by (intro keeps_intros keeps_registry look2)
  have orphans: "keeps ?P (recover_orphans lib dev fs)" for fs
  proof (induction fs)
    case (Cons f fs)
    show ?case unfolding recover_orphans.simps by (intro keeps_intros orphan Cons)
  qed (simp add: keeps_ret)
  have g: "keeps ?P (recover_guarded lib dev)"
    unfolding recover_guarded_def by (intro keeps_intros keeps_registry(1) rows orphans look)
  have "keeps ?P (recover lib dev)" unfolding recover_def by (intro keeps_intros keeps_registry(1,4) g)
  from keepsD_eq [OF this _ assms] show ?thesis by (simp add: same_registry_def)
qed

lemma recover_gone:
  assumes run: "recover lib dev s = (Inr counts, s')" and r: "r \<in> set (t_m2_intents (r1_db (p1_store s)))" "unsettled r"
    and f: "file_key lib f = file_key lib (sealed_name (mi_artifact_id r))" "fst f = Sealed"
    and paths: "mi_partial_path r = relative_path (partial_name (mi_artifact_id r))" "mi_final_path r = relative_path (sealed_name (mi_artifact_id r))"
  shows "gone lib f s'"
proof -
  obtain t u n k where t: "p1_store t = p1_store s" and u: "recover_guarded lib dev t = (Inr n, u)"
    and w: "on_store (recover_reconciliation lib) u = (Inr k, s')"
    using run external_state by (fastforce simp: recover_def py_Inr_iffs py_ret_def split: if_splits)
  obtain a v where v: "recover_rows lib dev (filter unsettled (t_m2_intents (r1_db (p1_store t)))) t = (Inr a, v)"
    and rest: "py_then (external dev) (py_bind (py_get (\<lambda>s. glob_bin lib (p1_files s)))
      (\<lambda>orphans. py_bind (recover_orphans lib dev orphans) (\<lambda>k. py_ret (a + k)))) v = (Inr n, u)"
    using u by (auto simp: recover_guarded_def on_store_def require_open_def r1_get_def py_Inr_iffs split: if_splits prod.splits)
  have g: "gone lib f v" by (rule recover_rows_gone [OF _ f paths v]) (simp add: t r)
  have orphan: "keeps (gone lib f) (recover_orphan lib dev g)" for g unfolding recover_orphan_def by (intro keeps_intros)
  have "keeps (gone lib f) (recover_orphans lib dev fs)" for fs
  proof (induction fs)
    case (Cons h fs)
    show ?case unfolding recover_orphans.simps by (intro keeps_intros orphan Cons)
  qed (simp add: keeps_ret)
  then have "keeps (gone lib f) (py_then (external dev) (py_bind (py_get (\<lambda>s. glob_bin lib (p1_files s)))
      (\<lambda>orphans. py_bind (recover_orphans lib dev orphans) (\<lambda>k. py_ret (a + k)))))" by (intro keeps_intros)
  from keepsD_eq [OF this g rest] have "gone lib f u" .
  then show ?thesis using keepsD_eq [OF keeps_gone(2) _ w] by simp
qed

text \<open>
  Claim C30. A registered artifact loses its file to an unfinished intent whose name differs only in case. When an intent is pending or failed, carries the
  paths of its own artifact, and the file system takes the name of its sealed file for that of artifact \<open>aid\<close>, then after any recovery
  that returns the sealed file of \<open>aid\<close> is gone and no read of it succeeds, whatever the calls answer, while its registration and its
  status are what they were. (The witness reaches such a state: the refusal of names that differ only in case looks at registered
  targets, not at unfinished intents, so \<open>a\<close> is sealed while \<open>A\<close> is failed.)
\<close>
theorem case_variant_loses_sealed_file:
  assumes "recover lib dev s = (Inr counts, s')" and "r \<in> set (t_m2_intents (r1_db (p1_store s)))" and "unsettled r"
    and "mi_partial_path r = relative_path (partial_name (mi_artifact_id r))" and "mi_final_path r = relative_path (sealed_name (mi_artifact_id r))"
    and "lib_casefold lib (slash_path (sealed_name aid)) = lib_casefold lib (slash_path (sealed_name (mi_artifact_id r)))"
  shows "find_file lib (p1_files s') (sealed_name aid) = None \<and>
    find_manifest (r1_db (p1_store s')) aid = find_manifest (r1_db (p1_store s)) aid \<and>
    find_artifact (m1_db (p1_store s')) aid = find_artifact (m1_db (p1_store s)) aid \<and>
    (\<forall>dev' maximum. isl (fst (read_verified_artifact lib dev' aid maximum s')))"
proof -
  have "file_key lib (sealed_name aid) = file_key lib (sealed_name (mi_artifact_id r))" "fst (sealed_name aid) = Sealed"
    using assms(6) by (simp_all add: file_key_def sealed_name_def)
  then have none: "find_file lib (p1_files s') (sealed_name aid) = None"
    using recover_gone [OF assms(1-3) _ _ assms(4,5)] by (simp add: gone_def)
  have "isl (fst (read_verified_artifact lib dev' aid maximum s'))" for dev' maximum
  proof (rule ccontr)
    assume "\<not> ?thesis"
    then obtain payload t where "read_verified_artifact lib dev' aid maximum s' = (Inr payload, t)"
      by (metis isl_def prod.exhaust fst_conv sum.exhaust)
    from read_verified_effect [OF this] none show False by auto
  qed
  then show ?thesis
    using none recover_registry [OF assms(1)] by (simp add: same_registry_def find_manifest_def find_artifact_def)
qed

theorem case_variant_loses_sealed_file_witness:
  "let s = snd (persist store_lib calls_pass (fixture ''j'' ''a'') (SourceBytes ''abc'')
       (snd (persist store_lib disk_full (fixture ''i'' ''A'') (SourceBytes ''x'') store_start)))
   in fst (read_verified_artifact store_lib calls_pass ''a'' (Some 10) s) = Inr ''abc'' \<and>
     map (\<lambda>a. (ar_id a, ar_status a)) (db_artifacts (m1_db (p1_store s))) = [(''a'', VALID)] \<and>
     isl (fst (read_verified_artifact store_lib calls_pass ''a'' (Some 10) (snd (recover store_lib calls_pass s))))"
proof -
  let ?s = "snd (persist store_lib calls_pass (fixture ''j'' ''a'') (SourceBytes ''abc'')
       (snd (persist store_lib disk_full (fixture ''i'' ''A'') (SourceBytes ''x'') store_start)))"
  let ?r = "hd (t_m2_intents (r1_db (p1_store ?s)))"
  have run: "\<not> isl (fst (recover store_lib calls_pass ?s))" by code_simp
  then obtain counts where counts: "fst (recover store_lib calls_pass ?s) = Inr counts"
    by (cases "fst (recover store_lib calls_pass ?s)") simp_all
  have r: "t_m2_intents (r1_db (p1_store ?s)) \<noteq> [] \<and> unsettled ?r \<and>
      mi_partial_path ?r = relative_path (partial_name (mi_artifact_id ?r)) \<and> mi_final_path ?r = relative_path (sealed_name (mi_artifact_id ?r)) \<and>
      lib_casefold store_lib (slash_path (sealed_name ''a'')) = lib_casefold store_lib (slash_path (sealed_name (mi_artifact_id ?r)))"
    by code_simp
  have "recover store_lib calls_pass ?s = (Inr counts, snd (recover store_lib calls_pass ?s))" using counts by (simp add: prod_eq_iff)
  from case_variant_loses_sealed_file [OF this, of ?r "''a''"] r
  have "isl (fst (read_verified_artifact store_lib calls_pass ''a'' (Some 10) (snd (recover store_lib calls_pass ?s))))" by simp
  moreover have "fst (read_verified_artifact store_lib calls_pass ''a'' (Some 10) ?s) = Inr ''abc'' \<and>
     map (\<lambda>a. (ar_id a, ar_status a)) (db_artifacts (m1_db (p1_store ?s))) = [(''a'', VALID)]" by code_simp
  ultimately show ?thesis by (simp add: Let_def)
qed

end
