(* ===== verification/N2_Json.thy ===== *)
theory N2_Json
  imports Py_Prelude "HOL-Library.Char_ord" "HOL-Library.List_Lexorder"
begin

text \<open>
  Canonical JSON (\<open>_canonical_bytes\<close>, \<open>_decode_record\<close> and \<open>_decode_closed\<close> of \<open>m2_d1_n2_canonical.py\<close> and
  \<open>m2_d1_n2_evidence.py\<close>): the text that \<open>json.dumps\<close> writes with sorted keys, without spaces and in ASCII, and a reader for it.
  A text that is not exactly the one written for its value is refused by both modules, so the reader only has to know
  the forms that the writer uses. Numbers are integers; characters are those below 256.
\<close>

section \<open>Values\<close>

datatype cjson = CNull | CBool bool | CInt int | CStr string | CArr "cjson list" | CObj "(string \<times> cjson) list"

type_synonym cdict = "(string \<times> cjson) list"

lemma size_pair_elem: "(k, v) \<in> set kvs \<Longrightarrow> size v < Suc (size_list (size_prod f size) kvs)"
  by (induction kvs) auto

text \<open>\<open>sort_keys=True\<close>, on every level.\<close>

fun canon :: "cjson \<Rightarrow> cjson" and canon_list :: "cjson list \<Rightarrow> cjson list" and canon_pairs :: "cdict \<Rightarrow> cdict" where
  "canon (CArr xs) = CArr (canon_list xs)"
| "canon (CObj kvs) = CObj (sort_key fst (canon_pairs kvs))"
| "canon v = v"
| "canon_list [] = []"
| "canon_list (v # vs) = canon v # canon_list vs"
| "canon_pairs [] = []"
| "canon_pairs ((k, v) # kvs) = (k, canon v) # canon_pairs kvs"

section \<open>Writing\<close>

definition digit :: "nat \<Rightarrow> char" where
  "digit n = char_of (48 + n)"

fun digits_of :: "nat \<Rightarrow> string" where
  "digits_of n = (if n < 10 then [digit n] else digits_of (n div 10) @ [digit (n mod 10)])"

declare digits_of.simps [simp del]

definition hex_char_of :: "nat \<Rightarrow> char" where
  "hex_char_of n = (if n < 10 then char_of (48 + n) else char_of (87 + n))"

definition escaped :: "char \<Rightarrow> string" where
  "escaped c =
     (if c = CHR 0x22 then [CHR 0x5C, CHR 0x22]
      else if c = CHR 0x5C then [CHR 0x5C, CHR 0x5C]
      else if c = CHR 0x0A then [CHR 0x5C, CHR ''n'']
      else if c = CHR 0x0D then [CHR 0x5C, CHR ''r'']
      else if c = CHR 0x09 then [CHR 0x5C, CHR ''t'']
      else if c = CHR 0x0C then [CHR 0x5C, CHR ''f'']
      else if c = CHR 0x08 then [CHR 0x5C, CHR ''b'']
      else if 32 \<le> (of_char c :: nat) \<and> (of_char c :: nat) < 127 then [c]
      else [CHR 0x5C, CHR ''u'', CHR ''0'', CHR ''0'', hex_char_of (of_char c div 16), hex_char_of (of_char c mod 16)])"

definition quoted :: "string \<Rightarrow> string" where
  "quoted s = CHR 0x22 # concat (map escaped s) @ [CHR 0x22]"

fun dump :: "cjson \<Rightarrow> string" and dump_items :: "cjson list \<Rightarrow> string" and dump_pairs :: "cdict \<Rightarrow> string" where
  "dump CNull = ''null''"
| "dump (CBool b) = (if b then ''true'' else ''false'')"
| "dump (CInt i) = (if i < 0 then CHR ''-'' # digits_of (nat (- i)) else digits_of (nat i))"
| "dump (CStr s) = quoted s"
| "dump (CArr xs) = CHR 0x5B # dump_items xs @ [CHR 0x5D]"
| "dump (CObj kvs) = CHR 0x7B # dump_pairs kvs @ [CHR 0x7D]"
| "dump_items [] = []"
| "dump_items (v # vs) = dump v @ (if vs = [] then [] else CHR '','' # dump_items vs)"
| "dump_pairs [] = []"
| "dump_pairs ((k, v) # kvs) = quoted k @ CHR '':'' # dump v @ (if kvs = [] then [] else CHR '','' # dump_pairs kvs)"

definition canonical_bytes :: "cjson \<Rightarrow> string" where
  "canonical_bytes v = dump (canon v)"

section \<open>Reading\<close>

definition is_digit :: "char \<Rightarrow> bool" where
  "is_digit c \<longleftrightarrow> 48 \<le> (of_char c :: nat) \<and> (of_char c :: nat) < 58"

definition hex_value :: "char \<Rightarrow> nat option" where
  "hex_value c = (let n = of_char c in if 48 \<le> n \<and> n < 58 then Some (n - 48) else if 97 \<le> n \<and> n < 103 then Some (n - 87) else None)"

definition unescaped :: "char \<Rightarrow> char option" where
  "unescaped c =
     (if c = CHR 0x22 then Some (CHR 0x22) else if c = CHR 0x5C then Some (CHR 0x5C)
      else if c = CHR ''n'' then Some (CHR 0x0A) else if c = CHR ''r'' then Some (CHR 0x0D)
      else if c = CHR ''t'' then Some (CHR 0x09) else if c = CHR ''f'' then Some (CHR 0x0C)
      else if c = CHR ''b'' then Some (CHR 0x08) else None)"

text \<open>\<open>hex_char a b\<close>: the character of the two last digits of an escape.\<close>

definition hex_char :: "char \<Rightarrow> char \<Rightarrow> char option" where
  "hex_char a b = (case (hex_value a, hex_value b) of (Some x, Some y) \<Rightarrow> Some (char_of (16 * x + y)) | _ \<Rightarrow> None)"

fun read_string :: "string \<Rightarrow> (string \<times> string) option" where
  "read_string [] = None"
| "read_string (c # r) =
     (if c = CHR 0x22 then Some ([], r)
      else if c \<noteq> CHR 0x5C then map_option (\<lambda>(t, q). (c # t, q)) (read_string r)
      else case r of
        [] \<Rightarrow> None
      | e # r1 \<Rightarrow>
          if e \<noteq> CHR ''u'' then (case unescaped e of None \<Rightarrow> None | Some d \<Rightarrow> map_option (\<lambda>(t, q). (d # t, q)) (read_string r1))
          else (case r1 of
              a # b # x # y # r2 \<Rightarrow>
                if a = CHR ''0'' \<and> b = CHR ''0''
                then (case hex_char x y of None \<Rightarrow> None | Some d \<Rightarrow> map_option (\<lambda>(t, q). (d # t, q)) (read_string r2))
                else None
            | _ \<Rightarrow> None))"

definition number_of :: "string \<Rightarrow> nat" where
  "number_of ds = foldl (\<lambda>n d. 10 * n + (of_char d - 48)) 0 ds"

definition read_int :: "string \<Rightarrow> (cjson \<times> string) option" where
  "read_int s =
     (let (minus, ds) = (case s of [] \<Rightarrow> (False, s) | c # r \<Rightarrow> if c = CHR ''-'' then (True, r) else (False, s));
          n = takeWhile is_digit ds
      in if n = [] then None else Some (CInt (if minus then - int (number_of n) else int (number_of n)), dropWhile is_digit ds))"

text \<open>A dictionary from the pairs read: a repeated key takes the last value.\<close>

definition dict_of :: "cdict \<Rightarrow> cdict" where
  "dict_of kvs = fold (\<lambda>(k, v). AList.update k v) kvs []"

definition keyword :: "string \<Rightarrow> cjson \<Rightarrow> string \<Rightarrow> (cjson \<times> string) option" where
  "keyword w v s = (if take (length w) s = w then Some (v, drop (length w) s) else None)"

text \<open>The first argument bounds the recursion; the length of the text is enough.\<close>

fun read_value :: "nat \<Rightarrow> string \<Rightarrow> (cjson \<times> string) option"
  and read_items :: "nat \<Rightarrow> string \<Rightarrow> (cjson list \<times> string) option"
  and read_pairs :: "nat \<Rightarrow> string \<Rightarrow> (cdict \<times> string) option" where
  "read_value 0 s = None"
| "read_value (Suc n) s =
     (case s of
        [] \<Rightarrow> None
      | c # r \<Rightarrow>
          if c = CHR 0x22 then map_option (\<lambda>(t, q). (CStr t, q)) (read_string r)
          else if c = CHR 0x5B then
            (if take 1 r = [CHR 0x5D] then Some (CArr [], drop 1 r) else map_option (\<lambda>(vs, q). (CArr vs, q)) (read_items n r))
          else if c = CHR 0x7B then
            (if take 1 r = [CHR 0x7D] then Some (CObj [], drop 1 r) else map_option (\<lambda>(kvs, q). (CObj (dict_of kvs), q)) (read_pairs n r))
          else if c = CHR ''n'' then keyword ''null'' CNull s
          else if c = CHR ''t'' then keyword ''true'' (CBool True) s
          else if c = CHR ''f'' then keyword ''false'' (CBool False) s
          else read_int s)"
| "read_items 0 s = None"
| "read_items (Suc n) s =
     (case read_value n s of
        None \<Rightarrow> None
      | Some (v, r) \<Rightarrow>
          if take 1 r = [CHR 0x5D] then Some ([v], drop 1 r)
          else if take 1 r = [CHR '',''] then map_option (\<lambda>(vs, q). (v # vs, q)) (read_items n (drop 1 r))
          else None)"
| "read_pairs 0 s = None"
| "read_pairs (Suc n) s =
     (if take 1 s \<noteq> [CHR 0x22] then None
      else case read_string (drop 1 s) of
        None \<Rightarrow> None
      | Some (k, r) \<Rightarrow>
          if take 1 r \<noteq> [CHR '':''] then None
          else case read_value n (drop 1 r) of
            None \<Rightarrow> None
          | Some (v, q) \<Rightarrow>
              if take 1 q = [CHR 0x7D] then Some ([(k, v)], drop 1 q)
              else if take 1 q = [CHR '',''] then map_option (\<lambda>(kvs, p). ((k, v) # kvs, p)) (read_pairs n (drop 1 q))
              else None)"

definition loads :: "string \<Rightarrow> cjson option" where
  "loads s = (case read_value (length s) s of Some (v, []) \<Rightarrow> Some v | _ \<Rightarrow> None)"

text \<open>\<open>_decode_closed\<close> and \<open>_decode_record\<close>.\<close>

definition decode_closed :: "string \<Rightarrow> cjson option" where
  "decode_closed s = (case loads s of None \<Rightarrow> None | Some v \<Rightarrow> if canonical_bytes v = s then Some v else None)"

definition decode_record :: "string option \<Rightarrow> cdict option" where
  "decode_record s = (case s of None \<Rightarrow> None | Some t \<Rightarrow> (case decode_closed t of Some (CObj d) \<Rightarrow> Some d | _ \<Rightarrow> None))"

lemma loads_example: "loads (canonical_bytes (CObj [(''b'', CArr [CInt (- 120), CBool True, CNull]), (''a'', CStr [CHR 0x22, CHR 0x0A, CHR 0x00])])) =
   Some (CObj [(''a'', CStr [CHR 0x22, CHR 0x0A, CHR 0x00]), (''b'', CArr [CInt (- 120), CBool True, CNull])])"
  by code_simp

section \<open>Reading back what was written\<close>

subsection \<open>Characters and numbers\<close>

lemma of_char_char_of: "n < 256 \<Longrightarrow> (of_char (char_of n) :: nat) = n"
  by (simp add: of_char_of)

lemma hex_value_digit: "n < 16 \<Longrightarrow> hex_value (hex_char_of n) = Some n"
  by (auto simp: hex_value_def hex_char_of_def Let_def of_char_of)

lemma hex_char_digits: "hex_char (hex_char_of (of_char c div 16)) (hex_char_of (of_char c mod 16)) = Some c"
proof -
  have "(of_char c :: nat) < 256" by (metis of_char_of char_of_char mod_less_divisor zero_less_numeral)
  then show ?thesis by (simp add: hex_char_def hex_value_digit less_mult_imp_div_less)
qed

lemma read_escaped: "read_string (escaped c @ t) = map_option (\<lambda>(s, q). (c # s, q)) (read_string t)"
  by (simp add: escaped_def unescaped_def hex_char_digits)

lemma read_quoted: "read_string (concat (map escaped s) @ CHR 0x22 # t) = Some (s, t)"
  by (induction s) (simp_all add: read_escaped)

lemma is_digit_digit: "n < 10 \<Longrightarrow> is_digit (digit n)" and digit_value: "n < 10 \<Longrightarrow> of_char (digit n) - 48 = n"
  by (simp_all add: is_digit_def digit_def of_char_of)

lemma digits_of_digits: "list_all is_digit (digits_of n)"
  by (induction n rule: digits_of.induct) (subst digits_of.simps, simp add: is_digit_digit)

lemma digits_of_not_Nil: "digits_of n \<noteq> []"
  by (subst digits_of.simps) simp

lemma number_of_digits_of: "number_of (digits_of n) = n"
proof (induction n rule: digits_of.induct)
  case (1 n)
  show ?case
  proof (cases "n < 10")
    case True
    then show ?thesis by (subst digits_of.simps) (simp add: number_of_def digit_value)
  next
    case False
    then have "number_of (digits_of (n div 10)) = n div 10" by (rule 1)
    then show ?thesis using False by (subst digits_of.simps) (simp add: number_of_def digit_value)
  qed
qed

definition no_digit :: "string \<Rightarrow> bool" where
  "no_digit r \<longleftrightarrow> (r = [] \<or> \<not> is_digit (hd r))"

lemma read_digits_of:
  assumes "no_digit r"
  shows "takeWhile is_digit (digits_of n @ r) = digits_of n" and "dropWhile is_digit (digits_of n @ r) = r"
proof -
  have "takeWhile is_digit r = []" "dropWhile is_digit r = r" using assms by (cases r; simp add: no_digit_def)+
  moreover have "x \<in> set (digits_of n) \<Longrightarrow> is_digit x" for x using digits_of_digits by (simp add: list_all_iff)
  ultimately show "takeWhile is_digit (digits_of n @ r) = digits_of n" and "dropWhile is_digit (digits_of n @ r) = r"
    by (simp_all add: takeWhile_append2 dropWhile_append2)
qed

lemma digits_of_head: "\<exists>c t. digits_of n = c # t \<and> is_digit c"
  using digits_of_digits [of n] digits_of_not_Nil [of n] by (cases "digits_of n") auto

lemma read_int_dump:
  assumes "no_digit r"
  shows "read_int (dump (CInt i) @ r) = Some (CInt i, r)"
proof (cases "i < 0")
  case True
  then show ?thesis by (simp add: read_int_def read_digits_of [OF assms] digits_of_not_Nil number_of_digits_of)
next
  case False
  obtain c t where ct: "digits_of (nat i) = c # t" "is_digit c" using digits_of_head by blast
  then have "c \<noteq> CHR ''-''" by (auto simp: is_digit_def)
  then have "read_int (digits_of (nat i) @ r) = (let n = takeWhile is_digit (digits_of (nat i) @ r) in
      if n = [] then None else Some (CInt (int (number_of n)), dropWhile is_digit (digits_of (nat i) @ r)))"
    by (simp add: read_int_def ct(1))
  then show ?thesis using False by (simp add: read_digits_of [OF assms] digits_of_not_Nil number_of_digits_of)
qed

subsection \<open>Values\<close>

text \<open>Dictionaries have each key once.\<close>

fun keys_once :: "cjson \<Rightarrow> bool" and keys_once_list :: "cjson list \<Rightarrow> bool" and keys_once_pairs :: "cdict \<Rightarrow> bool" where
  "keys_once (CArr xs) = keys_once_list xs"
| "keys_once (CObj kvs) = (distinct (map fst kvs) \<and> keys_once_pairs kvs)"
| "keys_once v = True"
| "keys_once_list [] = True"
| "keys_once_list (v # vs) = (keys_once v \<and> keys_once_list vs)"
| "keys_once_pairs [] = True"
| "keys_once_pairs ((k, v) # kvs) = (keys_once v \<and> keys_once_pairs kvs)"

lemma keys_once_list_iff: "keys_once_list vs \<longleftrightarrow> (\<forall>v \<in> set vs. keys_once v)"
  by (induction vs) auto

lemma keys_once_pairs_iff: "keys_once_pairs kvs \<longleftrightarrow> (\<forall>(k, v) \<in> set kvs. keys_once v)"
  by (induction kvs rule: keys_once_keys_once_list_keys_once_pairs.induct(3) [of "\<lambda>_. True" "\<lambda>_. True"]) auto

lemma update_append: "k \<notin> fst ` set al \<Longrightarrow> AList.update k v al = al @ [(k, v)]"
  by (induction al) auto

lemma dict_of_distinct: "distinct (map fst kvs) \<Longrightarrow> dict_of kvs = kvs"
proof -
  have "distinct (map fst (al @ kvs)) \<Longrightarrow> fold (\<lambda>(k, v). AList.update k v) kvs al = al @ kvs" for al
    by (induction kvs arbitrary: al) (auto simp: update_append)
  from this [of "[]"] show "distinct (map fst kvs) \<Longrightarrow> ?thesis" by (simp add: dict_of_def)
qed

fun need :: "cjson \<Rightarrow> nat" and need_items :: "cjson list \<Rightarrow> nat" and need_pairs :: "cdict \<Rightarrow> nat" where
  "need (CArr xs) = Suc (need_items xs)"
| "need (CObj kvs) = Suc (need_pairs kvs)"
| "need CNull = 1"
| "need (CBool b) = 1"
| "need (CInt i) = 1"
| "need (CStr s) = 1"
| "need_items [] = 0"
| "need_items (v # vs) = Suc (need v + need_items vs)"
| "need_pairs [] = 0"
| "need_pairs ((k, v) # kvs) = Suc (need v + need_pairs kvs)"

lemma need_length:
  "need v \<le> length (dump v)" "need_items vs \<le> Suc (length (dump_items vs))" "need_pairs kvs \<le> length (dump_pairs kvs)"
proof (induction v and vs and kvs rule: need_need_items_need_pairs.induct)
  case (5 i)
  then show ?case using digits_of_not_Nil by (auto simp: Suc_le_eq)
qed (auto simp: quoted_def)

lemma no_digit_delims [simp]: "no_digit (CHR 0x5D # r)" "no_digit (CHR 0x7D # r)" "no_digit (CHR '','' # r)"
  by (simp_all add: no_digit_def is_digit_def)

lemma dump_head:
  "\<exists>c t. dump v = c # t \<and> c \<noteq> CHR 0x5D \<and> c \<noteq> CHR 0x7D \<and>
     (case v of CInt i \<Rightarrow> c \<noteq> CHR 0x22 \<and> c \<noteq> CHR 0x5B \<and> c \<noteq> CHR 0x7B \<and> c \<noteq> CHR ''n'' \<and> c \<noteq> CHR ''t'' \<and> c \<noteq> CHR ''f'' | _ \<Rightarrow> True)"
proof (cases v)
  case (CInt i)
  obtain c t where ct: "digits_of (nat i) = c # t" "is_digit c" using digits_of_head by blast
  then show ?thesis using CInt by (auto simp: is_digit_def)
qed (auto simp: quoted_def)

lemma read_int_value:
  assumes "no_digit r"
  shows "read_value (Suc n) (dump (CInt i) @ r) = Some (CInt i, r)"
proof -
  obtain c t where "dump (CInt i) = c # t" "c \<noteq> CHR 0x22 \<and> c \<noteq> CHR 0x5B \<and> c \<noteq> CHR 0x7B \<and> c \<noteq> CHR ''n'' \<and> c \<noteq> CHR ''t'' \<and> c \<noteq> CHR ''f''"
    using dump_head [of "CInt i"] by auto
  moreover from this have "read_value (Suc n) (dump (CInt i) @ r) = read_int (dump (CInt i) @ r)" by simp
  ultimately show ?thesis using read_int_dump [OF assms, of i] by simp
qed

lemma items_head: "vs \<noteq> [] \<Longrightarrow> take 1 (dump_items vs @ r) \<noteq> [CHR 0x5D]"
  using dump_head [of "hd vs"] by (cases vs) auto

lemma pairs_head: "kvs \<noteq> [] \<Longrightarrow> \<exists>t. dump_pairs kvs = CHR 0x22 # t"
  by (cases kvs rule: dump_pairs.cases) (auto simp: quoted_def)

lemma read_dump:
  "keys_once v \<Longrightarrow> no_digit r \<Longrightarrow> need v \<le> n \<Longrightarrow> read_value n (dump v @ r) = Some (v, r)"
  "keys_once_list vs \<Longrightarrow> vs \<noteq> [] \<Longrightarrow> need_items vs \<le> n \<Longrightarrow> read_items n (dump_items vs @ CHR 0x5D # r) = Some (vs, r)"
  "keys_once_pairs kvs \<Longrightarrow> kvs \<noteq> [] \<Longrightarrow> need_pairs kvs \<le> n \<Longrightarrow> read_pairs n (dump_pairs kvs @ CHR 0x7D # r) = Some (kvs, r)"
proof (induction v and vs and kvs arbitrary: n r and n r and n r rule: need_need_items_need_pairs.induct)
  case (1 xs)
  then obtain m where n: "n = Suc m" "need_items xs \<le> m" by (cases n) auto
  show ?case
  proof (cases "xs = []")
    case True
    then show ?thesis by (simp add: n)
  next
    case False
    then show ?thesis using 1 n items_head [OF False] by simp
  qed
next
  case (2 kvs)
  then obtain m where n: "n = Suc m" "need_pairs kvs \<le> m" by (cases n) auto
  show ?case
  proof (cases "kvs = []")
    case True
    then show ?thesis by (simp add: n)
  next
    case False
    then show ?thesis using 2 n pairs_head [OF False] by (auto simp: dict_of_distinct)
  qed
next
  case 3
  then show ?case by (cases n) (simp_all add: keyword_def)
next
  case (4 b)
  then show ?case by (cases n; cases b) (simp_all add: keyword_def)
next
  case (5 i)
  then show ?case using read_int_value by (cases n) simp_all
next
  case (6 s)
  then show ?case using read_quoted [of s r] by (cases n) (simp_all add: quoted_def)
next
  case 7
  then show ?case by simp
next
  case (8 v vs)
  then obtain m where n: "n = Suc m" "need v \<le> m" "need_items vs \<le> m" by (cases n) auto
  show ?case
  proof (cases "vs = []")
    case True
    then show ?thesis using 8 n by simp
  next
    case False
    then show ?thesis using 8 n by simp
  qed
next
  case 9
  then show ?case by simp
next
  case (10 k v kvs)
  then obtain m where n: "n = Suc m" "need v \<le> m" "need_pairs kvs \<le> m" by (cases n) auto
  show ?case
  proof (cases "kvs = []")
    case True
    then show ?thesis using 10 n read_quoted [of k "CHR '':'' # dump v @ CHR 0x7D # r"] by (simp add: quoted_def)
  next
    case False
    then show ?thesis using 10 n read_quoted [of k "CHR '':'' # dump v @ CHR '','' # dump_pairs kvs @ CHR 0x7D # r"] by (simp add: quoted_def)
  qed
qed

lemma loads_dump: "keys_once v \<Longrightarrow> loads (dump v) = Some v"
  using read_dump(1) [of v "[]" "length (dump v)"] need_length(1) [of v] by (simp add: loads_def no_digit_def)

text \<open>Sorting the keys keeps the entries, and does nothing the second time.\<close>

lemma canon_pairs_map: "canon_pairs kvs = map (\<lambda>(k, v). (k, canon v)) kvs" and canon_list_map: "canon_list vs = map canon vs"
proof -
  show "canon_pairs kvs = map (\<lambda>(k, v). (k, canon v)) kvs" by (induction kvs) auto
  show "canon_list vs = map canon vs" by (induction vs) auto
qed

lemma keys_of_canon_pairs [simp]: "map fst (canon_pairs kvs) = map fst kvs"
  by (auto simp: canon_pairs_map)

lemma distinct_keys_sort: "distinct (map fst kvs) \<Longrightarrow> distinct (map fst (sort_key fst kvs))"
  by (metis distinct_map distinct_sort set_sort)

lemma keys_once_canon: "keys_once v \<Longrightarrow> keys_once (canon v)" "keys_once_list vs \<Longrightarrow> keys_once_list (canon_list vs)"
  "keys_once_pairs kvs \<Longrightarrow> keys_once_pairs (canon_pairs kvs)"
proof (induction v and vs and kvs rule: need_need_items_need_pairs.induct)
  case (2 kvs)
  have "distinct (map fst (canon_pairs kvs))" using 2 by simp
  then show ?case using 2 distinct_keys_sort [of "canon_pairs kvs"] by (simp add: keys_once_pairs_iff)
qed auto

lemma map_pairs_sorted: "sort_key fst (map (\<lambda>(k, v). (k, f v)) kvs) = map (\<lambda>(k, v). (k, f v)) (sort_key fst kvs)"
proof -
  have ins: "insort_key fst (k, f v) (map (\<lambda>(k, v). (k, f v)) al) = map (\<lambda>(k, v). (k, f v)) (insort_key fst (k, v) al)" for k v al
    by (induction al) auto
  show ?thesis by (induction kvs) (auto simp: ins)
qed

lemma canon_pairs_sort: "canon_pairs (sort_key fst kvs) = sort_key fst (canon_pairs kvs)"
  by (simp only: canon_pairs_map map_pairs_sorted)

lemma canon_canon [simp]: "canon (canon v) = canon v" "canon_list (canon_list vs) = canon_list vs" "canon_pairs (canon_pairs kvs) = canon_pairs kvs"
proof (induction v and vs and kvs rule: need_need_items_need_pairs.induct)
  case (2 kvs)
  then show ?case by (simp add: canon_pairs_sort sort_key_id_if_sorted)
qed auto

lemma map_of_sort: "distinct (map fst kvs) \<Longrightarrow> map_of (sort_key fst kvs) = map_of kvs"
  by (rule map_of_inject_set [THEN iffD2]) (auto simp: distinct_keys_sort)

lemma decode_canonical: "keys_once v \<Longrightarrow> decode_closed (canonical_bytes v) = Some (canon v)"
  using loads_dump [OF keys_once_canon(1)] by (simp add: decode_closed_def canonical_bytes_def)

lemma decode_canonicalD: "decode_closed s = Some w \<Longrightarrow> canonical_bytes w = s"
  by (auto simp: decode_closed_def split: option.splits if_splits)

text \<open>
  Claim C37. The canonical text of a value whose dictionaries have each key once is read back as that value with sorted keys, and a
  text that is accepted is the canonical text of the value read: there is exactly one text for each record.
\<close>
theorem canonical_round_trip:
  assumes "keys_once v"
  shows "decode_closed (canonical_bytes v) = Some (canon v) \<and> (\<forall>s w. decode_closed s = Some w \<longrightarrow> canonical_bytes w = s)"
  using decode_canonical [OF assms] decode_canonicalD by blast

theorem canonical_round_trip_witness:
  "decode_closed (canonical_bytes (CObj [(''b'', CInt 1), (''a'', CNull)])) = Some (CObj [(''a'', CNull), (''b'', CInt 1)])"
  using canonical_round_trip [of "CObj [(''b'', CInt 1), (''a'', CNull)]"] by simp

end
