(* ===== verification/N2_Evidence.thy ===== *)
theory N2_Evidence
  imports N2_Json D1_Contract
begin

text \<open>
  The terminal evidence of a capture (\<open>m2_d1_n2_evidence.py\<close>): the receipt with its closed set of fields, the ledger of failures
  and the verification that rebuilds them from their canonical text. The SHA-256 of a text is the parameter \<open>sha\<close>.
\<close>

section \<open>Reading fields\<close>

text \<open>\<open>d.get(k)\<close>: a missing key reads as null.\<close>

definition get_field :: "cdict \<Rightarrow> string \<Rightarrow> cjson" where
  "get_field d k = (case map_of d k of None \<Rightarrow> CNull | Some v \<Rightarrow> v)"

definition json_digest :: "cjson \<Rightarrow> bool" where
  "json_digest v = (case v of CStr t \<Rightarrow> is_digest t | _ \<Rightarrow> False)"

definition is_str :: "cjson \<Rightarrow> bool" where
  "is_str v = (case v of CStr _ \<Rightarrow> True | _ \<Rightarrow> False)"

definition is_bool :: "cjson \<Rightarrow> bool" where
  "is_bool v = (case v of CBool _ \<Rightarrow> True | _ \<Rightarrow> False)"

text \<open>\<open>type(v) is int\<close>, and the value of a field whose type was checked.\<close>

definition int_of :: "cjson \<Rightarrow> int option" where
  "int_of v = (case v of CInt i \<Rightarrow> Some i | _ \<Rightarrow> None)"

definition int_field :: "cdict \<Rightarrow> string \<Rightarrow> int" where
  "int_field d k = (case get_field d k of CInt i \<Rightarrow> i | _ \<Rightarrow> 0)"

definition count_ok :: "cjson \<Rightarrow> bool" where
  "count_ok v = (case v of CInt i \<Rightarrow> 0 \<le> i | _ \<Rightarrow> False)"

text \<open>\<open>v == i\<close>, where a truth value is a number.\<close>

definition equals_int :: "cjson \<Rightarrow> int \<Rightarrow> bool" where
  "equals_int v i = (case v of CInt j \<Rightarrow> j = i | CBool b \<Rightarrow> (if b then 1 else 0) = i | _ \<Rightarrow> False)"

definition keys_are :: "cdict \<Rightarrow> string list \<Rightarrow> bool" where
  "keys_are d ks \<longleftrightarrow> set (map fst d) = set ks"

section \<open>Constants\<close>

definition CAPTURE_POLICY_DIGEST :: string where
  "CAPTURE_POLICY_DIGEST = ''553f25eb67f50d8fcb0285498a065ff77b5c0cedd7dcc8019ab3ac20a6b8042b''"

definition WATCHDOG_POLICY_DIGEST :: string where
  "WATCHDOG_POLICY_DIGEST = ''b54e97e25f5428af7bc39cfc02fc7377bdd633f9b3834140cc13a22b844c2f78''"

datatype failure_stage = AUTHORIZATION | WORKER_IMAGE | JOB | WATCHDOG | CAPTURE | PRIVACY | ACCOUNTING | CLEANUP

definition stage_str :: "failure_stage \<Rightarrow> string" where
  "stage_str st = (case st of AUTHORIZATION \<Rightarrow> ''AUTHORIZATION'' | WORKER_IMAGE \<Rightarrow> ''WORKER_IMAGE'' | JOB \<Rightarrow> ''JOB'' | WATCHDOG \<Rightarrow> ''WATCHDOG''
     | CAPTURE \<Rightarrow> ''CAPTURE'' | PRIVACY \<Rightarrow> ''PRIVACY'' | ACCOUNTING \<Rightarrow> ''ACCOUNTING'' | CLEANUP \<Rightarrow> ''CLEANUP'')"

definition FAILURE_CODES :: "(string \<times> failure_stage) list" where
  "FAILURE_CODES = [(''AUTHORIZATION_FAILED'', AUTHORIZATION), (''WORKER_IMAGE_MISMATCH'', WORKER_IMAGE), (''JOB_BINDING_FAILED'', JOB),
     (''FRAME_STALLED'', WATCHDOG), (''WATCHDOG_FAILED'', WATCHDOG), (''CAPTURE_RUNTIME_FAILED'', CAPTURE), (''INFERENCE_FAILED'', CAPTURE),
     (''DELIVERY_FAILED'', CAPTURE), (''PRIVACY_STOP'', PRIVACY), (''ACCOUNTING_INVALID'', ACCOUNTING), (''QUALITY_INSUFFICIENT'', ACCOUNTING),
     (''CLEANUP_INCOMPLETE'', CLEANUP)]"

definition COUNT_FIELDS :: "string list" where
  "COUNT_FIELDS = [''received_frames'', ''delivered_frames'', ''processed_frames'', ''dropped_explicit_frames'', ''dropped_short_frames'',
     ''failed_frames'', ''inference_failure_frames'', ''privacy_terminal_frames'', ''delivery_failure_frames'', ''post_attempted_frames'',
     ''post_successful_frames'', ''privacy_checked_frames'', ''privacy_stop_count'', ''face_detections'', ''pose_detections'', ''outbound_attempt_count'']"

definition TIMING_FIELDS :: "string list" where
  "TIMING_FIELDS = [''measured_total_ns'', ''measured_post_warmup_ns'', ''post_elapsed_ns'', ''p95_ingress_gap_us'', ''p95_pose_latency_us'',
     ''p99_pose_latency_us'', ''backlog_ns'', ''max_stall_gap_ns'']"

definition BOOL_FIELDS :: "string list" where
  "BOOL_FIELDS = [''video_only'', ''retry'', ''audio_requested'', ''network_authorized'', ''network_transport_constructed'', ''raw_retained'',
     ''d1_go'', ''watchdog_authorized'', ''privacy_ready'', ''capture_starting'', ''first_frame'', ''capture_closed'', ''receipt_received'',
     ''worker_supervised'', ''job_drained'', ''worker_lease_closed'', ''pipe_closed'', ''media_closed'', ''ffmpeg_lease_closed'',
     ''mutex_released'', ''buffers_cleared'']"

definition DIGEST_FIELDS :: "string list" where
  "DIGEST_FIELDS = [''authority_digest'', ''grant_record_digest'', ''challenge_digest'', ''job_name_digest'', ''static_bindings_digest'',
     ''capture_policy_digest'', ''watchdog_policy_digest'', ''runtime_digest'', ''pose_model_sha256'', ''face_model_sha256'']"

text \<open>\<open>_RECEIPT_KEYS\<close> lists these names and five more.\<close>

definition RECEIPT_KEYS :: "string list" where
  "RECEIPT_KEYS = COUNT_FIELDS @ TIMING_FIELDS @ BOOL_FIELDS @ DIGEST_FIELDS @
     [''device_gate_decision'', ''duration_seconds'', ''failure_code'', ''outcome'', ''schema_version'']"

section \<open>Data\<close>

record retained_cleanup =
  rc_a0_clean :: bool
  rc_rp2_clean :: bool
  rc_preparation_clean :: bool

record terminal_evidence =
  ev_receipt_json :: string
  ev_receipt_digest :: string
  ev_ledger_json :: string
  ev_ledger_digest :: string
  ev_retained_cleanup :: retained_cleanup

record redacted_receipt =
  rr_canonical_bytes :: string
  rr_outcome :: string
  rr_failure_code :: "string option"

definition cleanup_valid :: "retained_cleanup \<Rightarrow> bool" where
  "cleanup_valid c \<longleftrightarrow> rc_a0_clean c \<and> rc_rp2_clean c \<and> rc_preparation_clean c"

section \<open>The ledger\<close>

definition ledger_entry_ok :: "nat \<Rightarrow> (string \<times> string) list \<Rightarrow> cjson \<Rightarrow> bool" where
  "ledger_entry_ok index seen raw = (case raw of
      CObj d \<Rightarrow> keys_are d [''stage'', ''code'', ''count'', ''precedence''] \<and>
        (case (get_field d ''stage'', get_field d ''code'', get_field d ''count'', get_field d ''precedence'') of
           (CStr stage, CStr code, CInt count, CInt precedence) \<Rightarrow>
             0 < count \<and> precedence = int index \<and> map_option stage_str (map_of FAILURE_CODES code) = Some stage \<and> (stage, code) \<notin> set seen
         | _ \<Rightarrow> False)
    | _ \<Rightarrow> False)"

definition ledger_pair :: "cjson \<Rightarrow> string \<times> string" where
  "ledger_pair raw = (case raw of CObj d \<Rightarrow>
      (case (get_field d ''stage'', get_field d ''code'') of (CStr stage, CStr code) \<Rightarrow> (stage, code) | _ \<Rightarrow> ([], [])) | _ \<Rightarrow> ([], []))"

fun ledger_entries_ok :: "nat \<Rightarrow> (string \<times> string) list \<Rightarrow> cjson list \<Rightarrow> bool" where
  "ledger_entries_ok index seen [] = True"
| "ledger_entries_ok index seen (raw # raws) =
     (ledger_entry_ok index seen raw \<and> ledger_entries_ok (Suc index) (ledger_pair raw # seen) raws)"

definition ledger_ok :: "string \<Rightarrow> cjson \<Rightarrow> cjson \<Rightarrow> bool" where
  "ledger_ok payload failure_code outcm = (case decode_closed payload of
      Some (CArr entries) \<Rightarrow>
        length entries \<le> 8 \<and>
        (if outcm = CStr ''D1_N2_PREFLIGHT_PASS'' then failure_code = CNull \<and> entries = []
         else outcm = CStr ''NO_GO'' \<and> is_str failure_code \<and> entries \<noteq> [] \<and> ledger_entries_ok 0 [] entries \<and>
           (case hd entries of CObj d \<Rightarrow> get_field d ''code'' = failure_code | _ \<Rightarrow> False))
    | _ \<Rightarrow> False)"

section \<open>The receipt\<close>

definition receipt_shape_ok :: "cdict \<Rightarrow> bool" where
  "receipt_shape_ok d \<longleftrightarrow> keys_are d RECEIPT_KEYS \<and>
     get_field d ''schema_version'' = CInt 1 \<and> get_field d ''duration_seconds'' = CInt 60 \<and>
     get_field d ''video_only'' = CBool True \<and> get_field d ''retry'' = CBool False \<and> get_field d ''audio_requested'' = CBool False \<and>
     get_field d ''network_authorized'' = CBool False \<and> get_field d ''network_transport_constructed'' = CBool False \<and>
     get_field d ''raw_retained'' = CBool False \<and> get_field d ''device_gate_decision'' = CStr ''UNVERIFIED'' \<and> get_field d ''d1_go'' = CBool False \<and>
     list_all (\<lambda>k. is_bool (get_field d k)) BOOL_FIELDS \<and>
     list_all (\<lambda>k. count_ok (get_field d k)) (COUNT_FIELDS @ TIMING_FIELDS) \<and>
     list_all (\<lambda>k. json_digest (get_field d k)) DIGEST_FIELDS \<and>
     get_field d ''capture_policy_digest'' = CStr CAPTURE_POLICY_DIGEST \<and> get_field d ''watchdog_policy_digest'' = CStr WATCHDOG_POLICY_DIGEST"

definition accounting_ok :: "cdict \<Rightarrow> bool" where
  "accounting_ok d \<longleftrightarrow>
     int_field d ''outbound_attempt_count'' = 0 \<and>
     int_field d ''received_frames'' = int_field d ''delivered_frames'' \<and>
     int_field d ''delivered_frames'' = int_field d ''processed_frames'' + int_field d ''dropped_explicit_frames'' + int_field d ''failed_frames'' \<and>
     int_field d ''dropped_explicit_frames'' = int_field d ''dropped_short_frames'' \<and>
     int_field d ''failed_frames'' = int_field d ''inference_failure_frames'' + int_field d ''privacy_terminal_frames'' + int_field d ''delivery_failure_frames'' \<and>
     int_field d ''post_attempted_frames'' = int_field d ''post_successful_frames'' + int_field d ''dropped_short_frames'' +
       int_field d ''inference_failure_frames'' + int_field d ''privacy_terminal_frames'' + int_field d ''delivery_failure_frames'' \<and>
     int_field d ''privacy_checked_frames'' = int_field d ''processed_frames''"

definition cleaned_up :: "cdict \<Rightarrow> bool" where
  "cleaned_up d = list_all (\<lambda>k. get_field d k = CBool True)
     [''worker_supervised'', ''job_drained'', ''worker_lease_closed'', ''pipe_closed'', ''media_closed'', ''ffmpeg_lease_closed'', ''mutex_released'',
      ''buffers_cleared'']"

definition pass_ok :: "cdict \<Rightarrow> bool" where
  "pass_ok d \<longleftrightarrow>
     (let attempted = int_field d ''post_attempted_frames''; successful = int_field d ''post_successful_frames'';
          elapsed = int_field d ''post_elapsed_ns'';
          dropped_or_failed = int_field d ''dropped_short_frames'' + int_field d ''inference_failure_frames''
      in get_field d ''failure_code'' = CNull \<and> 60000000000 \<le> int_field d ''measured_total_ns'' \<and>
         55000000000 \<le> int_field d ''measured_post_warmup_ns'' \<and> 0 < elapsed \<and> 27 * elapsed \<le> 2 * successful * 1000000000 \<and>
         int_field d ''p95_ingress_gap_us'' \<le> 200000 \<and> int_field d ''p95_pose_latency_us'' \<le> 200000 \<and> int_field d ''p99_pose_latency_us'' \<le> 500000 \<and>
         int_field d ''backlog_ns'' \<le> 2000000000 \<and> int_field d ''max_stall_gap_ns'' < 1000000000 \<and> 0 < attempted \<and>
         100 * dropped_or_failed \<le> attempted \<and> 99 * attempted \<le> 100 * successful \<and> int_field d ''delivery_failure_frames'' = 0 \<and>
         int_field d ''privacy_stop_count'' = 0 \<and> int_field d ''face_detections'' = 0 \<and> int_field d ''pose_detections'' = 0 \<and>
         list_all (\<lambda>k. get_field d k = CBool True)
           [''watchdog_authorized'', ''privacy_ready'', ''capture_starting'', ''first_frame'', ''capture_closed'', ''receipt_received''])"

definition read_receipt :: "string \<Rightarrow> redacted_receipt option" where
  "read_receipt payload = (case decode_closed payload of
      Some (CObj d) \<Rightarrow>
        if \<not> (receipt_shape_ok d \<and> accounting_ok d \<and> cleaned_up d) then None
        else (case get_field d ''outcome'' of
            CStr outcm \<Rightarrow>
              if outcm = ''D1_N2_PREFLIGHT_PASS'' then
                (if pass_ok d then Some \<lparr>rr_canonical_bytes = payload, rr_outcome = outcm, rr_failure_code = None\<rparr> else None)
              else if outcm = ''NO_GO'' then (case get_field d ''failure_code'' of
                  CStr code \<Rightarrow> Some \<lparr>rr_canonical_bytes = payload, rr_outcome = outcm, rr_failure_code = Some code\<rparr>
                | _ \<Rightarrow> None)
              else None
          | _ \<Rightarrow> None)
    | _ \<Rightarrow> None)"

section \<open>Evidence\<close>

definition opt_cstr :: "string option \<Rightarrow> cjson" where
  "opt_cstr v = (case v of None \<Rightarrow> CNull | Some t \<Rightarrow> CStr t)"

definition build_verified_terminal_evidence :: "(string \<Rightarrow> string) \<Rightarrow> string \<Rightarrow> string \<Rightarrow> retained_cleanup \<Rightarrow> terminal_evidence option" where
  "build_verified_terminal_evidence sha receipt_bytes ledger_bytes cleanup =
     (if \<not> cleanup_valid cleanup then None
      else case read_receipt receipt_bytes of
        None \<Rightarrow> None
      | Some r \<Rightarrow>
          if \<not> ledger_ok ledger_bytes (opt_cstr (rr_failure_code r)) (CStr (rr_outcome r)) then None
          else Some \<lparr>ev_receipt_json = receipt_bytes, ev_receipt_digest = sha receipt_bytes, ev_ledger_json = ledger_bytes,
            ev_ledger_digest = sha ledger_bytes, ev_retained_cleanup = cleanup\<rparr>)"

definition verify_terminal_evidence :: "(string \<Rightarrow> string) \<Rightarrow> terminal_evidence \<Rightarrow> bool" where
  "verify_terminal_evidence sha e \<longleftrightarrow>
     build_verified_terminal_evidence sha (ev_receipt_json e) (ev_ledger_json e) (ev_retained_cleanup e) = Some e"

definition verify_worker_candidate_envelope :: "cjson \<Rightarrow> bool" where
  "verify_worker_candidate_envelope v = (case v of
      CObj d \<Rightarrow> keys_are d [''failure_ledger'', ''receipt''] \<and>
        (case (get_field d ''receipt'', get_field d ''failure_ledger'') of
           (CObj r, CArr ledger) \<Rightarrow> keys_are r RECEIPT_KEYS \<and>
             equals_int (get_field r ''schema_version'') 1 \<and> equals_int (get_field r ''duration_seconds'') 60 \<and>
             get_field r ''video_only'' = CBool True \<and> get_field r ''retry'' = CBool False \<and> get_field r ''audio_requested'' = CBool False \<and>
             get_field r ''network_authorized'' = CBool False \<and> get_field r ''network_transport_constructed'' = CBool False \<and>
             equals_int (get_field r ''outbound_attempt_count'') 0 \<and> get_field r ''raw_retained'' = CBool False \<and>
             get_field r ''device_gate_decision'' = CStr ''UNVERIFIED'' \<and> get_field r ''d1_go'' = CBool False \<and>
             ledger_ok (canonical_bytes (CArr ledger)) (get_field r ''failure_code'') (get_field r ''outcome'')
         | _ \<Rightarrow> False)
    | _ \<Rightarrow> False)"

text \<open>The digests that identify a run.\<close>

record run_digests =
  rd_authority :: string
  rd_grant_record :: string
  rd_challenge :: string
  rd_job_name :: string
  rd_static_bindings :: string
  rd_capture_policy :: string
  rd_watchdog_policy :: string
  rd_runtime :: string
  rd_pose_model :: string
  rd_face_model :: string

definition sanitized_receipt :: "string \<Rightarrow> run_digests \<Rightarrow> cdict" where
  "sanitized_receipt failure_code rd = dict_of
     (map (\<lambda>k. (k, CInt 0)) (COUNT_FIELDS @ TIMING_FIELDS) @ map (\<lambda>k. (k, CBool False)) BOOL_FIELDS @
      [(''audio_requested'', CBool False), (''authority_digest'', CStr (rd_authority rd)), (''buffers_cleared'', CBool True),
       (''capture_policy_digest'', CStr (rd_capture_policy rd)), (''challenge_digest'', CStr (rd_challenge rd)), (''d1_go'', CBool False),
       (''device_gate_decision'', CStr ''UNVERIFIED''), (''duration_seconds'', CInt 60), (''face_model_sha256'', CStr (rd_face_model rd)),
       (''failure_code'', CStr failure_code), (''ffmpeg_lease_closed'', CBool True), (''grant_record_digest'', CStr (rd_grant_record rd)),
       (''job_drained'', CBool True), (''job_name_digest'', CStr (rd_job_name rd)), (''media_closed'', CBool True), (''mutex_released'', CBool True),
       (''network_authorized'', CBool False), (''network_transport_constructed'', CBool False), (''outcome'', CStr ''NO_GO''),
       (''pipe_closed'', CBool True), (''pose_model_sha256'', CStr (rd_pose_model rd)), (''raw_retained'', CBool False), (''retry'', CBool False),
       (''runtime_digest'', CStr (rd_runtime rd)), (''schema_version'', CInt 1), (''static_bindings_digest'', CStr (rd_static_bindings rd)),
       (''video_only'', CBool True), (''watchdog_policy_digest'', CStr (rd_watchdog_policy rd)), (''worker_lease_closed'', CBool True),
       (''worker_supervised'', CBool True)])"

definition build_sanitized_no_go_evidence :: "(string \<Rightarrow> string) \<Rightarrow> string \<Rightarrow> run_digests \<Rightarrow> retained_cleanup \<Rightarrow> terminal_evidence option" where
  "build_sanitized_no_go_evidence sha failure_code rd cleanup = (case map_of FAILURE_CODES failure_code of
      None \<Rightarrow> None
    | Some st \<Rightarrow>
        if \<not> list_all is_digest [rd_authority rd, rd_grant_record rd, rd_challenge rd, rd_job_name rd, rd_static_bindings rd, rd_capture_policy rd,
           rd_watchdog_policy rd, rd_runtime rd, rd_pose_model rd, rd_face_model rd] then None
        else build_verified_terminal_evidence sha (canonical_bytes (CObj (sanitized_receipt failure_code rd)))
          (canonical_bytes (CArr [CObj [(''code'', CStr failure_code), (''count'', CInt 1), (''precedence'', CInt 0), (''stage'', CStr (stage_str st))]]))
          cleanup)"

section \<open>Properties\<close>

lemma map_of_dict_of: "map_of (dict_of kvs) = map_of (rev kvs)"
proof -
  have "map_of (fold (\<lambda>(k, v). AList.update k v) kvs al) = map_of (rev kvs @ al)" for al
    by (induction kvs arbitrary: al) (auto simp: update_conv fun_eq_iff map_add_def split: option.split)
  from this [of "[]"] show ?thesis by (simp add: dict_of_def)
qed

lemma keys_dict_of: "set (map fst (dict_of kvs)) = set (map fst kvs)"
  by (metis dom_map_of_conv_image_fst map_of_dict_of set_map set_rev)

lemma distinct_dict_of: "distinct (map fst (dict_of kvs))"
proof -
  have "distinct (map fst al) \<Longrightarrow> distinct (map fst (fold (\<lambda>(k, v). AList.update k v) kvs al))" for al
    by (induction kvs arbitrary: al) (auto simp: distinct_update)
  from this [of "[]"] show ?thesis by (simp add: dict_of_def)
qed

definition flat :: "cjson \<Rightarrow> bool" where
  "flat v = (case v of CArr _ \<Rightarrow> False | CObj _ \<Rightarrow> False | _ \<Rightarrow> True)"

lemma canon_flat [simp]: "flat v \<Longrightarrow> canon v = v" and keys_once_flat [simp]: "flat v \<Longrightarrow> keys_once v"
  by (cases v; simp add: flat_def)+

lemma flat_simps [simp]: "flat CNull" "flat (CBool b)" "flat (CInt i)" "flat (CStr t)"
  by (simp_all add: flat_def)

text \<open>A dictionary of plain values is read back with the same entries.\<close>

lemma decode_flat:
  assumes "distinct (map fst d)" and "\<forall>(k, v) \<in> set d. flat v"
  shows "decode_closed (canonical_bytes (CObj d)) = Some (CObj (sort_key fst d))" and "map_of (sort_key fst d) = map_of d"
proof -
  have c: "canon_pairs d = d" using assms(2) by (induction d) auto
  have k: "keys_once (CObj d)" using assms by (auto simp: keys_once_pairs_iff)
  show "decode_closed (canonical_bytes (CObj d)) = Some (CObj (sort_key fst d))"
    using decode_canonical [OF k] c by simp
  show "map_of (sort_key fst d) = map_of d" using assms(1) by (rule map_of_sort)
qed

lemma flat_sanitized: "\<forall>(k, v) \<in> set (sanitized_receipt code rd). flat v"
proof -
  have "(k, v) \<in> set kvs" if "(k, v) \<in> set (dict_of kvs)" for k v kvs
    using that map_of_SomeD [of "rev kvs" k v] map_of_is_SomeI [OF distinct_dict_of that] by (simp add: map_of_dict_of)
  then show ?thesis unfolding sanitized_receipt_def by fastforce
qed

text \<open>The entries of the receipt, the last written first.\<close>

definition sanitized_fields :: "string \<Rightarrow> run_digests \<Rightarrow> cdict" where
  "sanitized_fields code rd = rev
     (map (\<lambda>k. (k, CInt 0)) (COUNT_FIELDS @ TIMING_FIELDS) @ map (\<lambda>k. (k, CBool False)) BOOL_FIELDS @
      [(''audio_requested'', CBool False), (''authority_digest'', CStr (rd_authority rd)), (''buffers_cleared'', CBool True),
       (''capture_policy_digest'', CStr (rd_capture_policy rd)), (''challenge_digest'', CStr (rd_challenge rd)), (''d1_go'', CBool False),
       (''device_gate_decision'', CStr ''UNVERIFIED''), (''duration_seconds'', CInt 60), (''face_model_sha256'', CStr (rd_face_model rd)),
       (''failure_code'', CStr code), (''ffmpeg_lease_closed'', CBool True), (''grant_record_digest'', CStr (rd_grant_record rd)),
       (''job_drained'', CBool True), (''job_name_digest'', CStr (rd_job_name rd)), (''media_closed'', CBool True), (''mutex_released'', CBool True),
       (''network_authorized'', CBool False), (''network_transport_constructed'', CBool False), (''outcome'', CStr ''NO_GO''),
       (''pipe_closed'', CBool True), (''pose_model_sha256'', CStr (rd_pose_model rd)), (''raw_retained'', CBool False), (''retry'', CBool False),
       (''runtime_digest'', CStr (rd_runtime rd)), (''schema_version'', CInt 1), (''static_bindings_digest'', CStr (rd_static_bindings rd)),
       (''video_only'', CBool True), (''watchdog_policy_digest'', CStr (rd_watchdog_policy rd)), (''worker_lease_closed'', CBool True),
       (''worker_supervised'', CBool True)])"

lemma sanitized_lookup: "map_of (sanitized_receipt code rd) = map_of (sanitized_fields code rd)"
  unfolding sanitized_receipt_def sanitized_fields_def map_of_dict_of ..

lemma sanitized_keys: "set (map fst (sanitized_receipt code rd)) = set RECEIPT_KEYS"
  unfolding sanitized_receipt_def keys_dict_of RECEIPT_KEYS_def COUNT_FIELDS_def TIMING_FIELDS_def BOOL_FIELDS_def DIGEST_FIELDS_def
  by auto

lemma sanitized_values:
  shows "map (get_field (sanitized_fields code rd)) [''schema_version'', ''duration_seconds'', ''video_only'', ''retry'', ''audio_requested'', ''network_authorized'',
      ''network_transport_constructed'', ''raw_retained'', ''device_gate_decision'', ''d1_go'', ''outcome'', ''failure_code''] =
      [CInt 1, CInt 60, CBool True, CBool False, CBool False, CBool False, CBool False, CBool False, CStr ''UNVERIFIED'', CBool False, CStr ''NO_GO'', CStr code]"
    and "map (get_field (sanitized_fields code rd)) DIGEST_FIELDS = map CStr [rd_authority rd, rd_grant_record rd, rd_challenge rd, rd_job_name rd,
      rd_static_bindings rd, rd_capture_policy rd, rd_watchdog_policy rd, rd_runtime rd, rd_pose_model rd, rd_face_model rd]"
    and "list_all (\<lambda>k. is_bool (get_field (sanitized_fields code rd) k)) BOOL_FIELDS"
    and "map (get_field (sanitized_fields code rd)) (COUNT_FIELDS @ TIMING_FIELDS) = replicate 24 (CInt 0)"
    and "cleaned_up (sanitized_fields code rd)"
  by code_simp+

lemma sanitized_decode:
  "decode_closed (canonical_bytes (CObj (sanitized_receipt code rd))) = Some (CObj (sort_key fst (sanitized_receipt code rd)))"
  "get_field (sort_key fst (sanitized_receipt code rd)) = get_field (sanitized_fields code rd)"
proof -
  have dist: "distinct (map fst (sanitized_receipt code rd))" unfolding sanitized_receipt_def by (rule distinct_dict_of)
  note dec = decode_flat [OF dist flat_sanitized]
  show "decode_closed (canonical_bytes (CObj (sanitized_receipt code rd))) = Some (CObj (sort_key fst (sanitized_receipt code rd)))"
    by (rule dec(1))
  show "get_field (sort_key fst (sanitized_receipt code rd)) = get_field (sanitized_fields code rd)"
    by (simp add: get_field_def dec(2) sanitized_lookup fun_eq_iff)
qed

lemma sanitized_read:
  assumes "list_all is_digest [rd_authority rd, rd_grant_record rd, rd_challenge rd, rd_job_name rd, rd_static_bindings rd, rd_capture_policy rd,
      rd_watchdog_policy rd, rd_runtime rd, rd_pose_model rd, rd_face_model rd]"
    and "rd_capture_policy rd = CAPTURE_POLICY_DIGEST" and "rd_watchdog_policy rd = WATCHDOG_POLICY_DIGEST"
  shows "read_receipt (canonical_bytes (CObj (sanitized_receipt code rd))) =
    Some \<lparr>rr_canonical_bytes = canonical_bytes (CObj (sanitized_receipt code rd)), rr_outcome = ''NO_GO'', rr_failure_code = Some code\<rparr>"
proof -
  let ?d = "sort_key fst (sanitized_receipt code rd)" and ?f = "sanitized_fields code rd"
  note dec = sanitized_decode(1) [of code rd] and get = sanitized_decode(2) [of code rd]
  note v = sanitized_values [of code rd]
  have counts: "get_field ?f k = CInt 0" if "k \<in> set (COUNT_FIELDS @ TIMING_FIELDS)" for k
  proof -
    from that have "get_field ?f k \<in> set (map (get_field ?f) (COUNT_FIELDS @ TIMING_FIELDS))" unfolding set_map by (rule imageI)
    then show ?thesis unfolding v(4) by simp
  qed
  have "list_all (\<lambda>k. json_digest (get_field ?f k)) DIGEST_FIELDS = list_all json_digest (map (get_field ?f) DIGEST_FIELDS)"
    by (simp add: list_all_iff)
  then have digests: "list_all (\<lambda>k. json_digest (get_field ?f k)) DIGEST_FIELDS" using assms(1) unfolding v(2) by (simp add: json_digest_def)
  have "list_all (\<lambda>k. count_ok (get_field ?f k)) (COUNT_FIELDS @ TIMING_FIELDS)" using counts unfolding list_all_iff by (auto simp: count_ok_def)
  moreover have "keys_are ?d RECEIPT_KEYS" using sanitized_keys by (simp add: keys_are_def)
  moreover have "get_field ?f ''capture_policy_digest'' = CStr CAPTURE_POLICY_DIGEST" "get_field ?f ''watchdog_policy_digest'' = CStr WATCHDOG_POLICY_DIGEST"
    using v(2) assms(2,3) by (simp_all add: DIGEST_FIELDS_def)
  ultimately have "receipt_shape_ok ?d" unfolding receipt_shape_ok_def get using v(1,3) digests by simp
  moreover have "accounting_ok ?d" using counts by (simp add: accounting_ok_def int_field_def get COUNT_FIELDS_def)
  moreover have "cleaned_up ?d" using v(5) by (simp add: cleaned_up_def get)
  ultimately show ?thesis using v(1) by (simp add: read_receipt_def dec get)
qed

definition single_entry :: "string \<Rightarrow> failure_stage \<Rightarrow> cjson" where
  "single_entry code st = CArr [CObj [(''code'', CStr code), (''count'', CInt 1), (''precedence'', CInt 0), (''stage'', CStr (stage_str st))]]"

lemma ledger_single:
  shows "decode_closed (canonical_bytes (single_entry code st)) = Some (single_entry code st)"
    and "map_of FAILURE_CODES code = Some st \<Longrightarrow> ledger_ok (canonical_bytes (single_entry code st)) (CStr code) (CStr ''NO_GO'')"
proof -
  let ?e = "[(''code'', CStr code), (''count'', CInt 1), (''precedence'', CInt 0), (''stage'', CStr (stage_str st))]"
  have "sort_key fst ?e = ?e" by (rule sort_key_id_if_sorted) (simp add: less_list_code)
  then show d: "decode_closed (canonical_bytes (single_entry code st)) = Some (single_entry code st)"
    using decode_canonical [of "CArr [CObj ?e]"] by (simp add: single_entry_def)
  show "map_of FAILURE_CODES code = Some st \<Longrightarrow> ledger_ok (canonical_bytes (single_entry code st)) (CStr code) (CStr ''NO_GO'')"
    using d by (auto simp: ledger_ok_def is_str_def ledger_entry_ok_def keys_are_def get_field_def single_entry_def)
qed

text \<open>
  Claim C38. The evidence that stands in for a capture that failed is complete: for every known failure code, with digests of the right form, among
  them those of the two policies of this version, and every retained lease cleanly closed, it is built and the verification accepts it. Its receipt
  reads as a refusal for that code, carries the digests of the run and counts nothing, and its ledger is exactly one entry: the code
  with its stage, once, in first place.
\<close>
theorem no_go_evidence_verifies:
  assumes "map_of FAILURE_CODES code = Some st" and "cleanup_valid cleanup"
    and "list_all is_digest [rd_authority rd, rd_grant_record rd, rd_challenge rd, rd_job_name rd, rd_static_bindings rd, rd_capture_policy rd,
      rd_watchdog_policy rd, rd_runtime rd, rd_pose_model rd, rd_face_model rd]"
    and "rd_capture_policy rd = CAPTURE_POLICY_DIGEST" and "rd_watchdog_policy rd = WATCHDOG_POLICY_DIGEST"
  shows "\<exists>e r d. build_sanitized_no_go_evidence sha code rd cleanup = Some e \<and> verify_terminal_evidence sha e \<and>
    read_receipt (ev_receipt_json e) = Some r \<and> rr_outcome r = ''NO_GO'' \<and> rr_failure_code r = Some code \<and>
    decode_closed (ev_receipt_json e) = Some (CObj d) \<and>
    map (get_field d) DIGEST_FIELDS = map CStr [rd_authority rd, rd_grant_record rd, rd_challenge rd, rd_job_name rd, rd_static_bindings rd,
      rd_capture_policy rd, rd_watchdog_policy rd, rd_runtime rd, rd_pose_model rd, rd_face_model rd] \<and>
    map (get_field d) (COUNT_FIELDS @ TIMING_FIELDS) = replicate 24 (CInt 0) \<and>
    decode_closed (ev_ledger_json e) = Some (CArr [CObj [(''code'', CStr code), (''count'', CInt 1), (''precedence'', CInt 0),
      (''stage'', CStr (stage_str st))]])"
proof -
  note r = sanitized_read [OF assms(3-5), of code]
  have b: "build_sanitized_no_go_evidence sha code rd cleanup = build_verified_terminal_evidence sha (canonical_bytes (CObj (sanitized_receipt code rd)))
      (canonical_bytes (single_entry code st)) cleanup"
    using assms(1,3) by (simp add: build_sanitized_no_go_evidence_def single_entry_def)
  show ?thesis
    unfolding b using assms(2) r ledger_single(2) [OF assms(1)] ledger_single(1) [of code st] sanitized_decode [of code rd] sanitized_values [of code rd]
    by (simp add: build_verified_terminal_evidence_def verify_terminal_evidence_def opt_cstr_def single_entry_def)
qed

definition sample_run :: run_digests where
  "sample_run = (let z = replicate 64 CHR ''0'' in
     \<lparr>rd_authority = z, rd_grant_record = z, rd_challenge = z, rd_job_name = z, rd_static_bindings = z, rd_capture_policy = CAPTURE_POLICY_DIGEST,
       rd_watchdog_policy = WATCHDOG_POLICY_DIGEST, rd_runtime = z, rd_pose_model = z, rd_face_model = z\<rparr>)"

theorem no_go_evidence_verifies_witness:
  "\<exists>e. build_sanitized_no_go_evidence (\<lambda>x. x) ''PRIVACY_STOP'' sample_run \<lparr>rc_a0_clean = True, rc_rp2_clean = True, rc_preparation_clean = True\<rparr> = Some e \<and>
     verify_terminal_evidence (\<lambda>x. x) e"
proof -
  have "map_of FAILURE_CODES ''PRIVACY_STOP'' = Some PRIVACY" by code_simp
  moreover have "list_all is_digest [rd_authority sample_run, rd_grant_record sample_run, rd_challenge sample_run, rd_job_name sample_run,
      rd_static_bindings sample_run, rd_capture_policy sample_run, rd_watchdog_policy sample_run, rd_runtime sample_run, rd_pose_model sample_run,
      rd_face_model sample_run]" by code_simp
  ultimately show ?thesis
    using no_go_evidence_verifies [of "''PRIVACY_STOP''" PRIVACY "\<lparr>rc_a0_clean = True, rc_rp2_clean = True, rc_preparation_clean = True\<rparr>" sample_run "\<lambda>x. x"]
    by (auto simp: cleanup_valid_def sample_run_def Let_def)
qed

subsection \<open>A pass without a frame\<close>

lemma passed_receipt:
  assumes "receipt_shape_ok d" "accounting_ok d" "cleaned_up d" "pass_ok d" "get_field d ''outcome'' = CStr ''D1_N2_PREFLIGHT_PASS''"
    and "distinct (map fst d)" and "list_all (\<lambda>(k, v). flat v) d"
  shows "decode_closed (canonical_bytes (CObj d)) = Some (CObj (sort_key fst d))" and "get_field (sort_key fst d) = get_field d"
    and "read_receipt (canonical_bytes (CObj d)) =
      Some \<lparr>rr_canonical_bytes = canonical_bytes (CObj d), rr_outcome = ''D1_N2_PREFLIGHT_PASS'', rr_failure_code = None\<rparr>"
proof -
  have f: "\<forall>(k, v) \<in> set d. flat v" using assms(7) by (simp add: list_all_iff)
  note dec = decode_flat [OF assms(6) f]
  show dc: "decode_closed (canonical_bytes (CObj d)) = Some (CObj (sort_key fst d))" by (rule dec(1))
  show get: "get_field (sort_key fst d) = get_field d" by (simp add: get_field_def dec(2) fun_eq_iff)
  have "receipt_shape_ok (sort_key fst d)" "accounting_ok (sort_key fst d)" "cleaned_up (sort_key fst d)" "pass_ok (sort_key fst d)"
    using assms(1-4) by (simp_all add: receipt_shape_ok_def accounting_ok_def cleaned_up_def pass_ok_def get int_field_def keys_are_def)
  then show "read_receipt (canonical_bytes (CObj d)) =
      Some \<lparr>rr_canonical_bytes = canonical_bytes (CObj d), rr_outcome = ''D1_N2_PREFLIGHT_PASS'', rr_failure_code = None\<rparr>"
    using assms(5) by (simp add: read_receipt_def dc get)
qed

definition hollow_value :: "string \<Rightarrow> cjson" where
  "hollow_value k = (case map_of
     [(''outcome'', CStr ''D1_N2_PREFLIGHT_PASS''), (''failure_code'', CNull), (''schema_version'', CInt 1), (''duration_seconds'', CInt 60),
      (''device_gate_decision'', CStr ''UNVERIFIED''), (''capture_policy_digest'', CStr CAPTURE_POLICY_DIGEST),
      (''watchdog_policy_digest'', CStr WATCHDOG_POLICY_DIGEST), (''measured_total_ns'', CInt 60000000000),
      (''measured_post_warmup_ns'', CInt 55000000000), (''post_elapsed_ns'', CInt 1), (''post_attempted_frames'', CInt 1),
      (''post_successful_frames'', CInt 1), (''retry'', CBool False), (''audio_requested'', CBool False), (''network_authorized'', CBool False),
      (''network_transport_constructed'', CBool False), (''raw_retained'', CBool False), (''d1_go'', CBool False)] k of
      Some v \<Rightarrow> v
    | None \<Rightarrow> if k \<in> set BOOL_FIELDS then CBool True else if k \<in> set DIGEST_FIELDS then CStr (replicate 64 CHR ''0'') else CInt 0)"

definition hollow_receipt :: cdict where
  "hollow_receipt = map (\<lambda>k. (k, hollow_value k)) RECEIPT_KEYS"

text \<open>The counts of the whole run, and the other fields that the checks read by name.\<close>

definition whole_run :: "string list" where
  "whole_run = [''received_frames'', ''delivered_frames'', ''processed_frames'', ''privacy_checked_frames'']"

definition checked_fields :: "string list" where
  "checked_fields =
     [''schema_version'', ''duration_seconds'', ''video_only'', ''retry'', ''audio_requested'', ''network_authorized'', ''network_transport_constructed'',
     ''raw_retained'', ''device_gate_decision'', ''d1_go'', ''capture_policy_digest'', ''watchdog_policy_digest'', ''outbound_attempt_count'',
     ''dropped_explicit_frames'', ''failed_frames'', ''dropped_short_frames'', ''inference_failure_frames'', ''privacy_terminal_frames'',
     ''delivery_failure_frames'', ''post_attempted_frames'', ''post_successful_frames'', ''worker_supervised'', ''job_drained'', ''worker_lease_closed'',
     ''pipe_closed'', ''media_closed'', ''ffmpeg_lease_closed'', ''mutex_released'', ''buffers_cleared'', ''failure_code'', ''measured_total_ns'',
     ''measured_post_warmup_ns'', ''post_elapsed_ns'', ''p95_ingress_gap_us'', ''p95_pose_latency_us'', ''p99_pose_latency_us'', ''backlog_ns'',
     ''max_stall_gap_ns'', ''privacy_stop_count'', ''face_detections'', ''pose_detections'', ''watchdog_authorized'', ''privacy_ready'',
     ''capture_starting'', ''first_frame'', ''capture_closed'', ''receipt_received'', ''outcome'']"

lemma field_names:
  "list_all (\<lambda>k. k \<in> set RECEIPT_KEYS) (whole_run @ checked_fields)"
  "list_all (\<lambda>k. k \<notin> set whole_run) (checked_fields @ BOOL_FIELDS @ DIGEST_FIELDS)"
  by code_simp+

lemma hollow_get: "k \<in> set RECEIPT_KEYS \<Longrightarrow> get_field hollow_receipt k = hollow_value k"
  by (simp add: get_field_def hollow_receipt_def map_of_map_restrict)

lemma hollow_values:
  "distinct RECEIPT_KEYS" "list_all (\<lambda>k. flat (hollow_value k)) RECEIPT_KEYS" "list_all (\<lambda>k. is_bool (hollow_value k)) BOOL_FIELDS"
  "list_all (\<lambda>k. count_ok (hollow_value k)) (COUNT_FIELDS @ TIMING_FIELDS)" "list_all (\<lambda>k. json_digest (hollow_value k)) DIGEST_FIELDS"
  by code_simp+

lemma hollow_fields:
  "map (get_field hollow_receipt) (whole_run @ checked_fields) =
     [CInt 0, CInt 0, CInt 0, CInt 0, CInt 1, CInt 60, CBool True, CBool False, CBool False, CBool False, CBool False, CBool False, CStr ''UNVERIFIED'',
     CBool False, CStr CAPTURE_POLICY_DIGEST, CStr WATCHDOG_POLICY_DIGEST, CInt 0, CInt 0, CInt 0, CInt 0, CInt 0, CInt 0, CInt 0, CInt 1, CInt 1, CBool
     True, CBool True, CBool True, CBool True, CBool True, CBool True, CBool True, CBool True, CNull, CInt 60000000000, CInt 55000000000, CInt 1, CInt 0,
     CInt 0, CInt 0, CInt 0, CInt 0, CInt 0, CInt 0, CInt 0, CBool True, CBool True, CBool True, CBool True, CBool True, CBool True, CStr
     ''D1_N2_PREFLIGHT_PASS'']"
proof -
  have "map (get_field hollow_receipt) (whole_run @ checked_fields) = map hollow_value (whole_run @ checked_fields)"
    using field_names(1) by (intro map_cong refl hollow_get) (simp add: list_all_iff)
  also have "\<dots> =
     [CInt 0, CInt 0, CInt 0, CInt 0, CInt 1, CInt 60, CBool True, CBool False, CBool False, CBool False, CBool False, CBool False, CStr ''UNVERIFIED'',
     CBool False, CStr CAPTURE_POLICY_DIGEST, CStr WATCHDOG_POLICY_DIGEST, CInt 0, CInt 0, CInt 0, CInt 0, CInt 0, CInt 0, CInt 0, CInt 1, CInt 1, CBool
     True, CBool True, CBool True, CBool True, CBool True, CBool True, CBool True, CBool True, CNull, CInt 60000000000, CInt 55000000000, CInt 1, CInt 0,
     CInt 0, CInt 0, CInt 0, CInt 0, CInt 0, CInt 0, CInt 0, CBool True, CBool True, CBool True, CBool True, CBool True, CBool True, CStr
     ''D1_N2_PREFLIGHT_PASS'']"
    by code_simp
  finally show ?thesis .
qed

lemma hollow_ok:
  "distinct (map fst hollow_receipt)" "list_all (\<lambda>(k, v). flat v) hollow_receipt"
  "receipt_shape_ok hollow_receipt" "accounting_ok hollow_receipt" "cleaned_up hollow_receipt" "pass_ok hollow_receipt"
  "map (get_field hollow_receipt) [''outcome'', ''received_frames'', ''processed_frames'', ''privacy_checked_frames''] =
     [CStr ''D1_N2_PREFLIGHT_PASS'', CInt 0, CInt 0, CInt 0]"
proof -
  have fst: "map fst hollow_receipt = RECEIPT_KEYS" by (simp add: hollow_receipt_def comp_def)
  show "distinct (map fst hollow_receipt)" using hollow_values(1) by (simp add: fst)
  show "list_all (\<lambda>(k, v). flat v) hollow_receipt" using hollow_values(2) by (simp add: hollow_receipt_def list_all_iff)
  have groups: "set BOOL_FIELDS \<subseteq> set RECEIPT_KEYS" "set (COUNT_FIELDS @ TIMING_FIELDS) \<subseteq> set RECEIPT_KEYS" "set DIGEST_FIELDS \<subseteq> set RECEIPT_KEYS"
    by (auto simp: RECEIPT_KEYS_def)
  have "list_all (\<lambda>k. is_bool (get_field hollow_receipt k)) BOOL_FIELDS" "list_all (\<lambda>k. count_ok (get_field hollow_receipt k)) (COUNT_FIELDS @ TIMING_FIELDS)"
    "list_all (\<lambda>k. json_digest (get_field hollow_receipt k)) DIGEST_FIELDS"
    using hollow_values(3-5) hollow_get groups unfolding list_all_iff by (metis subsetD)+
  moreover have "keys_are hollow_receipt RECEIPT_KEYS" by (simp add: keys_are_def fst del: set_map)
  moreover note f = hollow_fields [unfolded whole_run_def checked_fields_def append.simps list.map list.inject]
  ultimately show "receipt_shape_ok hollow_receipt" unfolding receipt_shape_ok_def by simp
  show "accounting_ok hollow_receipt" "cleaned_up hollow_receipt" "pass_ok hollow_receipt"
    "map (get_field hollow_receipt) [''outcome'', ''received_frames'', ''processed_frames'', ''privacy_checked_frames''] =
     [CStr ''D1_N2_PREFLIGHT_PASS'', CInt 0, CInt 0, CInt 0]"
    using f by (simp_all add: accounting_ok_def cleaned_up_def pass_ok_def int_field_def Let_def)
qed

lemma decode_empty: "decode_closed ''[]'' = Some (CArr [])"
  by code_simp

text \<open>Evidence of a passed preflight can count no received, no processed and no privacy-checked frame, and one successful frame in one nanosecond.\<close>

definition hollow_evidence :: "(string \<Rightarrow> string) \<Rightarrow> terminal_evidence" where
  "hollow_evidence sha = (let p = canonical_bytes (CObj hollow_receipt) in
     \<lparr>ev_receipt_json = p, ev_receipt_digest = sha p, ev_ledger_json = ''[]'', ev_ledger_digest = sha ''[]'',
       ev_retained_cleanup = \<lparr>rc_a0_clean = True, rc_rp2_clean = True, rc_preparation_clean = True\<rparr>\<rparr>)"

lemma hollow_verifies:
  "verify_terminal_evidence sha (hollow_evidence sha)"
  "read_receipt (ev_receipt_json (hollow_evidence sha)) =
     Some \<lparr>rr_canonical_bytes = canonical_bytes (CObj hollow_receipt), rr_outcome = ''D1_N2_PREFLIGHT_PASS'', rr_failure_code = None\<rparr>"
  "decode_closed (ev_receipt_json (hollow_evidence sha)) = Some (CObj (sort_key fst hollow_receipt))"
  "get_field (sort_key fst hollow_receipt) = get_field hollow_receipt"
proof -
  let ?d = "sort_key fst hollow_receipt" and ?p = "canonical_bytes (CObj hollow_receipt)"
  have "get_field hollow_receipt ''outcome'' = CStr ''D1_N2_PREFLIGHT_PASS''" using hollow_ok(7) by simp
  note p = passed_receipt [OF hollow_ok(3-6) this hollow_ok(1,2)]
  show "get_field ?d = get_field hollow_receipt" by (rule p(2))
  show "decode_closed (ev_receipt_json (hollow_evidence sha)) = Some (CObj ?d)" using p(1) by (simp add: hollow_evidence_def Let_def)
  have r: "read_receipt ?p = Some \<lparr>rr_canonical_bytes = ?p, rr_outcome = ''D1_N2_PREFLIGHT_PASS'', rr_failure_code = None\<rparr>" by (rule p(3))
  then show "read_receipt (ev_receipt_json (hollow_evidence sha)) =
     Some \<lparr>rr_canonical_bytes = ?p, rr_outcome = ''D1_N2_PREFLIGHT_PASS'', rr_failure_code = None\<rparr>" by (simp add: hollow_evidence_def Let_def)
  show "verify_terminal_evidence sha (hollow_evidence sha)"
    using r decode_empty
    by (simp add: verify_terminal_evidence_def build_verified_terminal_evidence_def cleanup_valid_def ledger_ok_def opt_cstr_def hollow_evidence_def Let_def)
qed

lemma pass_without_frames:
  "\<exists>e r d. verify_terminal_evidence sha e \<and> read_receipt (ev_receipt_json e) = Some r \<and> rr_outcome r = ''D1_N2_PREFLIGHT_PASS'' \<and>
     decode_closed (ev_receipt_json e) = Some (CObj d) \<and> get_field d ''received_frames'' = CInt 0 \<and> get_field d ''processed_frames'' = CInt 0 \<and>
     get_field d ''privacy_checked_frames'' = CInt 0"
  using hollow_verifies(1-3) [of sha] hollow_verifies(4) hollow_ok(7)
  by (intro exI [of _ "hollow_evidence sha"] exI [of _ "sort_key fst hollow_receipt"]) auto

subsection \<open>What a passed preflight shows\<close>

lemma receipt_number:
  assumes "receipt_shape_ok d" and "k \<in> set (COUNT_FIELDS @ TIMING_FIELDS)"
  shows "get_field d k = CInt (int_field d k) \<and> 0 \<le> int_field d k"
proof -
  have "count_ok (get_field d k)" using assms unfolding receipt_shape_ok_def list_all_iff by blast
  then show ?thesis by (auto simp: count_ok_def int_field_def split: cjson.splits)
qed

text \<open>The receipt with other values in the four counts of the whole run.\<close>

definition recounted :: "cdict \<Rightarrow> int \<Rightarrow> string \<Rightarrow> cjson" where
  "recounted d m = (get_field d)(''received_frames'' := CInt (int_field d ''received_frames'' + m),
     ''delivered_frames'' := CInt (int_field d ''delivered_frames'' + m), ''processed_frames'' := CInt (int_field d ''processed_frames'' + m),
     ''privacy_checked_frames'' := CInt (int_field d ''privacy_checked_frames'' + m))"

definition recounted_receipt :: "cdict \<Rightarrow> int \<Rightarrow> cdict" where
  "recounted_receipt d m = map (\<lambda>k. (k, recounted d m k)) RECEIPT_KEYS"

lemma recounted_other: "k \<notin> set whole_run \<Longrightarrow> recounted d m k = get_field d k"
  by (simp add: recounted_def whole_run_def)

lemma recounted_fields:
  "map (recounted d m) (whole_run @ checked_fields) =
     map (\<lambda>k. CInt (int_field d k + m)) whole_run @ map (get_field d) checked_fields"
proof -
  have "map (recounted d m) checked_fields = map (get_field d) checked_fields"
    using field_names(2) by (intro map_cong refl recounted_other) (simp add: list_all_iff)
  moreover have "map (recounted d m) whole_run = map (\<lambda>k. CInt (int_field d k + m)) whole_run"
    by (simp add: recounted_def whole_run_def)
  ultimately show ?thesis by simp
qed

lemma recounted_get:
  assumes "keys_are d RECEIPT_KEYS"
  shows "get_field (recounted_receipt d m) = recounted d m"
proof
  fix k
  have "recounted d m k = CNull" if "k \<notin> set RECEIPT_KEYS"
  proof -
    have "map_of d k = None" using assms that by (simp add: keys_are_def map_of_eq_None_iff)
    moreover have "k \<notin> set whole_run" using field_names(1) that by (auto simp: list_all_iff)
    ultimately show ?thesis by (simp add: recounted_other get_field_def)
  qed
  then show "get_field (recounted_receipt d m) k = recounted d m k"
    by (auto simp: get_field_def recounted_receipt_def map_of_map_restrict restrict_map_def)
qed

lemma recounted_ok:
  assumes "receipt_shape_ok d" "accounting_ok d" "cleaned_up d" "pass_ok d" "get_field d ''outcome'' = CStr ''D1_N2_PREFLIGHT_PASS''"
    and m: "0 \<le> int_field d ''processed_frames'' + m"
  shows "receipt_shape_ok (recounted_receipt d m)" "accounting_ok (recounted_receipt d m)" "cleaned_up (recounted_receipt d m)"
    "pass_ok (recounted_receipt d m)" "get_field (recounted_receipt d m) ''outcome'' = CStr ''D1_N2_PREFLIGHT_PASS''"
    "list_all (\<lambda>(k, v). flat v) (recounted_receipt d m)"
proof -
  let ?g = "get_field d"
  have keys: "keys_are d RECEIPT_KEYS" using assms(1) by (simp add: receipt_shape_ok_def)
  note get = recounted_get [OF keys, of m]
  note fields = recounted_fields [of d m, unfolded whole_run_def checked_fields_def append.simps list.map list.inject]
  have parts: "0 \<le> int_field d ''dropped_explicit_frames''" "0 \<le> int_field d ''failed_frames''"
    by (rule receipt_number [OF assms(1), THEN conjunct2]; simp add: COUNT_FIELDS_def)+
  have acc: "int_field d ''received_frames'' = int_field d ''processed_frames'' + int_field d ''dropped_explicit_frames'' + int_field d ''failed_frames''"
    "int_field d ''delivered_frames'' = int_field d ''received_frames''" "int_field d ''privacy_checked_frames'' = int_field d ''processed_frames''"
    using assms(2) by (simp_all add: accounting_ok_def)
  have count: "count_ok (recounted d m k)" if "k \<in> set (COUNT_FIELDS @ TIMING_FIELDS)" for k
  proof (cases "k \<in> set whole_run")
    case True
    then have "k = ''received_frames'' \<or> k = ''delivered_frames'' \<or> k = ''processed_frames'' \<or> k = ''privacy_checked_frames''"
      by (simp add: whole_run_def)
    then show ?thesis using fields m parts acc by (elim disjE) (simp_all add: count_ok_def)
  next
    case False
    then show ?thesis using receipt_number [OF assms(1) that] by (simp add: recounted_other count_ok_def)
  qed
  have apart: "k \<notin> set whole_run" if "k \<in> set BOOL_FIELDS \<or> k \<in> set DIGEST_FIELDS" for k
    using field_names(2) that unfolding list_all_iff by auto
  have bools: "is_bool (recounted d m k)" if "k \<in> set BOOL_FIELDS" for k
    using assms(1) that recounted_other [OF apart] unfolding receipt_shape_ok_def list_all_iff by auto
  have digests: "json_digest (recounted d m k)" if "k \<in> set DIGEST_FIELDS" for k
    using assms(1) that recounted_other [OF apart] unfolding receipt_shape_ok_def list_all_iff by auto
  have "keys_are (recounted_receipt d m) RECEIPT_KEYS" by (simp add: keys_are_def recounted_receipt_def comp_def del: set_map)
  then show "receipt_shape_ok (recounted_receipt d m)"
    using assms(1) count bools digests unfolding receipt_shape_ok_def get list_all_iff by (simp only: fields) blast
  show "accounting_ok (recounted_receipt d m)"
    using assms(2) unfolding accounting_ok_def int_field_def get by (simp only: fields cjson.case) (simp add: int_field_def)
  show "cleaned_up (recounted_receipt d m)" using assms(3) unfolding cleaned_up_def get by (simp add: fields)
  show "pass_ok (recounted_receipt d m)" using assms(4) unfolding pass_ok_def int_field_def get by (simp add: fields)
  show "get_field (recounted_receipt d m) ''outcome'' = CStr ''D1_N2_PREFLIGHT_PASS''" using assms(5) by (simp add: get fields)
  have "flat (recounted d m k)" if "k \<in> set RECEIPT_KEYS" for k
  proof -
    have "flat v" if "count_ok v \<or> is_bool v \<or> json_digest v" for v
      using that by (cases v) (auto simp: count_ok_def is_bool_def json_digest_def)
    moreover have "k \<in> set (COUNT_FIELDS @ TIMING_FIELDS) \<or> k \<in> set BOOL_FIELDS \<or> k \<in> set DIGEST_FIELDS \<or>
        k = ''device_gate_decision'' \<or> k = ''duration_seconds'' \<or> k = ''failure_code'' \<or> k = ''outcome'' \<or> k = ''schema_version''"
      using that unfolding RECEIPT_KEYS_def by auto
    moreover have "?g ''device_gate_decision'' = CStr ''UNVERIFIED''" "?g ''duration_seconds'' = CInt 60" "?g ''schema_version'' = CInt 1"
      "?g ''failure_code'' = CNull"
      using assms(1,4) by (simp_all add: receipt_shape_ok_def pass_ok_def Let_def)
    ultimately show ?thesis using count bools digests fields assms(5) flat_simps by metis
  qed
  then show "list_all (\<lambda>(k, v). flat v) (recounted_receipt d m)" by (simp add: recounted_receipt_def list_all_iff)
qed

lemma recounted_verifies:
  assumes "receipt_shape_ok d" "accounting_ok d" "cleaned_up d" "pass_ok d" "get_field d ''outcome'' = CStr ''D1_N2_PREFLIGHT_PASS''"
    and "0 \<le> p"
  shows "\<exists>e' r' d'. verify_terminal_evidence sha e' \<and> read_receipt (ev_receipt_json e') = Some r' \<and>
      rr_outcome r' = ''D1_N2_PREFLIGHT_PASS'' \<and> decode_closed (ev_receipt_json e') = Some (CObj d') \<and> get_field d' ''processed_frames'' = CInt p \<and>
      (\<forall>k. k \<notin> set whole_run \<longrightarrow> get_field d' k = get_field d k)"
proof -
  let ?m = "p - int_field d ''processed_frames''"
  let ?d = "recounted_receipt d ?m" and ?p = "canonical_bytes (CObj (recounted_receipt d ?m))"
  have m: "0 \<le> int_field d ''processed_frames'' + ?m" using assms(6) by simp
  note ok = recounted_ok [OF assms(1-5) m]
  have dist: "distinct (map fst ?d)" using hollow_values(1) by (simp add: recounted_receipt_def comp_def)
  note pr = passed_receipt [OF ok(1-5) dist ok(6)]
  have get: "get_field ?d = recounted d ?m" using assms(1) by (intro recounted_get) (simp add: receipt_shape_ok_def)
  let ?e = "\<lparr>ev_receipt_json = ?p, ev_receipt_digest = sha ?p, ev_ledger_json = ''[]'', ev_ledger_digest = sha ''[]'',
    ev_retained_cleanup = \<lparr>rc_a0_clean = True, rc_rp2_clean = True, rc_preparation_clean = True\<rparr>\<rparr>"
  have "verify_terminal_evidence sha ?e"
    using pr(3) decode_empty by (simp add: verify_terminal_evidence_def build_verified_terminal_evidence_def cleanup_valid_def ledger_ok_def opt_cstr_def)
  moreover have "get_field (sort_key fst ?d) ''processed_frames'' = CInt p" by (simp add: pr(2) get recounted_def)
  moreover have "\<forall>k. k \<notin> set whole_run \<longrightarrow> get_field (sort_key fst ?d) k = get_field d k" by (simp add: pr(2) get recounted_other)
  ultimately show ?thesis using pr(1,3)
    by (intro exI [of _ ?e] exI [of _ "\<lparr>rr_canonical_bytes = ?p, rr_outcome = ''D1_N2_PREFLIGHT_PASS'', rr_failure_code = None\<rparr>"]
      exI [of _ "sort_key fst ?d"]) simp
qed

lemma read_pass:
  assumes "read_receipt p = Some r" and "rr_outcome r = ''D1_N2_PREFLIGHT_PASS''"
  obtains d where "decode_closed p = Some (CObj d)" "receipt_shape_ok d" "accounting_ok d" "cleaned_up d" "pass_ok d"
    "get_field d ''outcome'' = CStr ''D1_N2_PREFLIGHT_PASS''" "rr_failure_code r = None"
  using assms by (auto simp: read_receipt_def split: option.splits cjson.splits if_splits)

lemma verified_pass:
  assumes "verify_terminal_evidence sha e" and "read_receipt (ev_receipt_json e) = Some r" and "rr_outcome r = ''D1_N2_PREFLIGHT_PASS''"
    and "rr_failure_code r = None"
  shows "decode_closed (ev_ledger_json e) = Some (CArr [])" "ev_receipt_digest e = sha (ev_receipt_json e)"
    "ev_ledger_digest e = sha (ev_ledger_json e)" "rc_a0_clean (ev_retained_cleanup e)" "rc_rp2_clean (ev_retained_cleanup e)"
    "rc_preparation_clean (ev_retained_cleanup e)"
proof -
  have v: "cleanup_valid (ev_retained_cleanup e)" "ledger_ok (ev_ledger_json e) CNull (CStr ''D1_N2_PREFLIGHT_PASS'')"
    and e: "e = \<lparr>ev_receipt_json = ev_receipt_json e, ev_receipt_digest = sha (ev_receipt_json e), ev_ledger_json = ev_ledger_json e,
      ev_ledger_digest = sha (ev_ledger_json e), ev_retained_cleanup = ev_retained_cleanup e\<rparr>"
    using assms by (simp_all add: verify_terminal_evidence_def build_verified_terminal_evidence_def opt_cstr_def split: if_splits)
  show "decode_closed (ev_ledger_json e) = Some (CArr [])"
    using v(2) by (simp add: ledger_ok_def split: option.splits cjson.splits)
  show "ev_receipt_digest e = sha (ev_receipt_json e)" "ev_ledger_digest e = sha (ev_ledger_json e)"
    by (subst e, simp only: terminal_evidence.simps)+
  show "rc_a0_clean (ev_retained_cleanup e)" "rc_rp2_clean (ev_retained_cleanup e)" "rc_preparation_clean (ev_retained_cleanup e)"
    using v(1) by (simp_all add: cleanup_valid_def)
qed

text \<open>
  Claim C39. Evidence of a passed preflight, whoever made it, that the verification accepts carries the digests of its two texts, an empty ledger
  and a clean cleanup, and its receipt shows: video only, no audio, no network, nothing sent or kept; a minute measured, 55 seconds after
  the warm-up and 13.5 successful frames a second; gap, latencies, backlog and stall within their limits; no face, no pose, no privacy stop, no failed delivery;
  after the warm-up at least one success, 99 in 100 attempts successful and at most 1 in 100 dropped or failed in inference; every processed frame
  privacy-checked; and in the whole run exactly as many frames lost as after the warm-up. How many frames the whole run processed is
  not part of it: any other number verifies as well, zero included.
\<close>
theorem passed_evidence_shows:
  assumes "verify_terminal_evidence sha e" and "read_receipt (ev_receipt_json e) = Some r" and "rr_outcome r = ''D1_N2_PREFLIGHT_PASS''"
  shows "\<exists>d n. decode_closed (ev_receipt_json e) = Some (CObj d) \<and> decode_closed (ev_ledger_json e) = Some (CArr []) \<and>
    ev_receipt_digest e = sha (ev_receipt_json e) \<and> ev_ledger_digest e = sha (ev_ledger_json e) \<and>
    rc_a0_clean (ev_retained_cleanup e) \<and> rc_rp2_clean (ev_retained_cleanup e) \<and> rc_preparation_clean (ev_retained_cleanup e) \<and>
    (\<forall>k \<in> set (COUNT_FIELDS @ TIMING_FIELDS). get_field d k = CInt (n k) \<and> 0 \<le> n k) \<and>
    get_field d ''video_only'' = CBool True \<and>
    list_all (\<lambda>k. get_field d k = CBool False) [''audio_requested'', ''network_authorized'', ''network_transport_constructed'', ''raw_retained'', ''retry'', ''d1_go''] \<and>
    list_all (\<lambda>k. get_field d k = CBool True) [''worker_supervised'', ''job_drained'', ''worker_lease_closed'', ''pipe_closed'', ''media_closed'', ''ffmpeg_lease_closed'',
      ''mutex_released'', ''buffers_cleared'', ''watchdog_authorized'', ''privacy_ready'', ''capture_starting'', ''first_frame'',
      ''capture_closed'', ''receipt_received''] \<and>
    get_field d ''failure_code'' = CNull \<and> 60 * 10 ^ 9 \<le> n ''measured_total_ns'' \<and>
    55 * 10 ^ 9 \<le> n ''measured_post_warmup_ns'' \<and> 0 < n ''post_elapsed_ns'' \<and>
    27 * n ''post_elapsed_ns'' \<le> 2 * n ''post_successful_frames'' * 10 ^ 9 \<and> n ''p95_ingress_gap_us'' \<le> 200000 \<and>
    n ''p95_pose_latency_us'' \<le> 200000 \<and> n ''p99_pose_latency_us'' \<le> 500000 \<and> n ''backlog_ns'' \<le> 2 * 10 ^ 9 \<and>
    n ''max_stall_gap_ns'' < 10 ^ 9 \<and> n ''face_detections'' = 0 \<and> n ''pose_detections'' = 0 \<and> n ''privacy_stop_count'' = 0 \<and>
    n ''delivery_failure_frames'' = 0 \<and> 0 < n ''post_successful_frames'' \<and>
    99 * n ''post_attempted_frames'' \<le> 100 * n ''post_successful_frames'' \<and>
    100 * (n ''dropped_short_frames'' + n ''inference_failure_frames'') \<le> n ''post_attempted_frames'' \<and>
    n ''outbound_attempt_count'' = 0 \<and> n ''privacy_checked_frames'' = n ''processed_frames'' \<and>
    n ''received_frames'' - n ''processed_frames'' = n ''post_attempted_frames'' - n ''post_successful_frames'' \<and>
    (\<forall>p \<ge> 0. \<exists>e' r' d'. verify_terminal_evidence sha e' \<and> read_receipt (ev_receipt_json e') = Some r' \<and>
      rr_outcome r' = ''D1_N2_PREFLIGHT_PASS'' \<and> decode_closed (ev_receipt_json e') = Some (CObj d') \<and> get_field d' ''processed_frames'' = CInt p \<and>
      (\<forall>k. k \<notin> set whole_run \<longrightarrow> get_field d' k = get_field d k))"
proof -
  obtain d where dec: "decode_closed (ev_receipt_json e) = Some (CObj d)" and shape: "receipt_shape_ok d" and acc: "accounting_ok d"
    and clean: "cleaned_up d" and pass: "pass_ok d" and out: "get_field d ''outcome'' = CStr ''D1_N2_PREFLIGHT_PASS''"
    and rr: "rr_failure_code r = None"
    using assms(2,3) by (rule read_pass)
  note ev = verified_pass [OF assms(1,2,3) rr]
  have num: "\<forall>k \<in> set (COUNT_FIELDS @ TIMING_FIELDS). get_field d k = CInt (int_field d k) \<and> 0 \<le> int_field d k" using receipt_number [OF shape] by blast
  have other: "\<forall>p \<ge> 0. \<exists>e' r' d'. verify_terminal_evidence sha e' \<and> read_receipt (ev_receipt_json e') = Some r' \<and>
      rr_outcome r' = ''D1_N2_PREFLIGHT_PASS'' \<and> decode_closed (ev_receipt_json e') = Some (CObj d') \<and> get_field d' ''processed_frames'' = CInt p \<and>
      (\<forall>k. k \<notin> set whole_run \<longrightarrow> get_field d' k = get_field d k)"
    using recounted_verifies [OF shape acc clean pass out] by blast
  have s: "get_field d ''video_only'' = CBool True"
    "list_all (\<lambda>k. get_field d k = CBool False) [''audio_requested'', ''network_authorized'', ''network_transport_constructed'', ''raw_retained'', ''retry'', ''d1_go'']"
    using shape by (simp_all add: receipt_shape_ok_def)
  have c: "list_all (\<lambda>k. get_field d k = CBool True) [''worker_supervised'', ''job_drained'', ''worker_lease_closed'', ''pipe_closed'', ''media_closed'', ''ffmpeg_lease_closed'',
      ''mutex_released'', ''buffers_cleared'', ''watchdog_authorized'', ''privacy_ready'', ''capture_starting'', ''first_frame'',
      ''capture_closed'', ''receipt_received'']"
    using clean pass by (simp add: cleaned_up_def pass_ok_def Let_def)
  note p = pass [unfolded pass_ok_def Let_def]
  have p: "get_field d ''failure_code'' = CNull"
    "60 * 10 ^ 9 \<le> int_field d ''measured_total_ns''"
    "55 * 10 ^ 9 \<le> int_field d ''measured_post_warmup_ns''"
    "0 < int_field d ''post_elapsed_ns''"
    "27 * int_field d ''post_elapsed_ns'' \<le> 2 * int_field d ''post_successful_frames'' * 10 ^ 9"
    "int_field d ''p95_ingress_gap_us'' \<le> 200000"
    "int_field d ''p95_pose_latency_us'' \<le> 200000"
    "int_field d ''p99_pose_latency_us'' \<le> 500000"
    "int_field d ''backlog_ns'' \<le> 2 * 10 ^ 9"
    "int_field d ''max_stall_gap_ns'' < 10 ^ 9"
    "int_field d ''face_detections'' = 0"
    "int_field d ''pose_detections'' = 0"
    "int_field d ''privacy_stop_count'' = 0"
    "int_field d ''delivery_failure_frames'' = 0"
    "0 < int_field d ''post_successful_frames''"
    "99 * int_field d ''post_attempted_frames'' \<le> 100 * int_field d ''post_successful_frames''"
    "100 * (int_field d ''dropped_short_frames'' + int_field d ''inference_failure_frames'') \<le> int_field d ''post_attempted_frames''"
    using p by simp_all
  have a: "int_field d ''outbound_attempt_count'' = 0"
    "int_field d ''privacy_checked_frames'' = int_field d ''processed_frames''"
    "int_field d ''received_frames'' - int_field d ''processed_frames'' = int_field d ''post_attempted_frames'' - int_field d ''post_successful_frames''"
    using acc by (simp_all add: accounting_ok_def)
  show ?thesis by (rule exI [of _ d], rule exI [of _ "int_field d"]) (intro conjI; fact dec ev num other s c p a)
qed

theorem passed_evidence_shows_witness:
  "\<exists>n. 0 < n ''post_successful_frames'' \<and> n ''received_frames'' - n ''processed_frames'' = n ''post_attempted_frames'' - n ''post_successful_frames'' \<and>
     get_field (sort_key fst hollow_receipt) ''post_successful_frames'' = CInt (n ''post_successful_frames'')"
proof -
  note h = hollow_verifies(1-3) [of "\<lambda>x. x"]
  have out: "rr_outcome \<lparr>rr_canonical_bytes = canonical_bytes (CObj hollow_receipt), rr_outcome = ''D1_N2_PREFLIGHT_PASS'', rr_failure_code = None\<rparr> =
      ''D1_N2_PREFLIGHT_PASS''" by simp
  have "''post_successful_frames'' \<in> set (COUNT_FIELDS @ TIMING_FIELDS)" by (simp add: COUNT_FIELDS_def)
  moreover obtain d n where "decode_closed (ev_receipt_json (hollow_evidence (\<lambda>x. x))) = Some (CObj d)"
    and n: "\<forall>k \<in> set (COUNT_FIELDS @ TIMING_FIELDS). get_field d k = CInt (n k) \<and> 0 \<le> n k" "0 < n ''post_successful_frames''"
      "n ''received_frames'' - n ''processed_frames'' = n ''post_attempted_frames'' - n ''post_successful_frames''"
    using passed_evidence_shows [OF h(1,2) out] by (elim exE conjE) (rule that; assumption)
  moreover from this(1) have "d = sort_key fst hollow_receipt" using h(3) by simp
  ultimately show ?thesis by blast
qed

end
