(* ===== verification/N2_Records.thy ===== *)
theory N2_Records
  imports N2_Evidence
begin

text \<open>
  The authority records (\<open>m2_d1_n2_canonical.py\<close>): the attestations they are made from, their text, and the check that a text is a
  record of the expected domain (\<open>_validated_record\<close>). A record of the terminal domain whose texts are no strings makes
  that check raise, so it returns an error or the fields.
\<close>

section \<open>Enumerations\<close>

datatype lifecycle_state = UNKNOWN_NONLAUNCHABLE | ABSENT | AUTH_PENDING | PRESENT_INVALID | PREPARED | PREPARED_NONLAUNCHABLE | STALE_PREPARED_NONLAUNCHABLE
  | CONSUMED_NO_GRANT | GRANT_ISSUED | REVOKED_TERMINAL_PENDING | AUTH_TERMINAL | TERMINAL_DURABILITY_UNVERIFIED

datatype persistence_outcome = PO_OK | INPUT_INVALID | OWNER_UNAVAILABLE | OWNER_ABANDONED | OWNER_FAILED | LEASE_DRIFT | ATTESTATION_FAILED | CREATE_FAILED
  | CAS_MISMATCH | READBACK_FAILED | CLOSE_FAILED | DURABILITY_FAILED | CLEANUP_FAILED | GRANT_ENTROPY_FAILED | GRANT_NOT_AUTHORIZED
  | TERMINAL_NOT_AUTHORIZED | TERMINAL_ALREADY_PRESENT

datatype authority_leaf = PREPARED_LEAF | GRANT_LEAF | TERMINAL_LEAF

datatype operation_kind = INSPECT | PREPARE | CONSUME | ISSUE_GRANT | REVOKE_GRANT | TERMINALIZE

datatype owner_status = ACQUIRED | ABANDONED_INSPECTION_ONLY | UNAVAILABLE | OWNER_ERROR

datatype validation_status = VALIDATED | DRIFT | VALIDATION_ERROR

datatype durability_status = DURABLE | UNVERIFIED_DURABILITY | DURABILITY_ERROR

datatype step_status = CLEAN | STEP_FAILED | NOT_HELD

datatype write_disposition = ZERO_WRITE | WRITE_VALID | WRITE_INVALID | WRITE_UNKNOWN

datatype grant_disposition = NOT_ISSUED | GRANT_REVOKED

definition disposition_name :: "grant_disposition \<Rightarrow> string" where
  "disposition_name g = (case g of NOT_ISSUED \<Rightarrow> ''NOT_ISSUED'' | GRANT_REVOKED \<Rightarrow> ''REVOKED'')"

definition step_str :: "step_status \<Rightarrow> string" where
  "step_str st = (case st of CLEAN \<Rightarrow> ''CLEAN'' | STEP_FAILED \<Rightarrow> ''FAILED'' | NOT_HELD \<Rightarrow> ''NOT_HELD'')"

definition WORKER_GRANT_TTL_NS :: int where
  "WORKER_GRANT_TTL_NS = 300000000000"

definition PREPARED_TTL_NS :: int where
  "PREPARED_TTL_NS = 900000000000"

definition A0_VALIDITY_NS :: int where
  "A0_VALIDITY_NS = 900000000000"

definition MAX_SIGNED_NS :: int where
  "MAX_SIGNED_NS = 2 ^ 63 - 1"

definition AUTHORITY_REVISION :: string where
  "AUTHORITY_REVISION = ''d1-n2-authority-v1''"

section \<open>Attestations\<close>

text \<open>\<open>ApprovedRP2Triple\<close> of \<open>m2_d1_n2_a0.py\<close>.\<close>

record approved_triple =
  at_static_bindings_digest :: string
  at_binding_schema_sha256 :: string
  at_candidate_sha256 :: string
  at_a0_approval_digest :: string
  at_approval_id_digest :: string
  at_issued_unix_ns :: int
  at_expires_unix_ns :: int

definition approved_valid :: "approved_triple \<Rightarrow> bool" where
  "approved_valid a \<longleftrightarrow>
     list_all is_digest [at_static_bindings_digest a, at_binding_schema_sha256 a, at_candidate_sha256 a, at_a0_approval_digest a, at_approval_id_digest a] \<and>
     0 \<le> at_issued_unix_ns a \<and> at_issued_unix_ns a \<le> MAX_SIGNED_NS - A0_VALIDITY_NS \<and>
     at_expires_unix_ns a - at_issued_unix_ns a = A0_VALIDITY_NS"

definition pending_fields :: "approved_triple \<Rightarrow> cdict" where
  "pending_fields a =
     [(''a0_approval_digest'', CStr (at_a0_approval_digest a)), (''approval_id_digest'', CStr (at_approval_id_digest a)),
      (''binding_schema_canonical_sha256'', CStr (at_binding_schema_sha256 a)), (''candidate_exact_bytes_sha256'', CStr (at_candidate_sha256 a)),
      (''expires_unix_ns'', CInt (at_expires_unix_ns a)), (''issued_unix_ns'', CInt (at_issued_unix_ns a)),
      (''static_bindings_digest'', CStr (at_static_bindings_digest a))]"

record prepared_attestation =
  pa_authority_revision :: string
  pa_schema_version :: int
  pa_static_bindings_digest :: string
  pa_binding_schema_digest :: string
  pa_manifest_sha256 :: string
  pa_camera_count :: int
  pa_camera_status :: string
  pa_opaque_device_token :: string
  pa_supervisor_path_digest :: string
  pa_supervisor_sha256 :: string
  pa_supervisor_size_bytes :: int
  pa_supervisor_identity_digest :: string
  pa_ffmpeg_path_digest :: string
  pa_ffmpeg_sha256 :: string
  pa_ffmpeg_size_bytes :: int
  pa_ffmpeg_identity_digest :: string
  pa_ffmpeg_version_digest :: string
  pa_dependency_observation_digest :: string
  pa_pose_model_sha256 :: string
  pa_pose_model_size_bytes :: int
  pa_face_model_sha256 :: string
  pa_face_model_size_bytes :: int
  pa_authorization_nonce_digest :: string
  pa_issued_unix_ns :: int
  pa_expires_unix_ns :: int

definition prepared_fields :: "prepared_attestation \<Rightarrow> cdict" where
  "prepared_fields p =
     [(''authority_revision'', CStr (pa_authority_revision p)), (''schema_version'', CInt (pa_schema_version p)),
      (''static_bindings_digest'', CStr (pa_static_bindings_digest p)), (''binding_schema_digest'', CStr (pa_binding_schema_digest p)),
      (''manifest_sha256'', CStr (pa_manifest_sha256 p)), (''camera_count'', CInt (pa_camera_count p)), (''camera_status'', CStr (pa_camera_status p)),
      (''opaque_device_token'', CStr (pa_opaque_device_token p)), (''supervisor_path_digest'', CStr (pa_supervisor_path_digest p)),
      (''supervisor_sha256'', CStr (pa_supervisor_sha256 p)), (''supervisor_size_bytes'', CInt (pa_supervisor_size_bytes p)),
      (''supervisor_identity_digest'', CStr (pa_supervisor_identity_digest p)), (''ffmpeg_path_digest'', CStr (pa_ffmpeg_path_digest p)),
      (''ffmpeg_sha256'', CStr (pa_ffmpeg_sha256 p)), (''ffmpeg_size_bytes'', CInt (pa_ffmpeg_size_bytes p)),
      (''ffmpeg_identity_digest'', CStr (pa_ffmpeg_identity_digest p)), (''ffmpeg_version_digest'', CStr (pa_ffmpeg_version_digest p)),
      (''dependency_observation_digest'', CStr (pa_dependency_observation_digest p)), (''pose_model_sha256'', CStr (pa_pose_model_sha256 p)),
      (''pose_model_size_bytes'', CInt (pa_pose_model_size_bytes p)), (''face_model_sha256'', CStr (pa_face_model_sha256 p)),
      (''face_model_size_bytes'', CInt (pa_face_model_size_bytes p)), (''authorization_nonce_digest'', CStr (pa_authorization_nonce_digest p)),
      (''issued_unix_ns'', CInt (pa_issued_unix_ns p)), (''expires_unix_ns'', CInt (pa_expires_unix_ns p))]"

text \<open>\<open>valid\<close> of an attestation rebuilt from the fields of a record, where a field may have another type.\<close>

definition size_ok :: "cjson \<Rightarrow> bool" where
  "size_ok v = (case v of CInt i \<Rightarrow> 0 < i | _ \<Rightarrow> False)"

definition prepared_fields_valid :: "cdict \<Rightarrow> bool" where
  "prepared_fields_valid d \<longleftrightarrow>
     get_field d ''authority_revision'' = CStr AUTHORITY_REVISION \<and> get_field d ''schema_version'' = CInt 3 \<and>
     list_all (\<lambda>k. json_digest (get_field d k))
       [''static_bindings_digest'', ''binding_schema_digest'', ''manifest_sha256'', ''opaque_device_token'', ''supervisor_path_digest'', ''supervisor_sha256'',
        ''supervisor_identity_digest'', ''ffmpeg_path_digest'', ''ffmpeg_sha256'', ''ffmpeg_identity_digest'', ''ffmpeg_version_digest'',
        ''dependency_observation_digest'', ''pose_model_sha256'', ''face_model_sha256'', ''authorization_nonce_digest''] \<and>
     get_field d ''camera_count'' = CInt 1 \<and> get_field d ''camera_status'' = CStr ''PRESENT_OK'' \<and>
     list_all (\<lambda>k. size_ok (get_field d k)) [''supervisor_size_bytes'', ''ffmpeg_size_bytes'', ''pose_model_size_bytes'', ''face_model_size_bytes''] \<and>
     (case (get_field d ''issued_unix_ns'', get_field d ''expires_unix_ns'') of
        (CInt issued, CInt expires) \<Rightarrow> 0 \<le> issued \<and> issued \<le> MAX_SIGNED_NS - PREPARED_TTL_NS \<and> expires - issued = PREPARED_TTL_NS
      | _ \<Rightarrow> False)"

definition prepared_valid :: "prepared_attestation \<Rightarrow> bool" where
  "prepared_valid p = prepared_fields_valid (prepared_fields p)"

record worker_attestation =
  wk_prepared_authority_digest :: string
  wk_worker_sha256 :: string
  wk_worker_size_bytes :: int
  wk_worker_identity_digest :: string
  wk_worker_argv_digest :: string
  wk_worker_job_policy_digest :: string
  wk_challenge_digest :: string
  wk_job_name_digest :: string
  wk_duration_seconds :: int
  wk_video_only :: bool
  wk_retry :: bool

definition worker_fields :: "worker_attestation \<Rightarrow> cdict" where
  "worker_fields w =
     [(''prepared_authority_digest'', CStr (wk_prepared_authority_digest w)), (''worker_sha256'', CStr (wk_worker_sha256 w)),
      (''worker_size_bytes'', CInt (wk_worker_size_bytes w)), (''worker_identity_digest'', CStr (wk_worker_identity_digest w)),
      (''worker_argv_digest'', CStr (wk_worker_argv_digest w)), (''worker_job_policy_digest'', CStr (wk_worker_job_policy_digest w)),
      (''challenge_digest'', CStr (wk_challenge_digest w)), (''job_name_digest'', CStr (wk_job_name_digest w)),
      (''duration_seconds'', CInt (wk_duration_seconds w)), (''video_only'', CBool (wk_video_only w)), (''retry'', CBool (wk_retry w))]"

definition worker_fields_valid :: "cdict \<Rightarrow> bool" where
  "worker_fields_valid d \<longleftrightarrow>
     list_all (\<lambda>k. json_digest (get_field d k)) [''prepared_authority_digest'', ''worker_sha256'', ''worker_identity_digest'', ''worker_argv_digest'',
       ''worker_job_policy_digest'', ''challenge_digest'', ''job_name_digest''] \<and>
     size_ok (get_field d ''worker_size_bytes'') \<and> equals_int (get_field d ''duration_seconds'') 60 \<and>
     get_field d ''video_only'' = CBool True \<and> get_field d ''retry'' = CBool False"

definition worker_valid :: "worker_attestation \<Rightarrow> bool" where
  "worker_valid w = worker_fields_valid (worker_fields w)"

record terminal_attestation =
  tb_evidence :: terminal_evidence
  tb_native_side_effect_count :: int

text \<open>\<open>from_evidence\<close> spreads the fields of the evidence; \<open>valid\<close> collects them again.\<close>

definition terminal_fields :: "terminal_attestation \<Rightarrow> cdict" where
  "terminal_fields t =
     [(''receipt_json'', CStr (ev_receipt_json (tb_evidence t))), (''receipt_digest'', CStr (ev_receipt_digest (tb_evidence t))),
      (''failure_ledger_json'', CStr (ev_ledger_json (tb_evidence t))), (''failure_ledger_digest'', CStr (ev_ledger_digest (tb_evidence t))),
      (''retained_a0_clean'', CBool (rc_a0_clean (ev_retained_cleanup (tb_evidence t)))),
      (''retained_rp2_clean'', CBool (rc_rp2_clean (ev_retained_cleanup (tb_evidence t)))),
      (''retained_preparation_clean'', CBool (rc_preparation_clean (ev_retained_cleanup (tb_evidence t)))),
      (''native_side_effect_count'', CInt (tb_native_side_effect_count t))]"

definition terminal_valid :: "(string \<Rightarrow> string) \<Rightarrow> terminal_attestation \<Rightarrow> bool" where
  "terminal_valid sha t \<longleftrightarrow> verify_terminal_evidence sha (tb_evidence t) \<and> tb_native_side_effect_count t \<in> {0, 1}"

definition terminal_fields_valid :: "(string \<Rightarrow> string) \<Rightarrow> cdict \<Rightarrow> py_error + bool" where
  "terminal_fields_valid sha d = (case (get_field d ''receipt_json'', get_field d ''failure_ledger_json'') of
      (CStr receipt, CStr ledger) \<Rightarrow> Inr
        (case (get_field d ''receipt_digest'', get_field d ''failure_ledger_digest'') of
           (CStr receipt_digest, CStr ledger_digest) \<Rightarrow>
             list_all (\<lambda>k. get_field d k = CBool True) [''retained_a0_clean'', ''retained_rp2_clean'', ''retained_preparation_clean''] \<and>
             verify_terminal_evidence sha \<lparr>ev_receipt_json = receipt, ev_receipt_digest = receipt_digest, ev_ledger_json = ledger,
               ev_ledger_digest = ledger_digest, ev_retained_cleanup = \<lparr>rc_a0_clean = True, rc_rp2_clean = True, rc_preparation_clean = True\<rparr>\<rparr> \<and>
             get_field d ''native_side_effect_count'' \<in> {CInt 0, CInt 1}
         | _ \<Rightarrow> False)
    | _ \<Rightarrow> Inl (AttributeError ''encode''))"

section \<open>Records\<close>

definition record_bytes :: "string \<Rightarrow> cdict \<Rightarrow> string" where
  "record_bytes dmn values = canonical_bytes (CObj (dict_of ([(''domain'', CStr dmn), (''schema_version'', CInt 3)] @ values)))"

definition prepared_keys :: "string list" where
  "prepared_keys = [''authority_revision'', ''schema_version'', ''static_bindings_digest'', ''binding_schema_digest'', ''manifest_sha256'', ''camera_count'',
     ''camera_status'', ''opaque_device_token'', ''supervisor_path_digest'', ''supervisor_sha256'', ''supervisor_size_bytes'', ''supervisor_identity_digest'',
     ''ffmpeg_path_digest'', ''ffmpeg_sha256'', ''ffmpeg_size_bytes'', ''ffmpeg_identity_digest'', ''ffmpeg_version_digest'', ''dependency_observation_digest'',
     ''pose_model_sha256'', ''pose_model_size_bytes'', ''face_model_sha256'', ''face_model_size_bytes'', ''authorization_nonce_digest'', ''issued_unix_ns'',
     ''expires_unix_ns'']"

definition worker_keys :: "string list" where
  "worker_keys = [''prepared_authority_digest'', ''worker_sha256'', ''worker_size_bytes'', ''worker_identity_digest'', ''worker_argv_digest'',
     ''worker_job_policy_digest'', ''challenge_digest'', ''job_name_digest'', ''duration_seconds'', ''video_only'', ''retry'']"

definition terminal_keys :: "string list" where
  "terminal_keys = [''receipt_json'', ''receipt_digest'', ''failure_ledger_json'', ''failure_ledger_digest'', ''retained_a0_clean'', ''retained_rp2_clean'',
     ''retained_preparation_clean'', ''native_side_effect_count'']"

definition RECORD_KEYS :: "string \<Rightarrow> string list option" where
  "RECORD_KEYS dmn = map_of
     [(''D1N2/PENDING/v1'', [''a0_approval_digest'', ''approval_id_digest'', ''binding_schema_canonical_sha256'', ''candidate_exact_bytes_sha256'', ''domain'',
         ''epoch_digest'', ''expires_unix_ns'', ''issued_unix_ns'', ''schema_version'', ''state'', ''static_bindings_digest'']),
      (''D1N2/PREPARED/v1'', prepared_keys @ [''domain'', ''epoch_digest'', ''pending_digest'', ''state'']),
      (''D1N2/CONSUMED/v1'', [''dependency_observation_digest'', ''domain'', ''epoch_digest'', ''face_model_sha256'', ''pose_model_sha256'', ''prepared_digest'',
         ''schema_version'', ''state'', ''static_bindings_digest'']),
      (''D1N2/GRANT_ISSUED/v1'', worker_keys @ [''consumed_digest'', ''domain'', ''epoch_digest'', ''expires_monotonic_ns'', ''grant_digest'', ''grant_size'',
         ''issued_monotonic_ns'', ''schema_version'', ''state'']),
      (''D1N2/GRANT_REVOKED/v1'', [''challenge_digest'', ''consumed_digest'', ''domain'', ''epoch_digest'', ''expires_monotonic_ns'', ''grant_digest'',
         ''issued_monotonic_ns'', ''issued_record_digest'', ''job_name_digest'', ''schema_version'', ''state'']),
      (''D1N2/TERMINAL/v1'', terminal_keys @ [''consumed_digest'', ''domain'', ''durability_policy'', ''grant_disposition'', ''grant_record_digest'',
         ''schema_version'', ''state''])] dmn"

definition RECORD_STATES :: "string \<Rightarrow> string option" where
  "RECORD_STATES dmn = map_of
     [(''D1N2/PENDING/v1'', ''PENDING''), (''D1N2/PREPARED/v1'', ''PREPARED''), (''D1N2/CONSUMED/v1'', ''CONSUMED''),
      (''D1N2/GRANT_ISSUED/v1'', ''ISSUED''), (''D1N2/GRANT_REVOKED/v1'', ''REVOKED''), (''D1N2/TERMINAL/v1'', ''TERMINAL'')] dmn"

definition ends_with :: "string \<Rightarrow> string \<Rightarrow> bool" where
  "ends_with suffix t \<longleftrightarrow> length suffix \<le> length t \<and> drop (length t - length suffix) t = suffix"

definition digests_ok :: "cdict \<Rightarrow> bool" where
  "digests_ok d \<longleftrightarrow> list_all (\<lambda>(k, v). ends_with ''_digest'' k \<and> k \<noteq> ''grant_record_digest'' \<longrightarrow> json_digest v) d"

text \<open>\<open>str(v)\<close>, as far as it can be a digest.\<close>

definition py_str :: "cjson \<Rightarrow> string" where
  "py_str v = (case v of CStr t \<Rightarrow> t | CInt i \<Rightarrow> dump (CInt i) | _ \<Rightarrow> [])"

definition approved_fields_valid :: "cdict \<Rightarrow> bool" where
  "approved_fields_valid d = (case (get_field d ''issued_unix_ns'', get_field d ''expires_unix_ns'') of
      (CInt issued, CInt expires) \<Rightarrow> approved_valid
        \<lparr>at_static_bindings_digest = py_str (get_field d ''static_bindings_digest''),
         at_binding_schema_sha256 = py_str (get_field d ''binding_schema_canonical_sha256''),
         at_candidate_sha256 = py_str (get_field d ''candidate_exact_bytes_sha256''), at_a0_approval_digest = py_str (get_field d ''a0_approval_digest''),
         at_approval_id_digest = py_str (get_field d ''approval_id_digest''), at_issued_unix_ns = issued, at_expires_unix_ns = expires\<rparr>
    | _ \<Rightarrow> False)"

definition grant_times_ok :: "cdict \<Rightarrow> bool" where
  "grant_times_ok d = (case (get_field d ''issued_monotonic_ns'', get_field d ''expires_monotonic_ns'') of
      (CInt issued, CInt expires) \<Rightarrow> 0 \<le> issued \<and> expires \<le> MAX_SIGNED_NS \<and> expires - issued = WORKER_GRANT_TTL_NS
    | _ \<Rightarrow> False)"

definition terminal_record_ok :: "(string \<Rightarrow> string) \<Rightarrow> cdict \<Rightarrow> py_error + bool" where
  "terminal_record_ok sha d =
     (if get_field d ''durability_policy'' = CStr ''REVERIFY_PARENT_ON_INSPECTION'' \<and>
        (get_field d ''grant_disposition'' = CStr (disposition_name NOT_ISSUED) \<and> get_field d ''grant_record_digest'' = CNull \<or>
         get_field d ''grant_disposition'' = CStr (disposition_name GRANT_REVOKED) \<and> json_digest (get_field d ''grant_record_digest''))
      then terminal_fields_valid sha d else Inr False)"

definition record_fields_ok :: "(string \<Rightarrow> string) \<Rightarrow> string \<Rightarrow> cdict \<Rightarrow> py_error + bool" where
  "record_fields_ok sha dmn d =
     (if dmn = ''D1N2/TERMINAL/v1'' then terminal_record_ok sha d
      else Inr
        (if dmn = ''D1N2/PENDING/v1'' then approved_fields_valid d
         else if dmn = ''D1N2/GRANT_ISSUED/v1'' then worker_fields_valid d \<and> grant_times_ok d \<and> equals_int (get_field d ''grant_size'') 32
         else if dmn = ''D1N2/PREPARED/v1'' then prepared_fields_valid d
         else if dmn = ''D1N2/GRANT_REVOKED/v1'' then grant_times_ok d
         else True))"

definition validated_record :: "(string \<Rightarrow> string) \<Rightarrow> string option \<Rightarrow> string option \<Rightarrow> py_error + cdict option" where
  "validated_record sha val expected = (case decode_record val of
      None \<Rightarrow> Inr None
    | Some d \<Rightarrow>
        (case get_field d ''domain'' of
           CStr dmn \<Rightarrow>
             (case RECORD_KEYS dmn of
                None \<Rightarrow> Inr None
              | Some ks \<Rightarrow>
                  if expected \<noteq> None \<and> expected \<noteq> Some dmn \<or> \<not> keys_are d ks \<or> get_field d ''schema_version'' \<noteq> CInt 3 \<or>
                     Some (get_field d ''state'') \<noteq> map_option CStr (RECORD_STATES dmn) \<or> \<not> digests_ok d
                  then Inr None
                  else res_bind (record_fields_ok sha dmn d) (\<lambda>ok. Inr (if ok then Some d else None)))
         | _ \<Rightarrow> Inr None))"

definition leaf_state :: "authority_leaf \<Rightarrow> string \<Rightarrow> lifecycle_state option" where
  "leaf_state leaf dmn = (case leaf of
      PREPARED_LEAF \<Rightarrow> map_of [(''D1N2/PENDING/v1'', AUTH_PENDING), (''D1N2/PREPARED/v1'', PREPARED), (''D1N2/CONSUMED/v1'', CONSUMED_NO_GRANT)] dmn
    | GRANT_LEAF \<Rightarrow> map_of [(''D1N2/GRANT_ISSUED/v1'', GRANT_ISSUED), (''D1N2/GRANT_REVOKED/v1'', REVOKED_TERMINAL_PENDING)] dmn
    | TERMINAL_LEAF \<Rightarrow> map_of [(''D1N2/TERMINAL/v1'', AUTH_TERMINAL)] dmn)"

definition classify_canonical_leaf_record :: "(string \<Rightarrow> string) \<Rightarrow> authority_leaf \<Rightarrow> string \<Rightarrow> py_error + lifecycle_state option" where
  "classify_canonical_leaf_record sha leaf val = res_bind (validated_record sha (Some val) None) (\<lambda>found. Inr (case found of
      None \<Rightarrow> None
    | Some d \<Rightarrow> leaf_state leaf (py_str (get_field d ''domain''))))"

text \<open>\<open>_terminal_receipt_matches_lifecycle\<close>.\<close>

definition receipt_matches_lifecycle :: "(string \<Rightarrow> string) \<Rightarrow> cdict \<Rightarrow> cdict \<Rightarrow> string option \<Rightarrow> py_error + bool" where
  "receipt_matches_lifecycle sha terminal consumed revoked_record = (case get_field terminal ''receipt_json'' of
      CStr receipt_json \<Rightarrow> (case loads receipt_json of
          Some (CObj receipt) \<Rightarrow>
            if \<not> list_all (\<lambda>(rk, ck). get_field receipt rk = get_field consumed ck)
                [(''authority_digest'', ''prepared_digest''), (''static_bindings_digest'', ''static_bindings_digest''),
                 (''runtime_digest'', ''dependency_observation_digest''), (''pose_model_sha256'', ''pose_model_sha256''),
                 (''face_model_sha256'', ''face_model_sha256'')] then Inr False
            else (case revoked_record of
                None \<Rightarrow> Inr True
              | Some bytes \<Rightarrow> res_bind (validated_record sha (Some bytes) (Some ''D1N2/GRANT_REVOKED/v1'')) (\<lambda>found. Inr (case found of
                    None \<Rightarrow> False
                  | Some revoked \<Rightarrow> get_field receipt ''grant_record_digest'' = CStr (sha bytes) \<and>
                      get_field receipt ''challenge_digest'' = get_field revoked ''challenge_digest'' \<and>
                      get_field receipt ''job_name_digest'' = get_field revoked ''job_name_digest'')))
        | _ \<Rightarrow> Inr False)
    | _ \<Rightarrow> Inr False)"

end
