(* ===== verification/N2_Lifecycle.thy ===== *)
theory N2_Lifecycle
  imports N2_Records
begin

text \<open>
  The authority lifecycle (\<open>CanonicalInjectableAuthorityLifecycle\<close> of \<open>m2_d1_n2_canonical.py\<close>): a process prepares an authority, consumes
  it, issues a grant and hands out its capability, authorises it, revokes it and writes the terminal record. The persistence, the
  guard and its sessions, the entropy and the clocks are the protocols the constructor takes, here the fields of \<open>n2_ports\<close>:
  operations on a world \<open>'w\<close> that may raise; \<open>'h\<close> identifies a session.
\<close>

section \<open>The protocols\<close>

record inspection =
  in_state :: lifecycle_state
  in_record :: "string option"
  in_durability :: durability_status

record write_result =
  wr_outcome :: persistence_outcome
  wr_disposition :: write_disposition
  wr_observed :: "string option"

record cleanup_report =
  cr_lease_close :: step_status
  cr_mutex_release :: step_status
  cr_mutex_close :: step_status

record 'h begin_result =
  br_owner :: owner_status
  br_session :: "'h option"

record ('w, 'h) n2_ports =
  pt_begin :: "operation_kind \<Rightarrow> ('w, 'h begin_result) pyop"
  pt_write_permitted :: "'h \<Rightarrow> ('w, bool) pyop"
  pt_validate_before :: "'h \<Rightarrow> ('w, validation_status) pyop"
  pt_validate_after :: "'h \<Rightarrow> ('w, validation_status) pyop"
  pt_parent_durable :: "'h \<Rightarrow> ('w, durability_status) pyop"
  pt_attest_a0 :: "'h \<Rightarrow> ('w, approved_triple option) pyop"
  pt_attest_pending :: "'h \<Rightarrow> ('w, prepared_attestation option) pyop"
  pt_close_leases :: "'h \<Rightarrow> ('w, step_status) pyop"
  pt_release_mutex :: "'h \<Rightarrow> ('w, step_status) pyop"
  pt_close_mutex :: "'h \<Rightarrow> ('w, step_status) pyop"
  pt_inspect :: "'h \<Rightarrow> authority_leaf \<Rightarrow> ('w, inspection) pyop"
  pt_create :: "'h \<Rightarrow> authority_leaf \<Rightarrow> string \<Rightarrow> ('w, write_result) pyop"
  pt_cas :: "'h \<Rightarrow> authority_leaf \<Rightarrow> string \<Rightarrow> string \<Rightarrow> ('w, write_result) pyop"
  pt_entropy :: "('w, string) pyop"
  pt_grant_entropy :: "('w, string) pyop"
  pt_clock_ns :: "('w, int) pyop"
  pt_unix_clock_ns :: "('w, int) pyop"

section \<open>The object\<close>

record grant_inspection =
  gi_digest :: string
  gi_issued_monotonic_ns :: int
  gi_expires_monotonic_ns :: int
  gi_used :: bool

record lifecycle =
  lc_epoch_raw :: string
  lc_state :: lifecycle_state
  lc_pending :: "string option"
  lc_prepared :: "string option"
  lc_consumed :: "string option"
  lc_live_prepared :: bool
  lc_live_consumed :: bool
  lc_grant_raw :: "string option"
  lc_grant_handed_off :: bool
  lc_grant :: "grant_inspection option"
  lc_grant_record :: "string option"
  lc_approved_rp2 :: "approved_triple option"

type_synonym 'w n2_state = "lifecycle \<times> 'w"

definition new_lifecycle :: "string \<Rightarrow> lifecycle" where
  "new_lifecycle raw = \<lparr>lc_epoch_raw = raw, lc_state = UNKNOWN_NONLAUNCHABLE, lc_pending = None, lc_prepared = None, lc_consumed = None,
     lc_live_prepared = False, lc_live_consumed = False, lc_grant_raw = None, lc_grant_handed_off = False, lc_grant = None,
     lc_grant_record = None, lc_approved_rp2 = None\<rparr>"

definition epoch_digest :: "(string \<Rightarrow> string) \<Rightarrow> lifecycle \<Rightarrow> string" where
  "epoch_digest sha l = sha (lc_epoch_raw l)"

text \<open>A call of a protocol, a change of the object, and a read of it.\<close>

definition port :: "('w, 'a) pyop \<Rightarrow> ('w n2_state, 'a) pyop" where
  "port m s = (case m (snd s) of (r, w) \<Rightarrow> (r, fst s, w))"

definition put_lc :: "(lifecycle \<Rightarrow> lifecycle) \<Rightarrow> ('w n2_state, unit) pyop" where
  "put_lc f = py_mod (\<lambda>(l, w). (f l, w))"

definition get_lc :: "(lifecycle \<Rightarrow> 'a) \<Rightarrow> ('w n2_state, 'a) pyop" where
  "get_lc f = py_get (\<lambda>(l, w). f l)"

text \<open>\<open>except BaseException\<close>: only the death of the process passes.\<close>

definition py_except :: "('s, 'a) pyop \<Rightarrow> (py_error \<Rightarrow> ('s, 'a) pyop) \<Rightarrow> ('s, 'a) pyop" where
  "py_except m handler s = (case m s of
      (Inl e, s') \<Rightarrow> if e = ProcessExit then (Inl e, s') else handler e s'
    | (Inr x, s') \<Rightarrow> (Inr x, s'))"

text \<open>\<open>except Exception\<close>.\<close>

definition py_except_exception :: "('s, 'a) pyop \<Rightarrow> (py_error \<Rightarrow> ('s, 'a) pyop) \<Rightarrow> ('s, 'a) pyop" where
  "py_except_exception m handler s = (case m s of
      (Inl e, s') \<Rightarrow> if is_exception e then handler e s' else (Inl e, s')
    | (Inr x, s') \<Rightarrow> (Inr x, s'))"

section \<open>Sessions\<close>

definition cleanup_is_clean :: "cleanup_report \<Rightarrow> bool" where
  "cleanup_is_clean r \<longleftrightarrow> cr_lease_close r = CLEAN \<and> cr_mutex_release r = CLEAN \<and> cr_mutex_close r = CLEAN"

text \<open>One step of a cleanup: its status and the error it raised.\<close>

definition cleanup_step :: "('w, step_status) pyop \<Rightarrow> ('w n2_state, step_status \<times> py_error list) pyop" where
  "cleanup_step m = py_except (py_bind (port m) (\<lambda>st. py_ret (st, []))) (\<lambda>e. py_ret (STEP_FAILED, [e]))"

definition collect_cleanup :: "('w, 'h) n2_ports \<Rightarrow> 'h \<Rightarrow> ('w n2_state, cleanup_report \<times> py_error list) pyop" where
  "collect_cleanup pt h =
     py_bind (cleanup_step (pt_close_leases pt h)) (\<lambda>(a, ea).
     py_bind (cleanup_step (pt_release_mutex pt h)) (\<lambda>(b, eb).
     py_bind (cleanup_step (pt_close_mutex pt h)) (\<lambda>(c, ec).
     py_ret (\<lparr>cr_lease_close = a, cr_mutex_release = b, cr_mutex_close = c\<rparr>, ea @ eb @ ec))))"

definition cleanup_failure :: "cleanup_report \<Rightarrow> py_error list \<Rightarrow> py_error" where
  "cleanup_failure r causes =
     CanonicalCleanupFailure [step_str (cr_lease_close r), step_str (cr_mutex_release r), step_str (cr_mutex_close r)] causes"

text \<open>\<open>_finish\<close> without and with a primary error.\<close>

definition finish :: "('w, 'h) n2_ports \<Rightarrow> 'h \<Rightarrow> ('w n2_state, cleanup_report) pyop" where
  "finish pt h = py_bind (collect_cleanup pt h) (\<lambda>(r, causes).
     if causes \<noteq> [] then py_raise (cleanup_failure r causes) else py_ret r)"

definition finish_raise :: "('w, 'h) n2_ports \<Rightarrow> 'h \<Rightarrow> py_error \<Rightarrow> ('w n2_state, 'a) pyop" where
  "finish_raise pt h primary = py_bind (collect_cleanup pt h) (\<lambda>(r, causes).
     let failures = primary # causes @ (if \<not> cleanup_is_clean r \<and> causes = [] then [cleanup_failure r []] else [])
     in py_raise (if 1 < length failures then BaseExceptionGroup failures else primary))"

text \<open>A method body under a session: \<open>try: body except BaseException: _finish(session, error)\<close>, then \<open>_finish(session)\<close>.\<close>

definition under_session :: "('w, 'h) n2_ports \<Rightarrow> 'h \<Rightarrow> ('w n2_state, 'a) pyop \<Rightarrow> ('w n2_state, 'a \<times> bool) pyop" where
  "under_session pt h body =
     py_bind (py_except body (\<lambda>e. finish_raise pt h e)) (\<lambda>x.
     py_bind (finish pt h) (\<lambda>r. py_ret (x, cleanup_is_clean r)))"

definition owner_outcome :: "owner_status \<Rightarrow> persistence_outcome" where
  "owner_outcome owner = (case owner of ABANDONED_INSPECTION_ONLY \<Rightarrow> OWNER_ABANDONED | UNAVAILABLE \<Rightarrow> OWNER_UNAVAILABLE | _ \<Rightarrow> OWNER_FAILED)"

definition refuse_session :: "('w, 'h) n2_ports \<Rightarrow> 'h \<Rightarrow> persistence_outcome \<Rightarrow> ('w n2_state, persistence_outcome \<times> 'h option) pyop" where
  "refuse_session pt h outcm = py_bind (finish pt h) (\<lambda>r. py_ret (if cleanup_is_clean r then outcm else CLEANUP_FAILED, None))"

definition begin_mutation :: "('w, 'h) n2_ports \<Rightarrow> operation_kind \<Rightarrow> ('w n2_state, persistence_outcome \<times> 'h option) pyop" where
  "begin_mutation pt op =
     py_bind (port (pt_begin pt op)) (\<lambda>begun.
     case br_session begun of
       None \<Rightarrow> py_ret (owner_outcome (br_owner begun), None)
     | Some h \<Rightarrow>
         if br_owner begun \<noteq> ACQUIRED then refuse_session pt h (owner_outcome (br_owner begun))
         else
           py_bind (port (pt_write_permitted pt h)) (\<lambda>permitted.
           if \<not> permitted then refuse_session pt h OWNER_FAILED
           else
             py_bind (py_except (port (pt_validate_before pt h)) (\<lambda>e. finish_raise pt h e)) (\<lambda>v.
             if v \<noteq> VALIDATED then refuse_session pt h LEASE_DRIFT else py_ret (PO_OK, Some h))))"

text \<open>A mutation: the body runs when a session was begun; \<open>after\<close> sees its outcome and whether the cleanup was clean.\<close>

definition mutation_under :: "('w, 'h) n2_ports \<Rightarrow> operation_kind \<Rightarrow> ('h \<Rightarrow> ('w n2_state, 'a) pyop) \<Rightarrow>
    ('a \<Rightarrow> bool \<Rightarrow> ('w n2_state, persistence_outcome) pyop) \<Rightarrow> ('w n2_state, persistence_outcome) pyop" where
  "mutation_under pt op body after =
     py_bind (begin_mutation pt op) (\<lambda>(started, session).
     case session of
       None \<Rightarrow> py_ret started
     | Some h \<Rightarrow> py_bind (under_session pt h (body h)) (\<lambda>(x, clean). after x clean))"

section \<open>Loading what is there\<close>

definition set_state :: "lifecycle_state \<Rightarrow> ('w n2_state, unit) pyop" where
  "set_state st = put_lc (\<lambda>l. l\<lparr>lc_state := st\<rparr>)"

definition unread :: "inspection list \<Rightarrow> inspection option" where
  "unread = find (\<lambda>i. in_record i = None \<and> in_state i \<noteq> ABSENT)"

definition domain_of :: "cdict option \<Rightarrow> string option" where
  "domain_of found = (case found of None \<Rightarrow> None | Some d \<Rightarrow> Some (py_str (get_field d ''domain'')))"

definition bytes_of :: "string option \<Rightarrow> string" where
  "bytes_of v = (case v of None \<Rightarrow> [] | Some t \<Rightarrow> t)"

text \<open>The state of a store that has a terminal record.\<close>

definition terminal_state :: "(string \<Rightarrow> string) \<Rightarrow> inspection \<Rightarrow> inspection \<Rightarrow> inspection \<Rightarrow> cdict option \<Rightarrow> cdict option \<Rightarrow> cdict option \<Rightarrow>
    py_error + lifecycle_state" where
  "terminal_state sha prepared grant terminal pv gv tv =
     (case (tv, pv) of
        (Some t, Some p) \<Rightarrow>
          if domain_of tv \<noteq> Some ''D1N2/TERMINAL/v1'' \<or> domain_of pv \<noteq> Some ''D1N2/CONSUMED/v1'' \<or>
            get_field t ''consumed_digest'' \<noteq> CStr (sha (bytes_of (in_record prepared))) then Inr PRESENT_INVALID
          else
            (let not_issued = (get_field t ''grant_disposition'' = CStr (disposition_name NOT_ISSUED));
                 chain = (if not_issued then in_record grant = None
                   else (case gv of None \<Rightarrow> False | Some g \<Rightarrow> domain_of gv = Some ''D1N2/GRANT_REVOKED/v1'' \<and>
                     get_field t ''grant_record_digest'' = CStr (sha (bytes_of (in_record grant))) \<and>
                     get_field g ''consumed_digest'' = CStr (sha (bytes_of (in_record prepared))) \<and>
                     get_field g ''epoch_digest'' = get_field p ''epoch_digest''))
             in res_bind (if chain then receipt_matches_lifecycle sha t p (if not_issued then None else in_record grant) else Inr False) (\<lambda>ok.
                Inr (if \<not> ok then PRESENT_INVALID else if in_durability terminal = DURABLE then AUTH_TERMINAL else TERMINAL_DURABILITY_UNVERIFIED)))
      | _ \<Rightarrow> Inr PRESENT_INVALID)"

text \<open>The state of a store whose authority was consumed, with the grant that is there.\<close>

definition load_consumed :: "(string \<Rightarrow> string) \<Rightarrow> string \<Rightarrow> cdict \<Rightarrow> string option \<Rightarrow> cdict option \<Rightarrow> ('w n2_state, unit) pyop" where
  "load_consumed sha consumed pv grant_record gv =
     py_then (put_lc (\<lambda>l. l\<lparr>lc_consumed := Some consumed\<rparr>))
    (case (grant_record, gv) of
       (None, _) \<Rightarrow> set_state CONSUMED_NO_GRANT
     | (Some bytes, None) \<Rightarrow> set_state PRESENT_INVALID
     | (Some bytes, Some g) \<Rightarrow>
         (case (get_field g ''grant_digest'', get_field g ''issued_monotonic_ns'', get_field g ''expires_monotonic_ns'') of
            (CStr digest, CInt issued, CInt expires) \<Rightarrow>
              if \<not> is_digest digest \<or> get_field g ''consumed_digest'' \<noteq> CStr (sha consumed) \<or> get_field g ''epoch_digest'' \<noteq> get_field pv ''epoch_digest''
              then set_state PRESENT_INVALID
              else
                put_lc (\<lambda>l. l\<lparr>lc_grant := Some \<lparr>gi_digest = digest, gi_issued_monotonic_ns = issued, gi_expires_monotonic_ns = expires, gi_used = False\<rparr>,
                  lc_grant_record := Some bytes,
                  lc_state := (if domain_of gv = Some ''D1N2/GRANT_ISSUED/v1'' then GRANT_ISSUED
                    else if domain_of gv = Some ''D1N2/GRANT_REVOKED/v1'' then REVOKED_TERMINAL_PENDING else PRESENT_INVALID)\<rparr>)
          | _ \<Rightarrow> set_state PRESENT_INVALID))"

definition load_records :: "(string \<Rightarrow> string) \<Rightarrow> inspection \<Rightarrow> inspection \<Rightarrow> inspection \<Rightarrow> ('w n2_state, unit) pyop" where
  "load_records sha prepared grant terminal =
     (case unread [prepared, grant, terminal] of
        Some i \<Rightarrow> set_state (if in_state i = PRESENT_INVALID then PRESENT_INVALID else UNKNOWN_NONLAUNCHABLE)
      | None \<Rightarrow>
          py_bind (py_lift (validated_record sha (in_record terminal) None)) (\<lambda>tv.
          py_bind (py_lift (validated_record sha (in_record prepared) None)) (\<lambda>pv.
          py_bind (py_lift (validated_record sha (in_record grant) None)) (\<lambda>gv.
          if in_record terminal \<noteq> None then py_bind (py_lift (terminal_state sha prepared grant terminal pv gv tv)) set_state
          else (case in_record prepared of
              None \<Rightarrow> set_state (if in_record grant = None then ABSENT else PRESENT_INVALID)
            | Some bytes \<Rightarrow>
                if domain_of pv = Some ''D1N2/PENDING/v1'' then put_lc (\<lambda>l. l\<lparr>lc_pending := Some bytes, lc_state := AUTH_PENDING\<rparr>)
                else if domain_of pv = Some ''D1N2/PREPARED/v1'' then put_lc (\<lambda>l. l\<lparr>lc_prepared := Some bytes, lc_state := STALE_PREPARED_NONLAUNCHABLE\<rparr>)
                else (case pv of
                    Some d \<Rightarrow> if domain_of pv \<noteq> Some ''D1N2/CONSUMED/v1'' then set_state PRESENT_INVALID
                      else load_consumed sha bytes d (in_record grant) gv
                  | None \<Rightarrow> set_state PRESENT_INVALID))))))"

definition load_existing_state :: "(string \<Rightarrow> string) \<Rightarrow> ('w, 'h) n2_ports \<Rightarrow> ('w n2_state, unit) pyop" where
  "load_existing_state sha pt =
     py_bind (port (pt_begin pt INSPECT)) (\<lambda>begun.
     case br_session begun of
       None \<Rightarrow> py_ret ()
     | Some h \<Rightarrow>
         py_bind (under_session pt h
           (if br_owner begun \<in> {ACQUIRED, ABANDONED_INSPECTION_ONLY} then
              py_bind (port (pt_validate_before pt h)) (\<lambda>v.
              if v \<noteq> VALIDATED then py_ret None
              else
                py_bind (port (pt_inspect pt h PREPARED_LEAF)) (\<lambda>p.
                py_bind (port (pt_inspect pt h GRANT_LEAF)) (\<lambda>g.
                py_bind (port (pt_inspect pt h TERMINAL_LEAF)) (\<lambda>t. py_ret (Some (p, g, t))))))
            else py_ret None)) (\<lambda>(found, clean).
         case found of
           None \<Rightarrow> py_ret ()
         | Some (p, g, t) \<Rightarrow> if clean then load_records sha p g t else py_ret ()))"

text \<open>The constructor.\<close>

definition open_lifecycle :: "(string \<Rightarrow> string) \<Rightarrow> ('w, 'h) n2_ports \<Rightarrow> ('w, lifecycle) pyop" where
  "open_lifecycle sha pt w = (case pt_entropy pt w of
      (Inl e, w') \<Rightarrow> (Inl e, w')
    | (Inr raw, w') \<Rightarrow>
        if length raw \<noteq> 32 then (Inl (ValueError ''process epoch entropy must be exactly 32 bytes''), w')
        else (case load_existing_state sha pt (new_lifecycle raw, w') of
            (Inl e, (l, w'')) \<Rightarrow> (Inl e, w'')
          | (Inr _, (l, w'')) \<Rightarrow> (Inr l, w'')))"

end
