(* ===== verification/N2_Requests.thy ===== *)
theory N2_Requests
  imports N2_Lifecycle
begin

text \<open>
  The requests of the authority lifecycle: \<open>prepare\<close>, \<open>consume\<close>, \<open>issue_grant\<close>, \<open>take_grant_capability\<close>, \<open>authorize_grant\<close>,
  \<open>revoke_grant\<close> and \<open>terminalize\<close> of \<open>CanonicalInjectableAuthorityLifecycle\<close>.
\<close>

section \<open>Writing\<close>

text \<open>\<open>_write_status\<close>: the outcome, and whether exactly the expected bytes are there.\<close>

definition write_status :: "write_result \<Rightarrow> string \<Rightarrow> persistence_outcome \<times> bool" where
  "write_status r expected =
     (let exact = (wr_disposition r = WRITE_VALID \<and> wr_observed r = Some expected)
      in if wr_outcome r = PO_OK then (if exact then (PO_OK, True) else (READBACK_FAILED, False)) else (wr_outcome r, exact))"

definition post_write :: "('w, 'h) n2_ports \<Rightarrow> 'h \<Rightarrow> ('w n2_state, persistence_outcome) pyop" where
  "post_write pt h =
     py_bind (port (pt_validate_after pt h)) (\<lambda>v.
     if v \<noteq> VALIDATED then py_ret LEASE_DRIFT
     else py_bind (port (pt_parent_durable pt h)) (\<lambda>d. py_ret (if d = DURABLE then PO_OK else DURABILITY_FAILED)))"

definition invalid_unless_untouched :: "write_result \<Rightarrow> ('w n2_state, unit) pyop" where
  "invalid_unless_untouched r = (if wr_disposition r \<noteq> ZERO_WRITE then set_state PRESENT_INVALID else py_ret ())"

section \<open>Prepare\<close>

definition pending_record :: "(string \<Rightarrow> string) \<Rightarrow> lifecycle \<Rightarrow> approved_triple \<Rightarrow> string" where
  "pending_record sha l a = record_bytes ''D1N2/PENDING/v1''
     (pending_fields a @ [(''epoch_digest'', CStr (epoch_digest sha l)), (''state'', CStr ''PENDING'')])"

definition prepared_record :: "(string \<Rightarrow> string) \<Rightarrow> lifecycle \<Rightarrow> prepared_attestation \<Rightarrow> string \<Rightarrow> string" where
  "prepared_record sha l p pending = record_bytes ''D1N2/PREPARED/v1''
     (prepared_fields p @ [(''epoch_digest'', CStr (epoch_digest sha l)), (''pending_digest'', CStr (sha pending)), (''state'', CStr ''PREPARED'')])"

definition attestation_matches :: "approved_triple \<Rightarrow> prepared_attestation option \<Rightarrow> bool" where
  "attestation_matches a att = (case att of
      None \<Rightarrow> False
    | Some p \<Rightarrow> prepared_valid p \<and> pa_static_bindings_digest p = at_static_bindings_digest a \<and>
        pa_binding_schema_digest p = at_binding_schema_sha256 a \<and> pa_manifest_sha256 p = at_candidate_sha256 a)"

definition replace_pending :: "(string \<Rightarrow> string) \<Rightarrow> ('w, 'h) n2_ports \<Rightarrow> 'h \<Rightarrow> string \<Rightarrow> prepared_attestation \<Rightarrow> ('w n2_state, persistence_outcome) pyop" where
  "replace_pending sha pt h pending p =
     py_bind (get_lc (\<lambda>l. prepared_record sha l p pending)) (\<lambda>prepared.
     py_bind (port (pt_cas pt h PREPARED_LEAF pending prepared)) (\<lambda>replaced.
     case write_status replaced prepared of (outcm, exact) \<Rightarrow>
       if outcm = PO_OK then
         py_then (put_lc (\<lambda>l. l\<lparr>lc_prepared := Some prepared, lc_state := PREPARED\<rparr>))
        (py_bind (post_write pt h) (\<lambda>written.
         py_then (if written \<noteq> PO_OK then put_lc (\<lambda>l. l\<lparr>lc_live_prepared := False, lc_state := PREPARED_NONLAUNCHABLE\<rparr>) else py_ret ())
         (py_ret written)))
       else if exact then
         py_then (put_lc (\<lambda>l. l\<lparr>lc_prepared := Some prepared, lc_state := PREPARED_NONLAUNCHABLE\<rparr>)) (py_ret outcm)
       else py_then (invalid_unless_untouched replaced) (py_ret outcm)))"

definition write_prepared :: "(string \<Rightarrow> string) \<Rightarrow> ('w, 'h) n2_ports \<Rightarrow> 'h \<Rightarrow> approved_triple \<Rightarrow> string \<Rightarrow> ('w n2_state, persistence_outcome) pyop" where
  "write_prepared sha pt h a pending =
     py_bind (post_write pt h) (\<lambda>written.
     if written \<noteq> PO_OK then py_ret written
     else
       py_bind (port (pt_attest_pending pt h)) (\<lambda>att.
       case att of
         None \<Rightarrow> py_ret ATTESTATION_FAILED
       | Some p \<Rightarrow>
           if \<not> attestation_matches a att then py_ret ATTESTATION_FAILED
           else
             py_bind (port (pt_validate_before pt h)) (\<lambda>v.
             if v \<noteq> VALIDATED then py_ret LEASE_DRIFT else replace_pending sha pt h pending p)))"

definition write_pending :: "(string \<Rightarrow> string) \<Rightarrow> ('w, 'h) n2_ports \<Rightarrow> 'h \<Rightarrow> approved_triple \<Rightarrow> ('w n2_state, persistence_outcome) pyop" where
  "write_pending sha pt h a =
     py_bind (get_lc (\<lambda>l. pending_record sha l a)) (\<lambda>pending.
     py_bind (port (pt_create pt h PREPARED_LEAF pending)) (\<lambda>created.
     case write_status created pending of (outcm, exact) \<Rightarrow>
       if outcm \<noteq> PO_OK then
         py_then (if exact then put_lc (\<lambda>l. l\<lparr>lc_pending := Some pending, lc_state := AUTH_PENDING\<rparr>) else invalid_unless_untouched created)
         (py_ret outcm)
       else
         py_then (put_lc (\<lambda>l. l\<lparr>lc_pending := Some pending, lc_state := AUTH_PENDING\<rparr>))
         (write_prepared sha pt h a pending)))"

definition prepare_body :: "(string \<Rightarrow> string) \<Rightarrow> ('w, 'h) n2_ports \<Rightarrow> 'h \<Rightarrow> ('w n2_state, persistence_outcome) pyop" where
  "prepare_body sha pt h =
     py_bind (port (pt_inspect pt h PREPARED_LEAF)) (\<lambda>i.
     if in_state i \<noteq> ABSENT \<or> in_record i \<noteq> None then
       py_then (set_state (if in_state i \<noteq> ABSENT then in_state i else PRESENT_INVALID)) (py_ret CREATE_FAILED)
     else
       py_bind (port (pt_attest_a0 pt h)) (\<lambda>approved.
       case approved of
         None \<Rightarrow> py_ret ATTESTATION_FAILED
       | Some a \<Rightarrow>
           if \<not> approved_valid a then py_ret ATTESTATION_FAILED
           else py_then (put_lc (\<lambda>l. l\<lparr>lc_approved_rp2 := Some a\<rparr>)) (write_pending sha pt h a)))"

definition prepare :: "(string \<Rightarrow> string) \<Rightarrow> ('w, 'h) n2_ports \<Rightarrow> ('w n2_state, persistence_outcome) pyop" where
  "prepare sha pt =
     py_bind (get_lc lc_state) (\<lambda>st.
     if st \<noteq> ABSENT then py_ret INPUT_INVALID
     else mutation_under pt PREPARE (prepare_body sha pt) (\<lambda>outcm clean.
       py_bind (get_lc lc_state) (\<lambda>now.
       if \<not> clean then
         py_then (if now = PREPARED then set_state PREPARED_NONLAUNCHABLE else py_ret ()) (py_ret CLEANUP_FAILED)
       else
         py_then (if outcm = PO_OK \<and> now = PREPARED then put_lc (\<lambda>l. l\<lparr>lc_live_prepared := True\<rparr>) else py_ret ()) (py_ret outcm))))"

section \<open>Consume\<close>

definition consumed_record :: "(string \<Rightarrow> string) \<Rightarrow> lifecycle \<Rightarrow> cdict \<Rightarrow> string \<Rightarrow> string" where
  "consumed_record sha l d prepared = record_bytes ''D1N2/CONSUMED/v1''
     [(''dependency_observation_digest'', get_field d ''dependency_observation_digest''), (''epoch_digest'', CStr (epoch_digest sha l)),
      (''face_model_sha256'', get_field d ''face_model_sha256''), (''pose_model_sha256'', get_field d ''pose_model_sha256''),
      (''prepared_digest'', CStr (sha prepared)), (''state'', CStr ''CONSUMED''), (''static_bindings_digest'', get_field d ''static_bindings_digest'')]"

definition consume_body :: "(string \<Rightarrow> string) \<Rightarrow> ('w, 'h) n2_ports \<Rightarrow> string \<Rightarrow> 'h \<Rightarrow> ('w n2_state, persistence_outcome) pyop" where
  "consume_body sha pt prepared h =
     py_bind (port (pt_inspect pt h PREPARED_LEAF)) (\<lambda>i.
     if in_record i \<noteq> Some prepared then py_then (set_state PRESENT_INVALID) (py_ret CAS_MISMATCH)
     else
       py_bind (py_lift (validated_record sha (Some prepared) (Some ''D1N2/PREPARED/v1''))) (\<lambda>found.
       py_bind (get_lc (epoch_digest sha)) (\<lambda>epoch.
       case found of
         Some d \<Rightarrow>
           if get_field d ''epoch_digest'' \<noteq> CStr epoch then py_then (set_state STALE_PREPARED_NONLAUNCHABLE) (py_ret CAS_MISMATCH)
           else
             py_bind (get_lc (\<lambda>l. consumed_record sha l d prepared)) (\<lambda>consumed.
             py_bind (port (pt_cas pt h PREPARED_LEAF prepared consumed)) (\<lambda>replaced.
             case write_status replaced consumed of (outcm, exact) \<Rightarrow>
               if outcm = PO_OK then
                 py_then (put_lc (\<lambda>l. l\<lparr>lc_consumed := Some consumed, lc_state := CONSUMED_NO_GRANT\<rparr>)) (post_write pt h)
               else if exact then
                 py_then (put_lc (\<lambda>l. l\<lparr>lc_consumed := Some consumed, lc_state := CONSUMED_NO_GRANT\<rparr>)) (py_ret outcm)
               else py_then (invalid_unless_untouched replaced) (py_ret outcm)))
       | None \<Rightarrow> py_then (set_state STALE_PREPARED_NONLAUNCHABLE) (py_ret CAS_MISMATCH))))"

definition within_window :: "cdict option \<Rightarrow> int \<Rightarrow> bool" where
  "within_window found now = (case found of
      None \<Rightarrow> False
    | Some d \<Rightarrow> (case (get_field d ''issued_unix_ns'', get_field d ''expires_unix_ns'') of
        (CInt issued, CInt expires) \<Rightarrow> issued \<le> now \<and> now \<le> expires
      | _ \<Rightarrow> False))"

definition consume :: "(string \<Rightarrow> string) \<Rightarrow> ('w, 'h) n2_ports \<Rightarrow> ('w n2_state, persistence_outcome) pyop" where
  "consume sha pt =
     py_bind (get_lc (\<lambda>l. (lc_state l, lc_prepared l, lc_live_prepared l))) (\<lambda>(st, prepared, live).
     case prepared of
       None \<Rightarrow> py_ret CAS_MISMATCH
     | Some bytes \<Rightarrow>
         if st \<noteq> PREPARED \<or> \<not> live then py_ret CAS_MISMATCH
         else
           py_bind (py_lift (validated_record sha (Some bytes) (Some ''D1N2/PREPARED/v1''))) (\<lambda>found.
           py_bind (py_except_exception (port (pt_unix_clock_ns pt)) (\<lambda>_. py_ret (- 1))) (\<lambda>now.
           if \<not> within_window found now then
             py_then (put_lc (\<lambda>l. l\<lparr>lc_live_prepared := False, lc_state := STALE_PREPARED_NONLAUNCHABLE\<rparr>)) (py_ret CAS_MISMATCH)
           else mutation_under pt CONSUME (consume_body sha pt bytes) (\<lambda>outcm clean.
             if \<not> clean then py_ret CLEANUP_FAILED
             else
               py_bind (get_lc lc_state) (\<lambda>after.
               py_then (if outcm = PO_OK \<and> after = CONSUMED_NO_GRANT then put_lc (\<lambda>l. l\<lparr>lc_live_consumed := True\<rparr>) else py_ret ())
               (py_ret outcm))))))"

section \<open>The grant\<close>

definition grant_record_of :: "(string \<Rightarrow> string) \<Rightarrow> lifecycle \<Rightarrow> worker_attestation \<Rightarrow> string \<Rightarrow> string \<Rightarrow> int \<Rightarrow> string" where
  "grant_record_of sha l b consumed raw issued = record_bytes ''D1N2/GRANT_ISSUED/v1''
     (worker_fields b @ [(''consumed_digest'', CStr (sha consumed)), (''epoch_digest'', CStr (epoch_digest sha l)),
       (''expires_monotonic_ns'', CInt (issued + WORKER_GRANT_TTL_NS)), (''grant_digest'', CStr (sha raw)), (''grant_size'', CInt 32),
       (''issued_monotonic_ns'', CInt issued), (''state'', CStr ''ISSUED'')])"

definition write_grant :: "(string \<Rightarrow> string) \<Rightarrow> ('w, 'h) n2_ports \<Rightarrow> 'h \<Rightarrow> worker_attestation \<Rightarrow> string \<Rightarrow> string \<Rightarrow> int \<Rightarrow>
    ('w n2_state, persistence_outcome) pyop" where
  "write_grant sha pt h b consumed raw issued =
     py_bind (get_lc (\<lambda>l. grant_record_of sha l b consumed raw issued)) (\<lambda>grant_bytes.
     py_bind (port (pt_create pt h GRANT_LEAF grant_bytes)) (\<lambda>created.
     py_bind (case write_status created grant_bytes of (outcm, exact) \<Rightarrow>
       if outcm = PO_OK then
         py_then (put_lc (\<lambda>l. l\<lparr>lc_grant_record := Some grant_bytes, lc_state := GRANT_ISSUED\<rparr>)) (post_write pt h)
       else if exact then py_then (put_lc (\<lambda>l. l\<lparr>lc_grant_record := Some grant_bytes, lc_state := GRANT_ISSUED\<rparr>)) (py_ret outcm)
       else py_then (invalid_unless_untouched created) (py_ret outcm)) (\<lambda>outcm.
     py_bind (get_lc lc_state) (\<lambda>st.
     py_then (if st = GRANT_ISSUED then put_lc (\<lambda>l. l\<lparr>lc_grant := Some \<lparr>gi_digest = sha raw, gi_issued_monotonic_ns = issued,
         gi_expires_monotonic_ns = issued + WORKER_GRANT_TTL_NS, gi_used = False\<rparr>\<rparr>) else py_ret ())
     (py_ret outcm)))))"

text \<open>The body returns the raw capability as well.\<close>

definition issue_body :: "(string \<Rightarrow> string) \<Rightarrow> ('w, 'h) n2_ports \<Rightarrow> worker_attestation \<Rightarrow> string \<Rightarrow> 'h \<Rightarrow>
    ('w n2_state, persistence_outcome \<times> string option) pyop" where
  "issue_body sha pt b consumed h =
     py_bind (port (pt_inspect pt h PREPARED_LEAF)) (\<lambda>c.
     py_bind (port (pt_inspect pt h GRANT_LEAF)) (\<lambda>g.
     if in_record c \<noteq> Some consumed \<or> in_record g \<noteq> None then py_ret (CAS_MISMATCH, None)
     else
       py_bind (port (pt_clock_ns pt)) (\<lambda>issued.
       if issued < 0 \<or> MAX_SIGNED_NS - WORKER_GRANT_TTL_NS < issued then py_ret (GRANT_NOT_AUTHORIZED, None)
       else
         py_bind (py_except_exception (py_bind (port (pt_grant_entropy pt)) (\<lambda>raw. py_ret (Some raw))) (\<lambda>_. py_ret None)) (\<lambda>drawn.
         case drawn of
           None \<Rightarrow> py_ret (GRANT_ENTROPY_FAILED, None)
         | Some raw \<Rightarrow>
             if length raw \<noteq> 32 then py_ret (GRANT_ENTROPY_FAILED, Some raw)
             else py_bind (write_grant sha pt h b consumed raw issued) (\<lambda>outcm. py_ret (outcm, Some raw))))))"

definition issue_grant :: "(string \<Rightarrow> string) \<Rightarrow> ('w, 'h) n2_ports \<Rightarrow> worker_attestation \<Rightarrow> ('w n2_state, persistence_outcome) pyop" where
  "issue_grant sha pt b =
     py_bind (get_lc (\<lambda>l. (lc_state l, lc_prepared l, lc_consumed l, lc_live_consumed l))) (\<lambda>(st, prepared, consumed, live).
     case (prepared, consumed) of
       (Some prepared_bytes, Some consumed_bytes) \<Rightarrow>
         if \<not> worker_valid b \<or> wk_prepared_authority_digest b \<noteq> sha prepared_bytes \<or> st \<noteq> CONSUMED_NO_GRANT \<or> \<not> live then py_ret GRANT_NOT_AUTHORIZED
         else mutation_under pt ISSUE_GRANT (issue_body sha pt b consumed_bytes) (\<lambda>(outcm, raw) clean.
           py_then (put_lc (\<lambda>l. l\<lparr>lc_grant_raw := (if outcm = PO_OK \<and> clean then raw else None)\<rparr>))
           (py_ret (if clean then outcm else CLEANUP_FAILED)))
     | _ \<Rightarrow> py_ret GRANT_NOT_AUTHORIZED)"

definition take_grant_capability :: "('w n2_state, string option) pyop" where
  "take_grant_capability =
     py_bind (get_lc (\<lambda>l. (lc_state l, lc_grant_handed_off l, lc_grant_raw l))) (\<lambda>(st, handed, raw).
     if st \<noteq> GRANT_ISSUED \<or> handed \<or> raw = None then py_ret None
     else py_then (put_lc (\<lambda>l. l\<lparr>lc_grant_handed_off := True\<rparr>)) (py_ret raw))"

definition authorize_grant :: "(string \<Rightarrow> string) \<Rightarrow> ('w, 'h) n2_ports \<Rightarrow> string \<Rightarrow> ('w n2_state, persistence_outcome) pyop" where
  "authorize_grant sha pt presented =
     py_bind (port (pt_clock_ns pt)) (\<lambda>now.
     py_bind (get_lc (\<lambda>l. (lc_state l, lc_grant l, lc_grant_handed_off l))) (\<lambda>(st, grant, handed).
     case grant of
       None \<Rightarrow> py_ret GRANT_NOT_AUTHORIZED
     | Some g \<Rightarrow>
         if st \<noteq> GRANT_ISSUED \<or> \<not> handed \<or> gi_used g \<or> now < gi_issued_monotonic_ns g \<or> gi_expires_monotonic_ns g < now \<or> length presented \<noteq> 32 \<or>
           sha presented \<noteq> gi_digest g then py_ret GRANT_NOT_AUTHORIZED
         else py_then (put_lc (\<lambda>l. l\<lparr>lc_grant := Some (g\<lparr>gi_used := True\<rparr>)\<rparr>)) (py_ret PO_OK)))"

definition revoked_record_of :: "(string \<Rightarrow> string) \<Rightarrow> lifecycle \<Rightarrow> cdict \<Rightarrow> string \<Rightarrow> string \<Rightarrow> grant_inspection \<Rightarrow> string" where
  "revoked_record_of sha l d consumed issued_bytes g = record_bytes ''D1N2/GRANT_REVOKED/v1''
     [(''challenge_digest'', get_field d ''challenge_digest''), (''consumed_digest'', CStr (sha consumed)), (''epoch_digest'', CStr (epoch_digest sha l)),
      (''expires_monotonic_ns'', CInt (gi_expires_monotonic_ns g)), (''grant_digest'', CStr (gi_digest g)),
      (''issued_monotonic_ns'', CInt (gi_issued_monotonic_ns g)), (''issued_record_digest'', CStr (sha issued_bytes)),
      (''job_name_digest'', get_field d ''job_name_digest''), (''state'', CStr ''REVOKED'')]"

definition revoke_body :: "(string \<Rightarrow> string) \<Rightarrow> ('w, 'h) n2_ports \<Rightarrow> string \<Rightarrow> string \<Rightarrow> grant_inspection \<Rightarrow> 'h \<Rightarrow> ('w n2_state, persistence_outcome) pyop" where
  "revoke_body sha pt consumed issued_bytes g h =
     py_bind (port (pt_inspect pt h GRANT_LEAF)) (\<lambda>i.
     if in_record i \<noteq> Some issued_bytes then py_ret CAS_MISMATCH
     else
       py_bind (py_lift (validated_record sha (Some issued_bytes) (Some ''D1N2/GRANT_ISSUED/v1''))) (\<lambda>found.
       case found of
         None \<Rightarrow> py_ret CAS_MISMATCH
       | Some d \<Rightarrow>
           py_bind (get_lc (\<lambda>l. revoked_record_of sha l d consumed issued_bytes g)) (\<lambda>revoked.
           py_bind (port (pt_cas pt h GRANT_LEAF issued_bytes revoked)) (\<lambda>replaced.
           case write_status replaced revoked of (outcm, exact) \<Rightarrow>
             py_then (if outcm = PO_OK \<or> exact then put_lc (\<lambda>l. l\<lparr>lc_grant_record := Some revoked, lc_state := REVOKED_TERMINAL_PENDING\<rparr>)
               else invalid_unless_untouched replaced)
             (if outcm = PO_OK then post_write pt h else py_ret outcm)))))"

definition revoke_grant :: "(string \<Rightarrow> string) \<Rightarrow> ('w, 'h) n2_ports \<Rightarrow> ('w n2_state, persistence_outcome) pyop" where
  "revoke_grant sha pt =
     py_bind (get_lc (\<lambda>l. (lc_state l, lc_grant l, lc_grant_record l, lc_consumed l))) (\<lambda>(st, grant, grant_bytes, consumed).
     case (grant, grant_bytes, consumed) of
       (Some g, Some issued_bytes, Some consumed_bytes) \<Rightarrow>
         if st \<noteq> GRANT_ISSUED then py_ret GRANT_NOT_AUTHORIZED
         else
           py_then (put_lc (\<lambda>l. l\<lparr>lc_grant_raw := None, lc_grant_handed_off := True\<rparr>))
           (mutation_under pt REVOKE_GRANT (revoke_body sha pt consumed_bytes issued_bytes g) (\<lambda>outcm clean.
             py_ret (if clean then outcm else CLEANUP_FAILED)))
     | _ \<Rightarrow> py_ret GRANT_NOT_AUTHORIZED)"

section \<open>The terminal record\<close>

definition terminal_record_of :: "(string \<Rightarrow> string) \<Rightarrow> terminal_attestation \<Rightarrow> string \<Rightarrow> grant_disposition \<Rightarrow> string option \<Rightarrow> string" where
  "terminal_record_of sha b consumed disposition grant_digest = record_bytes ''D1N2/TERMINAL/v1''
     (terminal_fields b @ [(''consumed_digest'', CStr (sha consumed)), (''durability_policy'', CStr ''REVERIFY_PARENT_ON_INSPECTION''),
       (''grant_disposition'', CStr (disposition_name disposition)), (''grant_record_digest'', opt_cstr grant_digest), (''state'', CStr ''TERMINAL'')])"

definition write_terminal :: "('w, 'h) n2_ports \<Rightarrow> 'h \<Rightarrow> string \<Rightarrow> ('w n2_state, persistence_outcome) pyop" where
  "write_terminal pt h bytes =
     py_bind (port (pt_create pt h TERMINAL_LEAF bytes)) (\<lambda>created.
     case write_status created bytes of (outcm, exact) \<Rightarrow>
       if outcm = PO_OK then
         py_then (set_state AUTH_TERMINAL)
        (py_bind (post_write pt h) (\<lambda>written.
         py_then (if written \<noteq> PO_OK then set_state TERMINAL_DURABILITY_UNVERIFIED else py_ret ()) (py_ret written)))
       else if exact then py_then (set_state TERMINAL_DURABILITY_UNVERIFIED) (py_ret outcm)
       else py_then (invalid_unless_untouched created) (py_ret outcm))"

definition terminalize_body :: "(string \<Rightarrow> string) \<Rightarrow> ('w, 'h) n2_ports \<Rightarrow> terminal_attestation \<Rightarrow> string \<Rightarrow> grant_disposition \<Rightarrow> string option \<Rightarrow> 'h \<Rightarrow>
    ('w n2_state, persistence_outcome) pyop" where
  "terminalize_body sha pt b consumed disposition grant_bytes h =
     py_bind (port (pt_inspect pt h PREPARED_LEAF)) (\<lambda>c.
     py_bind (port (pt_inspect pt h TERMINAL_LEAF)) (\<lambda>t.
     if in_record c \<noteq> Some consumed then py_ret CAS_MISMATCH
     else if in_record t \<noteq> None then py_ret TERMINAL_ALREADY_PRESENT
     else if disposition = GRANT_REVOKED then
       py_bind (port (pt_inspect pt h GRANT_LEAF)) (\<lambda>g.
       if in_record g \<noteq> grant_bytes then py_ret CAS_MISMATCH
       else write_terminal pt h (terminal_record_of sha b consumed disposition (map_option sha grant_bytes)))
     else write_terminal pt h (terminal_record_of sha b consumed disposition None)))"

definition terminalize :: "(string \<Rightarrow> string) \<Rightarrow> ('w, 'h) n2_ports \<Rightarrow> terminal_attestation \<Rightarrow> ('w n2_state, persistence_outcome) pyop" where
  "terminalize sha pt b =
     (if \<not> terminal_valid sha b then py_ret TERMINAL_NOT_AUTHORIZED
      else
        py_bind (get_lc (\<lambda>l. (lc_state l, lc_consumed l, lc_grant_record l))) (\<lambda>(st, consumed, grant_bytes).
        if st \<in> {AUTH_TERMINAL, TERMINAL_DURABILITY_UNVERIFIED} then py_ret TERMINAL_ALREADY_PRESENT
        else if st \<notin> {CONSUMED_NO_GRANT, REVOKED_TERMINAL_PENDING} then py_ret TERMINAL_NOT_AUTHORIZED
        else (case consumed of
            None \<Rightarrow> py_ret TERMINAL_NOT_AUTHORIZED
          | Some consumed_bytes \<Rightarrow>
              let disposition = (if st = CONSUMED_NO_GRANT then NOT_ISSUED else GRANT_REVOKED)
              in
                py_bind (py_lift (validated_record sha (Some consumed_bytes) (Some ''D1N2/CONSUMED/v1''))) (\<lambda>found.
                py_bind (py_lift (case found of None \<Rightarrow> Inr False
                  | Some d \<Rightarrow> receipt_matches_lifecycle sha (terminal_fields b) d (if disposition = GRANT_REVOKED then grant_bytes else None))) (\<lambda>matching.
                if \<not> matching then py_ret TERMINAL_NOT_AUTHORIZED
                else mutation_under pt TERMINALIZE (terminalize_body sha pt b consumed_bytes disposition grant_bytes) (\<lambda>outcm clean.
                  py_bind (get_lc lc_state) (\<lambda>after.
                  if \<not> clean then
                    py_then (if after = AUTH_TERMINAL then set_state TERMINAL_DURABILITY_UNVERIFIED else py_ret ()) (py_ret CLEANUP_FAILED)
                  else py_ret outcm)))))))"

section \<open>Requests\<close>

datatype n2_request = PrepareReq | ConsumeReq | IssueReq worker_attestation | TakeReq | AuthorizeReq string | RevokeReq | TerminalizeReq terminal_attestation

datatype n2_reply = Outcome persistence_outcome | Capability "string option"

definition n2_handle :: "(string \<Rightarrow> string) \<Rightarrow> ('w, 'h) n2_ports \<Rightarrow> n2_request \<Rightarrow> ('w n2_state, n2_reply) pyop" where
  "n2_handle sha pt req = (case req of
      PrepareReq \<Rightarrow> py_bind (prepare sha pt) (\<lambda>x. py_ret (Outcome x))
    | ConsumeReq \<Rightarrow> py_bind (consume sha pt) (\<lambda>x. py_ret (Outcome x))
    | IssueReq b \<Rightarrow> py_bind (issue_grant sha pt b) (\<lambda>x. py_ret (Outcome x))
    | TakeReq \<Rightarrow> py_bind take_grant_capability (\<lambda>x. py_ret (Capability x))
    | AuthorizeReq raw \<Rightarrow> py_bind (authorize_grant sha pt raw) (\<lambda>x. py_ret (Outcome x))
    | RevokeReq \<Rightarrow> py_bind (revoke_grant sha pt) (\<lambda>x. py_ret (Outcome x))
    | TerminalizeReq b \<Rightarrow> py_bind (terminalize sha pt b) (\<lambda>x. py_ret (Outcome x)))"

text \<open>A run: the requests with their answers or errors, and the state at the end.\<close>

fun n2_run :: "(string \<Rightarrow> string) \<Rightarrow> ('w, 'h) n2_ports \<Rightarrow> n2_request list \<Rightarrow> 'w n2_state \<Rightarrow> (n2_request \<times> (py_error + n2_reply)) list \<times> 'w n2_state" where
  "n2_run sha pt [] s = ([], s)"
| "n2_run sha pt (req # reqs) s = (case n2_handle sha pt req s of (r, s') \<Rightarrow>
     (case n2_run sha pt reqs s' of (rs, s'') \<Rightarrow> ((req, r) # rs, s'')))"

end
