(* ===== verification/N2_Sample.thy ===== *)
theory N2_Sample
  imports N2_Requests
begin

text \<open>
  A store in memory that answers as the protocols of the authority lifecycle do, for examples: the three leaves, an owner that may be
  unavailable, fixed attestations, and a digest that does not depend on the text.
\<close>

record leaves =
  lf_prepared :: "string option"
  lf_grant :: "string option"
  lf_terminal :: "string option"

definition leaf_of :: "authority_leaf \<Rightarrow> leaves \<Rightarrow> string option" where
  "leaf_of leaf w = (case leaf of PREPARED_LEAF \<Rightarrow> lf_prepared w | GRANT_LEAF \<Rightarrow> lf_grant w | TERMINAL_LEAF \<Rightarrow> lf_terminal w)"

definition put_leaf :: "authority_leaf \<Rightarrow> string \<Rightarrow> leaves \<Rightarrow> leaves" where
  "put_leaf leaf t w = (case leaf of PREPARED_LEAF \<Rightarrow> w\<lparr>lf_prepared := Some t\<rparr> | GRANT_LEAF \<Rightarrow> w\<lparr>lf_grant := Some t\<rparr>
     | TERMINAL_LEAF \<Rightarrow> w\<lparr>lf_terminal := Some t\<rparr>)"

definition sample_digest :: string where
  "sample_digest = replicate 64 CHR ''a''"

definition constant_sha :: "string \<Rightarrow> string" where
  "constant_sha t = sample_digest"

definition sample_raw :: string where
  "sample_raw = replicate 32 CHR ''r''"

definition sample_approved :: approved_triple where
  "sample_approved = \<lparr>at_static_bindings_digest = sample_digest, at_binding_schema_sha256 = sample_digest, at_candidate_sha256 = sample_digest,
     at_a0_approval_digest = sample_digest, at_approval_id_digest = sample_digest, at_issued_unix_ns = 0, at_expires_unix_ns = A0_VALIDITY_NS\<rparr>"

definition sample_prepared :: prepared_attestation where
  "sample_prepared = \<lparr>pa_authority_revision = AUTHORITY_REVISION, pa_schema_version = 3, pa_static_bindings_digest = sample_digest,
     pa_binding_schema_digest = sample_digest, pa_manifest_sha256 = sample_digest, pa_camera_count = 1, pa_camera_status = ''PRESENT_OK'',
     pa_opaque_device_token = sample_digest, pa_supervisor_path_digest = sample_digest, pa_supervisor_sha256 = sample_digest,
     pa_supervisor_size_bytes = 1, pa_supervisor_identity_digest = sample_digest, pa_ffmpeg_path_digest = sample_digest,
     pa_ffmpeg_sha256 = sample_digest, pa_ffmpeg_size_bytes = 1, pa_ffmpeg_identity_digest = sample_digest, pa_ffmpeg_version_digest = sample_digest,
     pa_dependency_observation_digest = sample_digest, pa_pose_model_sha256 = sample_digest, pa_pose_model_size_bytes = 1,
     pa_face_model_sha256 = sample_digest, pa_face_model_size_bytes = 1, pa_authorization_nonce_digest = sample_digest, pa_issued_unix_ns = 0,
     pa_expires_unix_ns = PREPARED_TTL_NS\<rparr>"

definition sample_worker :: worker_attestation where
  "sample_worker = \<lparr>wk_prepared_authority_digest = sample_digest, wk_worker_sha256 = sample_digest, wk_worker_size_bytes = 1,
     wk_worker_identity_digest = sample_digest, wk_worker_argv_digest = sample_digest, wk_worker_job_policy_digest = sample_digest,
     wk_challenge_digest = sample_digest, wk_job_name_digest = sample_digest, wk_duration_seconds = 60, wk_video_only = True, wk_retry = False\<rparr>"

definition sample_inspect :: "authority_leaf \<Rightarrow> (leaves, inspection) pyop" where
  "sample_inspect leaf = py_get (\<lambda>w. case leaf_of leaf w of
      None \<Rightarrow> \<lparr>in_state = ABSENT, in_record = None, in_durability = DURABLE\<rparr>
    | Some t \<Rightarrow> (case classify_canonical_leaf_record constant_sha leaf t of
        Inr (Some st) \<Rightarrow> \<lparr>in_state = st, in_record = Some t, in_durability = DURABLE\<rparr>
      | _ \<Rightarrow> \<lparr>in_state = PRESENT_INVALID, in_record = None, in_durability = UNVERIFIED_DURABILITY\<rparr>))"

definition sample_write :: "authority_leaf \<Rightarrow> string option \<Rightarrow> string \<Rightarrow> (leaves, write_result) pyop" where
  "sample_write leaf prior t w =
     (if leaf_of leaf w = prior then (Inr \<lparr>wr_outcome = PO_OK, wr_disposition = WRITE_VALID, wr_observed = Some t\<rparr>, put_leaf leaf t w)
      else (Inr \<lparr>wr_outcome = CAS_MISMATCH, wr_disposition = ZERO_WRITE, wr_observed = None\<rparr>, w))"

definition sample_ports :: "(operation_kind \<Rightarrow> owner_status) \<Rightarrow> (leaves, nat) n2_ports" where
  "sample_ports owner = \<lparr>pt_begin = (\<lambda>op. py_ret \<lparr>br_owner = owner op, br_session = Some 0\<rparr>), pt_write_permitted = (\<lambda>h. py_ret True),
     pt_validate_before = (\<lambda>h. py_ret VALIDATED), pt_validate_after = (\<lambda>h. py_ret VALIDATED), pt_parent_durable = (\<lambda>h. py_ret DURABLE),
     pt_attest_a0 = (\<lambda>h. py_ret (Some sample_approved)), pt_attest_pending = (\<lambda>h. py_ret (Some sample_prepared)),
     pt_close_leases = (\<lambda>h. py_ret CLEAN), pt_release_mutex = (\<lambda>h. py_ret CLEAN), pt_close_mutex = (\<lambda>h. py_ret CLEAN),
     pt_inspect = (\<lambda>h. sample_inspect), pt_create = (\<lambda>h leaf t. sample_write leaf None t), pt_cas = (\<lambda>h leaf prior t. sample_write leaf (Some prior) t),
     pt_entropy = py_ret sample_raw, pt_grant_entropy = py_ret sample_raw, pt_clock_ns = py_ret 0, pt_unix_clock_ns = py_ret 0\<rparr>"

definition no_leaves :: leaves where
  "no_leaves = \<lparr>lf_prepared = None, lf_grant = None, lf_terminal = None\<rparr>"

text \<open>The answers of a process that opens the store and makes the requests.\<close>

definition sample_session :: "(operation_kind \<Rightarrow> owner_status) \<Rightarrow> leaves \<Rightarrow> n2_request list \<Rightarrow> (n2_request \<times> (py_error + n2_reply)) list \<times> leaves" where
  "sample_session owner w reqs = (case open_lifecycle constant_sha (sample_ports owner) w of
      (Inl e, w') \<Rightarrow> ([], w')
    | (Inr l, w') \<Rightarrow> (case n2_run constant_sha (sample_ports owner) reqs (l, w') of (hist, (l', w'')) \<Rightarrow> (hist, w'')))"

end
