(* ===== verification/N2_Written.thy ===== *)
theory N2_Written
  imports N2_Sample
begin

text \<open>
  The records the lifecycle writes are records it reads: each text made by \<open>_record\<close> for a leaf passes \<open>_validated_record\<close> and is
  classified as the state the writer set.
\<close>

section \<open>The check of a written record\<close>

lemma flat_get_field: "\<forall>(k, v) \<in> set d. flat v \<Longrightarrow> flat (get_field d k)"
  by (auto simp: get_field_def dest: map_of_SomeD split: option.split)

lemma record_fields_cong:
  assumes "get_field d = get_field e"
  shows "record_fields_ok sha dmn d = record_fields_ok sha dmn e"
  unfolding record_fields_ok_def terminal_record_ok_def terminal_fields_valid_def approved_fields_valid_def worker_fields_valid_def
    grant_times_ok_def prepared_fields_valid_def assms ..

text \<open>The entries of a record, the last value of a key first.\<close>

definition record_entries :: "string \<Rightarrow> cdict \<Rightarrow> cdict" where
  "record_entries dmn vals = rev ([(''domain'', CStr dmn), (''schema_version'', CInt 3)] @ vals)"

definition writable :: "(string \<Rightarrow> string) \<Rightarrow> string \<Rightarrow> cdict \<Rightarrow> bool" where
  "writable sha dmn vals \<longleftrightarrow>
     (let d = record_entries dmn vals
      in list_all (\<lambda>(k, v). flat v) vals \<and> map_option set (RECORD_KEYS dmn) = Some (set (map fst d)) \<and> get_field d ''domain'' = CStr dmn \<and>
        get_field d ''schema_version'' = CInt 3 \<and> Some (get_field d ''state'') = map_option CStr (RECORD_STATES dmn) \<and> digests_ok vals \<and>
        record_fields_ok sha dmn d = Inr True)"

lemma validated_written:
  assumes w: "writable sha dmn vals" and expected: "expected = None \<or> expected = Some dmn"
  shows "\<exists>d. validated_record sha (Some (record_bytes dmn vals)) expected = Inr (Some d) \<and> get_field d = get_field (record_entries dmn vals)"
proof -
  obtain ks where flat: "list_all (\<lambda>(k, v). flat v) vals" and keys: "RECORD_KEYS dmn = Some ks" "set (map fst (record_entries dmn vals)) = set ks"
    and fields: "get_field (record_entries dmn vals) ''domain'' = CStr dmn" "get_field (record_entries dmn vals) ''schema_version'' = CInt 3"
      "Some (get_field (record_entries dmn vals) ''state'') = map_option CStr (RECORD_STATES dmn)"
    and digests: "digests_ok vals" and ok: "record_fields_ok sha dmn (record_entries dmn vals) = Inr True"
    using w by (auto simp: writable_def Let_def)
  let ?kvs = "[(''domain'', CStr dmn), (''schema_version'', CInt 3)] @ vals"
  let ?d = "sort_key fst (dict_of ?kvs)"
  have dist: "distinct (map fst (dict_of ?kvs))" by (rule distinct_dict_of)
  have get: "map_of (dict_of ?kvs) = map_of (record_entries dmn vals)" by (simp only: map_of_dict_of record_entries_def)
  have entry: "(k, v) \<in> set ?kvs" if "(k, v) \<in> set (dict_of ?kvs)" for k v
  proof -
    have "map_of (rev ?kvs) k = Some v" using map_of_is_SomeI [OF dist that] by (simp only: map_of_dict_of)
    from map_of_SomeD [OF this] show ?thesis by (simp only: set_rev)
  qed
  have "\<forall>(k, v) \<in> set (dict_of ?kvs). flat v"
  proof clarify
    fix k v assume "(k, v) \<in> set (dict_of ?kvs)"
    from entry [OF this] flat show "flat v" by (auto simp: list_all_iff)
  qed
  note dec = decode_flat [OF dist this]
  have gf: "get_field ?d = get_field (record_entries dmn vals)" by (rule ext) (simp only: get_field_def dec(2) get)
  have "set (map fst ?d) = dom (map_of ?d)" by (simp only: dom_map_of_conv_image_fst set_map)
  also have "\<dots> = set ks" by (simp only: dec(2) get dom_map_of_conv_image_fst keys(2) [symmetric] set_map)
  finally have ks: "set (map fst ?d) = set ks" .
  have dg: "digests_ok ?d"
    unfolding digests_ok_def list_all_iff
  proof clarsimp
    fix k v assume "(k, v) \<in> set (dict_of ((''domain'', CStr dmn) # (''schema_version'', CInt 3) # vals))"
      and "ends_with ''_digest'' k" "k \<noteq> ''grant_record_digest''"
    moreover from this entry [of k v] have "(k, v) \<in> set ?kvs" by simp
    moreover have "\<not> ends_with ''_digest'' ''domain''" "\<not> ends_with ''_digest'' ''schema_version''" by (simp_all add: ends_with_def)
    ultimately have "(k, v) \<in> set vals" by auto
    with digests \<open>ends_with ''_digest'' k\<close> \<open>k \<noteq> ''grant_record_digest''\<close> show "json_digest v" by (auto simp: digests_ok_def list_all_iff)
  qed
  have "validated_record sha (Some (record_bytes dmn vals)) expected = Inr (Some ?d)"
    using dec(1) fields keys(1) ks dg expected ok record_fields_cong [OF gf, of sha dmn] gf
    by (auto simp: validated_record_def decode_record_def record_bytes_def keys_are_def)
  with gf show ?thesis by blast
qed

section \<open>The records\<close>

lemma classify_written:
  assumes "validated_record sha (Some t) None = Inr (Some d)" and "get_field d ''domain'' = CStr dmn" and "leaf_state leaf dmn = Some st"
  shows "classify_canonical_leaf_record sha leaf t = Inr (Some st)"
  using assms by (simp add: classify_canonical_leaf_record_def py_str_def)

lemmas written_simps = writable_def record_entries_def RECORD_KEYS_def RECORD_STATES_def get_field_def digests_ok_def ends_with_def json_digest_def
  record_fields_ok_def epoch_digest_def insert_commute

lemma writable_pending:
  assumes "approved_valid a" and "\<And>t. is_digest (sha t)"
  shows "writable sha ''D1N2/PENDING/v1'' (pending_fields a @ [(''epoch_digest'', CStr (epoch_digest sha l)), (''state'', CStr ''PENDING'')])"
  using assms by (simp add: written_simps pending_fields_def approved_fields_valid_def py_str_def approved_valid_def)

lemma writable_prepared:
  assumes "prepared_valid p" and "\<And>t. is_digest (sha t)"
  shows "writable sha ''D1N2/PREPARED/v1''
    (prepared_fields p @ [(''epoch_digest'', CStr (epoch_digest sha l)), (''pending_digest'', CStr (sha pending)), (''state'', CStr ''PREPARED'')])"
  using assms by (simp add: written_simps prepared_fields_def prepared_keys_def prepared_valid_def prepared_fields_valid_def size_ok_def)

lemma writable_grant:
  assumes "worker_valid b" and "\<And>t. is_digest (sha t)" and "0 \<le> issued" "issued \<le> MAX_SIGNED_NS - WORKER_GRANT_TTL_NS"
  shows "writable sha ''D1N2/GRANT_ISSUED/v1''
    (worker_fields b @ [(''consumed_digest'', CStr (sha consumed)), (''epoch_digest'', CStr (epoch_digest sha l)),
       (''expires_monotonic_ns'', CInt (issued + WORKER_GRANT_TTL_NS)), (''grant_digest'', CStr (sha raw)), (''grant_size'', CInt 32),
       (''issued_monotonic_ns'', CInt issued), (''state'', CStr ''ISSUED'')])"
  using assms by (simp add: written_simps worker_fields_def worker_keys_def worker_valid_def worker_fields_valid_def size_ok_def grant_times_ok_def equals_int_def)

lemma json_digest_flat: "json_digest v \<Longrightarrow> flat v"
  by (cases v) (simp_all add: json_digest_def)

lemma writable_consumed:
  assumes "list_all (\<lambda>k. json_digest (get_field d k)) [''dependency_observation_digest'', ''face_model_sha256'', ''pose_model_sha256'', ''static_bindings_digest'']"
    and "\<And>t. is_digest (sha t)"
  shows "writable sha ''D1N2/CONSUMED/v1''
     [(''dependency_observation_digest'', get_field d ''dependency_observation_digest''), (''epoch_digest'', CStr (epoch_digest sha l)),
      (''face_model_sha256'', get_field d ''face_model_sha256''), (''pose_model_sha256'', get_field d ''pose_model_sha256''),
      (''prepared_digest'', CStr (sha prepared)), (''state'', CStr ''CONSUMED''), (''static_bindings_digest'', get_field d ''static_bindings_digest'')]"
proof -
  obtain a b c e where v: "get_field d ''dependency_observation_digest'' = a" "get_field d ''face_model_sha256'' = b" "get_field d ''pose_model_sha256'' = c"
    "get_field d ''static_bindings_digest'' = e" by blast
  have "json_digest a" "json_digest b" "json_digest c" "json_digest e" using assms(1) by (simp_all add: v)
  then obtain ta tb tc te where "a = CStr ta \<and> is_digest ta" "b = CStr tb \<and> is_digest tb" "c = CStr tc \<and> is_digest tc" "e = CStr te \<and> is_digest te"
    by (auto simp: json_digest_def split: cjson.splits)
  then show ?thesis using assms(2) unfolding v by (simp add: written_simps)
qed

lemma writable_revoked:
  assumes "json_digest (get_field d ''challenge_digest'')" "json_digest (get_field d ''job_name_digest'')" and "\<And>t. is_digest (sha t)"
    and "is_digest (gi_digest g)" "0 \<le> gi_issued_monotonic_ns g" "gi_issued_monotonic_ns g \<le> MAX_SIGNED_NS - WORKER_GRANT_TTL_NS"
    and "gi_expires_monotonic_ns g = gi_issued_monotonic_ns g + WORKER_GRANT_TTL_NS"
  shows "writable sha ''D1N2/GRANT_REVOKED/v1''
     [(''challenge_digest'', get_field d ''challenge_digest''), (''consumed_digest'', CStr (sha consumed)), (''epoch_digest'', CStr (epoch_digest sha l)),
      (''expires_monotonic_ns'', CInt (gi_expires_monotonic_ns g)), (''grant_digest'', CStr (gi_digest g)),
      (''issued_monotonic_ns'', CInt (gi_issued_monotonic_ns g)), (''issued_record_digest'', CStr (sha issued_bytes)),
      (''job_name_digest'', get_field d ''job_name_digest''), (''state'', CStr ''REVOKED'')]"
proof -
  obtain a b where v: "get_field d ''challenge_digest'' = a" "get_field d ''job_name_digest'' = b" by blast
  obtain ta tb where "a = CStr ta \<and> is_digest ta" "b = CStr tb \<and> is_digest tb"
    using assms(1,2) by (auto simp: v json_digest_def split: cjson.splits)
  then show ?thesis using assms(3-) unfolding v by (simp add: written_simps grant_times_ok_def)
qed

text \<open>The evidence of a terminal record carries its own digests and a clean cleanup.\<close>

lemma verified_evidence:
  assumes "verify_terminal_evidence sha e"
  shows "ev_receipt_digest e = sha (ev_receipt_json e) \<and> ev_ledger_digest e = sha (ev_ledger_json e) \<and>
    ev_retained_cleanup e = \<lparr>rc_a0_clean = True, rc_rp2_clean = True, rc_preparation_clean = True\<rparr>"
  using assms
  by (cases e; cases "ev_retained_cleanup e")
    (auto simp: verify_terminal_evidence_def build_verified_terminal_evidence_def cleanup_valid_def split: option.splits if_splits)

lemma writable_terminal:
  assumes t: "terminal_valid sha b" and "\<And>t. is_digest (sha t)" and "(grant = None) = (disposition = NOT_ISSUED)"
  shows "writable sha ''D1N2/TERMINAL/v1''
    (terminal_fields b @ [(''consumed_digest'', CStr (sha consumed)), (''durability_policy'', CStr ''REVERIFY_PARENT_ON_INSPECTION''),
       (''grant_disposition'', CStr (disposition_name disposition)), (''grant_record_digest'', opt_cstr (map_option sha grant)), (''state'', CStr ''TERMINAL'')])"
proof -
  note ev = verified_evidence [of sha "tb_evidence b"]
  have e: "tb_evidence b = \<lparr>ev_receipt_json = ev_receipt_json (tb_evidence b), ev_receipt_digest = sha (ev_receipt_json (tb_evidence b)),
     ev_ledger_json = ev_ledger_json (tb_evidence b), ev_ledger_digest = sha (ev_ledger_json (tb_evidence b)),
     ev_retained_cleanup = \<lparr>rc_a0_clean = True, rc_rp2_clean = True, rc_preparation_clean = True\<rparr>\<rparr>"
    using t ev by (simp add: terminal_valid_def)
  then have v: "verify_terminal_evidence sha \<lparr>ev_receipt_json = ev_receipt_json (tb_evidence b), ev_receipt_digest = sha (ev_receipt_json (tb_evidence b)),
     ev_ledger_json = ev_ledger_json (tb_evidence b), ev_ledger_digest = sha (ev_ledger_json (tb_evidence b)),
     ev_retained_cleanup = \<lparr>rc_a0_clean = True, rc_rp2_clean = True, rc_preparation_clean = True\<rparr>\<rparr>"
    using t by (metis terminal_valid_def)
  have n: "tb_native_side_effect_count b \<in> {0, 1}" using t by (simp add: terminal_valid_def)
  have d: "disposition = NOT_ISSUED \<and> grant = None \<or> disposition = GRANT_REVOKED \<and> (\<exists>g. grant = Some g)"
    using assms(3) by (cases disposition; cases grant) simp_all
  then show ?thesis
    using n ev t v assms(2)
    by (auto simp: written_simps terminal_fields_def terminal_keys_def terminal_record_ok_def terminal_fields_valid_def terminal_valid_def opt_cstr_def disposition_name_def)
qed

section \<open>Every record is read back\<close>

lemma classified:
  assumes "writable sha dmn vals" and "leaf_state leaf dmn = Some st"
  shows "classify_canonical_leaf_record sha leaf (record_bytes dmn vals) = Inr (Some st)"
proof -
  obtain d where "validated_record sha (Some (record_bytes dmn vals)) None = Inr (Some d)" and "get_field d = get_field (record_entries dmn vals)"
    using validated_written [OF assms(1), of None] by blast
  moreover have "get_field (record_entries dmn vals) ''domain'' = CStr dmn" using assms(1) by (simp add: writable_def Let_def)
  ultimately show ?thesis using classify_written assms(2) by metis
qed

lemma prepared_then_consumed:
  assumes p: "prepared_valid p" and sha: "\<And>t. is_digest (sha t)"
  shows "\<exists>d. validated_record sha (Some (prepared_record sha l p pending)) (Some ''D1N2/PREPARED/v1'') = Inr (Some d) \<and>
    get_field d ''epoch_digest'' = CStr (epoch_digest sha l) \<and> get_field d ''issued_unix_ns'' = CInt (pa_issued_unix_ns p) \<and>
    get_field d ''expires_unix_ns'' = CInt (pa_expires_unix_ns p) \<and>
    classify_canonical_leaf_record sha PREPARED_LEAF (consumed_record sha l d prepared) = Inr (Some CONSUMED_NO_GRANT)"
proof -
  let ?vals = "prepared_fields p @ [(''epoch_digest'', CStr (epoch_digest sha l)), (''pending_digest'', CStr (sha pending)), (''state'', CStr ''PREPARED'')]"
  obtain d where d: "validated_record sha (Some (prepared_record sha l p pending)) (Some ''D1N2/PREPARED/v1'') = Inr (Some d)"
    and get: "get_field d = get_field (record_entries ''D1N2/PREPARED/v1'' ?vals)"
    using validated_written [OF writable_prepared [where sha = sha and l = l and pending = pending, OF p sha], of "Some ''D1N2/PREPARED/v1''"] unfolding prepared_record_def by blast
  have "list_all (\<lambda>k. json_digest (get_field d k)) [''dependency_observation_digest'', ''face_model_sha256'', ''pose_model_sha256'', ''static_bindings_digest'']"
    using p unfolding get by (simp add: prepared_valid_def prepared_fields_valid_def record_entries_def prepared_fields_def get_field_def)
  from classified [OF writable_consumed [where sha = sha and l = l and prepared = prepared, OF this sha], of PREPARED_LEAF CONSUMED_NO_GRANT]
  have "classify_canonical_leaf_record sha PREPARED_LEAF (consumed_record sha l d prepared) = Inr (Some CONSUMED_NO_GRANT)"
    by (simp add: consumed_record_def leaf_state_def)
  moreover have "get_field d ''epoch_digest'' = CStr (epoch_digest sha l)" "get_field d ''issued_unix_ns'' = CInt (pa_issued_unix_ns p)"
    "get_field d ''expires_unix_ns'' = CInt (pa_expires_unix_ns p)"
    unfolding get by (simp_all add: record_entries_def get_field_def prepared_fields_def)
  ultimately show ?thesis using d by blast
qed

lemma issued_then_revoked:
  assumes b: "worker_valid b" and sha: "\<And>t. is_digest (sha t)" and t: "0 \<le> issued" "issued \<le> MAX_SIGNED_NS - WORKER_GRANT_TTL_NS"
  shows "\<exists>d. validated_record sha (Some (grant_record_of sha l b consumed raw issued)) (Some ''D1N2/GRANT_ISSUED/v1'') = Inr (Some d) \<and>
    classify_canonical_leaf_record sha GRANT_LEAF (revoked_record_of sha l' d consumed issued_bytes
      \<lparr>gi_digest = sha raw, gi_issued_monotonic_ns = issued, gi_expires_monotonic_ns = issued + WORKER_GRANT_TTL_NS, gi_used = u\<rparr>)
      = Inr (Some REVOKED_TERMINAL_PENDING)"
proof -
  let ?vals = "worker_fields b @ [(''consumed_digest'', CStr (sha consumed)), (''epoch_digest'', CStr (epoch_digest sha l)),
       (''expires_monotonic_ns'', CInt (issued + WORKER_GRANT_TTL_NS)), (''grant_digest'', CStr (sha raw)), (''grant_size'', CInt 32),
       (''issued_monotonic_ns'', CInt issued), (''state'', CStr ''ISSUED'')]"
  let ?g = "\<lparr>gi_digest = sha raw, gi_issued_monotonic_ns = issued, gi_expires_monotonic_ns = issued + WORKER_GRANT_TTL_NS, gi_used = u\<rparr>"
  obtain d where d: "validated_record sha (Some (grant_record_of sha l b consumed raw issued)) (Some ''D1N2/GRANT_ISSUED/v1'') = Inr (Some d)"
    and get: "get_field d = get_field (record_entries ''D1N2/GRANT_ISSUED/v1'' ?vals)"
    using validated_written [OF writable_grant [where sha = sha and l = l and consumed = consumed and raw = raw, OF b sha t], of "Some ''D1N2/GRANT_ISSUED/v1''"] unfolding grant_record_of_def by blast
  have "json_digest (get_field d ''challenge_digest'')" "json_digest (get_field d ''job_name_digest'')"
    using b unfolding get by (simp_all add: worker_valid_def worker_fields_valid_def record_entries_def worker_fields_def get_field_def)
  from classified [OF writable_revoked [where sha = sha and g = ?g and l = l' and consumed = consumed and issued_bytes = issued_bytes, OF this sha], of GRANT_LEAF REVOKED_TERMINAL_PENDING] sha t
  have "classify_canonical_leaf_record sha GRANT_LEAF (revoked_record_of sha l' d consumed issued_bytes ?g) = Inr (Some REVOKED_TERMINAL_PENDING)"
    by (simp add: revoked_record_of_def leaf_state_def)
  with d show ?thesis by blast
qed

lemma terminal_read:
  assumes t: "terminal_valid sha tb" and sha: "\<And>t. is_digest (sha t)" and g: "(grant = None) = (disposition = NOT_ISSUED)"
  shows "classify_canonical_leaf_record sha TERMINAL_LEAF (terminal_record_of sha tb consumed disposition (map_option sha grant)) = Inr (Some AUTH_TERMINAL) \<and>
    (\<exists>d. validated_record sha (Some (terminal_record_of sha tb consumed disposition (map_option sha grant))) (Some ''D1N2/TERMINAL/v1'') = Inr (Some d) \<and>
      get_field d ''grant_disposition'' = CStr (disposition_name disposition) \<and> get_field d ''consumed_digest'' = CStr (sha consumed) \<and>
      get_field d ''grant_record_digest'' = opt_cstr (map_option sha grant))"
proof -
  note w = writable_terminal [where sha = sha and grant = grant and disposition = disposition and consumed = consumed, OF t sha g]
  show ?thesis
    using classified [OF w, of TERMINAL_LEAF AUTH_TERMINAL] validated_written [OF w, of "Some ''D1N2/TERMINAL/v1''"]
    unfolding terminal_record_of_def by (fastforce simp: leaf_state_def record_entries_def get_field_def)
qed

text \<open>
  Claim C36. Each record the lifecycle writes is a record it accepts and classifies as the state it then has: the pending and the prepared record of
  valid attestations, the consumed record made from what the prepared record is read as, the issued grant and the revocation made from what the
  grant is read as, and the terminal record of verified evidence, without a grant and after the revocation of one. The terminal record is read back
  with what became of the grant and with the digests of the consumed record and of the record of the grant.
\<close>
theorem written_records_read_back:
  assumes sha: "\<And>t. is_digest (sha t)" and a: "approved_valid a" and p: "prepared_valid p" and b: "worker_valid b"
    and t: "0 \<le> issued" "issued \<le> MAX_SIGNED_NS - WORKER_GRANT_TTL_NS"
  shows "classify_canonical_leaf_record sha PREPARED_LEAF (pending_record sha l a) = Inr (Some AUTH_PENDING) \<and>
    classify_canonical_leaf_record sha PREPARED_LEAF (prepared_record sha l p pending) = Inr (Some PREPARED) \<and>
    (\<exists>d. validated_record sha (Some (prepared_record sha l p pending)) (Some ''D1N2/PREPARED/v1'') = Inr (Some d) \<and>
      get_field d ''epoch_digest'' = CStr (epoch_digest sha l) \<and> get_field d ''issued_unix_ns'' = CInt (pa_issued_unix_ns p) \<and>
      get_field d ''expires_unix_ns'' = CInt (pa_expires_unix_ns p) \<and>
      classify_canonical_leaf_record sha PREPARED_LEAF (consumed_record sha l d prepared) = Inr (Some CONSUMED_NO_GRANT)) \<and>
    classify_canonical_leaf_record sha GRANT_LEAF (grant_record_of sha l b consumed raw issued) = Inr (Some GRANT_ISSUED) \<and>
    (\<exists>d. validated_record sha (Some (grant_record_of sha l b consumed raw issued)) (Some ''D1N2/GRANT_ISSUED/v1'') = Inr (Some d) \<and>
      classify_canonical_leaf_record sha GRANT_LEAF (revoked_record_of sha l d consumed issued_bytes
        \<lparr>gi_digest = sha raw, gi_issued_monotonic_ns = issued, gi_expires_monotonic_ns = issued + WORKER_GRANT_TTL_NS, gi_used = u\<rparr>)
        = Inr (Some REVOKED_TERMINAL_PENDING)) \<and>
    (terminal_valid sha tb \<longrightarrow>
      classify_canonical_leaf_record sha TERMINAL_LEAF (terminal_record_of sha tb consumed NOT_ISSUED None) = Inr (Some AUTH_TERMINAL) \<and>
      (\<exists>d. validated_record sha (Some (terminal_record_of sha tb consumed NOT_ISSUED None)) (Some ''D1N2/TERMINAL/v1'') = Inr (Some d) \<and>
        get_field d ''grant_disposition'' = CStr ''NOT_ISSUED'' \<and> get_field d ''consumed_digest'' = CStr (sha consumed) \<and>
        get_field d ''grant_record_digest'' = CNull) \<and>
      classify_canonical_leaf_record sha TERMINAL_LEAF (terminal_record_of sha tb consumed GRANT_REVOKED (Some (sha issued_bytes))) =
        Inr (Some AUTH_TERMINAL) \<and>
      (\<exists>d. validated_record sha (Some (terminal_record_of sha tb consumed GRANT_REVOKED (Some (sha issued_bytes)))) (Some ''D1N2/TERMINAL/v1'') = Inr (Some d) \<and>
        get_field d ''grant_disposition'' = CStr ''REVOKED'' \<and> get_field d ''consumed_digest'' = CStr (sha consumed) \<and>
        get_field d ''grant_record_digest'' = CStr (sha issued_bytes)))"
proof -
  have "classify_canonical_leaf_record sha PREPARED_LEAF (pending_record sha l a) = Inr (Some AUTH_PENDING)"
    unfolding pending_record_def by (rule classified [OF writable_pending [where sha = sha, OF a sha]]) (simp add: leaf_state_def)
  moreover have "classify_canonical_leaf_record sha PREPARED_LEAF (prepared_record sha l p pending) = Inr (Some PREPARED)"
    unfolding prepared_record_def by (rule classified [OF writable_prepared [where sha = sha, OF p sha]]) (simp add: leaf_state_def)
  moreover have "classify_canonical_leaf_record sha GRANT_LEAF (grant_record_of sha l b consumed raw issued) = Inr (Some GRANT_ISSUED)"
    unfolding grant_record_of_def by (rule classified [OF writable_grant [where sha = sha, OF b sha t]]) (simp add: leaf_state_def)
  moreover note prepared_then_consumed [where sha = sha and l = l and pending = pending and prepared = prepared, OF p sha]
    issued_then_revoked [where sha = sha and l = l and l' = l and consumed = consumed and raw = raw and issued_bytes = issued_bytes and u = u, OF b sha t]
  moreover note terminal_read [where sha = sha and tb = tb and consumed = consumed and grant = None and disposition = NOT_ISSUED, OF _ sha, simplified]
    terminal_read [where sha = sha and tb = tb and consumed = consumed and grant = "Some issued_bytes" and disposition = GRANT_REVOKED, OF _ sha, simplified]
  ultimately show ?thesis by (simp add: opt_cstr_def disposition_name_def)
qed

theorem written_records_read_back_witness:
  "classify_canonical_leaf_record constant_sha PREPARED_LEAF (prepared_record constant_sha (new_lifecycle sample_raw) sample_prepared ''x'') = Inr (Some PREPARED) \<and>
   classify_canonical_leaf_record constant_sha GRANT_LEAF (grant_record_of constant_sha (new_lifecycle sample_raw) sample_worker ''x'' sample_raw 0) = Inr (Some GRANT_ISSUED)"
proof -
  have "is_digest (constant_sha t)" for t unfolding constant_sha_def by code_simp
  moreover have "approved_valid sample_approved" "prepared_valid sample_prepared" "worker_valid sample_worker" by code_simp+
  moreover have "(0 :: int) \<le> MAX_SIGNED_NS - WORKER_GRANT_TTL_NS" by code_simp
  ultimately show ?thesis
    using written_records_read_back [of constant_sha sample_approved sample_prepared sample_worker 0] by blast
qed

end
