(* ===== verification/N2_Example.thy ===== *)
theory N2_Example
  imports N2_Written
begin

text \<open>
  A process of the authority lifecycle on the store in memory, executed: it prepares, consumes, issues and takes the capability.
\<close>

lemmas session_run = n2_handle_def mutation_under_def begin_mutation_def under_session_def finish_def collect_cleanup_def cleanup_step_def
  cleanup_is_clean_def py_except_def py_except_exception_def py_run port_def put_lc_def get_lc_def set_state_def post_write_def write_status_def

lemmas store_run = sample_ports_def sample_inspect_def sample_write_def leaf_of_def put_leaf_def no_leaves_def

abbreviation sample_pt :: "(leaves, nat) n2_ports" where
  "sample_pt \<equiv> sample_ports (\<lambda>_. ACQUIRED)"

text \<open>The answers a process has given, in the order of its chain.\<close>

abbreviation ok :: "n2_request \<Rightarrow> n2_request \<times> (py_error + n2_reply)" where
  "ok req \<equiv> (req, Inr (Outcome PO_OK))"

definition fresh :: lifecycle where
  "fresh = (new_lifecycle sample_raw)\<lparr>lc_state := ABSENT\<rparr>"

lemma sample_opened: "open_lifecycle constant_sha sample_pt no_leaves = (Inr fresh, no_leaves)"
  by code_simp

lemma sample_valid: "approved_valid sample_approved" "prepared_valid sample_prepared" "worker_valid sample_worker"
    "attestation_matches sample_approved (Some sample_prepared)"
  by code_simp+

lemma constant_sha_digest: "is_digest (constant_sha t)"
  unfolding constant_sha_def by code_simp

definition text_pending :: string where
  "text_pending = pending_record constant_sha fresh sample_approved"

definition text_prepared :: string where
  "text_prepared = prepared_record constant_sha fresh sample_prepared text_pending"

definition prepared_object :: lifecycle where
  "prepared_object = fresh\<lparr>lc_approved_rp2 := Some sample_approved, lc_pending := Some text_pending, lc_prepared := Some text_prepared,
     lc_state := PREPARED, lc_live_prepared := True\<rparr>"

lemma fresh_simps:
  "lc_state fresh = ABSENT" "pending_record constant_sha (fresh\<lparr>lc_approved_rp2 := x\<rparr>) = pending_record constant_sha fresh"
  "prepared_record constant_sha (fresh\<lparr>lc_approved_rp2 := x, lc_pending := y, lc_state := z\<rparr>) = prepared_record constant_sha fresh"
  by (simp_all add: fresh_def pending_record_def prepared_record_def epoch_digest_def fun_eq_iff)

lemma sample_prepare:
  "n2_handle constant_sha sample_pt PrepareReq (fresh, no_leaves) = (Inr (Outcome PO_OK), prepared_object, no_leaves\<lparr>lf_prepared := Some text_prepared\<rparr>)"
  by (simp add: session_run store_run prepare_def prepare_body_def write_pending_def write_prepared_def replace_pending_def sample_valid fresh_simps
      prepared_object_def text_pending_def text_prepared_def)

text \<open>Consuming: the prepared text is read back, and its window contains the time of the clock.\<close>

lemma sample_reads:
  obtains d where "validated_record constant_sha (Some text_prepared) (Some ''D1N2/PREPARED/v1'') = Inr (Some d)"
    and "get_field d ''epoch_digest'' = CStr (epoch_digest constant_sha fresh)" and "within_window (Some d) 0"
    and "classify_canonical_leaf_record constant_sha PREPARED_LEAF text_prepared = Inr (Some PREPARED)"
    and "classify_canonical_leaf_record constant_sha PREPARED_LEAF (consumed_record constant_sha prepared_object d text_prepared) = Inr (Some CONSUMED_NO_GRANT)"
proof -
  obtain d where "validated_record constant_sha (Some text_prepared) (Some ''D1N2/PREPARED/v1'') = Inr (Some d)"
    and "get_field d ''epoch_digest'' = CStr (epoch_digest constant_sha fresh)"
    and c: "classify_canonical_leaf_record constant_sha PREPARED_LEAF (consumed_record constant_sha fresh d text_prepared) = Inr (Some CONSUMED_NO_GRANT)"
    and w: "get_field d ''issued_unix_ns'' = CInt 0" "get_field d ''expires_unix_ns'' = CInt PREPARED_TTL_NS"
    using prepared_then_consumed [where sha = constant_sha and l = fresh and pending = text_pending and prepared = text_prepared,
      OF sample_valid(2) constant_sha_digest]
    unfolding text_prepared_def [symmetric] by (auto simp: sample_prepared_def)
  moreover have "within_window (Some d) 0" using w by (simp add: within_window_def PREPARED_TTL_NS_def)
  moreover have "classify_canonical_leaf_record constant_sha PREPARED_LEAF text_prepared = Inr (Some PREPARED)"
    unfolding text_prepared_def prepared_record_def
    by (rule classified [OF writable_prepared [where sha = constant_sha, OF sample_valid(2) constant_sha_digest]]) (simp add: leaf_state_def)
  moreover have "consumed_record constant_sha prepared_object = consumed_record constant_sha fresh"
    by (simp add: fun_eq_iff consumed_record_def epoch_digest_def prepared_object_def)
  ultimately show thesis using that c by simp
qed

text \<open>The rest of the chain: the process hands out the capability.\<close>

lemma object_simps:
  "lc_state prepared_object = PREPARED" "lc_prepared prepared_object = Some text_prepared" "lc_live_prepared prepared_object"
  "epoch_digest constant_sha prepared_object = epoch_digest constant_sha fresh"
  by (simp_all add: prepared_object_def epoch_digest_def)

lemma sample_chain:
  "\<exists>s. n2_run constant_sha sample_pt [PrepareReq, ConsumeReq, IssueReq sample_worker, TakeReq] (fresh, no_leaves) =
    ([ok PrepareReq, ok ConsumeReq, ok (IssueReq sample_worker), (TakeReq, Inr (Capability (Some sample_raw)))], s)"
proof -
  obtain d where d: "validated_record constant_sha (Some text_prepared) (Some ''D1N2/PREPARED/v1'') = Inr (Some d)"
    "get_field d ''epoch_digest'' = CStr (epoch_digest constant_sha fresh)" "within_window (Some d) 0"
    "classify_canonical_leaf_record constant_sha PREPARED_LEAF text_prepared = Inr (Some PREPARED)"
    and c: "classify_canonical_leaf_record constant_sha PREPARED_LEAF (consumed_record constant_sha prepared_object d text_prepared) = Inr (Some CONSUMED_NO_GRANT)"
    by (rule sample_reads)
  define ctext where "ctext = consumed_record constant_sha prepared_object d text_prepared"
  let ?o = "prepared_object\<lparr>lc_consumed := Some ctext, lc_state := CONSUMED_NO_GRANT, lc_live_consumed := True\<rparr>"
  have consumed: "n2_handle constant_sha sample_pt ConsumeReq (prepared_object, no_leaves\<lparr>lf_prepared := Some text_prepared\<rparr>) =
    (Inr (Outcome PO_OK), ?o, no_leaves\<lparr>lf_prepared := Some ctext\<rparr>)"
    by (simp add: session_run store_run consume_def consume_body_def object_simps d ctext_def)
  have issued: "\<exists>g r w. n2_handle constant_sha sample_pt (IssueReq sample_worker) (?o, no_leaves\<lparr>lf_prepared := Some ctext\<rparr>) =
    (Inr (Outcome PO_OK), ?o\<lparr>lc_grant_record := r, lc_state := GRANT_ISSUED, lc_grant := g, lc_grant_raw := Some sample_raw\<rparr>, w)"
    using c sample_valid(3)
    by (simp add: session_run store_run issue_grant_def issue_body_def write_grant_def object_simps ctext_def [symmetric] sample_worker_def
        constant_sha_def sample_raw_def MAX_SIGNED_NS_def WORKER_GRANT_TTL_NS_def) (intro exI, rule refl)
  then obtain g r w where issued': "n2_handle constant_sha sample_pt (IssueReq sample_worker) (?o, no_leaves\<lparr>lf_prepared := Some ctext\<rparr>) =
    (Inr (Outcome PO_OK), ?o\<lparr>lc_grant_record := r, lc_state := GRANT_ISSUED, lc_grant := g, lc_grant_raw := Some sample_raw\<rparr>, w)" by blast
  have "\<exists>s. n2_handle constant_sha sample_pt TakeReq
      (?o\<lparr>lc_grant_record := r, lc_state := GRANT_ISSUED, lc_grant := g, lc_grant_raw := Some sample_raw\<rparr>, w) =
    (Inr (Capability (Some sample_raw)), s)"
    by (simp add: session_run take_grant_capability_def prepared_object_def fresh_def new_lifecycle_def)
  with sample_prepare consumed issued' show ?thesis by auto
qed

section \<open>Another process opens the store\<close>

definition text_consumed :: string where
  "text_consumed = consumed_record constant_sha fresh
     (map (\<lambda>k. (k, CStr sample_digest)) [''dependency_observation_digest'', ''face_model_sha256'', ''pose_model_sha256'', ''static_bindings_digest'']) text_prepared"

definition text_grant :: string where
  "text_grant = grant_record_of constant_sha fresh sample_worker text_consumed sample_raw 0"

definition store_granted :: leaves where
  "store_granted = \<lparr>lf_prepared = Some text_consumed, lf_grant = Some text_grant, lf_terminal = None\<rparr>"

definition sample_grant :: grant_inspection where
  "sample_grant = \<lparr>gi_digest = sample_digest, gi_issued_monotonic_ns = 0, gi_expires_monotonic_ns = WORKER_GRANT_TTL_NS, gi_used = False\<rparr>"

lemma reads_consumed:
  "\<exists>d. validated_record constant_sha (Some text_consumed) None = Inr (Some d) \<and> domain_of (Some d) = Some ''D1N2/CONSUMED/v1'' \<and>
     get_field d ''epoch_digest'' = CStr sample_digest"
  "classify_canonical_leaf_record constant_sha PREPARED_LEAF text_consumed = Inr (Some CONSUMED_NO_GRANT)"
proof -
  let ?d = "map (\<lambda>k. (k, CStr sample_digest)) [''dependency_observation_digest'', ''face_model_sha256'', ''pose_model_sha256'', ''static_bindings_digest'']"
  have "is_digest sample_digest" by code_simp
  then have "list_all (\<lambda>k. json_digest (get_field ?d k)) [''dependency_observation_digest'', ''face_model_sha256'', ''pose_model_sha256'', ''static_bindings_digest'']"
    by (simp add: get_field_def json_digest_def)
  note w = writable_consumed [where sha = constant_sha and l = fresh and prepared = text_prepared, OF this constant_sha_digest]
  show "classify_canonical_leaf_record constant_sha PREPARED_LEAF text_consumed = Inr (Some CONSUMED_NO_GRANT)"
    unfolding text_consumed_def consumed_record_def by (rule classified [OF w]) (simp add: leaf_state_def)
  from validated_written [OF w, of None]
  obtain d where "validated_record constant_sha (Some text_consumed) None = Inr (Some d)"
    and get: "get_field d = get_field (record_entries ''D1N2/CONSUMED/v1''
     [(''dependency_observation_digest'', get_field ?d ''dependency_observation_digest''), (''epoch_digest'', CStr (epoch_digest constant_sha fresh)),
      (''face_model_sha256'', get_field ?d ''face_model_sha256''), (''pose_model_sha256'', get_field ?d ''pose_model_sha256''),
      (''prepared_digest'', CStr (constant_sha text_prepared)), (''state'', CStr ''CONSUMED''), (''static_bindings_digest'', get_field ?d ''static_bindings_digest'')])"
    unfolding text_consumed_def consumed_record_def by blast
  moreover have "get_field d ''domain'' = CStr ''D1N2/CONSUMED/v1''" "get_field d ''epoch_digest'' = CStr sample_digest"
    unfolding get by (simp_all add: record_entries_def get_field_def py_str_def epoch_digest_def constant_sha_def)
  ultimately show "\<exists>d. validated_record constant_sha (Some text_consumed) None = Inr (Some d) \<and> domain_of (Some d) = Some ''D1N2/CONSUMED/v1'' \<and>
     get_field d ''epoch_digest'' = CStr sample_digest" by (auto simp: domain_of_def py_str_def)
qed

lemma reads_grant:
  "\<exists>d. validated_record constant_sha (Some text_grant) None = Inr (Some d) \<and> domain_of (Some d) = Some ''D1N2/GRANT_ISSUED/v1'' \<and>
     get_field d ''epoch_digest'' = CStr sample_digest \<and> get_field d ''consumed_digest'' = CStr sample_digest \<and>
     get_field d ''grant_digest'' = CStr sample_digest \<and> get_field d ''issued_monotonic_ns'' = CInt 0 \<and>
     get_field d ''expires_monotonic_ns'' = CInt WORKER_GRANT_TTL_NS"
  "classify_canonical_leaf_record constant_sha GRANT_LEAF text_grant = Inr (Some GRANT_ISSUED)"
proof -
  have t: "(0 :: int) \<le> 0" "(0 :: int) \<le> MAX_SIGNED_NS - WORKER_GRANT_TTL_NS" by code_simp+
  note w = writable_grant [where sha = constant_sha and l = fresh and consumed = text_consumed and raw = sample_raw, OF sample_valid(3) constant_sha_digest t]
  show "classify_canonical_leaf_record constant_sha GRANT_LEAF text_grant = Inr (Some GRANT_ISSUED)"
    unfolding text_grant_def grant_record_of_def by (rule classified [OF w]) (simp add: leaf_state_def)
  from validated_written [OF w, of None]
  obtain d where "validated_record constant_sha (Some text_grant) None = Inr (Some d)"
    and get: "get_field d = get_field (record_entries ''D1N2/GRANT_ISSUED/v1'' (worker_fields sample_worker @
      [(''consumed_digest'', CStr (constant_sha text_consumed)), (''epoch_digest'', CStr (epoch_digest constant_sha fresh)),
       (''expires_monotonic_ns'', CInt (0 + WORKER_GRANT_TTL_NS)), (''grant_digest'', CStr (constant_sha sample_raw)), (''grant_size'', CInt 32),
       (''issued_monotonic_ns'', CInt 0), (''state'', CStr ''ISSUED'')]))"
    unfolding text_grant_def grant_record_of_def by blast
  moreover have "get_field d ''domain'' = CStr ''D1N2/GRANT_ISSUED/v1''" "get_field d ''epoch_digest'' = CStr sample_digest"
    "get_field d ''consumed_digest'' = CStr sample_digest" "get_field d ''grant_digest'' = CStr sample_digest"
    "get_field d ''issued_monotonic_ns'' = CInt 0" "get_field d ''expires_monotonic_ns'' = CInt WORKER_GRANT_TTL_NS"
    unfolding get by (simp_all add: worker_fields_def record_entries_def get_field_def py_str_def epoch_digest_def constant_sha_def)
  ultimately show "\<exists>d. validated_record constant_sha (Some text_grant) None = Inr (Some d) \<and> domain_of (Some d) = Some ''D1N2/GRANT_ISSUED/v1'' \<and>
     get_field d ''epoch_digest'' = CStr sample_digest \<and> get_field d ''consumed_digest'' = CStr sample_digest \<and>
     get_field d ''grant_digest'' = CStr sample_digest \<and> get_field d ''issued_monotonic_ns'' = CInt 0 \<and>
     get_field d ''expires_monotonic_ns'' = CInt WORKER_GRANT_TTL_NS" by (auto simp: domain_of_def py_str_def)
qed

definition reopened :: lifecycle where
  "reopened = (new_lifecycle sample_raw)\<lparr>lc_consumed := Some text_consumed, lc_grant := Some sample_grant, lc_grant_record := Some text_grant,
     lc_state := GRANT_ISSUED\<rparr>"

lemma sample_reopened:
  assumes "owner INSPECT = ACQUIRED"
  shows "open_lifecycle constant_sha (sample_ports owner) store_granted = (Inr reopened, store_granted)"
proof -
  obtain d1 where d1: "validated_record constant_sha (Some text_consumed) None = Inr (Some d1)" "domain_of (Some d1) = Some ''D1N2/CONSUMED/v1''"
     "get_field d1 ''epoch_digest'' = CStr sample_digest" using reads_consumed(1) by blast
  obtain d2 where d2: "validated_record constant_sha (Some text_grant) None = Inr (Some d2)" "domain_of (Some d2) = Some ''D1N2/GRANT_ISSUED/v1''"
     "get_field d2 ''epoch_digest'' = CStr sample_digest" "get_field d2 ''consumed_digest'' = CStr sample_digest"
     "get_field d2 ''grant_digest'' = CStr sample_digest" "get_field d2 ''issued_monotonic_ns'' = CInt 0"
     "get_field d2 ''expires_monotonic_ns'' = CInt WORKER_GRANT_TTL_NS" using reads_grant(1) by blast
  have none: "validated_record constant_sha None None = Inr None" by (simp add: validated_record_def decode_record_def)
  have digest: "is_digest sample_digest" by code_simp
  have sha: "constant_sha t = sample_digest" for t by (simp add: constant_sha_def)
  have len: "length sample_raw = 32" by (simp add: sample_raw_def)
  show ?thesis
    using assms
    by (simp add: open_lifecycle_def load_existing_state_def load_records_def load_consumed_def session_run sample_ports_def sample_inspect_def leaf_of_def
        store_granted_def reads_consumed(2) reads_grant(2) unread_def d1 d2 none digest sha len reopened_def new_lifecycle_def sample_grant_def)
qed

end
