(* ===== verification/N2_Guarantees.thy ===== *)
theory N2_Guarantees
  imports N2_Example "HOL-Library.Sublist"
begin

text \<open>
  What the authority lifecycle guarantees whatever its protocols answer or raise: a capability needs the whole chain of one process and
  is handed out once, a grant is authorised once, a store that holds anything never launches, and every session that was begun is
  finished.
\<close>

section \<open>Rules for the object\<close>

lemma object_kept: "keeps (\<lambda>s. P (fst s)) m \<Longrightarrow> P (fst s) \<Longrightarrow> m s = (r, s') \<Longrightarrow> P (fst s')"
  using keepsD_eq [of "\<lambda>s. P (fst s)"] by blast

text \<open>A predicate of the object passes every call of a protocol.\<close>

lemma keeps_port [keeps_intros]: "keeps (\<lambda>s. P (fst s)) (port m)"
  by (auto simp: keeps_def port_def split: prod.split)

lemma keeps_put_lc [keeps_intros]: "(\<And>l. P l \<Longrightarrow> P (f l)) \<Longrightarrow> keeps (\<lambda>s. P (fst s)) (put_lc f)"
  by (auto simp: keeps_def put_lc_def py_mod_def)

lemma keeps_get_lc [keeps_intros]: "keeps P (get_lc f)"
  by (auto simp: keeps_def get_lc_def py_get_def)

text \<open>What was read from the object holds when the rest begins.\<close>

lemma keeps_bind_get_lc: "(\<And>l. P l \<Longrightarrow> keeps (\<lambda>s. P (fst s)) (k (f l))) \<Longrightarrow> keeps (\<lambda>s. P (fst s)) (py_bind (get_lc f) k)"
  by (auto simp: keeps_def get_lc_def py_get_def py_bind_def)

lemma keeps_except [keeps_intros]:
  assumes "keeps P m" and "\<And>e. keeps P (f e)"
  shows "keeps P (py_except m f)"
proof (rule keepsI)
  fix s assume "P s"
  moreover obtain r s' where m: "m s = (r, s')" by force
  ultimately have s': "P s'" using assms(1) keepsD_eq by metis
  then have "P (snd (f e s'))" for e using assms(2) keepsD by metis
  with s' show "P (snd (py_except m f s))" by (auto simp: py_except_def m split: sum.split)
qed

lemma keeps_except_exception [keeps_intros]:
  assumes "keeps P m" and "\<And>e. keeps P (f e)"
  shows "keeps P (py_except_exception m f)"
proof (rule keepsI)
  fix s assume "P s"
  moreover obtain r s' where m: "m s = (r, s')" by force
  ultimately have s': "P s'" using assms(1) keepsD_eq by metis
  then have "P (snd (f e s'))" for e using assms(2) keepsD by metis
  with s' show "P (snd (py_except_exception m f s))" by (auto simp: py_except_exception_def m split: sum.split)
qed

lemma keeps_collect [keeps_intros]: "keeps (\<lambda>s. P (fst s)) (collect_cleanup pt h)"
  by (auto simp: collect_cleanup_def cleanup_step_def intro!: keeps_intros)

lemma keeps_finish [keeps_intros]: "keeps (\<lambda>s. P (fst s)) (finish pt h)"
  and keeps_finish_raise [keeps_intros]: "keeps (\<lambda>s. P (fst s)) (finish_raise pt h e)"
  by (auto simp: finish_def finish_raise_def intro!: keeps_intros)

lemma keeps_begin [keeps_intros]: "keeps (\<lambda>s. P (fst s)) (begin_mutation pt op)"
  by (auto simp: begin_mutation_def refuse_session_def intro!: keeps_intros)

lemma keeps_under_session [keeps_intros]: "keeps (\<lambda>s. P (fst s)) body \<Longrightarrow> keeps (\<lambda>s. P (fst s)) (under_session pt h body)"
  by (auto simp: under_session_def intro!: keeps_intros)

lemma keeps_mutation [keeps_intros]:
  "(\<And>h. keeps (\<lambda>s. P (fst s)) (body h)) \<Longrightarrow> (\<And>x clean. keeps (\<lambda>s. P (fst s)) (after x clean)) \<Longrightarrow>
   keeps (\<lambda>s. P (fst s)) (mutation_under pt op body after)"
  by (auto simp: mutation_under_def intro!: keeps_intros)

text \<open>A mutation that was not begun, or whose body or cleanup raised, ends where its body left the object; the others end with \<open>after\<close>.\<close>

lemma mutation_outcome:
  assumes body: "\<And>h. keeps (\<lambda>s. P (fst s)) (body h)" and P: "P (fst s)" and run: "mutation_under pt op body after s = (r, s')"
  obtains (untouched) "P (fst s')" | (ended) x clean s1 where "P (fst s1)" and "after x clean s1 = (r, s')"
proof -
  obtain r0 s0 where begun: "begin_mutation pt op s = (r0, s0)" using prod.exhaust by blast
  have P0: "P (fst s0)" by (rule object_kept [where P = P, OF keeps_begin, OF P begun])
  have "P (fst s') \<or> (\<exists>x clean s1. P (fst s1) \<and> after x clean s1 = (r, s'))"
  proof (cases "\<exists>st h. r0 = Inr (st, Some h)")
    case True
    then obtain st h where r0: "r0 = Inr (st, Some h)" by blast
    obtain r1 s1 where session: "under_session pt h (body h) s0 = (r1, s1)" using prod.exhaust by blast
    have "P (fst s1)" by (rule object_kept [where P = P, OF keeps_under_session, OF body P0 session])
    with run begun r0 session show ?thesis
      by (cases r1; cases s1) (auto simp: mutation_under_def py_bind_def split: prod.splits)
  next
    case False
    with run begun have "s' = s0"
      by (cases r0) (auto simp: mutation_under_def py_run split: option.splits)
    with P0 show ?thesis by simp
  qed
  then show ?thesis using untouched ended by blast
qed

section \<open>The chain of a process\<close>

text \<open>What is live, the raw capability and whether it was handed out.\<close>

definition chain_within :: "bool \<Rightarrow> bool \<Rightarrow> string option \<Rightarrow> bool \<Rightarrow> lifecycle \<Rightarrow> bool" where
  "chain_within p c raw handed l \<longleftrightarrow> (lc_live_prepared l \<longrightarrow> p) \<and> lc_live_consumed l = c \<and> lc_grant_raw l = raw \<and> lc_grant_handed_off l = handed"

lemmas body_defs = prepare_body_def write_pending_def write_prepared_def replace_pending_def consume_body_def issue_body_def write_grant_def
  revoke_body_def terminalize_body_def write_terminal_def post_write_def invalid_unless_untouched_def set_state_def

lemmas object_run = py_run get_lc_def put_lc_def set_state_def

lemma chain_within_update [simp]:
  "chain_within p c raw ho (l\<lparr>lc_state := st\<rparr>) = chain_within p c raw ho l"
  "chain_within p c raw ho (l\<lparr>lc_pending := x\<rparr>) = chain_within p c raw ho l"
  "chain_within p c raw ho (l\<lparr>lc_prepared := x\<rparr>) = chain_within p c raw ho l"
  "chain_within p c raw ho (l\<lparr>lc_consumed := x\<rparr>) = chain_within p c raw ho l"
  "chain_within p c raw ho (l\<lparr>lc_grant := g\<rparr>) = chain_within p c raw ho l"
  "chain_within p c raw ho (l\<lparr>lc_grant_record := x\<rparr>) = chain_within p c raw ho l"
  "chain_within p c raw ho (l\<lparr>lc_approved_rp2 := a\<rparr>) = chain_within p c raw ho l"
  by (simp_all add: chain_within_def)

lemma chain_within_not_live [simp]: "chain_within p c raw ho l \<Longrightarrow> chain_within p c raw ho (l\<lparr>lc_live_prepared := False\<rparr>)"
  by (simp add: chain_within_def)

lemma chain_within_live: "chain_within p c raw ho l \<Longrightarrow> chain_within True c raw ho (l\<lparr>lc_live_prepared := True\<rparr>)"
  by (simp add: chain_within_def)

lemma chain_within_consumed: "chain_within p c raw ho l \<Longrightarrow> chain_within p True raw ho (l\<lparr>lc_live_consumed := True\<rparr>)"
  by (simp add: chain_within_def)

lemma chain_within_raw: "chain_within p c raw ho l \<Longrightarrow> chain_within p c x ho (l\<lparr>lc_grant_raw := x\<rparr>)"
  by (simp add: chain_within_def)

lemma chain_kept_prepare: "keeps (\<lambda>s. chain_within p c raw ho (fst s)) (prepare_body sha pt h)"
  unfolding body_defs by (intro keeps_intros) simp_all

lemma chain_kept_consume: "keeps (\<lambda>s. chain_within p c raw ho (fst s)) (consume_body sha pt bytes h)"
  unfolding body_defs by (intro keeps_intros) simp_all

lemma chain_kept_issue: "keeps (\<lambda>s. chain_within p c raw ho (fst s)) (issue_body sha pt b bytes h)"
  unfolding body_defs by (intro keeps_intros) simp_all

lemma chain_kept_revoke: "keeps (\<lambda>s. chain_within p c raw ho (fst s)) (revoke_body sha pt bytes bytes' g h)"
  unfolding body_defs by (intro keeps_intros) simp_all

lemma chain_kept_terminalize: "keeps (\<lambda>s. chain_within p c raw ho (fst s)) (terminalize_body sha pt tb bytes d gb h)"
  unfolding body_defs by (intro keeps_intros) simp_all

lemma get_lc_bind: "py_bind (get_lc f) k s = k (f (fst s)) s"
  by (cases s) (simp add: get_lc_def py_get_def py_bind_def)

lemma put_lc_then: "py_then (put_lc f) k s = k (f (fst s), snd s)"
  by (cases s) (simp add: put_lc_def py_mod_def py_then_def py_bind_def)

lemma ret_then: "py_then (py_ret ()) k s = k s"
  by (simp add: py_ret_def py_then_def py_bind_def)

lemmas object_steps = get_lc_bind put_lc_then ret_then py_ret_def set_state_def

lemma prepare_chain:
  assumes run: "prepare sha pt s = (r, s')" and P: "chain_within p c raw ho (fst s)"
  shows "chain_within p c raw ho (fst s') \<or> chain_within True c raw ho (fst s') \<and> r = Inr PO_OK \<and> lc_state (fst s) = ABSENT"
proof (cases "lc_state (fst s) = ABSENT")
  case True
  show ?thesis
  proof (cases rule: mutation_outcome [OF chain_kept_prepare P run [unfolded prepare_def get_lc_bind True, simplified]])
    case (2 x clean s1)
    then show ?thesis
      by (cases clean; cases "lc_state (fst s1) = PREPARED"; cases "x = PO_OK")
        (auto simp add: object_steps chain_within_live True)
  qed simp
next
  case False
  with run have "s' = s" by (simp add: prepare_def object_steps)
  with P show ?thesis by simp
qed

lemma consume_chain:
  assumes run: "consume sha pt s = (r, s')" and P: "chain_within p c raw ho (fst s)"
  shows "chain_within p c raw ho (fst s') \<or> chain_within p True raw ho (fst s') \<and> r = Inr PO_OK \<and> p"
proof (cases "lc_prepared (fst s) = None \<or> lc_state (fst s) \<noteq> PREPARED \<or> \<not> lc_live_prepared (fst s)")
  case True
  with assms show ?thesis by (auto simp: consume_def object_run case_prod_beta split: option.splits)
next
  case False
  then obtain bytes where bytes: "lc_prepared (fst s) = Some bytes" by auto
  have p: p using False P by (simp add: chain_within_def)
  obtain r0 s0 where clock: "py_except_exception (port (pt_unix_clock_ns pt)) (\<lambda>_. py_ret (- 1)) s = (r0, s0)" using prod.exhaust by blast
  have P0: "chain_within p c raw ho (fst s0)"
    by (rule object_kept [where P = "chain_within p c raw ho", OF keeps_except_exception, OF keeps_port keeps_ret P clock])
  show ?thesis
  proof (cases "\<exists>found now. validated_record sha (Some bytes) (Some ''D1N2/PREPARED/v1'') = Inr found \<and> r0 = Inr now \<and> within_window found now")
    case True
    with run False bytes clock have started: "mutation_under pt CONSUME (consume_body sha pt bytes) (\<lambda>outcm clean.
             if \<not> clean then py_ret CLEANUP_FAILED
             else
               py_bind (get_lc lc_state) (\<lambda>after.
               py_then (if outcm = PO_OK \<and> after = CONSUMED_NO_GRANT then put_lc (\<lambda>l. l\<lparr>lc_live_consumed := True\<rparr>) else py_ret ())
               (py_ret outcm))) s0 = (r, s')"
      by (auto simp: consume_def py_bind_def py_lift_def get_lc_def py_get_def case_prod_beta)
    show ?thesis
    proof (cases rule: mutation_outcome [OF chain_kept_consume P0 started])
      case (2 x clean s1)
      then show ?thesis
        by (cases clean; cases "lc_state (fst s1) = CONSUMED_NO_GRANT"; cases "x = PO_OK")
          (auto simp add: object_steps chain_within_consumed p)
    qed simp
  next
    case stale: False
    with run False bytes clock P P0 show ?thesis
      by (cases r0) (auto simp: consume_def object_run chain_within_def case_prod_beta split: sum.splits if_splits)
  qed
qed

lemma issue_chain:
  assumes run: "issue_grant sha pt b s = (r, s')" and P: "chain_within p c raw ho (fst s)"
  shows "\<exists>x. chain_within p c x ho (fst s') \<and> (x = raw \<or> x = None \<or> r = Inr PO_OK \<and> c)"
proof (cases "\<exists>pb cb. lc_prepared (fst s) = Some pb \<and> lc_consumed (fst s) = Some cb \<and> worker_valid b \<and>
    wk_prepared_authority_digest b = sha pb \<and> lc_state (fst s) = CONSUMED_NO_GRANT \<and> lc_live_consumed (fst s)")
  case True
  then obtain cb where started: "mutation_under pt ISSUE_GRANT (issue_body sha pt b cb) (\<lambda>(outcm, raw) clean.
           py_then (put_lc (\<lambda>l. l\<lparr>lc_grant_raw := (if outcm = PO_OK \<and> clean then raw else None)\<rparr>))
           (py_ret (if clean then outcm else CLEANUP_FAILED))) s = (r, s')"
    using run by (auto simp: issue_grant_def object_run case_prod_beta)
  have c: c using True P by (auto simp: chain_within_def)
  show ?thesis
  proof (cases rule: mutation_outcome [OF chain_kept_issue P started])
    case 1
    then show ?thesis by blast
  next
    case (2 x clean s1)
    then show ?thesis
      by (cases clean; cases "fst x = PO_OK") (fastforce simp: object_steps case_prod_beta c intro: chain_within_raw)+
  qed
next
  case False
  with run have "s' = s" by (auto simp: issue_grant_def object_run case_prod_beta split: option.splits if_splits)
  with P show ?thesis by blast
qed

lemma take_chain:
  assumes "take_grant_capability s = (r, s')" and "chain_within p c raw ho (fst s)"
  shows "chain_within p c raw ho (fst s') \<and> r = Inr None \<or>
    chain_within p c raw True (fst s') \<and> \<not> ho \<and> raw \<noteq> None \<and> r = Inr raw"
  using assms by (auto simp: take_grant_capability_def object_run chain_within_def case_prod_beta split: if_splits)

lemma authorize_chain: "keeps (\<lambda>s. chain_within p c raw ho (fst s)) (authorize_grant sha pt presented)"
  unfolding authorize_grant_def by (auto intro!: keeps_intros simp: chain_within_def)

lemma terminalize_chain: "keeps (\<lambda>s. chain_within p c raw ho (fst s)) (terminalize sha pt b)"
  unfolding terminalize_def set_state_def Let_def
  by (intro keeps_intros chain_kept_terminalize) simp_all

lemma revoke_chain:
  assumes run: "revoke_grant sha pt s = (r, s')" and P: "chain_within p c raw ho (fst s)"
  shows "chain_within p c raw ho (fst s') \<or> chain_within p c None True (fst s')"
proof (cases "\<exists>g gb cb. lc_grant (fst s) = Some g \<and> lc_grant_record (fst s) = Some gb \<and> lc_consumed (fst s) = Some cb \<and> lc_state (fst s) = GRANT_ISSUED")
  case True
  then obtain g gb cb where started: "mutation_under pt REVOKE_GRANT (revoke_body sha pt cb gb g) (\<lambda>outcm clean.
             py_ret (if clean then outcm else CLEANUP_FAILED)) ((fst s)\<lparr>lc_grant_raw := None, lc_grant_handed_off := True\<rparr>, snd s) = (r, s')"
    using run by (auto simp: revoke_grant_def py_bind_def py_then_def get_lc_def put_lc_def py_get_def py_mod_def case_prod_beta)
  have "chain_within p c None True (fst ((fst s)\<lparr>lc_grant_raw := None, lc_grant_handed_off := True\<rparr>, snd s))"
    using P by (simp add: chain_within_def)
  then show ?thesis
    by (cases rule: mutation_outcome [OF chain_kept_revoke _ started]) (auto simp: py_ret_def)
next
  case False
  with run have "s' = s" by (auto simp: revoke_grant_def object_run case_prod_beta split: option.splits if_splits)
  with P show ?thesis by blast
qed

section \<open>Runs of requests\<close>

text \<open>A predicate of what was answered so far and the object, kept by every request, holds before each request of a run.\<close>

locale answered_system =
  fixes handle :: "'q \<Rightarrow> 's \<Rightarrow> 'r \<times> 's" and run :: "'q list \<Rightarrow> 's \<Rightarrow> ('q \<times> 'r) list \<times> 's"
    and inv :: "('q \<times> 'r) list \<Rightarrow> 's \<Rightarrow> bool"
  assumes run_none: "run [] s = ([], s)"
    and run_more: "handle q s = (r, s1) \<Longrightarrow> run qs s1 = (hist, s2) \<Longrightarrow> run (q # qs) s = ((q, r) # hist, s2)"
    and handle_inv: "inv past s \<Longrightarrow> handle q s = (r, s1) \<Longrightarrow> inv (past @ [(q, r)]) s1"
begin

lemma run_inv: "inv past s \<Longrightarrow> run qs s = (hist, s') \<Longrightarrow> inv (past @ hist) s'"
proof (induction qs arbitrary: past s hist)
  case (Cons q qs)
  obtain r s1 where one: "handle q s = (r, s1)" using prod.exhaust by blast
  obtain more s2 where rest: "run qs s1 = (more, s2)" using prod.exhaust by blast
  have "hist = (q, r) # more" and "s2 = s'" using run_more [OF one rest] Cons.prems(2) by simp_all
  with Cons.IH [OF handle_inv [OF Cons.prems(1) one], of more] rest show ?case by simp
qed (simp add: run_none)

lemma inv_before:
  "inv past s \<Longrightarrow> run qs s = (before @ (q, r) # rest, s') \<Longrightarrow> \<exists>s1 s2. inv (past @ before) s1 \<and> handle q s1 = (r, s2)"
proof (induction qs arbitrary: past s before)
  case (Cons q' qs)
  obtain r' s1 where one: "handle q' s = (r', s1)" using prod.exhaust by blast
  obtain more s2 where rest: "run qs s1 = (more, s2)" using prod.exhaust by blast
  have hist: "before @ (q, r) # rest = (q', r') # more" and "s2 = s'" using run_more [OF one rest] Cons.prems(2) by simp_all
  show ?case
  proof (cases before)
    case Nil
    with hist one Cons.prems(1) show ?thesis by auto
  next
    case (Cons a before')
    with hist rest \<open>s2 = s'\<close> have "run qs s1 = (before' @ (q, r) # rest, s')" by simp
    from Cons.IH [OF handle_inv [OF Cons.prems(1) one] this] show ?thesis using Cons hist by simp
  qed
qed (simp add: run_none)

end

lemma n2_run_more: "n2_handle sha pt q s = (r, s1) \<Longrightarrow> n2_run sha pt qs s1 = (hist, s2) \<Longrightarrow> n2_run sha pt (q # qs) s = ((q, r) # hist, s2)"
  by simp

fun answered_ok :: "n2_request \<Rightarrow> n2_request \<times> (py_error + n2_reply) \<Rightarrow> bool" where
  "answered_ok req (q, r) \<longleftrightarrow> q = req \<and> r = Inr (Outcome PO_OK)"

fun handed_out :: "n2_request \<times> (py_error + n2_reply) \<Rightarrow> bool" where
  "handed_out (q, r) \<longleftrightarrow> (case r of Inr (Capability (Some raw)) \<Rightarrow> True | _ \<Rightarrow> False)"

definition chain_earned :: "(n2_request \<times> (py_error + n2_reply)) list \<Rightarrow> 'w n2_state \<Rightarrow> bool" where
  "chain_earned past s \<longleftrightarrow> (\<exists>p c raw ho. chain_within p c raw ho (fst s) \<and>
     (p \<longrightarrow> subseq [ok PrepareReq] past) \<and> (c \<longrightarrow> subseq [ok PrepareReq, ok ConsumeReq] past) \<and>
     (raw \<noteq> None \<longrightarrow> (\<exists>b. subseq [ok PrepareReq, ok ConsumeReq, ok (IssueReq b)] past)) \<and>
     (\<not> ho \<longrightarrow> \<not> list_ex handed_out past))"

lemma chain_earnedI:
  assumes "chain_within p c raw ho (fst s)" and "p \<Longrightarrow> subseq [ok PrepareReq] past" and "c \<Longrightarrow> subseq [ok PrepareReq, ok ConsumeReq] past"
    and "raw \<noteq> None \<Longrightarrow> \<exists>b. subseq [ok PrepareReq, ok ConsumeReq, ok (IssueReq b)] past" and "\<not> ho \<Longrightarrow> \<not> list_ex handed_out past"
  shows "chain_earned past s"
  using assms unfolding chain_earned_def by blast

lemma subseq_then: "subseq xs past \<Longrightarrow> subseq (xs @ [y]) (past @ [y])"
  by simp

lemma subseq_still: "subseq xs past \<Longrightarrow> subseq xs (past @ [y])"
  by (metis subseq_rev_drop_many)

lemma bind_ret_iff:
  "py_bind m (\<lambda>x. py_ret (f x)) s = (r, s') \<longleftrightarrow> (\<exists>r0. m s = (r0, s') \<and> r = (case r0 of Inl e \<Rightarrow> Inl e | Inr x \<Rightarrow> Inr (f x)))"
  by (auto simp: py_bind_def py_ret_def split: prod.splits sum.splits)

text \<open>The answer of a request, from the answer of its method.\<close>

lemma n2_handle_cases:
  assumes "n2_handle sha pt req s = (r, s')"
  obtains (Prepare) r0 where "req = PrepareReq" "prepare sha pt s = (r0, s')" "r = map_sum id Outcome r0"
  | (Consume) r0 where "req = ConsumeReq" "consume sha pt s = (r0, s')" "r = map_sum id Outcome r0"
  | (Issue) b r0 where "req = IssueReq b" "issue_grant sha pt b s = (r0, s')" "r = map_sum id Outcome r0"
  | (Take) r0 where "req = TakeReq" "take_grant_capability s = (r0, s')" "r = map_sum id Capability r0"
  | (Authorize) raw r0 where "req = AuthorizeReq raw" "authorize_grant sha pt raw s = (r0, s')" "r = map_sum id Outcome r0"
  | (Revoke) r0 where "req = RevokeReq" "revoke_grant sha pt s = (r0, s')" "r = map_sum id Outcome r0"
  | (Terminalize) b r0 where "req = TerminalizeReq b" "terminalize sha pt b s = (r0, s')" "r = map_sum id Outcome r0"
proof -
  have sum: "(case x of Inl e \<Rightarrow> Inl e | Inr y \<Rightarrow> Inr (f y)) = map_sum id f x" for x :: "py_error + 'x" and f :: "'x \<Rightarrow> 'y"
    by (cases x) simp_all
  show ?thesis using assms by (cases req) (auto simp: n2_handle_def bind_ret_iff sum intro: that)
qed

lemma outcome_not_handed [simp]: "\<not> handed_out (req, map_sum id Outcome r0)"
  by (cases r0) simp_all

lemma nothing_not_handed [simp]: "\<not> handed_out (req, Inr (Capability None))" "\<not> handed_out (req, Inr (Outcome x))"
  by simp_all

lemma handed_outD: "handed_out x \<Longrightarrow> \<exists>req raw. x = (req, Inr (Capability (Some raw)))"
  by (cases x) (auto split: sum.splits n2_reply.splits option.splits)

declare handed_out.simps [simp del]

lemma chain_step:
  assumes before: "chain_earned past s" and step: "n2_handle sha pt req s = (r, s')"
  shows "chain_earned (past @ [(req, r)]) s'"
proof -
  obtain p c raw ho where P: "chain_within p c raw ho (fst s)"
    and p: "p \<Longrightarrow> subseq [ok PrepareReq] past" and c: "c \<Longrightarrow> subseq [ok PrepareReq, ok ConsumeReq] past"
    and raw: "raw \<noteq> None \<Longrightarrow> \<exists>b. subseq [ok PrepareReq, ok ConsumeReq, ok (IssueReq b)] past" and ho: "\<not> ho \<Longrightarrow> \<not> list_ex handed_out past"
    using before unfolding chain_earned_def by blast
  note earned = p c raw ho
  have raw': "raw \<noteq> None \<Longrightarrow> \<exists>b. subseq [ok PrepareReq, ok ConsumeReq, ok (IssueReq b)] (past @ [(req, r)])"
    using raw subseq_still by blast
  have same: "chain_earned (past @ [(req, r)]) s'" if "chain_within p c raw ho (fst s')" "\<not> handed_out (req, r)"
    by (rule chain_earnedI [OF that(1)]) (use that(2) earned raw' in \<open>simp_all add: subseq_still\<close>)
  show ?thesis
    using step
  proof (cases rule: n2_handle_cases)
    case (Prepare r0)
    from prepare_chain [OF Prepare(2) P] show ?thesis
    proof
      assume "chain_within True c raw ho (fst s') \<and> r0 = Inr PO_OK \<and> lc_state (fst s) = ABSENT"
      with Prepare have within: "chain_within True c raw ho (fst s')" and r: "(req, r) = ok PrepareReq" by simp_all
      show ?thesis
        by (rule chain_earnedI [OF within]) (use r earned raw' subseq_then [of "[]" past "ok PrepareReq"] in \<open>simp_all add: subseq_still\<close>)
    qed (use Prepare same in simp)
  next
    case (Consume r0)
    from consume_chain [OF Consume(2) P] show ?thesis
    proof
      assume "chain_within p True raw ho (fst s') \<and> r0 = Inr PO_OK \<and> p"
      with Consume have within: "chain_within p True raw ho (fst s')" and r: "(req, r) = ok ConsumeReq" and p by auto
      show ?thesis
        by (rule chain_earnedI [OF within])
          (use r earned raw' \<open>p\<close> subseq_then [of "[ok PrepareReq]" past "ok ConsumeReq"] in \<open>simp_all add: subseq_still\<close>)
    qed (use Consume same in simp)
  next
    case (Issue b r0)
    from issue_chain [OF Issue(2) P] obtain x where within: "chain_within p c x ho (fst s')" and x: "x = raw \<or> x = None \<or> r0 = Inr PO_OK \<and> c"
      by blast
    have "\<exists>b. subseq [ok PrepareReq, ok ConsumeReq, ok (IssueReq b)] (past @ [(req, r)])" if "x \<noteq> None"
      using x
    proof (elim disjE)
      assume "r0 = Inr PO_OK \<and> c"
      with Issue subseq_then [OF c, of "ok (IssueReq b)"] show ?thesis by auto
    qed (use that raw' in auto)
    with earned Issue show ?thesis by (intro chain_earnedI [OF within]) (auto simp: subseq_still)
  next
    case (Take r0)
    from take_chain [OF Take(2) P] show ?thesis
    proof
      assume "chain_within p c raw True (fst s') \<and> \<not> ho \<and> raw \<noteq> None \<and> r0 = Inr raw"
      then have within: "chain_within p c raw True (fst s')" by simp
      show ?thesis by (rule chain_earnedI [OF within]) (use earned raw' in \<open>simp_all add: subseq_still\<close>)
    qed (use Take same in simp)
  next
    case (Authorize w r0)
    have "chain_within p c raw ho (fst s')" by (rule object_kept [where P = "chain_within p c raw ho", OF authorize_chain P Authorize(2)])
    with Authorize same show ?thesis by simp
  next
    case (Revoke r0)
    from revoke_chain [OF Revoke(2) P] show ?thesis
    proof
      assume within: "chain_within p c None True (fst s')"
      show ?thesis by (rule chain_earnedI [OF within]) (use earned in \<open>simp_all add: subseq_still\<close>)
    qed (use Revoke same in simp)
  next
    case (Terminalize b r0)
    have "chain_within p c raw ho (fst s')" by (rule object_kept [where P = "chain_within p c raw ho", OF terminalize_chain P Terminalize(2)])
    with Terminalize same show ?thesis by simp
  qed
qed

interpretation chain: answered_system "n2_handle sha pt" "n2_run sha pt" chain_earned for sha pt
  by unfold_locales (simp_all add: chain_step)

lemma keeps_cjson [keeps_intros]:
  "keeps P a \<Longrightarrow> (\<And>x. keeps P (b x)) \<Longrightarrow> (\<And>x. keeps P (c x)) \<Longrightarrow> (\<And>x. keeps P (d x)) \<Longrightarrow> (\<And>x. keeps P (e x)) \<Longrightarrow> (\<And>x. keeps P (f x)) \<Longrightarrow>
   keeps P (case v of CNull \<Rightarrow> a | CBool x \<Rightarrow> b x | CInt x \<Rightarrow> c x | CStr x \<Rightarrow> d x | CArr x \<Rightarrow> e x | CObj x \<Rightarrow> f x)"
  by (simp split: cjson.split)

text \<open>Loading the store gives nothing live.\<close>

lemma load_chain: "keeps (\<lambda>s. chain_within p c raw ho (fst s)) (load_existing_state sha pt)"
  unfolding load_existing_state_def load_records_def load_consumed_def set_state_def
  by (intro keeps_intros) simp_all

lemma opened_kept:
  assumes "open_lifecycle sha pt w = (Inr l, w')" and "\<And>raw. P (new_lifecycle raw)" and "keeps (\<lambda>s. P (fst s)) (load_existing_state sha pt)"
  shows "P l"
proof -
  obtain raw w0 where "load_existing_state sha pt (new_lifecycle raw, w0) = (Inr (), l, w')"
    using assms(1) by (auto simp: open_lifecycle_def split: prod.splits sum.splits if_splits)
  from object_kept [where P = P, OF assms(3) _ this] assms(2) show ?thesis by simp
qed

lemma opened_chain: "open_lifecycle sha pt w = (Inr l, w') \<Longrightarrow> chain_within False False None False l"
  by (rule opened_kept [OF _ _ load_chain]) (simp_all add: new_lifecycle_def chain_within_def)

section \<open>A grant that was used\<close>

definition spent :: "lifecycle \<Rightarrow> bool" where
  "spent l \<longleftrightarrow> (case lc_grant l of None \<Rightarrow> False | Some g \<Rightarrow> gi_used g) \<and>
     lc_state l \<in> {GRANT_ISSUED, REVOKED_TERMINAL_PENDING, PRESENT_INVALID, AUTH_TERMINAL, TERMINAL_DURABILITY_UNVERIFIED}"

lemma spent_update [simp]:
  "spent (l\<lparr>lc_grant_record := x\<rparr>) = spent l" "spent (l\<lparr>lc_grant_raw := x\<rparr>) = spent l" "spent (l\<lparr>lc_grant_handed_off := y\<rparr>) = spent l"
  by (simp_all add: spent_def)

lemma spent_state [simp]:
  "spent l \<Longrightarrow> st \<in> {GRANT_ISSUED, REVOKED_TERMINAL_PENDING, PRESENT_INVALID, AUTH_TERMINAL, TERMINAL_DURABILITY_UNVERIFIED} \<Longrightarrow> spent (l\<lparr>lc_state := st\<rparr>)"
  by (simp add: spent_def)

lemma spent_kept_revoke: "keeps (\<lambda>s. spent (fst s)) (revoke_grant sha pt)"
  unfolding revoke_grant_def body_defs by (intro keeps_intros) simp_all

lemma spent_kept_terminalize: "keeps (\<lambda>s. spent (fst s)) (terminalize sha pt b)"
  unfolding terminalize_def body_defs Let_def by (intro keeps_intros) simp_all

text \<open>The other requests find the object in a state in which they are refused.\<close>

lemma spent_refuses:
  assumes "spent (fst s)"
  shows "prepare sha pt s = (Inr INPUT_INVALID, s)" "\<exists>r. consume sha pt s = (r, s)" "\<exists>r. issue_grant sha pt b s = (r, s)"
proof -
  have st: "lc_state (fst s) \<notin> {ABSENT, PREPARED, CONSUMED_NO_GRANT}" using assms by (auto simp: spent_def)
  show "prepare sha pt s = (Inr INPUT_INVALID, s)" using st by (simp add: prepare_def object_steps)
  show "\<exists>r. consume sha pt s = (r, s)" using st by (auto simp: consume_def object_steps split: option.split)
  show "\<exists>r. issue_grant sha pt b s = (r, s)" using st by (auto simp: issue_grant_def object_steps split: option.split)
qed

lemma spent_take: "keeps (\<lambda>s. spent (fst s)) take_grant_capability"
  unfolding take_grant_capability_def by (intro keeps_intros) simp_all

text \<open>An authorisation succeeds only when the grant was not used, and then the grant is.\<close>

lemma authorize_effect:
  assumes "authorize_grant sha pt presented s = (r, s')"
  shows "r \<noteq> Inr PO_OK \<and> fst s' = fst s \<or> r = Inr PO_OK \<and> \<not> spent (fst s) \<and> spent (fst s')"
proof (cases "pt_clock_ns pt (snd s)")
  case (Pair r0 w0)
  with assms show ?thesis
    by (cases s; cases r0; cases "lc_grant (fst s)")
      (auto simp: authorize_grant_def port_def py_bind_def get_lc_def py_get_def py_ret_def put_lc_def py_mod_def py_then_def spent_def split: if_splits)
qed

fun authorised :: "n2_request \<times> (py_error + n2_reply) \<Rightarrow> bool" where
  "authorised (AuthorizeReq raw, r) \<longleftrightarrow> r = Inr (Outcome PO_OK)"
| "authorised (_, r) \<longleftrightarrow> False"

definition used_up :: "(n2_request \<times> (py_error + n2_reply)) list \<Rightarrow> 'w n2_state \<Rightarrow> bool" where
  "used_up past s \<longleftrightarrow> length (filter authorised past) \<le> 1 \<and> (list_ex authorised past \<longrightarrow> spent (fst s))"

lemma spent_step:
  assumes "n2_handle sha pt req s = (r, s')" and "spent (fst s)"
  shows "spent (fst s') \<and> \<not> authorised (req, r)"
  using assms(1)
proof (cases rule: n2_handle_cases)
  case (Consume r0)
  with spent_refuses(2) [OF assms(2), of sha pt] assms(2) show ?thesis by auto
next
  case (Issue b r0)
  with spent_refuses(3) [OF assms(2), of sha pt b] assms(2) show ?thesis by auto
next
  case (Take r0)
  with object_kept [where P = spent, OF spent_take assms(2)] show ?thesis by simp
next
  case (Authorize raw r0)
  with authorize_effect [OF Authorize(2)] assms(2) show ?thesis by (cases r0) auto
next
  case (Revoke r0)
  with object_kept [where P = spent, OF spent_kept_revoke assms(2) Revoke(2)] show ?thesis by simp
next
  case (Terminalize b r0)
  with object_kept [where P = spent, OF spent_kept_terminalize assms(2) Terminalize(2)] show ?thesis by simp
qed (use spent_refuses(1) [OF assms(2), of sha pt] assms(2) in auto)

lemma used_up_step: "used_up past s \<Longrightarrow> n2_handle sha pt req s = (r, s') \<Longrightarrow> used_up (past @ [(req, r)]) s'"
proof (cases "list_ex authorised past")
  case True
  assume "used_up past s" and step: "n2_handle sha pt req s = (r, s')"
  with True have "spent (fst s)" by (simp add: used_up_def)
  from spent_step [OF step this] \<open>used_up past s\<close> show ?thesis by (simp add: used_up_def)
next
  case False
  assume step: "n2_handle sha pt req s = (r, s')"
  have none: "filter authorised past = []" using False by (simp add: filter_empty_conv list_ex_iff)
  show ?thesis
  proof (cases "authorised (req, r)")
    case True
    then obtain raw where req: "req = AuthorizeReq raw" and r: "r = Inr (Outcome PO_OK)" by (cases req) auto
    have "authorize_grant sha pt raw s = (Inr PO_OK, s')"
      using step unfolding req r by (cases rule: n2_handle_cases) (auto simp: map_sum_def split: sum.splits)
    from authorize_effect [OF this] have "spent (fst s')" by simp
    with none show ?thesis by (simp add: used_up_def)
  next
    case unauthorised: False
    with none False show ?thesis by (simp add: used_up_def)
  qed
qed

interpretation used: answered_system "n2_handle sha pt" "n2_run sha pt" used_up for sha pt
  by unfold_locales (simp_all add: used_up_step)

section \<open>A store that is not empty\<close>

lemma keeps_prod_after [keeps_intros]: "(\<And>a b. x = (a, b) \<Longrightarrow> keeps P (f a b y)) \<Longrightarrow> keeps P ((case x of (a, b) \<Rightarrow> f a b) y)"
  by (simp split: prod.split)

lemma present_kept_consume: "keeps (\<lambda>s. lc_state (fst s) \<noteq> ABSENT) (consume sha pt)"
  unfolding consume_def body_defs Let_def by (intro keeps_intros) simp_all

lemma present_kept_issue: "keeps (\<lambda>s. lc_state (fst s) \<noteq> ABSENT) (issue_grant sha pt b)"
  unfolding issue_grant_def body_defs Let_def by (intro keeps_intros) simp_all

lemma present_kept_take: "keeps (\<lambda>s. lc_state (fst s) \<noteq> ABSENT) take_grant_capability"
  unfolding take_grant_capability_def body_defs Let_def by (intro keeps_intros) simp_all

lemma present_kept_authorize: "keeps (\<lambda>s. lc_state (fst s) \<noteq> ABSENT) (authorize_grant sha pt presented)"
  unfolding authorize_grant_def body_defs Let_def by (intro keeps_intros) simp_all

lemma present_kept_revoke: "keeps (\<lambda>s. lc_state (fst s) \<noteq> ABSENT) (revoke_grant sha pt)"
  unfolding revoke_grant_def body_defs Let_def by (intro keeps_intros) simp_all

lemma present_kept_terminalize: "keeps (\<lambda>s. lc_state (fst s) \<noteq> ABSENT) (terminalize sha pt tb)"
  unfolding terminalize_def body_defs Let_def by (intro keeps_intros) simp_all

definition stays_present :: "(n2_request \<times> (py_error + n2_reply)) list \<Rightarrow> 'w n2_state \<Rightarrow> bool" where
  "stays_present past s \<longleftrightarrow> lc_state (fst s) \<noteq> ABSENT \<and> ok PrepareReq \<notin> set past"

lemma present_step:
  assumes "stays_present past s" and step: "n2_handle sha pt req s = (r, s')"
  shows "stays_present (past @ [(req, r)]) s'"
proof -
  have st: "lc_state (fst s) \<noteq> ABSENT" and past: "ok PrepareReq \<notin> set past" using assms(1) by (simp_all add: stays_present_def)
  note kept = object_kept [where P = "\<lambda>l. lc_state l \<noteq> ABSENT", OF _ st]
  show ?thesis
    using step
  proof (cases rule: n2_handle_cases)
    case (Prepare r0)
    then show ?thesis using st past by (auto simp add: prepare_def object_steps stays_present_def)
  next
    case (Consume r0)
    with kept [OF present_kept_consume Consume(2)] past show ?thesis by (simp add: stays_present_def)
  next
    case (Issue b r0)
    with kept [OF present_kept_issue Issue(2)] past show ?thesis by (simp add: stays_present_def)
  next
    case (Take r0)
    with kept [OF present_kept_take Take(2)] past show ?thesis by (simp add: stays_present_def)
  next
    case (Authorize raw r0)
    with kept [OF present_kept_authorize Authorize(2)] past show ?thesis by (simp add: stays_present_def)
  next
    case (Revoke r0)
    with kept [OF present_kept_revoke Revoke(2)] past show ?thesis by (simp add: stays_present_def)
  next
    case (Terminalize b r0)
    with kept [OF present_kept_terminalize Terminalize(2)] past show ?thesis by (simp add: stays_present_def)
  qed
qed

interpretation present: answered_system "n2_handle sha pt" "n2_run sha pt" stays_present for sha pt
  by unfold_locales (simp_all add: present_step)

lemma chain_answer:
  assumes "chain_earned [] s" and "n2_run sha pt reqs s = (before @ (req, Inr (Capability (Some raw))) # rest, s')"
  shows "(\<exists>b. subseq [ok PrepareReq, ok ConsumeReq, ok (IssueReq b)] before) \<and> \<not> list_ex handed_out before"
proof -
  from chain.inv_before [OF assms] obtain s1 s2 where earned: "chain_earned before s1"
    and step: "n2_handle sha pt req s1 = (Inr (Capability (Some raw)), s2)" by auto
  have take: "take_grant_capability s1 = (Inr (Some raw), s2)"
    using step by (cases rule: n2_handle_cases) (auto split: sum.splits simp: map_sum_def)
  from earned obtain p c x ho where P: "chain_within p c x ho (fst s1)"
    and x: "x \<noteq> None \<Longrightarrow> \<exists>b. subseq [ok PrepareReq, ok ConsumeReq, ok (IssueReq b)] before" and ho: "\<not> ho \<Longrightarrow> \<not> list_ex handed_out before"
    unfolding chain_earned_def by blast
  from take_chain [OF take P] x ho show ?thesis by auto
qed

lemma opened_earned: "open_lifecycle sha pt w = (Inr l, w') \<Longrightarrow> chain_earned [] (l, w')"
  by (rule chain_earnedI [of False False None False]) (use opened_chain in simp_all)

section \<open>Properties\<close>

text \<open>
  Claim C31. The raw capability is handed out only by a process that itself prepared the authority, then consumed it, then issued the
  grant, each successfully and in this order, since it opened the store; and it hands a capability out once.
\<close>
theorem capability_needs_whole_chain:
  assumes "open_lifecycle sha pt w = (Inr l, w')"
    and "n2_run sha pt reqs (l, w') = (before @ (req, Inr (Capability (Some raw))) # rest, s')"
  shows "(\<exists>b. subseq [ok PrepareReq, ok ConsumeReq, ok (IssueReq b)] before) \<and> \<not> list_ex handed_out before"
  by (rule chain_answer [OF opened_earned [OF assms(1)] assms(2)])

theorem capability_needs_whole_chain_witness:
  "\<exists>hist s'. n2_run constant_sha sample_pt [PrepareReq, ConsumeReq, IssueReq sample_worker, TakeReq] (fresh, no_leaves) =
     (hist @ [(TakeReq, Inr (Capability (Some sample_raw)))], s') \<and> open_lifecycle constant_sha sample_pt no_leaves = (Inr fresh, no_leaves) \<and>
     (\<exists>b. subseq [ok PrepareReq, ok ConsumeReq, ok (IssueReq b)] hist)"
proof -
  obtain s' where run: "n2_run constant_sha sample_pt [PrepareReq, ConsumeReq, IssueReq sample_worker, TakeReq] (fresh, no_leaves) =
    ([ok PrepareReq, ok ConsumeReq, ok (IssueReq sample_worker)] @ (TakeReq, Inr (Capability (Some sample_raw))) # [], s')"
    using sample_chain by auto
  from capability_needs_whole_chain [OF sample_opened run] run sample_opened show ?thesis by blast
qed

text \<open>
  Claim C33. A store that is not empty when a process opens it never launches: from any state but absent, whatever is requested, no request
  to prepare is answered OK and no capability is handed out.
\<close>
theorem present_store_never_launches:
  assumes "open_lifecycle sha pt w = (Inr l, w')" and "lc_state l \<noteq> ABSENT"
  shows "ok PrepareReq \<notin> set (fst (n2_run sha pt reqs (l, w'))) \<and> \<not> list_ex handed_out (fst (n2_run sha pt reqs (l, w')))"
proof -
  obtain hist s' where run: "n2_run sha pt reqs (l, w') = (hist, s')" using prod.exhaust by blast
  have "stays_present [] (l, w')" using assms(2) by (simp add: stays_present_def)
  from present.run_inv [OF this run] have none: "ok PrepareReq \<notin> set hist" by (simp add: stays_present_def)
  have "\<not> handed_out x" if x: "x \<in> set hist" for x
  proof
    assume "handed_out x"
    then obtain req raw where "x = (req, Inr (Capability (Some raw)))" using handed_outD by blast
    with split_list [OF x] obtain bef rest where hist: "hist = bef @ (req, Inr (Capability (Some raw))) # rest" by blast
    from chain_answer [OF opened_earned [OF assms(1)] run [unfolded hist]] obtain b where chain: "subseq [ok PrepareReq, ok ConsumeReq, ok (IssueReq b)] bef" by blast
    have "ok PrepareReq \<in> set bef" using list_emb_set [OF chain, of "ok PrepareReq"] by auto
    with none hist show False by simp
  qed
  with none run show ?thesis by (simp add: list_ex_iff)
qed

theorem present_store_never_launches_witness:
  "\<not> list_ex handed_out (fst (n2_run constant_sha sample_pt [PrepareReq, TakeReq]
     ((new_lifecycle sample_raw)\<lparr>lc_state := PRESENT_INVALID\<rparr>, no_leaves\<lparr>lf_prepared := Some ''{}''\<rparr>)))"
proof -
  have "open_lifecycle constant_sha sample_pt (no_leaves\<lparr>lf_prepared := Some ''{}''\<rparr>) =
    (Inr ((new_lifecycle sample_raw)\<lparr>lc_state := PRESENT_INVALID\<rparr>), no_leaves\<lparr>lf_prepared := Some ''{}''\<rparr>)" by code_simp
  from present_store_never_launches [OF this] show ?thesis by (simp del: n2_run.simps)
qed

text \<open>
  Claim C32. A grant is authorised once: whatever the requests of a process, the store and the clocks do, at most one request for
  authorisation is answered OK.
\<close>
theorem grant_authorised_once: "length (filter authorised (fst (n2_run sha pt reqs s))) \<le> 1"
proof -
  obtain hist s' where "n2_run sha pt reqs s = (hist, s')" using prod.exhaust by blast
  with used.run_inv [of "[]" s sha pt reqs hist s'] show ?thesis by (simp add: used_up_def)
qed

end
