(* ===== verification/N2_Sessions.thy ===== *)
theory N2_Sessions
  imports N2_Guarantees
begin

text \<open>
  Sessions and the mutex: the calls of a session, logged, and what a failed revocation leaves behind.
\<close>

section \<open>Logged sessions\<close>

datatype 'h session_event = Begun 'h | LeasesClosed 'h | MutexReleased 'h | MutexClosed 'h

text \<open>The ports over a world that also keeps the events of the sessions, each logged when it is called.\<close>

definition with_log :: "('w, 'a) pyop \<Rightarrow> ('w \<times> 'h session_event list, 'a) pyop" where
  "with_log m s = (case m (fst s) of (r, w) \<Rightarrow> (r, w, snd s))"

definition logging :: "'h session_event \<Rightarrow> ('w, 'a) pyop \<Rightarrow> ('w \<times> 'h session_event list, 'a) pyop" where
  "logging e m s = with_log m (fst s, snd s @ [e])"

definition logged_begin :: "('w, 'h begin_result) pyop \<Rightarrow> ('w \<times> 'h session_event list, 'h begin_result) pyop" where
  "logged_begin m s = (case with_log m s of
      (Inr b, s') \<Rightarrow> (Inr b, fst s', snd s' @ (case br_session b of None \<Rightarrow> [] | Some h \<Rightarrow> [Begun h]))
    | (Inl e, s') \<Rightarrow> (Inl e, s'))"

definition logged :: "('w, 'h) n2_ports \<Rightarrow> ('w \<times> 'h session_event list, 'h) n2_ports" where
  "logged pt = \<lparr>pt_begin = (\<lambda>op. logged_begin (pt_begin pt op)), pt_write_permitted = (\<lambda>h. with_log (pt_write_permitted pt h)),
     pt_validate_before = (\<lambda>h. with_log (pt_validate_before pt h)), pt_validate_after = (\<lambda>h. with_log (pt_validate_after pt h)),
     pt_parent_durable = (\<lambda>h. with_log (pt_parent_durable pt h)), pt_attest_a0 = (\<lambda>h. with_log (pt_attest_a0 pt h)),
     pt_attest_pending = (\<lambda>h. with_log (pt_attest_pending pt h)), pt_close_leases = (\<lambda>h. logging (LeasesClosed h) (pt_close_leases pt h)),
     pt_release_mutex = (\<lambda>h. logging (MutexReleased h) (pt_release_mutex pt h)), pt_close_mutex = (\<lambda>h. logging (MutexClosed h) (pt_close_mutex pt h)),
     pt_inspect = (\<lambda>h leaf. with_log (pt_inspect pt h leaf)), pt_create = (\<lambda>h leaf t. with_log (pt_create pt h leaf t)),
     pt_cas = (\<lambda>h leaf prior t. with_log (pt_cas pt h leaf prior t)), pt_entropy = with_log (pt_entropy pt),
     pt_grant_entropy = with_log (pt_grant_entropy pt), pt_clock_ns = with_log (pt_clock_ns pt), pt_unix_clock_ns = with_log (pt_unix_clock_ns pt)\<rparr>"

text \<open>What was logged when the state is reached.\<close>

definition session_log :: "('w \<times> 'h session_event list) n2_state \<Rightarrow> 'h session_event list" where
  "session_log s = snd (snd s)"

definition whole_session :: "'h \<Rightarrow> 'h session_event list" where
  "whole_session h = [Begun h, LeasesClosed h, MutexReleased h, MutexClosed h]"

lemma logged_sel [simp]:
  "pt_begin (logged pt) op = logged_begin (pt_begin pt op)" "pt_write_permitted (logged pt) h = with_log (pt_write_permitted pt h)"
  "pt_validate_before (logged pt) h = with_log (pt_validate_before pt h)" "pt_validate_after (logged pt) h = with_log (pt_validate_after pt h)"
  "pt_parent_durable (logged pt) h = with_log (pt_parent_durable pt h)" "pt_attest_a0 (logged pt) h = with_log (pt_attest_a0 pt h)"
  "pt_attest_pending (logged pt) h = with_log (pt_attest_pending pt h)" "pt_close_leases (logged pt) h = logging (LeasesClosed h) (pt_close_leases pt h)"
  "pt_release_mutex (logged pt) h = logging (MutexReleased h) (pt_release_mutex pt h)"
  "pt_close_mutex (logged pt) h = logging (MutexClosed h) (pt_close_mutex pt h)" "pt_inspect (logged pt) h leaf = with_log (pt_inspect pt h leaf)"
  "pt_create (logged pt) h leaf t = with_log (pt_create pt h leaf t)" "pt_cas (logged pt) h leaf prior t = with_log (pt_cas pt h leaf prior t)"
  "pt_grant_entropy (logged pt) = with_log (pt_grant_entropy pt)" "pt_clock_ns (logged pt) = with_log (pt_clock_ns pt)"
  "pt_unix_clock_ns (logged pt) = with_log (pt_unix_clock_ns pt)"
  by (simp_all add: logged_def)

section \<open>What an operation adds_events\<close>

text \<open>A call that is no call of a session, and a change of the object, log nothing.\<close>

lemma quiet_port [keeps_intros, simp]: "keeps (\<lambda>s. session_log s = L) (port (with_log m))"
  by (auto simp: keeps_def port_def with_log_def session_log_def split: prod.split)

lemma quiet_put_lc [keeps_intros, simp]: "keeps (\<lambda>s. session_log s = L) (put_lc f)"
  by (auto simp: keeps_def put_lc_def py_mod_def session_log_def split: prod.split)

text \<open>\<open>adds_events evs m\<close>: unless the process dies, \<open>m\<close> adds exactly these events, whether it returns or raises.\<close>

definition adds_events :: "'h session_event list \<Rightarrow> (('w \<times> 'h session_event list) n2_state, 'a) pyop \<Rightarrow> bool" where
  "adds_events evs m \<longleftrightarrow> (\<forall>s r s'. m s = (r, s') \<longrightarrow> r \<noteq> Inl ProcessExit \<longrightarrow> session_log s' = session_log s @ evs)"

lemma logsD: "adds_events evs m \<Longrightarrow> m s = (r, s') \<Longrightarrow> r \<noteq> Inl ProcessExit \<Longrightarrow> session_log s' = session_log s @ evs"
  unfolding adds_events_def by blast

lemma logs_step: "adds_events [e] (cleanup_step (logging e m))"
  unfolding adds_events_def
proof (intro allI impI)
  fix s r s' assume "cleanup_step (logging e m) s = (r, s')" and "r \<noteq> Inl ProcessExit"
  then show "session_log s' = session_log s @ [e]"
    by (cases "m (fst (snd s))"; cases "fst (m (fst (snd s)))")
      (auto simp: cleanup_step_def py_except_def py_run port_def logging_def with_log_def session_log_def split: if_splits)
qed

lemma step_result: "cleanup_step m s = (Inl e, s') \<Longrightarrow> e = ProcessExit"
  by (auto simp: cleanup_step_def py_except_def py_run port_def split: prod.splits sum.splits if_splits)

lemma logs_collect: "adds_events [LeasesClosed h, MutexReleased h, MutexClosed h] (collect_cleanup (logged pt) h)"
  unfolding adds_events_def
proof (intro allI impI)
  fix s r s' assume run: "collect_cleanup (logged pt) h s = (r, s')" and alive: "r \<noteq> Inl ProcessExit"
  let ?a = "cleanup_step (pt_close_leases (logged pt) h)" and ?b = "cleanup_step (pt_release_mutex (logged pt) h)"
    and ?c = "cleanup_step (pt_close_mutex (logged pt) h)"
  obtain ra sa where a: "?a s = (ra, sa)" using prod.exhaust by blast
  with run alive obtain va where va: "ra = Inr va" by (cases ra) (auto simp: collect_cleanup_def py_bind_def dest: step_result)
  obtain rb sb where b: "?b sa = (rb, sb)" using prod.exhaust by blast
  with run alive a va obtain vb where vb: "rb = Inr vb"
    by (cases rb) (auto simp: collect_cleanup_def py_bind_def case_prod_beta dest: step_result)
  obtain rc sc where c: "?c sb = (rc, sc)" using prod.exhaust by blast
  with run alive a va b vb obtain vc where vc: "rc = Inr vc"
    by (cases rc) (auto simp: collect_cleanup_def py_bind_def case_prod_beta dest: step_result)
  have "s' = sc" using run a va b vb c vc by (simp add: collect_cleanup_def py_run case_prod_beta)
  then show "session_log s' = session_log s @ [LeasesClosed h, MutexReleased h, MutexClosed h]"
    using logsD [OF logs_step a [simplified]] logsD [OF logs_step b [simplified]] logsD [OF logs_step c [simplified]] va vb vc by simp
qed

lemma collect_result: "collect_cleanup pt h s = (Inl e, s') \<Longrightarrow> e = ProcessExit"
  by (auto simp: collect_cleanup_def py_bind_def py_ret_def split: prod.splits sum.splits dest: step_result)

abbreviation finished :: "'h \<Rightarrow> 'h session_event list" where
  "finished h \<equiv> [LeasesClosed h, MutexReleased h, MutexClosed h]"

lemma logs_finish: "adds_events (finished h) (finish (logged pt) h)"
  unfolding adds_events_def
proof (intro allI impI)
  fix s r s' assume run: "finish (logged pt) h s = (r, s')" and alive: "r \<noteq> Inl ProcessExit"
  obtain r0 s0 where c: "collect_cleanup (logged pt) h s = (r0, s0)" using prod.exhaust by blast
  with run alive obtain v where "r0 = Inr v" by (cases r0) (auto simp: finish_def py_bind_def dest: collect_result)
  moreover from this run c have "s' = s0" by (simp add: finish_def py_run case_prod_beta split: if_splits)
  ultimately show "session_log s' = session_log s @ finished h" using logsD [OF logs_collect c] by simp
qed

lemma logs_finish_raise: "adds_events (finished h) (finish_raise (logged pt) h e)"
  unfolding adds_events_def
proof (intro allI impI)
  fix s r s' assume run: "finish_raise (logged pt) h e s = (r, s')" and alive: "r \<noteq> Inl ProcessExit"
  obtain r0 s0 where c: "collect_cleanup (logged pt) h s = (r0, s0)" using prod.exhaust by blast
  with run alive obtain v where "r0 = Inr v" by (cases r0) (auto simp: finish_raise_def py_bind_def dest: collect_result)
  moreover from this run c have "s' = s0" by (simp add: finish_raise_def py_run case_prod_beta Let_def split: if_splits)
  ultimately show "session_log s' = session_log s @ finished h" using logsD [OF logs_collect c] by simp
qed

lemma finish_raise_raises: "finish_raise pt h e s = (r, s') \<Longrightarrow> \<exists>e1. r = Inl e1"
  by (auto simp: finish_raise_def py_bind_def py_raise_def Let_def split: prod.splits sum.splits)

lemma logs_session:
  fixes body :: "(('w \<times> 'h session_event list) n2_state, 'a) pyop"
  assumes quiet: "\<And>L. keeps (\<lambda>s. session_log s = L) body"
  shows "adds_events (finished h) (under_session (logged pt) h body)"
  unfolding adds_events_def
proof (intro allI impI)
  fix s r s' assume run: "under_session (logged pt) h body s = (r, s')" and alive: "r \<noteq> Inl ProcessExit"
  obtain r0 s0 where b: "body s = (r0, s0)" using prod.exhaust by blast
  have L: "session_log s0 = session_log s" by (rule keepsD_eq [OF quiet _ b]) simp
  show "session_log s' = session_log s @ finished h"
  proof (cases r0)
    case (Inl e)
    then have "e \<noteq> ProcessExit" using run alive b by (auto simp: under_session_def py_bind_def py_except_def)
    obtain r1 :: "py_error + 'a" and s1 where f: "finish_raise (logged pt) h e s0 = (r1, s1)" using prod.exhaust by blast
    from finish_raise_raises [OF this] obtain e1 where "r1 = Inl e1" by blast
    with Inl run b f \<open>e \<noteq> ProcessExit\<close> have "s' = s1" and "r1 = Inl ProcessExit \<longrightarrow> r = Inl ProcessExit"
      by (auto simp add: under_session_def py_bind_def py_except_def)
    with logsD [OF logs_finish_raise f] alive L show ?thesis by auto
  next
    case (Inr x)
    obtain r1 s1 where f: "finish (logged pt) h s0 = (r1, s1)" using prod.exhaust by blast
    with Inr run b have "s' = s1" and "r1 = Inl ProcessExit \<longrightarrow> r = Inl ProcessExit"
      by (auto simp: under_session_def py_bind_def py_except_def py_ret_def split: sum.splits)
    with logsD [OF logs_finish f] alive L show ?thesis by auto
  qed
qed

text \<open>\<open>sessions m\<close>: unless the process dies, \<open>m\<close> adds_events nothing or one whole session.\<close>

definition sessions :: "(('w \<times> 'h session_event list) n2_state, 'a) pyop \<Rightarrow> bool" where
  "sessions m \<longleftrightarrow> (\<forall>s r s'. m s = (r, s') \<longrightarrow> r \<noteq> Inl ProcessExit \<longrightarrow> session_log s' = session_log s \<or> (\<exists>h. session_log s' = session_log s @ whole_session h))"

lemma sessionsD: "sessions m \<Longrightarrow> m s = (r, s') \<Longrightarrow> r \<noteq> Inl ProcessExit \<Longrightarrow> session_log s' = session_log s \<or> (\<exists>h. session_log s' = session_log s @ whole_session h)"
  unfolding sessions_def by blast

lemma sessions_quiet: "(\<And>L. keeps (\<lambda>s. session_log s = L) m) \<Longrightarrow> sessions m"
  unfolding sessions_def using keepsD_eq [where P = "\<lambda>s. session_log s = L" for L] by metis

lemma sessions_bind:
  assumes quiet: "\<And>L. keeps (\<lambda>s. session_log s = L) m" and rest: "\<And>x. sessions (f x)"
  shows "sessions (py_bind m f)"
  unfolding sessions_def
proof (intro allI impI)
  fix s r s' assume run: "py_bind m f s = (r, s')" and alive: "r \<noteq> Inl ProcessExit"
  obtain r0 s0 where m: "m s = (r0, s0)" using prod.exhaust by blast
  have "session_log s0 = session_log s" by (rule keepsD_eq [OF quiet _ m]) simp
  with run alive m sessionsD [OF rest, of _ s0 r s'] show "session_log s' = session_log s \<or> (\<exists>h. session_log s' = session_log s @ whole_session h)"
    by (cases r0) (auto simp: py_bind_def)
qed

lemma sessions_then: "(\<And>L. keeps (\<lambda>s. session_log s = L) m) \<Longrightarrow> sessions k \<Longrightarrow> sessions (py_then m k)"
  unfolding py_then_def by (rule sessions_bind)

lemma sessions_cases:
  "sessions m \<Longrightarrow> sessions k \<Longrightarrow> sessions (if b then m else k)"
  "sessions m \<Longrightarrow> (\<And>x. sessions (f x)) \<Longrightarrow> sessions (case v of None \<Rightarrow> m | Some x \<Rightarrow> f x)"
  "(\<And>x y. sessions (g x y)) \<Longrightarrow> sessions (case p of (x, y) \<Rightarrow> g x y)"
  by (simp_all split: option.split prod.split)

lemma logs_refuse: "adds_events (finished h) (refuse_session (logged pt) h outcm)"
  unfolding adds_events_def
proof (intro allI impI)
  fix s r s' assume run: "refuse_session (logged pt) h outcm s = (r, s')" and alive: "r \<noteq> Inl ProcessExit"
  obtain r0 s0 where f: "finish (logged pt) h s = (r0, s0)" using prod.exhaust by blast
  with run have "s' = s0" and "r0 = Inl ProcessExit \<longrightarrow> r = Inl ProcessExit"
    by (auto simp: refuse_session_def py_bind_def py_ret_def split: sum.splits)
  with logsD [OF logs_finish f] alive show "session_log s' = session_log s @ finished h" by auto
qed

lemma refuse_result: "refuse_session pt h outcm s = (Inr (st, v), s') \<Longrightarrow> v = None"
  by (auto simp: refuse_session_def py_bind_def py_ret_def split: prod.splits sum.splits)

lemma begin_port:
  assumes "port (pt_begin (logged pt) op) s = (r, s')"
  shows "session_log s' = session_log s @ (case r of Inl e \<Rightarrow> [] | Inr b \<Rightarrow> (case br_session b of None \<Rightarrow> [] | Some h \<Rightarrow> [Begun h]))"
  using assms by (cases s) (auto simp: port_def logged_begin_def with_log_def session_log_def split: prod.splits sum.splits)

definition begun_log :: "'h session_event list \<Rightarrow> py_error + persistence_outcome \<times> 'h option \<Rightarrow> 'h session_event list \<Rightarrow> bool" where
  "begun_log L r L' \<longleftrightarrow> (case r of
      Inr (st, Some h) \<Rightarrow> L' = L @ [Begun h]
    | _ \<Rightarrow> L' = L \<or> (\<exists>h. L' = L @ whole_session h))"

text \<open>
  Begun: the session is there and only its beginning is logged, or there is none and what was begun was finished. Whether writing is permitted
  is read outside every handler, so it must not raise.
\<close>

lemma begin_log:
  assumes asks: "\<And>h w. \<exists>x w'. pt_write_permitted pt h w = (Inr x, w')" and run: "begin_mutation (logged pt) op s = (r, s')"
    and alive: "r \<noteq> Inl ProcessExit"
  shows "begun_log (session_log s) r (session_log s')"
proof -
  obtain r0 s0 where b: "port (pt_begin (logged pt) op) s = (r0, s0)" using prod.exhaust by blast
  note L0 = begin_port [OF b]
  show ?thesis
  proof (cases "\<exists>b h. r0 = Inr b \<and> br_session b = Some h")
    case False
    with run b L0 show ?thesis
      by (cases r0) (auto simp: begin_mutation_def py_bind_def py_ret_def begun_log_def)
  next
    case True
    then obtain bg h where r0: "r0 = Inr bg" and h: "br_session bg = Some h" by blast
    have L0: "session_log s0 = session_log s @ [Begun h]" using L0 r0 h by simp
    have refused: "begun_log (session_log s) r (session_log s')" if "refuse_session (logged pt) h outcm s1 = (r, s')" "session_log s1 = session_log s0" for outcm s1
      using logsD [OF logs_refuse that(1) alive] that refuse_result [of "logged pt" h outcm s1 _ _ s'] L0
      by (auto simp: begun_log_def whole_session_def split: sum.split option.split)
    show ?thesis
    proof (cases "br_owner bg = ACQUIRED")
      case False
      with run b r0 h have "refuse_session (logged pt) h (owner_outcome (br_owner bg)) s0 = (r, s')"
        by (simp add: begin_mutation_def py_bind_def)
      then show ?thesis by (rule refused) simp
    next
      case True
      obtain x s1 where w: "port (with_log (pt_write_permitted pt h)) s0 = (Inr x, s1)"
        using asks [of h "fst (snd s0)"] by (auto simp: port_def with_log_def)
      have L1: "session_log s1 = session_log s0" by (rule keepsD_eq [OF quiet_port _ w]) simp
      show ?thesis
      proof (cases x)
        case False
        with True run b r0 h w have "refuse_session (logged pt) h OWNER_FAILED s1 = (r, s')" by (simp add: begin_mutation_def py_bind_def)
        then show ?thesis by (rule refused) (rule L1)
      next
        case permitted: True
        obtain r2 s2 where v: "port (with_log (pt_validate_before pt h)) s1 = (r2, s2)" using prod.exhaust by blast
        have L2: "session_log s2 = session_log s0" by (rule keepsD_eq [OF quiet_port L1 v])
        show ?thesis
        proof (cases r2)
          case (Inl e)
          have e: "e \<noteq> ProcessExit" using Inl permitted True run b r0 h w v alive by (auto simp: begin_mutation_def py_bind_def py_except_def)
          obtain r3 :: "py_error + validation_status" and s3 where f: "finish_raise (logged pt) h e s2 = (r3, s3)" using prod.exhaust by blast
          from finish_raise_raises [OF this] obtain e3 where r3: "r3 = Inl e3" by blast
          with Inl e permitted True run b r0 h w v f have "r = Inl e3" and "s' = s3" by (simp_all add: begin_mutation_def py_bind_def py_except_def)
          with logsD [OF logs_finish_raise f] r3 alive L2 L0 show ?thesis by (auto simp: begun_log_def whole_session_def)
        next
          case (Inr val)
          show ?thesis
          proof (cases "val = VALIDATED")
            case False
            with Inr permitted True run b r0 h w v have "refuse_session (logged pt) h LEASE_DRIFT s2 = (r, s')"
              by (simp add: begin_mutation_def py_bind_def py_except_def)
            then show ?thesis by (rule refused) (rule L2)
          next
            case valid: True
            with Inr permitted True run b r0 h w v have "r = Inr (PO_OK, Some h)" and "s' = s2"
              by (simp_all add: begin_mutation_def py_bind_def py_except_def py_ret_def)
            with L2 L0 show ?thesis by (simp add: begun_log_def)
          qed
        qed
      qed
    qed
  qed
qed

lemma sessions_mutation:
  assumes asks: "\<And>h w. \<exists>x w'. pt_write_permitted pt h w = (Inr x, w')"
    and body: "\<And>h L. keeps (\<lambda>s. session_log s = L) (body h)" and rest: "\<And>x clean L. keeps (\<lambda>s. session_log s = L) (after x clean)"
  shows "sessions (mutation_under (logged pt) op body after)"
  unfolding sessions_def
proof (intro allI impI)
  fix s r s' assume run: "mutation_under (logged pt) op body after s = (r, s')" and alive: "r \<noteq> Inl ProcessExit"
  obtain r0 s0 where b: "begin_mutation (logged pt) op s = (r0, s0)" using prod.exhaust by blast
  have a0: "r0 \<noteq> Inl ProcessExit" using run b alive by (auto simp: mutation_under_def py_bind_def)
  note L0 = begin_log [OF asks b a0]
  show "session_log s' = session_log s \<or> (\<exists>h. session_log s' = session_log s @ whole_session h)"
  proof (cases "\<exists>st h. r0 = Inr (st, Some h)")
    case False
    with run b L0 show ?thesis by (cases r0) (auto simp: mutation_under_def py_bind_def py_ret_def begun_log_def split: option.splits)
  next
    case True
    then obtain st h where r0: "r0 = Inr (st, Some h)" by blast
    obtain r1 s1 where u: "under_session (logged pt) h (body h) s0 = (r1, s1)" using prod.exhaust by blast
    have a1: "r1 \<noteq> Inl ProcessExit" using run b r0 u alive by (auto simp: mutation_under_def py_bind_def)
    have L1: "session_log s1 = session_log s @ whole_session h"
      using logsD [OF logs_session [OF body] u a1] L0 r0 by (simp add: begun_log_def whole_session_def)
    have "session_log s' = session_log s1"
    proof (cases r1)
      case (Inl e)
      with run b r0 u show ?thesis by (simp add: mutation_under_def py_bind_def)
    next
      case (Inr p)
      obtain x clean where p: "p = (x, clean)" by (cases p)
      with Inr run b r0 u have "after x clean s1 = (r, s')" by (simp add: mutation_under_def py_bind_def)
      from keepsD_eq [OF rest _ this] show ?thesis by simp
    qed
    with L1 have "session_log s' = session_log s @ whole_session h" by simp
    then show ?thesis by blast
  qed
qed

section \<open>The bodies log nothing\<close>

lemma quiet_prepare: "keeps (\<lambda>s. session_log s = L) (prepare_body sha (logged pt) h)"
  unfolding body_defs logged_sel by (intro keeps_intros)

lemma quiet_consume: "keeps (\<lambda>s. session_log s = L) (consume_body sha (logged pt) bytes h)"
  unfolding body_defs logged_sel by (intro keeps_intros)

lemma quiet_issue: "keeps (\<lambda>s. session_log s = L) (issue_body sha (logged pt) b bytes h)"
  unfolding body_defs logged_sel by (intro keeps_intros)

lemma quiet_revoke: "keeps (\<lambda>s. session_log s = L) (revoke_body sha (logged pt) bytes bytes' g h)"
  unfolding body_defs logged_sel by (intro keeps_intros)

lemma quiet_terminalize: "keeps (\<lambda>s. session_log s = L) (terminalize_body sha (logged pt) tb bytes d gb h)"
  unfolding body_defs logged_sel by (intro keeps_intros)

lemma sessions_answer: "sessions m \<Longrightarrow> sessions (py_bind m (\<lambda>x. py_ret (f x)))"
  unfolding sessions_def bind_ret_iff by (fastforce split: sum.splits)

lemmas sessions_intros = sessions_cases sessions_bind sessions_then

lemma sessions_requests:
  assumes asks: "\<And>h w. \<exists>x w'. pt_write_permitted pt h w = (Inr x, w')"
  shows "sessions (prepare sha (logged pt))" "sessions (consume sha (logged pt))" "sessions (issue_grant sha (logged pt) b)"
    "sessions (revoke_grant sha (logged pt))" "sessions (terminalize sha (logged pt) tb)"
proof -
  note mutation = sessions_mutation [OF asks]
  show "sessions (prepare sha (logged pt))"
    unfolding prepare_def set_state_def
    by (intro sessions_intros mutation quiet_prepare keeps_intros sessions_quiet)
  show "sessions (consume sha (logged pt))"
    unfolding consume_def set_state_def logged_sel
    by (intro sessions_intros mutation quiet_consume keeps_intros sessions_quiet)
  show "sessions (issue_grant sha (logged pt) b)"
    unfolding issue_grant_def set_state_def
    by (intro sessions_intros mutation quiet_issue keeps_intros sessions_quiet)
  show "sessions (revoke_grant sha (logged pt))"
    unfolding revoke_grant_def set_state_def
    by (intro sessions_intros mutation quiet_revoke keeps_intros sessions_quiet)
  show "sessions (terminalize sha (logged pt) tb)"
    unfolding terminalize_def set_state_def Let_def
    by (intro sessions_intros mutation quiet_terminalize keeps_intros sessions_quiet)
qed

lemma handle_sessions:
  fixes pt :: "('w, 'h) n2_ports"
  assumes asks: "\<And>h w. \<exists>x w'. pt_write_permitted pt h w = (Inr x, w')"
  shows "sessions (n2_handle sha (logged pt) req)"
proof -
  have "sessions (take_grant_capability :: (('w \<times> 'h session_event list) n2_state, string option) pyop)"
    unfolding take_grant_capability_def by (intro sessions_quiet keeps_intros)
  moreover have "sessions (authorize_grant sha (logged pt) raw)" for raw
    unfolding authorize_grant_def logged_sel by (intro sessions_quiet keeps_intros)
  ultimately show ?thesis using sessions_requests [OF asks]
    by (cases req) (simp_all add: n2_handle_def sessions_answer)
qed

section \<open>A revocation that could not begin\<close>

lemma revoke_not_begun:
  assumes "lc_state (fst s) = GRANT_ISSUED" "lc_grant (fst s) = Some g" "lc_grant_record (fst s) = Some gb" "lc_consumed (fst s) = Some cb"
    and busy: "\<And>s. begin_mutation pt REVOKE_GRANT s = (Inr (OWNER_UNAVAILABLE, None), s)"
  shows "revoke_grant sha pt s = (Inr OWNER_UNAVAILABLE, (fst s)\<lparr>lc_grant_raw := None, lc_grant_handed_off := True\<rparr>, snd s)"
  using assms(1-4) unfolding revoke_grant_def get_lc_bind by (simp add: put_lc_then mutation_under_def py_bind_def busy py_ret_def)

lemma authorize_eq:
  assumes "pt_clock_ns pt w = (Inr now, w)" and "lc_grant l = Some g"
  shows "authorize_grant sha pt raw (l, w) =
    (if lc_state l \<noteq> GRANT_ISSUED \<or> \<not> lc_grant_handed_off l \<or> gi_used g \<or> now < gi_issued_monotonic_ns g \<or> gi_expires_monotonic_ns g < now \<or>
        length raw \<noteq> 32 \<or> sha raw \<noteq> gi_digest g then (Inr GRANT_NOT_AUTHORIZED, l, w)
     else (Inr PO_OK, l\<lparr>lc_grant := Some (g\<lparr>gi_used := True\<rparr>)\<rparr>, w))"
  using assms by (simp add: authorize_grant_def port_def py_bind_def get_lc_def py_get_def py_ret_def put_lc_def py_mod_def py_then_def)

section \<open>Properties\<close>

text \<open>
  Claim C34. Every session that a request begins is finished: whatever the protocols answer or raise, the request adds_events nothing or one session
  that is begun, then has its leases closed, its mutex released and its mutex closed, each once and in this order. What is needed is that asking
  a session whether it may write does not raise; the death of the process ends the claim.
\<close>
theorem sessions_always_finished:
  assumes "\<And>h w. \<exists>x w'. pt_write_permitted pt h w = (Inr x, w')" and "n2_handle sha (logged pt) req (l, w, L) = (r, l', w', L')" and "r \<noteq> Inl ProcessExit"
  shows "L' = L \<or> (\<exists>h. L' = L @ whole_session h)"
  using sessionsD [OF handle_sessions [OF assms(1)] assms(2,3)] by (simp add: session_log_def)

theorem sessions_always_finished_witness:
  "\<exists>r l' w' L'. n2_handle constant_sha (logged (sample_ports (\<lambda>_. UNAVAILABLE))) PrepareReq (fresh, no_leaves, []) = (r, l', w', L') \<and>
     L' \<noteq> [] \<and> (\<exists>h. L' = whole_session h)"
proof -
  let ?pt = "sample_ports (\<lambda>_. UNAVAILABLE)"
  have asks: "\<exists>x w'. pt_write_permitted ?pt h w = (Inr x, w')" for h w by (auto simp: sample_ports_def py_ret_def)
  have run: "n2_handle constant_sha (logged ?pt) PrepareReq (fresh, no_leaves, []) =
    (Inr (Outcome OWNER_UNAVAILABLE), fresh, no_leaves, [Begun 0, LeasesClosed 0, MutexReleased 0, MutexClosed 0])"
    by code_simp
  from sessions_always_finished [OF asks run] run show ?thesis by auto
qed

text \<open>
  Claim C35. A revocation that could not begin makes a grant usable again: a process that opens a store with an issued grant refuses to authorise it, as it
  never handed the capability out; but when its request to revoke it finds the mutex taken, the next authorisation with the old
  capability is answered OK, although the process before may have authorised it already.
\<close>
theorem failed_revoke_rearms_grant:
  assumes opened: "open_lifecycle sha pt w = (Inr l, w')"
    and l: "lc_state l = GRANT_ISSUED" "lc_grant l = Some g" "\<not> gi_used g" "lc_grant_record l = Some gb" "lc_consumed l = Some cb"
    and busy: "\<And>s. begin_mutation pt REVOKE_GRANT s = (Inr (OWNER_UNAVAILABLE, None), s)"
    and clock: "\<And>w. pt_clock_ns pt w = (Inr now, w)" and t: "gi_issued_monotonic_ns g \<le> now" "now \<le> gi_expires_monotonic_ns g"
    and raw: "length raw = 32" "sha raw = gi_digest g"
  shows "map snd (fst (n2_run sha pt [AuthorizeReq raw, RevokeReq, AuthorizeReq raw] (l, w'))) =
    [Inr (Outcome GRANT_NOT_AUTHORIZED), Inr (Outcome OWNER_UNAVAILABLE), Inr (Outcome PO_OK)]"
proof -
  have "\<not> lc_grant_handed_off l" using opened_chain [OF opened] by (simp add: chain_within_def)
  then have "authorize_grant sha pt raw (l, w') = (Inr GRANT_NOT_AUTHORIZED, l, w')" by (simp add: authorize_eq [OF clock l(2)])
  moreover have "revoke_grant sha pt (l, w') = (Inr OWNER_UNAVAILABLE, l\<lparr>lc_grant_raw := None, lc_grant_handed_off := True\<rparr>, w')"
    using revoke_not_begun [where s = "(l, w')", OF _ _ _ _ busy] l by simp
  moreover have "fst (authorize_grant sha pt raw (l\<lparr>lc_grant_raw := None, lc_grant_handed_off := True\<rparr>, w')) = Inr PO_OK"
    using l t raw by (simp add: authorize_eq [OF clock])
  ultimately show ?thesis
    by (cases "authorize_grant sha pt raw (l\<lparr>lc_grant_raw := None, lc_grant_handed_off := True\<rparr>, w')")
      (simp add: n2_handle_def py_bind_def py_ret_def)
qed

theorem failed_revoke_rearms_grant_witness:
  "\<exists>pt :: (leaves, nat) n2_ports. open_lifecycle constant_sha pt store_granted = (Inr reopened, store_granted) \<and>
    map snd (fst (n2_run constant_sha pt [AuthorizeReq sample_raw, RevokeReq, AuthorizeReq sample_raw] (reopened, store_granted))) =
    [Inr (Outcome GRANT_NOT_AUTHORIZED), Inr (Outcome OWNER_UNAVAILABLE), Inr (Outcome PO_OK)]"
proof -
  let ?owner = "\<lambda>op. if op = INSPECT then ACQUIRED else UNAVAILABLE"
  let ?pt = "sample_ports ?owner"
  have opened: "open_lifecycle constant_sha ?pt store_granted = (Inr reopened, store_granted)" by (rule sample_reopened) simp
  have busy: "begin_mutation ?pt REVOKE_GRANT s = (Inr (OWNER_UNAVAILABLE, None), s)" for s
    by (cases s) (simp add: begin_mutation_def refuse_session_def finish_def collect_cleanup_def cleanup_step_def cleanup_is_clean_def owner_outcome_def
      py_except_def py_run port_def sample_ports_def)
  have clock: "pt_clock_ns ?pt w = (Inr 0, w)" for w by (simp add: sample_ports_def py_ret_def)
  from failed_revoke_rearms_grant [OF opened _ _ _ _ _ busy clock, of sample_grant text_grant text_consumed sample_raw] opened show ?thesis
    by (intro exI [of _ ?pt]) (simp add: reopened_def sample_grant_def WORKER_GRANT_TTL_NS_def sample_raw_def constant_sha_def del: n2_run.simps)
qed

end
