(* ===== verification/Spec2Isabelle.thy ===== *)
theory Spec2Isabelle
  imports Stream_Overflow Temporal_Rules M1_Guarantees D1_Guarantees Recon_Outcomes P1_Settled N2_Sessions
begin

text \<open>
  A verification library for the exam observer (\<open>src/src/pdu_exam_observer\<close>), a local program that runs exam sessions for a reviewer
  and a candidate, keeps research records of consenting participants, measures a device before a collection, and deletes what a
  participant withdraws.

  \<^bold>\<open>The parts and how they interact.\<close> A session is a small state machine (\<open>domain/state.py\<close>) whose enumerations are in
  \<open>contracts.py\<close>. The demo backend \<open>M0Backend\<close> (\<open>services/core.py\<close>) keeps session records and event logs in memory
  (\<open>repositories/in_memory.py\<close>), authenticates a reviewer by a PIN, pairs a candidate, records answers, and fans events out to
  server-sent streams. \<open>M1Backend\<close> (\<open>m1.py\<close>) extends it with SQLite tables of participants, consents, research sessions,
  artifacts with their dependencies, and idempotency keys. \<open>m1_r1.py\<close>, \<open>reconciliation.py\<close> and \<open>reconciliation_execution.py\<close> extend
  that with deletion targets: a withdrawal binds the targets of a participant, a reviewer confirms a plan by a step-up challenge, and a
  coordinator deletes files through Windows handles. \<open>m2_persistence.py\<close> seals artifacts as files next to the same tables.
  \<open>m2_d1_contract.py\<close> decides whether a measured run is fit; \<open>showcase/temporal_rules.py\<close> turns per-window observations into events.
  \<open>m2_d1_n2_canonical.py\<close> and \<open>m2_d1_n2_evidence.py\<close> keep the one-time authority of a native capture and its evidence.

  \<^bold>\<open>Conventions\<close> (\<open>Py_Prelude\<close>). A method that may raise and mutates its object is a \<open>pyop\<close>: from the state to an error or a value,
  and the state after. \<open>py_bind\<close>, \<open>py_guard\<close>, \<open>py_finally\<close>, \<open>py_for\<close> are the sequencing, \<open>if ...: raise\<close>, \<open>finally\<close> and loops of
  the source; every exception is a constructor of \<open>py_error\<close>, and \<open>ProcessExit\<close> is the death of the process, which no handler catches:
  \<open>except Exception\<close> (\<open>except_Exception\<close>, \<open>py_except_exception\<close>) handles what \<open>is_exception\<close>, a group with such a death in it passes through.
  Python integers are \<open>int\<close>; a float is a \<open>pyfloat\<close>: a rational, an infinity or NaN. Rounding is a parameter \<open>rnd\<close> wherever the
  measurement contract computes with floats, and \<open>pf_round\<close>, rounding to the nearest double, in the lock-out of the PIN and in the conversion of a
  frozen protocol; the remaining sums of clock readings and durations are exact. Dictionaries are association lists in insertion order. Clocks and random tokens are read from an environment by the
  number of the read, so a property that quantifies over the environment covers all clocks. \<open>keeps P m\<close> with the collection
  \<open>keeps_intros\<close> carries an invariant through an operation; \<open>py_run\<close> evaluates one. The locale \<open>request_system\<close> gives the invariant
  of a run from that of one request.

  \<^bold>\<open>Theories and sources.\<close>

  \<^item> \<open>Session_State\<close>: \<open>transition\<close> and its table (\<open>domain/state.py\<close>), the enumerations. \<open>Session_Repository\<close>: \<open>SessionRecord\<close>,
    \<open>InMemorySessionRepository\<close>, and the interface of a gap-free event log as a locale.
  \<^item> \<open>Reviewer_Auth\<close>: \<open>ReviewerAuthenticator.authenticate\<close> and the life of the reviewer bearer. \<open>M0_Backend\<close>: every request of
    \<open>M0Backend\<close>; \<open>M0_Properties\<close>: its invariant under any run, the idempotency of answers, the finality of a submission.
    \<open>Event_Stream\<close>: the generators \<open>stream_events\<close> and \<open>reviewer_stream_events\<close> as explicit resumptions interleaved with requests:
    no gaps; \<open>Stream_Overflow\<close>: what the overflow of a queue loses for good.
  \<^item> \<open>M1_Store\<close>, \<open>M1_Backend\<close>: the tables of \<open>m1.py\<close> as lists of rows with their constraints, transactions, and every request.
    \<open>M1_Changes\<close> is the abstract specification: a step relation on the tables; \<open>M1_Properties\<close> and \<open>M1_Log\<close> prove that each request makes a
    sequence of its steps, which is how the invariants are proved; \<open>M1_Guarantees\<close> draws the properties: a withdrawal is final and closes the lineage, which is computed as many
    rounds as there are dependency rows (each round that adds nothing is the last, and each other round uses a new row, so this
    is enough, as \<open>withdrawal_sweep_exact\<close> states); requests are atomic and idempotent; recovery settles every write.
  \<^item> \<open>R1_Store\<close>, \<open>R1_Targets\<close>, \<open>Recon_Plan\<close>, \<open>Recon_Confirm\<close>: the version 3 tables and triggers, target registration, path
    normalisation, plans, challenges and their consumption. \<open>Recon_Deletion\<close>, \<open>Recon_Execution\<close>: \<open>WindowsHandleDeletionPrimitive\<close> over the answers of
    Windows (\<open>win_os\<close>), the coordinator and the finalizer. \<open>Recon_Properties\<close>, \<open>Recon_Guarantees\<close>, \<open>Recon_Outcomes\<close>: a challenge is
    used once and only for its plan; a file is deleted only after it was read twice with the registered content.
  \<^item> \<open>P1_Files\<close>, \<open>P1_Persist\<close>, \<open>P1_Recover\<close>: \<open>M2PersistenceStore.persist\<close>, \<open>manifest\<close>, \<open>read_verified_artifact\<close>, \<open>intent_status\<close> and
    \<open>recover\<close> over files whose names are compared without case, with a device \<open>p1_device\<close> that may fail or kill the process at
    every call. \<open>P1_Properties\<close>, \<open>P1_Guarantees\<close>, \<open>P1_Settled\<close>: sealed files survive the histories of persist, read and
    restart steps (\<open>store_history\<close> names what these exclude: closing a descriptor raises nothing, no name that differs only in case from that of an
    unfinished intent, no deletion from outside), recovery settles the store, a read returns what was sealed, and what names that differ only in
    case lose.
  \<^item> \<open>D1_Data\<close>, \<open>D1_Contract\<close>, \<open>D1_Evaluator\<close>: the request, its validation, accounting, metrics, thresholds and receipts of
    \<open>m2_d1_contract.py\<close>; \<open>D1_Properties\<close>, \<open>D1_Guarantees\<close>: a pass meets every threshold, a privacy stop reveals nothing, the
    evaluation always answers, short of the death of the process.
  \<^item> \<open>Temporal_Rules\<close>: the rule policy, its documents, and the engine (\<open>advance\<close>, \<open>close\<close>) with the shape of its event stream.
  \<^item> \<open>N2_Json\<close>, \<open>N2_Evidence\<close>, \<open>N2_Records\<close>: canonical JSON with its reader, receipts, ledgers and terminal evidence, the six authority
    records with \<open>_validated_record\<close>. \<open>N2_Lifecycle\<close>, \<open>N2_Requests\<close>: \<open>CanonicalInjectableAuthorityLifecycle\<close> over the protocols its
    constructor takes (\<open>n2_ports\<close>), which may answer or raise anything. \<open>N2_Written\<close>: what is written is read back. \<open>N2_Sample\<close>,
    \<open>N2_Example\<close>: a store in memory and an executed process, for the witnesses. \<open>N2_Guarantees\<close>, \<open>N2_Sessions\<close>: the chain before a
    capability, single use, what a non-empty store forbids, and that sessions are finished. \<open>N2_Evidence\<close> also shows what evidence of a passed
    preflight guarantees, and that the number of frames of the whole run is not part of it. The locale \<open>answered_system\<close> carries a
    predicate of the answers given so far and the object through a run; it is interpreted for the three invariants.

  \<^bold>\<open>Parameters.\<close> Rounding of a division (\<open>rnd\<close>), digests (\<open>sha\<close>, \<open>p_digest\<close>, the fields of \<open>r1_lib\<close>), \<open>str\<close> and date parsing of the
  library, the lease guards of the measurement contract, Windows (\<open>win_os\<close>), the operating system below the artifact files (\<open>p1_device\<close>)
  and the protocols of the authority (\<open>n2_ports\<close>). What a property needs of them is a named hypothesis: a digest has 64 hexadecimal
  characters, fresh identifiers are fresh, a clock is not NaN, asking a session whether it may write does not raise.

  \<^bold>\<open>Bounds and fuel.\<close> \<open>read_value\<close> recurses on a bound that is the length of the text: every level consumes a character
  (\<open>need_length\<close>, \<open>loads_dump\<close>). The JSON values of the authority have integers and characters below 256 only: a float in a record is outside the
  model; every number the checks read is required to be an integer there. The other recursions are structural or by a measure.
  \<open>isinstance\<close> and \<open>type(x) is\<close> checks of parameters vanish where the model's types already say it.

  \<^bold>\<open>Not modelled.\<close> The creation and migration of databases and the checks of their schema (SQLite and the file system at start-up); the HTTP
  API and the pydantic request models (the schema validation of a library); \<open>research_runtime\<close>, \<open>workspace_service.py\<close> and the launcher, which wire
  processes, cameras and the modelled services together; \<open>m2_d1_native.py\<close> and the \<open>m2_d1_n2\<close> modules that bind Windows, CNG and the
  worker process by ctypes, whose behaviour is that of the operating system; the synthetic pipeline, which writes fixtures and
  packages; the model runtime and the training pipeline, which are numerical code over third-party libraries; the build and
  verification scripts. Each is listed with its files in the manifest.
\<close>

end
